(* ===== verification/Prelude.thy ===== *)
theory Prelude
  imports Main "HOL-Library.AList" "HOL-Library.Word" "HOL-Library.Char_ord"
    "HOL-Library.List_Lexorder" "HOL-Library.Product_Lexorder" "HOL-Library.Multiset"
begin

text \<open>
  Shared vocabulary of the development.

  \<^item> Rust's \<^verbatim>\<open>Result\<close> is a sum, \<open>Inl\<close> for the error, and the \<^verbatim>\<open>?\<close> operator on a
    state-passing computation is \<open>ebind\<close>.
  \<^item> A Rust \<^verbatim>\<open>String\<close> is the list of its UTF-8 bytes (\<open>string\<close>, one \<open>char\<close> per byte), so
    \<open>length\<close> is Rust's \<^verbatim>\<open>len()\<close> and the lexicographic order on \<open>string\<close> is the byte order
    Rust derives.
  \<^item> \<^verbatim>\<open>HashMap\<close> is an association list behind the interface locale \<open>hash_map\<close>; only
    \<open>hm_get\<close>, \<open>hm_insert\<close>, \<open>hm_remove\<close>, \<open>hm_retain\<close> and \<open>hm_values\<close> are used.
  \<^item> \<open>persisted_codec\<close> is the interface of every \<^verbatim>\<open>as_persisted\<close> / \<^verbatim>\<open>from_persisted\<close>
    pair, \<open>prefix_code\<close> the interface of every function that feeds a digest.
  \<^item> \<open>transition_system\<close> is a step function with an invariant; the services are instances.
\<close>

named_theorems persisted_simps \<open>equations of persisted names\<close>
named_theorems port_defs \<open>unfolding rules of the service helpers\<close>

section \<open>Results and the question-mark operator\<close>

type_synonym ('e, 'a) result = "'e + 'a"

definition map_err :: "('e \<Rightarrow> 'f) \<Rightarrow> 'e + 'a \<Rightarrow> 'f + 'a" where
  "map_err f r = (case r of Inl e \<Rightarrow> Inl (f e) | Inr a \<Rightarrow> Inr a)"

definition ok_or :: "'e \<Rightarrow> 'a option \<Rightarrow> 'e + 'a" where
  "ok_or e x = (case x of None \<Rightarrow> Inl e | Some a \<Rightarrow> Inr a)"

definition rbind :: "'e + 'a \<Rightarrow> ('a \<Rightarrow> 'e + 'b) \<Rightarrow> 'e + 'b" where
  "rbind r f = (case r of Inl e \<Rightarrow> Inl e | Inr a \<Rightarrow> f a)"

definition is_ok :: "'e + 'a \<Rightarrow> bool" where
  "is_ok r = (case r of Inl _ \<Rightarrow> False | Inr _ \<Rightarrow> True)"

lemma map_err_simps [simp]: "map_err f (Inl e) = Inl (f e)" "map_err f (Inr a) = Inr a"
  by (simp_all add: map_err_def)

lemma map_err_Inr_iff [simp]: "map_err f r = Inr a \<longleftrightarrow> r = Inr a"
  by (cases r) auto

lemma map_err_Inl_iff: "map_err f r = Inl e \<longleftrightarrow> (\<exists>e'. r = Inl e' \<and> e = f e')"
  by (cases r) auto

lemma ok_or_simps [simp]: "ok_or e None = Inl e" "ok_or e (Some a) = Inr a"
  by (simp_all add: ok_or_def)

lemma ok_or_Inr_iff [simp]: "ok_or e x = Inr a \<longleftrightarrow> x = Some a"
  by (cases x) auto

lemma rbind_simps [simp]: "rbind (Inl e) f = Inl e" "rbind (Inr a) f = f a"
  by (simp_all add: rbind_def)

lemma rbind_Inr_iff: "rbind r f = Inr b \<longleftrightarrow> (\<exists>a. r = Inr a \<and> f a = Inr b)"
  by (cases r) auto

lemma is_ok_simps [simp]: "is_ok (Inl e) = False" "is_ok (Inr a) = True"
  by (simp_all add: is_ok_def)

lemma is_ok_iff: "is_ok r \<longleftrightarrow> (\<exists>a. r = Inr a)"
  by (cases r) auto

type_synonym ('s, 'e, 'a) operation = "'s \<Rightarrow> ('e + 'a) \<times> 's"

definition ebind ::
  "('s \<Rightarrow> ('e + 'a) \<times> 's) \<Rightarrow> ('a \<Rightarrow> 's \<Rightarrow> ('e + 'b) \<times> 's) \<Rightarrow> 's \<Rightarrow> ('e + 'b) \<times> 's" where
  "ebind m f s = (case m s of (Inl e, s') \<Rightarrow> (Inl e, s') | (Inr a, s') \<Rightarrow> f a s')"

lemma ebind_ok:
  "ebind m f s = (Inr b, t) \<longleftrightarrow> (\<exists>a s'. m s = (Inr a, s') \<and> f a s' = (Inr b, t))"
  by (auto simp: ebind_def split: prod.splits sum.splits)

lemma ebind_err:
  "ebind m f s = (Inl e, t) \<longleftrightarrow>
     m s = (Inl e, t) \<or> (\<exists>a s'. m s = (Inr a, s') \<and> f a s' = (Inl e, t))"
  by (auto simp: ebind_def split: prod.splits sum.splits)

section \<open>Big-endian bytes\<close>

fun be_bytes :: "nat \<Rightarrow> nat \<Rightarrow> string" where
  "be_bytes 0 n = []"
| "be_bytes (Suc k) n = be_bytes k (n div 256) @ [char_of n]"

lemma length_be_bytes [simp]: "length (be_bytes k n) = k"
  by (induction k arbitrary: n) auto

lemma be_bytes_mod: "be_bytes k m = be_bytes k n \<Longrightarrow> m mod 256 ^ k = n mod 256 ^ k"
proof (induction k arbitrary: m n)
  case (Suc k)
  from Suc.prems have last: "(char_of m :: char) = char_of n"
    and rest: "be_bytes k (m div 256) = be_bytes k (n div 256)"
    by auto
  from last have "of_char (char_of m :: char) = (of_char (char_of n :: char) :: nat)" by simp
  then have "m mod 256 = n mod 256" by simp
  moreover from rest have "m div 256 mod 256 ^ k = n div 256 mod 256 ^ k" by (rule Suc.IH)
  ultimately show ?case by (simp add: mod_mult2_eq)
qed simp

lemma be_bytes_inject: "m < 256 ^ k \<Longrightarrow> n < 256 ^ k \<Longrightarrow> be_bytes k m = be_bytes k n \<longleftrightarrow> m = n"
  using be_bytes_mod [of k m n] by auto

definition u64_be_bytes :: "64 word \<Rightarrow> string" where
  "u64_be_bytes w = be_bytes 8 (unat w)"

lemma length_u64_be_bytes [simp]: "length (u64_be_bytes w) = 8"
  by (simp add: u64_be_bytes_def)

lemma u64_be_bytes_inject [simp]: "u64_be_bytes v = u64_be_bytes w \<longleftrightarrow> v = w"
proof -
  have bound: "unat x < 256 ^ 8" for x :: "64 word"
    using unsigned_less [of x, where 'a = nat] by simp
  show ?thesis
    by (simp only: u64_be_bytes_def be_bytes_inject [OF bound bound] word_unat_eq_iff)
qed

lemma of_nat_word64_inject:
  assumes "m < 2 ^ 64" and "n < 2 ^ 64"
  shows "(of_nat m :: 64 word) = of_nat n \<longleftrightarrow> m = n"
proof -
  have "unat (of_nat k :: 64 word) = k" if "k < 2 ^ 64" for k
    using that by (simp only: unsigned_of_nat) (simp add: take_bit_nat_eq_self)
  with assms show ?thesis by metis
qed

definition len_be_bytes :: "'a list \<Rightarrow> string" where
  "len_be_bytes xs = u64_be_bytes (of_nat (length xs))"

lemma length_len_be_bytes [simp]: "length (len_be_bytes xs) = 8"
  by (simp add: len_be_bytes_def)

lemma len_be_bytes_inject:
  "length xs < 2 ^ 64 \<Longrightarrow> length ys < 2 ^ 64 \<Longrightarrow>
     len_be_bytes xs = len_be_bytes ys \<longleftrightarrow> length xs = length ys"
  by (simp add: len_be_bytes_def of_nat_word64_inject del: of_nat_less_numeral_iff)

section \<open>Hash maps\<close>

text \<open>
  The interface the services use: what a lookup returns after an insertion, a removal and
  a filter, and what \<open>values\<close> ranges over. Iteration order is not part of it, as it is not
  part of \<^verbatim>\<open>std::collections::HashMap\<close>.
\<close>

locale hash_map =
  fixes empty :: "'m"
    and get :: "'m \<Rightarrow> 'k \<Rightarrow> 'v option"
    and insert_entry :: "'k \<Rightarrow> 'v \<Rightarrow> 'm \<Rightarrow> 'm"
    and remove_entry :: "'k \<Rightarrow> 'm \<Rightarrow> 'm"
    and retain_values :: "('v \<Rightarrow> bool) \<Rightarrow> 'm \<Rightarrow> 'm"
    and vals :: "'m \<Rightarrow> 'v list"
    and wf :: "'m \<Rightarrow> bool"
  assumes get_empty: "get empty k = None"
    and get_insert: "get (insert_entry k v m) k' = (if k' = k then Some v else get m k')"
    and get_remove: "wf m \<Longrightarrow> get (remove_entry k m) k' = (if k' = k then None else get m k')"
    and get_retain: "wf m \<Longrightarrow>
      get (retain_values p m) k = (case get m k of None \<Rightarrow> None | Some v \<Rightarrow> if p v then Some v else None)"
    and set_vals: "wf m \<Longrightarrow> set (vals m) = {v. \<exists>k. get m k = Some v}"
    and wf_empty: "wf empty"
    and wf_insert: "wf m \<Longrightarrow> wf (insert_entry k v m)"
    and wf_remove: "wf m \<Longrightarrow> wf (remove_entry k m)"
    and wf_retain: "wf m \<Longrightarrow> wf (retain_values p m)"
begin

lemma any_value_iff: "wf m \<Longrightarrow> list_ex p (vals m) \<longleftrightarrow> (\<exists>k v. get m k = Some v \<and> p v)"
  by (auto simp: list_ex_iff set_vals)

lemma any_value_insert:
  "wf m \<Longrightarrow> p v \<Longrightarrow> list_ex p (vals (insert_entry k v m))"
  by (auto simp: any_value_iff wf_insert get_insert)

lemma get_remove_same: "wf m \<Longrightarrow> get (remove_entry k m) k = None"
  by (simp add: get_remove)

lemma retain_absent:
  "wf m \<Longrightarrow> get (retain_values p m) k = Some v \<Longrightarrow> p v \<and> get m k = Some v"
  by (auto simp: get_retain split: option.splits if_splits)

lemma insert_preserves:
  assumes "\<And>k v. get m k = Some v \<Longrightarrow> P k v" and "P k0 v0"
  shows "get (insert_entry k0 v0 m) k = Some v \<Longrightarrow> P k v"
  using assms by (auto simp: get_insert split: if_splits)

end

definition hm_get :: "('k \<times> 'v) list \<Rightarrow> 'k \<Rightarrow> 'v option" where
  "hm_get = map_of"

definition hm_insert :: "'k \<Rightarrow> 'v \<Rightarrow> ('k \<times> 'v) list \<Rightarrow> ('k \<times> 'v) list" where
  "hm_insert = AList.update"

definition hm_remove :: "'k \<Rightarrow> ('k \<times> 'v) list \<Rightarrow> ('k \<times> 'v) list" where
  "hm_remove = AList.delete"

definition hm_retain :: "('v \<Rightarrow> bool) \<Rightarrow> ('k \<times> 'v) list \<Rightarrow> ('k \<times> 'v) list" where
  "hm_retain p m = filter (\<lambda>(_, v). p v) m"

definition hm_values :: "('k \<times> 'v) list \<Rightarrow> 'v list" where
  "hm_values m = map snd m"

definition hm_wf :: "('k \<times> 'v) list \<Rightarrow> bool" where
  "hm_wf m \<longleftrightarrow> distinct (map fst m)"

lemma map_of_filter_value:
  "distinct (map fst m) \<Longrightarrow> map_of (filter (\<lambda>(_, v). p v) m) k =
     (case map_of m k of None \<Rightarrow> None | Some v \<Rightarrow> if p v then Some v else None)"
proof (induction m)
  case (Cons x m)
  obtain a b where x: "x = (a, b)" by (cases x)
  show ?case
  proof (cases "k = a")
    case True
    with Cons.prems x have "map_of m k = None" by (auto simp: map_of_eq_None_iff)
    moreover from Cons x have "map_of (filter (\<lambda>(_, v). p v) m) k =
      (case map_of m k of None \<Rightarrow> None | Some v \<Rightarrow> if p v then Some v else None)" by simp
    ultimately show ?thesis using True x by simp
  next
    case False
    with Cons x show ?thesis by simp
  qed
qed simp

interpretation hm: hash_map "[]" hm_get hm_insert hm_remove hm_retain hm_values hm_wf
proof
  fix m :: "('k \<times> 'v) list" and k k' :: 'k and v :: 'v and p :: "'v \<Rightarrow> bool"
  show "hm_get [] k = None" by (simp add: hm_get_def)
  show "hm_get (hm_insert k v m) k' = (if k' = k then Some v else hm_get m k')"
    by (simp add: hm_get_def hm_insert_def update_conv')
  show "hm_get (hm_remove k m) k' = (if k' = k then None else hm_get m k')" if "hm_wf m"
    by (simp add: hm_get_def hm_remove_def delete_conv')
  show "hm_get (hm_retain p m) k =
      (case hm_get m k of None \<Rightarrow> None | Some v \<Rightarrow> if p v then Some v else None)" if "hm_wf m"
    using that by (simp add: hm_get_def hm_retain_def hm_wf_def map_of_filter_value)
  show "set (hm_values m) = {v. \<exists>k. hm_get m k = Some v}" if "hm_wf m"
    using that by (force simp: hm_values_def hm_get_def hm_wf_def)
  show "hm_wf []" by (simp add: hm_wf_def)
  show "hm_wf (hm_insert k v m)" if "hm_wf m"
    using that by (simp add: hm_wf_def hm_insert_def distinct_update)
  show "hm_wf (hm_remove k m)" if "hm_wf m"
    using that by (simp add: hm_wf_def hm_remove_def distinct_delete)
  show "hm_wf (hm_retain p m)" if "hm_wf m"
    using that by (induction m) (auto simp: hm_wf_def hm_retain_def)
qed

lemmas hm_laws [simp] = hm.get_empty hm.get_insert hm.get_remove hm.wf_empty hm.wf_insert
  hm.wf_remove hm.wf_retain

section \<open>Persisted names\<close>

text \<open>
  Every closed enumeration of the code is stored under a name and read back with an error
  for an unknown name. The laws below are what every reader of the Ledger relies on.
\<close>

locale persisted_codec =
  fixes enc :: "'a \<Rightarrow> string"
    and dec :: "string \<Rightarrow> 'e + 'a"
    and unknown :: 'e
  assumes dec_enc: "dec (enc x) = Inr x"
    and enc_dec: "dec s = Inr x \<Longrightarrow> enc x = s"
    and dec_error: "dec s = Inl e \<Longrightarrow> e = unknown"
begin

lemma enc_inject: "enc x = enc y \<longleftrightarrow> x = y"
  using dec_enc by (metis sum.inject(2))

lemma dec_Inr_iff: "dec s = Inr x \<longleftrightarrow> s = enc x"
  using dec_enc enc_dec by auto

lemma dec_Inl_iff: "dec s = Inl unknown \<longleftrightarrow> s \<notin> range enc"
proof
  assume "dec s = Inl unknown"
  then show "s \<notin> range enc" using dec_enc by auto
next
  assume "s \<notin> range enc"
  then have "\<And>x. dec s \<noteq> Inr x" using enc_dec by blast
  then show "dec s = Inl unknown" using dec_error by (cases "dec s") auto
qed

lemma dec_inject: "dec s = Inr x \<Longrightarrow> dec t = Inr x \<Longrightarrow> s = t"
  by (simp add: dec_Inr_iff)

end

section \<open>Prefix codes\<close>

text \<open>
  A function that feeds a value to a digest is a prefix code when its output, followed by
  anything, determines the value: then sequences of such outputs can be read back and no
  two values share a digest input.
\<close>

locale prefix_code =
  fixes enc :: "'a \<Rightarrow> 'f list"
    and ok :: "'a \<Rightarrow> bool"
  assumes prefix_free: "ok x \<Longrightarrow> ok y \<Longrightarrow> enc x @ r = enc y @ s \<Longrightarrow> x = y \<and> r = s"
begin

lemma append_eq_iff: "ok x \<Longrightarrow> ok y \<Longrightarrow> enc x @ r = enc y @ s \<longleftrightarrow> x = y \<and> r = s"
  using prefix_free by blast

lemma inject: "ok x \<Longrightarrow> ok y \<Longrightarrow> enc x = enc y \<longleftrightarrow> x = y"
  using prefix_free [of x y "[]" "[]"] by auto

lemma same_length_prefix_free:
  "length xs = length ys \<Longrightarrow> list_all ok xs \<Longrightarrow> list_all ok ys \<Longrightarrow>
     concat (map enc xs) @ r = concat (map enc ys) @ s \<Longrightarrow> xs = ys \<and> r = s"
proof (induction xs ys rule: list_induct2)
  case (Cons x xs y ys)
  then have "x = y \<and> concat (map enc xs) @ r = concat (map enc ys) @ s"
    using prefix_free [of x y] by auto
  with Cons show ?case by auto
qed simp

end

locale nonempty_prefix_code = prefix_code enc ok
  for enc :: "'a \<Rightarrow> 'f list" and ok +
  assumes nonempty: "enc x \<noteq> []"
begin

lemma stream_inject:
  "list_all ok xs \<Longrightarrow> list_all ok ys \<Longrightarrow> concat (map enc xs) = concat (map enc ys) \<Longrightarrow> xs = ys"
proof (induction xs arbitrary: ys)
  case Nil
  then show ?case using nonempty by (cases ys) auto
next
  case (Cons x xs)
  from Cons.prems(3) nonempty [of x] obtain y zs where ys: "ys = y # zs" by (cases ys) simp_all
  from Cons.prems have ok: "ok x" "ok y" "list_all ok xs" "list_all ok zs"
    and eq: "enc x @ concat (map enc xs) = enc y @ concat (map enc zs)"
    by (simp_all add: ys)
  from prefix_free [OF ok(1,2) eq] Cons.IH [OF ok(3,4)] show ?case by (simp add: ys)
qed

end

definition counted :: "('a \<Rightarrow> string list) \<Rightarrow> 'a list \<Rightarrow> string list" where
  "counted enc xs = len_be_bytes xs # concat (map enc xs)"

locale field_code = prefix_code enc ok
  for enc :: "'a \<Rightarrow> string list" and ok
begin

lemma counted_prefix_free:
  assumes "list_all ok xs \<and> length xs < 2 ^ 64" and "list_all ok ys \<and> length ys < 2 ^ 64"
    and "counted enc xs @ r = counted enc ys @ s"
  shows "xs = ys \<and> r = s"
proof -
  from assms(3) have head: "len_be_bytes xs = len_be_bytes ys"
    and tail: "concat (map enc xs) @ r = concat (map enc ys) @ s"
    unfolding counted_def append_Cons list.inject by blast+
  from head have "length xs = length ys"
    unfolding len_be_bytes_inject [OF assms(1) [THEN conjunct2] assms(2) [THEN conjunct2]] .
  then show ?thesis
    using assms(1) [THEN conjunct1] assms(2) [THEN conjunct1] tail by (rule same_length_prefix_free)
qed

end

sublocale field_code \<subseteq> counted: prefix_code "counted enc" "\<lambda>xs. list_all ok xs \<and> length xs < 2 ^ 64"
  by unfold_locales (rule counted_prefix_free)

text \<open>A field function with a parser that consumes exactly its output is a prefix code.\<close>

locale parsed_code =
  fixes enc :: "'a \<Rightarrow> string list"
    and parse :: "string list \<Rightarrow> 'a \<times> string list"
  assumes parse_enc: "parse (enc x @ r) = (x, r)"
begin

lemma parsed_prefix_free: "enc x @ r = enc y @ s \<Longrightarrow> x = y \<and> r = s"
  by (metis parse_enc prod.inject)

end

sublocale parsed_code \<subseteq> field_code enc "\<lambda>_. True"
  by unfold_locales (rule parsed_prefix_free)

section \<open>Transition systems\<close>

locale transition_system =
  fixes step :: "'c \<Rightarrow> 's \<Rightarrow> 's"
    and inv :: "'s \<Rightarrow> bool"
  assumes inv_step: "inv s \<Longrightarrow> inv (step c s)"
begin

lemma inv_run: "inv s \<Longrightarrow> inv (fold step cs s)"
  by (induction cs arbitrary: s) (auto intro: inv_step)

end

locale monotone_system = transition_system step inv
  for step :: "'c \<Rightarrow> 's \<Rightarrow> 's" and inv +
  fixes later :: "'s \<Rightarrow> 's \<Rightarrow> bool"
  assumes later_refl: "later s s"
    and later_trans: "later s t \<Longrightarrow> later t u \<Longrightarrow> later s u"
    and later_step: "inv s \<Longrightarrow> later s (step c s)"
begin

lemma later_run: "inv s \<Longrightarrow> later s (fold step cs s)"
proof (induction cs arbitrary: s)
  case (Cons c cs)
  then have "later (step c s) (fold step cs (step c s))" by (simp add: inv_step)
  with later_step [OF Cons.prems] have "later s (fold step cs (step c s))" by (rule later_trans)
  then show ?case by simp
qed (simp add: later_refl)

end

section \<open>Sorted lists\<close>

text \<open>\<^verbatim>\<open>xs.windows(2).any(|pair| f(pair[0]) == f(pair[1]))\<close>.\<close>

fun adjacent_equal :: "('a \<Rightarrow> 'b) \<Rightarrow> 'a list \<Rightarrow> bool" where
  "adjacent_equal f (x # y # xs) = (f x = f y \<or> adjacent_equal f (y # xs))"
| "adjacent_equal f xs = False"

lemma adjacent_equal_distinct:
  "sorted (map f xs) \<Longrightarrow> \<not> adjacent_equal f xs \<longleftrightarrow> distinct (map f xs)"
proof (induction f xs rule: adjacent_equal.induct)
  case (1 f x y xs)
  then have IH: "\<not> adjacent_equal f (y # xs) \<longleftrightarrow> distinct (map f (y # xs))" by simp
  from 1 have ord: "f x \<le> f y" "\<forall>z \<in> set xs. f y \<le> f z" by auto
  then have "f x = f z \<Longrightarrow> f x = f y" if "z \<in> set xs" for z
    using that by (metis order_antisym)
  then have "f x \<notin> f ` set (y # xs) \<longleftrightarrow> f x \<noteq> f y" by auto
  with IH show ?case by auto
qed auto

lemma sort_key_id_iff: "sort_key f xs = xs \<longleftrightarrow> sorted (map f xs)"
  by (metis sort_key_id_if_sorted sorted_sort_key)

lemma distinct_map_sort_key: "distinct (map g (sort_key f xs)) \<longleftrightarrow> distinct (map g xs)"
  by (simp add: distinct_map)

lemma sort_key_unique:
  "distinct (map f xs) \<Longrightarrow> mset xs = mset ys \<Longrightarrow> sort_key f xs = sort_key f ys"
proof (rule map_sorted_distinct_set_unique [where f = f])
  assume distinct: "distinct (map f xs)" and same: "mset xs = mset ys"
  from same have sets: "set xs = set ys" by (rule mset_eq_setD)
  from distinct same have "distinct (map f ys)"
    by (metis mset_eq_imp_distinct_iff mset_map)
  with distinct sets show "inj_on f (set (sort_key f xs) \<union> set (sort_key f ys))"
    and "distinct (map f (sort_key f xs))" and "distinct (map f (sort_key f ys))"
    and "set (sort_key f xs) = set (sort_key f ys)"
    by (simp_all only: distinct_map_sort_key set_sort Un_absorb) (simp add: distinct_map)
qed simp_all

lemma adjacent_equal_sort_key [simp]:
  "adjacent_equal f (sort_key f xs) \<longleftrightarrow> \<not> distinct (map f xs)"
  using adjacent_equal_distinct [of f "sort_key f xs"]
  unfolding distinct_map_sort_key by (simp only: sorted_sort_key) blast

lemma distinct_map_mset: "mset xs = mset ys \<Longrightarrow> distinct (map f xs) = distinct (map f ys)"
  by (metis mset_eq_imp_distinct_iff mset_map)

lemma mset_concat_map: "mset xs = mset ys \<Longrightarrow> mset (concat (map f xs)) = mset (concat (map f ys))"
proof -
  have "mset (concat (map f zs)) = sum_mset (image_mset (\<lambda>x. mset (f x)) (mset zs))" for zs
    by (induction zs) simp_all
  then show "mset xs = mset ys \<Longrightarrow> mset (concat (map f xs)) = mset (concat (map f ys))" by simp
qed

lemma distinct_under_constructor: "inj c \<Longrightarrow> distinct (map (\<lambda>x. c (f x)) xs) = distinct (map f xs)"
  by (induction xs) (auto dest: injD)

lemma map_sort_key:
  assumes "\<And>x. x \<in> set xs \<Longrightarrow> k x = l (f x)"
  shows "map f (sort_key k xs) = sort_key l (map f xs)"
proof -
  have insort: "map f (insort_key k x ys) = insort_key l (f x) (map f ys)"
    if "k x = l (f x)" "\<And>y. y \<in> set ys \<Longrightarrow> k y = l (f y)" for x ys
    using that by (induction ys) auto
  have unfold_k: "sort_key k (x # ys) = insort_key k x (sort_key k ys)" for x ys
    by (simp add: sort_key_def)
  have unfold_l: "sort_key l (x # ys) = insort_key l x (sort_key l ys)" for x ys
    by (simp add: sort_key_def)
  show ?thesis
    using assms
  proof (induction xs)
    case (Cons a xs)
    then show ?case unfolding unfold_k list.map unfold_l by (subst insort) simp_all
  qed (simp add: sort_key_def)
qed

end
