(* ===== verification/Values.thy ===== *)
theory Values
  imports Prelude
begin

text \<open>
  The validated primitive values of \<^verbatim>\<open>crates/pmc-domain/src\<close>: \<^verbatim>\<open>value.rs\<close> (bounded text
  and tokens), \<^verbatim>\<open>identity.rs\<close> (opaque identifiers and aggregate versions), \<^verbatim>\<open>time.rs\<close>
  (UTC instants) and \<^verbatim>\<open>provenance.rs\<close>. The twenty-four identifier newtypes share one
  constructor macro; they are strings here, and \<open>entity_id_parse\<close> and
  \<open>operation_id_parse\<close> are that constructor at its two length limits.
\<close>

section \<open>Characters\<close>

text \<open>\<^verbatim>\<open>str::chars\<close> on the bytes of a (valid) UTF-8 string: the list of its code points.\<close>

fun utf8_chars :: "nat list \<Rightarrow> nat list" where
  "utf8_chars [] = []"
| "utf8_chars (b # bs) =
     (if b < 128 then b # utf8_chars bs
      else if b < 224 then
        (case bs of c1 # r \<Rightarrow> ((b - 192) * 64 + (c1 - 128)) # utf8_chars r | _ \<Rightarrow> [])
      else if b < 240 then
        (case bs of c1 # c2 # r \<Rightarrow>
           ((b - 224) * 4096 + (c1 - 128) * 64 + (c2 - 128)) # utf8_chars r | _ \<Rightarrow> [])
      else
        (case bs of c1 # c2 # c3 # r \<Rightarrow>
           ((b - 240) * 262144 + (c1 - 128) * 4096 + (c2 - 128) * 64 + (c3 - 128)) # utf8_chars r
         | _ \<Rightarrow> []))"

definition chars :: "string \<Rightarrow> nat list" where
  "chars s = utf8_chars (map of_char s)"

text \<open>\<^verbatim>\<open>char::is_whitespace\<close> (Unicode White\_Space) and \<^verbatim>\<open>char::is_control\<close> (category Cc).\<close>

definition char_is_whitespace :: "nat \<Rightarrow> bool" where
  "char_is_whitespace c \<longleftrightarrow>
     (9 \<le> c \<and> c \<le> 13) \<or> c = 32 \<or> c = 133 \<or> c = 160 \<or> c = 5760 \<or> (8192 \<le> c \<and> c \<le> 8202) \<or>
     c = 8232 \<or> c = 8233 \<or> c = 8239 \<or> c = 8287 \<or> c = 12288"

definition char_is_control :: "nat \<Rightarrow> bool" where
  "char_is_control c \<longleftrightarrow> c \<le> 31 \<or> (127 \<le> c \<and> c \<le> 159)"

definition trim_chars :: "nat list \<Rightarrow> nat list" where
  "trim_chars cs = rev (dropWhile char_is_whitespace (rev (dropWhile char_is_whitespace cs)))"

lemma dropWhile_Nil_iff: "dropWhile P xs = [] \<longleftrightarrow> (\<forall>x \<in> set xs. P x)"
  by (induction xs) auto

lemma trim_chars_Nil_iff: "trim_chars cs = [] \<longleftrightarrow> (\<forall>c \<in> set cs. char_is_whitespace c)"
proof
  assume "trim_chars cs = []"
  then have "\<forall>c \<in> set (dropWhile char_is_whitespace cs). char_is_whitespace c"
    by (simp add: trim_chars_def dropWhile_Nil_iff)
  then have "dropWhile char_is_whitespace cs = []"
    by (metis hd_dropWhile hd_in_set)
  then show "\<forall>c \<in> set cs. char_is_whitespace c" by (simp add: dropWhile_Nil_iff)
next
  assume "\<forall>c \<in> set cs. char_is_whitespace c"
  then have "dropWhile char_is_whitespace cs = []" by (simp add: dropWhile_Nil_iff)
  then show "trim_chars cs = []" by (simp only: trim_chars_def rev.simps dropWhile.simps)
qed

section \<open>value.rs\<close>

datatype ValueErrorKind = Empty | TooLong | InvalidCharacter | UnknownPersistedValue | Zero

datatype DomainValueError = DomainValueError (error_kind: ValueErrorKind)

definition BoundedText_parse :: "nat \<Rightarrow> string \<Rightarrow> DomainValueError + string" where
  "BoundedText_parse maximum_length s =
     (if trim_chars (chars s) = [] then Inl (DomainValueError Empty)
      else if length s > maximum_length then Inl (DomainValueError TooLong)
      else if list_ex char_is_control (chars s) then Inl (DomainValueError InvalidCharacter)
      else Inr s)"

definition is_ascii_digit :: "char \<Rightarrow> bool" where
  "is_ascii_digit c \<longleftrightarrow> CHR ''0'' \<le> c \<and> c \<le> CHR ''9''"

definition is_ascii_alphanumeric :: "char \<Rightarrow> bool" where
  "is_ascii_alphanumeric c \<longleftrightarrow>
     is_ascii_digit c \<or> (CHR ''A'' \<le> c \<and> c \<le> CHR ''Z'') \<or> (CHR ''a'' \<le> c \<and> c \<le> CHR ''z'')"

text \<open>
  The predicate only accepts ASCII characters, and no byte of a multi-byte UTF-8 sequence is
  ASCII, so testing the bytes is testing \<^verbatim>\<open>value.chars()\<close>.
\<close>

definition validate_token :: "string \<Rightarrow> nat \<Rightarrow> char list \<Rightarrow> DomainValueError + unit" where
  "validate_token s maximum_length allowed_punctuation =
     (if s = [] then Inl (DomainValueError Empty)
      else if length s > maximum_length then Inl (DomainValueError TooLong)
      else if \<not> list_all (\<lambda>c. is_ascii_alphanumeric c \<or> c \<in> set allowed_punctuation) s
      then Inl (DomainValueError InvalidCharacter)
      else Inr ())"

definition token_parse :: "nat \<Rightarrow> char list \<Rightarrow> string \<Rightarrow> DomainValueError + string" where
  "token_parse maximum_length allowed_punctuation s =
     rbind (validate_token s maximum_length allowed_punctuation) (\<lambda>_. Inr s)"

lemma token_parse_Inr_iff:
  "token_parse n ps s = Inr t \<longleftrightarrow>
     t = s \<and> s \<noteq> [] \<and> length s \<le> n \<and> list_all (\<lambda>c. is_ascii_alphanumeric c \<or> c \<in> set ps) s"
  by (auto simp: token_parse_def validate_token_def)

lemma BoundedText_parse_Inr_iff:
  "BoundedText_parse n s = Inr t \<longleftrightarrow>
     t = s \<and> (\<exists>c \<in> set (chars s). \<not> char_is_whitespace c) \<and> length s \<le> n \<and>
     (\<forall>c \<in> set (chars s). \<not> char_is_control c)"
  by (auto simp: BoundedText_parse_def trim_chars_Nil_iff list_ex_iff)

lemma BoundedText_parse_length: "BoundedText_parse n s = Inr t \<Longrightarrow> length t \<le> n"
  by (simp add: BoundedText_parse_Inr_iff)

section \<open>identity.rs\<close>

definition MAX_ENTITY_ID_LENGTH :: nat where "MAX_ENTITY_ID_LENGTH = 64"
definition MAX_OPERATION_ID_LENGTH :: nat where "MAX_OPERATION_ID_LENGTH = 128"

type_synonym entity_id = string
type_synonym operation_id = string

definition entity_id_parse :: "string \<Rightarrow> DomainValueError + entity_id" where
  "entity_id_parse = token_parse MAX_ENTITY_ID_LENGTH [CHR ''-'', CHR ''_'']"

definition operation_id_parse :: "string \<Rightarrow> DomainValueError + operation_id" where
  "operation_id_parse = token_parse MAX_OPERATION_ID_LENGTH [CHR ''-'', CHR ''_'']"

datatype AggregateVersion = AggregateVersion (version_get: "64 word")

definition AggregateVersion_initial :: AggregateVersion where
  "AggregateVersion_initial = AggregateVersion 1"

definition AggregateVersion_new :: "64 word \<Rightarrow> DomainValueError + AggregateVersion" where
  "AggregateVersion_new v = (if v = 0 then Inl (DomainValueError Zero) else Inr (AggregateVersion v))"

definition checked_add_u64 :: "64 word \<Rightarrow> 64 word \<Rightarrow> 64 word option" where
  "checked_add_u64 a b = (if uint a + uint b < 2 ^ 64 then Some (a + b) else None)"

definition AggregateVersion_next :: "AggregateVersion \<Rightarrow> AggregateVersion option" where
  "AggregateVersion_next v = map_option AggregateVersion (checked_add_u64 (version_get v) 1)"

instantiation AggregateVersion :: linorder
begin

definition less_eq_AggregateVersion :: "AggregateVersion \<Rightarrow> AggregateVersion \<Rightarrow> bool" where
  "less_eq_AggregateVersion a b \<longleftrightarrow> version_get a \<le> version_get b"

definition less_AggregateVersion :: "AggregateVersion \<Rightarrow> AggregateVersion \<Rightarrow> bool" where
  "less_AggregateVersion a b \<longleftrightarrow> version_get a < version_get b"

instance
  by standard (auto simp: less_eq_AggregateVersion_def less_AggregateVersion_def
      intro: AggregateVersion.expand)

end

lemma checked_add_u64_nat:
  "checked_add_u64 a b = (if unat a + unat b < 2 ^ 64 then Some (a + b) else None)"
proof -
  have "uint a + uint b < 2 ^ 64 \<longleftrightarrow> int (unat a + unat b) < int (2 ^ 64)" by simp
  then show ?thesis unfolding checked_add_u64_def by (simp only: of_nat_less_iff)
qed

lemma checked_add_u64_Some_iff:
  "checked_add_u64 a b = Some c \<longleftrightarrow> unat c = unat a + unat b"
proof
  assume "checked_add_u64 a b = Some c"
  then show "unat c = unat a + unat b"
    by (auto simp: checked_add_u64_nat unat_word_ariths split: if_splits)
next
  assume c: "unat c = unat a + unat b"
  have "unat c < 2 ^ 64" using unsigned_less [of c, where 'a = nat] by simp
  with c have "unat a + unat b < 2 ^ 64" by simp
  moreover from this have "unat (a + b) = unat c" using c by (simp add: unat_word_ariths)
  ultimately show "checked_add_u64 a b = Some c"
    by (simp add: checked_add_u64_nat word_unat_eq_iff)
qed

lemma AggregateVersion_next_Some:
  "AggregateVersion_next v = Some w \<longleftrightarrow> unat (version_get w) = unat (version_get v) + 1"
  by (cases w) (auto simp: AggregateVersion_next_def checked_add_u64_Some_iff)

lemma AggregateVersion_next_less: "AggregateVersion_next v = Some w \<Longrightarrow> v < w"
  by (simp add: AggregateVersion_next_Some less_AggregateVersion_def word_less_nat_alt)

section \<open>time.rs\<close>

datatype UtcTimestamp = UtcTimestamp "64 word"

fun unix_millis :: "UtcTimestamp \<Rightarrow> int" where
  "unix_millis (UtcTimestamp w) = sint w"

definition from_unix_millis :: "int \<Rightarrow> UtcTimestamp" where
  "from_unix_millis i = UtcTimestamp (word_of_int i)"

fun timestamp_be_bytes :: "UtcTimestamp \<Rightarrow> string" where
  "timestamp_be_bytes (UtcTimestamp w) = u64_be_bytes w"

lemma word_sint_inject: "sint (v :: 64 word) = sint w \<Longrightarrow> v = w"
  by (metis scast_eq scast_id)

instantiation UtcTimestamp :: linorder
begin

definition less_eq_UtcTimestamp :: "UtcTimestamp \<Rightarrow> UtcTimestamp \<Rightarrow> bool" where
  "less_eq_UtcTimestamp a b \<longleftrightarrow> unix_millis a \<le> unix_millis b"

definition less_UtcTimestamp :: "UtcTimestamp \<Rightarrow> UtcTimestamp \<Rightarrow> bool" where
  "less_UtcTimestamp a b \<longleftrightarrow> unix_millis a < unix_millis b"

instance
proof
  fix x y :: UtcTimestamp
  assume "x \<le> y" "y \<le> x"
  then show "x = y"
    by (cases x; cases y) (simp add: less_eq_UtcTimestamp_def, metis order_antisym word_sint_inject)
qed (auto simp: less_eq_UtcTimestamp_def less_UtcTimestamp_def)

end

definition i64_in_range :: "int \<Rightarrow> bool" where
  "i64_in_range i \<longleftrightarrow> - (2 ^ 63) \<le> i \<and> i < 2 ^ 63"

definition checked_add_i64 :: "int \<Rightarrow> int \<Rightarrow> int option" where
  "checked_add_i64 a b = (if i64_in_range (a + b) then Some (a + b) else None)"

lemma timestamp_be_bytes_inject [simp]: "timestamp_be_bytes a = timestamp_be_bytes b \<longleftrightarrow> a = b"
  by (cases a; cases b) simp

lemma unix_millis_in_range: "i64_in_range (unix_millis t)"
  using sint_greater_eq [where 'a = 64] sint_less [where 'a = 64]
  by (cases t) (force simp: i64_in_range_def)

lemma unix_millis_from [simp]: "i64_in_range i \<Longrightarrow> unix_millis (from_unix_millis i) = i"
  by (simp add: from_unix_millis_def i64_in_range_def sint_sbintrunc' signed_take_bit_int_eq_self)

lemma from_unix_millis_unix_millis [simp]: "from_unix_millis (unix_millis t) = t"
  by (cases t) (simp add: from_unix_millis_def)

section \<open>provenance.rs\<close>

definition MAX_PROVENANCE_REFERENCE_LENGTH :: nat where "MAX_PROVENANCE_REFERENCE_LENGTH = 128"

definition ProvenanceReference_parse :: "string \<Rightarrow> DomainValueError + string" where
  "ProvenanceReference_parse =
     token_parse MAX_PROVENANCE_REFERENCE_LENGTH [CHR ''-'', CHR ''_'', CHR ''.'']"

datatype Provenance =
  UserEntered | AuthoritativeTransition string | SyntheticFixture string

datatype ProvenanceKind =
  UserEntered | AuthoritativeTransition | SyntheticFixture

fun ProvenanceKind_persisted :: "ProvenanceKind \<Rightarrow> string" where
  "ProvenanceKind_persisted ProvenanceKind.UserEntered = ''user_entered''"
| "ProvenanceKind_persisted ProvenanceKind.AuthoritativeTransition = ''authoritative_transition''"
| "ProvenanceKind_persisted ProvenanceKind.SyntheticFixture = ''synthetic_fixture''"

definition Provenance_kind_from_persisted :: "string \<Rightarrow> DomainValueError + ProvenanceKind" where
  "Provenance_kind_from_persisted s =
    (if s = ''user_entered'' then Inr ProvenanceKind.UserEntered
     else if s = ''authoritative_transition'' then Inr ProvenanceKind.AuthoritativeTransition
     else if s = ''synthetic_fixture'' then Inr ProvenanceKind.SyntheticFixture
     else Inl (DomainValueError UnknownPersistedValue))"

interpretation ProvenanceKind: persisted_codec ProvenanceKind_persisted Provenance_kind_from_persisted
  "DomainValueError UnknownPersistedValue"
proof
  fix x :: ProvenanceKind and s and e
  show "Provenance_kind_from_persisted (ProvenanceKind_persisted x) = Inr x" by (cases x) (simp_all add: Provenance_kind_from_persisted_def)
  show "ProvenanceKind_persisted x = s" if "Provenance_kind_from_persisted s = Inr x"
    using that by (auto simp: Provenance_kind_from_persisted_def split: if_splits)
  show "e = DomainValueError UnknownPersistedValue" if "Provenance_kind_from_persisted s = Inl e"
    using that by (auto simp: Provenance_kind_from_persisted_def split: if_splits)
qed

fun Provenance_kind :: "Provenance \<Rightarrow> ProvenanceKind" where
  "Provenance_kind Provenance.UserEntered = ProvenanceKind.UserEntered"
| "Provenance_kind (Provenance.AuthoritativeTransition _) = ProvenanceKind.AuthoritativeTransition"
| "Provenance_kind (Provenance.SyntheticFixture _) = ProvenanceKind.SyntheticFixture"

definition Provenance_kind_persisted :: "Provenance \<Rightarrow> string" where
  "Provenance_kind_persisted p = ProvenanceKind_persisted (Provenance_kind p)"

fun Provenance_reference :: "Provenance \<Rightarrow> string option" where
  "Provenance_reference Provenance.UserEntered = None"
| "Provenance_reference (Provenance.AuthoritativeTransition r) = Some r"
| "Provenance_reference (Provenance.SyntheticFixture r) = Some r"

end
