(* ===== verification/Classification.thy ===== *)
theory Classification
  imports Values
begin

text \<open>
  \<^verbatim>\<open>classification.rs\<close> and \<^verbatim>\<open>classification_governance.rs\<close> of \<^verbatim>\<open>crates/pmc-domain/src\<close>: the five data
  classifications with their fail-closed \<open>combine\<close>, and the authority that resolves a
  subject's classification from a complete manifest of its sources. The classification
  port is a record of functions; nothing is assumed about its answers.
\<close>

section \<open>classification.rs\<close>

datatype DataClassification =
  Public | Internal | Confidential | Restricted | Unclassified

fun DataClassification_as_persisted :: "DataClassification \<Rightarrow> string" where
  "DataClassification_as_persisted DataClassification.Public = ''public''"
| "DataClassification_as_persisted DataClassification.Internal = ''internal''"
| "DataClassification_as_persisted DataClassification.Confidential = ''confidential''"
| "DataClassification_as_persisted DataClassification.Restricted = ''restricted''"
| "DataClassification_as_persisted DataClassification.Unclassified = ''unclassified''"

definition DataClassification_from_persisted :: "string \<Rightarrow> DomainValueError + DataClassification" where
  "DataClassification_from_persisted s =
    (if s = ''public'' then Inr DataClassification.Public
     else if s = ''internal'' then Inr DataClassification.Internal
     else if s = ''confidential'' then Inr DataClassification.Confidential
     else if s = ''restricted'' then Inr DataClassification.Restricted
     else if s = ''unclassified'' then Inr DataClassification.Unclassified
     else Inl (DomainValueError UnknownPersistedValue))"

interpretation DataClassification: persisted_codec DataClassification_as_persisted DataClassification_from_persisted
  "DomainValueError UnknownPersistedValue"
proof
  fix x :: DataClassification and s and e
  show "DataClassification_from_persisted (DataClassification_as_persisted x) = Inr x" by (cases x) (simp_all add: DataClassification_from_persisted_def)
  show "DataClassification_as_persisted x = s" if "DataClassification_from_persisted s = Inr x"
    using that by (auto simp: DataClassification_from_persisted_def split: if_splits)
  show "e = DomainValueError UnknownPersistedValue" if "DataClassification_from_persisted s = Inl e"
    using that by (auto simp: DataClassification_from_persisted_def split: if_splits)
qed

fun restriction_rank :: "DataClassification \<Rightarrow> nat" where
  "restriction_rank DataClassification.Public = 0"
| "restriction_rank DataClassification.Internal = 1"
| "restriction_rank DataClassification.Confidential = 2"
| "restriction_rank DataClassification.Restricted = 3"
| "restriction_rank DataClassification.Unclassified = 4"

definition combine :: "DataClassification \<Rightarrow> DataClassification \<Rightarrow> DataClassification" where
  "combine self other =
     (if self = DataClassification.Unclassified \<or> other = DataClassification.Unclassified
      then DataClassification.Unclassified
      else if restriction_rank self \<ge> restriction_rank other then self else other)"

text \<open>
  \<open>combine\<close> is the join of the order by restriction rank, in which \<open>Unclassified\<close> is the top:
  folding it over any collection of sources can only raise the result.
\<close>

instantiation DataClassification :: linorder
begin

definition less_eq_DataClassification :: "DataClassification \<Rightarrow> DataClassification \<Rightarrow> bool" where
  "less_eq_DataClassification a b \<longleftrightarrow> restriction_rank a \<le> restriction_rank b"

definition less_DataClassification :: "DataClassification \<Rightarrow> DataClassification \<Rightarrow> bool" where
  "less_DataClassification a b \<longleftrightarrow> restriction_rank a < restriction_rank b"

instance
proof
  fix x y :: DataClassification
  assume "x \<le> y" "y \<le> x"
  then show "x = y" by (cases x; cases y) (simp_all add: less_eq_DataClassification_def)
qed (auto simp: less_eq_DataClassification_def less_DataClassification_def)

end

lemma combine_eq_max: "combine a b = max a b"
  by (cases a; cases b) (simp_all add: combine_def max_def less_eq_DataClassification_def)

lemma le_Unclassified [simp]: "a \<le> DataClassification.Unclassified"
  by (cases a) (simp_all add: less_eq_DataClassification_def)

lemma combine_Unclassified_iff [simp]:
  "combine a b = DataClassification.Unclassified \<longleftrightarrow>
     a = DataClassification.Unclassified \<or> b = DataClassification.Unclassified"
  by (cases a; cases b) (simp_all add: combine_def)

lemma combine_upper: "a \<le> combine a b" "b \<le> combine a b"
  by (simp_all add: combine_eq_max)

lemma combine_idem [simp]: "combine a a = a"
  by (simp add: combine_eq_max)

lemma fold_combine_ge: "a \<le> fold (\<lambda>c acc. combine acc c) cs a"
proof (induction cs arbitrary: a)
  case (Cons c cs)
  have "a \<le> combine a c" by (rule combine_upper)
  also have "\<dots> \<le> fold (\<lambda>c acc. combine acc c) cs (combine a c)" by (rule Cons.IH)
  finally show ?case by simp
qed simp

lemma fold_combine_mem: "c \<in> set cs \<Longrightarrow> c \<le> fold (\<lambda>c acc. combine acc c) cs a"
proof (induction cs arbitrary: a)
  case (Cons d cs)
  show ?case
  proof (cases "c = d")
    case True
    have "c \<le> combine a c" by (rule combine_upper)
    also have "\<dots> \<le> fold (\<lambda>c acc. combine acc c) cs (combine a c)" by (rule fold_combine_ge)
    finally show ?thesis by (simp add: True)
  next
    case False
    with Cons show ?thesis by simp
  qed
qed simp

lemma fold_combine_Unclassified_iff:
  "fold (\<lambda>c acc. combine acc c) cs a = DataClassification.Unclassified \<longleftrightarrow>
     a = DataClassification.Unclassified \<or> DataClassification.Unclassified \<in> set cs"
  by (induction cs arbitrary: a) auto

lemma fold_combine_in: "fold (\<lambda>c acc. combine acc c) cs a \<in> insert a (set cs)"
proof (induction cs arbitrary: a)
  case (Cons c cs)
  have "combine a c \<in> {a, c}" by (simp add: combine_eq_max max_def)
  with Cons [of "combine a c"] show ?case by auto
qed simp

end
