(* ===== verification/Classification_Governance.thy ===== *)
theory Classification_Governance
  imports Classification
begin

text \<open>
  \<^verbatim>\<open>crates/pmc-domain/src/classification_governance.rs\<close>. An authority port names the complete
  manifest of a subject's required sources and reads each of them; \<open>resolve\<close> combines the
  answers and fails closed. \<open>decide\<close> is the gate of ordinary writes, and
  \<open>eligibility_for_resolved\<close> the classification part of external-AI eligibility.
\<close>

type_synonym ClassificationSourceId = "64 word"

datatype AuthoritativeClassificationState = Classified DataClassification | Missing | Unknown

datatype ClassificationPortError = Unavailable | ReadFailed

record 'subject ClassificationAuthorityPort =
  required_source_manifest ::
    "'subject \<Rightarrow> ClassificationPortError + ClassificationSourceId list"
  read_classification ::
    "'subject \<Rightarrow> ClassificationSourceId \<Rightarrow> ClassificationPortError + AuthoritativeClassificationState"

definition has_duplicate_ids :: "ClassificationSourceId list \<Rightarrow> bool" where
  "has_duplicate_ids ids = list_ex (\<lambda>i. ids ! i \<in> set (take i ids)) [0..<length ids]"

record TrustedClassificationSource =
  trusted_id :: ClassificationSourceId
  trusted_classification :: DataClassification

datatype ClassificationSourceState =
  Trusted TrustedClassificationSource
| AiSuggestion ClassificationSourceId DataClassification
| MissingSource ClassificationSourceId
| UnknownSource ClassificationSourceId

datatype SnapshotValidationError =
  EmptyManifest | CountMismatch | DuplicateManifestId | MissingManifestId | UnexpectedEntryId
| DuplicateEntryId

fun source_state_id :: "ClassificationSourceState \<Rightarrow> ClassificationSourceId option" where
  "source_state_id (Trusted t) = Some (trusted_id t)"
| "source_state_id (AiSuggestion i _) = Some i"
| "source_state_id (MissingSource i) = Some i"
| "source_state_id (UnknownSource i) = Some i"

record RequiredClassificationSources =
  sources_manifest :: "ClassificationSourceId list"
  sources_entries :: "ClassificationSourceState list"

definition sources_unavailable :: RequiredClassificationSources where
  "sources_unavailable = \<lparr>sources_manifest = [0], sources_entries = [MissingSource 0]\<rparr>"

text \<open>The two validation loops of \<^verbatim>\<open>from_authority\<close>, in the order they run; \<open>None\<close> is success.\<close>

fun check_manifest_ids ::
  "ClassificationSourceId list \<Rightarrow> ClassificationSourceId list \<Rightarrow> ClassificationSourceId list
     \<Rightarrow> SnapshotValidationError option" where
  "check_manifest_ids seen [] entry_ids = None"
| "check_manifest_ids seen (i # is) entry_ids =
     (if i \<in> set seen then Some DuplicateManifestId
      else if i \<notin> set entry_ids then Some MissingManifestId
      else check_manifest_ids (seen @ [i]) is entry_ids)"

fun check_entry_ids ::
  "ClassificationSourceId list \<Rightarrow> ClassificationSourceId list \<Rightarrow> ClassificationSourceId list
     \<Rightarrow> SnapshotValidationError option" where
  "check_entry_ids manifest entry_ids [] = None"
| "check_entry_ids manifest entry_ids (i # is) =
     (if i \<notin> set manifest then Some UnexpectedEntryId
      else if length (filter (\<lambda>c. c = i) entry_ids) > 1 then Some DuplicateEntryId
      else check_entry_ids manifest entry_ids is)"

definition from_authority ::
  "ClassificationSourceId list \<Rightarrow> ClassificationSourceState list
     \<Rightarrow> SnapshotValidationError + RequiredClassificationSources" where
  "from_authority manifest entries =
     (if manifest = [] then Inl EmptyManifest
      else if length manifest \<noteq> length entries then Inl CountMismatch
      else
        let entry_ids = List.map_filter source_state_id entries in
        case check_manifest_ids [] manifest entry_ids of
          Some e \<Rightarrow> Inl e
        | None \<Rightarrow>
           (case check_entry_ids manifest entry_ids entry_ids of
              Some e \<Rightarrow> Inl e
            | None \<Rightarrow> Inr \<lparr>sources_manifest = manifest, sources_entries = entries\<rparr>))"

record ResolvedClassification =
  resolved_classification :: DataClassification
  resolved_fail_closed :: bool
  trusted_source_count :: nat

text \<open>One iteration of the loop of \<^verbatim>\<open>resolve_inheritance\<close> over the manifest.\<close>

definition resolve_source ::
  "ClassificationSourceState list \<Rightarrow> ClassificationSourceId
     \<Rightarrow> DataClassification \<times> nat \<times> bool \<Rightarrow> DataClassification \<times> nat \<times> bool" where
  "resolve_source entries required_id acc =
     (case acc of (classification, trusted, fail_closed) \<Rightarrow>
      (case filter (\<lambda>e. source_state_id e = Some required_id) entries of
         [Trusted t] \<Rightarrow>
           (combine classification (trusted_classification t), trusted + 1,
            fail_closed \<or> trusted_classification t = DataClassification.Unclassified)
       | _ \<Rightarrow> (classification, trusted, True)))"

definition resolve_inheritance :: "RequiredClassificationSources \<Rightarrow> ResolvedClassification" where
  "resolve_inheritance sources =
     (case fold (resolve_source (sources_entries sources)) (sources_manifest sources)
             (DataClassification.Public, 0, False) of
        (classification, trusted, fail_closed) \<Rightarrow>
          if trusted = 0 \<or> fail_closed
          then \<lparr>resolved_classification = DataClassification.Unclassified,
                resolved_fail_closed = True, trusted_source_count = trusted\<rparr>
          else \<lparr>resolved_classification = classification,
                resolved_fail_closed = fail_closed, trusted_source_count = trusted\<rparr>)"

definition authority_entry ::
  "'subject ClassificationAuthorityPort \<Rightarrow> 'subject \<Rightarrow> ClassificationSourceId
     \<Rightarrow> ClassificationSourceState" where
  "authority_entry port subject i =
     (case read_classification port subject i of
        Inr (Classified c) \<Rightarrow> Trusted \<lparr>trusted_id = i, trusted_classification = c\<rparr>
      | Inr Missing \<Rightarrow> MissingSource i
      | Inr Unknown \<Rightarrow> UnknownSource i
      | Inl _ \<Rightarrow> UnknownSource i)"

definition resolve ::
  "'subject ClassificationAuthorityPort \<Rightarrow> 'subject \<Rightarrow> ResolvedClassification" where
  "resolve port subject =
     (case required_source_manifest port subject of
        Inl _ \<Rightarrow> resolve_inheritance sources_unavailable
      | Inr manifest \<Rightarrow>
          if manifest = [] \<or> has_duplicate_ids manifest
          then resolve_inheritance sources_unavailable
          else
            let entries = map (authority_entry port subject) manifest in
            resolve_inheritance
              (case from_authority manifest entries of
                 Inr snapshot \<Rightarrow> snapshot
               | Inl _ \<Rightarrow> sources_unavailable))"

section \<open>Ordinary writes and external-AI eligibility\<close>

record RequiresH2aLowering =
  lowering_current :: DataClassification
  lowering_proposed :: DataClassification

datatype OrdinaryWriteDecision =
  Applied DataClassification
| Quarantined DataClassification
| QuarantineNotAllowed
| RequiresH2aLowering RequiresH2aLowering

fun rank :: "DataClassification \<Rightarrow> nat" where
  "rank DataClassification.Public = 0"
| "rank DataClassification.Internal = 1"
| "rank DataClassification.Confidential = 2"
| "rank DataClassification.Restricted = 3"
| "rank DataClassification.Unclassified = 4"

definition decide ::
  "bool \<Rightarrow> DataClassification \<Rightarrow> ResolvedClassification \<Rightarrow> OrdinaryWriteDecision" where
  "decide allow_quarantine current resolved =
     (let proposed = resolved_classification resolved in
      if proposed = DataClassification.Unclassified then
        (if allow_quarantine then Quarantined proposed
         else if current = DataClassification.Unclassified then QuarantineNotAllowed
         else RequiresH2aLowering \<lparr>lowering_current = current, lowering_proposed = proposed\<rparr>)
      else if current \<noteq> DataClassification.Unclassified \<and> rank current > rank proposed
      then RequiresH2aLowering \<lparr>lowering_current = current, lowering_proposed = proposed\<rparr>
      else Applied proposed)"

datatype ClassificationDenialReason = UnclassifiedDenied | RestrictedDenied | ConfidentialDenied

datatype ClassificationEligibility =
  RequiresExternalAiGates DataClassification
| RequiresExplicitOrganizationPolicy DataClassification
| Denied DataClassification ClassificationDenialReason

definition eligibility_for_resolved :: "ResolvedClassification \<Rightarrow> ClassificationEligibility" where
  "eligibility_for_resolved resolved =
     (case resolved_classification resolved of
        DataClassification.Public \<Rightarrow> RequiresExternalAiGates DataClassification.Public
      | DataClassification.Internal \<Rightarrow>
          RequiresExplicitOrganizationPolicy DataClassification.Internal
      | DataClassification.Confidential \<Rightarrow>
          Denied DataClassification.Confidential ConfidentialDenied
      | DataClassification.Restricted \<Rightarrow> Denied DataClassification.Restricted RestrictedDenied
      | DataClassification.Unclassified \<Rightarrow>
          Denied DataClassification.Unclassified UnclassifiedDenied)"

definition external_ai_eligibility ::
  "'subject ClassificationAuthorityPort \<Rightarrow> 'subject \<Rightarrow> ClassificationEligibility" where
  "external_ai_eligibility port subject = eligibility_for_resolved (resolve port subject)"

definition classify_external_ai_eligibility ::
  "RequiredClassificationSources \<Rightarrow> ClassificationEligibility" where
  "classify_external_ai_eligibility sources = eligibility_for_resolved (resolve_inheritance sources)"

section \<open>Lemmas\<close>

lemma has_duplicate_ids_iff: "has_duplicate_ids ids \<longleftrightarrow> \<not> distinct ids"
proof (induction ids rule: rev_induct)
  case (snoc x xs)
  have "list_ex (\<lambda>i. (xs @ [x]) ! i \<in> set (take i (xs @ [x]))) [0..<length xs] \<longleftrightarrow>
        list_ex (\<lambda>i. xs ! i \<in> set (take i xs)) [0..<length xs]"
    unfolding list_ex_iff by (intro bex_cong refl) (simp add: nth_append)
  with snoc show ?case by (auto simp: has_duplicate_ids_def)
qed (simp add: has_duplicate_ids_def)

lemma check_manifest_ids_None_iff:
  "check_manifest_ids seen is ids = None \<longleftrightarrow>
     distinct is \<and> set seen \<inter> set is = {} \<and> set is \<subseteq> set ids"
  by (induction seen "is" ids rule: check_manifest_ids.induct) auto

lemma check_entry_ids_None_iff:
  "check_entry_ids manifest ids is = None \<longleftrightarrow>
     (\<forall>i \<in> set is. i \<in> set manifest \<and> count_list ids i \<le> 1)"
  by (induction "is") (auto simp: count_list_eq_length_filter eq_commute)

lemma from_authority_Inr_iff:
  "from_authority manifest entries = Inr r \<longleftrightarrow>
     manifest \<noteq> [] \<and> length manifest = length entries \<and> distinct manifest \<and>
     (let ids = List.map_filter source_state_id entries in
      distinct ids \<and> set ids = set manifest) \<and>
     r = \<lparr>sources_manifest = manifest, sources_entries = entries\<rparr>"
proof -
  have "(\<forall>i \<in> set ids. count_list ids i \<le> 1) \<longleftrightarrow> distinct ids" for ids :: "64 word list"
  proof (induction ids)
    case (Cons a ids)
    have "count_list ids a \<le> 0 \<longleftrightarrow> a \<notin> set ids" by (simp add: count_list_0_iff)
    with Cons show ?case by (auto split: if_splits simp: count_list_0_iff)
  qed simp
  note unique = this
  let ?ids = "List.map_filter source_state_id entries"
  show ?thesis
    using check_manifest_ids_None_iff [of "[]" manifest ?ids]
      check_entry_ids_None_iff [of manifest ?ids ?ids] unique [of ?ids]
    by (cases "check_manifest_ids [] manifest ?ids"; cases "check_entry_ids manifest ?ids ?ids")
      (auto simp: from_authority_def Let_def)
qed

definition declared ::
  "'subject ClassificationAuthorityPort \<Rightarrow> 'subject \<Rightarrow> ClassificationSourceId
     \<Rightarrow> DataClassification option" where
  "declared port subject i =
     (case read_classification port subject i of Inr (Classified c) \<Rightarrow> Some c | _ \<Rightarrow> None)"

lemma source_state_id_authority_entry [simp]:
  "source_state_id (authority_entry port subject i) = Some i"
  by (auto simp: authority_entry_def split: sum.splits AuthoritativeClassificationState.splits)

lemma authority_entry_Trusted_iff:
  "authority_entry port subject i = Trusted t \<longleftrightarrow>
     trusted_id t = i \<and> declared port subject i = Some (trusted_classification t)"
  by (cases t)
    (auto simp: authority_entry_def declared_def
      split: sum.splits AuthoritativeClassificationState.splits)

lemma map_filter_authority_entry:
  "List.map_filter source_state_id (map (authority_entry port subject) m) = m"
  by (induction m) (simp_all add: List.map_filter_simps)

lemma from_authority_entries:
  "m \<noteq> [] \<Longrightarrow> distinct m \<Longrightarrow> from_authority m (map (authority_entry port subject) m) =
     Inr \<lparr>sources_manifest = m, sources_entries = map (authority_entry port subject) m\<rparr>"
  by (simp add: from_authority_Inr_iff map_filter_authority_entry Let_def)

lemma filter_authority_entry:
  "distinct m \<Longrightarrow> i \<in> set m \<Longrightarrow>
     filter (\<lambda>e. source_state_id e = Some i) (map (authority_entry port subject) m) =
       [authority_entry port subject i]"
proof (induction m)
  case (Cons j m)
  have "filter (\<lambda>e. source_state_id e = Some i) (map (authority_entry port subject) m) = []"
    if "i \<notin> set m"
    using that by (auto simp: filter_empty_conv)
  with Cons show ?case by auto
qed simp

lemma resolve_source_step:
  "distinct m \<Longrightarrow> i \<in> set m \<Longrightarrow>
     resolve_source (map (authority_entry port subject) m) i (c, n, f) =
       (case declared port subject i of
          Some d \<Rightarrow> (combine c d, n + 1, f \<or> d = DataClassification.Unclassified)
        | None \<Rightarrow> (c, n, True))"
  by (cases "authority_entry port subject i")
    (auto simp: resolve_source_def filter_authority_entry authority_entry_Trusted_iff
      authority_entry_def declared_def split: sum.splits AuthoritativeClassificationState.splits)

lemma fold_resolve_source:
  "distinct m \<Longrightarrow> set is \<subseteq> set m \<Longrightarrow>
     fold (resolve_source (map (authority_entry port subject) m)) is (c, n, f) =
       (fold (\<lambda>d acc. combine acc d) (List.map_filter (declared port subject) is) c,
        n + length (List.map_filter (declared port subject) is),
        f \<or> (\<exists>i \<in> set is. declared port subject i \<in> {None, Some DataClassification.Unclassified}))"
proof (induction "is" arbitrary: c n f)
  case (Cons i "is")
  then show ?case
    by (cases "declared port subject i") (auto simp: resolve_source_step List.map_filter_simps)
qed (simp add: List.map_filter_simps)

lemma resolve_unavailable [simp]:
  "resolve_inheritance sources_unavailable =
     \<lparr>resolved_classification = DataClassification.Unclassified,
      resolved_fail_closed = True, trusted_source_count = 0\<rparr>"
  by (simp add: resolve_inheritance_def sources_unavailable_def resolve_source_def)

lemma resolve_manifest:
  assumes "required_source_manifest port subject = Inr m" and "m \<noteq> []" and "distinct m"
  shows "resolve port subject =
    (if \<exists>i \<in> set m. declared port subject i \<in> {None, Some DataClassification.Unclassified}
     then \<lparr>resolved_classification = DataClassification.Unclassified, resolved_fail_closed = True,
           trusted_source_count = length (List.map_filter (declared port subject) m)\<rparr>
     else \<lparr>resolved_classification =
             fold (\<lambda>d acc. combine acc d) (List.map_filter (declared port subject) m)
               DataClassification.Public,
           resolved_fail_closed = False,
           trusted_source_count = length (List.map_filter (declared port subject) m)\<rparr>)"
proof -
  have "List.map_filter (declared port subject) m \<noteq> []"
    if "\<forall>i \<in> set m. declared port subject i \<noteq> None"
    using that assms(2) by (cases m) (auto simp: List.map_filter_simps)
  then show ?thesis
    using assms
    by (auto simp: resolve_def has_duplicate_ids_iff from_authority_entries Let_def
        resolve_inheritance_def fold_resolve_source [OF assms(3) order_refl])
qed

lemma map_filter_all_Some: "map f m = map Some cs \<Longrightarrow> List.map_filter f m = cs"
proof (induction m arbitrary: cs)
  case (Cons i m)
  then obtain d ds where "cs = d # ds" by (cases cs) auto
  with Cons show ?case by (auto simp: List.map_filter_simps)
qed (simp add: List.map_filter_simps)

lemma fold_combine_eq_Max:
  "cs \<noteq> [] \<Longrightarrow> fold (\<lambda>d acc. combine acc d) cs DataClassification.Public = Max (set cs)"
proof -
  assume "cs \<noteq> []"
  have "fold (\<lambda>d acc. combine acc d) cs a = Max (set (a # cs))" for a
    by (subst Max.set_eq_fold) (simp add: combine_eq_max max.commute)
  moreover have "Max (insert DataClassification.Public (set cs)) = Max (set cs)"
    using \<open>cs \<noteq> []\<close> by (subst Max_insert) (auto simp: max_def less_eq_DataClassification_def)
  ultimately show ?thesis by simp
qed

lemma declared_Some_iff:
  "declared port subject i = Some d \<longleftrightarrow> read_classification port subject i = Inr (Classified d)"
  by (auto simp: declared_def split: sum.splits AuthoritativeClassificationState.splits)

lemma all_declared_iff:
  "(\<forall>i \<in> set m. declared port subject i \<notin> {None, Some DataClassification.Unclassified}) \<longleftrightarrow>
     (\<exists>cs. map (read_classification port subject) m = map (\<lambda>d. Inr (Classified d)) cs \<and>
        DataClassification.Unclassified \<notin> set cs)"
proof (induction m)
  case (Cons i m)
  show ?case
  proof (cases "declared port subject i")
    case None
    then show ?thesis by (auto simp: declared_Some_iff [symmetric] Cons_eq_map_conv)
  next
    case (Some d)
    then have "read_classification port subject i = Inr (Classified d)"
      by (simp add: declared_Some_iff)
    with Some Cons show ?thesis by (auto simp: Cons_eq_map_conv)
  qed
qed simp

lemma map_read_declared:
  "map (read_classification port subject) m = map (\<lambda>d. Inr (Classified d)) cs \<Longrightarrow>
     List.map_filter (declared port subject) m = cs"
  by (rule map_filter_all_Some)
    (induction m arbitrary: cs; auto simp: Cons_eq_map_conv declared_Some_iff)

lemma resolve_closed_iff:
  "resolved_fail_closed (resolve port subject) \<longleftrightarrow>
     resolved_classification (resolve port subject) = DataClassification.Unclassified"
proof -
  have "resolved_fail_closed (resolve_inheritance r) \<longleftrightarrow>
        resolved_classification (resolve_inheritance r) = DataClassification.Unclassified" for r
  proof -
    have step: "snd (snd (resolve_source es i (c, n, f))) \<or>
        fst (resolve_source es i (c, n, f)) \<noteq> DataClassification.Unclassified"
      if "f \<or> c \<noteq> DataClassification.Unclassified" for es i c n f
      using that by (auto simp: resolve_source_def split: list.splits ClassificationSourceState.splits)
    have "snd (snd (fold (resolve_source es) is acc)) \<or>
        fst (fold (resolve_source es) is acc) \<noteq> DataClassification.Unclassified"
      if "snd (snd acc) \<or> fst acc \<noteq> DataClassification.Unclassified" for es "is" acc
      using that
    proof (induction "is" arbitrary: acc)
      case (Cons i "is")
      then show ?case using step by (metis fold_simps(2) prod.collapse)
    qed simp
    from this [of "(DataClassification.Public, 0, False)" "sources_entries r" "sources_manifest r"]
    show ?thesis
      by (auto simp: resolve_inheritance_def split: prod.splits)
  qed
  then show ?thesis by (simp add: resolve_def Let_def split: sum.splits)
qed

lemma resolve_open_iff:
  "resolve port subject =
      \<lparr>resolved_classification = c, resolved_fail_closed = False, trusted_source_count = n\<rparr> \<longleftrightarrow>
    (\<exists>m cs. required_source_manifest port subject = Inr m \<and> m \<noteq> [] \<and> distinct m \<and> n = length m \<and>
       map (read_classification port subject) m = map (\<lambda>d. Inr (Classified d)) cs \<and>
       DataClassification.Unclassified \<notin> set cs \<and> c = Max (set cs))"
  (is "?open \<longleftrightarrow> ?declared")
proof
  assume ?open
  then obtain m where m: "required_source_manifest port subject = Inr m" "m \<noteq> []" "distinct m"
    by (auto simp: resolve_def has_duplicate_ids_iff split: sum.splits if_splits)
  with \<open>?open\<close> have "\<forall>i \<in> set m. declared port subject i \<notin> {None, Some DataClassification.Unclassified}"
    by (auto simp: resolve_manifest split: if_splits)
  then obtain cs where cs: "map (read_classification port subject) m = map (\<lambda>d. Inr (Classified d)) cs"
    "DataClassification.Unclassified \<notin> set cs"
    unfolding all_declared_iff by blast
  then have "length cs = length m" by (metis length_map)
  moreover from this m(2) have "cs \<noteq> []" by auto
  ultimately have "n = length m \<and> c = Max (set cs)"
    using m cs \<open>?open\<close>
    by (auto simp: resolve_manifest map_read_declared fold_combine_eq_Max split: if_splits)
  with m cs show ?declared by blast
next
  assume ?declared
  then obtain m cs where m: "required_source_manifest port subject = Inr m" "m \<noteq> []" "distinct m"
    and n: "n = length m" and c: "c = Max (set cs)"
    and cs: "map (read_classification port subject) m = map (\<lambda>d. Inr (Classified d)) cs"
      "DataClassification.Unclassified \<notin> set cs" by blast
  have len: "length cs = length m" using cs(1) by (metis length_map)
  with m(2) have ne: "cs \<noteq> []" by auto
  have "\<forall>i \<in> set m. declared port subject i \<notin> {None, Some DataClassification.Unclassified}"
    unfolding all_declared_iff using cs by blast
  then show ?open
    unfolding resolve_manifest [OF m] map_read_declared [OF cs(1)] n c
    by (subst if_not_P) (auto simp: fold_combine_eq_Max ne len)
qed

lemma Max_Public_iff:
  assumes "cs \<noteq> []"
  shows "Max (set cs) = DataClassification.Public \<longleftrightarrow> (\<forall>d \<in> set cs. d = DataClassification.Public)"
proof -
  have "d \<le> DataClassification.Public \<longleftrightarrow> d = DataClassification.Public" for d
    by (cases d) (simp_all add: less_eq_DataClassification_def)
  moreover have "Max (set cs) \<le> DataClassification.Public \<longleftrightarrow>
      (\<forall>d \<in> set cs. d \<le> DataClassification.Public)"
    using assms by simp
  ultimately show ?thesis by simp
qed

lemma resolve_Public_iff:
  "resolved_classification (resolve port subject) = DataClassification.Public \<longleftrightarrow>
     (\<exists>m. required_source_manifest port subject = Inr m \<and> m \<noteq> [] \<and> distinct m \<and>
        list_all (\<lambda>i. read_classification port subject i = Inr (Classified DataClassification.Public)) m)"
    (is "?lhs \<longleftrightarrow> ?rhs")
proof
  assume ?lhs
  then have "\<not> resolved_fail_closed (resolve port subject)" by (simp add: resolve_closed_iff)
  with \<open>?lhs\<close> have "resolve port subject = \<lparr>resolved_classification = DataClassification.Public,
      resolved_fail_closed = False, trusted_source_count = trusted_source_count (resolve port subject)\<rparr>"
    by (cases "resolve port subject") auto
  then obtain m cs where m: "required_source_manifest port subject = Inr m" "m \<noteq> []" "distinct m"
    and cs: "map (read_classification port subject) m = map (\<lambda>d. Inr (Classified d)) cs"
    and max: "DataClassification.Public = Max (set cs)"
    unfolding resolve_open_iff by blast
  from cs m(2) have "cs \<noteq> []" by auto
  with max [symmetric] have "\<forall>d \<in> set cs. d = DataClassification.Public"
    by (simp add: Max_Public_iff)
  with cs have "list_all (\<lambda>i. read_classification port subject i = Inr (Classified DataClassification.Public)) m"
    by (induction m arbitrary: cs) (auto simp: Cons_eq_map_conv)
  with m show ?rhs by blast
next
  assume ?rhs
  then obtain m where m: "required_source_manifest port subject = Inr m" "m \<noteq> []" "distinct m"
    and public: "list_all (\<lambda>i. read_classification port subject i = Inr (Classified DataClassification.Public)) m"
    by blast
  let ?cs = "map (\<lambda>_. DataClassification.Public) m"
  from public have "map (read_classification port subject) m = map (\<lambda>d. Inr (Classified d)) ?cs"
    by (simp add: list_all_iff)
  moreover from m(2) have "DataClassification.Public = Max (set ?cs)"
    by (subst eq_commute, subst Max_Public_iff) auto
  ultimately have "resolve port subject = \<lparr>resolved_classification = DataClassification.Public,
      resolved_fail_closed = False, trusted_source_count = length m\<rparr>"
    unfolding resolve_open_iff using m by (intro exI [of _ m] exI [of _ ?cs]) auto
  then show ?lhs by simp
qed

section \<open>Properties\<close>

text \<open>
  A subject's classification is resolved openly exactly when the authority names a
  non-empty manifest without duplicates and every required source answers with an explicit
  classification; the result is then the most restrictive of those answers and counts all of
  them. In every other case, a failed read, a missing or unknown source, an \<open>Unclassified\<close>
  answer, a duplicate or an empty manifest, the resolution fails closed, and failing closed
  is the same as reporting \<open>Unclassified\<close>.
\<close>

theorem resolve_exact:
  "(resolve port subject =
      \<lparr>resolved_classification = c, resolved_fail_closed = False, trusted_source_count = n\<rparr> \<longleftrightarrow>
    (\<exists>m cs. required_source_manifest port subject = Inr m \<and> m \<noteq> [] \<and> distinct m \<and> n = length m \<and>
       map (read_classification port subject) m = map (\<lambda>d. Inr (Classified d)) cs \<and>
       DataClassification.Unclassified \<notin> set cs \<and> c = Max (set cs))) \<and>
   (resolved_fail_closed (resolve port subject) \<longleftrightarrow>
      resolved_classification (resolve port subject) = DataClassification.Unclassified)"
  by (simp add: resolve_open_iff resolve_closed_iff)

text \<open>
  Only a subject all of whose required sources were read and are \<open>Public\<close> may proceed
  to the external-AI gates: one source that is more restrictive, unreadable, missing, unknown or
  listed twice is enough to leave that path.
\<close>

theorem external_ai_gates_only_public:
  "external_ai_eligibility port subject = RequiresExternalAiGates d \<longleftrightarrow>
     d = DataClassification.Public \<and>
     (\<exists>m. required_source_manifest port subject = Inr m \<and> m \<noteq> [] \<and> distinct m \<and>
        list_all (\<lambda>i. read_classification port subject i = Inr (Classified DataClassification.Public)) m)"
  unfolding resolve_Public_iff [symmetric]
  by (auto simp: external_ai_eligibility_def eligibility_for_resolved_def
      split: DataClassification.splits)

text \<open>
  An ordinary write is applied exactly when the proposed classification is explicit and
  does not lower an explicit current one; lowering, and falling back to \<open>Unclassified\<close> without
  an authorised quarantine, always needs the governed lowering route.
\<close>

theorem ordinary_write_never_lowers:
  "(decide allow_quarantine current r = Applied c \<longleftrightarrow>
      c = resolved_classification r \<and> c \<noteq> DataClassification.Unclassified \<and>
      (current = DataClassification.Unclassified \<or> current \<le> c)) \<and>
   ((\<exists>l. decide allow_quarantine current r = RequiresH2aLowering l) \<longleftrightarrow>
      current \<noteq> DataClassification.Unclassified \<and>
      (resolved_classification r = DataClassification.Unclassified \<and> \<not> allow_quarantine \<or>
       resolved_classification r < current))"
proof -
  have rank: "rank d = restriction_rank d" for d by (cases d) simp_all
  have "d \<le> DataClassification.Unclassified \<and> \<not> DataClassification.Unclassified < d" for d
    by (simp add: not_less)
  then show ?thesis
    by (auto simp: decide_def Let_def rank less_eq_DataClassification_def less_DataClassification_def)
qed

end
