(* ===== verification/Errors.thy ===== *)
theory Errors
  imports Classification_Governance
begin

text \<open>
  \<^verbatim>\<open>crates/pmc-domain/src/error.rs\<close>: the safe error envelope every failing operation returns.
  Keys, field names and private references are validated tokens.
\<close>

definition MAX_KEY_LENGTH :: nat where "MAX_KEY_LENGTH = 96"
definition MAX_PRIVATE_DETAIL_REF_LENGTH :: nat where "MAX_PRIVATE_DETAIL_REF_LENGTH = 128"

datatype ErrorCode =
  ValidationInvalidField | DomainConflict | DomainNotFound | SecurityPolicyDenied
| AiPolicyDenied | SecurityPreviewExpiredOrChanged | DomainIdempotencyConflict | PlatformInternal

fun ErrorCode_as_str :: "ErrorCode \<Rightarrow> string" where
  "ErrorCode_as_str ValidationInvalidField = ''VALIDATION_INVALID_FIELD''"
| "ErrorCode_as_str DomainConflict = ''DOMAIN_CONFLICT''"
| "ErrorCode_as_str DomainNotFound = ''DOMAIN_NOT_FOUND''"
| "ErrorCode_as_str SecurityPolicyDenied = ''SECURITY_POLICY_DENIED''"
| "ErrorCode_as_str AiPolicyDenied = ''AI_POLICY_DENIED''"
| "ErrorCode_as_str SecurityPreviewExpiredOrChanged = ''SECURITY_PREVIEW_EXPIRED_OR_CHANGED''"
| "ErrorCode_as_str DomainIdempotencyConflict = ''DOMAIN_IDEMPOTENCY_CONFLICT''"
| "ErrorCode_as_str PlatformInternal = ''PLATFORM_INTERNAL''"

abbreviation key_punctuation :: "char list" where
  "key_punctuation \<equiv> [CHR ''-'', CHR ''_'', CHR ''.'']"

definition MessageKey_parse :: "string \<Rightarrow> DomainValueError + string" where
  "MessageKey_parse = token_parse MAX_KEY_LENGTH key_punctuation"

datatype SafeParamValue = Identifier string | FieldKey string | Unsigned "64 word" | Boolean bool

record MessageParam =
  param_key :: string
  param_value :: SafeParamValue

definition MessageParam_new :: "string \<Rightarrow> SafeParamValue \<Rightarrow> DomainValueError + MessageParam" where
  "MessageParam_new key v =
     rbind (validate_token key MAX_KEY_LENGTH key_punctuation) (\<lambda>_.
     rbind (case v of
              Identifier s \<Rightarrow> validate_token s MAX_KEY_LENGTH [CHR ''-'', CHR ''_'']
            | FieldKey s \<Rightarrow> validate_token s MAX_KEY_LENGTH key_punctuation
            | Unsigned _ \<Rightarrow> Inr ()
            | Boolean _ \<Rightarrow> Inr ()) (\<lambda>_.
     Inr \<lparr>param_key = key, param_value = v\<rparr>))"

record FieldError =
  field_key :: string
  reason_key :: string

definition FieldError_new :: "string \<Rightarrow> string \<Rightarrow> DomainValueError + FieldError" where
  "FieldError_new f r =
     rbind (validate_token f MAX_KEY_LENGTH key_punctuation) (\<lambda>_.
     rbind (validate_token r MAX_KEY_LENGTH key_punctuation) (\<lambda>_.
     Inr \<lparr>field_key = f, reason_key = r\<rparr>))"

definition PrivateDetailRef_parse :: "string \<Rightarrow> DomainValueError + string" where
  "PrivateDetailRef_parse = token_parse MAX_PRIVATE_DETAIL_REF_LENGTH key_punctuation"

datatype SafeErrorExtension = CurrentVersion AggregateVersion | FieldErrors "FieldError list"

record DomainError =
  error_code :: ErrorCode
  error_message_key :: string
  error_params :: "MessageParam list"
  error_correlation_id :: operation_id
  error_retryable :: bool
  error_extensions :: "SafeErrorExtension list"
  error_private_detail_ref :: "string option"

definition DomainError_new :: "ErrorCode \<Rightarrow> string \<Rightarrow> operation_id \<Rightarrow> bool \<Rightarrow> DomainError" where
  "DomainError_new code key correlation retryable =
     \<lparr>error_code = code, error_message_key = key, error_params = [],
      error_correlation_id = correlation, error_retryable = retryable,
      error_extensions = [], error_private_detail_ref = None\<rparr>"

definition with_param :: "MessageParam \<Rightarrow> DomainError \<Rightarrow> DomainError" where
  "with_param p e = e\<lparr>error_params := error_params e @ [p]\<rparr>"

definition with_extension :: "SafeErrorExtension \<Rightarrow> DomainError \<Rightarrow> DomainError" where
  "with_extension x e = e\<lparr>error_extensions := error_extensions e @ [x]\<rparr>"

definition with_private_detail :: "string \<Rightarrow> DomainError \<Rightarrow> DomainError" where
  "with_private_detail r e = e\<lparr>error_private_detail_ref := Some r\<rparr>"

lemma DomainError_new_simps [simp]:
  "error_code (DomainError_new c k cid r) = c"
  "error_message_key (DomainError_new c k cid r) = k"
  "error_correlation_id (DomainError_new c k cid r) = cid"
  "error_retryable (DomainError_new c k cid r) = r"
  by (simp_all add: DomainError_new_def)

lemma DomainError_with_simps [simp]:
  "error_code (with_param p e) = error_code e"
  "error_code (with_extension x e) = error_code e"
  "error_message_key (with_param p e) = error_message_key e"
  "error_message_key (with_extension x e) = error_message_key e"
  "error_extensions (with_param p e) = error_extensions e"
  by (simp_all add: with_param_def with_extension_def)

end
