(* ===== verification/Audit_Log.thy ===== *)
theory Audit_Log
  imports Errors
begin

text \<open>
  \<^verbatim>\<open>crates/pmc-domain/src/audit.rs\<close>: the closed vocabularies of an audit event, the disposition
  whose constructor refuses contradictory outcomes, and the event record itself.
\<close>

definition MAX_AUDIT_CODE_LENGTH :: nat where "MAX_AUDIT_CODE_LENGTH = 96"

datatype AuditActor =
  HeadOfProducts | PolicyAuthorizedSystem

fun AuditActor_as_persisted :: "AuditActor \<Rightarrow> string" where
  "AuditActor_as_persisted AuditActor.HeadOfProducts = ''head_of_products''"
| "AuditActor_as_persisted AuditActor.PolicyAuthorizedSystem = ''policy_authorized_system''"

definition AuditActor_from_persisted :: "string \<Rightarrow> DomainValueError + AuditActor" where
  "AuditActor_from_persisted s =
    (if s = ''head_of_products'' then Inr AuditActor.HeadOfProducts
     else if s = ''policy_authorized_system'' then Inr AuditActor.PolicyAuthorizedSystem
     else Inl (DomainValueError UnknownPersistedValue))"

interpretation AuditActor: persisted_codec AuditActor_as_persisted AuditActor_from_persisted
  "DomainValueError UnknownPersistedValue"
proof
  fix x :: AuditActor and s and e
  show "AuditActor_from_persisted (AuditActor_as_persisted x) = Inr x" by (cases x) (simp_all add: AuditActor_from_persisted_def)
  show "AuditActor_as_persisted x = s" if "AuditActor_from_persisted s = Inr x"
    using that by (auto simp: AuditActor_from_persisted_def split: if_splits)
  show "e = DomainValueError UnknownPersistedValue" if "AuditActor_from_persisted s = Inl e"
    using that by (auto simp: AuditActor_from_persisted_def split: if_splits)
qed

datatype AuditModule =
  Portfolio | WorkManagement | Classification | Execution

fun AuditModule_as_persisted :: "AuditModule \<Rightarrow> string" where
  "AuditModule_as_persisted AuditModule.Portfolio = ''portfolio''"
| "AuditModule_as_persisted AuditModule.WorkManagement = ''work_management''"
| "AuditModule_as_persisted AuditModule.Classification = ''classification''"
| "AuditModule_as_persisted AuditModule.Execution = ''execution''"

definition AuditModule_from_persisted :: "string \<Rightarrow> DomainValueError + AuditModule" where
  "AuditModule_from_persisted s =
    (if s = ''portfolio'' then Inr AuditModule.Portfolio
     else if s = ''work_management'' then Inr AuditModule.WorkManagement
     else if s = ''classification'' then Inr AuditModule.Classification
     else if s = ''execution'' then Inr AuditModule.Execution
     else Inl (DomainValueError UnknownPersistedValue))"

interpretation AuditModule: persisted_codec AuditModule_as_persisted AuditModule_from_persisted
  "DomainValueError UnknownPersistedValue"
proof
  fix x :: AuditModule and s and e
  show "AuditModule_from_persisted (AuditModule_as_persisted x) = Inr x" by (cases x) (simp_all add: AuditModule_from_persisted_def)
  show "AuditModule_as_persisted x = s" if "AuditModule_from_persisted s = Inr x"
    using that by (auto simp: AuditModule_from_persisted_def split: if_splits)
  show "e = DomainValueError UnknownPersistedValue" if "AuditModule_from_persisted s = Inl e"
    using that by (auto simp: AuditModule_from_persisted_def split: if_splits)
qed

datatype AuditPolicyOutcome =
  NotRequired | Allowed | Denied

fun AuditPolicyOutcome_as_persisted :: "AuditPolicyOutcome \<Rightarrow> string" where
  "AuditPolicyOutcome_as_persisted AuditPolicyOutcome.NotRequired = ''not_required''"
| "AuditPolicyOutcome_as_persisted AuditPolicyOutcome.Allowed = ''allowed''"
| "AuditPolicyOutcome_as_persisted AuditPolicyOutcome.Denied = ''denied''"

definition AuditPolicyOutcome_from_persisted :: "string \<Rightarrow> DomainValueError + AuditPolicyOutcome" where
  "AuditPolicyOutcome_from_persisted s =
    (if s = ''not_required'' then Inr AuditPolicyOutcome.NotRequired
     else if s = ''allowed'' then Inr AuditPolicyOutcome.Allowed
     else if s = ''denied'' then Inr AuditPolicyOutcome.Denied
     else Inl (DomainValueError UnknownPersistedValue))"

interpretation AuditPolicyOutcome: persisted_codec AuditPolicyOutcome_as_persisted AuditPolicyOutcome_from_persisted
  "DomainValueError UnknownPersistedValue"
proof
  fix x :: AuditPolicyOutcome and s and e
  show "AuditPolicyOutcome_from_persisted (AuditPolicyOutcome_as_persisted x) = Inr x" by (cases x) (simp_all add: AuditPolicyOutcome_from_persisted_def)
  show "AuditPolicyOutcome_as_persisted x = s" if "AuditPolicyOutcome_from_persisted s = Inr x"
    using that by (auto simp: AuditPolicyOutcome_from_persisted_def split: if_splits)
  show "e = DomainValueError UnknownPersistedValue" if "AuditPolicyOutcome_from_persisted s = Inl e"
    using that by (auto simp: AuditPolicyOutcome_from_persisted_def split: if_splits)
qed

datatype AuditApprovalOutcome =
  NotRequired | Approved | Rejected

fun AuditApprovalOutcome_as_persisted :: "AuditApprovalOutcome \<Rightarrow> string" where
  "AuditApprovalOutcome_as_persisted AuditApprovalOutcome.NotRequired = ''not_required''"
| "AuditApprovalOutcome_as_persisted AuditApprovalOutcome.Approved = ''approved''"
| "AuditApprovalOutcome_as_persisted AuditApprovalOutcome.Rejected = ''rejected''"

definition AuditApprovalOutcome_from_persisted :: "string \<Rightarrow> DomainValueError + AuditApprovalOutcome" where
  "AuditApprovalOutcome_from_persisted s =
    (if s = ''not_required'' then Inr AuditApprovalOutcome.NotRequired
     else if s = ''approved'' then Inr AuditApprovalOutcome.Approved
     else if s = ''rejected'' then Inr AuditApprovalOutcome.Rejected
     else Inl (DomainValueError UnknownPersistedValue))"

interpretation AuditApprovalOutcome: persisted_codec AuditApprovalOutcome_as_persisted AuditApprovalOutcome_from_persisted
  "DomainValueError UnknownPersistedValue"
proof
  fix x :: AuditApprovalOutcome and s and e
  show "AuditApprovalOutcome_from_persisted (AuditApprovalOutcome_as_persisted x) = Inr x" by (cases x) (simp_all add: AuditApprovalOutcome_from_persisted_def)
  show "AuditApprovalOutcome_as_persisted x = s" if "AuditApprovalOutcome_from_persisted s = Inr x"
    using that by (auto simp: AuditApprovalOutcome_from_persisted_def split: if_splits)
  show "e = DomainValueError UnknownPersistedValue" if "AuditApprovalOutcome_from_persisted s = Inl e"
    using that by (auto simp: AuditApprovalOutcome_from_persisted_def split: if_splits)
qed

datatype AuditExecutionOutcome =
  NotAttempted | Succeeded | Failed | Cancelled

fun AuditExecutionOutcome_as_persisted :: "AuditExecutionOutcome \<Rightarrow> string" where
  "AuditExecutionOutcome_as_persisted AuditExecutionOutcome.NotAttempted = ''not_attempted''"
| "AuditExecutionOutcome_as_persisted AuditExecutionOutcome.Succeeded = ''succeeded''"
| "AuditExecutionOutcome_as_persisted AuditExecutionOutcome.Failed = ''failed''"
| "AuditExecutionOutcome_as_persisted AuditExecutionOutcome.Cancelled = ''cancelled''"

definition AuditExecutionOutcome_from_persisted :: "string \<Rightarrow> DomainValueError + AuditExecutionOutcome" where
  "AuditExecutionOutcome_from_persisted s =
    (if s = ''not_attempted'' then Inr AuditExecutionOutcome.NotAttempted
     else if s = ''succeeded'' then Inr AuditExecutionOutcome.Succeeded
     else if s = ''failed'' then Inr AuditExecutionOutcome.Failed
     else if s = ''cancelled'' then Inr AuditExecutionOutcome.Cancelled
     else Inl (DomainValueError UnknownPersistedValue))"

interpretation AuditExecutionOutcome: persisted_codec AuditExecutionOutcome_as_persisted AuditExecutionOutcome_from_persisted
  "DomainValueError UnknownPersistedValue"
proof
  fix x :: AuditExecutionOutcome and s and e
  show "AuditExecutionOutcome_from_persisted (AuditExecutionOutcome_as_persisted x) = Inr x" by (cases x) (simp_all add: AuditExecutionOutcome_from_persisted_def)
  show "AuditExecutionOutcome_as_persisted x = s" if "AuditExecutionOutcome_from_persisted s = Inr x"
    using that by (auto simp: AuditExecutionOutcome_from_persisted_def split: if_splits)
  show "e = DomainValueError UnknownPersistedValue" if "AuditExecutionOutcome_from_persisted s = Inl e"
    using that by (auto simp: AuditExecutionOutcome_from_persisted_def split: if_splits)
qed

datatype AuditEffectScope =
  ScopeNone | Complete | Partial

fun AuditEffectScope_as_persisted :: "AuditEffectScope \<Rightarrow> string" where
  "AuditEffectScope_as_persisted AuditEffectScope.ScopeNone = ''none''"
| "AuditEffectScope_as_persisted AuditEffectScope.Complete = ''complete''"
| "AuditEffectScope_as_persisted AuditEffectScope.Partial = ''partial''"

definition AuditEffectScope_from_persisted :: "string \<Rightarrow> DomainValueError + AuditEffectScope" where
  "AuditEffectScope_from_persisted s =
    (if s = ''none'' then Inr AuditEffectScope.ScopeNone
     else if s = ''complete'' then Inr AuditEffectScope.Complete
     else if s = ''partial'' then Inr AuditEffectScope.Partial
     else Inl (DomainValueError UnknownPersistedValue))"

interpretation AuditEffectScope: persisted_codec AuditEffectScope_as_persisted AuditEffectScope_from_persisted
  "DomainValueError UnknownPersistedValue"
proof
  fix x :: AuditEffectScope and s and e
  show "AuditEffectScope_from_persisted (AuditEffectScope_as_persisted x) = Inr x" by (cases x) (simp_all add: AuditEffectScope_from_persisted_def)
  show "AuditEffectScope_as_persisted x = s" if "AuditEffectScope_from_persisted s = Inr x"
    using that by (auto simp: AuditEffectScope_from_persisted_def split: if_splits)
  show "e = DomainValueError UnknownPersistedValue" if "AuditEffectScope_from_persisted s = Inl e"
    using that by (auto simp: AuditEffectScope_from_persisted_def split: if_splits)
qed

datatype AuditDispositionError =
  DeniedAdvanced | DeniedHasEffects | RejectedAdvanced | NotAttemptedHasEffects
| EffectScopeMismatch

definition AuditEventCode_parse :: "string \<Rightarrow> DomainValueError + string" where
  "AuditEventCode_parse = token_parse MAX_AUDIT_CODE_LENGTH key_punctuation"

definition AuditEffectCode_parse :: "string \<Rightarrow> DomainValueError + string" where
  "AuditEffectCode_parse = token_parse MAX_AUDIT_CODE_LENGTH key_punctuation"

datatype AuditTarget =
  Portfolio entity_id
| Product entity_id
| Initiative entity_id
| Project entity_id
| Roadmap entity_id
| Milestone entity_id
| Kpi entity_id
| KpiObservation entity_id
| Stakeholder entity_id
| Relationship entity_id
| ActionRequest entity_id
| Action entity_id
| DecisionRequest entity_id
| Decision entity_id
| Risk entity_id
| Issue entity_id
| EvidenceReference entity_id
| ManagedProjectionSet

record AuditAction =
  action_module :: AuditModule
  action_code :: string
  action_target :: AuditTarget

record AuditDisposition =
  policy_outcome :: AuditPolicyOutcome
  approval_outcome :: AuditApprovalOutcome
  execution_outcome :: AuditExecutionOutcome
  effect_scope :: AuditEffectScope
  actual_effects :: "string list"

definition AuditDisposition_new ::
  "AuditPolicyOutcome \<Rightarrow> AuditApprovalOutcome \<Rightarrow> AuditExecutionOutcome \<Rightarrow> AuditEffectScope
     \<Rightarrow> string list \<Rightarrow> AuditDispositionError + AuditDisposition" where
  "AuditDisposition_new policy approval execution scope effects =
     (if policy = AuditPolicyOutcome.Denied \<and>
         (approval \<noteq> AuditApprovalOutcome.NotRequired \<or>
          execution \<noteq> AuditExecutionOutcome.NotAttempted)
      then Inl DeniedAdvanced
      else if policy = AuditPolicyOutcome.Denied \<and> effects \<noteq> [] then Inl DeniedHasEffects
      else if approval = AuditApprovalOutcome.Rejected \<and>
              execution \<noteq> AuditExecutionOutcome.NotAttempted
      then Inl RejectedAdvanced
      else if execution = AuditExecutionOutcome.NotAttempted \<and>
              (scope \<noteq> AuditEffectScope.ScopeNone \<or> effects \<noteq> [])
      then Inl NotAttemptedHasEffects
      else if (scope = AuditEffectScope.ScopeNone) \<noteq> (effects = []) then Inl EffectScopeMismatch
      else Inr \<lparr>policy_outcome = policy, approval_outcome = approval,
                execution_outcome = execution, effect_scope = scope, actual_effects = effects\<rparr>)"

record AuditEvent =
  audit_id :: entity_id
  audit_occurred_at :: UtcTimestamp
  audit_actor :: AuditActor
  audit_module :: AuditModule
  audit_code :: string
  audit_correlation_id :: operation_id
  audit_target :: AuditTarget
  audit_policy_outcome :: AuditPolicyOutcome
  audit_approval_outcome :: AuditApprovalOutcome
  audit_execution_outcome :: AuditExecutionOutcome
  audit_effect_scope :: AuditEffectScope
  audit_actual_effects :: "string list"

definition AuditEvent_new ::
  "entity_id \<Rightarrow> UtcTimestamp \<Rightarrow> AuditActor \<Rightarrow> AuditAction \<Rightarrow> operation_id \<Rightarrow> AuditDisposition
     \<Rightarrow> AuditEvent" where
  "AuditEvent_new i occurred_at actor action correlation disposition =
     \<lparr>audit_id = i, audit_occurred_at = occurred_at, audit_actor = actor,
      audit_module = action_module action, audit_code = action_code action,
      audit_correlation_id = correlation, audit_target = action_target action,
      audit_policy_outcome = policy_outcome disposition,
      audit_approval_outcome = approval_outcome disposition,
      audit_execution_outcome = execution_outcome disposition,
      audit_effect_scope = effect_scope disposition,
      audit_actual_effects = actual_effects disposition\<rparr>"

definition no_effect :: "AuditEvent \<Rightarrow> bool" where
  "no_effect e \<longleftrightarrow> audit_actual_effects e = [] \<and> audit_effect_scope e = AuditEffectScope.ScopeNone"

lemma AuditDisposition_new_Inr_iff:
  "AuditDisposition_new p a e sc fs = Inr d \<longleftrightarrow>
     d = \<lparr>policy_outcome = p, approval_outcome = a, execution_outcome = e,
          effect_scope = sc, actual_effects = fs\<rparr> \<and>
     (p = AuditPolicyOutcome.Denied \<longrightarrow>
        a = AuditApprovalOutcome.NotRequired \<and> e = AuditExecutionOutcome.NotAttempted) \<and>
     (a = AuditApprovalOutcome.Rejected \<longrightarrow> e = AuditExecutionOutcome.NotAttempted) \<and>
     (e = AuditExecutionOutcome.NotAttempted \<longrightarrow> fs = []) \<and>
     (sc = AuditEffectScope.ScopeNone \<longleftrightarrow> fs = [])"
  by (auto simp: AuditDisposition_new_def)

end
