(* ===== verification/Work_Management.thy ===== *)
theory Work_Management
  imports Audit_Log
begin

text \<open>
  The first part of \<^verbatim>\<open>crates/pmc-domain/src/work_management.rs\<close>: the closed lifecycle
  vocabularies (the \<^verbatim>\<open>persisted_enum!\<close> types), the verification states of Evidence, Human
  Judgments, and the Evidence-or-Judgment gate with the witness it produces.
\<close>

section \<open>Lifecycle vocabularies\<close>

datatype ActionRequestState =
  Draft | Open | Accepted | Declined | Withdrawn

fun ActionRequestState_as_persisted :: "ActionRequestState \<Rightarrow> string" where
  "ActionRequestState_as_persisted ActionRequestState.Draft = ''draft''"
| "ActionRequestState_as_persisted ActionRequestState.Open = ''open''"
| "ActionRequestState_as_persisted ActionRequestState.Accepted = ''accepted''"
| "ActionRequestState_as_persisted ActionRequestState.Declined = ''declined''"
| "ActionRequestState_as_persisted ActionRequestState.Withdrawn = ''withdrawn''"

definition ActionRequestState_from_persisted :: "string \<Rightarrow> DomainValueError + ActionRequestState" where
  "ActionRequestState_from_persisted s =
    (if s = ''draft'' then Inr ActionRequestState.Draft
     else if s = ''open'' then Inr ActionRequestState.Open
     else if s = ''accepted'' then Inr ActionRequestState.Accepted
     else if s = ''declined'' then Inr ActionRequestState.Declined
     else if s = ''withdrawn'' then Inr ActionRequestState.Withdrawn
     else Inl (DomainValueError UnknownPersistedValue))"

interpretation ActionRequestState: persisted_codec ActionRequestState_as_persisted ActionRequestState_from_persisted
  "DomainValueError UnknownPersistedValue"
proof
  fix x :: ActionRequestState and s and e
  show "ActionRequestState_from_persisted (ActionRequestState_as_persisted x) = Inr x" by (cases x) (simp_all add: ActionRequestState_from_persisted_def)
  show "ActionRequestState_as_persisted x = s" if "ActionRequestState_from_persisted s = Inr x"
    using that by (auto simp: ActionRequestState_from_persisted_def split: if_splits)
  show "e = DomainValueError UnknownPersistedValue" if "ActionRequestState_from_persisted s = Inl e"
    using that by (auto simp: ActionRequestState_from_persisted_def split: if_splits)
qed

datatype ActionState =
  Open | InProgress | Completed | Cancelled

fun ActionState_as_persisted :: "ActionState \<Rightarrow> string" where
  "ActionState_as_persisted ActionState.Open = ''open''"
| "ActionState_as_persisted ActionState.InProgress = ''in_progress''"
| "ActionState_as_persisted ActionState.Completed = ''completed''"
| "ActionState_as_persisted ActionState.Cancelled = ''cancelled''"

definition ActionState_from_persisted :: "string \<Rightarrow> DomainValueError + ActionState" where
  "ActionState_from_persisted s =
    (if s = ''open'' then Inr ActionState.Open
     else if s = ''in_progress'' then Inr ActionState.InProgress
     else if s = ''completed'' then Inr ActionState.Completed
     else if s = ''cancelled'' then Inr ActionState.Cancelled
     else Inl (DomainValueError UnknownPersistedValue))"

interpretation ActionState: persisted_codec ActionState_as_persisted ActionState_from_persisted
  "DomainValueError UnknownPersistedValue"
proof
  fix x :: ActionState and s and e
  show "ActionState_from_persisted (ActionState_as_persisted x) = Inr x" by (cases x) (simp_all add: ActionState_from_persisted_def)
  show "ActionState_as_persisted x = s" if "ActionState_from_persisted s = Inr x"
    using that by (auto simp: ActionState_from_persisted_def split: if_splits)
  show "e = DomainValueError UnknownPersistedValue" if "ActionState_from_persisted s = Inl e"
    using that by (auto simp: ActionState_from_persisted_def split: if_splits)
qed

datatype DecisionRequestState =
  Draft | Open | Resolved | Withdrawn

fun DecisionRequestState_as_persisted :: "DecisionRequestState \<Rightarrow> string" where
  "DecisionRequestState_as_persisted DecisionRequestState.Draft = ''draft''"
| "DecisionRequestState_as_persisted DecisionRequestState.Open = ''open''"
| "DecisionRequestState_as_persisted DecisionRequestState.Resolved = ''resolved''"
| "DecisionRequestState_as_persisted DecisionRequestState.Withdrawn = ''withdrawn''"

definition DecisionRequestState_from_persisted :: "string \<Rightarrow> DomainValueError + DecisionRequestState" where
  "DecisionRequestState_from_persisted s =
    (if s = ''draft'' then Inr DecisionRequestState.Draft
     else if s = ''open'' then Inr DecisionRequestState.Open
     else if s = ''resolved'' then Inr DecisionRequestState.Resolved
     else if s = ''withdrawn'' then Inr DecisionRequestState.Withdrawn
     else Inl (DomainValueError UnknownPersistedValue))"

interpretation DecisionRequestState: persisted_codec DecisionRequestState_as_persisted DecisionRequestState_from_persisted
  "DomainValueError UnknownPersistedValue"
proof
  fix x :: DecisionRequestState and s and e
  show "DecisionRequestState_from_persisted (DecisionRequestState_as_persisted x) = Inr x" by (cases x) (simp_all add: DecisionRequestState_from_persisted_def)
  show "DecisionRequestState_as_persisted x = s" if "DecisionRequestState_from_persisted s = Inr x"
    using that by (auto simp: DecisionRequestState_from_persisted_def split: if_splits)
  show "e = DomainValueError UnknownPersistedValue" if "DecisionRequestState_from_persisted s = Inl e"
    using that by (auto simp: DecisionRequestState_from_persisted_def split: if_splits)
qed

datatype DecisionState =
  Effective | Superseded

fun DecisionState_as_persisted :: "DecisionState \<Rightarrow> string" where
  "DecisionState_as_persisted DecisionState.Effective = ''effective''"
| "DecisionState_as_persisted DecisionState.Superseded = ''superseded''"

definition DecisionState_from_persisted :: "string \<Rightarrow> DomainValueError + DecisionState" where
  "DecisionState_from_persisted s =
    (if s = ''effective'' then Inr DecisionState.Effective
     else if s = ''superseded'' then Inr DecisionState.Superseded
     else Inl (DomainValueError UnknownPersistedValue))"

interpretation DecisionState: persisted_codec DecisionState_as_persisted DecisionState_from_persisted
  "DomainValueError UnknownPersistedValue"
proof
  fix x :: DecisionState and s and e
  show "DecisionState_from_persisted (DecisionState_as_persisted x) = Inr x" by (cases x) (simp_all add: DecisionState_from_persisted_def)
  show "DecisionState_as_persisted x = s" if "DecisionState_from_persisted s = Inr x"
    using that by (auto simp: DecisionState_from_persisted_def split: if_splits)
  show "e = DomainValueError UnknownPersistedValue" if "DecisionState_from_persisted s = Inl e"
    using that by (auto simp: DecisionState_from_persisted_def split: if_splits)
qed

datatype RiskState =
  Open | Occurred | Closed

fun RiskState_as_persisted :: "RiskState \<Rightarrow> string" where
  "RiskState_as_persisted RiskState.Open = ''open''"
| "RiskState_as_persisted RiskState.Occurred = ''occurred''"
| "RiskState_as_persisted RiskState.Closed = ''closed''"

definition RiskState_from_persisted :: "string \<Rightarrow> DomainValueError + RiskState" where
  "RiskState_from_persisted s =
    (if s = ''open'' then Inr RiskState.Open
     else if s = ''occurred'' then Inr RiskState.Occurred
     else if s = ''closed'' then Inr RiskState.Closed
     else Inl (DomainValueError UnknownPersistedValue))"

interpretation RiskState: persisted_codec RiskState_as_persisted RiskState_from_persisted
  "DomainValueError UnknownPersistedValue"
proof
  fix x :: RiskState and s and e
  show "RiskState_from_persisted (RiskState_as_persisted x) = Inr x" by (cases x) (simp_all add: RiskState_from_persisted_def)
  show "RiskState_as_persisted x = s" if "RiskState_from_persisted s = Inr x"
    using that by (auto simp: RiskState_from_persisted_def split: if_splits)
  show "e = DomainValueError UnknownPersistedValue" if "RiskState_from_persisted s = Inl e"
    using that by (auto simp: RiskState_from_persisted_def split: if_splits)
qed

datatype IssueState =
  Open | Resolved | Closed

fun IssueState_as_persisted :: "IssueState \<Rightarrow> string" where
  "IssueState_as_persisted IssueState.Open = ''open''"
| "IssueState_as_persisted IssueState.Resolved = ''resolved''"
| "IssueState_as_persisted IssueState.Closed = ''closed''"

definition IssueState_from_persisted :: "string \<Rightarrow> DomainValueError + IssueState" where
  "IssueState_from_persisted s =
    (if s = ''open'' then Inr IssueState.Open
     else if s = ''resolved'' then Inr IssueState.Resolved
     else if s = ''closed'' then Inr IssueState.Closed
     else Inl (DomainValueError UnknownPersistedValue))"

interpretation IssueState: persisted_codec IssueState_as_persisted IssueState_from_persisted
  "DomainValueError UnknownPersistedValue"
proof
  fix x :: IssueState and s and e
  show "IssueState_from_persisted (IssueState_as_persisted x) = Inr x" by (cases x) (simp_all add: IssueState_from_persisted_def)
  show "IssueState_as_persisted x = s" if "IssueState_from_persisted s = Inr x"
    using that by (auto simp: IssueState_from_persisted_def split: if_splits)
  show "e = DomainValueError UnknownPersistedValue" if "IssueState_from_persisted s = Inl e"
    using that by (auto simp: IssueState_from_persisted_def split: if_splits)
qed

datatype IssueResolutionType =
  Resolved | Workaround | AcceptedImpact

fun IssueResolutionType_as_persisted :: "IssueResolutionType \<Rightarrow> string" where
  "IssueResolutionType_as_persisted IssueResolutionType.Resolved = ''resolved''"
| "IssueResolutionType_as_persisted IssueResolutionType.Workaround = ''workaround''"
| "IssueResolutionType_as_persisted IssueResolutionType.AcceptedImpact = ''accepted_impact''"

definition IssueResolutionType_from_persisted :: "string \<Rightarrow> DomainValueError + IssueResolutionType" where
  "IssueResolutionType_from_persisted s =
    (if s = ''resolved'' then Inr IssueResolutionType.Resolved
     else if s = ''workaround'' then Inr IssueResolutionType.Workaround
     else if s = ''accepted_impact'' then Inr IssueResolutionType.AcceptedImpact
     else Inl (DomainValueError UnknownPersistedValue))"

interpretation IssueResolutionType: persisted_codec IssueResolutionType_as_persisted IssueResolutionType_from_persisted
  "DomainValueError UnknownPersistedValue"
proof
  fix x :: IssueResolutionType and s and e
  show "IssueResolutionType_from_persisted (IssueResolutionType_as_persisted x) = Inr x" by (cases x) (simp_all add: IssueResolutionType_from_persisted_def)
  show "IssueResolutionType_as_persisted x = s" if "IssueResolutionType_from_persisted s = Inr x"
    using that by (auto simp: IssueResolutionType_from_persisted_def split: if_splits)
  show "e = DomainValueError UnknownPersistedValue" if "IssueResolutionType_from_persisted s = Inl e"
    using that by (auto simp: IssueResolutionType_from_persisted_def split: if_splits)
qed

datatype RiskResponseType =
  Mitigate | Accept | Transfer | Avoid

fun RiskResponseType_as_persisted :: "RiskResponseType \<Rightarrow> string" where
  "RiskResponseType_as_persisted RiskResponseType.Mitigate = ''mitigate''"
| "RiskResponseType_as_persisted RiskResponseType.Accept = ''accept''"
| "RiskResponseType_as_persisted RiskResponseType.Transfer = ''transfer''"
| "RiskResponseType_as_persisted RiskResponseType.Avoid = ''avoid''"

definition RiskResponseType_from_persisted :: "string \<Rightarrow> DomainValueError + RiskResponseType" where
  "RiskResponseType_from_persisted s =
    (if s = ''mitigate'' then Inr RiskResponseType.Mitigate
     else if s = ''accept'' then Inr RiskResponseType.Accept
     else if s = ''transfer'' then Inr RiskResponseType.Transfer
     else if s = ''avoid'' then Inr RiskResponseType.Avoid
     else Inl (DomainValueError UnknownPersistedValue))"

interpretation RiskResponseType: persisted_codec RiskResponseType_as_persisted RiskResponseType_from_persisted
  "DomainValueError UnknownPersistedValue"
proof
  fix x :: RiskResponseType and s and e
  show "RiskResponseType_from_persisted (RiskResponseType_as_persisted x) = Inr x" by (cases x) (simp_all add: RiskResponseType_from_persisted_def)
  show "RiskResponseType_as_persisted x = s" if "RiskResponseType_from_persisted s = Inr x"
    using that by (auto simp: RiskResponseType_from_persisted_def split: if_splits)
  show "e = DomainValueError UnknownPersistedValue" if "RiskResponseType_from_persisted s = Inl e"
    using that by (auto simp: RiskResponseType_from_persisted_def split: if_splits)
qed

datatype EvidenceRole =
  ActionCompletion | DecisionResolution | IssueResolution | IssueClosureVerification | IssueFailedVerification

fun EvidenceRole_as_persisted :: "EvidenceRole \<Rightarrow> string" where
  "EvidenceRole_as_persisted EvidenceRole.ActionCompletion = ''action_completion''"
| "EvidenceRole_as_persisted EvidenceRole.DecisionResolution = ''decision_resolution''"
| "EvidenceRole_as_persisted EvidenceRole.IssueResolution = ''issue_resolution''"
| "EvidenceRole_as_persisted EvidenceRole.IssueClosureVerification = ''issue_closure_verification''"
| "EvidenceRole_as_persisted EvidenceRole.IssueFailedVerification = ''issue_failed_verification''"

definition EvidenceRole_from_persisted :: "string \<Rightarrow> DomainValueError + EvidenceRole" where
  "EvidenceRole_from_persisted s =
    (if s = ''action_completion'' then Inr EvidenceRole.ActionCompletion
     else if s = ''decision_resolution'' then Inr EvidenceRole.DecisionResolution
     else if s = ''issue_resolution'' then Inr EvidenceRole.IssueResolution
     else if s = ''issue_closure_verification'' then Inr EvidenceRole.IssueClosureVerification
     else if s = ''issue_failed_verification'' then Inr EvidenceRole.IssueFailedVerification
     else Inl (DomainValueError UnknownPersistedValue))"

interpretation EvidenceRole: persisted_codec EvidenceRole_as_persisted EvidenceRole_from_persisted
  "DomainValueError UnknownPersistedValue"
proof
  fix x :: EvidenceRole and s and e
  show "EvidenceRole_from_persisted (EvidenceRole_as_persisted x) = Inr x" by (cases x) (simp_all add: EvidenceRole_from_persisted_def)
  show "EvidenceRole_as_persisted x = s" if "EvidenceRole_from_persisted s = Inr x"
    using that by (auto simp: EvidenceRole_from_persisted_def split: if_splits)
  show "e = DomainValueError UnknownPersistedValue" if "EvidenceRole_from_persisted s = Inl e"
    using that by (auto simp: EvidenceRole_from_persisted_def split: if_splits)
qed

section \<open>Evidence and Judgment\<close>

definition is_ascii_hexdigit :: "char \<Rightarrow> bool" where
  "is_ascii_hexdigit c \<longleftrightarrow>
     is_ascii_digit c \<or> (CHR ''A'' \<le> c \<and> c \<le> CHR ''F'') \<or> (CHR ''a'' \<le> c \<and> c \<le> CHR ''f'')"

definition to_ascii_lowercase :: "char \<Rightarrow> char" where
  "to_ascii_lowercase c =
     (if CHR ''A'' \<le> c \<and> c \<le> CHR ''Z'' then char_of (of_char c + 32 :: nat) else c)"

definition IntegrityDigest_parse :: "string \<Rightarrow> DomainValueError + string" where
  "IntegrityDigest_parse s =
     (if length s \<noteq> 64 \<or> \<not> list_all is_ascii_hexdigit s
      then Inl (DomainValueError InvalidCharacter)
      else BoundedText_parse 64 (map to_ascii_lowercase s))"

datatype EvidenceVerification =
  Verified UtcTimestamp string
| DegradedLastVerified UtcTimestamp string
| Unverified
| IntegrityMismatch
| ObservedUnpinned UtcTimestamp string

definition EvidenceVerification_from_persisted_parts ::
  "string \<Rightarrow> UtcTimestamp option \<Rightarrow> string option \<Rightarrow> DomainValueError + EvidenceVerification" where
  "EvidenceVerification_from_persisted_parts kind last_verified_at integrity_digest =
     (let missing = DomainValueError UnknownPersistedValue;
          with_parts = (\<lambda>make. rbind (ok_or missing last_verified_at) (\<lambda>at.
                               rbind (ok_or missing integrity_digest) (\<lambda>digest.
                               Inr (make at digest)))) in
      if kind = ''verified'' then with_parts Verified
      else if kind = ''degraded_last_verified'' then with_parts DegradedLastVerified
      else if kind = ''unverified'' then Inr Unverified
      else if kind = ''integrity_mismatch'' then Inr IntegrityMismatch
      else if kind = ''observed_unpinned'' then with_parts ObservedUnpinned
      else Inl missing)"

fun EvidenceVerification_kind :: "EvidenceVerification \<Rightarrow> string" where
  "EvidenceVerification_kind (Verified _ _) = ''verified''"
| "EvidenceVerification_kind (DegradedLastVerified _ _) = ''degraded_last_verified''"
| "EvidenceVerification_kind Unverified = ''unverified''"
| "EvidenceVerification_kind IntegrityMismatch = ''integrity_mismatch''"
| "EvidenceVerification_kind (ObservedUnpinned _ _) = ''observed_unpinned''"

record EvidenceReferenceMetadata =
  meta_id :: entity_id
  meta_source_version :: AggregateVersion
  meta_classification :: DataClassification
  meta_role :: EvidenceRole
  meta_verification :: EvidenceVerification

datatype HumanJudgmentDisposition = ProceedWithDocumentedRationale

record HumanJudgment =
  judgment_disposition :: HumanJudgmentDisposition
  judgment_rationale :: string
  judgment_classification :: DataClassification

definition HumanJudgment_new ::
  "HumanJudgmentDisposition \<Rightarrow> string \<Rightarrow> DataClassification \<Rightarrow> DomainValueError + HumanJudgment" where
  "HumanJudgment_new disposition rationale classification =
     rbind (BoundedText_parse 2000 rationale) (\<lambda>r.
     Inr \<lparr>judgment_disposition = disposition, judgment_rationale = r,
          judgment_classification = classification\<rparr>)"

definition HumanJudgment_actor :: "HumanJudgment \<Rightarrow> AuditActor" where
  "HumanJudgment_actor j = AuditActor.HeadOfProducts"

section \<open>The Evidence-or-Judgment gate\<close>

datatype SupportDisposition = EvidenceSatisfied | JudgmentSatisfied | VerificationPending

datatype SupportRequirement = EvidenceRequired | EvidenceOrJudgmentRequired

record SupportWitness =
  support_requirement :: SupportRequirement
  support_disposition :: SupportDisposition
  support_evidence :: "EvidenceReferenceMetadata list"
  support_judgments :: "HumanJudgment list"
  support_classification :: DataClassification

datatype SupportGateError = EmptySupport | EvidenceRequiredNotSatisfied

record EvidenceOrJudgment =
  eoj_evidence :: "EvidenceReferenceMetadata list"
  eoj_judgments :: "HumanJudgment list"

definition EvidenceOrJudgment_new ::
  "EvidenceReferenceMetadata list \<Rightarrow> HumanJudgment list \<Rightarrow> SupportGateError + EvidenceOrJudgment" where
  "EvidenceOrJudgment_new evidence judgments =
     (if evidence = [] \<and> judgments = [] then Inl EmptySupport
      else Inr \<lparr>eoj_evidence = evidence, eoj_judgments = judgments\<rparr>)"

fun refuses :: "EvidenceVerification \<Rightarrow> bool" where
  "refuses Unverified = True"
| "refuses IntegrityMismatch = True"
| "refuses _ = False"

fun degraded :: "EvidenceVerification \<Rightarrow> bool" where
  "degraded (DegradedLastVerified _ _) = True"
| "degraded (ObservedUnpinned _ _) = True"
| "degraded _ = False"

fun verified :: "EvidenceVerification \<Rightarrow> bool" where
  "verified (Verified _ _) = True"
| "verified _ = False"

definition witness ::
  "EvidenceOrJudgment \<Rightarrow> SupportRequirement \<Rightarrow> SupportDisposition \<Rightarrow> SupportWitness" where
  "witness self requirement disposition =
     (let classifications = map meta_classification (eoj_evidence self) @
                            map judgment_classification (eoj_judgments self) in
      \<lparr>support_requirement = requirement, support_disposition = disposition,
       support_evidence = eoj_evidence self, support_judgments = eoj_judgments self,
       support_classification =
         (case classifications of
            [] \<Rightarrow> DataClassification.Unclassified
          | first # rest \<Rightarrow> fold (\<lambda>c acc. combine acc c) rest first)\<rparr>)"

definition evaluate_evidence_required ::
  "EvidenceOrJudgment \<Rightarrow> SupportGateError + SupportWitness" where
  "evaluate_evidence_required self =
     (if list_ex (\<lambda>item. refuses (meta_verification item)) (eoj_evidence self)
      then Inl EvidenceRequiredNotSatisfied
      else if list_ex (\<lambda>item. degraded (meta_verification item)) (eoj_evidence self)
      then (if eoj_judgments self = [] then Inl EvidenceRequiredNotSatisfied
            else Inr (witness self EvidenceRequired VerificationPending))
      else if list_ex (\<lambda>item. verified (meta_verification item)) (eoj_evidence self)
      then Inr (witness self EvidenceRequired EvidenceSatisfied)
      else Inl EvidenceRequiredNotSatisfied)"

definition evaluate_evidence_or_judgment ::
  "EvidenceOrJudgment \<Rightarrow> SupportGateError + SupportWitness" where
  "evaluate_evidence_or_judgment self =
     (if list_ex (\<lambda>item. refuses (meta_verification item)) (eoj_evidence self)
      then Inl EvidenceRequiredNotSatisfied
      else if list_ex (\<lambda>item. degraded (meta_verification item)) (eoj_evidence self)
      then (if eoj_judgments self = [] then Inl EvidenceRequiredNotSatisfied
            else Inr (witness self EvidenceOrJudgmentRequired VerificationPending))
      else if list_ex (\<lambda>item. verified (meta_verification item)) (eoj_evidence self)
      then Inr (witness self EvidenceOrJudgmentRequired EvidenceSatisfied)
      else if eoj_judgments self \<noteq> []
      then Inr (witness self EvidenceOrJudgmentRequired JudgmentSatisfied)
      else Inl EvidenceRequiredNotSatisfied)"

section \<open>Lemmas\<close>

lemma verification_trichotomy: "refuses v \<or> degraded v \<or> verified v"
  by (cases v) simp_all

lemma verification_exclusive:
  "\<not> (refuses v \<and> degraded v)" "\<not> (refuses v \<and> verified v)" "\<not> (degraded v \<and> verified v)"
  by (cases v; simp)+

lemma witness_simps [simp]:
  "support_requirement (witness e r d) = r"
  "support_disposition (witness e r d) = d"
  "support_evidence (witness e r d) = eoj_evidence e"
  "support_judgments (witness e r d) = eoj_judgments e"
  by (simp_all add: witness_def Let_def)

definition support_classifications :: "SupportWitness \<Rightarrow> DataClassification list" where
  "support_classifications w = map meta_classification (support_evidence w) @
     map judgment_classification (support_judgments w)"

lemma witness_classification:
  "support_classification (witness e r d) =
     (if eoj_evidence e = [] \<and> eoj_judgments e = [] then DataClassification.Unclassified
      else Max (set (support_classifications (witness e r d))))"
proof -
  have fold_Max: "fold (\<lambda>c acc. combine acc c) cs a = Max (set (a # cs))" for cs a
    by (subst Max.set_eq_fold) (simp add: combine_eq_max max.commute)
  show ?thesis
    by (cases "eoj_evidence e"; cases "eoj_judgments e")
      (simp_all add: witness_def support_classifications_def fold_Max)
qed

lemma evaluate_evidence_required_Inr:
  "evaluate_evidence_required self = Inr w \<Longrightarrow>
     w = witness self EvidenceRequired (support_disposition w) \<and> eoj_evidence self \<noteq> [] \<and>
     list_all (\<lambda>item. \<not> refuses (meta_verification item)) (eoj_evidence self) \<and>
     (support_disposition w = VerificationPending \<longleftrightarrow>
        list_ex (\<lambda>item. degraded (meta_verification item)) (eoj_evidence self)) \<and>
     (support_disposition w = VerificationPending \<longrightarrow> eoj_judgments self \<noteq> []) \<and>
     support_disposition w \<noteq> JudgmentSatisfied"
  by (auto simp: evaluate_evidence_required_def list_ex_iff list_all_iff split: if_splits)

lemma evaluate_evidence_or_judgment_Inr:
  "evaluate_evidence_or_judgment self = Inr w \<Longrightarrow>
     w = witness self EvidenceOrJudgmentRequired (support_disposition w) \<and>
     list_all (\<lambda>item. \<not> refuses (meta_verification item)) (eoj_evidence self)"
  by (auto simp: evaluate_evidence_or_judgment_def list_ex_iff list_all_iff split: if_splits)

text \<open>
  The Evidence-required gate, decided by what the Evidence is and not by the order it
  comes in: it is passed with \<open>EvidenceSatisfied\<close> exactly when there is Evidence and all of it
  is verified, with \<open>VerificationPending\<close> exactly when some of it is only degraded or unpinned,
  none is unverified or mismatched and a written Judgment is present, and never on a Judgment
  alone; the alternative gate differs only in accepting a Judgment when there is no Evidence.
\<close>

theorem support_gate_exact:
  "(map_err (\<lambda>_. ()) (evaluate_evidence_required e) =
      (if eoj_evidence e \<noteq> [] \<and> list_all (\<lambda>m. verified (meta_verification m)) (eoj_evidence e)
       then Inr (witness e EvidenceRequired EvidenceSatisfied)
       else if list_all (\<lambda>m. \<not> refuses (meta_verification m)) (eoj_evidence e) \<and>
          eoj_evidence e \<noteq> [] \<and> eoj_judgments e \<noteq> []
       then Inr (witness e EvidenceRequired VerificationPending)
       else Inl ())) \<and>
   (map_err (\<lambda>_. ()) (evaluate_evidence_or_judgment e) =
      (if eoj_evidence e = [] \<and> eoj_judgments e \<noteq> []
       then Inr (witness e EvidenceOrJudgmentRequired JudgmentSatisfied)
       else map_err (\<lambda>_. ())
         (rbind (evaluate_evidence_required e)
           (\<lambda>w. Inr (w\<lparr>support_requirement := EvidenceOrJudgmentRequired\<rparr>)))))"
proof -
  have cases3: "verified v \<longleftrightarrow> \<not> refuses v \<and> \<not> degraded v" for v by (cases v) simp_all
  have upd: "witness e EvidenceRequired d\<lparr>support_requirement := EvidenceOrJudgmentRequired\<rparr> =
      witness e EvidenceOrJudgmentRequired d" for d
    by (simp add: witness_def Let_def)
  show ?thesis
    by (cases "eoj_evidence e")
      (auto simp: evaluate_evidence_required_def evaluate_evidence_or_judgment_def list_ex_iff
        list_all_iff cases3 upd)
qed

end
