(* ===== verification/H2a_Operation.thy ===== *)
theory H2a_Operation
  imports Work_Management
begin

text \<open>
  The governed (H2a) operations of \<^verbatim>\<open>crates/pmc-domain/src/work_management.rs\<close>: the intent
  kinds, the operations with their payloads, and what an operation declares about itself,
  its targets with expected versions, its effects, the support it requires and the sources
  its classification comes from. Constructor arguments stand in the order of the source's
  named fields.
\<close>

datatype WorkManagementH2aIntentKind =
  AcceptActionRequest
| ResolveDecisionRequest
| CompleteAction
| CancelAction
| ReopenAction
| SupersedeDecision
| RecordRiskOccurrence
| CloseRisk
| ResolveIssue
| CloseIssue
| ReopenIssue
| LowerPortfolioClassification
| LowerProductClassification
| LowerRoadmapClassification
| LowerKpiClassification
| LowerKpiObservationClassification
| LowerActionClassification
| LowerDecisionClassification
| LowerRiskClassification
| LowerIssueClassification
| LowerInitiativeClassification
| LowerProjectClassification
| LowerMilestoneClassification

definition WorkManagementH2aIntentKind_ALL :: "WorkManagementH2aIntentKind list" where
  "WorkManagementH2aIntentKind_ALL =
    [WorkManagementH2aIntentKind.AcceptActionRequest,
     WorkManagementH2aIntentKind.ResolveDecisionRequest,
     WorkManagementH2aIntentKind.CompleteAction,
     WorkManagementH2aIntentKind.CancelAction,
     WorkManagementH2aIntentKind.ReopenAction,
     WorkManagementH2aIntentKind.SupersedeDecision,
     WorkManagementH2aIntentKind.RecordRiskOccurrence,
     WorkManagementH2aIntentKind.CloseRisk,
     WorkManagementH2aIntentKind.ResolveIssue,
     WorkManagementH2aIntentKind.CloseIssue,
     WorkManagementH2aIntentKind.ReopenIssue,
     WorkManagementH2aIntentKind.LowerPortfolioClassification,
     WorkManagementH2aIntentKind.LowerProductClassification,
     WorkManagementH2aIntentKind.LowerRoadmapClassification,
     WorkManagementH2aIntentKind.LowerKpiClassification,
     WorkManagementH2aIntentKind.LowerKpiObservationClassification,
     WorkManagementH2aIntentKind.LowerActionClassification,
     WorkManagementH2aIntentKind.LowerDecisionClassification,
     WorkManagementH2aIntentKind.LowerRiskClassification,
     WorkManagementH2aIntentKind.LowerIssueClassification,
     WorkManagementH2aIntentKind.LowerInitiativeClassification,
     WorkManagementH2aIntentKind.LowerProjectClassification,
     WorkManagementH2aIntentKind.LowerMilestoneClassification]"

fun WorkManagementH2aIntentKind_as_persisted :: "WorkManagementH2aIntentKind \<Rightarrow> string" where
  "WorkManagementH2aIntentKind_as_persisted WorkManagementH2aIntentKind.AcceptActionRequest =
     ''accept_action_request''"
| "WorkManagementH2aIntentKind_as_persisted WorkManagementH2aIntentKind.ResolveDecisionRequest =
     ''resolve_decision_request''"
| "WorkManagementH2aIntentKind_as_persisted WorkManagementH2aIntentKind.CompleteAction =
     ''complete_action''"
| "WorkManagementH2aIntentKind_as_persisted WorkManagementH2aIntentKind.CancelAction =
     ''cancel_action''"
| "WorkManagementH2aIntentKind_as_persisted WorkManagementH2aIntentKind.ReopenAction =
     ''reopen_action''"
| "WorkManagementH2aIntentKind_as_persisted WorkManagementH2aIntentKind.SupersedeDecision =
     ''supersede_decision''"
| "WorkManagementH2aIntentKind_as_persisted WorkManagementH2aIntentKind.RecordRiskOccurrence =
     ''record_risk_occurrence''"
| "WorkManagementH2aIntentKind_as_persisted WorkManagementH2aIntentKind.CloseRisk =
     ''close_risk''"
| "WorkManagementH2aIntentKind_as_persisted WorkManagementH2aIntentKind.ResolveIssue =
     ''resolve_issue''"
| "WorkManagementH2aIntentKind_as_persisted WorkManagementH2aIntentKind.CloseIssue =
     ''close_issue''"
| "WorkManagementH2aIntentKind_as_persisted WorkManagementH2aIntentKind.ReopenIssue =
     ''reopen_issue''"
| "WorkManagementH2aIntentKind_as_persisted WorkManagementH2aIntentKind.LowerPortfolioClassification =
     ''lower_portfolio_classification''"
| "WorkManagementH2aIntentKind_as_persisted WorkManagementH2aIntentKind.LowerProductClassification =
     ''lower_product_classification''"
| "WorkManagementH2aIntentKind_as_persisted WorkManagementH2aIntentKind.LowerRoadmapClassification =
     ''lower_roadmap_classification''"
| "WorkManagementH2aIntentKind_as_persisted WorkManagementH2aIntentKind.LowerKpiClassification =
     ''lower_kpi_classification''"
| "WorkManagementH2aIntentKind_as_persisted WorkManagementH2aIntentKind.LowerKpiObservationClassification =
     ''lower_kpi_observation_classification''"
| "WorkManagementH2aIntentKind_as_persisted WorkManagementH2aIntentKind.LowerActionClassification =
     ''lower_action_classification''"
| "WorkManagementH2aIntentKind_as_persisted WorkManagementH2aIntentKind.LowerDecisionClassification =
     ''lower_decision_classification''"
| "WorkManagementH2aIntentKind_as_persisted WorkManagementH2aIntentKind.LowerRiskClassification =
     ''lower_risk_classification''"
| "WorkManagementH2aIntentKind_as_persisted WorkManagementH2aIntentKind.LowerIssueClassification =
     ''lower_issue_classification''"
| "WorkManagementH2aIntentKind_as_persisted WorkManagementH2aIntentKind.LowerInitiativeClassification =
     ''lower_initiative_classification''"
| "WorkManagementH2aIntentKind_as_persisted WorkManagementH2aIntentKind.LowerProjectClassification =
     ''lower_project_classification''"
| "WorkManagementH2aIntentKind_as_persisted WorkManagementH2aIntentKind.LowerMilestoneClassification =
     ''lower_milestone_classification''"

definition WorkManagementH2aIntentKind_from_persisted ::
  "string \<Rightarrow> DomainValueError + WorkManagementH2aIntentKind" where
  "WorkManagementH2aIntentKind_from_persisted s =
     ok_or (DomainValueError UnknownPersistedValue)
       (find (\<lambda>kind. WorkManagementH2aIntentKind_as_persisted kind = s)
         WorkManagementH2aIntentKind_ALL)"

lemma WorkManagementH2aIntentKind_ALL_complete: "kind \<in> set WorkManagementH2aIntentKind_ALL"
  by (cases kind) (simp_all add: WorkManagementH2aIntentKind_ALL_def)

lemma WorkManagementH2aIntentKind_persisted_distinct:
  "distinct (map WorkManagementH2aIntentKind_as_persisted WorkManagementH2aIntentKind_ALL)"
  by code_simp

lemma WorkManagementH2aIntentKind_as_persisted_inject:
  "WorkManagementH2aIntentKind_as_persisted j = WorkManagementH2aIntentKind_as_persisted k \<longleftrightarrow> j = k"
  using WorkManagementH2aIntentKind_persisted_distinct WorkManagementH2aIntentKind_ALL_complete
  by (auto simp: distinct_map dest: inj_onD)

interpretation WorkManagementH2aIntentKind: persisted_codec
  WorkManagementH2aIntentKind_as_persisted WorkManagementH2aIntentKind_from_persisted
  "DomainValueError UnknownPersistedValue"
proof
  fix x :: WorkManagementH2aIntentKind and s and e
  have "find (\<lambda>k. WorkManagementH2aIntentKind_as_persisted k = WorkManagementH2aIntentKind_as_persisted x)
      WorkManagementH2aIntentKind_ALL = Some x"
    using WorkManagementH2aIntentKind_ALL_complete [of x]
    by (simp only: WorkManagementH2aIntentKind_as_persisted_inject)
      (cases x; simp add: WorkManagementH2aIntentKind_ALL_def)
  then show "WorkManagementH2aIntentKind_from_persisted (WorkManagementH2aIntentKind_as_persisted x) = Inr x"
    by (simp add: WorkManagementH2aIntentKind_from_persisted_def)
  show "WorkManagementH2aIntentKind_as_persisted x = s"
    if "WorkManagementH2aIntentKind_from_persisted s = Inr x"
    using that by (auto simp: WorkManagementH2aIntentKind_from_persisted_def find_Some_iff)
  show "e = DomainValueError UnknownPersistedValue"
    if "WorkManagementH2aIntentKind_from_persisted s = Inl e"
    using that by (auto simp: WorkManagementH2aIntentKind_from_persisted_def ok_or_def split: option.splits)
qed

section \<open>Operations\<close>

record DecisionResultingActionRequest =
  resulting_id :: entity_id
  resulting_subject :: string
  resulting_details :: string
  resulting_intended_owner :: entity_id
  resulting_due_at :: UtcTimestamp
  resulting_classification :: DataClassification

record EvidenceClassificationBinding =
  binding_evidence_id :: entity_id
  binding_classification :: DataClassification

datatype ActionReopenMode = ReopenCompleted | RestartCancelled

datatype IncompleteDownstreamWork =
  DownstreamActionRequest entity_id AggregateVersion DataClassification
| DownstreamAction entity_id AggregateVersion DataClassification

fun downstream_id :: "IncompleteDownstreamWork \<Rightarrow> string" where
  "downstream_id (DownstreamActionRequest i _ _) = i"
| "downstream_id (DownstreamAction i _ _) = i"

fun downstream_kind :: "IncompleteDownstreamWork \<Rightarrow> nat" where
  "downstream_kind (DownstreamActionRequest _ _ _) = 0"
| "downstream_kind (DownstreamAction _ _ _) = 1"

definition same_downstream_identity ::
  "IncompleteDownstreamWork \<Rightarrow> IncompleteDownstreamWork \<Rightarrow> bool" where
  "same_downstream_identity l r \<longleftrightarrow>
     downstream_kind l = downstream_kind r \<and> downstream_id l = downstream_id r"

text \<open>
  The fields, in order:
  \<^item> \<open>AcceptActionRequest\<close>: request id and version, action id, action classification, subject,
    commitment details, intended owner, intended due date;
  \<^item> \<open>ResolveDecisionRequest\<close>: request id and version, decision id, decision classification,
    statement, rationale, impact, decision owner, decided at, resulting action requests;
  \<^item> \<open>CancelAction\<close>: action id and version, reason, evidence bindings; \<open>ReopenAction\<close> has the
    mode before the reason;
  \<^item> \<open>SupersedeDecision\<close>: decision id and version, replacement id and version, replacement
    classification, statement, rationale, impact, owner, decided at, resulting action requests,
    incomplete downstream work;
  \<^item> \<open>Lower*Classification\<close>: id, version, current and proposed classification, rationale.
\<close>

datatype WorkManagementOperation =
  AcceptActionRequest entity_id AggregateVersion entity_id DataClassification string string
    entity_id UtcTimestamp
| ResolveDecisionRequest entity_id AggregateVersion entity_id DataClassification string string
    string entity_id UtcTimestamp "DecisionResultingActionRequest list"
| CompleteAction entity_id AggregateVersion
| CancelAction entity_id AggregateVersion string "EvidenceClassificationBinding list"
| ReopenAction entity_id AggregateVersion ActionReopenMode string
    "EvidenceClassificationBinding list"
| SupersedeDecision entity_id AggregateVersion entity_id AggregateVersion DataClassification
    string string string entity_id UtcTimestamp "DecisionResultingActionRequest list"
    "IncompleteDownstreamWork list"
| RecordRiskOccurrence entity_id AggregateVersion entity_id DataClassification
| CloseRisk entity_id AggregateVersion string
| ResolveIssue entity_id AggregateVersion IssueResolutionType string
| CloseIssue entity_id AggregateVersion
| ReopenIssue entity_id AggregateVersion string
| LowerPortfolioClassification entity_id AggregateVersion DataClassification DataClassification string
| LowerProductClassification entity_id AggregateVersion DataClassification DataClassification string
| LowerRoadmapClassification entity_id AggregateVersion DataClassification DataClassification string
| LowerKpiClassification entity_id AggregateVersion DataClassification DataClassification string
| LowerKpiObservationClassification entity_id AggregateVersion DataClassification DataClassification string
| LowerActionClassification entity_id AggregateVersion DataClassification DataClassification string
| LowerDecisionClassification entity_id AggregateVersion DataClassification DataClassification string
| LowerRiskClassification entity_id AggregateVersion DataClassification DataClassification string
| LowerIssueClassification entity_id AggregateVersion DataClassification DataClassification string
| LowerInitiativeClassification entity_id AggregateVersion DataClassification DataClassification string
| LowerProjectClassification entity_id AggregateVersion DataClassification DataClassification string
| LowerMilestoneClassification entity_id AggregateVersion DataClassification DataClassification string

datatype WorkManagementTarget =
  ActionRequest entity_id AggregateVersion
| Action entity_id AggregateVersion
| DecisionRequest entity_id AggregateVersion
| Decision entity_id AggregateVersion
| Risk entity_id AggregateVersion
| Issue entity_id AggregateVersion
| Portfolio entity_id AggregateVersion
| Product entity_id AggregateVersion
| Roadmap entity_id AggregateVersion
| Kpi entity_id AggregateVersion
| KpiObservation entity_id AggregateVersion
| Initiative entity_id AggregateVersion
| Project entity_id AggregateVersion
| Milestone entity_id AggregateVersion

datatype WorkManagementEffect =
  AcceptActionRequest entity_id
| CreateAction entity_id
| LinkActionRequestToAction entity_id entity_id
| ResolveDecisionRequest entity_id
| CreateDecision entity_id
| LinkDecisionRequestToDecision entity_id entity_id
| CreateResultingActionRequest entity_id
| LinkDecisionToActionRequest entity_id entity_id
| CompleteAction entity_id
| CancelAction entity_id
| ReopenAction entity_id
| SupersedeDecision entity_id
| LinkReplacementDecision entity_id entity_id
| FlagSupersededPremiseActionRequest entity_id
| FlagSupersededPremiseAction entity_id
| RecordRiskOccurrence entity_id
| CreateIssue entity_id
| LinkRiskToIssue entity_id entity_id
| CloseRisk entity_id
| ResolveIssue entity_id
| CloseIssue entity_id
| ReopenIssue entity_id
| LowerPortfolioClassification entity_id
| LowerProductClassification entity_id
| LowerRoadmapClassification entity_id
| LowerKpiClassification entity_id
| LowerKpiObservationClassification entity_id
| LowerActionClassification entity_id
| LowerDecisionClassification entity_id
| LowerRiskClassification entity_id
| LowerIssueClassification entity_id
| LowerInitiativeClassification entity_id
| LowerProjectClassification entity_id
| LowerMilestoneClassification entity_id

datatype WorkManagementClassificationSourceRole =
  PrimaryTarget | CreatedActionRole | CreatedDecisionRole | ReplacementDecisionRole
| CreatedIssueRole
| DownstreamActionRequestRole entity_id
| DownstreamActionRole entity_id
| ResultingActionRequestRole entity_id
| EvidenceSource entity_id
| HumanJudgmentRole

record WorkManagementClassificationSource =
  source_role :: WorkManagementClassificationSourceRole
  source_classification :: DataClassification

fun kind :: "WorkManagementOperation \<Rightarrow> WorkManagementH2aIntentKind" where
  "kind (WorkManagementOperation.AcceptActionRequest _ _ _ _ _ _ _ _) =
     WorkManagementH2aIntentKind.AcceptActionRequest"
| "kind (WorkManagementOperation.ResolveDecisionRequest _ _ _ _ _ _ _ _ _ _) =
     WorkManagementH2aIntentKind.ResolveDecisionRequest"
| "kind (WorkManagementOperation.CompleteAction _ _) =
     WorkManagementH2aIntentKind.CompleteAction"
| "kind (WorkManagementOperation.CancelAction _ _ _ _) =
     WorkManagementH2aIntentKind.CancelAction"
| "kind (WorkManagementOperation.ReopenAction _ _ _ _ _) =
     WorkManagementH2aIntentKind.ReopenAction"
| "kind (WorkManagementOperation.SupersedeDecision _ _ _ _ _ _ _ _ _ _ _ _) =
     WorkManagementH2aIntentKind.SupersedeDecision"
| "kind (WorkManagementOperation.RecordRiskOccurrence _ _ _ _) =
     WorkManagementH2aIntentKind.RecordRiskOccurrence"
| "kind (WorkManagementOperation.CloseRisk _ _ _) =
     WorkManagementH2aIntentKind.CloseRisk"
| "kind (WorkManagementOperation.ResolveIssue _ _ _ _) =
     WorkManagementH2aIntentKind.ResolveIssue"
| "kind (WorkManagementOperation.CloseIssue _ _) =
     WorkManagementH2aIntentKind.CloseIssue"
| "kind (WorkManagementOperation.ReopenIssue _ _ _) =
     WorkManagementH2aIntentKind.ReopenIssue"
| "kind (WorkManagementOperation.LowerPortfolioClassification _ _ _ _ _) =
     WorkManagementH2aIntentKind.LowerPortfolioClassification"
| "kind (WorkManagementOperation.LowerProductClassification _ _ _ _ _) =
     WorkManagementH2aIntentKind.LowerProductClassification"
| "kind (WorkManagementOperation.LowerRoadmapClassification _ _ _ _ _) =
     WorkManagementH2aIntentKind.LowerRoadmapClassification"
| "kind (WorkManagementOperation.LowerKpiClassification _ _ _ _ _) =
     WorkManagementH2aIntentKind.LowerKpiClassification"
| "kind (WorkManagementOperation.LowerKpiObservationClassification _ _ _ _ _) =
     WorkManagementH2aIntentKind.LowerKpiObservationClassification"
| "kind (WorkManagementOperation.LowerActionClassification _ _ _ _ _) =
     WorkManagementH2aIntentKind.LowerActionClassification"
| "kind (WorkManagementOperation.LowerDecisionClassification _ _ _ _ _) =
     WorkManagementH2aIntentKind.LowerDecisionClassification"
| "kind (WorkManagementOperation.LowerRiskClassification _ _ _ _ _) =
     WorkManagementH2aIntentKind.LowerRiskClassification"
| "kind (WorkManagementOperation.LowerIssueClassification _ _ _ _ _) =
     WorkManagementH2aIntentKind.LowerIssueClassification"
| "kind (WorkManagementOperation.LowerInitiativeClassification _ _ _ _ _) =
     WorkManagementH2aIntentKind.LowerInitiativeClassification"
| "kind (WorkManagementOperation.LowerProjectClassification _ _ _ _ _) =
     WorkManagementH2aIntentKind.LowerProjectClassification"
| "kind (WorkManagementOperation.LowerMilestoneClassification _ _ _ _ _) =
     WorkManagementH2aIntentKind.LowerMilestoneClassification"

definition operation_support_requirement :: "WorkManagementOperation \<Rightarrow> SupportRequirement option" where
  "operation_support_requirement op =
     (case op of
        WorkManagementOperation.CompleteAction _ _ \<Rightarrow> Some EvidenceRequired
      | WorkManagementOperation.ResolveIssue _ _ _ _ \<Rightarrow> Some EvidenceRequired
      | WorkManagementOperation.CloseIssue _ _ \<Rightarrow> Some EvidenceRequired
      | WorkManagementOperation.ReopenIssue _ _ _ \<Rightarrow> Some EvidenceRequired
      | WorkManagementOperation.ResolveDecisionRequest _ _ _ _ _ _ _ _ _ _ \<Rightarrow>
          Some EvidenceOrJudgmentRequired
      | WorkManagementOperation.SupersedeDecision _ _ _ _ _ _ _ _ _ _ _ _ \<Rightarrow>
          Some EvidenceOrJudgmentRequired
      | _ \<Rightarrow> None)"

definition required_evidence_role :: "WorkManagementOperation \<Rightarrow> EvidenceRole option" where
  "required_evidence_role op =
     (case op of
        WorkManagementOperation.CompleteAction _ _ \<Rightarrow> Some EvidenceRole.ActionCompletion
      | WorkManagementOperation.ResolveDecisionRequest _ _ _ _ _ _ _ _ _ _ \<Rightarrow>
          Some EvidenceRole.DecisionResolution
      | WorkManagementOperation.SupersedeDecision _ _ _ _ _ _ _ _ _ _ _ _ \<Rightarrow>
          Some EvidenceRole.DecisionResolution
      | WorkManagementOperation.ResolveIssue _ _ _ _ \<Rightarrow> Some EvidenceRole.IssueResolution
      | WorkManagementOperation.CloseIssue _ _ \<Rightarrow> Some EvidenceRole.IssueClosureVerification
      | WorkManagementOperation.ReopenIssue _ _ _ \<Rightarrow> Some EvidenceRole.IssueFailedVerification
      | _ \<Rightarrow> None)"

fun downstream_target :: "IncompleteDownstreamWork \<Rightarrow> WorkManagementTarget" where
  "downstream_target (DownstreamActionRequest i v _) = WorkManagementTarget.ActionRequest i v"
| "downstream_target (DownstreamAction i v _) = WorkManagementTarget.Action i v"

abbreviation resulting_target :: "DecisionResultingActionRequest \<Rightarrow> WorkManagementTarget" where
  "resulting_target item \<equiv>
     WorkManagementTarget.ActionRequest (resulting_id item) AggregateVersion_initial"

fun targets :: "WorkManagementOperation \<Rightarrow> WorkManagementTarget list" where
  "targets (WorkManagementOperation.AcceptActionRequest i v _ _ _ _ _ _) = [WorkManagementTarget.ActionRequest i v]"
| "targets (WorkManagementOperation.ResolveDecisionRequest i v d _ _ _ _ _ _ rs) =
     [WorkManagementTarget.DecisionRequest i v, WorkManagementTarget.Decision d AggregateVersion_initial] @
     map resulting_target rs"
| "targets (WorkManagementOperation.CompleteAction i v) = [WorkManagementTarget.Action i v]"
| "targets (WorkManagementOperation.CancelAction i v _ _) = [WorkManagementTarget.Action i v]"
| "targets (WorkManagementOperation.ReopenAction i v _ _ _) = [WorkManagementTarget.Action i v]"
| "targets (WorkManagementOperation.SupersedeDecision i v r rv _ _ _ _ _ _ rs ds) =
     [WorkManagementTarget.Decision i v, WorkManagementTarget.Decision r rv] @ map resulting_target rs @
     map downstream_target ds"
| "targets (WorkManagementOperation.RecordRiskOccurrence i v _ _) = [WorkManagementTarget.Risk i v]"
| "targets (WorkManagementOperation.CloseRisk i v _) = [WorkManagementTarget.Risk i v]"
| "targets (WorkManagementOperation.ResolveIssue i v _ _) = [WorkManagementTarget.Issue i v]"
| "targets (WorkManagementOperation.CloseIssue i v) = [WorkManagementTarget.Issue i v]"
| "targets (WorkManagementOperation.ReopenIssue i v _) = [WorkManagementTarget.Issue i v]"
| "targets (WorkManagementOperation.LowerPortfolioClassification i v _ _ _) = [WorkManagementTarget.Portfolio i v]"
| "targets (WorkManagementOperation.LowerProductClassification i v _ _ _) = [WorkManagementTarget.Product i v]"
| "targets (WorkManagementOperation.LowerRoadmapClassification i v _ _ _) = [WorkManagementTarget.Roadmap i v]"
| "targets (WorkManagementOperation.LowerKpiClassification i v _ _ _) = [WorkManagementTarget.Kpi i v]"
| "targets (WorkManagementOperation.LowerKpiObservationClassification i v _ _ _) = [WorkManagementTarget.KpiObservation i v]"
| "targets (WorkManagementOperation.LowerActionClassification i v _ _ _) = [WorkManagementTarget.Action i v]"
| "targets (WorkManagementOperation.LowerDecisionClassification i v _ _ _) = [WorkManagementTarget.Decision i v]"
| "targets (WorkManagementOperation.LowerRiskClassification i v _ _ _) = [WorkManagementTarget.Risk i v]"
| "targets (WorkManagementOperation.LowerIssueClassification i v _ _ _) = [WorkManagementTarget.Issue i v]"
| "targets (WorkManagementOperation.LowerInitiativeClassification i v _ _ _) = [WorkManagementTarget.Initiative i v]"
| "targets (WorkManagementOperation.LowerProjectClassification i v _ _ _) = [WorkManagementTarget.Project i v]"
| "targets (WorkManagementOperation.LowerMilestoneClassification i v _ _ _) = [WorkManagementTarget.Milestone i v]"

fun downstream_effect :: "IncompleteDownstreamWork \<Rightarrow> WorkManagementEffect" where
  "downstream_effect (DownstreamActionRequest i _ _) =
     WorkManagementEffect.FlagSupersededPremiseActionRequest i"
| "downstream_effect (DownstreamAction i _ _) = WorkManagementEffect.FlagSupersededPremiseAction i"

definition resulting_effects ::
  "entity_id \<Rightarrow> DecisionResultingActionRequest \<Rightarrow> WorkManagementEffect list" where
  "resulting_effects decision item =
     [WorkManagementEffect.CreateResultingActionRequest (resulting_id item),
      WorkManagementEffect.LinkDecisionToActionRequest decision (resulting_id item)]"

fun effects :: "WorkManagementOperation \<Rightarrow> WorkManagementEffect list" where
  "effects (WorkManagementOperation.AcceptActionRequest i _ a _ _ _ _ _) =
     [WorkManagementEffect.AcceptActionRequest i, WorkManagementEffect.CreateAction a,
      WorkManagementEffect.LinkActionRequestToAction i a]"
| "effects (WorkManagementOperation.ResolveDecisionRequest i _ d _ _ _ _ _ _ rs) =
     [WorkManagementEffect.ResolveDecisionRequest i, WorkManagementEffect.CreateDecision d,
      WorkManagementEffect.LinkDecisionRequestToDecision i d] @ concat (map (resulting_effects d) rs)"
| "effects (WorkManagementOperation.CompleteAction i _) = [WorkManagementEffect.CompleteAction i]"
| "effects (WorkManagementOperation.CancelAction i _ _ _) = [WorkManagementEffect.CancelAction i]"
| "effects (WorkManagementOperation.ReopenAction i _ _ _ _) = [WorkManagementEffect.ReopenAction i]"
| "effects (WorkManagementOperation.SupersedeDecision i _ r _ _ _ _ _ _ _ rs ds) =
     [WorkManagementEffect.SupersedeDecision i, WorkManagementEffect.CreateDecision r,
      WorkManagementEffect.LinkReplacementDecision i r] @ concat (map (resulting_effects r) rs) @
     map downstream_effect ds"
| "effects (WorkManagementOperation.RecordRiskOccurrence i _ s _) =
     [WorkManagementEffect.RecordRiskOccurrence i, WorkManagementEffect.CreateIssue s,
      WorkManagementEffect.LinkRiskToIssue i s]"
| "effects (WorkManagementOperation.CloseRisk i _ _) = [WorkManagementEffect.CloseRisk i]"
| "effects (WorkManagementOperation.ResolveIssue i _ _ _) = [WorkManagementEffect.ResolveIssue i]"
| "effects (WorkManagementOperation.CloseIssue i _) = [WorkManagementEffect.CloseIssue i]"
| "effects (WorkManagementOperation.ReopenIssue i _ _) = [WorkManagementEffect.ReopenIssue i]"
| "effects (WorkManagementOperation.LowerPortfolioClassification i _ _ _ _) = [WorkManagementEffect.LowerPortfolioClassification i]"
| "effects (WorkManagementOperation.LowerProductClassification i _ _ _ _) = [WorkManagementEffect.LowerProductClassification i]"
| "effects (WorkManagementOperation.LowerRoadmapClassification i _ _ _ _) = [WorkManagementEffect.LowerRoadmapClassification i]"
| "effects (WorkManagementOperation.LowerKpiClassification i _ _ _ _) = [WorkManagementEffect.LowerKpiClassification i]"
| "effects (WorkManagementOperation.LowerKpiObservationClassification i _ _ _ _) = [WorkManagementEffect.LowerKpiObservationClassification i]"
| "effects (WorkManagementOperation.LowerActionClassification i _ _ _ _) = [WorkManagementEffect.LowerActionClassification i]"
| "effects (WorkManagementOperation.LowerDecisionClassification i _ _ _ _) = [WorkManagementEffect.LowerDecisionClassification i]"
| "effects (WorkManagementOperation.LowerRiskClassification i _ _ _ _) = [WorkManagementEffect.LowerRiskClassification i]"
| "effects (WorkManagementOperation.LowerIssueClassification i _ _ _ _) = [WorkManagementEffect.LowerIssueClassification i]"
| "effects (WorkManagementOperation.LowerInitiativeClassification i _ _ _ _) = [WorkManagementEffect.LowerInitiativeClassification i]"
| "effects (WorkManagementOperation.LowerProjectClassification i _ _ _ _) = [WorkManagementEffect.LowerProjectClassification i]"
| "effects (WorkManagementOperation.LowerMilestoneClassification i _ _ _ _) = [WorkManagementEffect.LowerMilestoneClassification i]"

definition resulting_source ::
  "DecisionResultingActionRequest \<Rightarrow> WorkManagementClassificationSource" where
  "resulting_source item =
     \<lparr>source_role = ResultingActionRequestRole (resulting_id item), source_classification = resulting_classification item\<rparr>"

fun downstream_source :: "IncompleteDownstreamWork \<Rightarrow> WorkManagementClassificationSource" where
  "downstream_source (DownstreamActionRequest i _ c) =
     \<lparr>source_role = DownstreamActionRequestRole i, source_classification = c\<rparr>"
| "downstream_source (DownstreamAction i _ c) =
     \<lparr>source_role = DownstreamActionRole i, source_classification = c\<rparr>"

definition binding_source ::
  "EvidenceClassificationBinding \<Rightarrow> WorkManagementClassificationSource" where
  "binding_source b =
     \<lparr>source_role = EvidenceSource (binding_evidence_id b), source_classification = binding_classification b\<rparr>"

definition classification_sources ::
  "WorkManagementOperation \<Rightarrow> WorkManagementClassificationSource list" where
  "classification_sources op =
     (case op of
        WorkManagementOperation.AcceptActionRequest _ _ _ c _ _ _ _ \<Rightarrow>
          [\<lparr>source_role = CreatedActionRole, source_classification = c\<rparr>]
      | WorkManagementOperation.ResolveDecisionRequest _ _ _ c _ _ _ _ _ rs \<Rightarrow>
          \<lparr>source_role = CreatedDecisionRole, source_classification = c\<rparr> # map resulting_source rs
      | WorkManagementOperation.SupersedeDecision _ _ _ _ c _ _ _ _ _ rs ds \<Rightarrow>
          \<lparr>source_role = ReplacementDecisionRole, source_classification = c\<rparr> #
          map resulting_source rs @ map downstream_source ds
      | WorkManagementOperation.RecordRiskOccurrence _ _ _ c \<Rightarrow>
          [\<lparr>source_role = CreatedIssueRole, source_classification = c\<rparr>]
      | WorkManagementOperation.CancelAction _ _ _ bs \<Rightarrow> map binding_source bs
      | WorkManagementOperation.ReopenAction _ _ _ _ bs \<Rightarrow> map binding_source bs
      | _ \<Rightarrow> [])"

end
