(* ===== verification/H2a_Digest.thy ===== *)
theory H2a_Digest
  imports H2a_Operation
begin

text \<open>
  The payload digest of \<^verbatim>\<open>work_management.rs\<close>: the sequence of length-prefixed fields a
  preview feeds to SHA-256. Each \<open>digest_*\<close> function returns the fields its source function
  passes to \<^verbatim>\<open>digest_field\<close>, in order; \<open>digest_stream\<close> is the resulting byte message. SHA-256
  itself (the \<^verbatim>\<open>sha2\<close> crate, lower-case hex) is the parameter \<open>sha256_hex\<close> of everything that
  computes a digest. The lemmas show that every one of these functions is a prefix code, so
  that the message determines the preview.
\<close>

definition digest_field :: "string \<Rightarrow> string" where
  "digest_field v = len_be_bytes v @ v"

definition digest_stream :: "string list \<Rightarrow> string" where
  "digest_stream fs = concat (map digest_field fs)"

definition version_bytes :: "AggregateVersion \<Rightarrow> string" where
  "version_bytes v = u64_be_bytes (version_get v)"

definition id_version :: "string \<Rightarrow> AggregateVersion \<Rightarrow> string list" where
  "id_version i v = [i, version_bytes v]"

definition resulting_fields :: "DecisionResultingActionRequest \<Rightarrow> string list" where
  "resulting_fields r =
     [resulting_id r, resulting_subject r, resulting_details r, resulting_intended_owner r,
      timestamp_be_bytes (resulting_due_at r),
      DataClassification_as_persisted (resulting_classification r)]"

definition digest_resulting_action_requests ::
  "DecisionResultingActionRequest list \<Rightarrow> string list" where
  "digest_resulting_action_requests = counted resulting_fields"

definition binding_fields :: "EvidenceClassificationBinding \<Rightarrow> string list" where
  "binding_fields b =
     [binding_evidence_id b, DataClassification_as_persisted (binding_classification b)]"

definition digest_evidence_classification_bindings ::
  "EvidenceClassificationBinding list \<Rightarrow> string list" where
  "digest_evidence_classification_bindings = counted binding_fields"

fun downstream_fields :: "IncompleteDownstreamWork \<Rightarrow> string list" where
  "downstream_fields (DownstreamActionRequest i v c) =
     ''action_request'' # id_version i v @ [DataClassification_as_persisted c]"
| "downstream_fields (DownstreamAction i v c) =
     ''action'' # id_version i v @ [DataClassification_as_persisted c]"

fun reopen_mode_name :: "ActionReopenMode \<Rightarrow> string" where
  "reopen_mode_name ReopenCompleted = ''reopen_completed''"
| "reopen_mode_name RestartCancelled = ''restart_cancelled''"

definition digest_lowering ::
  "entity_id \<Rightarrow> AggregateVersion \<Rightarrow> DataClassification \<Rightarrow> DataClassification \<Rightarrow> string \<Rightarrow> string list" where
  "digest_lowering i v current proposed rationale =
     id_version i v @
     [DataClassification_as_persisted current, DataClassification_as_persisted proposed, rationale]"

fun digest_operation :: "WorkManagementOperation \<Rightarrow> string list" where
  "digest_operation (WorkManagementOperation.AcceptActionRequest i v a c subject details owner due) =
     id_version i v @ [a, DataClassification_as_persisted c, subject, details, owner,
       timestamp_be_bytes due]"
| "digest_operation
     (WorkManagementOperation.ResolveDecisionRequest i v d c statement rationale impact owner decided rs) =
     id_version i v @ [d, DataClassification_as_persisted c, statement, rationale, impact, owner,
       timestamp_be_bytes decided] @ digest_resulting_action_requests rs"
| "digest_operation (WorkManagementOperation.CompleteAction i v) = id_version i v"
| "digest_operation (WorkManagementOperation.CancelAction i v reason bs) =
     id_version i v @ [reason] @ digest_evidence_classification_bindings bs"
| "digest_operation (WorkManagementOperation.ReopenAction i v mode reason bs) =
     id_version i v @ [reopen_mode_name mode, reason] @
     digest_evidence_classification_bindings bs"
| "digest_operation
     (WorkManagementOperation.SupersedeDecision i v r rv c statement rationale impact owner decided rs ds) =
     id_version i v @ id_version r rv @
     [statement, rationale, impact, owner, timestamp_be_bytes decided] @
     digest_resulting_action_requests rs @ [DataClassification_as_persisted c] @
     counted downstream_fields ds"
| "digest_operation (WorkManagementOperation.RecordRiskOccurrence i v s c) =
     id_version i v @ [s, DataClassification_as_persisted c]"
| "digest_operation (WorkManagementOperation.CloseRisk i v rationale) = id_version i v @ [rationale]"
| "digest_operation (WorkManagementOperation.ResolveIssue i v ty rationale) =
     id_version i v @ [IssueResolutionType_as_persisted ty, rationale]"
| "digest_operation (WorkManagementOperation.CloseIssue i v) = id_version i v"
| "digest_operation (WorkManagementOperation.ReopenIssue i v rationale) = id_version i v @ [rationale]"
| "digest_operation (WorkManagementOperation.LowerPortfolioClassification i v c p r) =
     digest_lowering i v c p r"
| "digest_operation (WorkManagementOperation.LowerProductClassification i v c p r) =
     digest_lowering i v c p r"
| "digest_operation (WorkManagementOperation.LowerRoadmapClassification i v c p r) =
     digest_lowering i v c p r"
| "digest_operation (WorkManagementOperation.LowerKpiClassification i v c p r) =
     digest_lowering i v c p r"
| "digest_operation (WorkManagementOperation.LowerKpiObservationClassification i v c p r) =
     digest_lowering i v c p r"
| "digest_operation (WorkManagementOperation.LowerActionClassification i v c p r) =
     digest_lowering i v c p r"
| "digest_operation (WorkManagementOperation.LowerDecisionClassification i v c p r) =
     digest_lowering i v c p r"
| "digest_operation (WorkManagementOperation.LowerRiskClassification i v c p r) =
     digest_lowering i v c p r"
| "digest_operation (WorkManagementOperation.LowerIssueClassification i v c p r) =
     digest_lowering i v c p r"
| "digest_operation (WorkManagementOperation.LowerInitiativeClassification i v c p r) =
     digest_lowering i v c p r"
| "digest_operation (WorkManagementOperation.LowerProjectClassification i v c p r) =
     digest_lowering i v c p r"
| "digest_operation (WorkManagementOperation.LowerMilestoneClassification i v c p r) =
     digest_lowering i v c p r"

fun digest_target :: "WorkManagementTarget \<Rightarrow> string list" where
  "digest_target (WorkManagementTarget.ActionRequest i v) = [''action_request'', i, version_bytes v]"
| "digest_target (WorkManagementTarget.Action i v) = [''action'', i, version_bytes v]"
| "digest_target (WorkManagementTarget.DecisionRequest i v) = [''decision_request'', i, version_bytes v]"
| "digest_target (WorkManagementTarget.Decision i v) = [''decision'', i, version_bytes v]"
| "digest_target (WorkManagementTarget.Risk i v) = [''risk'', i, version_bytes v]"
| "digest_target (WorkManagementTarget.Issue i v) = [''issue'', i, version_bytes v]"
| "digest_target (WorkManagementTarget.Portfolio i v) = [''portfolio'', i, version_bytes v]"
| "digest_target (WorkManagementTarget.Product i v) = [''product'', i, version_bytes v]"
| "digest_target (WorkManagementTarget.Roadmap i v) = [''roadmap'', i, version_bytes v]"
| "digest_target (WorkManagementTarget.Kpi i v) = [''kpi'', i, version_bytes v]"
| "digest_target (WorkManagementTarget.KpiObservation i v) = [''kpi_observation'', i, version_bytes v]"
| "digest_target (WorkManagementTarget.Initiative i v) = [''initiative'', i, version_bytes v]"
| "digest_target (WorkManagementTarget.Project i v) = [''project'', i, version_bytes v]"
| "digest_target (WorkManagementTarget.Milestone i v) = [''milestone'', i, version_bytes v]"

fun digest_effect :: "WorkManagementEffect \<Rightarrow> string list" where
  "digest_effect (WorkManagementEffect.AcceptActionRequest a) = [''accept_action_request'', a]"
| "digest_effect (WorkManagementEffect.CreateAction a) = [''create_action'', a]"
| "digest_effect (WorkManagementEffect.LinkActionRequestToAction a b) = [''link_action_request_to_action'', a, b]"
| "digest_effect (WorkManagementEffect.ResolveDecisionRequest a) = [''resolve_decision_request'', a]"
| "digest_effect (WorkManagementEffect.CreateDecision a) = [''create_decision'', a]"
| "digest_effect (WorkManagementEffect.LinkDecisionRequestToDecision a b) = [''link_decision_request_to_decision'', a, b]"
| "digest_effect (WorkManagementEffect.CreateResultingActionRequest a) = [''create_resulting_action_request'', a]"
| "digest_effect (WorkManagementEffect.LinkDecisionToActionRequest a b) = [''link_decision_to_action_request'', a, b]"
| "digest_effect (WorkManagementEffect.CompleteAction a) = [''complete_action'', a]"
| "digest_effect (WorkManagementEffect.CancelAction a) = [''cancel_action'', a]"
| "digest_effect (WorkManagementEffect.ReopenAction a) = [''reopen_action'', a]"
| "digest_effect (WorkManagementEffect.SupersedeDecision a) = [''supersede_decision'', a]"
| "digest_effect (WorkManagementEffect.LinkReplacementDecision a b) = [''link_replacement_decision'', a, b]"
| "digest_effect (WorkManagementEffect.FlagSupersededPremiseActionRequest a) = [''flag_superseded_premise_action_request'', a]"
| "digest_effect (WorkManagementEffect.FlagSupersededPremiseAction a) = [''flag_superseded_premise_action'', a]"
| "digest_effect (WorkManagementEffect.RecordRiskOccurrence a) = [''record_risk_occurrence'', a]"
| "digest_effect (WorkManagementEffect.CreateIssue a) = [''create_issue'', a]"
| "digest_effect (WorkManagementEffect.LinkRiskToIssue a b) = [''link_risk_to_issue'', a, b]"
| "digest_effect (WorkManagementEffect.CloseRisk a) = [''close_risk'', a]"
| "digest_effect (WorkManagementEffect.ResolveIssue a) = [''resolve_issue'', a]"
| "digest_effect (WorkManagementEffect.CloseIssue a) = [''close_issue'', a]"
| "digest_effect (WorkManagementEffect.ReopenIssue a) = [''reopen_issue'', a]"
| "digest_effect (WorkManagementEffect.LowerPortfolioClassification a) = [''lower_portfolio_classification'', a]"
| "digest_effect (WorkManagementEffect.LowerProductClassification a) = [''lower_product_classification'', a]"
| "digest_effect (WorkManagementEffect.LowerRoadmapClassification a) = [''lower_roadmap_classification'', a]"
| "digest_effect (WorkManagementEffect.LowerKpiClassification a) = [''lower_kpi_classification'', a]"
| "digest_effect (WorkManagementEffect.LowerKpiObservationClassification a) = [''lower_kpi_observation_classification'', a]"
| "digest_effect (WorkManagementEffect.LowerActionClassification a) = [''lower_action_classification'', a]"
| "digest_effect (WorkManagementEffect.LowerDecisionClassification a) = [''lower_decision_classification'', a]"
| "digest_effect (WorkManagementEffect.LowerRiskClassification a) = [''lower_risk_classification'', a]"
| "digest_effect (WorkManagementEffect.LowerIssueClassification a) = [''lower_issue_classification'', a]"
| "digest_effect (WorkManagementEffect.LowerInitiativeClassification a) = [''lower_initiative_classification'', a]"
| "digest_effect (WorkManagementEffect.LowerProjectClassification a) = [''lower_project_classification'', a]"
| "digest_effect (WorkManagementEffect.LowerMilestoneClassification a) = [''lower_milestone_classification'', a]"

fun role_fields :: "WorkManagementClassificationSourceRole \<Rightarrow> string list" where
  "role_fields PrimaryTarget = [''primary_target'']"
| "role_fields CreatedActionRole = [''created_action'']"
| "role_fields CreatedDecisionRole = [''created_decision'']"
| "role_fields ReplacementDecisionRole = [''replacement_decision'']"
| "role_fields CreatedIssueRole = [''created_issue'']"
| "role_fields (DownstreamActionRequestRole i) = [''downstream_action_request'', i]"
| "role_fields (DownstreamActionRole i) = [''downstream_action'', i]"
| "role_fields (ResultingActionRequestRole i) = [''resulting_action_request'', i]"
| "role_fields (EvidenceSource i) = [''evidence'', i]"
| "role_fields HumanJudgmentRole = [''human_judgment'']"

definition digest_classification_source :: "WorkManagementClassificationSource \<Rightarrow> string list" where
  "digest_classification_source s =
     role_fields (source_role s) @ [DataClassification_as_persisted (source_classification s)]"

fun support_name :: "SupportDisposition \<Rightarrow> string" where
  "support_name EvidenceSatisfied = ''evidence_satisfied''"
| "support_name JudgmentSatisfied = ''judgment_satisfied''"
| "support_name VerificationPending = ''verification_pending''"

fun verification_fields :: "EvidenceVerification \<Rightarrow> string list" where
  "verification_fields (Verified t d) = [''verified'', timestamp_be_bytes t, d]"
| "verification_fields (DegradedLastVerified t d) =
     [''degraded_last_verified'', timestamp_be_bytes t, d]"
| "verification_fields Unverified = [''unverified'']"
| "verification_fields IntegrityMismatch = [''integrity_mismatch'']"
| "verification_fields (ObservedUnpinned t d) = [''observed_unpinned'', timestamp_be_bytes t, d]"

definition evidence_fields :: "EvidenceReferenceMetadata \<Rightarrow> string list" where
  "evidence_fields m =
     [meta_id m, version_bytes (meta_source_version m),
      DataClassification_as_persisted (meta_classification m),
      EvidenceRole_as_persisted (meta_role m)] @ verification_fields (meta_verification m)"

definition judgment_fields :: "HumanJudgment \<Rightarrow> string list" where
  "judgment_fields j =
     [''head_of_products'', ''proceed_with_documented_rationale'', judgment_rationale j,
      DataClassification_as_persisted (judgment_classification j)]"

definition digest_support :: "SupportWitness option \<Rightarrow> string list" where
  "digest_support support =
     (case support of
        None \<Rightarrow> [''none'']
      | Some w \<Rightarrow>
          [support_name (support_disposition w),
           DataClassification_as_persisted (support_classification w)] @
          counted evidence_fields (support_evidence w) @
          counted judgment_fields (support_judgments w))"

section \<open>Every field function is a prefix code\<close>

lemmas persisted_inject [simp] =
  DataClassification.enc_inject EvidenceRole.enc_inject IssueResolutionType.enc_inject
  WorkManagementH2aIntentKind.enc_inject

lemma version_bytes_inject [simp]: "version_bytes v = version_bytes w \<longleftrightarrow> v = w"
  by (cases v; cases w) (simp add: version_bytes_def)

lemma reopen_mode_name_inject [simp]: "reopen_mode_name a = reopen_mode_name b \<longleftrightarrow> a = b"
  by (cases a; cases b) simp_all

lemma support_name_inject [simp]: "support_name a = support_name b \<longleftrightarrow> a = b"
  by (cases a; cases b) simp_all

lemma support_name_not_none [simp]: "support_name d \<noteq> ''none''" "''none'' \<noteq> support_name d"
  by (cases d; simp)+

lemma len_be_bytes_append_eq:
  "length x < 2 ^ 64 \<Longrightarrow> length y < 2 ^ 64 \<Longrightarrow>
     len_be_bytes x @ x @ r = len_be_bytes y @ y @ s \<Longrightarrow> x = y \<and> r = s"
proof -
  assume lens: "length x < 2 ^ 64" "length y < 2 ^ 64"
    and eq: "len_be_bytes x @ x @ r = len_be_bytes y @ y @ s"
  from eq have "len_be_bytes x = len_be_bytes y \<and> x @ r = y @ s"
    by (metis append_eq_append_conv length_len_be_bytes)
  with len_be_bytes_inject [OF lens] have "length x = length y" and "x @ r = y @ s" by blast+
  then show "x = y \<and> r = s" by (metis append_eq_append_conv)
qed

interpretation digest_field: nonempty_prefix_code digest_field "\<lambda>v. length v < 2 ^ 64"
proof
  fix x y r s :: string
  show "x = y \<and> r = s" if "length x < 2 ^ 64" "length y < 2 ^ 64"
    "digest_field x @ r = digest_field y @ s"
    using that len_be_bytes_append_eq [of x y r s] by (simp only: digest_field_def append_assoc)
  show "digest_field x \<noteq> []"
    by (metis append_is_Nil_conv digest_field_def length_len_be_bytes list.size(3) zero_neq_numeral)
qed

interpretation resulting: field_code resulting_fields "\<lambda>_. True"
  by unfold_locales (auto simp: resulting_fields_def)

interpretation binding: field_code binding_fields "\<lambda>_. True"
  by unfold_locales (auto simp: binding_fields_def)

text \<open>
  Parsers used only in these proofs: the name a target, an effect, a source role or a
  verification state starts with selects the constructor and the number of its fields.
\<close>

lemma inv_bytes [simp]:
  "inv version_bytes (version_bytes v) = v"
  "inv timestamp_be_bytes (timestamp_be_bytes t) = t"
  "inv DataClassification_as_persisted (DataClassification_as_persisted c) = c"
  by (auto intro!: inv_f_f injI)

definition parse_downstream :: "string list \<Rightarrow> IncompleteDownstreamWork \<times> string list" where
  "parse_downstream fs =
    (case fs of [] \<Rightarrow> undefined | n # rest \<Rightarrow>
     if n = ''action_request'' then (DownstreamActionRequest (rest ! 0) (inv version_bytes (rest ! 1)) (inv DataClassification_as_persisted (rest ! 2)), drop 3 rest)
     else if n = ''action'' then (DownstreamAction (rest ! 0) (inv version_bytes (rest ! 1)) (inv DataClassification_as_persisted (rest ! 2)), drop 3 rest)
     else undefined)"

interpretation downstream: parsed_code downstream_fields parse_downstream
proof
  fix x and r
  show "parse_downstream (downstream_fields x @ r) = (x, r)"
    by (cases x) (simp_all add: parse_downstream_def id_version_def)
qed

definition parse_target :: "string list \<Rightarrow> WorkManagementTarget \<times> string list" where
  "parse_target fs =
    (case fs of [] \<Rightarrow> undefined | n # rest \<Rightarrow>
     if n = ''action_request'' then (WorkManagementTarget.ActionRequest (rest ! 0) (inv version_bytes (rest ! 1)), drop 2 rest)
     else if n = ''action'' then (WorkManagementTarget.Action (rest ! 0) (inv version_bytes (rest ! 1)), drop 2 rest)
     else if n = ''decision_request'' then (WorkManagementTarget.DecisionRequest (rest ! 0) (inv version_bytes (rest ! 1)), drop 2 rest)
     else if n = ''decision'' then (WorkManagementTarget.Decision (rest ! 0) (inv version_bytes (rest ! 1)), drop 2 rest)
     else if n = ''risk'' then (WorkManagementTarget.Risk (rest ! 0) (inv version_bytes (rest ! 1)), drop 2 rest)
     else if n = ''issue'' then (WorkManagementTarget.Issue (rest ! 0) (inv version_bytes (rest ! 1)), drop 2 rest)
     else if n = ''portfolio'' then (WorkManagementTarget.Portfolio (rest ! 0) (inv version_bytes (rest ! 1)), drop 2 rest)
     else if n = ''product'' then (WorkManagementTarget.Product (rest ! 0) (inv version_bytes (rest ! 1)), drop 2 rest)
     else if n = ''roadmap'' then (WorkManagementTarget.Roadmap (rest ! 0) (inv version_bytes (rest ! 1)), drop 2 rest)
     else if n = ''kpi'' then (WorkManagementTarget.Kpi (rest ! 0) (inv version_bytes (rest ! 1)), drop 2 rest)
     else if n = ''kpi_observation'' then (WorkManagementTarget.KpiObservation (rest ! 0) (inv version_bytes (rest ! 1)), drop 2 rest)
     else if n = ''initiative'' then (WorkManagementTarget.Initiative (rest ! 0) (inv version_bytes (rest ! 1)), drop 2 rest)
     else if n = ''project'' then (WorkManagementTarget.Project (rest ! 0) (inv version_bytes (rest ! 1)), drop 2 rest)
     else if n = ''milestone'' then (WorkManagementTarget.Milestone (rest ! 0) (inv version_bytes (rest ! 1)), drop 2 rest)
     else undefined)"

interpretation target: parsed_code digest_target parse_target
proof
  fix x and r
  show "parse_target (digest_target x @ r) = (x, r)"
    by (cases x) (simp_all add: parse_target_def)
qed

definition parse_effect :: "string list \<Rightarrow> WorkManagementEffect \<times> string list" where
  "parse_effect fs =
    (case fs of [] \<Rightarrow> undefined | n # rest \<Rightarrow>
     if n = ''accept_action_request'' then (WorkManagementEffect.AcceptActionRequest (rest ! 0), drop 1 rest)
     else if n = ''create_action'' then (WorkManagementEffect.CreateAction (rest ! 0), drop 1 rest)
     else if n = ''link_action_request_to_action'' then (WorkManagementEffect.LinkActionRequestToAction (rest ! 0) (rest ! 1), drop 2 rest)
     else if n = ''resolve_decision_request'' then (WorkManagementEffect.ResolveDecisionRequest (rest ! 0), drop 1 rest)
     else if n = ''create_decision'' then (WorkManagementEffect.CreateDecision (rest ! 0), drop 1 rest)
     else if n = ''link_decision_request_to_decision'' then (WorkManagementEffect.LinkDecisionRequestToDecision (rest ! 0) (rest ! 1), drop 2 rest)
     else if n = ''create_resulting_action_request'' then (WorkManagementEffect.CreateResultingActionRequest (rest ! 0), drop 1 rest)
     else if n = ''link_decision_to_action_request'' then (WorkManagementEffect.LinkDecisionToActionRequest (rest ! 0) (rest ! 1), drop 2 rest)
     else if n = ''complete_action'' then (WorkManagementEffect.CompleteAction (rest ! 0), drop 1 rest)
     else if n = ''cancel_action'' then (WorkManagementEffect.CancelAction (rest ! 0), drop 1 rest)
     else if n = ''reopen_action'' then (WorkManagementEffect.ReopenAction (rest ! 0), drop 1 rest)
     else if n = ''supersede_decision'' then (WorkManagementEffect.SupersedeDecision (rest ! 0), drop 1 rest)
     else if n = ''link_replacement_decision'' then (WorkManagementEffect.LinkReplacementDecision (rest ! 0) (rest ! 1), drop 2 rest)
     else if n = ''flag_superseded_premise_action_request'' then (WorkManagementEffect.FlagSupersededPremiseActionRequest (rest ! 0), drop 1 rest)
     else if n = ''flag_superseded_premise_action'' then (WorkManagementEffect.FlagSupersededPremiseAction (rest ! 0), drop 1 rest)
     else if n = ''record_risk_occurrence'' then (WorkManagementEffect.RecordRiskOccurrence (rest ! 0), drop 1 rest)
     else if n = ''create_issue'' then (WorkManagementEffect.CreateIssue (rest ! 0), drop 1 rest)
     else if n = ''link_risk_to_issue'' then (WorkManagementEffect.LinkRiskToIssue (rest ! 0) (rest ! 1), drop 2 rest)
     else if n = ''close_risk'' then (WorkManagementEffect.CloseRisk (rest ! 0), drop 1 rest)
     else if n = ''resolve_issue'' then (WorkManagementEffect.ResolveIssue (rest ! 0), drop 1 rest)
     else if n = ''close_issue'' then (WorkManagementEffect.CloseIssue (rest ! 0), drop 1 rest)
     else if n = ''reopen_issue'' then (WorkManagementEffect.ReopenIssue (rest ! 0), drop 1 rest)
     else if n = ''lower_portfolio_classification'' then (WorkManagementEffect.LowerPortfolioClassification (rest ! 0), drop 1 rest)
     else if n = ''lower_product_classification'' then (WorkManagementEffect.LowerProductClassification (rest ! 0), drop 1 rest)
     else if n = ''lower_roadmap_classification'' then (WorkManagementEffect.LowerRoadmapClassification (rest ! 0), drop 1 rest)
     else if n = ''lower_kpi_classification'' then (WorkManagementEffect.LowerKpiClassification (rest ! 0), drop 1 rest)
     else if n = ''lower_kpi_observation_classification'' then (WorkManagementEffect.LowerKpiObservationClassification (rest ! 0), drop 1 rest)
     else if n = ''lower_action_classification'' then (WorkManagementEffect.LowerActionClassification (rest ! 0), drop 1 rest)
     else if n = ''lower_decision_classification'' then (WorkManagementEffect.LowerDecisionClassification (rest ! 0), drop 1 rest)
     else if n = ''lower_risk_classification'' then (WorkManagementEffect.LowerRiskClassification (rest ! 0), drop 1 rest)
     else if n = ''lower_issue_classification'' then (WorkManagementEffect.LowerIssueClassification (rest ! 0), drop 1 rest)
     else if n = ''lower_initiative_classification'' then (WorkManagementEffect.LowerInitiativeClassification (rest ! 0), drop 1 rest)
     else if n = ''lower_project_classification'' then (WorkManagementEffect.LowerProjectClassification (rest ! 0), drop 1 rest)
     else if n = ''lower_milestone_classification'' then (WorkManagementEffect.LowerMilestoneClassification (rest ! 0), drop 1 rest)
     else undefined)"

interpretation effect: parsed_code digest_effect parse_effect
proof
  fix x and r
  show "parse_effect (digest_effect x @ r) = (x, r)"
    by (cases x) (simp_all add: parse_effect_def)
qed

definition parse_role :: "string list \<Rightarrow> WorkManagementClassificationSourceRole \<times> string list" where
  "parse_role fs =
    (case fs of [] \<Rightarrow> undefined | n # rest \<Rightarrow>
     if n = ''primary_target'' then (PrimaryTarget, rest)
     else if n = ''created_action'' then (CreatedActionRole, rest)
     else if n = ''created_decision'' then (CreatedDecisionRole, rest)
     else if n = ''replacement_decision'' then (ReplacementDecisionRole, rest)
     else if n = ''created_issue'' then (CreatedIssueRole, rest)
     else if n = ''downstream_action_request'' then (DownstreamActionRequestRole (rest ! 0), drop 1 rest)
     else if n = ''downstream_action'' then (DownstreamActionRole (rest ! 0), drop 1 rest)
     else if n = ''resulting_action_request'' then (ResultingActionRequestRole (rest ! 0), drop 1 rest)
     else if n = ''evidence'' then (EvidenceSource (rest ! 0), drop 1 rest)
     else if n = ''human_judgment'' then (HumanJudgmentRole, rest)
     else undefined)"

interpretation role: parsed_code role_fields parse_role
proof
  fix x and r
  show "parse_role (role_fields x @ r) = (x, r)"
    by (cases x) (simp_all add: parse_role_def)
qed

interpretation source: field_code digest_classification_source "\<lambda>_. True"
  by unfold_locales (auto simp: digest_classification_source_def dest!: role.parsed_prefix_free)

definition parse_verification :: "string list \<Rightarrow> EvidenceVerification \<times> string list" where
  "parse_verification fs =
    (case fs of [] \<Rightarrow> undefined | n # rest \<Rightarrow>
     if n = ''verified'' then (Verified (inv timestamp_be_bytes (rest ! 0)) (rest ! 1), drop 2 rest)
     else if n = ''degraded_last_verified'' then (DegradedLastVerified (inv timestamp_be_bytes (rest ! 0)) (rest ! 1), drop 2 rest)
     else if n = ''unverified'' then (Unverified, rest)
     else if n = ''integrity_mismatch'' then (IntegrityMismatch, rest)
     else if n = ''observed_unpinned'' then (ObservedUnpinned (inv timestamp_be_bytes (rest ! 0)) (rest ! 1), drop 2 rest)
     else undefined)"

interpretation verification: parsed_code verification_fields parse_verification
proof
  fix x and r
  show "parse_verification (verification_fields x @ r) = (x, r)"
    by (cases x) (simp_all add: parse_verification_def)
qed

interpretation evidence: field_code evidence_fields "\<lambda>_. True"
  by unfold_locales (auto simp: evidence_fields_def dest!: verification.parsed_prefix_free)

interpretation human_judgment: field_code judgment_fields "\<lambda>_. True"
proof
  fix x y :: HumanJudgment and r s
  have "judgment_disposition x = judgment_disposition y"
    by (metis (full_types) HumanJudgmentDisposition.exhaust)
  then show "x = y \<and> r = s" if "judgment_fields x @ r = judgment_fields y @ s"
    using that by (auto simp: judgment_fields_def)
qed

section \<open>Operations and support\<close>

text \<open>The lists an operation carries, each fed with its count as a \<^verbatim>\<open>u64\<close>.\<close>

fun operation_lists_fit :: "WorkManagementOperation \<Rightarrow> bool" where
  "operation_lists_fit (WorkManagementOperation.ResolveDecisionRequest _ _ _ _ _ _ _ _ _ rs) =
     (length rs < 2 ^ 64)"
| "operation_lists_fit (WorkManagementOperation.SupersedeDecision _ _ _ _ _ _ _ _ _ _ rs ds) =
     (length rs < 2 ^ 64 \<and> length ds < 2 ^ 64)"
| "operation_lists_fit (WorkManagementOperation.CancelAction _ _ _ bs) = (length bs < 2 ^ 64)"
| "operation_lists_fit (WorkManagementOperation.ReopenAction _ _ _ _ bs) = (length bs < 2 ^ 64)"
| "operation_lists_fit _ = True"

lemmas counted_append_eq =
  resulting.counted.append_eq_iff binding.counted.append_eq_iff downstream.counted.append_eq_iff
  evidence.counted.append_eq_iff human_judgment.counted.append_eq_iff

lemma list_all_True [simp]: "list_all (\<lambda>_. True) xs"
  by (simp add: list_all_iff)

lemma digest_operation_prefix_free:
  "kind x = kind y \<Longrightarrow> operation_lists_fit x \<Longrightarrow> operation_lists_fit y \<Longrightarrow>
     digest_operation x @ r = digest_operation y @ s \<Longrightarrow> x = y \<and> r = s"
  by (cases x; cases y; simp only: kind.simps WorkManagementH2aIntentKind.distinct)
    (simp_all add: id_version_def digest_lowering_def digest_resulting_action_requests_def
      digest_evidence_classification_bindings_def counted_append_eq)

fun support_lists_fit :: "SupportWitness option \<Rightarrow> bool" where
  "support_lists_fit None = True"
| "support_lists_fit (Some w) =
     (length (support_evidence w) < 2 ^ 64 \<and> length (support_judgments w) < 2 ^ 64)"

lemma digest_support_prefix_free:
  "map_option support_requirement x = map_option support_requirement y \<Longrightarrow>
     support_lists_fit x \<Longrightarrow> support_lists_fit y \<Longrightarrow>
     digest_support x @ r = digest_support y @ s \<Longrightarrow> x = y \<and> r = s"
  by (cases x; cases y) (auto simp: digest_support_def counted_append_eq)

lemma digest_stream_inject:
  "list_all (\<lambda>f. length f < 2 ^ 64) fs \<Longrightarrow> list_all (\<lambda>f. length f < 2 ^ 64) gs \<Longrightarrow>
     digest_stream fs = digest_stream gs \<Longrightarrow> fs = gs"
  unfolding digest_stream_def by (rule digest_field.stream_inject)

end
