(* ===== verification/H2a_Intent.thy ===== *)
theory H2a_Intent
  imports H2a_Digest
begin

text \<open>
  Prepared intents of \<^verbatim>\<open>work_management.rs\<close>: what \<^verbatim>\<open>WorkManagementPreparedIntent::prepare\<close>
  checks and binds, the payload digest of the preview it returns, the approval a Head of
  Products gives, and the validation that turns an approval into a receipt. The hash
  (\<^verbatim>\<open>sha2\<close>, rendered as lower-case hex) is the parameter \<open>sha256_hex\<close>; the authorization
  port is the parameter \<open>authorize\<close>.
\<close>

section \<open>Previews and their digest\<close>

definition SUPPORTED_WORK_MANAGEMENT_H2A_CONTRACT_VERSION :: "16 word" where
  "SUPPORTED_WORK_MANAGEMENT_H2A_CONTRACT_VERSION = 1"

definition WORK_MANAGEMENT_H2A_TTL_MILLIS :: int where
  "WORK_MANAGEMENT_H2A_TTL_MILLIS = 300000"

datatype WorkManagementPolicyDecision = Allowed
datatype WorkManagementCancellationPolicy = NotCancellableAfterSubmit
datatype WorkManagementAuthority = HeadOfProducts

datatype PreparedIntentError =
  InvalidTopology | UnclassifiedBinding | ExpiryOverflow | UnauthorizedActor | InvalidSupport
| MissingConfirmation

type_synonym payload_digest = string

definition WorkManagementPayloadDigest_from_persisted ::
  "string \<Rightarrow> PreparedIntentError + payload_digest" where
  "WorkManagementPayloadDigest_from_persisted s =
     (if length s \<noteq> 64 \<or>
         \<not> list_all (\<lambda>b. is_ascii_digit b \<or>
            ((CHR ''a'' \<le> b \<and> b \<le> CHR ''z'') \<and> is_ascii_hexdigit b)) s
      then Inl InvalidTopology else Inr s)"

record WorkManagementPreview =
  preview_id :: entity_id
  preview_contract_version :: "16 word"
  preview_operation :: WorkManagementOperation
  preview_targets :: "WorkManagementTarget list"
  preview_effects :: "WorkManagementEffect list"
  preview_classification :: DataClassification
  preview_classification_sources :: "WorkManagementClassificationSource list"
  preview_support :: "SupportWitness option"
  preview_policy :: WorkManagementPolicyDecision
  preview_expires_at :: UtcTimestamp
  preview_cancellation_policy :: WorkManagementCancellationPolicy
  preview_authority :: WorkManagementAuthority

definition preview_fields :: "WorkManagementPreview \<Rightarrow> string list" where
  "preview_fields p =
     [''product-mission-control.work-management.prepared-intent.v1'', preview_id p,
      be_bytes 2 (unat (preview_contract_version p)),
      WorkManagementH2aIntentKind_as_persisted (kind (preview_operation p))] @
     digest_operation (preview_operation p) @
     counted digest_target (preview_targets p) @
     counted digest_effect (preview_effects p) @
     counted digest_classification_source (preview_classification_sources p) @
     [DataClassification_as_persisted (preview_classification p)] @
     digest_support (preview_support p) @
     [''allowed'', timestamp_be_bytes (preview_expires_at p), ''not_cancellable_after_submit'',
      ''head_of_products'']"

definition calculate_preview_digest :: "(string \<Rightarrow> string) \<Rightarrow> WorkManagementPreview \<Rightarrow> payload_digest" where
  "calculate_preview_digest sha256_hex p = sha256_hex (digest_stream (preview_fields p))"

section \<open>Preparation\<close>

record WorkManagementPreparedIntent =
  prepared_preview :: WorkManagementPreview
  prepared_payload_digest :: payload_digest

definition downstream_order :: "IncompleteDownstreamWork \<Rightarrow> string \<times> nat" where
  "downstream_order d = (downstream_id d, downstream_kind d)"

definition duplicates_resulting ::
  "DecisionResultingActionRequest \<Rightarrow> IncompleteDownstreamWork \<Rightarrow> bool" where
  "duplicates_resulting resulting downstream =
     (case downstream of
        DownstreamActionRequest i _ _ \<Rightarrow> i = resulting_id resulting
      | DownstreamAction _ _ _ \<Rightarrow> False)"

text \<open>The two \<^verbatim>\<open>match &mut operation\<close> blocks: lists are sorted and duplicates refused.\<close>

definition canonical_topology ::
  "WorkManagementOperation \<Rightarrow> PreparedIntentError + WorkManagementOperation" where
  "canonical_topology op =
     (case op of
        WorkManagementOperation.ResolveDecisionRequest i v d c st ra im ow at rs \<Rightarrow>
          let rs' = sort_key resulting_id rs in
          if adjacent_equal resulting_id rs' then Inl InvalidTopology
          else Inr (WorkManagementOperation.ResolveDecisionRequest i v d c st ra im ow at rs')
      | WorkManagementOperation.SupersedeDecision i v r rv c st ra im ow at rs ds \<Rightarrow>
          if rv \<noteq> AggregateVersion_initial then Inl InvalidTopology
          else
            let rs' = sort_key resulting_id rs; ds' = sort_key downstream_order ds in
            if adjacent_equal resulting_id rs' \<or> adjacent_equal downstream_order ds' \<or>
               list_ex (\<lambda>resulting. list_ex (duplicates_resulting resulting) ds') rs'
            then Inl InvalidTopology
            else Inr (WorkManagementOperation.SupersedeDecision i v r rv c st ra im ow at rs' ds')
      | _ \<Rightarrow> Inr op)"

definition canonical_bindings ::
  "WorkManagementOperation \<Rightarrow> PreparedIntentError + WorkManagementOperation" where
  "canonical_bindings op =
     (case op of
        WorkManagementOperation.CancelAction i v reason bs \<Rightarrow>
          let bs' = sort_key binding_evidence_id bs in
          if adjacent_equal binding_evidence_id bs' then Inl InvalidSupport
          else Inr (WorkManagementOperation.CancelAction i v reason bs')
      | WorkManagementOperation.ReopenAction i v mode reason bs \<Rightarrow>
          let bs' = sort_key binding_evidence_id bs in
          if adjacent_equal binding_evidence_id bs' then Inl InvalidSupport
          else Inr (WorkManagementOperation.ReopenAction i v mode reason bs')
      | _ \<Rightarrow> Inr op)"

definition evidence_may_be_absent :: "WorkManagementOperation \<Rightarrow> bool" where
  "evidence_may_be_absent op =
     (case op of
        WorkManagementOperation.ResolveDecisionRequest _ _ _ _ _ _ _ _ _ _ \<Rightarrow> True
      | WorkManagementOperation.SupersedeDecision _ _ _ _ _ _ _ _ _ _ _ _ \<Rightarrow> True
      | _ \<Rightarrow> False)"

definition check_support ::
  "WorkManagementOperation \<Rightarrow> SupportWitness option \<Rightarrow> PreparedIntentError + unit" where
  "check_support op support =
     (if operation_support_requirement op \<noteq> map_option support_requirement support
      then Inl InvalidSupport
      else case (required_evidence_role op, support) of
        (Some role, Some w) \<Rightarrow>
          if support_evidence w \<noteq> [] \<and> list_ex (\<lambda>m. meta_role m \<noteq> role) (support_evidence w)
          then Inl InvalidSupport
          else if \<not> evidence_may_be_absent op \<and> support_evidence w = [] then Inl InvalidSupport
          else Inr ()
      | _ \<Rightarrow> Inr ())"

definition supersedes_itself :: "WorkManagementOperation \<Rightarrow> bool" where
  "supersedes_itself op =
     (case op of
        WorkManagementOperation.SupersedeDecision i _ r _ _ _ _ _ _ _ _ _ \<Rightarrow> i = r
      | _ \<Rightarrow> False)"

definition intent_sources ::
  "WorkManagementOperation \<Rightarrow> DataClassification \<Rightarrow> SupportWitness option
     \<Rightarrow> WorkManagementClassificationSource list" where
  "intent_sources op target_classification support =
     \<lparr>source_role = PrimaryTarget, source_classification = target_classification\<rparr> #
     classification_sources op @
     (case support of
        None \<Rightarrow> []
      | Some w \<Rightarrow>
          map (\<lambda>m. \<lparr>source_role = EvidenceSource (meta_id m), source_classification = meta_classification m\<rparr>)
            (support_evidence w) @
          map (\<lambda>j. \<lparr>source_role = HumanJudgmentRole, source_classification = judgment_classification j\<rparr>)
            (support_judgments w))"

definition bound_classification ::
  "WorkManagementClassificationSource list \<Rightarrow> DataClassification \<Rightarrow> SupportWitness option
     \<Rightarrow> DataClassification" where
  "bound_classification sources target_classification support =
     (let classification =
        fold (\<lambda>c acc. combine acc c) (map source_classification sources) target_classification in
      case support of
        None \<Rightarrow> classification
      | Some w \<Rightarrow> combine classification (support_classification w))"

definition prepare ::
  "(string \<Rightarrow> string) \<Rightarrow> entity_id \<Rightarrow> WorkManagementOperation \<Rightarrow> DataClassification
     \<Rightarrow> SupportWitness option \<Rightarrow> UtcTimestamp \<Rightarrow> PreparedIntentError + WorkManagementPreparedIntent" where
  "prepare sha256_hex i operation0 target_classification support now =
     rbind (canonical_topology operation0) (\<lambda>operation1.
     rbind (canonical_bindings operation1) (\<lambda>operation.
     rbind (ok_or ExpiryOverflow
       (map_option from_unix_millis (checked_add_i64 (unix_millis now) WORK_MANAGEMENT_H2A_TTL_MILLIS)))
       (\<lambda>expires_at.
     rbind (check_support operation support) (\<lambda>_.
     if supersedes_itself operation then Inl InvalidTopology
     else
       let sources = intent_sources operation target_classification support in
       if target_classification = DataClassification.Unclassified \<or>
          DataClassification.Unclassified \<in> set (map source_classification sources) \<or>
          (case support of None \<Rightarrow> False
           | Some w \<Rightarrow> support_classification w = DataClassification.Unclassified)
       then Inl UnclassifiedBinding
       else
         let preview =
           \<lparr>preview_id = i,
            preview_contract_version = SUPPORTED_WORK_MANAGEMENT_H2A_CONTRACT_VERSION,
            preview_operation = operation, preview_targets = targets operation,
            preview_effects = effects operation,
            preview_classification = bound_classification sources target_classification support,
            preview_classification_sources = sources, preview_support = support,
            preview_policy = WorkManagementPolicyDecision.Allowed, preview_expires_at = expires_at,
            preview_cancellation_policy = NotCancellableAfterSubmit,
            preview_authority = WorkManagementAuthority.HeadOfProducts\<rparr> in
         Inr \<lparr>prepared_preview = preview,
              prepared_payload_digest = calculate_preview_digest sha256_hex preview\<rparr>))))"

section \<open>Approval and rejection\<close>

datatype ApprovalConfirmation = Confirmed

record WorkManagementApproval =
  approval_prepared_id :: entity_id
  approval_actor :: AuditActor
  acknowledged_payload_digest :: payload_digest
  approval_idempotency_id :: operation_id

definition WorkManagementApproval_new ::
  "entity_id \<Rightarrow> AuditActor \<Rightarrow> payload_digest \<Rightarrow> operation_id \<Rightarrow> ApprovalConfirmation option
     \<Rightarrow> PreparedIntentError + WorkManagementApproval" where
  "WorkManagementApproval_new prepared_id actor digest idempotency_id confirmation =
     (if actor \<noteq> AuditActor.HeadOfProducts then Inl UnauthorizedActor
      else if confirmation \<noteq> Some Confirmed then Inl MissingConfirmation
      else Inr \<lparr>approval_prepared_id = prepared_id, approval_actor = actor,
                acknowledged_payload_digest = digest, approval_idempotency_id = idempotency_id\<rparr>)"

record WorkManagementApprovalReceipt =
  receipt_id :: entity_id
  receipt_prepared_id :: entity_id
  receipt_digest :: payload_digest
  receipt_expires_at :: UtcTimestamp
  receipt_actor :: AuditActor
  receipt_idempotency_id :: operation_id

datatype WorkManagementCurrentPolicy = Allowed | Denied

record WorkManagementAuthoritativeSnapshot =
  snapshot_operation :: WorkManagementOperation
  snapshot_classification :: DataClassification
  snapshot_classification_sources :: "WorkManagementClassificationSource list"
  snapshot_support :: "SupportWitness option"
  snapshot_policy :: WorkManagementCurrentPolicy

datatype WorkManagementApprovalValidationError =
  PreparedIntentMismatch | Unauthorized | DigestMismatch | Expired | PreviewChanged

definition expected_snapshot :: "WorkManagementPreview \<Rightarrow> WorkManagementAuthoritativeSnapshot" where
  "expected_snapshot p =
     \<lparr>snapshot_operation = preview_operation p, snapshot_classification = preview_classification p,
      snapshot_classification_sources = preview_classification_sources p,
      snapshot_support = preview_support p, snapshot_policy = WorkManagementCurrentPolicy.Allowed\<rparr>"

definition validate_and_mint_work_management_h2a_receipt ::
  "WorkManagementPreparedIntent \<Rightarrow> WorkManagementApproval \<Rightarrow> WorkManagementAuthoritativeSnapshot
     \<Rightarrow> UtcTimestamp \<Rightarrow> entity_id \<Rightarrow> (AuditActor \<Rightarrow> bool)
     \<Rightarrow> WorkManagementApprovalValidationError + WorkManagementApprovalReceipt" where
  "validate_and_mint_work_management_h2a_receipt prepared approval current now rid authorize =
     (if approval_prepared_id approval \<noteq> preview_id (prepared_preview prepared)
      then Inl PreparedIntentMismatch
      else if approval_actor approval \<noteq> AuditActor.HeadOfProducts \<or> \<not> authorize (approval_actor approval)
      then Inl Unauthorized
      else if acknowledged_payload_digest approval \<noteq> prepared_payload_digest prepared
      then Inl DigestMismatch
      else if preview_expires_at (prepared_preview prepared) \<le> now then Inl Expired
      else if current \<noteq> expected_snapshot (prepared_preview prepared) then Inl PreviewChanged
      else Inr
        \<lparr>receipt_id = rid, receipt_prepared_id = preview_id (prepared_preview prepared),
         receipt_digest = prepared_payload_digest prepared,
         receipt_expires_at = preview_expires_at (prepared_preview prepared),
         receipt_actor = approval_actor approval,
         receipt_idempotency_id = approval_idempotency_id approval\<rparr>)"

record RejectedPreparedIntentOutcome =
  rejected_prepared_intent_id :: entity_id
  rejected_at :: UtcTimestamp
  expired_at_rejection :: bool
  rejected_audit_event :: AuditEvent

definition ISSUE_PREPARED_REJECTED_AUDIT_CODE :: string where
  "ISSUE_PREPARED_REJECTED_AUDIT_CODE = ''issue.prepared_rejected''"

definition prepared_intent_rejection_audit ::
  "entity_id \<Rightarrow> UtcTimestamp \<Rightarrow> string \<Rightarrow> AuditTarget \<Rightarrow> operation_id \<Rightarrow> AuditEvent option" where
  "prepared_intent_rejection_audit i occurred_at code target correlation =
     (case AuditEventCode_parse code of
        Inl _ \<Rightarrow> None
      | Inr c \<Rightarrow>
          (case AuditDisposition_new AuditPolicyOutcome.Allowed AuditApprovalOutcome.Rejected
                  AuditExecutionOutcome.NotAttempted AuditEffectScope.ScopeNone [] of
             Inl _ \<Rightarrow> None
           | Inr disposition \<Rightarrow>
               Some (AuditEvent_new i occurred_at AuditActor.HeadOfProducts
                 \<lparr>action_module = AuditModule.WorkManagement, action_code = c, action_target = target\<rparr>
                 correlation disposition)))"

section \<open>What preparation accepts\<close>

lemma downstream_order_identity:
  "same_downstream_identity a b \<longleftrightarrow> downstream_order a = downstream_order b"
  by (auto simp: same_downstream_identity_def downstream_order_def)

fun topology_well_formed :: "WorkManagementOperation \<Rightarrow> bool" where
  "topology_well_formed (WorkManagementOperation.ResolveDecisionRequest _ _ _ _ _ _ _ _ _ rs) =
     distinct (map resulting_id rs)"
| "topology_well_formed (WorkManagementOperation.SupersedeDecision _ _ _ rv _ _ _ _ _ _ rs ds) =
     (rv = AggregateVersion_initial \<and> distinct (map resulting_id rs) \<and>
      distinct (map downstream_order ds) \<and>
      list_all (\<lambda>r. list_all (\<lambda>d. \<not> duplicates_resulting r d) ds) rs)"
| "topology_well_formed _ = True"

fun bindings_distinct :: "WorkManagementOperation \<Rightarrow> bool" where
  "bindings_distinct (WorkManagementOperation.CancelAction _ _ _ bs) =
     distinct (map binding_evidence_id bs)"
| "bindings_distinct (WorkManagementOperation.ReopenAction _ _ _ _ bs) =
     distinct (map binding_evidence_id bs)"
| "bindings_distinct _ = True"

fun canonical_operation :: "WorkManagementOperation \<Rightarrow> WorkManagementOperation" where
  "canonical_operation (WorkManagementOperation.ResolveDecisionRequest i v d c st ra im ow at rs) =
     WorkManagementOperation.ResolveDecisionRequest i v d c st ra im ow at (sort_key resulting_id rs)"
| "canonical_operation (WorkManagementOperation.SupersedeDecision i v r rv c st ra im ow at rs ds) =
     WorkManagementOperation.SupersedeDecision i v r rv c st ra im ow at
       (sort_key resulting_id rs) (sort_key downstream_order ds)"
| "canonical_operation (WorkManagementOperation.CancelAction i v reason bs) =
     WorkManagementOperation.CancelAction i v reason (sort_key binding_evidence_id bs)"
| "canonical_operation (WorkManagementOperation.ReopenAction i v mode reason bs) =
     WorkManagementOperation.ReopenAction i v mode reason (sort_key binding_evidence_id bs)"
| "canonical_operation op = op"

lemma canonicalisation:
  "rbind (canonical_topology op) canonical_bindings =
     (if \<not> topology_well_formed op then Inl InvalidTopology
      else if \<not> bindings_distinct op then Inl InvalidSupport
      else Inr (canonical_operation op))"
  by (cases op)
    (auto simp: canonical_topology_def canonical_bindings_def Let_def list_ex_iff list_all_iff)

lemma canonical_operation_invariants [simp]:
  "operation_support_requirement (canonical_operation op) = operation_support_requirement op"
  "required_evidence_role (canonical_operation op) = required_evidence_role op"
  "evidence_may_be_absent (canonical_operation op) = evidence_may_be_absent op"
  "supersedes_itself (canonical_operation op) = supersedes_itself op"
  "kind (canonical_operation op) = kind op"
  by (cases op; simp add: operation_support_requirement_def required_evidence_role_def
    evidence_may_be_absent_def supersedes_itself_def)+

definition support_matches :: "WorkManagementOperation \<Rightarrow> SupportWitness option \<Rightarrow> bool" where
  "support_matches op support \<longleftrightarrow>
     map_option support_requirement support = operation_support_requirement op \<and>
     list_all (\<lambda>w. list_all (\<lambda>m. Some (meta_role m) = required_evidence_role op) (support_evidence w) \<and>
                   (support_evidence w \<noteq> [] \<or> evidence_may_be_absent op))
       (case support of None \<Rightarrow> [] | Some w \<Rightarrow> [w])"

lemma required_role_iff_support:
  "required_evidence_role op = None \<longleftrightarrow> operation_support_requirement op = None"
  by (cases op) (simp_all add: required_evidence_role_def operation_support_requirement_def)

lemma check_support_eq:
  "check_support op support = (if support_matches op support then Inr () else Inl InvalidSupport)"
proof (cases support)
  case None
  then show ?thesis
    by (auto simp: check_support_def support_matches_def split: option.splits)
next
  case (Some w)
  show ?thesis
  proof (cases "required_evidence_role op")
    case None
    with Some show ?thesis
      by (simp add: check_support_def support_matches_def required_role_iff_support)
  next
    case (Some role)
    with \<open>support = Some w\<close> show ?thesis
      by (auto simp: check_support_def support_matches_def list_ex_iff list_all_iff)
  qed
qed

lemma support_matches_canonical:
  "support_matches (canonical_operation op) support = support_matches op support"
  by (simp add: support_matches_def)

definition intent_classification ::
  "WorkManagementOperation \<Rightarrow> DataClassification \<Rightarrow> SupportWitness option \<Rightarrow> DataClassification" where
  "intent_classification op target_classification support =
     Max (set (map source_classification (intent_sources op target_classification support)) \<union>
          set_option (map_option support_classification support))"

lemma fold_combine_Max: "fold (\<lambda>c acc. combine acc c) cs a = Max (set (a # cs))"
  by (subst Max.set_eq_fold) (simp add: combine_eq_max max.commute)

lemma bound_classification_Max:
  "bound_classification (intent_sources op tc support) tc support = intent_classification op tc support"
proof -
  let ?S = "set (map source_classification (intent_sources op tc support))"
  have "tc \<in> ?S" by (simp add: intent_sources_def)
  then have "insert tc ?S = ?S" by blast
  then have fold: "fold (\<lambda>c acc. combine acc c)
      (map source_classification (intent_sources op tc support)) tc = Max ?S"
    by (simp only: fold_combine_Max list.simps(15))
  have fin: "finite ?S" "?S \<noteq> {}" using \<open>tc \<in> ?S\<close> by auto
  show ?thesis
    unfolding bound_classification_def intent_classification_def fold Let_def
    using fin by (cases support) (simp_all add: combine_eq_max max.commute Un_insert_right)
qed

definition intent_preview ::
  "entity_id \<Rightarrow> WorkManagementOperation \<Rightarrow> DataClassification \<Rightarrow> SupportWitness option
     \<Rightarrow> UtcTimestamp \<Rightarrow> WorkManagementPreview" where
  "intent_preview i op target_classification support expires_at =
     \<lparr>preview_id = i,
      preview_contract_version = SUPPORTED_WORK_MANAGEMENT_H2A_CONTRACT_VERSION,
      preview_operation = op, preview_targets = targets op, preview_effects = effects op,
      preview_classification = intent_classification op target_classification support,
      preview_classification_sources = intent_sources op target_classification support,
      preview_support = support, preview_policy = WorkManagementPolicyDecision.Allowed,
      preview_expires_at = expires_at, preview_cancellation_policy = NotCancellableAfterSubmit,
      preview_authority = WorkManagementAuthority.HeadOfProducts\<rparr>"

lemma intent_unclassified_iff:
  "tc = DataClassification.Unclassified \<or>
     DataClassification.Unclassified \<in> set (map source_classification (intent_sources op tc support)) \<or>
     (case support of None \<Rightarrow> False
      | Some w \<Rightarrow> support_classification w = DataClassification.Unclassified) \<longleftrightarrow>
   intent_classification op tc support = DataClassification.Unclassified"
  unfolding bound_classification_Max [symmetric] bound_classification_def Let_def
  by (cases support) (auto simp: fold_combine_Unclassified_iff)

lemma prepare_outcome:
  "prepare sha256_hex i op tc support now =
     (if \<not> topology_well_formed op then Inl InvalidTopology
      else if \<not> bindings_distinct op then Inl InvalidSupport
      else if \<not> i64_in_range (unix_millis now + 300000) then Inl ExpiryOverflow
      else if \<not> support_matches op support then Inl InvalidSupport
      else if supersedes_itself op then Inl InvalidTopology
      else if intent_classification (canonical_operation op) tc support = DataClassification.Unclassified
      then Inl UnclassifiedBinding
      else
        let preview = intent_preview i (canonical_operation op) tc support
              (from_unix_millis (unix_millis now + 300000)) in
        Inr \<lparr>prepared_preview = preview,
             prepared_payload_digest = calculate_preview_digest sha256_hex preview\<rparr>)"
proof -
  have nest: "rbind (canonical_topology op) (\<lambda>o1. rbind (canonical_bindings o1) k) =
      rbind (rbind (canonical_topology op) canonical_bindings) k" for k
    by (cases "canonical_topology op") simp_all
  show ?thesis
    unfolding prepare_def nest canonicalisation check_support_eq Let_def
      intent_unclassified_iff bound_classification_Max canonical_operation_invariants
      checked_add_i64_def WORK_MANAGEMENT_H2A_TTL_MILLIS_def intent_preview_def
    by (simp add: support_matches_canonical)
qed

lemma prepare_Inr_iff:
  "prepare sha256_hex i op tc support now = Inr p \<longleftrightarrow>
     topology_well_formed op \<and> bindings_distinct op \<and> i64_in_range (unix_millis now + 300000) \<and>
     support_matches op support \<and> \<not> supersedes_itself op \<and>
     intent_classification (canonical_operation op) tc support \<noteq> DataClassification.Unclassified \<and>
     prepared_preview p = intent_preview i (canonical_operation op) tc support
       (from_unix_millis (unix_millis now + 300000)) \<and>
     prepared_payload_digest p = calculate_preview_digest sha256_hex (prepared_preview p)"
  unfolding prepare_outcome Let_def
  by (cases p rule: WorkManagementPreparedIntent.cases) auto

lemma prepared_operation_canonical:
  "prepare sha i op tc sw now = Inr p \<Longrightarrow> canonical_operation op = op \<Longrightarrow> preview_operation (prepared_preview p) = op"
  by (simp add: prepare_Inr_iff intent_preview_def)

lemma rejection_audit_no_effect:
  "prepared_intent_rejection_audit i at code target x = Some a \<Longrightarrow> no_effect a \<and>
     audit_policy_outcome a = AuditPolicyOutcome.Allowed \<and>
     audit_approval_outcome a = AuditApprovalOutcome.Rejected \<and>
     audit_execution_outcome a = AuditExecutionOutcome.NotAttempted \<and>
     audit_code a = code \<and> audit_target a = target \<and> audit_occurred_at a = at \<and>
     audit_correlation_id a = x \<and> audit_actor a = AuditActor.HeadOfProducts"
  by (auto simp: prepared_intent_rejection_audit_def no_effect_def AuditEvent_new_def
      AuditDisposition_new_Inr_iff AuditEventCode_parse_def token_parse_Inr_iff
      split: sum.splits)

lemma prepared_support_bound:
  "prepare sha256_hex i op tc support now = Inr p \<Longrightarrow>
     map_option support_requirement (preview_support (prepared_preview p)) =
       operation_support_requirement (preview_operation (prepared_preview p))"
  by (simp add: prepare_Inr_iff support_matches_def intent_preview_def)

lemma length_timestamp_be_bytes [simp]: "length (timestamp_be_bytes t) = 8"
  by (cases t) simp

lemma validate_Inr_iff:
  "validate_and_mint_work_management_h2a_receipt prepared approval current now rid authorize = Inr r \<longleftrightarrow>
     approval_prepared_id approval = preview_id (prepared_preview prepared) \<and>
     approval_actor approval = AuditActor.HeadOfProducts \<and> authorize AuditActor.HeadOfProducts \<and>
     acknowledged_payload_digest approval = prepared_payload_digest prepared \<and>
     now < preview_expires_at (prepared_preview prepared) \<and>
     current = expected_snapshot (prepared_preview prepared) \<and>
     r = \<lparr>receipt_id = rid, receipt_prepared_id = preview_id (prepared_preview prepared),
          receipt_digest = prepared_payload_digest prepared,
          receipt_expires_at = preview_expires_at (prepared_preview prepared),
          receipt_actor = AuditActor.HeadOfProducts,
          receipt_idempotency_id = approval_idempotency_id approval\<rparr>"
  by (auto simp: validate_and_mint_work_management_h2a_receipt_def)

lemma WorkManagementApproval_new_Inr_iff:
  "WorkManagementApproval_new i actor d idem c = Inr a \<longleftrightarrow>
     actor = AuditActor.HeadOfProducts \<and> c = Some Confirmed \<and>
     a = \<lparr>approval_prepared_id = i, approval_actor = AuditActor.HeadOfProducts,
          acknowledged_payload_digest = d, approval_idempotency_id = idem\<rparr>"
  by (auto simp: WorkManagementApproval_new_def)

section \<open>The digest input determines the preview\<close>

definition preview_fits :: "WorkManagementPreview \<Rightarrow> bool" where
  "preview_fits p \<longleftrightarrow>
     list_all (\<lambda>f. length f < 2 ^ 64) (preview_fields p) \<and>
     operation_lists_fit (preview_operation p) \<and> length (preview_targets p) < 2 ^ 64 \<and>
     length (preview_effects p) < 2 ^ 64 \<and> length (preview_classification_sources p) < 2 ^ 64 \<and>
     support_lists_fit (preview_support p)"

lemma be_bytes_2_inject: "be_bytes 2 (unat (v :: 16 word)) = be_bytes 2 (unat w) \<longleftrightarrow> v = w"
proof -
  have bound: "unat x < 256 ^ 2" for x :: "16 word"
    using unsigned_less [of x, where 'a = nat] by simp
  show ?thesis by (simp only: be_bytes_inject [OF bound bound] word_unat_eq_iff)
qed

lemma preview_fields_inject:
  assumes fields: "preview_fields p = preview_fields q"
    and fits: "preview_fits p" "preview_fits q"
    and bound: "map_option support_requirement (preview_support p) =
        operation_support_requirement (preview_operation p)"
      "map_option support_requirement (preview_support q) =
        operation_support_requirement (preview_operation q)"
  shows "p = q"
proof -
  let ?tail = "\<lambda>p. [''allowed'', timestamp_be_bytes (preview_expires_at p),
     ''not_cancellable_after_submit'', ''head_of_products'']"
  let ?rest = "\<lambda>p. counted digest_target (preview_targets p) @
     counted digest_effect (preview_effects p) @
     counted digest_classification_source (preview_classification_sources p) @
     DataClassification_as_persisted (preview_classification p) #
     digest_support (preview_support p) @ ?tail p"
  from fields have ids: "preview_id p = preview_id q"
      "preview_contract_version p = preview_contract_version q"
    and kinds: "kind (preview_operation p) = kind (preview_operation q)"
    and body: "digest_operation (preview_operation p) @ ?rest p =
      digest_operation (preview_operation q) @ ?rest q"
    by (simp_all add: preview_fields_def be_bytes_2_inject)
  from digest_operation_prefix_free [OF kinds _ _ body] fits
  have op: "preview_operation p = preview_operation q" and rest: "?rest p = ?rest q"
    by (simp_all only: preview_fits_def)
  from rest fits have lists: "preview_targets p = preview_targets q"
      "preview_effects p = preview_effects q"
      "preview_classification_sources p = preview_classification_sources q"
      "preview_classification p = preview_classification q"
    and support: "digest_support (preview_support p) @ ?tail p =
      digest_support (preview_support q) @ ?tail q"
    by (simp_all add: preview_fits_def target.counted.append_eq_iff effect.counted.append_eq_iff
      source.counted.append_eq_iff)
  from bound op have "map_option support_requirement (preview_support p) =
      map_option support_requirement (preview_support q)" by simp
  from digest_support_prefix_free [OF this _ _ support] fits
  have "preview_support p = preview_support q" and "?tail p = ?tail q"
    by (simp_all only: preview_fits_def)
  then have "preview_support p = preview_support q"
    and "preview_expires_at p = preview_expires_at q" by simp_all
  moreover have "preview_policy p = preview_policy q"
      "preview_cancellation_policy p = preview_cancellation_policy q"
      "preview_authority p = preview_authority q"
    by (metis (full_types) WorkManagementPolicyDecision.exhaust
      WorkManagementCancellationPolicy.exhaust WorkManagementAuthority.exhaust)+
  ultimately show ?thesis
    using ids op lists by (intro WorkManagementPreview.equality) simp_all
qed

lemma preview_message_inject:
  assumes "digest_stream (preview_fields p) = digest_stream (preview_fields q)"
    and "preview_fits p" "preview_fits q"
    and "map_option support_requirement (preview_support p) =
        operation_support_requirement (preview_operation p)"
    and "map_option support_requirement (preview_support q) =
        operation_support_requirement (preview_operation q)"
  shows "p = q"
  using assms by (intro preview_fields_inject digest_stream_inject) (simp_all add: preview_fits_def)

section \<open>Properties\<close>

text \<open>An operation's lists, and the operation without them.\<close>

fun resulting_of :: "WorkManagementOperation \<Rightarrow> DecisionResultingActionRequest list" where
  "resulting_of (WorkManagementOperation.ResolveDecisionRequest _ _ _ _ _ _ _ _ _ rs) = rs"
| "resulting_of (WorkManagementOperation.SupersedeDecision _ _ _ _ _ _ _ _ _ _ rs _) = rs"
| "resulting_of _ = []"

fun downstream_of :: "WorkManagementOperation \<Rightarrow> IncompleteDownstreamWork list" where
  "downstream_of (WorkManagementOperation.SupersedeDecision _ _ _ _ _ _ _ _ _ _ _ ds) = ds"
| "downstream_of _ = []"

fun bindings_of :: "WorkManagementOperation \<Rightarrow> EvidenceClassificationBinding list" where
  "bindings_of (WorkManagementOperation.CancelAction _ _ _ bs) = bs"
| "bindings_of (WorkManagementOperation.ReopenAction _ _ _ _ bs) = bs"
| "bindings_of _ = []"

fun without_lists :: "WorkManagementOperation \<Rightarrow> WorkManagementOperation" where
  "without_lists (WorkManagementOperation.ResolveDecisionRequest i v d c st ra im ow at _) =
     WorkManagementOperation.ResolveDecisionRequest i v d c st ra im ow at []"
| "without_lists (WorkManagementOperation.SupersedeDecision i v r rv c st ra im ow at _ _) =
     WorkManagementOperation.SupersedeDecision i v r rv c st ra im ow at [] []"
| "without_lists (WorkManagementOperation.CancelAction i v reason _) =
     WorkManagementOperation.CancelAction i v reason []"
| "without_lists (WorkManagementOperation.ReopenAction i v mode reason _) =
     WorkManagementOperation.ReopenAction i v mode reason []"
| "without_lists op = op"

definition reordered :: "WorkManagementOperation \<Rightarrow> WorkManagementOperation \<Rightarrow> bool" where
  "reordered op op' \<longleftrightarrow>
     without_lists op = without_lists op' \<and> mset (resulting_of op) = mset (resulting_of op') \<and>
     mset (downstream_of op) = mset (downstream_of op') \<and>
     mset (bindings_of op) = mset (bindings_of op')"

fun with_lists :: "WorkManagementOperation \<Rightarrow> DecisionResultingActionRequest list
    \<Rightarrow> IncompleteDownstreamWork list \<Rightarrow> EvidenceClassificationBinding list
    \<Rightarrow> WorkManagementOperation" where
  "with_lists (WorkManagementOperation.ResolveDecisionRequest i v d c st ra im ow at _) rs ds bs =
     WorkManagementOperation.ResolveDecisionRequest i v d c st ra im ow at rs"
| "with_lists (WorkManagementOperation.SupersedeDecision i v r rv c st ra im ow at _ _) rs ds bs =
     WorkManagementOperation.SupersedeDecision i v r rv c st ra im ow at rs ds"
| "with_lists (WorkManagementOperation.CancelAction i v reason _) rs ds bs =
     WorkManagementOperation.CancelAction i v reason bs"
| "with_lists (WorkManagementOperation.ReopenAction i v mode reason _) rs ds bs =
     WorkManagementOperation.ReopenAction i v mode reason bs"
| "with_lists op rs ds bs = op"

fun replacement_is_first :: "WorkManagementOperation \<Rightarrow> bool" where
  "replacement_is_first (WorkManagementOperation.SupersedeDecision _ _ _ rv _ _ _ _ _ _ _ _) =
     (rv = AggregateVersion_initial)"
| "replacement_is_first _ = True"

lemma topology_well_formed_lists:
  "topology_well_formed op \<longleftrightarrow>
     replacement_is_first (without_lists op) \<and> distinct (map resulting_id (resulting_of op)) \<and>
     distinct (map downstream_order (downstream_of op)) \<and>
     (\<forall>r \<in> set (resulting_of op). \<forall>d \<in> set (downstream_of op). \<not> duplicates_resulting r d)"
  by (cases op) (simp_all add: list_all_iff)

lemma bindings_distinct_lists:
  "bindings_distinct op \<longleftrightarrow> distinct (map binding_evidence_id (bindings_of op))"
  by (cases op) simp_all

lemma canonical_operation_lists:
  "canonical_operation op =
     with_lists (without_lists op) (sort_key resulting_id (resulting_of op))
       (sort_key downstream_order (downstream_of op)) (sort_key binding_evidence_id (bindings_of op))"
  by (cases op) simp_all

lemma reordered_well_formed:
  assumes "reordered op op'"
  shows "topology_well_formed op = topology_well_formed op' \<and>
     bindings_distinct op = bindings_distinct op' \<and>
     (topology_well_formed op \<longrightarrow> bindings_distinct op \<longrightarrow>
        canonical_operation op = canonical_operation op')"
proof -
  from assms have base: "without_lists op = without_lists op'"
    and rs: "mset (resulting_of op) = mset (resulting_of op')"
    and ds: "mset (downstream_of op) = mset (downstream_of op')"
    and bs: "mset (bindings_of op) = mset (bindings_of op')" by (simp_all add: reordered_def)
  note sets = rs [THEN mset_eq_setD] ds [THEN mset_eq_setD]
  note sorts = sort_key_unique [OF _ rs] sort_key_unique [OF _ ds] sort_key_unique [OF _ bs]
  show ?thesis
    unfolding topology_well_formed_lists bindings_distinct_lists canonical_operation_lists base
    by (metis rs ds bs sets sorts distinct_map_mset)
qed

lemma reordered_declarations:
  assumes "reordered op op'"
  shows "operation_support_requirement op = operation_support_requirement op' \<and>
     required_evidence_role op = required_evidence_role op' \<and>
     evidence_may_be_absent op = evidence_may_be_absent op' \<and>
     supersedes_itself op = supersedes_itself op'"
proof -
  have "operation_support_requirement (without_lists o1) = operation_support_requirement o1"
    "required_evidence_role (without_lists o1) = required_evidence_role o1"
    "evidence_may_be_absent (without_lists o1) = evidence_may_be_absent o1"
    "supersedes_itself (without_lists o1) = supersedes_itself o1" for o1
    by (cases o1; simp add: operation_support_requirement_def required_evidence_role_def
      evidence_may_be_absent_def supersedes_itself_def)+
  with assms show ?thesis unfolding reordered_def by metis
qed

text \<open>
  Preparation of a governed operation on every branch, in the order its refusals are
  reported: duplicate identities and a replacement version other than the first are an invalid
  topology, duplicate Evidence an invalid support, an expiry beyond the clock's range an
  overflow, a support that is absent, unasked for, of the wrong gate, of the wrong role or
  without Evidence where Evidence is required an invalid support, a Decision superseding itself
  an invalid topology, any Unclassified source an unclassified binding. Otherwise the result is
  the preview of the canonically ordered operation with every target, effect and source it
  declares, the most restrictive classification of them, the expiry five minutes on, and the
  digest of exactly that preview.
\<close>

theorem prepare_on_every_branch:
  "prepare sha256_hex i op tc support now =
     (if \<not> topology_well_formed op then Inl InvalidTopology
      else if \<not> bindings_distinct op then Inl InvalidSupport
      else if \<not> i64_in_range (unix_millis now + 300000) then Inl ExpiryOverflow
      else if \<not> support_matches op support then Inl InvalidSupport
      else if supersedes_itself op then Inl InvalidTopology
      else if intent_classification (canonical_operation op) tc support = DataClassification.Unclassified
      then Inl UnclassifiedBinding
      else
        let preview = intent_preview i (canonical_operation op) tc support
              (from_unix_millis (unix_millis now + 300000)) in
        Inr \<lparr>prepared_preview = preview,
             prepared_payload_digest = calculate_preview_digest sha256_hex preview\<rparr>)"
  by (rule prepare_outcome)

text \<open>
  The order in which resulting requests, downstream work or Evidence are listed does not
  matter: two requests that differ only in that order are refused with the same error or give
  the same prepared intent, digest included.
\<close>

theorem prepare_order_independent:
  assumes "reordered op op'"
  shows "prepare sha256_hex i op tc support now = prepare sha256_hex i op' tc support now"
  unfolding prepare_outcome support_matches_def
  using reordered_well_formed [OF assms] reordered_declarations [OF assms] by simp

definition example_binding :: "string \<Rightarrow> EvidenceClassificationBinding" where
  "example_binding i = \<lparr>binding_evidence_id = i, binding_classification = DataClassification.Internal\<rparr>"

definition example_cancel :: "string list \<Rightarrow> WorkManagementOperation" where
  "example_cancel es = WorkManagementOperation.CancelAction ''action-1'' (AggregateVersion 2)
     ''No longer needed'' (map example_binding es)"

text \<open>
  C29. The payload digest binds everything the approver saw: the message hashed for a prepared
  intent determines its whole preview, so two prepared intents whose previews differ in any
  field (operation, targets, effects, sources, support, classification, expiry, identity) are
  hashed from different messages. Only lengths beyond a 64-bit count are excluded.
\<close>

theorem payload_digest_binds_preview:
  assumes "prepare sha256_hex i op tc support now = Inr p"
    and "prepare sha256_hex i' op' tc' support' now' = Inr q"
    and "preview_fits (prepared_preview p)" and "preview_fits (prepared_preview q)"
  shows "digest_stream (preview_fields (prepared_preview p)) =
           digest_stream (preview_fields (prepared_preview q)) \<longleftrightarrow>
         prepared_preview p = prepared_preview q"
  using preview_message_inject [OF _ assms(3,4) prepared_support_bound [OF assms(1)]
    prepared_support_bound [OF assms(2)]] by (metis)

lemma example_prepare:
  "\<exists>p. prepare (\<lambda>m. m) i (example_cancel []) DataClassification.Internal None (UtcTimestamp 5) = Inr p \<and>
     preview_id (prepared_preview p) = i \<and> (length i \<le> 100 \<longrightarrow> preview_fits (prepared_preview p))"
proof -
  have "length i < 18446744073709551616" if "length i \<le> 100" using that by simp
  then show ?thesis
    by (simp add: prepare_outcome example_cancel_def i64_in_range_def support_matches_def
      operation_support_requirement_def supersedes_itself_def intent_classification_def
      intent_sources_def classification_sources_def Let_def intent_preview_def preview_fits_def
      preview_fields_def id_version_def version_bytes_def counted_def digest_support_def
      digest_evidence_classification_bindings_def digest_classification_source_def)
qed

theorem payload_digest_binds_preview_witness:
  "\<exists>p q. prepare (\<lambda>m. m) ''p-1'' (example_cancel []) DataClassification.Internal None (UtcTimestamp 5) = Inr p \<and>
     prepare (\<lambda>m. m) ''p-2'' (example_cancel []) DataClassification.Internal None (UtcTimestamp 5) = Inr q \<and>
     digest_stream (preview_fields (prepared_preview p)) \<noteq> digest_stream (preview_fields (prepared_preview q))"
proof -
  from example_prepare [of "''p-1''"] obtain p where
    p: "prepare (\<lambda>m. m) ''p-1'' (example_cancel []) DataClassification.Internal None (UtcTimestamp 5) = Inr p"
      "preview_id (prepared_preview p) = ''p-1''" "preview_fits (prepared_preview p)" by auto
  from example_prepare [of "''p-2''"] obtain q where
    q: "prepare (\<lambda>m. m) ''p-2'' (example_cancel []) DataClassification.Internal None (UtcTimestamp 5) = Inr q"
      "preview_id (prepared_preview q) = ''p-2''" "preview_fits (prepared_preview q)" by auto
  from p(2) q(2) have "prepared_preview p \<noteq> prepared_preview q" by auto
  with payload_digest_binds_preview [OF p(1) q(1) p(3) q(3)] p(1) q(1) show ?thesis by blast
qed

text \<open>
  C30. What an approval of a prepared intent must be, and the window it has: a receipt is
  minted exactly when the approval names this intent, comes from the Head of Products who is
  authorized at that moment, acknowledges the digest of this very preview, arrives strictly
  before five minutes have passed since preparation, and the state read again at that moment
  (operation, classification, sources, support and policy) is the one the preview was built
  from. The receipt carries that digest, expiry and idempotency identity.
\<close>

theorem approval_window_exact:
  assumes "prepare sha256_hex i op tc support now = Inr p"
  shows "validate_and_mint_work_management_h2a_receipt p approval current now' rid authorize = Inr r \<longleftrightarrow>
     approval_prepared_id approval = i \<and>
     approval_actor approval = AuditActor.HeadOfProducts \<and> authorize AuditActor.HeadOfProducts \<and>
     acknowledged_payload_digest approval =
       sha256_hex (digest_stream (preview_fields (prepared_preview p))) \<and>
     unix_millis now' < unix_millis now + 300000 \<and>
     current = \<lparr>snapshot_operation = canonical_operation op,
                snapshot_classification = intent_classification (canonical_operation op) tc support,
                snapshot_classification_sources = intent_sources (canonical_operation op) tc support,
                snapshot_support = support, snapshot_policy = WorkManagementCurrentPolicy.Allowed\<rparr> \<and>
     r = \<lparr>receipt_id = rid, receipt_prepared_id = i,
          receipt_digest = acknowledged_payload_digest approval,
          receipt_expires_at = from_unix_millis (unix_millis now + 300000),
          receipt_actor = AuditActor.HeadOfProducts,
          receipt_idempotency_id = approval_idempotency_id approval\<rparr>"
  using assms
  by (auto simp: validate_Inr_iff prepare_Inr_iff expected_snapshot_def intent_preview_def
    calculate_preview_digest_def less_UtcTimestamp_def)

theorem approval_window_exact_witness:
  "\<exists>p approval r.
     prepare (\<lambda>m. m) ''p-1'' (example_cancel []) DataClassification.Internal None (UtcTimestamp 5) = Inr p \<and>
     validate_and_mint_work_management_h2a_receipt p approval
       \<lparr>snapshot_operation = example_cancel [], snapshot_classification = DataClassification.Internal,
        snapshot_classification_sources =
          [\<lparr>source_role = PrimaryTarget, source_classification = DataClassification.Internal\<rparr>],
        snapshot_support = None, snapshot_policy = WorkManagementCurrentPolicy.Allowed\<rparr>
       (UtcTimestamp 6) ''r-1'' (\<lambda>_. True) = Inr r"
proof -
  from example_prepare [of "''p-1''"] obtain p where
    p: "prepare (\<lambda>m. m) ''p-1'' (example_cancel []) DataClassification.Internal None (UtcTimestamp 5) = Inr p"
    by auto
  have same: "canonical_operation (example_cancel []) = example_cancel []"
    "intent_sources (example_cancel []) DataClassification.Internal None =
       [\<lparr>source_role = PrimaryTarget, source_classification = DataClassification.Internal\<rparr>]"
    "intent_classification (example_cancel []) DataClassification.Internal None = DataClassification.Internal"
    by (simp_all add: example_cancel_def intent_sources_def classification_sources_def
      intent_classification_def)
  show ?thesis
    using p approval_window_exact [OF p, where now' = "UtcTimestamp 6" and rid = "''r-1''"
      and authorize = "\<lambda>_. True" and approval = "\<lparr>approval_prepared_id = ''p-1'',
        approval_actor = AuditActor.HeadOfProducts,
        acknowledged_payload_digest = digest_stream (preview_fields (prepared_preview p)),
        approval_idempotency_id = ''op-1''\<rparr>"]
    unfolding same by force
qed

end
