(* ===== verification/Issue_Record.thy ===== *)
theory Issue_Record
  imports H2a_Intent
begin

text \<open>
  The Issue aggregate of \<^verbatim>\<open>crates/pmc-domain/src/issues.rs\<close> and its restart boundary: the
  record, the constructors that rehydrate it from storage, and the two runtime snapshots
  with their validation. Titles, details and rationales are the strings \<open>BoundedText_parse\<close>
  accepts.
\<close>

record IssueRecord =
  issue_id :: entity_id
  source_risk_id :: "entity_id option"
  recurrence_of :: "entity_id option"
  issue_title :: string
  issue_details :: string
  issue_classification :: DataClassification
  issue_state :: IssueState
  resolution_type :: "IssueResolutionType option"
  resolution_rationale :: "string option"
  resolution_evidence :: "entity_id list"
  closure_verification_evidence :: "entity_id list"
  failed_verification_evidence :: "entity_id list"
  reopen_rationales :: "string list"
  support_history :: "SupportWitness list"
  issue_version :: AggregateVersion

definition IssueRecord_new ::
  "entity_id \<Rightarrow> string \<Rightarrow> string \<Rightarrow> DataClassification \<Rightarrow> entity_id option \<Rightarrow> entity_id option
     \<Rightarrow> IssueRecord" where
  "IssueRecord_new i title details classification source recurrence =
     \<lparr>issue_id = i, source_risk_id = source, recurrence_of = recurrence, issue_title = title,
      issue_details = details, issue_classification = classification,
      issue_state = IssueState.Open, resolution_type = None, resolution_rationale = None,
      resolution_evidence = [], closure_verification_evidence = [],
      failed_verification_evidence = [], reopen_rationales = [], support_history = [],
      issue_version = AggregateVersion_initial\<rparr>"

definition IssueRecord_from_risk ::
  "entity_id \<Rightarrow> entity_id \<Rightarrow> string \<Rightarrow> string \<Rightarrow> DataClassification \<Rightarrow> IssueRecord" where
  "IssueRecord_from_risk i risk title details classification =
     IssueRecord_new i title details classification (Some risk) None"

definition IssueRecord_from_persisted_created_open ::
  "entity_id \<Rightarrow> string \<Rightarrow> string \<Rightarrow> DataClassification \<Rightarrow> AggregateVersion
     \<Rightarrow> DomainValueError + IssueRecord" where
  "IssueRecord_from_persisted_created_open i title details classification version =
     (if classification = DataClassification.Unclassified \<or> version \<noteq> AggregateVersion_initial
      then Inl (DomainValueError UnknownPersistedValue)
      else Inr (IssueRecord_new i title details classification None None))"

definition IssueRecord_from_persisted_created_from_risk ::
  "entity_id \<Rightarrow> entity_id \<Rightarrow> string \<Rightarrow> string \<Rightarrow> DataClassification \<Rightarrow> AggregateVersion
     \<Rightarrow> DomainValueError + IssueRecord" where
  "IssueRecord_from_persisted_created_from_risk i risk title details classification version =
     (if classification = DataClassification.Unclassified \<or> version \<noteq> AggregateVersion_initial
      then Inl (DomainValueError UnknownPersistedValue)
      else Inr (IssueRecord_from_risk i risk title details classification))"

definition IssueRecord_from_persisted :: "IssueRecord \<Rightarrow> DomainValueError + IssueRecord" where
  "IssueRecord_from_persisted parts =
     (if issue_classification parts = DataClassification.Unclassified
      then Inl (DomainValueError UnknownPersistedValue) else Inr parts)"

section \<open>Runtime snapshots\<close>

datatype IssueH1RuntimeSnapshotError = InvalidRecord | DuplicateIssue

definition initial_open_shape :: "IssueRecord \<Rightarrow> bool" where
  "initial_open_shape r \<longleftrightarrow>
     \<not> (source_risk_id r \<noteq> None \<or> recurrence_of r \<noteq> None \<or>
        issue_classification r = DataClassification.Unclassified \<or>
        issue_state r \<noteq> IssueState.Open \<or> issue_version r \<noteq> AggregateVersion_initial \<or>
        resolution_type r \<noteq> None \<or> resolution_rationale r \<noteq> None \<or>
        resolution_evidence r \<noteq> [] \<or> closure_verification_evidence r \<noteq> [] \<or>
        failed_verification_evidence r \<noteq> [] \<or> reopen_rationales r \<noteq> [] \<or>
        support_history r \<noteq> [])"

text \<open>The loop over the records, with the identities seen so far.\<close>

fun h1_snapshot_check ::
  "entity_id list \<Rightarrow> IssueRecord list \<Rightarrow> IssueH1RuntimeSnapshotError + unit" where
  "h1_snapshot_check seen [] = Inr ()"
| "h1_snapshot_check seen (r # rs) =
     (if issue_id r \<in> set seen then Inl IssueH1RuntimeSnapshotError.DuplicateIssue
      else if \<not> initial_open_shape r then Inl InvalidRecord
      else h1_snapshot_check (issue_id r # seen) rs)"

definition IssueH1RuntimeSnapshot_try_new ::
  "IssueRecord list \<Rightarrow> IssueH1RuntimeSnapshotError + IssueRecord list" where
  "IssueH1RuntimeSnapshot_try_new records =
     rbind (h1_snapshot_check [] records) (\<lambda>_. Inr records)"

record IssueOperationContext =
  idempotency_id :: operation_id
  correlation_id :: operation_id

datatype IssueH2aRuntimeSnapshotError =
  InvalidPreparedIntent | DuplicateIssue | DuplicatePreparedIntent | InvalidRejection

record IssueH2aRejectionReplay =
  rejection_prepared :: WorkManagementPreparedIntent
  rejection_context :: IssueOperationContext
  rejection_outcome :: RejectedPreparedIntentOutcome

abbreviation prepared_id :: "WorkManagementPreparedIntent \<Rightarrow> entity_id" where
  "prepared_id p \<equiv> preview_id (prepared_preview p)"

abbreviation prepared_operation :: "WorkManagementPreparedIntent \<Rightarrow> WorkManagementOperation" where
  "prepared_operation p \<equiv> preview_operation (prepared_preview p)"

definition prepared_issue_target :: "WorkManagementPreparedIntent \<Rightarrow> entity_id option" where
  "prepared_issue_target p =
     (case prepared_operation p of
        WorkManagementOperation.ResolveIssue i _ _ _ \<Rightarrow> Some i
      | WorkManagementOperation.CloseIssue i _ \<Rightarrow> Some i
      | WorkManagementOperation.ReopenIssue i _ _ \<Rightarrow> Some i
      | WorkManagementOperation.LowerIssueClassification i _ _ _ _ \<Rightarrow> Some i
      | _ \<Rightarrow> None)"

definition rejected_issue_id :: "WorkManagementPreparedIntent \<Rightarrow> entity_id option" where
  "rejected_issue_id p =
     (case prepared_operation p of
        WorkManagementOperation.ResolveIssue i _ _ _ \<Rightarrow> Some i
      | WorkManagementOperation.CloseIssue i _ \<Rightarrow> Some i
      | WorkManagementOperation.ReopenIssue i _ _ \<Rightarrow> Some i
      | _ \<Rightarrow> None)"

definition valid_issue_rejection :: "IssueH2aRejectionReplay \<Rightarrow> entity_id \<Rightarrow> bool" where
  "valid_issue_rejection rejection i =
     (let outcome = rejection_outcome rejection; audit = rejected_audit_event outcome in
      rejected_prepared_intent_id outcome = prepared_id (rejection_prepared rejection) \<and>
      expired_at_rejection outcome =
        (preview_expires_at (prepared_preview (rejection_prepared rejection)) \<le> rejected_at outcome) \<and>
      audit_occurred_at audit = rejected_at outcome \<and>
      audit_actor audit = AuditActor.HeadOfProducts \<and>
      audit_module audit = AuditModule.WorkManagement \<and>
      audit_code audit = ISSUE_PREPARED_REJECTED_AUDIT_CODE \<and>
      audit_target audit = AuditTarget.Issue i \<and>
      audit_correlation_id audit = correlation_id (rejection_context rejection) \<and>
      audit_policy_outcome audit = AuditPolicyOutcome.Allowed \<and>
      audit_approval_outcome audit = AuditApprovalOutcome.Rejected)"

record IssueH2aRuntimeSnapshot =
  snapshot_records :: "IssueRecord list"
  snapshot_prepared :: "WorkManagementPreparedIntent list"
  snapshot_rejections :: "IssueH2aRejectionReplay list"

fun h2a_records_check ::
  "entity_id list \<Rightarrow> IssueRecord list \<Rightarrow> IssueH2aRuntimeSnapshotError + entity_id list" where
  "h2a_records_check identities [] = Inr identities"
| "h2a_records_check identities (r # rs) =
     (if issue_id r \<in> set identities then Inl IssueH2aRuntimeSnapshotError.DuplicateIssue
      else h2a_records_check (issue_id r # identities) rs)"

fun h2a_prepared_check ::
  "entity_id list \<Rightarrow> entity_id list \<Rightarrow> WorkManagementPreparedIntent list
     \<Rightarrow> IssueH2aRuntimeSnapshotError + entity_id list" where
  "h2a_prepared_check identities prepared_identities [] = Inr prepared_identities"
| "h2a_prepared_check identities prepared_identities (p # ps) =
     (if prepared_id p \<in> set prepared_identities then Inl DuplicatePreparedIntent
      else case prepared_issue_target p of
        Some target \<Rightarrow>
          if target \<in> set identities
          then h2a_prepared_check identities (prepared_id p # prepared_identities) ps
          else Inl InvalidPreparedIntent
      | None \<Rightarrow> Inl InvalidPreparedIntent)"

fun h2a_rejections_check ::
  "entity_id list \<Rightarrow> entity_id list \<Rightarrow> entity_id list \<Rightarrow> operation_id list \<Rightarrow> entity_id list
     \<Rightarrow> IssueH2aRejectionReplay list \<Rightarrow> IssueH2aRuntimeSnapshotError + unit" where
  "h2a_rejections_check identities prepared_identities rejected idems audits [] = Inr ()"
| "h2a_rejections_check identities prepared_identities rejected idems audits (x # xs) =
     (case rejected_issue_id (rejection_prepared x) of
        None \<Rightarrow> Inl InvalidRejection
      | Some i \<Rightarrow>
          if prepared_id (rejection_prepared x) \<in> set prepared_identities \<or>
             prepared_id (rejection_prepared x) \<in> set rejected \<or>
             idempotency_id (rejection_context x) \<in> set idems \<or>
             audit_id (rejected_audit_event (rejection_outcome x)) \<in> set audits \<or>
             i \<notin> set identities \<or> \<not> valid_issue_rejection x i
          then Inl InvalidRejection
          else h2a_rejections_check identities prepared_identities
            (prepared_id (rejection_prepared x) # rejected)
            (idempotency_id (rejection_context x) # idems)
            (audit_id (rejected_audit_event (rejection_outcome x)) # audits) xs)"

definition IssueH2aRuntimeSnapshot_try_new_with_rejections ::
  "IssueRecord list \<Rightarrow> WorkManagementPreparedIntent list \<Rightarrow> IssueH2aRejectionReplay list
     \<Rightarrow> IssueH2aRuntimeSnapshotError + IssueH2aRuntimeSnapshot" where
  "IssueH2aRuntimeSnapshot_try_new_with_rejections records prepared rejections =
     rbind (h2a_records_check [] records) (\<lambda>identities.
     rbind (h2a_prepared_check identities [] prepared) (\<lambda>prepared_identities.
     rbind (h2a_rejections_check identities prepared_identities [] [] [] rejections) (\<lambda>_.
     Inr \<lparr>snapshot_records = records, snapshot_prepared = prepared,
          snapshot_rejections = rejections\<rparr>)))"

definition IssueH2aRuntimeSnapshot_try_new ::
  "IssueRecord list \<Rightarrow> WorkManagementPreparedIntent list
     \<Rightarrow> IssueH2aRuntimeSnapshotError + IssueH2aRuntimeSnapshot" where
  "IssueH2aRuntimeSnapshot_try_new records prepared =
     IssueH2aRuntimeSnapshot_try_new_with_rejections records prepared []"

section \<open>What the snapshots accept\<close>

lemma h1_snapshot_check_ok:
  "h1_snapshot_check seen rs = Inr () \<longleftrightarrow>
     distinct (map issue_id rs) \<and> set (map issue_id rs) \<inter> set seen = {} \<and>
     list_all initial_open_shape rs"
  by (induction seen rs rule: h1_snapshot_check.induct) auto

lemma h2a_records_check_Inr:
  "h2a_records_check seen rs = Inr identities \<longleftrightarrow>
     identities = rev (map issue_id rs) @ seen \<and> distinct (map issue_id rs) \<and>
     set (map issue_id rs) \<inter> set seen = {}"
  by (induction seen rs rule: h2a_records_check.induct) auto

lemma h2a_prepared_check_Inr:
  "h2a_prepared_check identities seen ps = Inr prepared_identities \<longleftrightarrow>
     prepared_identities = rev (map prepared_id ps) @ seen \<and> distinct (map prepared_id ps) \<and>
     set (map prepared_id ps) \<inter> set seen = {} \<and>
     list_all (\<lambda>p. prepared_issue_target p \<in> Some ` set identities) ps"
  by (induction identities seen ps rule: h2a_prepared_check.induct) (auto split: option.splits)

definition rejection_accepted :: "entity_id list \<Rightarrow> entity_id list \<Rightarrow> IssueH2aRejectionReplay \<Rightarrow> bool" where
  "rejection_accepted identities prepared_identities x \<longleftrightarrow>
     prepared_id (rejection_prepared x) \<notin> set prepared_identities \<and>
     (case rejected_issue_id (rejection_prepared x) of
        None \<Rightarrow> False
      | Some i \<Rightarrow> i \<in> set identities \<and> valid_issue_rejection x i)"

lemma rejection_accepted_rev [simp]:
  "rejection_accepted (rev is) (rev ps) x = rejection_accepted is ps x"
  by (simp add: rejection_accepted_def split: option.splits)

abbreviation rejection_id :: "IssueH2aRejectionReplay \<Rightarrow> entity_id" where
  "rejection_id x \<equiv> prepared_id (rejection_prepared x)"

abbreviation rejection_idempotency :: "IssueH2aRejectionReplay \<Rightarrow> operation_id" where
  "rejection_idempotency x \<equiv> idempotency_id (rejection_context x)"

abbreviation rejection_audit :: "IssueH2aRejectionReplay \<Rightarrow> entity_id" where
  "rejection_audit x \<equiv> audit_id (rejected_audit_event (rejection_outcome x))"

lemma h2a_rejections_check_ok:
  "h2a_rejections_check identities ps rejected idems audits xs = Inr () \<longleftrightarrow>
     list_all (rejection_accepted identities ps) xs \<and>
     distinct (map rejection_id xs) \<and> set (map rejection_id xs) \<inter> set rejected = {} \<and>
     distinct (map rejection_idempotency xs) \<and> set (map rejection_idempotency xs) \<inter> set idems = {} \<and>
     distinct (map rejection_audit xs) \<and> set (map rejection_audit xs) \<inter> set audits = {}"
  by (induction identities ps rejected idems audits xs rule: h2a_rejections_check.induct)
    (auto simp: rejection_accepted_def split: option.splits)

text \<open>
  A restart of the Issue runtime takes exactly the snapshots that could have come from
  it: Issues with distinct identities, outstanding previews with distinct identities that are
  Issue operations on a present Issue, and rejections whose previews are not outstanding, with
  distinct previews, idempotency identities and audits, each naming a present Issue and carrying
  an audit of a rejection by the Head of Products of that Issue at that moment. Nothing is changed on the way in.
\<close>

theorem h2a_snapshot_accepts_exactly:
  "IssueH2aRuntimeSnapshot_try_new_with_rejections records ps xs = Inr snapshot \<longleftrightarrow>
     snapshot = \<lparr>snapshot_records = records, snapshot_prepared = ps, snapshot_rejections = xs\<rparr> \<and>
     distinct (map issue_id records) \<and> distinct (map prepared_id ps) \<and>
     list_all (\<lambda>p. prepared_issue_target p \<in> Some ` set (map issue_id records)) ps \<and>
     list_all (rejection_accepted (map issue_id records) (map prepared_id ps)) xs \<and>
     distinct (map rejection_id xs) \<and> distinct (map rejection_idempotency xs) \<and>
     distinct (map rejection_audit xs)"
  by (auto simp: IssueH2aRuntimeSnapshot_try_new_with_rejections_def rbind_Inr_iff
    h2a_records_check_Inr h2a_prepared_check_Inr h2a_rejections_check_ok list_all_iff)

text \<open>
  The restart of the independent Issue path takes exactly lists of distinct Issues that
  are still in the shape in which they were created: open, first version, classified, with no
  source Risk, no recurrence and no history of any kind.
\<close>

theorem h1_snapshot_accepts_exactly:
  "IssueH1RuntimeSnapshot_try_new records = Inr snapshot \<longleftrightarrow>
     snapshot = records \<and> distinct (map issue_id records) \<and>
     list_all (\<lambda>r. issue_classification r \<noteq> DataClassification.Unclassified \<and>
       r = IssueRecord_new (issue_id r) (issue_title r) (issue_details r) (issue_classification r)
         None None) records"
proof -
  have "initial_open_shape r \<longleftrightarrow> issue_classification r \<noteq> DataClassification.Unclassified \<and>
      r = IssueRecord_new (issue_id r) (issue_title r) (issue_details r) (issue_classification r)
        None None" for r
    by (cases r) (auto simp: initial_open_shape_def IssueRecord_new_def)
  then have "initial_open_shape = (\<lambda>r. issue_classification r \<noteq> DataClassification.Unclassified \<and>
      r = IssueRecord_new (issue_id r) (issue_title r) (issue_details r) (issue_classification r)
        None None)" by blast
  then show ?thesis
    by (auto simp: IssueH1RuntimeSnapshot_try_new_def rbind_Inr_iff h1_snapshot_check_ok)
qed

end
