(* ===== verification/Service.thy ===== *)
theory Service
  imports Prelude
begin

text \<open>
  Combinators for the service methods: a method is a function from the service state to a
  result and the next state, chained with \<open>ebind\<close>. \<open>keeps R m\<close> says that \<open>m\<close> relates every
  state to its next state by \<open>R\<close>, whatever it returns; the locale \<open>frame\<close> derives it for a
  chain from its parts, for any reflexive and transitive \<open>R\<close>.
\<close>

definition ret :: "'a \<Rightarrow> 's \<Rightarrow> ('e + 'a) \<times> 's" where
  "ret a s = (Inr a, s)"

definition throw :: "'e \<Rightarrow> 's \<Rightarrow> ('e + 'a) \<times> 's" where
  "throw e s = (Inl e, s)"

definition ensure :: "bool \<Rightarrow> 'e \<Rightarrow> 's \<Rightarrow> ('e + unit) \<times> 's" where
  "ensure b e s = (if b then Inr () else Inl e, s)"

text \<open>A method that only reads the state.\<close>

definition reads :: "('s \<Rightarrow> 'e + 'a) \<Rightarrow> 's \<Rightarrow> ('e + 'a) \<times> 's" where
  "reads f s = (f s, s)"

definition lift_result :: "'e + 'a \<Rightarrow> 's \<Rightarrow> ('e + 'a) \<times> 's" where
  "lift_result r s = (r, s)"

text \<open>\<^verbatim>\<open>.map_err(f)\<close> on a method's result.\<close>

definition with_err :: "('e \<Rightarrow> 'f) \<Rightarrow> ('s \<Rightarrow> ('e + 'a) \<times> 's) \<Rightarrow> 's \<Rightarrow> ('f + 'a) \<times> 's" where
  "with_err f m s = (case m s of (r, s') \<Rightarrow> (map_err f r, s'))"

lemma method_results [simp]:
  "ret a s = (Inr b, t) \<longleftrightarrow> b = a \<and> t = s"
  "ret a s = (Inl e, t) \<longleftrightarrow> False"
  "throw e s = (Inr b, t) \<longleftrightarrow> False"
  "throw e s = (Inl e', t) \<longleftrightarrow> e' = e \<and> t = s"
  "ensure c e s = (Inr u, t) \<longleftrightarrow> c \<and> t = s"
  "ensure c e s = (Inl e', t) \<longleftrightarrow> \<not> c \<and> e' = e \<and> t = s"
  "reads f s = (r, t) \<longleftrightarrow> f s = r \<and> t = s"
  "lift_result r' s = (r, t) \<longleftrightarrow> r' = r \<and> t = s"
  by (auto simp: ret_def throw_def ensure_def reads_def lift_result_def)

lemma with_err_results [simp]:
  "with_err f m s = (Inr b, t) \<longleftrightarrow> m s = (Inr b, t)"
  "with_err f m s = (Inl e, t) \<longleftrightarrow> (\<exists>e'. m s = (Inl e', t) \<and> e = f e')"
  by (auto simp: with_err_def split: prod.splits sum.splits) (cases "fst (m s)"; auto)+

lemma ebind_run:
  "ebind (ret a) f = f a"
  "ebind (throw e) g = throw e"
  "ebind (reads k) h s = (case k s of Inl e \<Rightarrow> (Inl e, s) | Inr a \<Rightarrow> h a s)"
  "ebind (lift_result r) l s' = (case r of Inl e \<Rightarrow> (Inl e, s') | Inr a \<Rightarrow> l a s')"
  "ebind (ensure c e') m s'' = (if c then m () s'' else (Inl e', s''))"
  by (auto simp: ebind_def ret_def throw_def reads_def lift_result_def ensure_def fun_eq_iff)

definition keeps :: "('s \<Rightarrow> 's \<Rightarrow> bool) \<Rightarrow> ('s \<Rightarrow> 'r \<times> 's) \<Rightarrow> bool" where
  "keeps R m \<longleftrightarrow> (\<forall>s. R s (snd (m s)))"

lemma keepsD: "keeps R m \<Longrightarrow> m s = (r, t) \<Longrightarrow> R s t"
  unfolding keeps_def by (metis snd_conv)

lemma keepsI: "(\<And>s r t. m s = (r, t) \<Longrightarrow> R s t) \<Longrightarrow> keeps R m"
  unfolding keeps_def by (metis prod.collapse)

lemma keeps_mono: "keeps R m \<Longrightarrow> (\<And>s t. R s t \<Longrightarrow> R' s t) \<Longrightarrow> keeps R' m"
  unfolding keeps_def by blast

text \<open>\<open>errs_within R m\<close>: when \<open>m\<close> fails, it relates its state to the next one by \<open>R\<close>.\<close>

definition errs_within :: "('s \<Rightarrow> 's \<Rightarrow> bool) \<Rightarrow> ('s \<Rightarrow> ('e + 'a) \<times> 's) \<Rightarrow> bool" where
  "errs_within R m \<longleftrightarrow> (\<forall>s e t. m s = (Inl e, t) \<longrightarrow> R s t)"

lemma errs_withinD: "errs_within R m \<Longrightarrow> m s = (Inl e, t) \<Longrightarrow> R s t"
  by (simp add: errs_within_def)

lemma errs_within_keeps: "keeps R m \<Longrightarrow> errs_within R m"
  unfolding errs_within_def using keepsD by fast

locale frame =
  fixes R :: "'s \<Rightarrow> 's \<Rightarrow> bool"
  assumes refl: "R s s"
    and trans: "R s t \<Longrightarrow> R t u \<Longrightarrow> R s u"
begin

lemma keeps_pure:
  "keeps R (ret a)" "keeps R (throw e)" "keeps R (ensure c e)" "keeps R (reads g)"
  "keeps R (lift_result r)"
  by (simp_all add: keeps_def ret_def throw_def ensure_def reads_def lift_result_def refl)

lemma keeps_ebind: "keeps R m \<Longrightarrow> (\<And>a. keeps R (f a)) \<Longrightarrow> keeps R (ebind m f)"
  unfolding keeps_def ebind_def
  by (auto split: prod.splits sum.splits) (metis snd_conv refl trans)+

lemma keeps_with_err: "keeps R m \<Longrightarrow> keeps R (with_err f m)"
  unfolding keeps_def with_err_def by (auto split: prod.splits) (metis snd_conv)

lemma keeps_if: "keeps R m \<Longrightarrow> keeps R m' \<Longrightarrow> keeps R (if b then m else m')"
  by simp

lemma errs_within_ebind: "keeps R m \<Longrightarrow> (\<And>a. errs_within R (f a)) \<Longrightarrow> errs_within R (ebind m f)"
  unfolding errs_within_def ebind_err using keepsD trans by metis

lemma errs_within_throw: "errs_within R (throw e)"
  by (simp add: errs_within_def refl)

end

end
