(* ===== verification/Issue_Service.thy ===== *)
theory Issue_Service
  imports Issue_Record Errors Service
begin

text \<open>
  \<^verbatim>\<open>InMemoryIssueService\<close> of \<^verbatim>\<open>crates/pmc-domain/src/issues.rs\<close>. The six generic parameters of
  the service (clock, identifier source, authorization, policy, Evidence and classification
  authorities) are the record \<open>issue_ports\<close> over an environment \<open>'w\<close>: the clock and the
  identifier source may change it, the other ports read it. The state has the Issue store
  (\<^verbatim>\<open>SharedIssueAuthority\<close>), the three maps and lists of \<^verbatim>\<open>IssueStateStore\<close>, the environment
  and the injected-failure flag. A method returns the error or its value, with the next
  state; \<^verbatim>\<open>unreachable!()\<close> is \<open>undefined\<close>.
\<close>

section \<open>Commands, outcomes, ports and state\<close>

record CreateIssue =
  create_id :: entity_id
  create_title :: string
  create_details :: string
  create_classification :: DataClassification
  create_recurrence_of :: "entity_id option"
  create_context :: IssueOperationContext

record PrepareResolveIssue =
  resolve_issue_id :: entity_id
  resolve_expected_version :: AggregateVersion
  resolve_resolution_type :: IssueResolutionType
  resolve_rationale :: string
  resolve_evidence_ids :: "entity_id list"
  resolve_judgment :: "HumanJudgment option"
  resolve_context :: IssueOperationContext

record PrepareCloseIssue =
  close_issue_id :: entity_id
  close_expected_version :: AggregateVersion
  close_evidence_ids :: "entity_id list"
  close_judgment :: "HumanJudgment option"
  close_context :: IssueOperationContext

record PrepareReopenIssue =
  reopen_issue_id :: entity_id
  reopen_expected_version :: AggregateVersion
  reopen_rationale :: string
  reopen_evidence_ids :: "entity_id list"
  reopen_judgment :: "HumanJudgment option"
  reopen_context :: IssueOperationContext

record PrepareLowerIssueClassification =
  lower_issue_id :: entity_id
  lower_expected_version :: AggregateVersion
  lower_proposed_classification :: DataClassification
  lower_rationale :: string
  lower_context :: IssueOperationContext

record RejectIssuePreparedIntent =
  reject_prepared_id :: entity_id
  reject_actor :: AuditActor
  reject_context :: IssueOperationContext

text \<open>\<^verbatim>\<open>ApproveAndExecuteIssueTransition\<close> and \<^verbatim>\<open>ApproveAndExecuteLowerIssueClassification\<close>.\<close>

record ApproveAndExecute =
  execute_approval :: WorkManagementApproval
  execute_context :: IssueOperationContext

record IssueMutationOutcome =
  outcome_record :: IssueRecord
  outcome_audit_events :: "AuditEvent list"
  outcome_receipt_id :: "entity_id option"

datatype IssueExecutionPolicy = Allowed | Denied

datatype IssueEvidenceAuthorityError = Unavailable | NotFound

record 'w issue_ports =
  clock_now :: "'w \<Rightarrow> UtcTimestamp \<times> 'w"
  next_prepared_intent_id :: "'w \<Rightarrow> (DomainValueError + entity_id) \<times> 'w"
  next_approval_receipt_id :: "'w \<Rightarrow> (DomainValueError + entity_id) \<times> 'w"
  next_audit_event_id :: "'w \<Rightarrow> (DomainValueError + entity_id) \<times> 'w"
  authorize :: "'w \<Rightarrow> AuditActor \<Rightarrow> bool"
  current_policy :: "'w \<Rightarrow> WorkManagementOperation \<Rightarrow> IssueExecutionPolicy"
  resolve_evidence :: "'w \<Rightarrow> entity_id \<Rightarrow> IssueEvidenceAuthorityError + EvidenceReferenceMetadata"
  current_classification ::
    "'w \<Rightarrow> entity_id \<Rightarrow> DataClassification \<Rightarrow> IssueEvidenceAuthorityError + DataClassification"
  sha256_hex :: "string \<Rightarrow> string"

datatype Identity =
  Create entity_id string string DataClassification "entity_id option"
| Prepare WorkManagementOperation "entity_id list" "HumanJudgment option"
| Execute entity_id AuditActor payload_digest
| PrepareLowerClassification entity_id AggregateVersion DataClassification string
| RejectPrepared entity_id AuditActor

datatype Stored =
  Mutation IssueMutationOutcome
| Prepared WorkManagementPreparedIntent
| Rejected RejectedPreparedIntentOutcome

record 'w issue_service =
  world :: 'w
  issues :: "(entity_id \<times> IssueRecord) list"
  prepared :: "(entity_id \<times> WorkManagementPreparedIntent) list"
  idem :: "(operation_id \<times> Identity \<times> Stored) list"
  audits :: "AuditEvent list"
  fail_next_commit :: bool

type_synonym ('w, 'a) issue_method = "'w issue_service \<Rightarrow> (DomainError + 'a) \<times> 'w issue_service"

datatype Failure =
  PolicyDenied | Unauthorized | Evidence | Changed | Idempotency | Infrastructure
| EvidenceUnavailable | PrepareEvidenceUnavailable

section \<open>Helpers\<close>

definition issue_error :: "ErrorCode \<Rightarrow> string \<Rightarrow> IssueOperationContext \<Rightarrow> bool \<Rightarrow> DomainError" where
  "issue_error code key c retryable = DomainError_new code key (correlation_id c) retryable"

definition infrastructure_error :: "IssueOperationContext \<Rightarrow> DomainError" where
  "infrastructure_error c = issue_error PlatformInternal ''issue.infrastructure'' c True"

definition read_clock :: "'w issue_ports \<Rightarrow> 'w issue_service \<Rightarrow> ('e + UtcTimestamp) \<times> 'w issue_service" where
  "read_clock P s = (case clock_now P (world s) of (t, w) \<Rightarrow> (Inr t, s\<lparr>world := w\<rparr>))"

definition next_id ::
  "('w \<Rightarrow> (DomainValueError + entity_id) \<times> 'w) \<Rightarrow> 'e \<Rightarrow> 'w issue_service
     \<Rightarrow> ('e + entity_id) \<times> 'w issue_service" where
  "next_id source e s =
     (case source (world s) of (r, w) \<Rightarrow> (map_err (\<lambda>_. e) r, s\<lparr>world := w\<rparr>))"

definition take_commit_failure :: "'e \<Rightarrow> 'w issue_service \<Rightarrow> ('e + unit) \<times> 'w issue_service" where
  "take_commit_failure e s =
     (if fail_next_commit s then (Inl e, s\<lparr>fail_next_commit := False\<rparr>) else (Inr (), s))"

definition replay ::
  "IssueOperationContext \<Rightarrow> Identity \<Rightarrow> 'w issue_service \<Rightarrow> DomainError + Stored option" where
  "replay c sig s =
     (case hm_get (idem s) (idempotency_id c) of
        Some (old, v) \<Rightarrow>
          if old = sig then Inr (Some v)
          else Inl (issue_error DomainIdempotencyConflict ''issue.idempotency_conflict'' c False)
      | None \<Rightarrow> Inr None)"

definition prepared_issue :: "entity_id \<Rightarrow> 'w issue_service \<Rightarrow> entity_id option" where
  "prepared_issue i s = Option.bind (hm_get (prepared s) i) prepared_issue_target"

definition make_audit ::
  "'w issue_ports \<Rightarrow> entity_id \<Rightarrow> string \<Rightarrow> IssueOperationContext \<Rightarrow> bool \<Rightarrow> bool \<Rightarrow> ('w, AuditEvent) issue_method" where
  "make_audit P i code c h2 effect =
     ebind (next_id (next_audit_event_id P) (infrastructure_error c)) (\<lambda>aid.
     ebind (lift_result
       (if effect then map_err (\<lambda>_. infrastructure_error c) (map_sum id (\<lambda>e. [e]) (AuditEffectCode_parse code))
        else Inr [])) (\<lambda>effects.
     ebind (lift_result (map_err (\<lambda>_. infrastructure_error c)
       (AuditDisposition_new AuditPolicyOutcome.Allowed
         (if h2 then AuditApprovalOutcome.Approved else AuditApprovalOutcome.NotRequired)
         AuditExecutionOutcome.Succeeded
         (if effect then AuditEffectScope.Complete else AuditEffectScope.ScopeNone) effects))) (\<lambda>disposition.
     ebind (read_clock P) (\<lambda>now.
     ebind (lift_result (map_err (\<lambda>_. infrastructure_error c) (AuditEventCode_parse code))) (\<lambda>event_code.
     ret (AuditEvent_new aid now AuditActor.HeadOfProducts
       \<lparr>action_module = AuditModule.WorkManagement, action_code = event_code,
        action_target = AuditTarget.Issue i\<rparr>
       (correlation_id c) disposition))))))"

fun failure_outcomes ::
  "Failure \<Rightarrow> AuditPolicyOutcome \<times> AuditApprovalOutcome \<times> AuditExecutionOutcome" where
  "failure_outcomes Failure.PolicyDenied =
     (AuditPolicyOutcome.Denied, AuditApprovalOutcome.NotRequired, AuditExecutionOutcome.NotAttempted)"
| "failure_outcomes Failure.Infrastructure =
     (AuditPolicyOutcome.Allowed, AuditApprovalOutcome.Approved, AuditExecutionOutcome.Failed)"
| "failure_outcomes Failure.EvidenceUnavailable =
     (AuditPolicyOutcome.Allowed, AuditApprovalOutcome.Approved, AuditExecutionOutcome.Failed)"
| "failure_outcomes _ =
     (AuditPolicyOutcome.Allowed, AuditApprovalOutcome.Rejected, AuditExecutionOutcome.NotAttempted)"

definition failure_audit ::
  "'w issue_ports \<Rightarrow> entity_id option \<Rightarrow> string \<Rightarrow> IssueOperationContext \<Rightarrow> Failure \<Rightarrow> ('w, unit) issue_method" where
  "failure_audit P i code c f =
     ebind (next_id (next_audit_event_id P) (infrastructure_error c)) (\<lambda>aid.
     case failure_outcomes f of (po, ao, eo) \<Rightarrow>
     ebind (lift_result (map_err (\<lambda>_. infrastructure_error c)
       (AuditDisposition_new po ao eo AuditEffectScope.ScopeNone []))) (\<lambda>d.
     ebind (read_clock P) (\<lambda>now s.
       (case AuditEventCode_parse code of
          Inl _ \<Rightarrow> undefined
        | Inr event_code \<Rightarrow>
            (Inr (), s\<lparr>audits := audits s @
               [AuditEvent_new aid now AuditActor.HeadOfProducts
                 \<lparr>action_module = AuditModule.WorkManagement, action_code = event_code,
                  action_target = AuditTarget.Issue
                    (case i of Some target \<Rightarrow> target | None \<Rightarrow> ''issue-unknown'')\<rparr>
                 (correlation_id c) d]\<rparr>)))))"

fun next_intents :: "IssueState \<Rightarrow> string" where
  "next_intents IssueState.Open = ''issue.prepare_resolve''"
| "next_intents IssueState.Resolved = ''issue.prepare_close_or_reopen''"
| "next_intents IssueState.Closed = ''issue.no_transition''"

definition message_param :: "string \<Rightarrow> SafeParamValue \<Rightarrow> MessageParam" where
  "message_param key v =
     (case MessageParam_new key v of Inr p \<Rightarrow> p | Inl _ \<Rightarrow> undefined)"

definition lifecycle_error ::
  "entity_id \<Rightarrow> IssueOperationContext \<Rightarrow> 'w issue_service \<Rightarrow> DomainError" where
  "lifecycle_error i c s =
     (let e = issue_error DomainConflict ''issue.stale_or_illegal'' c False in
      case hm_get (issues s) i of
        None \<Rightarrow> e
      | Some x \<Rightarrow>
          with_param (message_param ''remediation'' (FieldKey ''issue.refresh_and_reprepare''))
            (with_param (message_param ''allowed_next_intents'' (FieldKey (next_intents (issue_state x))))
              (with_param (message_param ''current_state''
                  (Identifier (IssueState_as_persisted (issue_state x))))
                (with_extension (CurrentVersion (issue_version x)) e))))"

definition map_failure :: "Failure \<Rightarrow> IssueOperationContext \<Rightarrow> DomainError" where
  "map_failure f c =
     (case f of
        Failure.PolicyDenied \<Rightarrow> issue_error SecurityPolicyDenied ''issue.security_denied'' c False
      | Failure.Unauthorized \<Rightarrow> issue_error SecurityPolicyDenied ''issue.security_denied'' c False
      | Failure.Evidence \<Rightarrow> issue_error SecurityPolicyDenied ''issue.security_denied'' c False
      | Failure.Changed \<Rightarrow> issue_error SecurityPreviewExpiredOrChanged ''issue.preview_changed'' c False
      | Failure.Idempotency \<Rightarrow>
          issue_error DomainIdempotencyConflict ''issue.idempotency_conflict'' c False
      | Failure.Infrastructure \<Rightarrow> infrastructure_error c
      | Failure.EvidenceUnavailable \<Rightarrow> infrastructure_error c
      | Failure.PrepareEvidenceUnavailable \<Rightarrow> infrastructure_error c)"

definition is_genuine_lowering :: "DataClassification \<Rightarrow> DataClassification \<Rightarrow> bool" where
  "is_genuine_lowering current proposed \<longleftrightarrow> combine proposed current \<noteq> proposed"

definition required_role :: "WorkManagementOperation \<Rightarrow> EvidenceRole" where
  "required_role op =
     (case op of
        WorkManagementOperation.ResolveIssue _ _ _ _ \<Rightarrow> EvidenceRole.IssueResolution
      | WorkManagementOperation.CloseIssue _ _ \<Rightarrow> EvidenceRole.IssueClosureVerification
      | WorkManagementOperation.ReopenIssue _ _ _ \<Rightarrow> EvidenceRole.IssueFailedVerification
      | _ \<Rightarrow> undefined)"

text \<open>Issue and version an operation transitions, the state it requires and the next one.\<close>

definition transition ::
  "WorkManagementOperation \<Rightarrow> (entity_id \<times> AggregateVersion \<times> IssueState \<times> IssueState) option" where
  "transition op =
     (case op of
        WorkManagementOperation.ResolveIssue i v _ _ \<Rightarrow>
          Some (i, v, IssueState.Open, IssueState.Resolved)
      | WorkManagementOperation.CloseIssue i v \<Rightarrow>
          Some (i, v, IssueState.Resolved, IssueState.Closed)
      | WorkManagementOperation.ReopenIssue i v _ \<Rightarrow>
          Some (i, v, IssueState.Resolved, IssueState.Open)
      | _ \<Rightarrow> None)"

fun resolve_all ::
  "'w issue_ports \<Rightarrow> 'w \<Rightarrow> EvidenceRole \<Rightarrow> entity_id list
     \<Rightarrow> Failure + EvidenceReferenceMetadata list" where
  "resolve_all P w role [] = Inr []"
| "resolve_all P w role (i # is) =
     (case resolve_evidence P w i of
        Inl Unavailable \<Rightarrow> Inl Failure.EvidenceUnavailable
      | Inl NotFound \<Rightarrow> Inl Failure.Evidence
      | Inr m \<Rightarrow>
          if meta_id m \<noteq> i \<or> meta_role m \<noteq> role then Inl Failure.Evidence
          else rbind (resolve_all P w role is) (\<lambda>ms. Inr (m # ms)))"

definition support ::
  "'w issue_ports \<Rightarrow> entity_id list \<Rightarrow> HumanJudgment list \<Rightarrow> EvidenceRole \<Rightarrow> 'w issue_service
     \<Rightarrow> Failure + SupportWitness" where
  "support P ids judgments role s =
     rbind (resolve_all P (world s) role ids) (\<lambda>metadata.
     if metadata = [] then Inl Failure.Evidence
     else rbind (map_err (\<lambda>_. Failure.Evidence) (EvidenceOrJudgment_new metadata judgments)) (\<lambda>e.
          map_err (\<lambda>_. Failure.Evidence) (evaluate_evidence_required e)))"

section \<open>Creation\<close>

definition recurrence_classification ::
  "'w issue_ports \<Rightarrow> CreateIssue \<Rightarrow> 'w issue_service \<Rightarrow> DomainError + DataClassification" where
  "recurrence_classification P c s =
     (case create_recurrence_of c of
        None \<Rightarrow> Inr (create_classification c)
      | Some old \<Rightarrow>
          (case hm_get (issues s) old of
             Some v \<Rightarrow>
               if issue_state v = IssueState.Closed
               then rbind (map_err (\<lambda>_. infrastructure_error (create_context c))
                      (current_classification P (world s) old (issue_classification v)))
                    (\<lambda>source. Inr (combine (create_classification c) source))
               else Inl (lifecycle_error old (create_context c) s)
           | None \<Rightarrow> Inl (issue_error DomainNotFound ''issue.not_found'' (create_context c) False)))"

definition create_identity :: "CreateIssue \<Rightarrow> Identity" where
  "create_identity c =
     Create (create_id c) (create_title c) (create_details c) (create_classification c)
       (create_recurrence_of c)"

definition create_fresh ::
  "'w issue_ports \<Rightarrow> CreateIssue \<Rightarrow> ('w, IssueRecord \<times> AuditEvent) issue_method" where
  "create_fresh P c =
     ebind (ensure (create_classification c \<noteq> DataClassification.Unclassified)
       (issue_error ValidationInvalidField ''issue.classification_required'' (create_context c) False)) (\<lambda>_.
     ebind (reads (\<lambda>s. if hm_get (issues s) (create_id c) \<noteq> None
       then Inl (issue_error DomainConflict ''issue.exists'' (create_context c) False) else Inr ())) (\<lambda>_.
     ebind (reads (recurrence_classification P c)) (\<lambda>effective.
     ebind (ensure (effective \<noteq> DataClassification.Unclassified)
       (issue_error SecurityPolicyDenied ''issue.classification_required'' (create_context c) False)) (\<lambda>_.
     ebind (make_audit P (create_id c) ''issue.created'' (create_context c) False True) (\<lambda>audit.
     ebind (take_commit_failure (infrastructure_error (create_context c))) (\<lambda>_.
     ret (IssueRecord_new (create_id c) (create_title c) (create_details c) effective None
            (create_recurrence_of c), audit)))))))"

text \<open>The staged state every successful mutation installs at once.\<close>

definition commit_mutation ::
  "entity_id option \<Rightarrow> IssueOperationContext \<Rightarrow> Identity \<Rightarrow> IssueMutationOutcome \<Rightarrow> AuditEvent
     \<Rightarrow> 'w issue_service \<Rightarrow> ('e + IssueMutationOutcome) \<times> 'w issue_service" where
  "commit_mutation consumed c sig out audit s =
     (Inr out,
      s\<lparr>issues := hm_insert (issue_id (outcome_record out)) (outcome_record out) (issues s),
        prepared := (case consumed of None \<Rightarrow> prepared s | Some p \<Rightarrow> hm_remove p (prepared s)),
        audits := audits s @ [audit],
        idem := hm_insert (idempotency_id c) (sig, Mutation out) (idem s)\<rparr>)"

definition create_issue :: "'w issue_ports \<Rightarrow> CreateIssue \<Rightarrow> ('w, IssueMutationOutcome) issue_method" where
  "create_issue P c =
     ebind (reads (replay (create_context c) (create_identity c))) (\<lambda>stored.
     case stored of
       Some (Mutation v) \<Rightarrow> ret v
     | _ \<Rightarrow>
         ebind (create_fresh P c) (\<lambda>(record, audit).
         commit_mutation None (create_context c) (create_identity c)
           \<lparr>outcome_record = record, outcome_audit_events = [audit], outcome_receipt_id = None\<rparr> audit))"

section \<open>Preparation\<close>

definition store_prepared ::
  "IssueOperationContext \<Rightarrow> Identity \<Rightarrow> WorkManagementPreparedIntent
     \<Rightarrow> ('w, WorkManagementPreparedIntent) issue_method" where
  "store_prepared c sig p s =
     (Inr p, s\<lparr>prepared := hm_insert (prepared_id p) p (prepared s),
               idem := hm_insert (idempotency_id c) (sig, Prepared p) (idem s)\<rparr>)"

text \<open>A refusal that is audited before it is reported.\<close>

definition refuse_prepare ::
  "'w issue_ports \<Rightarrow> entity_id \<Rightarrow> IssueOperationContext \<Rightarrow> Failure \<Rightarrow> ('w, 'a) issue_method" where
  "refuse_prepare P i c f =
     ebind (failure_audit P (Some i) ''issue.prepare_denied'' c f) (\<lambda>_. throw (map_failure f c))"

definition prepare_support ::
  "'w issue_ports \<Rightarrow> entity_id \<Rightarrow> IssueOperationContext \<Rightarrow> entity_id list \<Rightarrow> HumanJudgment option
     \<Rightarrow> EvidenceRole \<Rightarrow> ('w, SupportWitness) issue_method" where
  "prepare_support P i c evidence_ids judgment role s =
     (case support P evidence_ids (case judgment of None \<Rightarrow> [] | Some j \<Rightarrow> [j]) role s of
        Inr w \<Rightarrow> (Inr w, s)
      | Inl f \<Rightarrow> refuse_prepare P i c
          (if f = Failure.EvidenceUnavailable then Failure.PrepareEvidenceUnavailable else f) s)"

definition prepare_classification ::
  "'w issue_ports \<Rightarrow> entity_id \<Rightarrow> IssueRecord \<Rightarrow> IssueOperationContext
     \<Rightarrow> ('w, DataClassification) issue_method" where
  "prepare_classification P i issue c s =
     (case current_classification P (world s) i (issue_classification issue) of
        Inl _ \<Rightarrow> refuse_prepare P i c Failure.Infrastructure s
      | Inr authoritative \<Rightarrow>
          let class = combine (issue_classification issue) authoritative in
          if class = DataClassification.Unclassified
          then refuse_prepare P i c Failure.Evidence s else (Inr class, s))"

definition prepare_policy ::
  "'w issue_ports \<Rightarrow> entity_id \<Rightarrow> WorkManagementOperation \<Rightarrow> IssueOperationContext \<Rightarrow> ('w, unit) issue_method" where
  "prepare_policy P i op c s =
     (if current_policy P (world s) op = IssueExecutionPolicy.Denied
      then refuse_prepare P i c Failure.PolicyDenied s else (Inr (), s))"

definition prepare_intent ::
  "'w issue_ports \<Rightarrow> WorkManagementOperation \<Rightarrow> DataClassification \<Rightarrow> SupportWitness option
     \<Rightarrow> IssueOperationContext \<Rightarrow> ('w, WorkManagementPreparedIntent) issue_method" where
  "prepare_intent P op class sw c =
     ebind (next_id (next_prepared_intent_id P) (infrastructure_error c)) (\<lambda>pid.
     ebind (read_clock P) (\<lambda>now.
     lift_result (map_err (\<lambda>_. issue_error DomainConflict ''issue.invalid_intent'' c False)
       (prepare (sha256_hex P) pid op class sw now))))"

definition prepare_fresh ::
  "'w issue_ports \<Rightarrow> WorkManagementOperation \<Rightarrow> entity_id list \<Rightarrow> HumanJudgment option
     \<Rightarrow> IssueOperationContext \<Rightarrow> ('w, WorkManagementPreparedIntent) issue_method" where
  "prepare_fresh P op evidence_ids judgment c =
     (case transition op of
        None \<Rightarrow> undefined
      | Some (i, version, required, _) \<Rightarrow>
          ebind (reads (\<lambda>s. ok_or (issue_error DomainNotFound ''issue.not_found'' c False)
            (hm_get (issues s) i))) (\<lambda>issue.
          ebind (reads (\<lambda>s. if issue_version issue \<noteq> version \<or> issue_state issue \<noteq> required
            then Inl (lifecycle_error i c s) else Inr ())) (\<lambda>_.
          ebind (prepare_support P i c evidence_ids judgment (required_role op)) (\<lambda>w.
          ebind (prepare_classification P i issue c) (\<lambda>class.
          ebind (prepare_policy P i op c) (\<lambda>_.
          prepare_intent P op class (Some w) c))))))"

definition prepare_transition ::
  "'w issue_ports \<Rightarrow> WorkManagementOperation \<Rightarrow> entity_id list \<Rightarrow> HumanJudgment option
     \<Rightarrow> IssueOperationContext \<Rightarrow> ('w, WorkManagementPreparedIntent) issue_method" where
  "prepare_transition P op evidence_ids judgment c =
     ebind (reads (replay c (Prepare op evidence_ids judgment))) (\<lambda>stored.
     case stored of
       Some (Prepared v) \<Rightarrow> ret v
     | _ \<Rightarrow>
         ebind (prepare_fresh P op evidence_ids judgment c) (\<lambda>p.
         store_prepared c (Prepare op evidence_ids judgment) p))"

definition prepare_resolve_issue ::
  "'w issue_ports \<Rightarrow> PrepareResolveIssue \<Rightarrow> ('w, WorkManagementPreparedIntent) issue_method" where
  "prepare_resolve_issue P c =
     prepare_transition P
       (WorkManagementOperation.ResolveIssue (resolve_issue_id c) (resolve_expected_version c)
         (resolve_resolution_type c) (resolve_rationale c))
       (resolve_evidence_ids c) (resolve_judgment c) (resolve_context c)"

definition prepare_close_issue ::
  "'w issue_ports \<Rightarrow> PrepareCloseIssue \<Rightarrow> ('w, WorkManagementPreparedIntent) issue_method" where
  "prepare_close_issue P c =
     prepare_transition P
       (WorkManagementOperation.CloseIssue (close_issue_id c) (close_expected_version c))
       (close_evidence_ids c) (close_judgment c) (close_context c)"

definition prepare_reopen_issue ::
  "'w issue_ports \<Rightarrow> PrepareReopenIssue \<Rightarrow> ('w, WorkManagementPreparedIntent) issue_method" where
  "prepare_reopen_issue P c =
     prepare_transition P
       (WorkManagementOperation.ReopenIssue (reopen_issue_id c) (reopen_expected_version c)
         (reopen_rationale c))
       (reopen_evidence_ids c) (reopen_judgment c) (reopen_context c)"

definition prepare_lower_fresh ::
  "'w issue_ports \<Rightarrow> PrepareLowerIssueClassification \<Rightarrow> ('w, WorkManagementPreparedIntent) issue_method" where
  "prepare_lower_fresh P c =
     ebind (reads (\<lambda>s. ok_or (issue_error DomainNotFound ''issue.not_found'' (lower_context c) False)
       (hm_get (issues s) (lower_issue_id c)))) (\<lambda>issue.
     ebind (reads (\<lambda>s. if issue_version issue \<noteq> lower_expected_version c
       then Inl (lifecycle_error (lower_issue_id c) (lower_context c) s) else Inr ())) (\<lambda>_.
     ebind (ensure (is_genuine_lowering (issue_classification issue) (lower_proposed_classification c))
       (issue_error DomainConflict ''issue.classification_lowering_not_a_lowering'' (lower_context c) False)) (\<lambda>_.
     let op = WorkManagementOperation.LowerIssueClassification (lower_issue_id c)
                (lower_expected_version c) (issue_classification issue)
                (lower_proposed_classification c) (lower_rationale c) in
     ebind (reads (\<lambda>s. if current_policy P (world s) op = IssueExecutionPolicy.Denied
       then Inl (issue_error SecurityPolicyDenied ''issue.security_denied'' (lower_context c) False)
       else Inr ())) (\<lambda>_.
     prepare_intent P op (issue_classification issue) None (lower_context c)))))"

definition prepare_lower_issue_classification ::
  "'w issue_ports \<Rightarrow> PrepareLowerIssueClassification \<Rightarrow> ('w, WorkManagementPreparedIntent) issue_method" where
  "prepare_lower_issue_classification P c =
     (let sig = PrepareLowerClassification (lower_issue_id c) (lower_expected_version c)
                  (lower_proposed_classification c) (lower_rationale c) in
      ebind (reads (replay (lower_context c) sig)) (\<lambda>stored.
      case stored of
        Some (Prepared v) \<Rightarrow> ret v
      | _ \<Rightarrow> ebind (prepare_lower_fresh P c) (\<lambda>p. store_prepared (lower_context c) sig p)))"

section \<open>Execution\<close>

definition execute_identity :: "WorkManagementApproval \<Rightarrow> Identity" where
  "execute_identity a =
     Execute (approval_prepared_id a) (approval_actor a) (acknowledged_payload_digest a)"

definition validation_failure :: "WorkManagementApprovalValidationError \<Rightarrow> Failure" where
  "validation_failure e =
     (case e of
        WorkManagementApprovalValidationError.Unauthorized \<Rightarrow> Failure.Unauthorized
      | _ \<Rightarrow> Failure.Changed)"

text \<open>The fresh intent, the snapshot read from it, and the receipt they validate.\<close>

definition mint_receipt ::
  "'w issue_ports \<Rightarrow> WorkManagementPreparedIntent \<Rightarrow> WorkManagementOperation \<Rightarrow> DataClassification
     \<Rightarrow> SupportWitness option \<Rightarrow> WorkManagementApproval \<Rightarrow> 'w issue_service
     \<Rightarrow> (Failure + WorkManagementPreparedIntent \<times> WorkManagementApprovalReceipt) \<times> 'w issue_service" where
  "mint_receipt P p op class sw approval =
     ebind (reads (\<lambda>s. if current_policy P (world s) op = IssueExecutionPolicy.Denied
       then Inl Failure.PolicyDenied else Inr ())) (\<lambda>_.
     ebind (read_clock P) (\<lambda>prepared_at.
     ebind (lift_result (map_err (\<lambda>_. Failure.Changed)
       (prepare (sha256_hex P) (prepared_id p) op class sw prepared_at))) (\<lambda>fresh.
     ebind (read_clock P) (\<lambda>now.
     ebind (next_id (next_approval_receipt_id P) Failure.Infrastructure) (\<lambda>rid.
     ebind (reads (\<lambda>s. map_err validation_failure
       (validate_and_mint_work_management_h2a_receipt p approval
         \<lparr>snapshot_operation = op,
          snapshot_classification = preview_classification (prepared_preview fresh),
          snapshot_classification_sources = preview_classification_sources (prepared_preview fresh),
          snapshot_support = sw, snapshot_policy = WorkManagementCurrentPolicy.Allowed\<rparr>
         now rid (authorize P (world s))))) (\<lambda>receipt.
     ret (fresh, receipt)))))))"

text \<open>The changes to the record; the audit code comes with it.\<close>

definition apply_transition ::
  "WorkManagementOperation \<Rightarrow> IssueState \<Rightarrow> DataClassification \<Rightarrow> SupportWitness \<Rightarrow> entity_id list
     \<Rightarrow> IssueRecord \<Rightarrow> Failure + IssueRecord \<times> string" where
  "apply_transition op next_state class sw evidence_ids current =
     rbind (ok_or Failure.Infrastructure (AggregateVersion_next (issue_version current))) (\<lambda>version.
     let record = current\<lparr>issue_state := next_state, issue_classification := class,
                          issue_version := version,
                          support_history := support_history current @ [sw]\<rparr> in
     case op of
       WorkManagementOperation.ResolveIssue _ _ ty rationale \<Rightarrow>
         Inr (record\<lparr>resolution_type := Some ty, resolution_rationale := Some rationale,
                     resolution_evidence := evidence_ids\<rparr>, ''issue.resolved'')
     | WorkManagementOperation.CloseIssue _ _ \<Rightarrow>
         if list_ex (\<lambda>x. x \<in> set (resolution_evidence record)) evidence_ids
         then Inl Failure.Evidence
         else Inr (record\<lparr>closure_verification_evidence := evidence_ids\<rparr>, ''issue.closed'')
     | WorkManagementOperation.ReopenIssue _ _ rationale \<Rightarrow>
         Inr (record\<lparr>failed_verification_evidence := failed_verification_evidence record @ evidence_ids,
                     reopen_rationales := reopen_rationales record @ [rationale]\<rparr>, ''issue.reopened'')
     | _ \<Rightarrow> Inl Failure.Changed)"

definition authoritative_classification ::
  "'w issue_ports \<Rightarrow> entity_id \<Rightarrow> IssueRecord \<Rightarrow> 'w issue_service \<Rightarrow> Failure + DataClassification" where
  "authoritative_classification P i current s =
     rbind (map_err (\<lambda>_. Failure.Infrastructure)
       (current_classification P (world s) i (issue_classification current))) (\<lambda>authoritative.
     let class = combine (issue_classification current) authoritative in
     if class = DataClassification.Unclassified then Inl Failure.Changed else Inr class)"

text \<open>The commit both kinds of execution share: audit, injected failure, staged state.\<close>

definition finish_execution ::
  "'w issue_ports \<Rightarrow> ApproveAndExecute \<Rightarrow> WorkManagementPreparedIntent
     \<Rightarrow> WorkManagementApprovalReceipt \<Rightarrow> entity_id \<Rightarrow> IssueRecord \<Rightarrow> string \<Rightarrow> 'w issue_service
     \<Rightarrow> (Failure + IssueMutationOutcome) \<times> 'w issue_service" where
  "finish_execution P c p receipt i record code =
     ebind (with_err (\<lambda>_. Failure.Infrastructure)
       (make_audit P i code (execute_context c) True True)) (\<lambda>audit.
     ebind (take_commit_failure Failure.Infrastructure) (\<lambda>_.
     commit_mutation (Some (prepared_id p)) (execute_context c) (execute_identity (execute_approval c))
       \<lparr>outcome_record = record, outcome_audit_events = [audit],
        outcome_receipt_id = Some (receipt_id receipt)\<rparr> audit))"

definition execute_fresh ::
  "'w issue_ports \<Rightarrow> ApproveAndExecute \<Rightarrow> 'w issue_service
     \<Rightarrow> (Failure + IssueMutationOutcome) \<times> 'w issue_service" where
  "execute_fresh P c =
     ebind (reads (\<lambda>s. ok_or Failure.Changed
       (hm_get (prepared s) (approval_prepared_id (execute_approval c))))) (\<lambda>p.
     ebind (lift_result (ok_or Failure.Changed (transition (prepared_operation p))))
       (\<lambda>(i, v, required, next_state).
     ebind (reads (\<lambda>s. ok_or Failure.Changed (hm_get (issues s) i))) (\<lambda>current.
     ebind (ensure (issue_version current = v \<and> issue_state current = required) Failure.Changed) (\<lambda>_.
     ebind (lift_result (ok_or Failure.Evidence (preview_support (prepared_preview p)))) (\<lambda>prepared_support.
     let evidence_ids = map meta_id (support_evidence prepared_support) in
     ebind (reads (support P evidence_ids (support_judgments prepared_support)
       (required_role (prepared_operation p)))) (\<lambda>sw.
     ebind (reads (authoritative_classification P i current)) (\<lambda>class.
     ebind (mint_receipt P p (prepared_operation p) class (Some sw) (execute_approval c)) (\<lambda>(fresh, receipt).
     ebind (lift_result (apply_transition (prepared_operation p) next_state
       (preview_classification (prepared_preview fresh)) sw evidence_ids current)) (\<lambda>(record, code).
     finish_execution P c p receipt i record code)))))))))"

definition execute_with ::
  "(ApproveAndExecute \<Rightarrow> 'w issue_service \<Rightarrow> (Failure + IssueMutationOutcome) \<times> 'w issue_service)
     \<Rightarrow> ApproveAndExecute \<Rightarrow> 'w issue_service
     \<Rightarrow> (Failure + IssueMutationOutcome) \<times> 'w issue_service" where
  "execute_with fresh c =
     ebind (ensure (approval_idempotency_id (execute_approval c) = idempotency_id (execute_context c))
       Failure.Changed) (\<lambda>_.
     ebind (reads (\<lambda>s. map_err (\<lambda>_. Failure.Idempotency)
       (replay (execute_context c) (execute_identity (execute_approval c)) s))) (\<lambda>stored.
     case stored of
       Some (Mutation v) \<Rightarrow> ret v
     | _ \<Rightarrow> fresh c))"

definition execute ::
  "'w issue_ports \<Rightarrow> ApproveAndExecute \<Rightarrow> 'w issue_service
     \<Rightarrow> (Failure + IssueMutationOutcome) \<times> 'w issue_service" where
  "execute P = execute_with (execute_fresh P)"

definition lowering_parts ::
  "WorkManagementOperation \<Rightarrow> (entity_id \<times> AggregateVersion \<times> DataClassification \<times> string) option" where
  "lowering_parts op =
     (case op of
        WorkManagementOperation.LowerIssueClassification i v _ proposed rationale \<Rightarrow>
          Some (i, v, proposed, rationale)
      | _ \<Rightarrow> None)"

definition execute_lower_fresh ::
  "'w issue_ports \<Rightarrow> ApproveAndExecute \<Rightarrow> 'w issue_service
     \<Rightarrow> (Failure + IssueMutationOutcome) \<times> 'w issue_service" where
  "execute_lower_fresh P c =
     ebind (reads (\<lambda>s. ok_or Failure.Changed
       (hm_get (prepared s) (approval_prepared_id (execute_approval c))))) (\<lambda>p.
     ebind (lift_result (ok_or Failure.Changed (lowering_parts (prepared_operation p))))
       (\<lambda>(i, v, proposed, rationale).
     ebind (reads (\<lambda>s. ok_or Failure.Changed (hm_get (issues s) i))) (\<lambda>current.
     ebind (ensure (issue_version current = v) Failure.Changed) (\<lambda>_.
     ebind (reads (authoritative_classification P i current)) (\<lambda>current_class.
     let op = WorkManagementOperation.LowerIssueClassification i (issue_version current)
                current_class proposed rationale in
     ebind (mint_receipt P p op current_class None (execute_approval c)) (\<lambda>(fresh, receipt).
     ebind (lift_result (ok_or Failure.Infrastructure (AggregateVersion_next (issue_version current)))) (\<lambda>version.
     finish_execution P c p receipt i
       (current\<lparr>issue_classification := proposed, issue_version := version\<rparr>)
       ''issue.classification_lowered'')))))))"

definition execute_lower_issue_classification ::
  "'w issue_ports \<Rightarrow> ApproveAndExecute \<Rightarrow> 'w issue_service
     \<Rightarrow> (Failure + IssueMutationOutcome) \<times> 'w issue_service" where
  "execute_lower_issue_classification P = execute_with (execute_lower_fresh P)"

text \<open>A failed execution is audited against the Issue the preview named before it ran.\<close>

definition audited_execution ::
  "'w issue_ports \<Rightarrow> (ApproveAndExecute \<Rightarrow> 'w issue_service
     \<Rightarrow> (Failure + IssueMutationOutcome) \<times> 'w issue_service)
     \<Rightarrow> ApproveAndExecute \<Rightarrow> ('w, IssueMutationOutcome) issue_method" where
  "audited_execution P run c s =
     (let target = prepared_issue (approval_prepared_id (execute_approval c)) s in
      case run c s of
        (Inr v, s') \<Rightarrow> (Inr v, s')
      | (Inl f, s') \<Rightarrow>
          ebind (failure_audit P target ''issue.execute_denied'' (execute_context c) f)
            (\<lambda>_. throw (map_failure f (execute_context c))) s')"

definition approve_and_execute ::
  "'w issue_ports \<Rightarrow> ApproveAndExecute \<Rightarrow> ('w, IssueMutationOutcome) issue_method" where
  "approve_and_execute P = audited_execution P (execute P)"

definition approve_and_execute_lower_issue_classification ::
  "'w issue_ports \<Rightarrow> ApproveAndExecute \<Rightarrow> ('w, IssueMutationOutcome) issue_method" where
  "approve_and_execute_lower_issue_classification P =
     audited_execution P (execute_lower_issue_classification P)"

definition ensure_prepared_operation ::
  "entity_id \<Rightarrow> (WorkManagementOperation \<Rightarrow> bool) \<Rightarrow> IssueOperationContext \<Rightarrow> ('w, unit) issue_method" where
  "ensure_prepared_operation i expected c =
     reads (\<lambda>s.
       if (case hm_get (prepared s) i of None \<Rightarrow> False | Some p \<Rightarrow> expected (prepared_operation p))
       then Inr ()
       else Inl (issue_error DomainConflict ''issue.prepared_operation_mismatch'' c False))"

definition is_resolve :: "WorkManagementOperation \<Rightarrow> bool" where
  "is_resolve op = (case op of WorkManagementOperation.ResolveIssue _ _ _ _ \<Rightarrow> True | _ \<Rightarrow> False)"

definition is_close :: "WorkManagementOperation \<Rightarrow> bool" where
  "is_close op = (case op of WorkManagementOperation.CloseIssue _ _ \<Rightarrow> True | _ \<Rightarrow> False)"

definition is_reopen :: "WorkManagementOperation \<Rightarrow> bool" where
  "is_reopen op = (case op of WorkManagementOperation.ReopenIssue _ _ _ \<Rightarrow> True | _ \<Rightarrow> False)"

definition approve_and_execute_resolve ::
  "'w issue_ports \<Rightarrow> ApproveAndExecute \<Rightarrow> ('w, IssueMutationOutcome) issue_method" where
  "approve_and_execute_resolve P c =
     ebind (ensure_prepared_operation (approval_prepared_id (execute_approval c)) is_resolve (execute_context c))
       (\<lambda>_. approve_and_execute P c)"

definition approve_and_execute_close ::
  "'w issue_ports \<Rightarrow> ApproveAndExecute \<Rightarrow> ('w, IssueMutationOutcome) issue_method" where
  "approve_and_execute_close P c =
     ebind (ensure_prepared_operation (approval_prepared_id (execute_approval c)) is_close (execute_context c))
       (\<lambda>_. approve_and_execute P c)"

definition approve_and_execute_reopen ::
  "'w issue_ports \<Rightarrow> ApproveAndExecute \<Rightarrow> ('w, IssueMutationOutcome) issue_method" where
  "approve_and_execute_reopen P c =
     ebind (ensure_prepared_operation (approval_prepared_id (execute_approval c)) is_reopen (execute_context c))
       (\<lambda>_. approve_and_execute P c)"

section \<open>Rejection, discarding and construction\<close>

fun stored_for :: "entity_id \<Rightarrow> Stored \<Rightarrow> bool" where
  "stored_for i (Prepared p) = (prepared_id p = i)"
| "stored_for i (Rejected outcome) = (rejected_prepared_intent_id outcome = i)"
| "stored_for i (Mutation _) = False"

definition reject_fresh ::
  "'w issue_ports \<Rightarrow> RejectIssuePreparedIntent \<Rightarrow> ('w, RejectedPreparedIntentOutcome) issue_method" where
  "reject_fresh P c =
     (let x = reject_context c in
      ebind (reads (\<lambda>s. if reject_actor c \<noteq> AuditActor.HeadOfProducts \<or> \<not> authorize P (world s) (reject_actor c)
        then Inl (issue_error SecurityPolicyDenied ''issue.security_denied'' x False) else Inr ())) (\<lambda>_.
      ebind (reads (\<lambda>s.
        case hm_get (prepared s) (reject_prepared_id c) of
          Some intent \<Rightarrow> Inr intent
        | None \<Rightarrow>
            if list_ex (\<lambda>(_, v). stored_for (reject_prepared_id c) v) (hm_values (idem s))
            then Inl (issue_error DomainConflict ''issue.stale_or_illegal'' x False)
            else Inl (issue_error DomainNotFound ''issue.not_found'' x False))) (\<lambda>intent.
      ebind (lift_result (ok_or (issue_error DomainConflict ''issue.invalid_intent'' x False)
        (rejected_issue_id intent))) (\<lambda>i.
      ebind (read_clock P) (\<lambda>now.
      ebind (next_id (next_audit_event_id P) (infrastructure_error x)) (\<lambda>aid.
      ebind (lift_result (ok_or (infrastructure_error x)
        (prepared_intent_rejection_audit aid now ISSUE_PREPARED_REJECTED_AUDIT_CODE
          (AuditTarget.Issue i) (correlation_id x)))) (\<lambda>audit.
      ebind (take_commit_failure (infrastructure_error x)) (\<lambda>_.
      ret \<lparr>rejected_prepared_intent_id = prepared_id intent, rejected_at = now,
           expired_at_rejection = (preview_expires_at (prepared_preview intent) \<le> now),
           rejected_audit_event = audit\<rparr>))))))))"

definition commit_rejection ::
  "RejectIssuePreparedIntent \<Rightarrow> RejectedPreparedIntentOutcome \<Rightarrow> ('w, RejectedPreparedIntentOutcome) issue_method" where
  "commit_rejection c out s =
     (Inr out,
      s\<lparr>prepared := hm_remove (reject_prepared_id c) (prepared s),
        audits := audits s @ [rejected_audit_event out],
        idem := hm_insert (idempotency_id (reject_context c))
          (RejectPrepared (reject_prepared_id c) (reject_actor c), Rejected out) (idem s)\<rparr>)"

definition reject_issue_prepared_intent ::
  "'w issue_ports \<Rightarrow> RejectIssuePreparedIntent \<Rightarrow> ('w, RejectedPreparedIntentOutcome) issue_method" where
  "reject_issue_prepared_intent P c =
     ebind (reads (replay (reject_context c) (RejectPrepared (reject_prepared_id c) (reject_actor c)))) (\<lambda>stored.
     case stored of
       Some (Rejected out) \<Rightarrow> ret out
     | Some _ \<Rightarrow> throw (issue_error DomainIdempotencyConflict ''issue.idempotency_conflict'' (reject_context c) False)
     | None \<Rightarrow> ebind (reject_fresh P c) (commit_rejection c))"

fun stored_prepared_for :: "entity_id \<Rightarrow> Stored \<Rightarrow> bool" where
  "stored_prepared_for i (Prepared p) = (prepared_id p = i)"
| "stored_prepared_for i _ = False"

definition discard_prepared_intent :: "entity_id \<Rightarrow> 'w issue_service \<Rightarrow> bool \<times> 'w issue_service" where
  "discard_prepared_intent i s =
     (let existed = (hm_get (prepared s) i \<noteq> None); s' = s\<lparr>prepared := hm_remove i (prepared s)\<rparr> in
      if existed
      then (True, s'\<lparr>idem := hm_retain (\<lambda>(_, v). \<not> stored_prepared_for i v) (idem s')\<rparr>)
      else (False, s'))"

definition inject_next_commit_failure :: "'w issue_service \<Rightarrow> 'w issue_service" where
  "inject_next_commit_failure s = s\<lparr>fail_next_commit := True\<rparr>"

text \<open>\<^verbatim>\<open>new_with_issue_authority\<close> and \<^verbatim>\<open>rehydrate_with_prepared_and_issue_authority\<close>.\<close>

definition issue_service_new :: "'w \<Rightarrow> (entity_id \<times> IssueRecord) list \<Rightarrow> 'w issue_service" where
  "issue_service_new w authority =
     \<lparr>world = w, issues = authority, prepared = [], idem = [], audits = [], fail_next_commit = False\<rparr>"

definition rehydrate_with_prepared_and_issue_authority ::
  "'w \<Rightarrow> WorkManagementPreparedIntent list \<Rightarrow> IssueH2aRejectionReplay list
     \<Rightarrow> (entity_id \<times> IssueRecord) list \<Rightarrow> 'w issue_service" where
  "rehydrate_with_prepared_and_issue_authority w ps rejections authority =
     \<lparr>world = w, issues = authority,
      prepared = fold (\<lambda>p. hm_insert (prepared_id p) p) ps [],
      idem = fold (\<lambda>x. hm_insert (idempotency_id (rejection_context x))
        (RejectPrepared (prepared_id (rejection_prepared x)) AuditActor.HeadOfProducts,
         Rejected (rejection_outcome x))) rejections [],
      audits = map (\<lambda>x. rejected_audit_event (rejection_outcome x)) rejections,
      fail_next_commit = False\<rparr>"

text \<open>\<^verbatim>\<open>IssueStore::from_records\<close>.\<close>

fun store_from_records ::
  "(entity_id \<times> IssueRecord) list \<Rightarrow> IssueRecord list \<Rightarrow> (entity_id \<times> IssueRecord) list option" where
  "store_from_records store [] = Some store"
| "store_from_records store (r # rs) =
     (if hm_get store (issue_id r) \<noteq> None then None
      else store_from_records (hm_insert (issue_id r) r store) rs)"

section \<open>Commands\<close>

text \<open>
  Everything a caller can do to the service, and one more command that stands for the
  passage of time and for everything else outside the service: it replaces the environment.
\<close>

datatype 'w issue_command =
  Create_Issue CreateIssue
| Prepare_Resolve PrepareResolveIssue
| Prepare_Close PrepareCloseIssue
| Prepare_Reopen PrepareReopenIssue
| Prepare_Lower PrepareLowerIssueClassification
| Approve ApproveAndExecute
| Approve_Resolve ApproveAndExecute
| Approve_Close ApproveAndExecute
| Approve_Reopen ApproveAndExecute
| Approve_Lower ApproveAndExecute
| Reject RejectIssuePreparedIntent
| Discard entity_id
| Inject_Commit_Failure
| Environment 'w

fun issue_step :: "'w issue_ports \<Rightarrow> 'w issue_command \<Rightarrow> 'w issue_service \<Rightarrow> 'w issue_service" where
  "issue_step P (Create_Issue c) s = snd (create_issue P c s)"
| "issue_step P (Prepare_Resolve c) s = snd (prepare_resolve_issue P c s)"
| "issue_step P (Prepare_Close c) s = snd (prepare_close_issue P c s)"
| "issue_step P (Prepare_Reopen c) s = snd (prepare_reopen_issue P c s)"
| "issue_step P (Prepare_Lower c) s = snd (prepare_lower_issue_classification P c s)"
| "issue_step P (Approve c) s = snd (approve_and_execute P c s)"
| "issue_step P (Approve_Resolve c) s = snd (approve_and_execute_resolve P c s)"
| "issue_step P (Approve_Close c) s = snd (approve_and_execute_close P c s)"
| "issue_step P (Approve_Reopen c) s = snd (approve_and_execute_reopen P c s)"
| "issue_step P (Approve_Lower c) s = snd (approve_and_execute_lower_issue_classification P c s)"
| "issue_step P (Reject c) s = snd (reject_issue_prepared_intent P c s)"
| "issue_step P (Discard i) s = snd (discard_prepared_intent i s)"
| "issue_step P Inject_Commit_Failure s = inject_next_commit_failure s"
| "issue_step P (Environment w) s = s\<lparr>world := w\<rparr>"

end
