(* ===== verification/Issue_Events.thy ===== *)
theory Issue_Events
  imports Issue_Service "HOL-Library.Sublist"
begin

text \<open>
  What the methods of the Issue service do to the Ledger, method by method, and the abstract
  events they implement. \<open>unaudited\<close> relates states that differ only in the environment and the
  injected failure, \<open>effectless\<close> also allows audits that record no effect. \<open>issue_event\<close> is
  the specification of the service as a step relation on its Ledger: nothing happens, an Issue
  is created, a preview is stored, a preview is executed as a transition or a lowering, rejected
  or discarded.
\<close>

section \<open>Frames\<close>

definition unaudited :: "'w issue_service \<Rightarrow> 'w issue_service \<Rightarrow> bool" where
  "unaudited s t \<longleftrightarrow> issues t = issues s \<and> prepared t = prepared s \<and> idem t = idem s \<and>
     audits t = audits s"

definition effectless :: "'w issue_service \<Rightarrow> 'w issue_service \<Rightarrow> bool" where
  "effectless s t \<longleftrightarrow> issues t = issues s \<and> prepared t = prepared s \<and> idem t = idem s \<and>
     (\<exists>es. audits t = audits s @ es \<and> list_all no_effect es)"

interpretation unaudited: frame unaudited
  by unfold_locales (simp_all add: unaudited_def)

interpretation effectless: frame effectless
  by unfold_locales (auto simp: effectless_def)

lemma unaudited_effectless: "unaudited s t \<Longrightarrow> effectless s t"
  by (simp add: unaudited_def effectless_def)

lemma keeps_world:
  "keeps unaudited (read_clock P)"
  "keeps unaudited (next_id source e)"
  "keeps unaudited (take_commit_failure e)"
  by (auto simp: keeps_def read_clock_def next_id_def take_commit_failure_def unaudited_def
    split: prod.splits)

lemma ebind_ports:
  "ebind (read_clock P) f s = (case clock_now P (world s) of (t, w) \<Rightarrow> f t (s\<lparr>world := w\<rparr>))"
  "ebind (next_id source e) g s =
     (case source (world s) of
        (Inl _, w) \<Rightarrow> (Inl e, s\<lparr>world := w\<rparr>)
      | (Inr i, w) \<Rightarrow> g i (s\<lparr>world := w\<rparr>))"
  by (simp_all add: ebind_def read_clock_def next_id_def map_err_def split: prod.splits sum.splits)

lemmas unaudited_rules = unaudited.keeps_ebind unaudited.keeps_pure unaudited.keeps_with_err
  keeps_world

lemma keeps_make_audit: "keeps unaudited (make_audit P i code c h2 effect)"
  unfolding make_audit_def by (intro unaudited_rules)

lemma keeps_create_fresh: "keeps unaudited (create_fresh P c)"
  unfolding create_fresh_def by (intro unaudited_rules keeps_make_audit)

lemma keeps_prepare_intent: "keeps unaudited (prepare_intent P op class sw c)"
  unfolding prepare_intent_def by (intro unaudited_rules)

lemma keeps_prepare_lower_fresh: "keeps unaudited (prepare_lower_fresh P c)"
  unfolding prepare_lower_fresh_def Let_def by (intro unaudited_rules keeps_prepare_intent)

lemma keeps_mint_receipt: "keeps unaudited (mint_receipt P p op class sw approval)"
  unfolding mint_receipt_def by (intro unaudited_rules)

lemma keeps_reject_fresh: "keeps unaudited (reject_fresh P c)"
  unfolding reject_fresh_def Let_def by (intro unaudited_rules)

lemma failure_disposition:
  "failure_outcomes f = (po, ao, eo) \<Longrightarrow>
     AuditDisposition_new po ao eo AuditEffectScope.ScopeNone [] =
       Inr \<lparr>policy_outcome = po, approval_outcome = ao, execution_outcome = eo,
            effect_scope = AuditEffectScope.ScopeNone, actual_effects = []\<rparr>"
  by (cases f) (auto simp: AuditDisposition_new_Inr_iff)

lemma failure_codes:
  "AuditEventCode_parse ''issue.prepare_denied'' = Inr ''issue.prepare_denied''"
  "AuditEventCode_parse ''issue.execute_denied'' = Inr ''issue.execute_denied''"
  by code_simp+

text \<open>A failure audit either cannot get an identifier or adds exactly one audit.\<close>

lemma failure_audit_result:
  assumes "code \<in> {''issue.prepare_denied'', ''issue.execute_denied''}"
    and "failure_audit P i code c f s = (r, t)"
  shows "issues t = issues s \<and> prepared t = prepared s \<and> idem t = idem s \<and>
    (r = Inl (infrastructure_error c) \<and> audits t = audits s \<or>
     r = Inr () \<and> (\<exists>e. audits t = audits s @ [e] \<and> no_effect e \<and> audit_code e = code \<and>
       audit_target e = AuditTarget.Issue (case i of Some x \<Rightarrow> x | None \<Rightarrow> ''issue-unknown'') \<and>
       (audit_policy_outcome e, audit_approval_outcome e, audit_execution_outcome e) =
         failure_outcomes f))"
proof -
  obtain po ao eo where out: "failure_outcomes f = (po, ao, eo)" by (cases "failure_outcomes f")
  have parse: "AuditEventCode_parse code = Inr code" using assms(1) failure_codes by auto
  show ?thesis
    using assms(2)
    by (auto simp: failure_audit_def out failure_disposition [OF out] parse ebind_def next_id_def
        read_clock_def lift_result_def AuditEvent_new_def no_effect_def map_err_Inl_iff
        split: prod.splits sum.splits)
qed

lemma keeps_failure_audit:
  "code \<in> {''issue.prepare_denied'', ''issue.execute_denied''} \<Longrightarrow>
     keeps effectless (failure_audit P i code c f)"
  by (rule keepsI, drule (1) failure_audit_result) (auto simp: effectless_def)

lemma keeps_refuse_prepare: "keeps effectless (refuse_prepare P i c f)"
  unfolding refuse_prepare_def
  by (intro effectless.keeps_ebind effectless.keeps_pure keeps_failure_audit) simp

lemma keeps_prepare_checks:
  "keeps effectless (prepare_support P i c ids judgment role)"
  "keeps effectless (prepare_classification P i issue c)"
  "keeps effectless (prepare_policy P i op c)"
  using keeps_refuse_prepare [of P i c] effectless.refl
  by (auto simp: keeps_def prepare_support_def prepare_classification_def prepare_policy_def Let_def
    split: sum.splits)

lemma keeps_prepare_fresh:
  "transition op \<noteq> None \<Longrightarrow> keeps effectless (prepare_fresh P op ids judgment c)"
  unfolding prepare_fresh_def
  by (auto intro!: effectless.keeps_ebind effectless.keeps_pure keeps_prepare_checks
      keeps_mono [OF keeps_prepare_intent unaudited_effectless])

section \<open>What a successful method did\<close>

definition mutation_audit :: "AuditEvent \<Rightarrow> entity_id \<Rightarrow> string \<Rightarrow> IssueOperationContext \<Rightarrow> bool \<Rightarrow> bool" where
  "mutation_audit a i code c h2 \<longleftrightarrow>
     audit_code a = code \<and> audit_target a = AuditTarget.Issue i \<and>
     audit_actor a = AuditActor.HeadOfProducts \<and> audit_correlation_id a = correlation_id c \<and>
     audit_policy_outcome a = AuditPolicyOutcome.Allowed \<and>
     audit_approval_outcome a =
       (if h2 then AuditApprovalOutcome.Approved else AuditApprovalOutcome.NotRequired) \<and>
     audit_execution_outcome a = AuditExecutionOutcome.Succeeded \<and>
     audit_effect_scope a = AuditEffectScope.Complete \<and> audit_actual_effects a = [code]"

lemma make_audit_ok:
  "make_audit P i code c h2 True s = (Inr a, t) \<Longrightarrow> mutation_audit a i code c h2"
  by (auto simp: make_audit_def ebind_ok AuditDisposition_new_Inr_iff AuditEvent_new_def
    mutation_audit_def AuditEventCode_parse_def AuditEffectCode_parse_def token_parse_Inr_iff
    map_sum_def split: sum.splits)

definition created_from :: "'w issue_ports \<Rightarrow> 'w issue_service \<Rightarrow> CreateIssue \<Rightarrow> IssueRecord \<Rightarrow> bool" where
  "created_from P s c r \<longleftrightarrow>
     hm_get (issues s) (create_id c) = None \<and>
     create_classification c \<noteq> DataClassification.Unclassified \<and>
     issue_classification r \<noteq> DataClassification.Unclassified \<and>
     recurrence_classification P c s = Inr (issue_classification r) \<and>
     r = IssueRecord_new (create_id c) (create_title c) (create_details c) (issue_classification r)
       None (create_recurrence_of c)"

lemma create_fresh_ok:
  assumes "create_fresh P c s = (Inr (record, audit), t)"
  shows "created_from P s c record \<and> unaudited s t \<and>
    mutation_audit audit (create_id c) ''issue.created'' (create_context c) False"
proof -
  have "unaudited s t" using keeps_create_fresh assms by (rule keepsD)
  moreover from assms have "created_from P s c record"
    by (auto simp: create_fresh_def ebind_ok created_from_def IssueRecord_new_def split: if_splits)
  moreover from assms have "mutation_audit audit (create_id c) ''issue.created'' (create_context c) False"
    by (auto simp: create_fresh_def ebind_ok dest!: make_audit_ok)
  ultimately show ?thesis by blast
qed

lemma prepare_intent_ok:
  assumes "prepare_intent P op class sw c s = (Inr p, t)"
  shows "unaudited s t \<and> (\<exists>pid now. fst (next_prepared_intent_id P (world s)) = Inr pid \<and>
    prepare (sha256_hex P) pid op class sw now = Inr p)"
proof -
  from assms have "\<exists>pid now. fst (next_prepared_intent_id P (world s)) = Inr pid \<and>
      prepare (sha256_hex P) pid op class sw now = Inr p"
    by (auto simp: prepare_intent_def ebind_ports lift_result_def map_err_def split: prod.splits sum.splits)
  with keepsD [OF keeps_prepare_intent assms] show ?thesis by blast
qed

lemma resolve_all_ok:
  "resolve_all P w role ids = Inr ms \<Longrightarrow>
     map meta_id ms = ids \<and> list_all (\<lambda>m. resolve_evidence P w (meta_id m) = Inr m \<and> meta_role m = role) ms"
  by (induction P w role ids arbitrary: ms rule: resolve_all.induct)
    (auto simp: rbind_Inr_iff split: sum.splits if_splits IssueEvidenceAuthorityError.splits)

text \<open>The support a transition needs, as a property of what the Evidence authority says now.\<close>

definition evidence_supports ::
  "'w issue_ports \<Rightarrow> 'w \<Rightarrow> entity_id list \<Rightarrow> HumanJudgment list \<Rightarrow> EvidenceRole \<Rightarrow> SupportWitness \<Rightarrow> bool" where
  "evidence_supports P w ids judgments role sw \<longleftrightarrow>
     ids \<noteq> [] \<and> map meta_id (support_evidence sw) = ids \<and> support_judgments sw = judgments \<and>
     support_requirement sw = EvidenceRequired \<and>
     list_all (\<lambda>m. resolve_evidence P w (meta_id m) = Inr m \<and> meta_role m = role \<and>
       \<not> refuses (meta_verification m)) (support_evidence sw) \<and>
     (if list_all (\<lambda>m. verified (meta_verification m)) (support_evidence sw)
      then support_disposition sw = EvidenceSatisfied
      else support_disposition sw = VerificationPending \<and> judgments \<noteq> [])"

lemma support_ok:
  assumes "support P ids judgments role s = Inr sw"
  shows "evidence_supports P (world s) ids judgments role sw"
proof -
  from assms obtain ms e where ms: "resolve_all P (world s) role ids = Inr ms" "ms \<noteq> []"
    and e: "EvidenceOrJudgment_new ms judgments = Inr e" and sw: "evaluate_evidence_required e = Inr sw"
    by (auto simp: support_def rbind_Inr_iff split: if_splits)
  from e ms(2) have parts: "eoj_evidence e = ms" "eoj_judgments e = judgments"
    by (auto simp: EvidenceOrJudgment_new_def)
  note gate = evaluate_evidence_required_Inr [OF sw, unfolded parts]
  from gate have w: "sw = witness e EvidenceRequired (support_disposition sw)" by blast
  have fields: "support_evidence sw = ms" "support_judgments sw = judgments"
    "support_requirement sw = EvidenceRequired" by (subst w, simp add: parts)+
  have "verified v \<longleftrightarrow> \<not> refuses v \<and> \<not> degraded v" for v by (cases v) simp_all
  moreover have "support_disposition sw \<noteq> VerificationPending \<Longrightarrow> support_disposition sw = EvidenceSatisfied"
    using gate by (cases "support_disposition sw") auto
  ultimately show ?thesis
    using resolve_all_ok [OF ms(1)] ms(2) gate fields
    by (auto simp: evidence_supports_def list_all_iff list_ex_iff)
qed

text \<open>
  The moment at which an approval is judged: the second reading of the clock, after the one
  the fresh preview is built with; the receipt identifier is drawn after it, and authorization
  is asked for last.
\<close>

definition execution_time :: "'w issue_ports \<Rightarrow> 'w \<Rightarrow> UtcTimestamp" where
  "execution_time P w = fst (clock_now P (snd (clock_now P w)))"

definition authorization_world :: "'w issue_ports \<Rightarrow> 'w \<Rightarrow> 'w" where
  "authorization_world P w =
     snd (next_approval_receipt_id P (snd (clock_now P (snd (clock_now P w)))))"

definition approved ::
  "'w issue_ports \<Rightarrow> 'w \<Rightarrow> WorkManagementPreparedIntent \<Rightarrow> WorkManagementApproval \<Rightarrow> bool" where
  "approved P w p a \<longleftrightarrow>
     approval_prepared_id a = prepared_id p \<and> approval_actor a = AuditActor.HeadOfProducts \<and>
     authorize P (authorization_world P w) AuditActor.HeadOfProducts \<and>
     acknowledged_payload_digest a = prepared_payload_digest p \<and>
     execution_time P w < preview_expires_at (prepared_preview p)"

lemma mint_receipt_ok:
  assumes "mint_receipt P p op class sw a s = (Inr (fresh, receipt), t)"
  shows "unaudited s t \<and> current_policy P (world s) op = IssueExecutionPolicy.Allowed \<and>
    approved P (world s) p a \<and> op = prepared_operation p \<and>
    sw = preview_support (prepared_preview p) \<and>
    (\<exists>now. prepare (sha256_hex P) (prepared_id p) op class sw now = Inr fresh) \<and>
    preview_classification (prepared_preview fresh) = preview_classification (prepared_preview p) \<and>
    preview_classification_sources (prepared_preview fresh) =
      preview_classification_sources (prepared_preview p) \<and>
    (\<exists>w. next_approval_receipt_id P (snd (clock_now P (snd (clock_now P (world s))))) =
       (Inr (receipt_id receipt), w)) \<and>
    receipt_prepared_id receipt = prepared_id p \<and> receipt_digest receipt = prepared_payload_digest p"
proof -
  obtain t1 w1 where clock1: "clock_now P (world s) = (t1, w1)" by (cases "clock_now P (world s)")
  obtain now w2 where clock2: "clock_now P w1 = (now, w2)" by (cases "clock_now P w1")
  obtain ridr w3 where rid3: "next_approval_receipt_id P w2 = (ridr, w3)"
    by (cases "next_approval_receipt_id P w2")
  let ?snapshot = "\<lambda>fresh. \<lparr>snapshot_operation = op,
          snapshot_classification = preview_classification (prepared_preview fresh),
          snapshot_classification_sources = preview_classification_sources (prepared_preview fresh),
          snapshot_support = sw, snapshot_policy = WorkManagementCurrentPolicy.Allowed\<rparr>"
  have policy: "current_policy P (world s) op \<noteq> IssueExecutionPolicy.Denied"
    using assms by (auto simp: mint_receipt_def ebind_run)
  obtain f where f: "prepare (sha256_hex P) (prepared_id p) op class sw t1 = Inr f"
    using assms policy
    by (cases "prepare (sha256_hex P) (prepared_id p) op class sw t1")
      (simp_all add: mint_receipt_def ebind_run ebind_ports clock1)
  obtain rid where rid: "next_approval_receipt_id P w2 = (Inr rid, w3)"
    using assms policy rid3
    by (cases ridr) (simp_all add: mint_receipt_def ebind_run ebind_ports clock1 clock2 f)
  have both: "validate_and_mint_work_management_h2a_receipt p a (?snapshot f)
       now rid (authorize P w3) = Inr receipt \<and> f = fresh"
    using assms policy
    by (cases "validate_and_mint_work_management_h2a_receipt p a (?snapshot f) now rid (authorize P w3)")
      (simp_all add: mint_receipt_def ebind_run ebind_ports clock1 clock2 f rid ret_def)
  note same = both [THEN conjunct2]
  note valid = both [THEN conjunct1, unfolded same] and fresh = f [unfolded same]
  note facts = valid [unfolded validate_Inr_iff expected_snapshot_def]
  have "current_policy P (world s) op = IssueExecutionPolicy.Allowed"
    using policy by (cases "current_policy P (world s) op") simp_all
  moreover have "approved P (world s) p a"
    using facts by (simp add: approved_def execution_time_def authorization_world_def clock1 clock2 rid)
  moreover have "next_approval_receipt_id P (snd (clock_now P (snd (clock_now P (world s))))) =
      (Inr (receipt_id receipt), w3)"
    using facts by (simp add: clock1 clock2 rid)
  moreover have "op = prepared_operation p" "sw = preview_support (prepared_preview p)"
    "preview_classification (prepared_preview fresh) = preview_classification (prepared_preview p)"
    "preview_classification_sources (prepared_preview fresh) =
      preview_classification_sources (prepared_preview p)"
    "receipt_prepared_id receipt = prepared_id p" "receipt_digest receipt = prepared_payload_digest p"
    using facts by simp_all
  moreover note keepsD [OF keeps_mint_receipt assms] fresh
  ultimately show ?thesis by blast
qed

lemma authoritative_classification_ok:
  "authoritative_classification P i r s = Inr class \<longleftrightarrow>
     class \<noteq> DataClassification.Unclassified \<and>
     (\<exists>a. current_classification P (world s) i (issue_classification r) = Inr a \<and>
          class = combine (issue_classification r) a)"
  by (cases "current_classification P (world s) i (issue_classification r)")
    (auto simp: authoritative_classification_def Let_def simp del: combine_Unclassified_iff)

text \<open>The record after a transition, and the audit code it is recorded under.\<close>

fun transitioned :: "WorkManagementOperation \<Rightarrow> entity_id list \<Rightarrow> IssueRecord \<Rightarrow> IssueRecord" where
  "transitioned (WorkManagementOperation.ResolveIssue _ _ ty rationale) ids r =
     r\<lparr>issue_state := IssueState.Resolved, resolution_type := Some ty,
       resolution_rationale := Some rationale, resolution_evidence := ids\<rparr>"
| "transitioned (WorkManagementOperation.CloseIssue _ _) ids r =
     r\<lparr>issue_state := IssueState.Closed, closure_verification_evidence := ids\<rparr>"
| "transitioned (WorkManagementOperation.ReopenIssue _ _ rationale) ids r =
     r\<lparr>issue_state := IssueState.Open,
       failed_verification_evidence := failed_verification_evidence r @ ids,
       reopen_rationales := reopen_rationales r @ [rationale]\<rparr>"
| "transitioned _ ids r = r"

fun transition_code :: "WorkManagementOperation \<Rightarrow> string" where
  "transition_code (WorkManagementOperation.ResolveIssue _ _ _ _) = ''issue.resolved''"
| "transition_code (WorkManagementOperation.CloseIssue _ _) = ''issue.closed''"
| "transition_code (WorkManagementOperation.ReopenIssue _ _ _) = ''issue.reopened''"
| "transition_code _ = []"

definition supported_version ::
  "AggregateVersion \<Rightarrow> DataClassification \<Rightarrow> SupportWitness \<Rightarrow> IssueRecord \<Rightarrow> IssueRecord" where
  "supported_version v class sw r =
     r\<lparr>issue_version := v, issue_classification := class, support_history := support_history r @ [sw]\<rparr>"

lemma apply_transition_ok:
  assumes "transition op = Some (i, v, required, next_state)"
  shows "apply_transition op next_state class sw ids r = Inr (r', code) \<longleftrightarrow>
    (\<exists>v'. AggregateVersion_next (issue_version r) = Some v' \<and>
       r' = transitioned op ids (supported_version v' class sw r)) \<and>
    code = transition_code op \<and>
    (is_close op \<longrightarrow> set ids \<inter> set (resolution_evidence r) = {})"
  using assms
  by (cases op)
    (auto simp: transition_def apply_transition_def rbind_Inr_iff Let_def supported_version_def
      is_close_def list_ex_iff split: if_splits)

text \<open>A committed mutation, as a relation between the states before and after.\<close>

definition committed ::
  "entity_id option \<Rightarrow> IssueOperationContext \<Rightarrow> Identity \<Rightarrow> IssueMutationOutcome
     \<Rightarrow> 'w issue_service \<Rightarrow> 'w issue_service \<Rightarrow> bool" where
  "committed consumed c sig out s t \<longleftrightarrow>
     issues t = hm_insert (issue_id (outcome_record out)) (outcome_record out) (issues s) \<and>
     prepared t = (case consumed of None \<Rightarrow> prepared s | Some p \<Rightarrow> hm_remove p (prepared s)) \<and>
     audits t = audits s @ outcome_audit_events out \<and>
     idem t = hm_insert (idempotency_id c) (sig, Mutation out) (idem s)"

lemma commit_mutation_ok:
  "unaudited s s1 \<Longrightarrow> commit_mutation consumed c sig out audit s1 = (r, t) \<Longrightarrow>
     outcome_audit_events out = [audit] \<Longrightarrow> r = Inr out \<and> committed consumed c sig out s t"
  by (auto simp: commit_mutation_def committed_def unaudited_def split: option.splits)

lemma finish_execution_result:
  assumes "finish_execution P c p receipt i record code s = (res, t)"
  shows "(\<exists>f. res = Inl f \<and> unaudited s t) \<or>
    (\<exists>audit out. res = Inr out \<and> mutation_audit audit i code (execute_context c) True \<and>
       out = \<lparr>outcome_record = record, outcome_audit_events = [audit],
              outcome_receipt_id = Some (receipt_id receipt)\<rparr> \<and>
       committed (Some (prepared_id p)) (execute_context c) (execute_identity (execute_approval c)) out s t)"
proof (cases res)
  case (Inl f)
  have commit: "commit_mutation q x sg out a s2 \<noteq> (Inl f, t)" for q x sg out a and s2 :: "'a issue_service"
    by (simp add: commit_mutation_def)
  from assms Inl show ?thesis
    by (auto simp: finish_execution_def ebind_err commit
      dest!: keepsD [OF keeps_make_audit] keepsD [OF keeps_world(3)] intro: unaudited.trans)
next
  case (Inr out)
  from assms obtain audit u s1 s2 where
    audit: "make_audit P i code (execute_context c) True True s = (Inr audit, s1)"
    and failure: "take_commit_failure Failure.Infrastructure s1 = (Inr u, s2)"
    and commit: "commit_mutation (Some (prepared_id p)) (execute_context c)
      (execute_identity (execute_approval c))
      \<lparr>outcome_record = record, outcome_audit_events = [audit],
       outcome_receipt_id = Some (receipt_id receipt)\<rparr> audit s2 =
      (Inr out :: Failure + IssueMutationOutcome, t)"
    unfolding Inr finish_execution_def ebind_ok with_err_results by (elim exE conjE) (rule that)
  have "unaudited s s2"
    using keepsD [OF keeps_make_audit audit] keepsD [OF keeps_world(3) failure] by (rule unaudited.trans)
  from commit_mutation_ok [OF this commit] make_audit_ok [OF audit] Inr show ?thesis by auto
qed

text \<open>A transition that was executed, with everything that had to hold for it.\<close>

definition executed_transition ::
  "'w issue_ports \<Rightarrow> 'w issue_service \<Rightarrow> ApproveAndExecute \<Rightarrow> WorkManagementPreparedIntent
     \<Rightarrow> IssueRecord \<Rightarrow> SupportWitness \<Rightarrow> IssueRecord \<Rightarrow> bool" where
  "executed_transition P s c p r sw r' \<longleftrightarrow>
     hm_get (prepared s) (approval_prepared_id (execute_approval c)) = Some p \<and>
     approved P (world s) p (execute_approval c) \<and>
     current_policy P (world s) (prepared_operation p) = IssueExecutionPolicy.Allowed \<and>
     preview_support (prepared_preview p) = Some sw \<and>
     evidence_supports P (world s) (map meta_id (support_evidence sw)) (support_judgments sw)
       (required_role (prepared_operation p)) sw \<and>
     (\<exists>i required next_state v' a.
        transition (prepared_operation p) = Some (i, issue_version r, required, next_state) \<and>
        hm_get (issues s) i = Some r \<and> issue_state r = required \<and>
        AggregateVersion_next (issue_version r) = Some v' \<and>
        current_classification P (world s) i (issue_classification r) = Inr a \<and>
        combine (issue_classification r) a \<noteq> DataClassification.Unclassified \<and>
        preview_classification (prepared_preview p) =
          intent_classification (prepared_operation p) (combine (issue_classification r) a) (Some sw) \<and>
        preview_classification (prepared_preview p) \<noteq> DataClassification.Unclassified \<and>
        r' = transitioned (prepared_operation p) (map meta_id (support_evidence sw))
          (supported_version v' (preview_classification (prepared_preview p)) sw r)) \<and>
     (is_close (prepared_operation p) \<longrightarrow>
        set (map meta_id (support_evidence sw)) \<inter> set (resolution_evidence r) = {})"

definition executed_as ::
  "'w issue_ports \<Rightarrow> 'w \<Rightarrow> ApproveAndExecute \<Rightarrow> entity_id \<Rightarrow> string \<Rightarrow> IssueRecord
     \<Rightarrow> IssueMutationOutcome \<Rightarrow> bool" where
  "executed_as P w c i code r' out \<longleftrightarrow>
     (\<exists>a rid w'. mutation_audit a i code (execute_context c) True \<and>
        next_approval_receipt_id P (snd (clock_now P (snd (clock_now P w)))) = (Inr rid, w') \<and>
        out = \<lparr>outcome_record = r', outcome_audit_events = [a], outcome_receipt_id = Some rid\<rparr>)"

lemma canonical_issue_operation:
  "transition op \<noteq> None \<Longrightarrow> canonical_operation op = op"
  by (cases op) (simp_all add: transition_def)

lemma prepared_classification:
  assumes "prepare sha i op tc sw now = Inr p" and "canonical_operation op = op"
  shows "preview_classification (prepared_preview p) = intent_classification op tc sw \<and>
    intent_classification op tc sw \<noteq> DataClassification.Unclassified"
  using assms by (simp add: prepare_Inr_iff intent_preview_def)

lemma execute_fresh_ok:
  assumes "execute_fresh P c s = (Inr out, t)"
  shows "\<exists>p r sw r' i. executed_transition P s c p r sw r' \<and>
    prepared_issue_target p = Some i \<and> hm_get (issues s) i = Some r \<and>
    executed_as P (world s) c i (transition_code (prepared_operation p)) r' out \<and>
    committed (Some (prepared_id p)) (execute_context c) (execute_identity (execute_approval c)) out s t"
proof -
  let ?a = "execute_approval c"
  from assms obtain p i v required next_state r psw sw cls fresh receipt r' code s1 where
    p: "hm_get (prepared s) (approval_prepared_id ?a) = Some p"
    and tr: "transition (prepared_operation p) = Some (i, v, required, next_state)"
    and r: "hm_get (issues s) i = Some r"
    and version: "issue_version r = v" and state: "issue_state r = required"
    and psw: "preview_support (prepared_preview p) = Some psw"
    and sw: "support P (map meta_id (support_evidence psw)) (support_judgments psw)
      (required_role (prepared_operation p)) s = Inr sw"
    and auth: "authoritative_classification P i r s = Inr cls"
    and mint: "mint_receipt P p (prepared_operation p) cls (Some sw) ?a s = (Inr (fresh, receipt), s1)"
    and step: "apply_transition (prepared_operation p) next_state
      (preview_classification (prepared_preview fresh)) sw (map meta_id (support_evidence psw)) r =
        Inr (r', code)"
    and finish: "finish_execution P c p receipt i r' code s1 = (Inr out, t)"
    unfolding execute_fresh_def by (auto simp: ebind_ok Let_def)
  note minted = mint_receipt_ok [OF mint]
  from minted psw have same: "psw = sw" by simp
  note evidence = support_ok [OF sw, unfolded same]
  from minted obtain now where
    fresh: "prepare (sha256_hex P) (prepared_id p) (prepared_operation p) cls (Some sw) now = Inr fresh"
    by blast
  note class' = prepared_classification [OF fresh canonical_issue_operation]
  from apply_transition_ok [OF tr] step same obtain v' where
    v': "AggregateVersion_next (issue_version r) = Some v'"
    and r': "r' = transitioned (prepared_operation p) (map meta_id (support_evidence sw))
      (supported_version v' (preview_classification (prepared_preview fresh)) sw r)"
    and code: "code = transition_code (prepared_operation p)"
    and disjoint: "is_close (prepared_operation p) \<longrightarrow>
      set (map meta_id (support_evidence sw)) \<inter> set (resolution_evidence r) = {}" by auto
  from auth obtain a where a: "current_classification P (world s) i (issue_classification r) = Inr a"
    "cls = combine (issue_classification r) a" "cls \<noteq> DataClassification.Unclassified"
    unfolding authoritative_classification_ok by blast
  have "executed_transition P s c p r sw r'"
    unfolding executed_transition_def
    using p minted evidence tr r version state v' r' disjoint class' a by auto
  moreover have "prepared_issue_target p = Some i"
    using tr by (auto simp: transition_def prepared_issue_target_def
      split: WorkManagementOperation.splits)
  moreover have "unaudited s s1" using minted by blast
  with finish_execution_result [OF finish] obtain audit where
    "mutation_audit audit i code (execute_context c) True"
    "out = \<lparr>outcome_record = r', outcome_audit_events = [audit],
            outcome_receipt_id = Some (receipt_id receipt)\<rparr>"
    and "committed (Some (prepared_id p)) (execute_context c) (execute_identity ?a) out s t"
    by (auto simp: committed_def unaudited_def)
  ultimately show ?thesis
    using minted r code unfolding executed_as_def by blast
qed

definition executed_lowering ::
  "'w issue_ports \<Rightarrow> 'w issue_service \<Rightarrow> ApproveAndExecute \<Rightarrow> WorkManagementPreparedIntent
     \<Rightarrow> IssueRecord \<Rightarrow> IssueRecord \<Rightarrow> bool" where
  "executed_lowering P s c p r r' \<longleftrightarrow>
     hm_get (prepared s) (approval_prepared_id (execute_approval c)) = Some p \<and>
     approved P (world s) p (execute_approval c) \<and>
     current_policy P (world s) (prepared_operation p) = IssueExecutionPolicy.Allowed \<and>
     preview_support (prepared_preview p) = None \<and>
     (\<exists>i current proposed rationale v' a.
        prepared_operation p = WorkManagementOperation.LowerIssueClassification i (issue_version r)
          current proposed rationale \<and>
        hm_get (issues s) i = Some r \<and>
        AggregateVersion_next (issue_version r) = Some v' \<and>
        current_classification P (world s) i (issue_classification r) = Inr a \<and>
        current = combine (issue_classification r) a \<and> current \<noteq> DataClassification.Unclassified \<and>
        r' = r\<lparr>issue_classification := proposed, issue_version := v'\<rparr>)"

lemma execute_lower_fresh_ok:
  assumes "execute_lower_fresh P c s = (Inr out, t)"
  shows "\<exists>p r r' i. executed_lowering P s c p r r' \<and>
    prepared_issue_target p = Some i \<and> hm_get (issues s) i = Some r \<and>
    executed_as P (world s) c i ''issue.classification_lowered'' r' out \<and>
    committed (Some (prepared_id p)) (execute_context c) (execute_identity (execute_approval c)) out s t"
proof -
  let ?a = "execute_approval c"
  from assms obtain p i v proposed rationale r cls fresh receipt v' s1 where
    p: "hm_get (prepared s) (approval_prepared_id ?a) = Some p"
    and parts: "lowering_parts (prepared_operation p) = Some (i, v, proposed, rationale)"
    and r: "hm_get (issues s) i = Some r" and version: "issue_version r = v"
    and auth: "authoritative_classification P i r s = Inr cls"
    and mint: "mint_receipt P p (WorkManagementOperation.LowerIssueClassification i (issue_version r)
       cls proposed rationale) cls None ?a s = (Inr (fresh, receipt), s1)"
    and v': "AggregateVersion_next (issue_version r) = Some v'"
    and finish: "finish_execution P c p receipt i
       (r\<lparr>issue_classification := proposed, issue_version := v'\<rparr>) ''issue.classification_lowered'' s1 =
       (Inr out, t)"
    unfolding execute_lower_fresh_def by (auto simp: ebind_ok Let_def)
  note minted = mint_receipt_ok [OF mint]
  from auth obtain a where a: "current_classification P (world s) i (issue_classification r) = Inr a"
    "cls = combine (issue_classification r) a" "cls \<noteq> DataClassification.Unclassified"
    unfolding authoritative_classification_ok by blast
  from minted have op: "prepared_operation p = WorkManagementOperation.LowerIssueClassification i
      (issue_version r) cls proposed rationale" by simp
  have "executed_lowering P s c p r (r\<lparr>issue_classification := proposed, issue_version := v'\<rparr>)"
    unfolding executed_lowering_def using p minted op r v' a by auto
  moreover have "prepared_issue_target p = Some i" by (simp add: op prepared_issue_target_def)
  moreover have "unaudited s s1" using minted by blast
  with finish_execution_result [OF finish] obtain audit where
    "mutation_audit audit i ''issue.classification_lowered'' (execute_context c) True"
    "out = \<lparr>outcome_record = r\<lparr>issue_classification := proposed, issue_version := v'\<rparr>,
            outcome_audit_events = [audit], outcome_receipt_id = Some (receipt_id receipt)\<rparr>"
    and "committed (Some (prepared_id p)) (execute_context c) (execute_identity ?a) out s t"
    by (auto simp: committed_def unaudited_def)
  ultimately show ?thesis
    using minted r unfolding executed_as_def by blast
qed

section \<open>Failures change nothing\<close>

lemma unaudited_ebind_err:
  assumes "keeps unaudited m" and "\<And>a s1. m s = (Inr a, s1) \<Longrightarrow> f a s1 = (Inl e, t) \<Longrightarrow> unaudited s1 t"
    and "ebind m f s = (Inl e, t)"
  shows "unaudited s t"
  using assms(3) assms(2) keepsD [OF assms(1)] unaudited.trans unfolding ebind_err by metis

lemma finish_execution_err:
  "finish_execution P c p receipt i r code s = (Inl f, t) \<Longrightarrow> unaudited s t"
  by (drule finish_execution_result) auto

lemma execute_fresh_err: "execute_fresh P c s = (Inl f, t) \<Longrightarrow> unaudited s t"
  unfolding execute_fresh_def Let_def
  by (erule unaudited_ebind_err [rotated 2]
      | intro unaudited.keeps_pure keeps_mint_receipt
      | simp split: prod.splits
      | erule finish_execution_err)+

lemma execute_lower_fresh_err: "execute_lower_fresh P c s = (Inl f, t) \<Longrightarrow> unaudited s t"
  unfolding execute_lower_fresh_def Let_def
  by (erule unaudited_ebind_err [rotated 2]
      | intro unaudited.keeps_pure keeps_mint_receipt
      | simp split: prod.splits
      | erule finish_execution_err)+

text \<open>
  An execution either returns the recorded outcome of the same command, or runs; a failure is
  then audited once, or reported as an infrastructure error when no audit could be named.
\<close>

lemma execute_with_cases:
  assumes "execute_with run c s = (r, t)"
  shows "(\<exists>v. r = Inr v \<and> t = s \<and> approval_idempotency_id (execute_approval c) = idempotency_id (execute_context c) \<and>
      replay (execute_context c) (execute_identity (execute_approval c)) s = Inr (Some (Mutation v))) \<or>
    (r = Inl Failure.Changed \<and> t = s \<and>
      approval_idempotency_id (execute_approval c) \<noteq> idempotency_id (execute_context c)) \<or>
    (r = Inl Failure.Idempotency \<and> t = s \<and>
      approval_idempotency_id (execute_approval c) = idempotency_id (execute_context c) \<and>
      \<not> is_ok (replay (execute_context c) (execute_identity (execute_approval c)) s)) \<or>
    (run c s = (r, t) \<and> approval_idempotency_id (execute_approval c) = idempotency_id (execute_context c) \<and>
      (\<exists>x. replay (execute_context c) (execute_identity (execute_approval c)) s = Inr x \<and>
        (\<forall>v. x \<noteq> Some (Mutation v))))"
  using assms
  by (cases "replay (execute_context c) (execute_identity (execute_approval c)) s")
    (auto simp: execute_with_def ebind_run ret_def split: if_splits option.splits Stored.splits)

lemma audited_execution_ok:
  "audited_execution P run c s = (Inr v, t) \<longleftrightarrow> run c s = (Inr v, t)"
  by (auto simp: audited_execution_def Let_def ebind_ok split: prod.splits sum.splits)

lemma audited_execution_err:
  assumes "audited_execution P run c s = (Inl e, t)"
  shows "\<exists>f s1. run c s = (Inl f, s1) \<and> issues t = issues s1 \<and> prepared t = prepared s1 \<and> idem t = idem s1 \<and>
    (e = infrastructure_error (execute_context c) \<and> audits t = audits s1 \<or>
     e = map_failure f (execute_context c) \<and>
       (\<exists>a. audits t = audits s1 @ [a] \<and> no_effect a \<and> audit_code a = ''issue.execute_denied'' \<and>
         audit_target a = AuditTarget.Issue
           (case prepared_issue (approval_prepared_id (execute_approval c)) s of
              Some i \<Rightarrow> i | None \<Rightarrow> ''issue-unknown'') \<and>
         (audit_policy_outcome a, audit_approval_outcome a, audit_execution_outcome a) =
           failure_outcomes f))"
proof -
  from assms obtain f s1 where run: "run c s = (Inl f, s1)"
    by (auto simp: audited_execution_def Let_def split: prod.splits sum.splits)
  let ?target = "prepared_issue (approval_prepared_id (execute_approval c)) s"
  obtain r s2 where audit: "failure_audit P ?target ''issue.execute_denied'' (execute_context c) f s1 = (r, s2)"
    by (cases "failure_audit P ?target ''issue.execute_denied'' (execute_context c) f s1")
  note facts = failure_audit_result [OF _ audit]
  from assms run audit have "t = s2 \<and> (case r of Inl e' \<Rightarrow> e = e' | Inr _ \<Rightarrow> e = map_failure f (execute_context c))"
    by (auto simp: audited_execution_def Let_def ebind_def throw_def split: sum.splits)
  with facts run show ?thesis by (cases r) auto
qed

end
