(* ===== verification/Issue_Refinement.thy ===== *)
theory Issue_Refinement
  imports Issue_Events
begin

text \<open>
  The Issue service as an abstract machine. \<open>issue_event\<close> lists the seven things that can happen
  to its Ledger; \<open>issue_step_event\<close> shows that every command is one of them. The invariant and the
  history relation of the service are proved over the events, and carried to runs of commands by
  the locales \<open>transition_system\<close> and \<open>monotone_system\<close>.
\<close>

section \<open>Invariant\<close>

fun kind_matches :: "Identity \<Rightarrow> Stored \<Rightarrow> bool" where
  "kind_matches (Create _ _ _ _ _) (Mutation _) = True"
| "kind_matches (Execute _ _ _) (Mutation _) = True"
| "kind_matches (Prepare _ _ _) (Prepared _) = True"
| "kind_matches (PrepareLowerClassification _ _ _ _) (Prepared _) = True"
| "kind_matches (RejectPrepared _ _) (Rejected _) = True"
| "kind_matches _ _ = False"

fun supports_in :: "IssueState \<Rightarrow> nat" where
  "supports_in IssueState.Open = 0"
| "supports_in IssueState.Resolved = 1"
| "supports_in IssueState.Closed = 2"

definition support_sound :: "SupportWitness \<Rightarrow> bool" where
  "support_sound w \<longleftrightarrow>
     support_requirement w = EvidenceRequired \<and> support_evidence w \<noteq> [] \<and>
     list_all (\<lambda>m. \<not> refuses (meta_verification m)) (support_evidence w) \<and>
     (support_disposition w = EvidenceSatisfied \<and>
        list_all (\<lambda>m. verified (meta_verification m)) (support_evidence w) \<or>
      support_disposition w = VerificationPending \<and> support_judgments w \<noteq> [])"

definition issue_well_formed :: "IssueRecord \<Rightarrow> bool" where
  "issue_well_formed r \<longleftrightarrow>
     issue_classification r \<noteq> DataClassification.Unclassified \<and>
     (issue_state r = IssueState.Open \<or>
        resolution_type r \<noteq> None \<and> resolution_rationale r \<noteq> None \<and> resolution_evidence r \<noteq> []) \<and>
     (issue_state r = IssueState.Closed \<longleftrightarrow> closure_verification_evidence r \<noteq> []) \<and>
     set (closure_verification_evidence r) \<inter> set (resolution_evidence r) = {} \<and>
     length (support_history r) = 2 * length (reopen_rationales r) + supports_in (issue_state r) \<and>
     length (support_history r) < unat (version_get (issue_version r)) \<and>
     list_all support_sound (support_history r)"

definition recurrence_closed :: "'w issue_service \<Rightarrow> IssueRecord \<Rightarrow> bool" where
  "recurrence_closed s r \<longleftrightarrow>
     (case recurrence_of r of
        None \<Rightarrow> True
      | Some old \<Rightarrow> \<exists>r'. hm_get (issues s) old = Some r' \<and> issue_state r' = IssueState.Closed)"

definition prepared_current :: "'w issue_service \<Rightarrow> WorkManagementPreparedIntent \<Rightarrow> bool" where
  "prepared_current s p \<longleftrightarrow>
     (transition (prepared_operation p) \<noteq> None \<or>
      (\<exists>i v current proposed rationale r.
         prepared_operation p =
           WorkManagementOperation.LowerIssueClassification i v current proposed rationale \<and>
         is_genuine_lowering current proposed \<and> hm_get (issues s) i = Some r \<and>
         v \<le> issue_version r \<and> (v = issue_version r \<longrightarrow> issue_classification r = current)))"

definition issue_inv :: "'w issue_service \<Rightarrow> bool" where
  "issue_inv s \<longleftrightarrow>
     hm_wf (issues s) \<and> hm_wf (prepared s) \<and> hm_wf (idem s) \<and>
     (\<forall>i r. hm_get (issues s) i = Some r \<longrightarrow>
        issue_id r = i \<and> issue_well_formed r \<and> recurrence_closed s r) \<and>
     (\<forall>i p. hm_get (prepared s) i = Some p \<longrightarrow> prepared_id p = i \<and> prepared_current s p) \<and>
     (\<forall>k sig v. hm_get (idem s) k = Some (sig, v) \<longrightarrow> kind_matches sig v)"

section \<open>Events\<close>

text \<open>
  What binds a stored preview: its identity is the one the source handed out, it is classified, it is
  of the Issue at the version it was prepared for, and it is of the operation its preparation asked for.
\<close>

fun previewed_version :: "WorkManagementOperation \<Rightarrow> (entity_id \<times> AggregateVersion) option" where
  "previewed_version (WorkManagementOperation.ResolveIssue i v _ _) = Some (i, v)"
| "previewed_version (WorkManagementOperation.CloseIssue i v) = Some (i, v)"
| "previewed_version (WorkManagementOperation.ReopenIssue i v _) = Some (i, v)"
| "previewed_version (WorkManagementOperation.LowerIssueClassification i v _ _ _) = Some (i, v)"
| "previewed_version _ = None"

fun asks_for :: "Identity \<Rightarrow> WorkManagementOperation \<Rightarrow> bool" where
  "asks_for (Prepare op _ _) op' \<longleftrightarrow> op' = op"
| "asks_for (PrepareLowerClassification i v proposed rationale) op' \<longleftrightarrow>
     (\<exists>current. op' = WorkManagementOperation.LowerIssueClassification i v current proposed rationale)"
| "asks_for _ _ \<longleftrightarrow> False"

definition preview_binds ::
  "'w issue_ports \<Rightarrow> 'w issue_service \<Rightarrow> Identity \<Rightarrow> WorkManagementPreparedIntent \<Rightarrow> bool" where
  "preview_binds P s sig p \<longleftrightarrow>
     fst (next_prepared_intent_id P (world s)) = Inr (prepared_id p) \<and>
     preview_classification (prepared_preview p) \<noteq> DataClassification.Unclassified \<and>
     asks_for sig (prepared_operation p) \<and>
     (\<exists>i r. previewed_version (prepared_operation p) = Some (i, issue_version r) \<and>
        hm_get (issues s) i = Some r)"

definition unused :: "IssueOperationContext \<Rightarrow> 'w issue_service \<Rightarrow> bool" where
  "unused c s \<longleftrightarrow> hm_get (idem s) (idempotency_id c) = None"

inductive issue_event ::
  "'w issue_ports \<Rightarrow> 'w issue_service \<Rightarrow> 'w issue_service \<Rightarrow> bool" for P where
  quiet: "effectless s t \<Longrightarrow> issue_event P s t"
| created: "unused (create_context c) s \<Longrightarrow> created_from P s c r \<Longrightarrow>
    mutation_audit a (create_id c) ''issue.created'' (create_context c) False \<Longrightarrow>
    committed None (create_context c) (create_identity c)
      \<lparr>outcome_record = r, outcome_audit_events = [a], outcome_receipt_id = None\<rparr> s t \<Longrightarrow>
    issue_event P s t"
| stored: "unused c s \<Longrightarrow> kind_matches sig (Prepared p) \<Longrightarrow> prepared_current s p \<Longrightarrow>
    preview_binds P s sig p \<Longrightarrow>
    issues t = issues s \<Longrightarrow> prepared t = hm_insert (prepared_id p) p (prepared s) \<Longrightarrow>
    idem t = hm_insert (idempotency_id c) (sig, Prepared p) (idem s) \<Longrightarrow> audits t = audits s \<Longrightarrow>
    issue_event P s t"
| transitioned: "unused (execute_context c) s \<Longrightarrow> executed_transition P s c p r sw r' \<Longrightarrow>
    prepared_issue_target p = Some i \<Longrightarrow> hm_get (issues s) i = Some r \<Longrightarrow>
    executed_as P (world s) c i (transition_code (prepared_operation p)) r' out \<Longrightarrow>
    committed (Some (prepared_id p)) (execute_context c) (execute_identity (execute_approval c)) out s t \<Longrightarrow>
    issue_event P s t"
| lowered: "unused (execute_context c) s \<Longrightarrow> executed_lowering P s c p r r' \<Longrightarrow>
    prepared_issue_target p = Some i \<Longrightarrow> hm_get (issues s) i = Some r \<Longrightarrow>
    executed_as P (world s) c i ''issue.classification_lowered'' r' out \<Longrightarrow>
    committed (Some (prepared_id p)) (execute_context c) (execute_identity (execute_approval c)) out s t \<Longrightarrow>
    issue_event P s t"
| rejected: "unused (reject_context (c :: RejectIssuePreparedIntent)) s \<Longrightarrow> hm_get (prepared s) (reject_prepared_id c) = Some p \<Longrightarrow>
    rejected_issue_id p \<noteq> None \<Longrightarrow> no_effect (rejected_audit_event out) \<Longrightarrow>
    issues t = issues s \<Longrightarrow> prepared t = hm_remove (reject_prepared_id c) (prepared s) \<Longrightarrow>
    audits t = audits s @ [rejected_audit_event out] \<Longrightarrow>
    idem t = hm_insert (idempotency_id (reject_context c))
      (RejectPrepared (reject_prepared_id c) (reject_actor c), Rejected out) (idem s) \<Longrightarrow>
    issue_event P s t"
| discarded: "hm_get (prepared s) i \<noteq> None \<Longrightarrow> issues t = issues s \<Longrightarrow>
    prepared t = hm_remove i (prepared s) \<Longrightarrow> audits t = audits s \<Longrightarrow>
    idem t = hm_retain (\<lambda>(_, v). \<not> stored_prepared_for i v) (idem s) \<Longrightarrow>
    issue_event P s t"

section \<open>Every method is an event\<close>

lemma replay_cases:
  assumes "issue_inv s" and "replay c sig s = Inr x"
  shows "(x = None \<and> unused c s) \<or> (\<exists>v. x = Some v \<and> kind_matches sig v)"
  using assms by (auto simp: replay_def unused_def issue_inv_def split: option.splits if_splits)

lemma replay_unused: "unused c s \<Longrightarrow> replay c sig s = Inr None"
  by (simp add: replay_def unused_def)

lemma create_issue_event:
  assumes inv: "issue_inv s" and run: "create_issue P c s = (r, t)"
  shows "issue_event P s t"
proof (cases "replay (create_context c) (create_identity c) s")
  case (Inl e)
  with run show ?thesis by (auto simp: create_issue_def ebind_run intro: quiet effectless.refl)
next
  case x: (Inr x)
  from replay_cases [OF inv x] consider
    (fresh) "x = None" "unused (create_context c) s" | (old) v where "x = Some (Mutation v)"
    by (auto simp: create_identity_def elim: kind_matches.elims)
  then show ?thesis
  proof cases
    case old
    with x run show ?thesis
      by (auto simp: create_issue_def ebind_run ret_def intro: quiet effectless.refl)
  next
    case fresh
    obtain q s1 where q: "create_fresh P c s = (q, s1)" by (cases "create_fresh P c s")
    show ?thesis
    proof (cases q)
      case (Inl e)
      with q run x fresh have "t = s1" by (simp add: create_issue_def ebind_run) (simp add: ebind_def)
      with keepsD [OF keeps_create_fresh q] show ?thesis
        by (auto intro: quiet unaudited_effectless)
    next
      case (Inr y)
      obtain rr audit where y: "y = (rr, audit)" by (cases y)
      note ok = create_fresh_ok [OF q [unfolded Inr y]]
      let ?out = "\<lparr>outcome_record = rr, outcome_audit_events = [audit], outcome_receipt_id = None\<rparr>"
      from q run x fresh Inr y
      have "commit_mutation None (create_context c) (create_identity c) ?out audit s1 = (r, t)"
        by (simp add: create_issue_def ebind_run) (simp add: ebind_def)
      with ok commit_mutation_ok [of s s1 None "create_context c" "create_identity c" ?out audit r t]
      show ?thesis using fresh by (auto intro: created)
    qed
  qed
qed

text \<open>Both ways of preparing: run something effectless, then store what it built.\<close>

lemma store_prepared_event:
  assumes inv: "issue_inv s"
    and run: "ebind (reads (replay c sig)) (\<lambda>stored.
        case stored of Some (Prepared v) \<Rightarrow> ret v | _ \<Rightarrow> ebind m (store_prepared c sig)) s = (r, t)"
    and sig: "\<And>v. kind_matches sig v \<Longrightarrow> \<exists>p. v = Prepared p" "\<And>p. kind_matches sig (Prepared p)"
    and m: "keeps effectless m"
    and ok: "\<And>p s1. m s = (Inr p, s1) \<Longrightarrow> unaudited s s1 \<and> prepared_current s p \<and> preview_binds P s sig p"
  shows "issue_event P s t"
proof (cases "replay c sig s")
  case (Inl e)
  with run show ?thesis by (auto simp: ebind_run intro: quiet effectless.refl)
next
  case x: (Inr x)
  from replay_cases [OF inv x] sig(1) consider
    (fresh) "x = None" "unused c s" | (old) v where "x = Some (Prepared v)" by blast
  then show ?thesis
  proof cases
    case old
    with x run show ?thesis by (auto simp: ebind_run ret_def intro: quiet effectless.refl)
  next
    case fresh
    obtain q s1 where q: "m s = (q, s1)" by (cases "m s")
    from run x fresh have rest: "ebind m (store_prepared c sig) s = (r, t)" by (simp add: ebind_run)
    show ?thesis
    proof (cases q)
      case (Inl e)
      with q rest have "t = s1" by (simp add: ebind_def)
      with keepsD [OF m q] show ?thesis by (auto intro: quiet)
    next
      case (Inr p)
      with q rest have "t = s1\<lparr>prepared := hm_insert (prepared_id p) p (prepared s1),
          idem := hm_insert (idempotency_id c) (sig, Prepared p) (idem s1)\<rparr>"
        by (simp add: ebind_def store_prepared_def)
      with ok [of p s1] q Inr fresh(2) sig(2) show ?thesis
        by (intro stored [of c s sig p]) (auto simp: unaudited_def)
    qed
  qed
qed

definition prepared_from ::
  "'w issue_ports \<Rightarrow> 'w issue_service \<Rightarrow> WorkManagementOperation \<Rightarrow> entity_id list
     \<Rightarrow> HumanJudgment list \<Rightarrow> WorkManagementPreparedIntent \<Rightarrow> bool" where
  "prepared_from P s op evidence_ids judgments p \<longleftrightarrow>
     (\<exists>i required next_state r a sw pid now.
        transition op = Some (i, issue_version r, required, next_state) \<and>
        hm_get (issues s) i = Some r \<and> issue_state r = required \<and>
        evidence_supports P (world s) evidence_ids judgments (required_role op) sw \<and>
        current_classification P (world s) i (issue_classification r) = Inr a \<and>
        combine (issue_classification r) a \<noteq> DataClassification.Unclassified \<and>
        current_policy P (world s) op = IssueExecutionPolicy.Allowed \<and>
        fst (next_prepared_intent_id P (world s)) = Inr pid \<and>
        prepare (sha256_hex P) pid op (combine (issue_classification r) a) (Some sw) now = Inr p)"

lemma prepare_checks_ok:
  "prepare_support P i c ids judgment role s = (Inr sw, t) \<Longrightarrow>
     t = s \<and> support P ids (case judgment of None \<Rightarrow> [] | Some j \<Rightarrow> [j]) role s = Inr sw"
  "prepare_classification P i r c s = (Inr cls, t) \<Longrightarrow>
     t = s \<and> cls \<noteq> DataClassification.Unclassified \<and>
     (\<exists>a. current_classification P (world s) i (issue_classification r) = Inr a \<and>
          cls = combine (issue_classification r) a)"
  "prepare_policy P i op c s = (Inr u, t) \<Longrightarrow>
     t = s \<and> current_policy P (world s) op = IssueExecutionPolicy.Allowed"
proof -
  show "prepare_support P i c ids judgment role s = (Inr sw, t) \<Longrightarrow>
     t = s \<and> support P ids (case judgment of None \<Rightarrow> [] | Some j \<Rightarrow> [j]) role s = Inr sw"
    by (auto simp: prepare_support_def refuse_prepare_def ebind_ok split: sum.splits)
  show "prepare_classification P i r c s = (Inr cls, t) \<Longrightarrow>
     t = s \<and> cls \<noteq> DataClassification.Unclassified \<and>
     (\<exists>a. current_classification P (world s) i (issue_classification r) = Inr a \<and>
          cls = combine (issue_classification r) a)"
    by (auto simp: prepare_classification_def refuse_prepare_def ebind_ok Let_def
      split: sum.splits if_splits)
  show "prepare_policy P i op c s = (Inr u, t) \<Longrightarrow>
     t = s \<and> current_policy P (world s) op = IssueExecutionPolicy.Allowed"
    using IssueExecutionPolicy.exhaust
    by (auto simp: prepare_policy_def refuse_prepare_def ebind_ok split: if_splits)
qed

lemma prepare_fresh_ok:
  assumes "prepare_fresh P op ids judgment c s = (Inr p, t)" and "transition op \<noteq> None"
  shows "unaudited s t \<and>
    prepared_from P s op ids (case judgment of None \<Rightarrow> [] | Some j \<Rightarrow> [j]) p"
proof -
  from assms(2) obtain i v required next_state where
    tr: "transition op = Some (i, v, required, next_state)" by auto
  from assms(1) obtain r s1 s2 s3 u sw cls where
    r: "hm_get (issues s) i = Some r" "issue_version r = v" "issue_state r = required"
    and sw: "prepare_support P i c ids judgment (required_role op) s = (Inr sw, s1)"
    and cls: "prepare_classification P i r c s1 = (Inr cls, s2)"
    and policy: "prepare_policy P i op c s2 = (Inr u, s3)"
    and intent: "prepare_intent P op cls (Some sw) c s3 = (Inr p, t)"
    by (auto simp: prepare_fresh_def tr ebind_ok split: if_splits)
  note facts = prepare_checks_ok(1) [OF sw] prepare_checks_ok(2) [OF cls] prepare_checks_ok(3) [OF policy]
    prepare_intent_ok [OF intent]
  from facts have "unaudited s t" by simp
  moreover from facts support_ok
  have "evidence_supports P (world s) ids (case judgment of None \<Rightarrow> [] | Some j \<Rightarrow> [j]) (required_role op) sw"
    by blast
  ultimately show ?thesis
    unfolding prepared_from_def using facts tr r by auto blast
qed

lemma prepared_from_binds:
  assumes "transition op \<noteq> None" and "prepared_from P s op ids js p"
  shows "prepared_operation p = op \<and> preview_binds P s (Prepare op ids j) p"
proof -
  from assms(2) obtain i required next_state r a sw pid now where
    tr: "transition op = Some (i, issue_version r, required, next_state)" and r: "hm_get (issues s) i = Some r"
    and pid: "fst (next_prepared_intent_id P (world s)) = Inr pid"
    and p: "prepare (sha256_hex P) pid op (combine (issue_classification r) a) (Some sw) now = Inr p"
    unfolding prepared_from_def by blast
  have "prepared_operation p = op"
    using prepared_operation_canonical [OF p] canonical_issue_operation [OF assms(1)] by simp
  moreover have "preview_classification (prepared_preview p) \<noteq> DataClassification.Unclassified"
    "prepared_id p = pid"
    using p by (auto simp: prepare_Inr_iff intent_preview_def)
  moreover have "previewed_version op = Some (i, issue_version r)"
    using tr by (cases op) (auto simp: transition_def)
  ultimately show ?thesis using pid r by (auto simp: preview_binds_def)
qed

lemma prepare_transition_event:
  assumes "issue_inv s" and "transition op \<noteq> None" and "prepare_transition P op ids judgment c s = (r, t)"
  shows "issue_event P s t"
proof (rule store_prepared_event [OF assms(1) assms(3) [unfolded prepare_transition_def]])
  show "kind_matches (Prepare op ids judgment) v \<Longrightarrow> \<exists>p. v = Prepared p" for v
    by (cases v) auto
  show "keeps effectless (prepare_fresh P op ids judgment c)"
    using assms(2) by (rule keeps_prepare_fresh)
  show "unaudited s s1 \<and> prepared_current s p \<and> preview_binds P s (Prepare op ids judgment) p"
    if "prepare_fresh P op ids judgment c s = (Inr p, s1)" for p s1
  proof -
    note ok = prepare_fresh_ok [OF that assms(2)]
    then have "prepared_operation p = op" and "preview_binds P s (Prepare op ids judgment) p"
      using prepared_from_binds [OF assms(2)] by blast+
    with ok assms(2) show ?thesis by (simp add: prepared_current_def)
  qed
qed simp

lemma prepare_lower_fresh_ok:
  assumes "prepare_lower_fresh P c s = (Inr p, t)"
  shows "unaudited s t \<and> prepared_current s p \<and>
    preview_binds P s (PrepareLowerClassification (lower_issue_id c) (lower_expected_version c)
      (lower_proposed_classification c) (lower_rationale c)) p"
proof -
  from assms obtain r s1 where
    r: "hm_get (issues s) (lower_issue_id c) = Some r" "issue_version r = lower_expected_version c"
    and genuine: "is_genuine_lowering (issue_classification r) (lower_proposed_classification c)"
    and intent: "prepare_intent P (WorkManagementOperation.LowerIssueClassification (lower_issue_id c)
        (lower_expected_version c) (issue_classification r) (lower_proposed_classification c)
        (lower_rationale c)) (issue_classification r) None (lower_context c) s = (Inr p, t)"
    by (auto simp: prepare_lower_fresh_def ebind_ok Let_def split: if_splits)
  from prepare_intent_ok [OF intent] obtain pid now where
    pid: "fst (next_prepared_intent_id P (world s)) = Inr pid"
    and p: "prepare (sha256_hex P) pid (WorkManagementOperation.LowerIssueClassification (lower_issue_id c)
        (lower_expected_version c) (issue_classification r) (lower_proposed_classification c)
        (lower_rationale c)) (issue_classification r) None now = Inr p" by blast
  have op: "prepared_operation p =
    WorkManagementOperation.LowerIssueClassification (lower_issue_id c) (lower_expected_version c)
      (issue_classification r) (lower_proposed_classification c) (lower_rationale c)"
    using prepared_operation_canonical [OF p] by simp
  with r genuine have "prepared_current s p" by (simp add: prepared_current_def)
  moreover have "preview_classification (prepared_preview p) \<noteq> DataClassification.Unclassified"
    "prepared_id p = pid"
    using p by (auto simp: prepare_Inr_iff intent_preview_def)
  moreover have "unaudited s t" using keeps_prepare_lower_fresh assms by (rule keepsD)
  ultimately show ?thesis using pid r op by (simp add: preview_binds_def)
qed

lemma prepare_lower_event:
  assumes "issue_inv s" and "prepare_lower_issue_classification P c s = (r, t)"
  shows "issue_event P s t"
proof (rule store_prepared_event [OF assms(1) assms(2)
    [unfolded prepare_lower_issue_classification_def Let_def]])
  show "kind_matches (PrepareLowerClassification (lower_issue_id c) (lower_expected_version c)
      (lower_proposed_classification c) (lower_rationale c)) v \<Longrightarrow> \<exists>p. v = Prepared p" for v
    by (cases v) auto
  show "keeps effectless (prepare_lower_fresh P c)"
    using keeps_prepare_lower_fresh unaudited_effectless by (rule keeps_mono)
qed (simp, rule prepare_lower_fresh_ok)

text \<open>Execution: the two kinds share everything but the checks and the new record.\<close>

lemma audited_execution_event:
  assumes inv: "issue_inv s" and run: "audited_execution P (execute_with fresh) c s = (r, t)"
    and err: "\<And>f s1. fresh c s = (Inl f, s1) \<Longrightarrow> unaudited s s1"
    and ok: "\<And>out. unused (execute_context c) s \<Longrightarrow> fresh c s = (Inr out, t) \<Longrightarrow> issue_event P s t"
  shows "issue_event P s t"
proof -
  let ?x = "execute_context c" and ?sig = "execute_identity (execute_approval c)"
  have old: "unused ?x s" if "replay ?x ?sig s = Inr z" "\<forall>v. z \<noteq> Some (Mutation v)" for z
    using replay_cases [OF inv that(1)] that(2)
    by (auto simp: execute_identity_def elim: kind_matches.elims)
  show ?thesis
  proof (cases r)
    case (Inl e)
    from audited_execution_err [OF run [unfolded Inl]] obtain f s1 where
      f: "execute_with fresh c s = (Inl f, s1)" and same: "issues t = issues s1"
        "prepared t = prepared s1" "idem t = idem s1"
      and log: "audits t = audits s1 \<or> (\<exists>a. audits t = audits s1 @ [a] \<and> no_effect a)" by blast
    from execute_with_cases [OF f] err have "unaudited s s1" by (auto intro: unaudited.refl)
    with same log have "effectless s t" by (auto simp: effectless_def unaudited_def)
    then show ?thesis by (rule quiet)
  next
    case (Inr out)
    with run have "execute_with fresh c s = (Inr out, t)" by (simp add: audited_execution_ok)
    from execute_with_cases [OF this] ok old show ?thesis
      by (auto intro: quiet effectless.refl)
  qed
qed

lemma approve_and_execute_event:
  "issue_inv s \<Longrightarrow> approve_and_execute P c s = (r, t) \<Longrightarrow> issue_event P s t"
  unfolding approve_and_execute_def execute_def
  by (erule (1) audited_execution_event)
    (auto dest: execute_fresh_err execute_fresh_ok intro: transitioned)

lemma approve_lower_event:
  "issue_inv s \<Longrightarrow> approve_and_execute_lower_issue_classification P c s = (r, t) \<Longrightarrow> issue_event P s t"
  unfolding approve_and_execute_lower_issue_classification_def execute_lower_issue_classification_def
  by (erule (1) audited_execution_event)
    (auto dest: execute_lower_fresh_err execute_lower_fresh_ok intro: lowered)

lemma ensured_event:
  assumes "issue_inv s" and "ebind (ensure_prepared_operation i p x) (\<lambda>_. approve_and_execute P c) s = (r, t)"
  shows "issue_event P s t"
  using assms approve_and_execute_event [OF assms(1)]
  by (auto simp: ensure_prepared_operation_def ebind_run split: if_splits intro: quiet effectless.refl)

definition rejected_with ::
  "'w issue_ports \<Rightarrow> 'w issue_service \<Rightarrow> RejectIssuePreparedIntent \<Rightarrow> WorkManagementPreparedIntent
     \<Rightarrow> RejectedPreparedIntentOutcome \<Rightarrow> bool" where
  "rejected_with P s c p out \<longleftrightarrow>
     reject_actor c = AuditActor.HeadOfProducts \<and> authorize P (world s) AuditActor.HeadOfProducts \<and>
     hm_get (prepared s) (reject_prepared_id c) = Some p \<and>
     rejected_prepared_intent_id out = prepared_id p \<and>
     rejected_at out = fst (clock_now P (world s)) \<and>
     expired_at_rejection out = (preview_expires_at (prepared_preview p) \<le> rejected_at out) \<and>
     no_effect (rejected_audit_event out) \<and>
     audit_approval_outcome (rejected_audit_event out) = AuditApprovalOutcome.Rejected \<and>
     audit_code (rejected_audit_event out) = ISSUE_PREPARED_REJECTED_AUDIT_CODE \<and>
     Some (audit_target (rejected_audit_event out)) = map_option AuditTarget.Issue (rejected_issue_id p)"

lemma reject_fresh_ok:
  assumes "reject_fresh P c s = (Inr out, t)"
  shows "unaudited s t \<and> (\<exists>p. rejected_with P s c p out)"
proof -
  obtain now w where clock: "clock_now P (world s) = (now, w)" by (cases "clock_now P (world s)")
  from assms obtain p i aid a s1 where
    actor: "reject_actor c = AuditActor.HeadOfProducts" "authorize P (world s) AuditActor.HeadOfProducts"
    and p: "hm_get (prepared s) (reject_prepared_id c) = Some p"
    and i: "rejected_issue_id p = Some i"
    and a: "prepared_intent_rejection_audit aid now ISSUE_PREPARED_REJECTED_AUDIT_CODE
      (AuditTarget.Issue i) (correlation_id (reject_context c)) = Some a"
    and out: "out = \<lparr>rejected_prepared_intent_id = prepared_id p, rejected_at = now,
      expired_at_rejection = (preview_expires_at (prepared_preview p) \<le> now), rejected_audit_event = a\<rparr>"
    by (auto simp: reject_fresh_def ebind_ok Let_def read_clock_def clock
      split: if_splits option.splits)
  have "unaudited s t" using keeps_reject_fresh assms by (rule keepsD)
  moreover have "rejected_with P s c p out"
    unfolding rejected_with_def using actor p i out rejection_audit_no_effect [OF a] by (simp add: clock)
  ultimately show ?thesis by blast
qed

lemma reject_event:
  assumes inv: "issue_inv s" and run: "reject_issue_prepared_intent P c s = (r, t)"
  shows "issue_event P s t"
proof (cases "replay (reject_context c) (RejectPrepared (reject_prepared_id c) (reject_actor c)) s")
  case (Inl e)
  with run show ?thesis
    by (auto simp: reject_issue_prepared_intent_def ebind_run intro: quiet effectless.refl)
next
  case x: (Inr x)
  show ?thesis
  proof (cases x)
    case (Some v)
    with x run show ?thesis
      by (cases v) (auto simp: reject_issue_prepared_intent_def ebind_run ret_def throw_def
        intro: quiet effectless.refl)
  next
    case None
    obtain q s1 where q: "reject_fresh P c s = (q, s1)" by (cases "reject_fresh P c s")
    from run x None have rest: "ebind (reject_fresh P c) (commit_rejection c) s = (r, t)"
      by (simp add: reject_issue_prepared_intent_def ebind_run)
    show ?thesis
    proof (cases q)
      case (Inl e)
      with q rest have "t = s1" by (simp add: ebind_def)
      with keepsD [OF keeps_reject_fresh q] show ?thesis
        by (auto intro: quiet unaudited_effectless)
    next
      case (Inr out)
      from reject_fresh_ok [OF q [unfolded Inr]] obtain p where
        p: "rejected_with P s c p out" and same: "unaudited s s1" by blast
      from replay_cases [OF inv x] None have "unused (reject_context c) s" by simp
      moreover from p have "rejected_issue_id p \<noteq> None" by (cases "rejected_issue_id p") (simp_all add: rejected_with_def)
      ultimately show ?thesis
        using rest q Inr p same
        by (intro rejected [of c s p out])
          (auto simp: ebind_def commit_rejection_def rejected_with_def unaudited_def)
    qed
  qed
qed

lemma discard_event: "issue_event P s (snd (discard_prepared_intent i s))"
proof (cases "hm_get (prepared s) i")
  case None
  have "hm_remove i (prepared s) = prepared s"
    using None by (simp add: hm_remove_def hm_get_def map_of_eq_None_iff delete_idem)
  with None show ?thesis
    by (auto simp: discard_prepared_intent_def effectless_def intro!: quiet)
next
  case (Some p)
  then show ?thesis
    by (auto simp: discard_prepared_intent_def intro!: discarded [of s i])
qed

lemma issue_step_event:
  assumes "issue_inv s"
  shows "issue_event P s (issue_step P cmd s)"
proof -
  have prepare: "issue_event P s (snd (prepare_transition P op ids j c s))"
    if "transition op \<noteq> None" for op ids j c
    using assms that by (rule prepare_transition_event) (rule prod.collapse [symmetric])
  have env: "effectless s (s\<lparr>world := w\<rparr>)" "effectless s (inject_next_commit_failure s)" for w
    by (simp_all add: effectless_def inject_next_commit_failure_def)
  show ?thesis
    using assms
    by (cases cmd)
      (auto intro: prod.collapse [symmetric] create_issue_event prepare
        prepare_lower_event approve_and_execute_event approve_lower_event ensured_event reject_event
        discard_event quiet env
        simp: prepare_resolve_issue_def prepare_close_issue_def prepare_reopen_issue_def
          approve_and_execute_resolve_def approve_and_execute_close_def
          approve_and_execute_reopen_def transition_def)
qed

section \<open>The invariant is kept\<close>

lemma transition_Some_cases:
  "transition op = Some (i, v, required, next_state) \<longleftrightarrow>
     (\<exists>ty rationale. op = WorkManagementOperation.ResolveIssue i v ty rationale \<and>
        required = IssueState.Open \<and> next_state = IssueState.Resolved) \<or>
     (op = WorkManagementOperation.CloseIssue i v \<and>
        required = IssueState.Resolved \<and> next_state = IssueState.Closed) \<or>
     (\<exists>rationale. op = WorkManagementOperation.ReopenIssue i v rationale \<and>
        required = IssueState.Resolved \<and> next_state = IssueState.Open)"
  by (cases op) (auto simp: transition_def)

lemma evidence_supports_sound:
  "evidence_supports P w ids js role sw \<Longrightarrow> support_sound sw \<and> ids \<noteq> []"
  by (auto simp: evidence_supports_def support_sound_def list_all_iff split: if_splits)

lemma executed_transition_record:
  assumes "executed_transition P s c p r sw r'" and "issue_well_formed r"
  shows "issue_well_formed r' \<and> issue_id r' = issue_id r \<and> recurrence_of r' = recurrence_of r \<and>
    issue_version r < issue_version r' \<and> issue_state r \<noteq> IssueState.Closed"
proof -
  from assms(1) obtain i required next_state v' where
    tr: "transition (prepared_operation p) = Some (i, issue_version r, required, next_state)"
      "issue_state r = required"
    and v': "AggregateVersion_next (issue_version r) = Some v'"
    and cls: "preview_classification (prepared_preview p) \<noteq> DataClassification.Unclassified"
    and r': "r' = transitioned (prepared_operation p) (map meta_id (support_evidence sw))
          (supported_version v' (preview_classification (prepared_preview p)) sw r)"
    unfolding executed_transition_def by (elim conjE exE) (rule that)
  have evidence: "evidence_supports P (world s) (map meta_id (support_evidence sw))
      (support_judgments sw) (required_role (prepared_operation p)) sw"
    using assms(1) unfolding executed_transition_def by (elim conjE)
  have disjoint: "is_close (prepared_operation p) \<longrightarrow>
        set (map meta_id (support_evidence sw)) \<inter> set (resolution_evidence r) = {}"
    using assms(1) unfolding executed_transition_def by (elim conjE)
  note sw = evidence_supports_sound [OF evidence]
  note nextv = AggregateVersion_next_Some [THEN iffD1, OF v'] AggregateVersion_next_less [OF v']
  show ?thesis
    using tr assms(2) cls sw disjoint nextv unfolding transition_Some_cases r'
    by (elim disjE exE conjE) (auto simp: issue_well_formed_def supported_version_def is_close_def)
qed

lemma executed_lowering_record:
  assumes inv: "issue_inv s" and "executed_lowering P s c p r r'"
  shows "issue_well_formed r' \<and> issue_id r' = issue_id r \<and> recurrence_of r' = recurrence_of r \<and>
    issue_state r' = issue_state r \<and> issue_version r < issue_version r' \<and>
    issue_classification r' < issue_classification r"
proof -
  from assms(2) obtain i current proposed rationale v' a where
    p: "hm_get (prepared s) (approval_prepared_id (execute_approval c)) = Some p"
      "prepared_operation p = WorkManagementOperation.LowerIssueClassification i (issue_version r)
          current proposed rationale"
    and r: "hm_get (issues s) i = Some r"
    and v': "AggregateVersion_next (issue_version r) = Some v'"
    and current: "current = combine (issue_classification r) a" "current \<noteq> DataClassification.Unclassified"
    and r': "r' = r\<lparr>issue_classification := proposed, issue_version := v'\<rparr>"
    unfolding executed_lowering_def by blast
  from inv p have "prepared_current s p" by (simp add: issue_inv_def)
  with p r have same: "issue_classification r = current" and genuine: "is_genuine_lowering current proposed"
    by (auto simp: prepared_current_def transition_def)
  from genuine have less: "proposed < current"
    by (auto simp: is_genuine_lowering_def combine_eq_max max_def split: if_splits)
  with current have "proposed \<noteq> DataClassification.Unclassified"
    by (metis le_Unclassified leD)
  moreover from inv r have "issue_well_formed r" by (simp add: issue_inv_def)
  ultimately show ?thesis
    using AggregateVersion_next_Some [THEN iffD1, OF v'] AggregateVersion_next_less [OF v'] less same
    by (simp add: r' issue_well_formed_def)
qed

lemma committed_get:
  "committed consumed c sig out s t \<Longrightarrow>
     hm_get (issues t) i = (if i = issue_id (outcome_record out) then Some (outcome_record out)
        else hm_get (issues s) i) \<and>
     hm_get (idem t) k = (if k = idempotency_id c then Some (sig, Mutation out) else hm_get (idem s) k)"
  by (simp add: committed_def)

text \<open>Facts about the Ledger that only depend on its Issues surviving at their version or later.\<close>

definition extends :: "'w issue_service \<Rightarrow> 'w issue_service \<Rightarrow> bool" where
  "extends s t \<longleftrightarrow>
     (\<forall>i r. hm_get (issues s) i = Some r \<longrightarrow>
        (\<exists>r'. hm_get (issues t) i = Some r' \<and>
          (r' = r \<or> issue_version r < issue_version r' \<and>
             (issue_state r = IssueState.Closed \<longrightarrow> issue_state r' = IssueState.Closed))))"

lemma extends_same: "issues t = issues s \<Longrightarrow> extends s t"
  by (simp add: extends_def)

lemma extends_prepared:
  assumes ext: "extends s t" and current: "prepared_current s p"
  shows "prepared_current t p"
proof (cases "transition (prepared_operation p) = None")
  case True
  with current obtain i v cur proposed rationale r where
    p: "prepared_operation p = WorkManagementOperation.LowerIssueClassification i v cur proposed rationale"
      "is_genuine_lowering cur proposed"
    and r: "hm_get (issues s) i = Some r" "v \<le> issue_version r"
      "v = issue_version r \<longrightarrow> issue_classification r = cur"
    unfolding prepared_current_def by blast
  from ext r(1) obtain r' where r': "hm_get (issues t) i = Some r'"
    "r' = r \<or> issue_version r < issue_version r'" unfolding extends_def by blast
  with r have "v \<le> issue_version r' \<and> (v = issue_version r' \<longrightarrow> issue_classification r' = cur)"
    by auto
  with p r'(1) show ?thesis unfolding prepared_current_def by blast
qed (simp add: prepared_current_def)

lemma extends_recurrence: "extends s t \<Longrightarrow> recurrence_closed s r \<Longrightarrow> recurrence_closed t r"
  unfolding recurrence_closed_def extends_def by (auto split: option.splits)

lemma issue_inv_update:
  assumes inv: "issue_inv s" and ext: "extends s t"
    and wf: "hm_wf (issues t)" "hm_wf (prepared t)" "hm_wf (idem t)"
    and new_issue: "\<And>i r. hm_get (issues t) i = Some r \<Longrightarrow> hm_get (issues s) i = Some r \<or>
      issue_id r = i \<and> issue_well_formed r \<and> recurrence_closed s r"
    and new_prepared: "\<And>i p. hm_get (prepared t) i = Some p \<Longrightarrow> hm_get (prepared s) i = Some p \<or>
      prepared_id p = i \<and> prepared_current s p"
    and new_idem: "\<And>k sig v. hm_get (idem t) k = Some (sig, v) \<Longrightarrow>
      hm_get (idem s) k = Some (sig, v) \<or> kind_matches sig v"
  shows "issue_inv t"
  unfolding issue_inv_def
  using inv wf extends_prepared [OF ext] extends_recurrence [OF ext]
  by (auto simp: issue_inv_def dest!: new_issue new_prepared new_idem)

lemma committed_wf:
  "issue_inv s \<Longrightarrow> committed consumed c sig out s t \<Longrightarrow>
     hm_wf (issues t) \<and> hm_wf (prepared t) \<and> hm_wf (idem t)"
  by (auto simp: issue_inv_def committed_def split: option.splits)

lemma committed_prepared:
  "issue_inv s \<Longrightarrow> committed consumed c sig out s t \<Longrightarrow> hm_get (prepared t) i = Some p \<Longrightarrow>
     hm_get (prepared s) i = Some p"
  by (auto simp: issue_inv_def committed_def split: option.splits if_splits)

lemma committed_inv:
  assumes inv: "issue_inv s" and commit: "committed consumed c sig out s t"
    and rec_ok: "issue_well_formed (outcome_record out)" "recurrence_closed s (outcome_record out)"
    and sig: "kind_matches sig (Mutation out)"
    and old: "\<And>r. hm_get (issues s) (issue_id (outcome_record out)) = Some r \<Longrightarrow>
      issue_version r < issue_version (outcome_record out) \<and>
      (issue_state r = IssueState.Closed \<longrightarrow> issue_state (outcome_record out) = IssueState.Closed)"
  shows "issue_inv t"
proof (rule issue_inv_update [OF inv])
  note get = committed_get [OF commit]
  show "extends s t" using old by (auto simp: extends_def get)
  show "hm_wf (issues t)" "hm_wf (prepared t)" "hm_wf (idem t)"
    using committed_wf [OF inv commit] by blast+
  show "hm_get (issues s) i = Some r \<or> issue_id r = i \<and> issue_well_formed r \<and> recurrence_closed s r"
    if "hm_get (issues t) i = Some r" for i r
    using that rec_ok by (auto simp: get split: if_splits)
  show "hm_get (prepared s) i = Some p \<or> prepared_id p = i \<and> prepared_current s p"
    if "hm_get (prepared t) i = Some p" for i p
    using committed_prepared [OF inv commit that] by blast
  show "hm_get (idem s) k = Some (sig', v) \<or> kind_matches sig' v"
    if "hm_get (idem t) k = Some (sig', v)" for k sig' v
    using that sig by (auto simp: get split: if_splits)
qed

lemma created_well_formed:
  assumes "created_from P s c r"
  shows "issue_well_formed r \<and> recurrence_closed s r \<and> issue_id r = create_id c"
proof -
  have r: "r = IssueRecord_new (create_id c) (create_title c) (create_details c)
      (issue_classification r) None (create_recurrence_of c)"
    and cls: "issue_classification r \<noteq> DataClassification.Unclassified"
    and rec: "recurrence_classification P c s = Inr (issue_classification r)"
    using assms unfolding created_from_def by blast+
  have "issue_well_formed r"
    using cls by (subst r) (simp add: issue_well_formed_def IssueRecord_new_def AggregateVersion_initial_def)
  moreover have "recurrence_of r = create_recurrence_of c" by (subst r) (simp add: IssueRecord_new_def)
  moreover have "issue_id r = create_id c" by (subst r) (simp add: IssueRecord_new_def)
  ultimately show ?thesis
    using rec by (auto simp: recurrence_closed_def recurrence_classification_def
      split: option.splits if_splits)
qed

lemma executed_out:
  "executed_as P w c i code r' out \<Longrightarrow> outcome_record out = r'"
  by (auto simp: executed_as_def)

lemma issue_event_inv: "issue_event P s t \<Longrightarrow> issue_inv s \<Longrightarrow> issue_inv t"
proof (induction rule: issue_event.induct)
  case (quiet s t)
  show ?case
    by (rule issue_inv_update [OF quiet.prems])
      (use quiet in \<open>auto simp: effectless_def issue_inv_def intro: extends_same\<close>)
next
  case (created c s r a t)
  note facts = created_well_formed [OF created.hyps(2)]
  have new: "hm_get (issues s) (create_id c) = None"
    using created.hyps(2) by (simp add: created_from_def)
  show ?case
    by (rule committed_inv [OF created.prems created.hyps(4)])
      (use facts new in \<open>simp_all add: create_identity_def\<close>)
next
  case (stored c s sig p t)
  show ?case
    by (rule issue_inv_update [OF stored.prems])
      (use stored in \<open>auto simp: issue_inv_def intro: extends_same split: if_splits\<close>)
next
  case (transitioned c s p r sw r' i out t)
  have r: "issue_well_formed r" "recurrence_closed s r" "issue_id r = i"
    using transitioned.prems transitioned.hyps(4) by (auto simp: issue_inv_def)
  note new = executed_transition_record [OF transitioned.hyps(2) r(1)]
  note out = executed_out [OF transitioned.hyps(5)]
  have rec: "recurrence_closed s r'" using new r(2) by (simp add: recurrence_closed_def)
  show ?case
    by (rule committed_inv [OF transitioned.prems transitioned.hyps(6)])
      (use new rec out r transitioned.hyps(4) in \<open>auto simp: execute_identity_def\<close>)
next
  case (lowered c s p r r' i out t)
  have r: "recurrence_closed s r" "issue_id r = i"
    using lowered.prems lowered.hyps(4) by (auto simp: issue_inv_def)
  note new = executed_lowering_record [OF lowered.prems lowered.hyps(2)]
  note out = executed_out [OF lowered.hyps(5)]
  have rec: "recurrence_closed s r'" using new r(1) by (simp add: recurrence_closed_def)
  show ?case
    by (rule committed_inv [OF lowered.prems lowered.hyps(6)])
      (use new rec out r lowered.hyps(4) in \<open>auto simp: execute_identity_def\<close>)
next
  case (rejected c s p out t)
  show ?case
    by (rule issue_inv_update [OF rejected.prems])
      (use rejected in \<open>auto simp: issue_inv_def intro: extends_same split: if_splits\<close>)
next
  case (discarded s i t)
  show ?case
    by (rule issue_inv_update [OF discarded.prems])
      (use discarded in \<open>auto simp: issue_inv_def intro: extends_same
        dest: hm.retain_absent split: if_splits\<close>)
qed

section \<open>History\<close>

definition evolves :: "IssueRecord \<Rightarrow> IssueRecord \<Rightarrow> bool" where
  "evolves r r' \<longleftrightarrow>
     issue_id r' = issue_id r \<and> source_risk_id r' = source_risk_id r \<and>
     recurrence_of r' = recurrence_of r \<and> issue_title r' = issue_title r \<and>
     issue_details r' = issue_details r \<and>
     (r' = r \<or> issue_version r < issue_version r') \<and>
     prefix (support_history r) (support_history r') \<and>
     prefix (failed_verification_evidence r) (failed_verification_evidence r') \<and>
     prefix (reopen_rationales r) (reopen_rationales r') \<and>
     (issue_state r = IssueState.Closed \<longrightarrow>
        issue_state r' = IssueState.Closed \<and> resolution_type r' = resolution_type r \<and>
        resolution_rationale r' = resolution_rationale r \<and>
        resolution_evidence r' = resolution_evidence r \<and>
        closure_verification_evidence r' = closure_verification_evidence r)"

fun permanent :: "Stored \<Rightarrow> bool" where
  "permanent (Prepared _) = False"
| "permanent _ = True"

definition issue_later :: "'w issue_service \<Rightarrow> 'w issue_service \<Rightarrow> bool" where
  "issue_later s t \<longleftrightarrow>
     (\<forall>i r. hm_get (issues s) i = Some r \<longrightarrow>
        (\<exists>r'. hm_get (issues t) i = Some r' \<and> evolves r r')) \<and>
     (\<forall>k sig v. hm_get (idem s) k = Some (sig, v) \<longrightarrow> permanent v \<longrightarrow>
        hm_get (idem t) k = Some (sig, v)) \<and>
     prefix (audits s) (audits t)"

lemma evolves_refl [simp]: "evolves r r"
  by (simp add: evolves_def)

lemma evolves_trans: "evolves a b \<Longrightarrow> evolves b c \<Longrightarrow> evolves a c"
  unfolding evolves_def by (auto intro: prefix_order.trans less_trans)

lemma executed_transition_evolves:
  assumes "executed_transition P s c p r sw r'"
  shows "evolves r r'"
proof -
  from assms obtain i required next_state v' where
    tr: "transition (prepared_operation p) = Some (i, issue_version r, required, next_state)"
      "issue_state r = required"
    and v': "AggregateVersion_next (issue_version r) = Some v'"
    and r': "r' = transitioned (prepared_operation p) (map meta_id (support_evidence sw))
          (supported_version v' (preview_classification (prepared_preview p)) sw r)"
    unfolding executed_transition_def by (elim conjE exE) (rule that)
  show ?thesis
    using tr AggregateVersion_next_less [OF v'] unfolding transition_Some_cases r'
    by (elim disjE exE conjE) (simp_all add: evolves_def supported_version_def)
qed

lemma executed_lowering_evolves: "executed_lowering P s c p r r' \<Longrightarrow> evolves r r'"
  unfolding executed_lowering_def by (auto simp: evolves_def AggregateVersion_next_less)

lemma later_committed:
  assumes commit: "committed consumed c sig out s t" and fresh: "unused c s"
    and old: "\<And>r. hm_get (issues s) (issue_id (outcome_record out)) = Some r \<Longrightarrow>
      evolves r (outcome_record out)"
  shows "issue_later s t"
  unfolding issue_later_def
  using committed_get [OF commit] fresh old commit by (auto simp: unused_def committed_def)

lemma issue_event_later:
  assumes "issue_event P s t" and "issue_inv s"
  shows "issue_later s t"
  using assms
proof (induction rule: issue_event.induct)
  case (quiet s t)
  then show ?case by (auto simp: effectless_def issue_later_def)
next
  case (created c s r a t)
  have "hm_get (issues s) (issue_id r) = None"
    using created_well_formed [OF created.hyps(2)] created.hyps(2) by (simp add: created_from_def)
  with created.hyps(1,4) show ?case by (auto intro: later_committed)
next
  case (stored c s sig p t)
  then show ?case by (auto simp: issue_later_def unused_def)
next
  case (transitioned c s p r sw r' i out t)
  have "issue_id r' = i"
    using executed_transition_evolves [OF transitioned.hyps(2)] transitioned.prems transitioned.hyps(4)
    by (auto simp: evolves_def issue_inv_def)
  with executed_transition_evolves [OF transitioned.hyps(2)] executed_out [OF transitioned.hyps(5)]
    transitioned.hyps(1,4,6) show ?case by (auto intro: later_committed)
next
  case (lowered c s p r r' i out t)
  have "issue_id r' = i"
    using executed_lowering_evolves [OF lowered.hyps(2)] lowered.prems lowered.hyps(4)
    by (auto simp: evolves_def issue_inv_def)
  with executed_lowering_evolves [OF lowered.hyps(2)] executed_out [OF lowered.hyps(5)]
    lowered.hyps(1,4,6) show ?case by (auto intro: later_committed)
next
  case (rejected c s p out t)
  then show ?case by (auto simp: issue_later_def unused_def)
next
  case (discarded s i t)
  have permanent: "permanent v \<Longrightarrow> \<not> stored_prepared_for i v" for v by (cases v) simp_all
  from discarded show ?case
    by (auto simp: issue_later_def issue_inv_def hm.get_retain dest: permanent)
qed

lemma issue_later_trans:
  assumes "issue_later s t" and "issue_later t u"
  shows "issue_later s u"
  unfolding issue_later_def
proof (intro conjI allI impI)
  show "\<exists>r2. hm_get (issues u) i = Some r2 \<and> evolves r r2" if "hm_get (issues s) i = Some r" for i r
  proof -
    from assms(1) that obtain r1 where "hm_get (issues t) i = Some r1" "evolves r r1"
      unfolding issue_later_def by blast
    moreover from assms(2) this(1) obtain r2 where "hm_get (issues u) i = Some r2" "evolves r1 r2"
      unfolding issue_later_def by blast
    ultimately show ?thesis using evolves_trans by blast
  qed
  show "hm_get (idem u) k = Some (sig, v)" if "hm_get (idem s) k = Some (sig, v)" "permanent v" for k sig v
    using assms that unfolding issue_later_def by blast
  show "prefix (audits s) (audits u)"
    using assms unfolding issue_later_def by (blast intro: prefix_order.trans)
qed

section \<open>Agreement of the tables\<close>

text \<open>
  How the four tables of the service agree: every Issue is the outcome of a recorded mutation; a
  recorded mutation has one audit, which is in the log, is of the recorded Issue, succeeded with its own
  code as the only effect, was approved unless it created, and the Issue it produced is still
  stored or has evolved since; a recorded rejection has its audit in the log; every audit in the log
  records no effect or is the audit of a recorded mutation; every stored preview is classified, is the
  recorded outcome of a preparation that asked for its operation, and is of a stored Issue that has not
  gone back behind the version it was prepared for.
\<close>

fun is_creation :: "Identity \<Rightarrow> bool" where
  "is_creation (Create _ _ _ _ _) = True"
| "is_creation _ = False"

definition mutation_recorded :: "'w issue_service \<Rightarrow> Identity \<Rightarrow> IssueMutationOutcome \<Rightarrow> bool" where
  "mutation_recorded s sig out \<longleftrightarrow>
     (\<exists>a r. outcome_audit_events out = [a] \<and> a \<in> set (audits s) \<and>
        audit_target a = AuditTarget.Issue (issue_id (outcome_record out)) \<and>
        audit_policy_outcome a = AuditPolicyOutcome.Allowed \<and>
        audit_approval_outcome a =
          (if is_creation sig then AuditApprovalOutcome.NotRequired else AuditApprovalOutcome.Approved) \<and>
        audit_execution_outcome a = AuditExecutionOutcome.Succeeded \<and>
        audit_actual_effects a = [audit_code a] \<and>
        (outcome_receipt_id out = None \<longleftrightarrow> is_creation sig) \<and>
        hm_get (issues s) (issue_id (outcome_record out)) = Some r \<and> evolves (outcome_record out) r)"

definition preview_recorded :: "'w issue_service \<Rightarrow> WorkManagementPreparedIntent \<Rightarrow> bool" where
  "preview_recorded s p \<longleftrightarrow>
     preview_classification (prepared_preview p) \<noteq> DataClassification.Unclassified \<and>
     (\<exists>k sig. hm_get (idem s) k = Some (sig, Prepared p) \<and> asks_for sig (prepared_operation p)) \<and>
     (\<exists>i v r. previewed_version (prepared_operation p) = Some (i, v) \<and>
        hm_get (issues s) i = Some r \<and> v \<le> issue_version r)"

definition issue_agrees :: "'w issue_service \<Rightarrow> bool" where
  "issue_agrees s \<longleftrightarrow>
     (\<forall>i r. hm_get (issues s) i = Some r \<longrightarrow>
        (\<exists>k sig out. hm_get (idem s) k = Some (sig, Mutation out) \<and> outcome_record out = r)) \<and>
     (\<forall>k sig out. hm_get (idem s) k = Some (sig, Mutation out) \<longrightarrow> mutation_recorded s sig out) \<and>
     (\<forall>k sig out. hm_get (idem s) k = Some (sig, Rejected out) \<longrightarrow>
        rejected_audit_event out \<in> set (audits s) \<and> no_effect (rejected_audit_event out)) \<and>
     (\<forall>a \<in> set (audits s). no_effect a \<or>
        (\<exists>k sig out. hm_get (idem s) k = Some (sig, Mutation out) \<and> outcome_audit_events out = [a])) \<and>
     (\<forall>i p. hm_get (prepared s) i = Some p \<longrightarrow> preview_recorded s p)"

lemma evolves_version: "evolves r r' \<Longrightarrow> issue_version r \<le> issue_version r'"
  by (auto simp: evolves_def)

lemma later_record:
  "issue_later s t \<Longrightarrow> hm_get (issues s) i = Some r \<Longrightarrow>
     \<exists>r'. hm_get (issues t) i = Some r' \<and> evolves r r'"
  unfolding issue_later_def by blast

lemma later_idem:
  "issue_later s t \<Longrightarrow> hm_get (idem s) k = Some (sig, v) \<Longrightarrow> permanent v \<Longrightarrow>
     hm_get (idem t) k = Some (sig, v)"
  unfolding issue_later_def by blast

lemma later_audits: "issue_later s t \<Longrightarrow> set (audits s) \<subseteq> set (audits t)"
  unfolding issue_later_def by (blast dest: set_mono_prefix)

lemma later_mutation_recorded:
  assumes "issue_later s t" and "mutation_recorded s sig out"
  shows "mutation_recorded t sig out"
proof -
  from assms(2) obtain r where r: "hm_get (issues s) (issue_id (outcome_record out)) = Some r"
    "evolves (outcome_record out) r" unfolding mutation_recorded_def by blast
  from later_record [OF assms(1) r(1)] evolves_trans [OF r(2)] obtain r' where
    "hm_get (issues t) (issue_id (outcome_record out)) = Some r'" "evolves (outcome_record out) r'" by blast
  with assms(2) later_audits [OF assms(1)] show ?thesis
    unfolding mutation_recorded_def by (elim exE) (rule exI, rule exI [of _ r'], auto)
qed

lemma later_preview_recorded:
  assumes later: "issue_later s t" and p: "preview_recorded s p"
    and kept: "\<And>k sig. hm_get (idem s) k = Some (sig, Prepared p) \<Longrightarrow> hm_get (idem t) k = Some (sig, Prepared p)"
  shows "preview_recorded t p"
proof -
  from p obtain i v r where v: "previewed_version (prepared_operation p) = Some (i, v)"
    "hm_get (issues s) i = Some r" "v \<le> issue_version r" unfolding preview_recorded_def by blast
  from later_record [OF later v(2)] obtain r' where
    "hm_get (issues t) i = Some r'" "issue_version r \<le> issue_version r'" using evolves_version by blast
  with v have "\<exists>i v r. previewed_version (prepared_operation p) = Some (i, v) \<and>
      hm_get (issues t) i = Some r \<and> v \<le> issue_version r" by (blast intro: order_trans)
  with p kept show ?thesis unfolding preview_recorded_def by blast
qed

text \<open>What a step has to show of what it adds; the rest agrees as before.\<close>

lemma issue_agrees_update:
  assumes agrees: "issue_agrees s" and later: "issue_later s t"
    and new_issue: "\<And>i r. hm_get (issues t) i = Some r \<Longrightarrow> hm_get (issues s) i = Some r \<or>
      (\<exists>k sig out. hm_get (idem t) k = Some (sig, Mutation out) \<and> outcome_record out = r)"
    and new_idem: "\<And>k sig v. hm_get (idem t) k = Some (sig, v) \<Longrightarrow> hm_get (idem s) k = Some (sig, v) \<or>
      (case v of Mutation out \<Rightarrow> mutation_recorded t sig out
       | Rejected out \<Rightarrow> rejected_audit_event out \<in> set (audits t) \<and> no_effect (rejected_audit_event out)
       | Prepared _ \<Rightarrow> True)"
    and new_audit: "\<And>a. a \<in> set (audits t) \<Longrightarrow> a \<in> set (audits s) \<or> no_effect a \<or>
      (\<exists>k sig out. hm_get (idem t) k = Some (sig, Mutation out) \<and> outcome_audit_events out = [a])"
    and new_prepared: "\<And>i p. hm_get (prepared t) i = Some p \<Longrightarrow> preview_recorded t p \<or>
      hm_get (prepared s) i = Some p \<and>
        (\<forall>k sig. hm_get (idem s) k = Some (sig, Prepared p) \<longrightarrow> hm_get (idem t) k = Some (sig, Prepared p))"
  shows "issue_agrees t"
proof -
  have old: "hm_get (idem t) k = Some (sig, Mutation out)" if "hm_get (idem s) k = Some (sig, Mutation out)"
    for k sig out using later_idem [OF later that] by simp
  have "\<exists>k sig out. hm_get (idem t) k = Some (sig, Mutation out) \<and> outcome_record out = r"
    if "hm_get (issues t) i = Some r" for i r
    using new_issue [OF that] agrees old unfolding issue_agrees_def by metis
  moreover have "mutation_recorded t sig out" if "hm_get (idem t) k = Some (sig, Mutation out)" for k sig out
    using new_idem [OF that] agrees later_mutation_recorded [OF later]
    unfolding issue_agrees_def by auto
  moreover have "rejected_audit_event out \<in> set (audits t) \<and> no_effect (rejected_audit_event out)"
    if "hm_get (idem t) k = Some (sig, Rejected out)" for k sig out
    using new_idem [OF that] agrees later_audits [OF later] unfolding issue_agrees_def by auto
  moreover have "no_effect a \<or>
      (\<exists>k sig out. hm_get (idem t) k = Some (sig, Mutation out) \<and> outcome_audit_events out = [a])"
    if "a \<in> set (audits t)" for a
    using new_audit [OF that] agrees old unfolding issue_agrees_def by metis
  moreover have "preview_recorded t p" if "hm_get (prepared t) i = Some p" for i p
    using new_prepared [OF that] agrees later_preview_recorded [OF later] unfolding issue_agrees_def by blast
  ultimately show ?thesis unfolding issue_agrees_def by blast
qed

lemma committed_agrees:
  assumes inv: "issue_inv s" and agrees: "issue_agrees s" and later: "issue_later s t"
    and commit: "committed consumed c sig out s t"
    and fresh: "unused c s"
    and out: "outcome_audit_events out = [a]" "mutation_audit a (issue_id (outcome_record out)) code c h"
    and kinds: "is_creation sig \<longleftrightarrow> \<not> h" "outcome_receipt_id out = None \<longleftrightarrow> \<not> h"
  shows "issue_agrees t"
proof (rule issue_agrees_update [OF agrees later])
  note get = committed_get [OF commit]
  have audits: "audits t = audits s @ [a]" using commit out(1) by (simp add: committed_def)
  have new: "mutation_recorded t sig out"
    using out kinds by (auto simp: mutation_recorded_def mutation_audit_def audits get)
  show "hm_get (issues s) i = Some r \<or>
      (\<exists>k sig out. hm_get (idem t) k = Some (sig, Mutation out) \<and> outcome_record out = r)"
    if "hm_get (issues t) i = Some r" for i r
    using that by (auto simp: get split: if_splits)
  show "hm_get (idem s) k = Some (sig', v) \<or>
      (case v of Mutation out \<Rightarrow> mutation_recorded t sig' out
       | Rejected out \<Rightarrow> rejected_audit_event out \<in> set (audits t) \<and> no_effect (rejected_audit_event out)
       | Prepared _ \<Rightarrow> True)" if "hm_get (idem t) k = Some (sig', v)" for k sig' v
    using that new by (auto simp: get split: if_splits)
  show "b \<in> set (audits s) \<or> no_effect b \<or>
      (\<exists>k sig out. hm_get (idem t) k = Some (sig, Mutation out) \<and> outcome_audit_events out = [b])"
    if "b \<in> set (audits t)" for b
    using that out(1) by (auto simp: audits get)
  show "preview_recorded t p \<or> hm_get (prepared s) i = Some p \<and>
      (\<forall>k sig. hm_get (idem s) k = Some (sig, Prepared p) \<longrightarrow> hm_get (idem t) k = Some (sig, Prepared p))"
    if "hm_get (prepared t) i = Some p" for i p
    using committed_prepared [OF inv commit that] fresh by (auto simp: get unused_def)
qed

lemma issue_event_agrees:
  assumes "issue_event P s t" and "issue_inv s" and "issue_agrees s"
  shows "issue_agrees t"
proof -
  note later = issue_event_later [OF assms(1,2)]
  show ?thesis
    using assms later
  proof (induction rule: issue_event.induct)
    case (quiet s t)
    show ?case
      by (rule issue_agrees_update [OF quiet.prems(2,3)])
        (use quiet.hyps in \<open>auto simp: effectless_def list_all_iff\<close>)
  next
    case (created c s r a t)
    have "issue_id r = create_id c" using created_well_formed [OF created.hyps(2)] by blast
    with created.hyps(3) show ?case
      by (intro committed_agrees [OF created.prems created.hyps(4,1), where h = False])
        (simp_all add: create_identity_def)
  next
    case (stored c s sig p t)
    show ?case
    proof (rule issue_agrees_update [OF stored.prems(2,3)])
      have "preview_recorded t p"
        using stored.hyps(4) by (auto simp: preview_recorded_def preview_binds_def stored.hyps)
      then show "preview_recorded t q \<or> hm_get (prepared s) i = Some q \<and>
          (\<forall>k sig. hm_get (idem s) k = Some (sig, Prepared q) \<longrightarrow> hm_get (idem t) k = Some (sig, Prepared q))"
        if "hm_get (prepared t) i = Some q" for i q
        using that stored.hyps by (auto simp: unused_def split: if_splits)
    qed (use stored.hyps in \<open>auto split: if_splits\<close>)
  next
    case (transitioned c s p r sw r' i out t)
    have "issue_id r' = i"
      using executed_transition_evolves [OF transitioned.hyps(2)] transitioned.prems(1) transitioned.hyps(4)
      by (auto simp: evolves_def issue_inv_def)
    with transitioned.hyps(5) show ?case
      by (auto simp: executed_as_def execute_identity_def
        intro!: committed_agrees [OF transitioned.prems transitioned.hyps(6,1), where h = True])
  next
    case (lowered c s p r r' i out t)
    have "issue_id r' = i"
      using executed_lowering_evolves [OF lowered.hyps(2)] lowered.prems(1) lowered.hyps(4)
      by (auto simp: evolves_def issue_inv_def)
    with lowered.hyps(5) show ?case
      by (auto simp: executed_as_def execute_identity_def
        intro!: committed_agrees [OF lowered.prems lowered.hyps(6,1), where h = True])
  next
    case (rejected c s p out t)
    show ?case
      by (rule issue_agrees_update [OF rejected.prems(2,3)])
        (use rejected.prems rejected.hyps in \<open>auto simp: unused_def issue_inv_def split: if_splits\<close>)
  next
    case (discarded s i t)
    have other: "j \<noteq> i \<and> prepared_id p = j" if "hm_get (prepared t) j = Some p" for j p
      using that discarded.prems(1) discarded.hyps by (auto simp: issue_inv_def split: if_splits)
    show ?case
      by (rule issue_agrees_update [OF discarded.prems(2,3)])
        (use discarded.prems discarded.hyps other in
          \<open>auto simp: issue_inv_def hm.get_retain dest: hm.retain_absent split: if_splits option.splits\<close>)
  qed
qed

section \<open>Runs\<close>

interpretation issue_machine: monotone_system "issue_step P" issue_inv issue_later
proof
  fix c s t u
  show "issue_inv (issue_step P c s)" if "issue_inv s"
    using issue_step_event [OF that] that by (rule issue_event_inv)
  show "issue_later s s" by (auto simp: issue_later_def)
  show "issue_later s u" if "issue_later s t" "issue_later t u"
    using that by (rule issue_later_trans)
  show "issue_later s (issue_step P c s)" if "issue_inv s"
    using issue_step_event [OF that] that by (rule issue_event_later)
qed

lemma issue_inv_new: "issue_inv (issue_service_new w [])"
  by (simp add: issue_inv_def issue_service_new_def)

interpretation issue_agreement: transition_system "issue_step P" "\<lambda>s. issue_inv s \<and> issue_agrees s"
  by unfold_locales
    (blast intro: issue_machine.inv_step issue_event_agrees issue_step_event)

lemma issue_agrees_new: "issue_agrees (issue_service_new w [])"
  by (simp add: issue_agrees_def issue_service_new_def)

end
