(* ===== verification/Issue_Properties.thy ===== *)
theory Issue_Properties
  imports Issue_Refinement
begin

text \<open>
  The properties of the Issue service, and the concrete service their witnesses run on: a
  clock that ticks at every reading, identifiers drawn from the tick, an authorizing and
  allowing environment with three pieces of verified Evidence.
\<close>

section \<open>A concrete service\<close>

definition example_evidence :: "string \<Rightarrow> EvidenceRole \<Rightarrow> EvidenceReferenceMetadata" where
  "example_evidence i role =
     \<lparr>meta_id = i, meta_source_version = AggregateVersion_initial,
      meta_classification = DataClassification.Internal, meta_role = role,
      meta_verification = Verified (UtcTimestamp 0) ''digest''\<rparr>"

definition example_ports :: "nat issue_ports" where
  "example_ports =
     \<lparr>clock_now = \<lambda>w. (UtcTimestamp (word_of_nat w), Suc w),
      next_prepared_intent_id = \<lambda>w. (Inr (CHR ''p'' # replicate w CHR ''i''), Suc w),
      next_approval_receipt_id = \<lambda>w. (Inr (CHR ''r'' # replicate w CHR ''i''), Suc w),
      next_audit_event_id = \<lambda>w. (Inr (CHR ''a'' # replicate w CHR ''i''), Suc w),
      authorize = \<lambda>w a. True,
      current_policy = \<lambda>w op. IssueExecutionPolicy.Allowed,
      resolve_evidence = \<lambda>w i.
        if i = ''e-r'' then Inr (example_evidence i EvidenceRole.IssueResolution)
        else if i = ''e-c'' then Inr (example_evidence i EvidenceRole.IssueClosureVerification)
        else if i = ''e-f'' then Inr (example_evidence i EvidenceRole.IssueFailedVerification)
        else Inl NotFound,
      current_classification = \<lambda>w i recorded. Inr recorded,
      sha256_hex = \<lambda>m. ''digest''\<rparr>"

definition example_context :: "string \<Rightarrow> IssueOperationContext" where
  "example_context k = \<lparr>idempotency_id = k, correlation_id = ''corr''\<rparr>"

definition example_create :: CreateIssue where
  "example_create =
     \<lparr>create_id = ''issue-1'', create_title = ''Title'', create_details = ''Details'',
      create_classification = DataClassification.Internal, create_recurrence_of = None,
      create_context = example_context ''k-create''\<rparr>"

definition example_prepare_resolve :: PrepareResolveIssue where
  "example_prepare_resolve =
     \<lparr>resolve_issue_id = ''issue-1'', resolve_expected_version = AggregateVersion 1,
      resolve_resolution_type = IssueResolutionType.Resolved, resolve_rationale = ''Fixed'',
      resolve_evidence_ids = [''e-r''], resolve_judgment = None,
      resolve_context = example_context ''k-prepare''\<rparr>"

definition example_approve :: "string \<Rightarrow> string \<Rightarrow> ApproveAndExecute" where
  "example_approve p k =
     \<lparr>execute_approval = \<lparr>approval_prepared_id = p, approval_actor = AuditActor.HeadOfProducts,
        acknowledged_payload_digest = ''digest'', approval_idempotency_id = k\<rparr>,
      execute_context = example_context k\<rparr>"

definition example_created :: "nat issue_service" where
  "example_created = snd (create_issue example_ports example_create (issue_service_new 0 []))"

definition example_prepared :: "nat issue_service" where
  "example_prepared = snd (prepare_resolve_issue example_ports example_prepare_resolve example_created)"

definition example_resolved :: "nat issue_service" where
  "example_resolved =
     snd (approve_and_execute example_ports (example_approve ''pii'' ''k-approve'') example_prepared)"

lemma ok_collapse: "is_ok (fst x) \<Longrightarrow> x = (Inr (projr (fst x)), snd x)"
  by (cases x; cases "fst x") simp_all

lemma example_created_run:
  "example_created = fold (issue_step example_ports) [Create_Issue example_create] (issue_service_new 0 [])"
  by (simp add: example_created_def)

lemma example_prepared_run:
  "example_prepared = fold (issue_step example_ports)
     [Create_Issue example_create, Prepare_Resolve example_prepare_resolve] (issue_service_new 0 [])"
  by (simp add: example_prepared_def example_created_def)

lemma example_resolved_run:
  "example_resolved = fold (issue_step example_ports)
     [Create_Issue example_create, Prepare_Resolve example_prepare_resolve,
      Approve (example_approve ''pii'' ''k-approve'')] (issue_service_new 0 [])"
  by (simp add: example_resolved_def example_prepared_def example_created_def)

lemmas example_invs = issue_machine.inv_run [OF issue_inv_new, where P = example_ports]

lemma example_created_inv: "issue_inv example_created"
  unfolding example_created_run by (rule example_invs)

lemma example_prepared_inv: "issue_inv example_prepared"
  unfolding example_prepared_run by (rule example_invs)

lemma example_resolved_inv: "issue_inv example_resolved"
  unfolding example_resolved_run by (rule example_invs)

lemma example_approved:
  "approve_and_execute example_ports (example_approve ''pii'' ''k-approve'') example_prepared =
     (Inr (projr (fst (approve_and_execute example_ports (example_approve ''pii'' ''k-approve'') example_prepared))),
      example_resolved)"
proof -
  have "is_ok (fst (approve_and_execute example_ports (example_approve ''pii'' ''k-approve'') example_prepared))"
    by code_simp
  then show ?thesis unfolding example_resolved_def by (rule ok_collapse)
qed

lemma example_unused: "unused (execute_context (example_approve ''pii'' ''k-approve'')) example_prepared"
  by code_simp

section \<open>Refinement, invariant and history\<close>

text \<open>
  C1. Every command, accepted or refused, is one of the seven events of the specification:
  nothing happens to the Ledger but an effectless audit, an Issue is created under a fresh
  identity, a preview is stored, a preview is executed as a supported and approved transition or
  as a lowering, rejected, or discarded. A command other than a discard only ever writes under an
  idempotency identity that was unused.
\<close>

theorem issue_service_refines_events:
  assumes "issue_inv s"
  shows "issue_event P s (issue_step P cmd s)"
  using assms by (rule issue_step_event)

theorem issue_service_refines_events_witness:
  "issue_event example_ports example_created
     (issue_step example_ports (Prepare_Resolve example_prepare_resolve) example_created)"
  by (rule issue_service_refines_events [OF example_created_inv])

text \<open>
  C2. Whatever commands are sent to a new service, and however its environment changes
  between them: every Issue is stored under its own identity and is classified; a resolved or
  closed Issue has its resolution type, rationale and Evidence; an Issue has closure Evidence
  exactly when it is closed, and none of it was the resolution's Evidence; every lifecycle
  transition left one support, so that supports number twice the reopenings plus one for
  resolved and two for closed, each with Evidence that was not refused and with a written
  Judgment unless all of it was verified; versions outnumber transitions; recurrences point to
  closed Issues; previews are stored under their identity and recorded outcomes match the
  command that produced them. Moreover the tables agree: every Issue is the outcome of a recorded
  creation or execution; each such record has exactly one audit, which is in the log, names that
  Issue, succeeded with its own code as its only effect, and was approved under a receipt unless it
  created; the Issue has only evolved from the recorded one; a recorded rejection's audit is in the log;
  every audit in the log records no effect or is the audit of a recorded creation or execution; every
  stored preview is classified, is the recorded outcome of a preparation that asked for its
  operation, and names a stored Issue that is not behind the version it was prepared for.
\<close>

theorem issue_invariant_over_runs:
  "issue_inv (fold (issue_step P) cmds (issue_service_new w [])) \<and>
   issue_agrees (fold (issue_step P) cmds (issue_service_new w []))"
  by (rule issue_agreement.inv_run) (simp add: issue_inv_new issue_agrees_new)

text \<open>
  C28. History is never rewritten: from any point of a run to any later point, every Issue
  is still there with the same identity, title, details and origin, unchanged or at a higher
  version; its supports, failed verifications and reopening rationales have only been appended
  to; a closed Issue stays closed with the resolution and closure it had; every recorded outcome
  of a mutation or rejection is still recorded under its idempotency identity; audits have only
  been appended.
\<close>

theorem issue_history_over_runs:
  "issue_later (fold (issue_step P) cmds (issue_service_new w []))
     (fold (issue_step P) later_cmds (fold (issue_step P) cmds (issue_service_new w [])))"
  by (intro issue_machine.later_run issue_machine.inv_run issue_inv_new)

section \<open>Approval and Evidence\<close>

lemma approve_ok_cases:
  assumes "approve_and_execute P c s = (Inr out, t)"
  shows "approval_idempotency_id (execute_approval c) = idempotency_id (execute_context c) \<and>
    (t = s \<and> hm_get (idem s) (idempotency_id (execute_context c)) =
        Some (execute_identity (execute_approval c), Mutation out) \<or>
     execute_fresh P c s = (Inr out, t))"
  using execute_with_cases [OF assms [unfolded approve_and_execute_def audited_execution_ok execute_def]]
  by (auto simp: replay_def split: option.splits if_splits)

lemma approve_fresh:
  assumes "approve_and_execute P c s = (Inr out, t)" and "unused (execute_context c) s"
  shows "execute_fresh P c s = (Inr out, t)"
  using approve_ok_cases [OF assms(1)] assms(2) by (auto simp: unused_def)

text \<open>
  C3. A lifecycle transition that is executed, and not replayed, was approved: the command
  names a stored preview, the Head of Products is the actor and is authorized at that moment,
  the digest acknowledged is the stored preview's, the preview has not expired, policy allows the
  operation now, the Issue is still at the version and in the state the preview was made for, and
  the current classification of the Issue and of its support still gives the previewed one. The
  result is exactly the previewed transition of that Issue, with its version advanced by one, one
  audit recording it as approved and succeeded, the receipt identity, the preview consumed and
  the outcome recorded; nothing else changes.
\<close>

theorem transition_requires_current_approval:
  assumes "approve_and_execute P c s = (Inr out, t)" and "unused (execute_context c) s"
  shows "\<exists>p r sw r' i. executed_transition P s c p r sw r' \<and>
    prepared_issue_target p = Some i \<and> hm_get (issues s) i = Some r \<and>
    executed_as P (world s) c i (transition_code (prepared_operation p)) r' out \<and>
    committed (Some (prepared_id p)) (execute_context c) (execute_identity (execute_approval c)) out s t"
  using approve_fresh [OF assms] by (rule execute_fresh_ok)

theorem transition_requires_current_approval_witness:
  "\<exists>p r sw r'. executed_transition example_ports example_prepared (example_approve ''pii'' ''k-approve'') p r sw r'"
  using transition_requires_current_approval [OF example_approved example_unused] by blast

fun entered_role :: "IssueState \<Rightarrow> EvidenceRole" where
  "entered_role IssueState.Resolved = EvidenceRole.IssueResolution"
| "entered_role IssueState.Closed = EvidenceRole.IssueClosureVerification"
| "entered_role IssueState.Open = EvidenceRole.IssueFailedVerification"

definition legal_edge :: "IssueState \<Rightarrow> IssueState \<Rightarrow> bool" where
  "legal_edge a b \<longleftrightarrow>
     (a, b) \<in> {(IssueState.Open, IssueState.Resolved), (IssueState.Resolved, IssueState.Closed),
               (IssueState.Resolved, IssueState.Open)}"

lemma executed_transition_evidence:
  assumes "executed_transition P s c p r sw r'"
  shows "legal_edge (issue_state r) (issue_state r') \<and>
    AggregateVersion_next (issue_version r) = Some (issue_version r') \<and>
    support_history r' = support_history r @ [sw] \<and>
    evidence_supports P (world s) (map meta_id (support_evidence sw)) (support_judgments sw)
      (entered_role (issue_state r')) sw \<and>
    (issue_state r' = IssueState.Closed \<longrightarrow>
       closure_verification_evidence r' = map meta_id (support_evidence sw) \<and>
       resolution_evidence r' = resolution_evidence r \<and>
       set (closure_verification_evidence r') \<inter> set (resolution_evidence r') = {})"
proof -
  from assms obtain i required next_state v' where
    tr: "transition (prepared_operation p) = Some (i, issue_version r, required, next_state)"
      "issue_state r = required"
    and v': "AggregateVersion_next (issue_version r) = Some v'"
    and r': "r' = transitioned (prepared_operation p) (map meta_id (support_evidence sw))
          (supported_version v' (preview_classification (prepared_preview p)) sw r)"
    unfolding executed_transition_def by (elim conjE exE) (rule that)
  have evidence: "evidence_supports P (world s) (map meta_id (support_evidence sw))
      (support_judgments sw) (required_role (prepared_operation p)) sw"
    using assms unfolding executed_transition_def by (elim conjE)
  have disjoint: "is_close (prepared_operation p) \<longrightarrow>
        set (map meta_id (support_evidence sw)) \<inter> set (resolution_evidence r) = {}"
    using assms unfolding executed_transition_def by (elim conjE)
  show ?thesis
    using tr v' evidence disjoint unfolding transition_Some_cases r'
    by (elim disjE exE conjE)
      (simp_all add: supported_version_def required_role_def is_close_def legal_edge_def)
qed

lemma executed_identity:
  assumes "issue_inv s" and "executed_transition P s c p r sw r'" and "hm_get (issues s) i = Some r"
  shows "issue_id r' = i"
  using executed_transition_evolves [OF assms(2)] assms(1,3) by (auto simp: evolves_def issue_inv_def)

text \<open>
  C4. The Evidence of a transition: when a resolution, closure or reopening is executed, it
  goes along a legal edge (open to resolved, resolved to closed, resolved to open), advances the
  version by one, and appends one support with at least one piece of Evidence; each piece is what
  the Evidence authority returns at that moment for its identity, has the role that entering that
  state demands, and is neither unverified nor mismatched; unless all of it is verified, a written
  Judgment is part of the support; and the Evidence that closes an Issue is disjoint from the
  Evidence that resolved it.
\<close>

theorem transition_requires_evidence:
  assumes "approve_and_execute P c s = (Inr out, t)" and "unused (execute_context c) s"
    and "issue_inv s"
  shows "\<exists>r sw. hm_get (issues s) (issue_id (outcome_record out)) = Some r \<and>
      hm_get (issues t) (issue_id (outcome_record out)) = Some (outcome_record out) \<and>
      legal_edge (issue_state r) (issue_state (outcome_record out)) \<and>
      AggregateVersion_next (issue_version r) = Some (issue_version (outcome_record out)) \<and>
      support_history (outcome_record out) = support_history r @ [sw] \<and>
      support_evidence sw \<noteq> [] \<and>
      list_all (\<lambda>m. resolve_evidence P (world s) (meta_id m) = Inr m \<and>
        meta_role m = entered_role (issue_state (outcome_record out)) \<and>
        \<not> refuses (meta_verification m)) (support_evidence sw) \<and>
      (list_all (\<lambda>m. verified (meta_verification m)) (support_evidence sw) \<or>
        support_judgments sw \<noteq> []) \<and>
      (issue_state (outcome_record out) = IssueState.Closed \<longrightarrow>
        set (closure_verification_evidence (outcome_record out)) \<inter>
          set (resolution_evidence (outcome_record out)) = {})"
proof -
  from execute_fresh_ok [OF approve_fresh [OF assms(1,2)]] obtain p r sw r' i where
    ex: "executed_transition P s c p r sw r'" and r: "hm_get (issues s) i = Some r"
    and as: "executed_as P (world s) c i (transition_code (prepared_operation p)) r' out"
    and commit: "committed (Some (prepared_id p)) (execute_context c) (execute_identity (execute_approval c)) out s t"
    by blast
  note out = executed_out [OF as]
  have "issue_id r' = i" using assms(3) ex r by (rule executed_identity)
  then show ?thesis
    using executed_transition_evidence [OF ex] r committed_get [OF commit] out
    by (intro exI [of _ r] exI [of _ sw])
      (simp add: evidence_supports_def split: if_splits; metis list.set_map)
qed

theorem transition_requires_evidence_witness:
  "\<exists>out (r :: IssueRecord) (sw :: SupportWitness). fst (approve_and_execute example_ports (example_approve ''pii'' ''k-approve'') example_prepared) = Inr out \<and>
     issue_state (outcome_record out) = IssueState.Resolved \<and>
     support_history (outcome_record out) = support_history r @ [sw] \<and> support_evidence sw \<noteq> []"
proof -
  let ?x = "fst (approve_and_execute example_ports (example_approve ''pii'' ''k-approve'') example_prepared)"
  have "issue_state (outcome_record (projr ?x)) = IssueState.Resolved" by code_simp
  moreover have "?x = Inr (projr ?x)" by (subst example_approved) simp
  ultimately show ?thesis
    using transition_requires_evidence [OF example_approved example_unused example_prepared_inv]
    by blast
qed

section \<open>Retries, single use and rejection\<close>

lemma committed_idem:
  "committed q c sig out s t \<Longrightarrow> hm_get (idem t) (idempotency_id c) = Some (sig, Mutation out)"
  by (simp add: committed_def)

lemma approve_ok_recorded:
  assumes "approve_and_execute P c s = (Inr out, t)"
  shows "approval_idempotency_id (execute_approval c) = idempotency_id (execute_context c) \<and>
    hm_get (idem t) (idempotency_id (execute_context c)) =
      Some (execute_identity (execute_approval c), Mutation out)"
proof -
  have "hm_get (idem t) (idempotency_id (execute_context c)) =
      Some (execute_identity (execute_approval c), Mutation out)" if "execute_fresh P c s = (Inr out, t)"
    using execute_fresh_ok [OF that] committed_idem by blast
  with approve_ok_cases [OF assms] show ?thesis by blast
qed

lemma create_ok_recorded:
  assumes "create_issue P c s = (Inr out, t)"
  shows "hm_get (idem t) (idempotency_id (create_context c)) = Some (create_identity c, Mutation out)"
proof -
  from assms obtain x where x: "replay (create_context c) (create_identity c) s = Inr x"
    and run: "(case x of Some (Mutation v) \<Rightarrow> ret v
      | _ \<Rightarrow> ebind (create_fresh P c) (\<lambda>(record, audit). commit_mutation None (create_context c)
          (create_identity c) \<lparr>outcome_record = record, outcome_audit_events = [audit],
             outcome_receipt_id = None\<rparr> audit)) s = (Inr out, t)"
    by (auto simp: create_issue_def ebind_ok)
  show ?thesis
  proof (cases "\<exists>v. x = Some (Mutation v)")
    case True
    with x run show ?thesis by (auto simp: replay_def ret_def split: option.splits if_splits)
  next
    case False
    with run have "ebind (create_fresh P c) (\<lambda>(record, audit). commit_mutation None (create_context c)
          (create_identity c) \<lparr>outcome_record = record, outcome_audit_events = [audit],
             outcome_receipt_id = None\<rparr> audit) s = (Inr out, t)"
      by (auto split: option.splits Stored.splits)
    then show ?thesis by (auto simp: ebind_ok commit_mutation_def)
  qed
qed

lemma reject_ok_recorded:
  assumes "reject_issue_prepared_intent P c s = (Inr out, t)"
  shows "hm_get (idem t) (idempotency_id (reject_context c)) =
    Some (RejectPrepared (reject_prepared_id c) (reject_actor c), Rejected out)"
proof -
  from assms obtain x where
    x: "replay (reject_context c) (RejectPrepared (reject_prepared_id c) (reject_actor c)) s = Inr x"
    and run: "(case x of Some (Rejected out) \<Rightarrow> ret out
      | Some _ \<Rightarrow> throw (issue_error DomainIdempotencyConflict ''issue.idempotency_conflict'' (reject_context c) False)
      | None \<Rightarrow> ebind (reject_fresh P c) (commit_rejection c)) s = (Inr out, t)"
    by (auto simp: reject_issue_prepared_intent_def ebind_ok)
  from x run show ?thesis
    by (auto simp: replay_def ret_def throw_def ebind_ok commit_rejection_def
        split: option.splits if_splits Stored.splits)
qed

lemma recorded_rejection_replays:
  "hm_get (idem s) (idempotency_id (reject_context c)) =
     Some (RejectPrepared (reject_prepared_id c) (reject_actor c), Rejected out) \<Longrightarrow>
     reject_issue_prepared_intent P c s = (Inr out, s)"
  by (simp add: reject_issue_prepared_intent_def ebind_run replay_def ret_def)

lemma approve_lower_ok_cases:
  assumes "approve_and_execute_lower_issue_classification P c s = (Inr out, t)"
  shows "approval_idempotency_id (execute_approval c) = idempotency_id (execute_context c) \<and>
    (t = s \<and> hm_get (idem s) (idempotency_id (execute_context c)) =
        Some (execute_identity (execute_approval c), Mutation out) \<or>
     execute_lower_fresh P c s = (Inr out, t))"
  using execute_with_cases [OF assms [unfolded approve_and_execute_lower_issue_classification_def
      audited_execution_ok execute_lower_issue_classification_def]]
  by (auto simp: replay_def split: option.splits if_splits)

lemma approve_lower_ok_recorded:
  assumes "approve_and_execute_lower_issue_classification P c s = (Inr out, t)"
  shows "approval_idempotency_id (execute_approval c) = idempotency_id (execute_context c) \<and>
    hm_get (idem t) (idempotency_id (execute_context c)) =
      Some (execute_identity (execute_approval c), Mutation out)"
proof -
  have "hm_get (idem t) (idempotency_id (execute_context c)) =
      Some (execute_identity (execute_approval c), Mutation out)" if "execute_lower_fresh P c s = (Inr out, t)"
    using execute_lower_fresh_ok [OF that] committed_idem by blast
  with approve_lower_ok_cases [OF assms] show ?thesis by blast
qed

lemma recorded_lower_replays:
  assumes "hm_get (idem s) (idempotency_id (execute_context c)) =
      Some (execute_identity (execute_approval c), Mutation out)"
    and "approval_idempotency_id (execute_approval c) = idempotency_id (execute_context c)"
  shows "approve_and_execute_lower_issue_classification P c s = (Inr out, s)"
  using assms
  by (simp add: approve_and_execute_lower_issue_classification_def audited_execution_ok
    execute_lower_issue_classification_def execute_with_def ebind_run replay_def ret_def)

text \<open>The methods named after an operation: they run the generic one once the preview is theirs.\<close>

definition named_approvals ::
  "'w issue_ports \<Rightarrow> (ApproveAndExecute \<Rightarrow> ('w, IssueMutationOutcome) issue_method) set" where
  "named_approvals P = {approve_and_execute_resolve P, approve_and_execute_close P, approve_and_execute_reopen P}"

lemma named_approval_ok:
  "m \<in> named_approvals P \<Longrightarrow> m c s = (Inr out, t) \<Longrightarrow> approve_and_execute P c s = (Inr out, t)"
  by (auto simp: named_approvals_def approve_and_execute_resolve_def approve_and_execute_close_def
      approve_and_execute_reopen_def ensure_prepared_operation_def ebind_ok)

lemma named_approval_gone:
  "m \<in> named_approvals P \<Longrightarrow> hm_get (prepared s) (approval_prepared_id (execute_approval c)) = None \<Longrightarrow>
     m c s = (Inl (issue_error DomainConflict ''issue.prepared_operation_mismatch'' (execute_context c) False), s)"
  by (auto simp: named_approvals_def approve_and_execute_resolve_def approve_and_execute_close_def
      approve_and_execute_reopen_def ensure_prepared_operation_def ebind_run)

lemma recorded_create_replays:
  "hm_get (idem s) (idempotency_id (create_context c)) = Some (create_identity c, Mutation out) \<Longrightarrow>
     create_issue P c s = (Inr out, s)"
  by (simp add: create_issue_def ebind_run replay_def ret_def)

lemma recorded_approval_replays:
  assumes "hm_get (idem s) (idempotency_id (execute_context c)) =
      Some (execute_identity (execute_approval c), Mutation out)"
    and "approval_idempotency_id (execute_approval c) = idempotency_id (execute_context c)"
  shows "approve_and_execute P c s = (Inr out, s)"
  using assms
  by (simp add: approve_and_execute_def audited_execution_ok execute_def execute_with_def ebind_run
    replay_def ret_def)

lemma later_keeps_recorded:
  "issue_inv s \<Longrightarrow> hm_get (idem s) k = Some (sig, v) \<Longrightarrow> permanent v \<Longrightarrow>
     hm_get (idem (fold (issue_step P) cmds s)) k = Some (sig, v)"
  using issue_machine.later_run unfolding issue_later_def by blast

lemma executed_preview_gone:
  assumes "issue_inv s" and "approve_and_execute P c s = (Inr out, t)" and "unused (execute_context c) s"
  shows "hm_get (prepared t) (approval_prepared_id (execute_approval c)) = None"
proof -
  from execute_fresh_ok [OF approve_fresh [OF assms(2,3)]] obtain p r sw r' where
    ex: "executed_transition P s c p r sw r'"
    and commit: "committed (Some (prepared_id p)) (execute_context c) (execute_identity (execute_approval c)) out s t"
    by blast
  have "prepared_id p = approval_prepared_id (execute_approval c)"
    using ex unfolding executed_transition_def approved_def by (elim conjE) simp
  with commit assms(1) show ?thesis
    by (simp add: committed_def issue_inv_def)
qed

text \<open>
  C26. What a retry answers, after any further commands and any change of the environment: a
  creation, an approval through the generic method, an approval of a lowering and a rejection, sent
  again after they succeeded, return the outcome they returned then and change nothing. An approval
  through a method named after the operation is different: sent again right after it was executed, it
  is refused as a mismatch, because the method looks for the stored preview, which the execution
  consumed, before it looks for the recorded outcome; the generic method answers it with the outcome
  then and at any later time.
\<close>

theorem retries_return_the_original_outcome:
  assumes "issue_inv s" and "u = fold (issue_step P) cmds t"
  shows "(create_issue P c s = (Inr out, t) \<longrightarrow> create_issue P c u = (Inr out, u)) \<and>
    (approve_and_execute P a s = (Inr out, t) \<longrightarrow> approve_and_execute P a u = (Inr out, u)) \<and>
    (approve_and_execute_lower_issue_classification P a s = (Inr out, t) \<longrightarrow>
      approve_and_execute_lower_issue_classification P a u = (Inr out, u)) \<and>
    (reject_issue_prepared_intent P x s = (Inr rejected, t) \<longrightarrow>
      reject_issue_prepared_intent P x u = (Inr rejected, u)) \<and>
    (\<forall>m \<in> named_approvals P. m a s = (Inr out, t) \<longrightarrow> unused (execute_context a) s \<longrightarrow>
      m a t = (Inl (issue_error DomainConflict ''issue.prepared_operation_mismatch'' (execute_context a) False), t) \<and>
      approve_and_execute P a u = (Inr out, u))"
proof -
  have kept: "hm_get (idem u) k = Some (sig, v)"
    if "issue_event P s t" "hm_get (idem t) k = Some (sig, v)" "permanent v" for k sig v
    using later_keeps_recorded [OF issue_event_inv [OF that(1) assms(1)] that(2,3)] assms(2) by simp
  have approve: "approve_and_execute P a u = (Inr out, u)" if "approve_and_execute P a s = (Inr out, t)"
    using approve_ok_recorded [OF that] kept [OF approve_and_execute_event [OF assms(1) that]]
    by (intro recorded_approval_replays) simp_all
  have "create_issue P c u = (Inr out, u)" if "create_issue P c s = (Inr out, t)"
    using create_ok_recorded [OF that] kept [OF create_issue_event [OF assms(1) that]]
    by (intro recorded_create_replays) simp
  moreover have "approve_and_execute_lower_issue_classification P a u = (Inr out, u)"
    if "approve_and_execute_lower_issue_classification P a s = (Inr out, t)"
    using approve_lower_ok_recorded [OF that] kept [OF approve_lower_event [OF assms(1) that]]
    by (intro recorded_lower_replays) simp_all
  moreover have "reject_issue_prepared_intent P x u = (Inr rejected, u)"
    if "reject_issue_prepared_intent P x s = (Inr rejected, t)"
    using reject_ok_recorded [OF that] kept [OF reject_event [OF assms(1) that]]
    by (intro recorded_rejection_replays) simp
  moreover have "m a t = (Inl (issue_error DomainConflict ''issue.prepared_operation_mismatch''
      (execute_context a) False), t) \<and> approve_and_execute P a u = (Inr out, u)"
    if m: "m \<in> named_approvals P" "m a s = (Inr out, t)" "unused (execute_context a) s" for m
    using named_approval_gone [OF m(1) executed_preview_gone [OF assms(1) named_approval_ok [OF m(1,2)] m(3)]]
      approve [OF named_approval_ok [OF m(1,2)]] by blast
  ultimately show ?thesis using approve by blast
qed

theorem retries_return_the_original_outcome_witness:
  "\<exists>out. approve_and_execute example_ports (example_approve ''pii'' ''k-approve'')
     (fold (issue_step example_ports) [Environment 0, Create_Issue example_create] example_resolved) =
     (Inr out, fold (issue_step example_ports) [Environment 0, Create_Issue example_create] example_resolved)"
  using retries_return_the_original_outcome [OF example_prepared_inv refl] example_approved by blast

lemma audited_failure_effectless:
  assumes "audited_execution P (execute_with fresh) c s = (Inl e, t)"
    and "\<And>f s1. fresh c s = (Inl f, s1) \<Longrightarrow> unaudited s s1"
  shows "effectless s t"
proof -
  from audited_execution_err [OF assms(1)] obtain f s1 where
    f: "execute_with fresh c s = (Inl f, s1)" and same: "issues t = issues s1" "prepared t = prepared s1"
      "idem t = idem s1" and log: "audits t = audits s1 \<or> (\<exists>a. audits t = audits s1 @ [a] \<and> no_effect a)"
    by blast
  have "unaudited s s1" using execute_with_cases [OF f] assms(2) by (auto intro: unaudited.refl)
  with same log show ?thesis by (auto simp: effectless_def unaudited_def)
qed

lemma approve_err_effectless: "approve_and_execute P c s = (Inl e, t) \<Longrightarrow> effectless s t"
  unfolding approve_and_execute_def execute_def
  by (erule audited_failure_effectless) (rule execute_fresh_err)

lemma approve_lower_err_effectless:
  "approve_and_execute_lower_issue_classification P c s = (Inl e, t) \<Longrightarrow> effectless s t"
  unfolding approve_and_execute_lower_issue_classification_def execute_lower_issue_classification_def
  by (erule audited_failure_effectless) (rule execute_lower_fresh_err)

text \<open>Every way of approving.\<close>

definition approvals ::
  "'w issue_ports \<Rightarrow> (ApproveAndExecute \<Rightarrow> ('w, IssueMutationOutcome) issue_method) set" where
  "approvals P = {approve_and_execute P, approve_and_execute_lower_issue_classification P} \<union> named_approvals P"

text \<open>
  Approving a preview that is not stored does nothing; at most it is answered with the outcome
  recorded for the same approval.
\<close>

lemma approval_gone:
  assumes "m \<in> approvals P" and gone: "hm_get (prepared u) (approval_prepared_id (execute_approval a)) = None"
  shows "effectless u (snd (m a u)) \<and> (unused (execute_context a) u \<longrightarrow> \<not> is_ok (fst (m a u)))"
proof -
  have fresh: "execute_fresh P a u = (Inl Failure.Changed, u)"
    using gone by (simp add: execute_fresh_def ebind_run)
  have lower: "execute_lower_fresh P a u = (Inl Failure.Changed, u)"
    using gone by (simp add: execute_lower_fresh_def ebind_run)
  from assms(1) consider "m = approve_and_execute P" | "m = approve_and_execute_lower_issue_classification P"
    | "m \<in> named_approvals P" by (auto simp: approvals_def)
  then show ?thesis
  proof cases
    case 1
    then show ?thesis
      using approve_ok_cases [of P a u] approve_err_effectless [of P a u] fresh
      by (cases "approve_and_execute P a u"; cases "fst (approve_and_execute P a u)")
        (auto simp: unused_def intro: effectless.refl)
  next
    case 2
    then show ?thesis
      using approve_lower_ok_cases [of P a u] approve_lower_err_effectless [of P a u] lower
      by (cases "approve_and_execute_lower_issue_classification P a u";
          cases "fst (approve_and_execute_lower_issue_classification P a u)")
        (auto simp: unused_def intro: effectless.refl)
  next
    case 3
    then show ?thesis using named_approval_gone [OF 3 gone] by (simp add: effectless.refl)
  qed
qed



lemma reject_ok_cases:
  assumes "reject_issue_prepared_intent P c s = (Inr out, t)" and "unused (reject_context c) s"
  shows "\<exists>s1. reject_fresh P c s = (Inr out, s1) \<and> t = snd (commit_rejection c out s1)"
  using assms
  by (auto simp: reject_issue_prepared_intent_def ebind_run replay_unused ebind_ok commit_rejection_def)

text \<open>A preview that is gone stays gone while the source hands its identity out to no preparation.\<close>

lemma event_keeps_gone:
  assumes "issue_event P s t" and "issue_inv s" and "hm_get (prepared s) i = None"
    and "fst (next_prepared_intent_id P (world s)) \<noteq> Inr i"
  shows "hm_get (prepared t) i = None"
  using assms(1)
proof cases
  case (created c r a)
  with assms(3) committed_prepared [OF assms(2) created(4), of i] show ?thesis
    by (cases "hm_get (prepared t) i") auto
next
  case (transitioned c p r sw r' j out)
  with assms(3) committed_prepared [OF assms(2) transitioned(6), of i] show ?thesis
    by (cases "hm_get (prepared t) i") auto
next
  case (lowered c p r r' j out)
  with assms(3) committed_prepared [OF assms(2) lowered(6), of i] show ?thesis
    by (cases "hm_get (prepared t) i") auto
qed (use assms(2-4) in \<open>auto simp: effectless_def preview_binds_def issue_inv_def\<close>)

lemma run_keeps_gone:
  assumes "issue_inv s" and "hm_get (prepared s) i = None"
    and "\<And>n. n < length cmds \<Longrightarrow>
      fst (next_prepared_intent_id P (world (fold (issue_step P) (take n cmds) s))) \<noteq> Inr i"
  shows "hm_get (prepared (fold (issue_step P) cmds s)) i = None"
  using assms
proof (induction cmds arbitrary: s)
  case (Cons c cs)
  have "hm_get (prepared (issue_step P c s)) i = None"
    using Cons.prems(3) [of 0] by (intro event_keeps_gone [OF issue_step_event] Cons.prems) simp
  moreover have "fst (next_prepared_intent_id P (world (fold (issue_step P) (take n cs) (issue_step P c s)))) \<noteq> Inr i"
    if "n < length cs" for n using Cons.prems(3) [of "Suc n"] that by simp
  ultimately show ?case
    using Cons.IH [of "issue_step P c s"] issue_machine.inv_step [OF Cons.prems(1)] by simp
qed simp

text \<open>
  C27. Rejection: it is accepted only from the authorized Head of Products for a stored
  preview of a resolution, closure or reopening, expired or not, and says which it was. It
  consumes the preview, records one audit of a rejected, unattempted operation without effects,
  and changes no Issue. It is final: whatever commands follow and however the environment changes,
  as long as the identity source does not hand out the rejected identity again, no way of approving
  that preview has any effect, and under an unused idempotency identity every one is refused.
\<close>

theorem rejection_is_final_and_effectless:
  assumes "issue_inv s" and "reject_issue_prepared_intent P c s = (Inr out, t)"
    and "unused (reject_context c) s"
    and "\<And>n. n < length cmds \<Longrightarrow>
      fst (next_prepared_intent_id P (world (fold (issue_step P) (take n cmds) t))) \<noteq> Inr (reject_prepared_id c)"
    and "u = fold (issue_step P) cmds t"
    and "approval_prepared_id (execute_approval a) = reject_prepared_id c"
    and "m \<in> approvals P"
  shows "(\<exists>p. rejected_with P s c p out \<and> prepared_id p = reject_prepared_id c) \<and> issues t = issues s \<and>
    hm_get (prepared t) (reject_prepared_id c) = None \<and>
    audits t = audits s @ [rejected_audit_event out] \<and>
    effectless u (snd (m a u)) \<and> (unused (execute_context a) u \<longrightarrow> \<not> is_ok (fst (m a u)))"
proof -
  from reject_ok_cases [OF assms(2,3)] obtain s1 where
    fresh: "reject_fresh P c s = (Inr out, s1)" and t: "t = snd (commit_rejection c out s1)" by blast
  from reject_fresh_ok [OF fresh] obtain p where p: "rejected_with P s c p out" and same: "unaudited s s1"
    by blast
  have pid: "prepared_id p = reject_prepared_id c"
    using p assms(1) by (auto simp: rejected_with_def issue_inv_def)
  have after: "issues t = issues s" "hm_get (prepared t) (reject_prepared_id c) = None"
    "audits t = audits s @ [rejected_audit_event out]"
    using t same assms(1) by (simp_all add: commit_rejection_def unaudited_def issue_inv_def)
  have "issue_inv t" using reject_event [OF assms(1,2)] assms(1) by (rule issue_event_inv)
  from run_keeps_gone [OF this after(2) assms(4)] have "hm_get (prepared u) (reject_prepared_id c) = None"
    by (simp add: assms(5))
  with approval_gone [OF assms(7), of u a] assms(6) after p pid show ?thesis by auto
qed

definition example_reject :: RejectIssuePreparedIntent where
  "example_reject = \<lparr>reject_prepared_id = ''pii'', reject_actor = AuditActor.HeadOfProducts,
     reject_context = example_context ''k-reject''\<rparr>"

theorem rejection_is_final_and_effectless_witness:
  "\<not> is_ok (fst (approve_and_execute_resolve example_ports (example_approve ''pii'' ''k-approve'')
     (fold (issue_step example_ports) [Environment 7, Inject_Commit_Failure]
       (snd (reject_issue_prepared_intent example_ports example_reject example_prepared)))))"
proof -
  let ?x = "reject_issue_prepared_intent example_ports example_reject example_prepared"
  let ?cmds = "[Environment 7, Inject_Commit_Failure]"
  have ok: "is_ok (fst ?x) \<and> world (snd ?x) \<noteq> 2 \<and>
      unused (reject_context example_reject) example_prepared \<and>
      unused (execute_context (example_approve ''pii'' ''k-approve''))
        (fold (issue_step example_ports) ?cmds (snd ?x))" by code_simp
  have source: "fst (next_prepared_intent_id example_ports w) = Inr ''pii'' \<longleftrightarrow> w = 2" for w
  proof -
    have "replicate w CHR ''i'' = ''ii'' \<longleftrightarrow> w = 2"
      by (metis length_replicate One_nat_def Suc_1 length_Cons list.size(3) replicate.simps)
    then show ?thesis by (simp add: example_ports_def)
  qed
  have fresh: "fst (next_prepared_intent_id example_ports
      (world (fold (issue_step example_ports) (take n ?cmds) (snd ?x)))) \<noteq> Inr (reject_prepared_id example_reject)"
    if "n < length ?cmds" for n
    using that ok by (cases n) (simp_all add: source example_reject_def)
  have "approve_and_execute_resolve example_ports \<in> approvals example_ports"
    by (simp add: approvals_def named_approvals_def)
  from rejection_is_final_and_effectless [OF example_prepared_inv ok_collapse [OF ok [THEN conjunct1]] _ fresh refl _ this]
  show ?thesis using ok by (simp add: example_approve_def example_reject_def)
qed

section \<open>Classification\<close>

lemma executed_transition_class:
  assumes "executed_transition P s c p r sw r'"
  shows "issue_classification r \<le> issue_classification r'"
proof -
  from assms obtain i required next_state v' a where
    tr: "transition (prepared_operation p) = Some (i, issue_version r, required, next_state)"
    and cls: "preview_classification (prepared_preview p) =
      intent_classification (prepared_operation p) (combine (issue_classification r) a) (Some sw)"
    and r': "r' = transitioned (prepared_operation p) (map meta_id (support_evidence sw))
          (supported_version v' (preview_classification (prepared_preview p)) sw r)"
    unfolding executed_transition_def by (elim conjE exE) (rule that)
  have "combine (issue_classification r) a \<le> preview_classification (prepared_preview p)"
    unfolding cls intent_classification_def by (rule Max_ge) (auto simp: intent_sources_def)
  then have "issue_classification r \<le> preview_classification (prepared_preview p)"
    using combine_upper(1) order_trans by blast
  moreover have "issue_classification r' = preview_classification (prepared_preview p)"
    using tr unfolding transition_Some_cases r' by (elim disjE exE conjE) (simp_all add: supported_version_def)
  ultimately show ?thesis by simp
qed

text \<open>Every command but the approval of a lowering.\<close>

definition same_issues :: "'w issue_service \<Rightarrow> 'w issue_service \<Rightarrow> bool" where
  "same_issues s t \<longleftrightarrow> issues t = issues s"

interpretation same_issues: frame same_issues
  by unfold_locales (simp_all add: same_issues_def)

lemma effectless_same_issues: "effectless s t \<Longrightarrow> same_issues s t"
  by (simp add: effectless_def same_issues_def)

lemma store_prepared_same_issues: "keeps same_issues (store_prepared c sig p)"
  by (simp add: keeps_def store_prepared_def same_issues_def)

lemma replay_then_store_same_issues:
  assumes "keeps same_issues m"
  shows "keeps same_issues (ebind (reads (replay c sig)) (\<lambda>stored.
    case stored of Some (Prepared v) \<Rightarrow> ret v | _ \<Rightarrow> ebind m (store_prepared c sig)))"
  using assms
  by (auto intro!: same_issues.keeps_ebind same_issues.keeps_pure store_prepared_same_issues
      split: option.splits Stored.splits)

lemma prepare_transition_same_issues:
  "transition op \<noteq> None \<Longrightarrow> keeps same_issues (prepare_transition P op ids j c)"
  unfolding prepare_transition_def
  by (rule replay_then_store_same_issues)
    (rule keeps_mono [OF keeps_prepare_fresh effectless_same_issues])

lemma prepare_lower_same_issues: "keeps same_issues (prepare_lower_issue_classification P c)"
  unfolding prepare_lower_issue_classification_def Let_def
  by (rule replay_then_store_same_issues)
    (rule keeps_mono [OF keeps_prepare_lower_fresh effectless_same_issues [OF unaudited_effectless]])

lemma reject_same_issues: "keeps same_issues (reject_issue_prepared_intent P c)"
proof -
  have "keeps same_issues (commit_rejection c out)" for out
    by (simp add: keeps_def commit_rejection_def same_issues_def)
  moreover have "keeps same_issues (reject_fresh P c)"
    by (rule keeps_mono [OF keeps_reject_fresh effectless_same_issues [OF unaudited_effectless]])
  ultimately show ?thesis
    unfolding reject_issue_prepared_intent_def
    by (auto intro!: same_issues.keeps_ebind same_issues.keeps_pure split: option.splits Stored.splits)
qed

lemma other_same_issues:
  "same_issues s (s\<lparr>world := w\<rparr>)" "same_issues s (inject_next_commit_failure s)"
  "same_issues s (snd (discard_prepared_intent i s))"
  by (simp_all add: same_issues_def inject_next_commit_failure_def discard_prepared_intent_def Let_def)

lemma create_keeps_issues:
  assumes "create_issue P c s = (q, t)" and "hm_get (issues s) i = Some r"
  shows "hm_get (issues t) i = Some r"
proof -
  have "hm_get (issues u) i = Some r"
    if run: "ebind (create_fresh P c) (\<lambda>(record, audit). commit_mutation None (create_context c)
        (create_identity c) \<lparr>outcome_record = record, outcome_audit_events = [audit],
           outcome_receipt_id = None\<rparr> audit) s = (q, u)" for u
  proof (cases "create_fresh P c s")
    case (Pair x s1)
    show ?thesis
    proof (cases x)
      case (Inl e)
      with Pair run keepsD [OF keeps_create_fresh Pair] assms(2) show ?thesis
        by (auto simp: ebind_def unaudited_def)
    next
      case (Inr y)
      obtain rr audit where y: "y = (rr, audit)" by (cases y)
      note ok = create_fresh_ok [OF Pair [unfolded Inr y]]
      have "issue_id rr \<noteq> i"
        using ok created_well_formed [of P s c rr] assms(2) by (auto simp: created_from_def)
      with Pair Inr y run ok assms(2) show ?thesis
        by (auto simp: ebind_def commit_mutation_def unaudited_def)
    qed
  qed
  with assms show ?thesis
    by (cases "replay (create_context c) (create_identity c) s")
      (auto simp: create_issue_def ebind_run ret_def split: option.splits Stored.splits)
qed

lemma approve_never_lowers:
  assumes "issue_inv s" and "approve_and_execute P c s = (q, t)"
    and "hm_get (issues s) i = Some r" and "hm_get (issues t) i = Some r'"
  shows "issue_classification r \<le> issue_classification r'"
proof (cases q)
  case (Inl e)
  with approve_err_effectless [of P c s e t] assms show ?thesis by (simp add: effectless_def)
next
  case (Inr out)
  from approve_ok_cases [OF assms(2) [unfolded Inr]] consider "t = s" | "execute_fresh P c s = (Inr out, t)" by blast
  then show ?thesis
  proof cases
    case 2
    from execute_fresh_ok [OF this] obtain p r0 sw r1 j where
      ex: "executed_transition P s c p r0 sw r1" and r0: "hm_get (issues s) j = Some r0"
      and as: "executed_as P (world s) c j (transition_code (prepared_operation p)) r1 out"
      and commit: "committed (Some (prepared_id p)) (execute_context c) (execute_identity (execute_approval c)) out s t"
      by blast
    have "issue_id r1 = j" using assms(1) ex r0 by (rule executed_identity)
    with assms(3,4) committed_get [OF commit] executed_out [OF as] r0 executed_transition_class [OF ex]
    show ?thesis by (auto split: if_splits)
  qed (use assms(3,4) in simp)
qed

lemma other_commands_never_lower:
  assumes inv: "issue_inv s" and other: "\<nexists>c. cmd = Approve_Lower c"
    and r: "hm_get (issues s) i = Some r" and r': "hm_get (issues (issue_step P cmd s)) i = Some r'"
  shows "issue_classification r \<le> issue_classification r'"
proof -
  have same: ?thesis if "same_issues s (issue_step P cmd s)"
    using that r r' by (simp add: same_issues_def)
  have kept: "same_issues s (snd (n s))" if "keeps same_issues n"
    for n :: "'a issue_service \<Rightarrow> (DomainError + 'c) \<times> 'a issue_service"
    using that by (cases "n s") (auto dest: keepsD)
  have approved: ?thesis
    if "m \<in> insert (approve_and_execute P) (named_approvals P)" "issue_step P cmd s = snd (m c s)" for m c
  proof -
    from that(1) have "snd (m c s) = s \<or> snd (m c s) = snd (approve_and_execute P c s)"
      by (auto simp: named_approvals_def approve_and_execute_resolve_def approve_and_execute_close_def
          approve_and_execute_reopen_def ensure_prepared_operation_def ebind_run split: if_splits)
    with that(2) approve_never_lowers [OF inv prod.collapse [symmetric] r] r r'
    show ?thesis by auto
  qed
  show ?thesis
  proof (cases cmd)
    case (Create_Issue c)
    with create_keeps_issues [of P c s "fst (create_issue P c s)"] r r' show ?thesis by simp
  next
    case (Approve c) then show ?thesis by (intro approved) auto
  next
    case (Approve_Resolve c) then show ?thesis by (intro approved) (auto simp: named_approvals_def)
  next
    case (Approve_Close c) then show ?thesis by (intro approved) (auto simp: named_approvals_def)
  next
    case (Approve_Reopen c) then show ?thesis by (intro approved) (auto simp: named_approvals_def)
  qed (use other in \<open>auto intro!: same kept prepare_transition_same_issues prepare_lower_same_issues
      reject_same_issues other_same_issues simp: prepare_resolve_issue_def prepare_close_issue_def
      prepare_reopen_issue_def transition_def\<close>)
qed

text \<open>
  C5. Only an approved lowering lowers: if any command leaves an Issue with a less
  restrictive classification than it had, then it is the approval of a lowering, and the approval it
  carries names a stored lowering preview of exactly that Issue and version, acknowledges that
  preview's digest before it expires, is given by the authorized Head of Products and allowed by
  policy; the preview's current classification is the one the authority reports, combined with the
  stored one, at that moment, and the new classification is the proposed one; nothing else of the
  Issue changed but its version. The preview is consumed, one audit of an approved and succeeded
  lowering of this Issue is appended, and the outcome is recorded under this approval.
\<close>

theorem only_lowering_lowers:
  assumes "issue_inv s" and "hm_get (issues s) i = Some r"
    and "hm_get (issues (issue_step P cmd s)) i = Some r'"
    and "issue_classification r' < issue_classification r"
  shows "\<exists>c p out. cmd = Approve_Lower c \<and> executed_lowering P s c p r r' \<and>
    prepared_issue_target p = Some i \<and>
    executed_as P (world s) c i ''issue.classification_lowered'' r' out \<and>
    committed (Some (prepared_id p)) (execute_context c) (execute_identity (execute_approval c)) out s
      (issue_step P cmd s)"
proof -
  from other_commands_never_lower [OF assms(1) _ assms(2,3)] assms(4) obtain c where
    c: "cmd = Approve_Lower c" by (meson leD)
  obtain q t where run: "approve_and_execute_lower_issue_classification P c s = (q, t)"
    by (cases "approve_and_execute_lower_issue_classification P c s")
  with c have t: "issue_step P cmd s = t" by simp
  have changed: "issues t \<noteq> issues s" using assms(2-4) t by auto
  then obtain out where q: "q = Inr out"
    using run approve_lower_err_effectless [of P c s _ t] by (cases q) (auto simp: effectless_def)
  from approve_lower_ok_cases [OF run [unfolded q]] changed have "execute_lower_fresh P c s = (Inr out, t)"
    by auto
  from execute_lower_fresh_ok [OF this] obtain p r0 r1 j where
    ex: "executed_lowering P s c p r0 r1" and target: "prepared_issue_target p = Some j"
    and r0: "hm_get (issues s) j = Some r0"
    and as: "executed_as P (world s) c j ''issue.classification_lowered'' r1 out"
    and commit: "committed (Some (prepared_id p)) (execute_context c) (execute_identity (execute_approval c)) out s t"
    by blast
  have "issue_id r1 = j"
    using executed_lowering_evolves [OF ex] r0 assms(1) by (auto simp: evolves_def issue_inv_def)
  with assms(2-4) committed_get [OF commit] executed_out [OF as] r0 t
  have "j = i" "r0 = r" "r1 = r'" by (auto split: if_splits)
  with c t ex target as commit show ?thesis by blast
qed

definition example_prepare_lower :: PrepareLowerIssueClassification where
  "example_prepare_lower =
     \<lparr>lower_issue_id = ''issue-1'', lower_expected_version = AggregateVersion 1,
      lower_proposed_classification = DataClassification.Public, lower_rationale = ''Released'',
      lower_context = example_context ''k-lower''\<rparr>"

definition example_lowering :: "nat issue_service" where
  "example_lowering = issue_step example_ports (Prepare_Lower example_prepare_lower) example_created"

lemma example_lowering_inv: "issue_inv example_lowering"
  unfolding example_lowering_def by (rule issue_machine.inv_step [OF example_created_inv])

theorem only_lowering_lowers_witness:
  "\<exists>p. executed_lowering example_ports example_lowering (example_approve ''pii'' ''k-approve'') p
     (the (hm_get (issues example_lowering) ''issue-1''))
     (the (hm_get (issues (issue_step example_ports (Approve_Lower (example_approve ''pii'' ''k-approve''))
       example_lowering)) ''issue-1''))"
proof -
  let ?t = "issue_step example_ports (Approve_Lower (example_approve ''pii'' ''k-approve'')) example_lowering"
  have before: "map_option issue_classification (hm_get (issues example_lowering) ''issue-1'') =
      Some DataClassification.Internal" by code_simp
  have after: "map_option issue_classification (hm_get (issues ?t) ''issue-1'') =
      Some DataClassification.Public" by code_simp
  from before obtain r where r: "hm_get (issues example_lowering) ''issue-1'' = Some r"
    "issue_classification r = DataClassification.Internal" by auto
  from after obtain r' where r': "hm_get (issues ?t) ''issue-1'' = Some r'"
    "issue_classification r' = DataClassification.Public" by auto
  have "issue_classification r' < issue_classification r"
    unfolding r(2) r'(2) by (simp add: less_DataClassification_def)
  from only_lowering_lowers [OF example_lowering_inv r(1) r'(1) this] show ?thesis
    unfolding r(1) r'(1) option.sel by auto
qed

end
