(* ===== verification/State_Intents.thy ===== *)
theory State_Intents
  imports Work_Management
begin

text \<open>
  What each record's current state admits: \<^verbatim>\<open>state_intents.rs\<close> and the two tables of \<^verbatim>\<open>actions.rs\<close>
  (all of \<^verbatim>\<open>crates/pmc-domain/src\<close>). The Work Queue derives membership from these tables and the
  safe errors of the services report them.
\<close>

definition decision_request_state_intents :: "DecisionRequestState \<Rightarrow> string list" where
  "decision_request_state_intents st =
     (case st of
        DecisionRequestState.Draft \<Rightarrow> [''submit_decision_request'']
      | DecisionRequestState.Open \<Rightarrow> [''withdraw_decision_request'', ''prepare_resolve_decision_request'']
      | DecisionRequestState.Resolved \<Rightarrow> []
      | DecisionRequestState.Withdrawn \<Rightarrow> [])"

definition risk_state_intents :: "RiskState \<Rightarrow> string list" where
  "risk_state_intents st =
     (case st of
        RiskState.Open \<Rightarrow> [''prepare_record_risk_occurrence'', ''prepare_close_risk'']
      | RiskState.Occurred \<Rightarrow> []
      | RiskState.Closed \<Rightarrow> [])"

definition issue_state_intents :: "IssueState \<Rightarrow> string list" where
  "issue_state_intents st =
     (case st of
        IssueState.Open \<Rightarrow> [''prepare_resolve_issue'']
      | IssueState.Resolved \<Rightarrow> [''prepare_close_issue'', ''prepare_reopen_issue'']
      | IssueState.Closed \<Rightarrow> [])"

definition request_allowed_intents :: "ActionRequestState \<Rightarrow> string list" where
  "request_allowed_intents st =
     (case st of
        ActionRequestState.Draft \<Rightarrow> [''submit_action_request'']
      | ActionRequestState.Open \<Rightarrow>
          [''prepare_accept_action_request'', ''decline_action_request'', ''withdraw_action_request'']
      | ActionRequestState.Accepted \<Rightarrow> []
      | ActionRequestState.Declined \<Rightarrow> []
      | ActionRequestState.Withdrawn \<Rightarrow> [])"

definition action_allowed_intents :: "ActionState \<Rightarrow> string list" where
  "action_allowed_intents st =
     (case st of
        ActionState.Open \<Rightarrow> [''start_action'', ''prepare_cancel_action'']
      | ActionState.InProgress \<Rightarrow>
          [''link_action_completion_evidence'', ''prepare_complete_action'', ''prepare_cancel_action'']
      | ActionState.Completed \<Rightarrow> [''prepare_reopen_action'']
      | ActionState.Cancelled \<Rightarrow> [''prepare_reopen_action''])"

end
