(* ===== verification/Issue_Refusals.thy ===== *)
theory Issue_Refusals
  imports Issue_Properties State_Intents
begin

text \<open>
  What the Issue service does when it refuses: nothing but, at most, one audit without effects; the
  conflict report of a stale preparation; and the Issue table of \<^verbatim>\<open>state_intents.rs\<close> against the
  guards it was read from.
\<close>

section \<open>Refusals change nothing\<close>

text \<open>What a service method answers, for the commands that answer with a result.\<close>

fun issue_accepts :: "'w issue_ports \<Rightarrow> 'w issue_command \<Rightarrow> 'w issue_service \<Rightarrow> bool" where
  "issue_accepts P (Create_Issue c) s = is_ok (fst (create_issue P c s))"
| "issue_accepts P (Prepare_Resolve c) s = is_ok (fst (prepare_resolve_issue P c s))"
| "issue_accepts P (Prepare_Close c) s = is_ok (fst (prepare_close_issue P c s))"
| "issue_accepts P (Prepare_Reopen c) s = is_ok (fst (prepare_reopen_issue P c s))"
| "issue_accepts P (Prepare_Lower c) s = is_ok (fst (prepare_lower_issue_classification P c s))"
| "issue_accepts P (Approve c) s = is_ok (fst (approve_and_execute P c s))"
| "issue_accepts P (Approve_Resolve c) s = is_ok (fst (approve_and_execute_resolve P c s))"
| "issue_accepts P (Approve_Close c) s = is_ok (fst (approve_and_execute_close P c s))"
| "issue_accepts P (Approve_Reopen c) s = is_ok (fst (approve_and_execute_reopen P c s))"
| "issue_accepts P (Approve_Lower c) s = is_ok (fst (approve_and_execute_lower_issue_classification P c s))"
| "issue_accepts P (Reject c) s = is_ok (fst (reject_issue_prepared_intent P c s))"
| "issue_accepts P _ s = True"

text \<open>At most one audit, without effects; everything else as it was.\<close>

definition refusal :: "'w issue_service \<Rightarrow> 'w issue_service \<Rightarrow> bool" where
  "refusal s t \<longleftrightarrow> issues t = issues s \<and> prepared t = prepared s \<and> idem t = idem s \<and>
     (audits t = audits s \<or> (\<exists>a. audits t = audits s @ [a] \<and> no_effect a))"

definition refuses_quietly :: "('w issue_service \<Rightarrow> (DomainError + 'a) \<times> 'w issue_service) \<Rightarrow> bool" where
  "refuses_quietly m \<longleftrightarrow> (\<forall>s e t. m s = (Inl e, t) \<longrightarrow> refusal s t)"

lemma refusal_refl [simp]: "refusal s s"
  by (simp add: refusal_def)

lemma unaudited_refusal: "unaudited s t \<Longrightarrow> refusal s t"
  by (simp add: refusal_def unaudited_def)

lemma unaudited_then_refusal: "unaudited s t \<Longrightarrow> refusal t u \<Longrightarrow> refusal s u"
  by (auto simp: refusal_def unaudited_def)

lemma refuses_quietly_pure [simp]:
  "refuses_quietly (ret a)" "refuses_quietly (throw e)" "refuses_quietly (reads f)"
  by (simp_all add: refuses_quietly_def)

lemma keeps_refuses_quietly: "keeps unaudited m \<Longrightarrow> refuses_quietly m"
  by (auto simp: refuses_quietly_def intro: unaudited_refusal dest: keepsD)

text \<open>A run that succeeds leaves no audit, so whatever refuses after it refuses from the start.\<close>

lemma refuses_quietly_ebind:
  assumes "refuses_quietly m" "\<And>s x s1. m s = (Inr x, s1) \<Longrightarrow> unaudited s s1" "\<And>x. refuses_quietly (k x)"
  shows "refuses_quietly (ebind m k)"
  using assms(1,3) by (auto simp: refuses_quietly_def ebind_err dest: assms(2) intro: unaudited_then_refusal)

lemma refuses_quietly_reads: "(\<And>x. refuses_quietly (k x)) \<Longrightarrow> refuses_quietly (ebind (reads f) k)"
  by (rule refuses_quietly_ebind) (auto intro: unaudited.refl)

lemma failure_audit_refusal:
  "code \<in> {''issue.prepare_denied'', ''issue.execute_denied''} \<Longrightarrow>
     failure_audit P i code c f s = (r, t) \<Longrightarrow> refusal s t"
  by (drule (1) failure_audit_result) (auto simp: refusal_def)

lemma refuse_prepare_quietly: "refuses_quietly (refuse_prepare P i c f)"
  using failure_audit_refusal [of "''issue.prepare_denied''" P "Some i" c f]
  by (auto simp: refuse_prepare_def refuses_quietly_def ebind_err)

lemma refuse_prepare_never_ok [simp]: "refuse_prepare P i c f s = (Inr x, t) \<longleftrightarrow> False"
  by (auto simp: refuse_prepare_def ebind_ok)

lemma prepare_checks_quietly:
  "refuses_quietly (prepare_support P i c ids judgment role)"
  "refuses_quietly (prepare_classification P i issue c)"
  "refuses_quietly (prepare_policy P i op c)"
  using refuse_prepare_quietly [of P i c]
  by (auto simp: refuses_quietly_def prepare_support_def prepare_classification_def prepare_policy_def
      Let_def split: sum.splits if_splits)

lemma prepare_fresh_quietly:
  assumes "transition op \<noteq> None"
  shows "refuses_quietly (prepare_fresh P op ids judgment c)"
  using assms unfolding prepare_fresh_def
  by (auto intro!: refuses_quietly_reads refuses_quietly_ebind prepare_checks_quietly
      keeps_refuses_quietly [OF keeps_prepare_intent] unaudited.refl dest!: prepare_checks_ok)

lemma prepare_transition_quietly:
  assumes "transition op \<noteq> None"
  shows "refuses_quietly (prepare_transition P op ids judgment c)"
  unfolding prepare_transition_def
proof (rule refuses_quietly_reads)
  fix stored
  have "refuses_quietly (ebind (prepare_fresh P op ids judgment c) (store_prepared c (Prepare op ids judgment)))"
    using prepare_fresh_quietly [OF assms, of P ids "judgment" c]
    by (auto simp: refuses_quietly_def ebind_err store_prepared_def)
  then show "refuses_quietly (case stored of Some (Prepared v) \<Rightarrow> ret v
      | _ \<Rightarrow> ebind (prepare_fresh P op ids judgment c) (\<lambda>p. store_prepared c (Prepare op ids judgment) p))"
    by (simp split: option.splits Stored.splits)
qed

lemma create_issue_quietly: "refuses_quietly (create_issue P c)"
  unfolding create_issue_def
proof (rule refuses_quietly_reads)
  fix stored
  show "refuses_quietly (case stored of Some (Mutation v) \<Rightarrow> ret v
      | _ \<Rightarrow> ebind (create_fresh P c) (\<lambda>(record, audit).
          commit_mutation None (create_context c) (create_identity c)
            \<lparr>outcome_record = record, outcome_audit_events = [audit], outcome_receipt_id = None\<rparr> audit))"
    using keepsD [OF keeps_create_fresh [of P c]]
    by (auto simp: refuses_quietly_def ebind_err commit_mutation_def intro: unaudited_refusal
        split: option.splits Stored.splits prod.splits)
qed


lemma prepare_lower_quietly: "refuses_quietly (prepare_lower_issue_classification P c)"
  unfolding prepare_lower_issue_classification_def Let_def
proof (rule refuses_quietly_reads)
  fix stored
  show "refuses_quietly (case stored of Some (Prepared v) \<Rightarrow> ret v
      | _ \<Rightarrow> ebind (prepare_lower_fresh P c) (store_prepared (lower_context c)
          (PrepareLowerClassification (lower_issue_id c) (lower_expected_version c)
             (lower_proposed_classification c) (lower_rationale c))))"
    using keepsD [OF keeps_prepare_lower_fresh [of P c]]
    by (auto simp: refuses_quietly_def ebind_err store_prepared_def intro: unaudited_refusal
        split: option.splits Stored.splits)
qed

lemma execute_with_quietly:
  assumes "\<And>f t. run c s = (Inl f, t) \<Longrightarrow> unaudited s t" and "execute_with run c s = (Inl f, t)"
  shows "unaudited s t"
  using execute_with_cases [OF assms(2)] assms(1) by (auto intro: unaudited.refl)

lemma audited_execution_quietly:
  assumes "\<And>s f t. run c s = (Inl f, t) \<Longrightarrow> unaudited s t"
  shows "refuses_quietly (audited_execution P (execute_with run) c)"
  unfolding refuses_quietly_def
proof (intro allI impI)
  fix s e t
  assume "audited_execution P (execute_with run) c s = (Inl e, t)"
  from audited_execution_err [OF this] obtain f s1 where
    run: "execute_with run c s = (Inl f, s1)" and
    same: "issues t = issues s1" "prepared t = prepared s1" "idem t = idem s1" and
    log: "audits t = audits s1 \<or> (\<exists>a. audits t = audits s1 @ [a] \<and> no_effect a)" by blast
  from execute_with_quietly [OF assms run] same log show "refusal s t"
    by (auto simp: refusal_def unaudited_def)
qed

lemma approve_and_execute_quietly: "refuses_quietly (approve_and_execute P c)"
  unfolding approve_and_execute_def execute_def
  by (rule audited_execution_quietly) (rule execute_fresh_err)

lemma approve_lower_quietly: "refuses_quietly (approve_and_execute_lower_issue_classification P c)"
  unfolding approve_and_execute_lower_issue_classification_def execute_lower_issue_classification_def
  by (rule audited_execution_quietly) (rule execute_lower_fresh_err)

lemma ensured_quietly:
  "refuses_quietly (ebind (ensure_prepared_operation i p c) (\<lambda>_. approve_and_execute P a))"
  using approve_and_execute_quietly [of P a]
  by (auto simp: refuses_quietly_def ebind_err ensure_prepared_operation_def)

lemma reject_quietly: "refuses_quietly (reject_issue_prepared_intent P c)"
  unfolding reject_issue_prepared_intent_def
proof (rule refuses_quietly_reads)
  fix stored
  show "refuses_quietly (case stored of Some (Rejected out) \<Rightarrow> ret out
     | Some _ \<Rightarrow> throw (issue_error DomainIdempotencyConflict ''issue.idempotency_conflict'' (reject_context c) False)
     | None \<Rightarrow> ebind (reject_fresh P c) (commit_rejection c))"
    using keepsD [OF keeps_reject_fresh [of P c]]
    by (auto simp: refuses_quietly_def ebind_err commit_rejection_def intro: unaudited_refusal
        split: option.splits Stored.splits)
qed

text \<open>
  C32. A refused command changes nothing: whenever creation, preparation, approval or rejection
  answers with an error, whatever the reason and whatever ports fail, no Issue, no stored preview
  and no recorded outcome changes, and at most one audit is appended, which records no effect.
\<close>

theorem refused_commands_change_nothing:
  assumes "\<not> issue_accepts P cmd s"
  shows "refusal s (issue_step P cmd s)"
proof -
  have step: "refusal s (snd (m s))" if "refuses_quietly m" "\<not> is_ok (fst (m s))"
    for m :: "'a issue_service \<Rightarrow> (DomainError + 'b) \<times> 'a issue_service"
    using that by (cases "m s"; cases "fst (m s)") (auto simp: refuses_quietly_def)
  show ?thesis
    using assms
    by (cases cmd)
      (auto intro!: step create_issue_quietly prepare_transition_quietly prepare_lower_quietly
        approve_and_execute_quietly approve_lower_quietly reject_quietly
        simp: prepare_resolve_issue_def prepare_close_issue_def prepare_reopen_issue_def transition_def
        approve_and_execute_resolve_def approve_and_execute_close_def approve_and_execute_reopen_def
        ensured_quietly)
qed

text \<open>An approval under an idempotency identity that its context does not carry is refused.\<close>

theorem refused_commands_change_nothing_witness:
  "refusal example_prepared
     (issue_step example_ports (Approve (example_approve ''missing'' ''k-approve'')) example_prepared)"
proof -
  have "\<not> issue_accepts example_ports (Approve (example_approve ''missing'' ''k-approve'')) example_prepared"
    by code_simp
  then show ?thesis by (rule refused_commands_change_nothing)
qed

section \<open>Stale preparation\<close>

lemma message_param_eq: "MessageParam_new key v = Inr p \<Longrightarrow> message_param key v = p"
  by (simp add: message_param_def)

text \<open>The parameters of a conflict report are valid, so building them cannot panic.\<close>

lemma conflict_params:
  "message_param ''current_state'' (Identifier (IssueState_as_persisted st)) =
     \<lparr>param_key = ''current_state'', param_value = Identifier (IssueState_as_persisted st)\<rparr>"
  "message_param ''allowed_next_intents'' (FieldKey (next_intents st)) =
     \<lparr>param_key = ''allowed_next_intents'', param_value = FieldKey (next_intents st)\<rparr>"
  "message_param ''remediation'' (FieldKey ''issue.refresh_and_reprepare'') =
     \<lparr>param_key = ''remediation'', param_value = FieldKey ''issue.refresh_and_reprepare''\<rparr>"
proof -
  have "list_all (\<lambda>st.
      MessageParam_new ''current_state'' (Identifier (IssueState_as_persisted st)) =
        Inr \<lparr>param_key = ''current_state'', param_value = Identifier (IssueState_as_persisted st)\<rparr> \<and>
      MessageParam_new ''allowed_next_intents'' (FieldKey (next_intents st)) =
        Inr \<lparr>param_key = ''allowed_next_intents'', param_value = FieldKey (next_intents st)\<rparr>)
      [IssueState.Open, IssueState.Resolved, IssueState.Closed]" by code_simp
  moreover have "st \<in> set [IssueState.Open, IssueState.Resolved, IssueState.Closed]" by (cases st) simp_all
  ultimately show "message_param ''current_state'' (Identifier (IssueState_as_persisted st)) =
      \<lparr>param_key = ''current_state'', param_value = Identifier (IssueState_as_persisted st)\<rparr>"
    and "message_param ''allowed_next_intents'' (FieldKey (next_intents st)) =
      \<lparr>param_key = ''allowed_next_intents'', param_value = FieldKey (next_intents st)\<rparr>"
    unfolding list_all_iff by (blast intro: message_param_eq)+
  show "message_param ''remediation'' (FieldKey ''issue.refresh_and_reprepare'') =
      \<lparr>param_key = ''remediation'', param_value = FieldKey ''issue.refresh_and_reprepare''\<rparr>"
    by (rule message_param_eq) code_simp
qed

text \<open>
  A stale or illegal preparation is answered with what is current: preparing a transition of an
  existing Issue whose version or state is not the expected one is refused as a conflict that is
  not retryable, carries the Issue's current version and state, the intents that state admits and
  the advice to refresh, and leaves the service exactly as it was, ports included.
\<close>

theorem stale_preparation_reports_current:
  assumes "unused c s" and "transition op = Some (i, v, required, next_state)"
    and "hm_get (issues s) i = Some r" and "issue_version r \<noteq> v \<or> issue_state r \<noteq> required"
  shows "prepare_transition P op ids j c s =
    (Inl \<lparr>error_code = DomainConflict, error_message_key = ''issue.stale_or_illegal'',
        error_params =
          [\<lparr>param_key = ''current_state'', param_value = Identifier (IssueState_as_persisted (issue_state r))\<rparr>,
           \<lparr>param_key = ''allowed_next_intents'', param_value = FieldKey (next_intents (issue_state r))\<rparr>,
           \<lparr>param_key = ''remediation'', param_value = FieldKey ''issue.refresh_and_reprepare''\<rparr>],
        error_correlation_id = correlation_id c, error_retryable = False,
        error_extensions = [CurrentVersion (issue_version r)], error_private_detail_ref = None\<rparr>, s)"
proof -
  have "prepare_fresh P op ids j c s = (Inl (lifecycle_error i c s), s)"
    using assms(2-4) by (auto simp: prepare_fresh_def ebind_run)
  then have "prepare_transition P op ids j c s = (Inl (lifecycle_error i c s), s)"
    using assms(1) 
      by (simp add: prepare_transition_def ebind_run replay_unused) (simp add: ebind_def)
  then show ?thesis
    using assms(3)
    by (simp add: lifecycle_error_def Let_def conflict_params with_param_def with_extension_def
        issue_error_def DomainError_new_def)
qed

section \<open>The table of legal intents\<close>

text \<open>The method that prepares a transition.\<close>

fun intent_of :: "WorkManagementOperation \<Rightarrow> string" where
  "intent_of (WorkManagementOperation.ResolveIssue _ _ _ _) = ''prepare_resolve_issue''"
| "intent_of (WorkManagementOperation.CloseIssue _ _) = ''prepare_close_issue''"
| "intent_of (WorkManagementOperation.ReopenIssue _ _ _) = ''prepare_reopen_issue''"
| "intent_of _ = []"

text \<open>
  The table of legal next intents is the service's guard: for an Issue at its expected version, a
  preparation its state's row does not list is always refused as illegal, a preparation that
  succeeds is listed, and a listed one passes the state guard, so that what decides it is the
  Evidence, classification and policy checks.
\<close>

theorem issue_intents_are_the_guard:
  assumes "unused c s" and "transition op = Some (i, issue_version r, required, next_state)"
    and "hm_get (issues s) i = Some r"
  shows "(intent_of op \<notin> set (issue_state_intents (issue_state r)) \<longrightarrow>
      prepare_transition P op ids j c s = (Inl (lifecycle_error i c s), s)) \<and>
    (is_ok (fst (prepare_transition P op ids j c s)) \<longrightarrow>
      intent_of op \<in> set (issue_state_intents (issue_state r))) \<and>
    (intent_of op \<in> set (issue_state_intents (issue_state r)) \<longrightarrow>
      prepare_fresh P op ids j c s =
        ebind (prepare_support P i c ids j (required_role op)) (\<lambda>w.
        ebind (prepare_classification P i r c) (\<lambda>class.
        ebind (prepare_policy P i op c) (\<lambda>_. prepare_intent P op class (Some w) c))) s)"
proof -
  have row: "intent_of op \<in> set (issue_state_intents (issue_state r)) \<longleftrightarrow> issue_state r = required"
    using assms(2) unfolding transition_Some_cases
    by (cases "issue_state r") (auto simp: issue_state_intents_def)
  have illegal: "prepare_transition P op ids j c s = (Inl (lifecycle_error i c s), s)"
    if "issue_state r \<noteq> required"
  proof -
    have "prepare_fresh P op ids j c s = (Inl (lifecycle_error i c s), s)"
      using assms(2,3) that by (simp add: prepare_fresh_def ebind_run)
    with assms(1) show ?thesis 
      by (simp add: prepare_transition_def ebind_run replay_unused) (simp add: ebind_def)
  qed
  have passes: "prepare_fresh P op ids j c s =
      ebind (prepare_support P i c ids j (required_role op)) (\<lambda>w.
      ebind (prepare_classification P i r c) (\<lambda>class.
      ebind (prepare_policy P i op c) (\<lambda>_. prepare_intent P op class (Some w) c))) s"
    if "issue_state r = required"
    using assms(2,3) that by (simp add: prepare_fresh_def ebind_run)
  show ?thesis unfolding row using illegal passes by (cases "issue_state r = required") simp_all
qed

section \<open>What the audit says of an outage\<close>

lemma failure_audit_ok:
  assumes "code \<in> {''issue.prepare_denied'', ''issue.execute_denied''}"
    and "next_audit_event_id P (world s) = (Inr aid, w)"
  shows "fst (failure_audit P i code c f s) = Inr ()"
proof -
  obtain po ao eo where out: "failure_outcomes f = (po, ao, eo)" by (cases "failure_outcomes f")
  have parse: "AuditEventCode_parse code = Inr code" using assms(1) failure_codes by auto
  show ?thesis
    by (simp add: failure_audit_def out failure_disposition [OF out] parse ebind_def next_id_def assms(2)
        read_clock_def lift_result_def split: prod.splits)
qed

text \<open>
  An outage of the classification authority during preparation is audited as an approved
  operation whose execution failed, although nothing was approved and nothing executed; the same
  outage of the Evidence authority is audited as rejected and not attempted.
\<close>

theorem outage_audited_as_approved:
  assumes "unused c s" and "transition op = Some (i, issue_version r, issue_state r, next_state)"
    and "hm_get (issues s) i = Some r"
    and "support P ids (case j of None \<Rightarrow> [] | Some x \<Rightarrow> [x]) (required_role op) s = Inr w"
    and "current_classification P (world s) i (issue_classification r) = Inl err"
    and "next_audit_event_id P (world s) = (Inr aid, w')"
  shows "\<exists>a t. prepare_transition P op ids j c s = (Inl (infrastructure_error c), t) \<and>
    prepared t = prepared s \<and> issues t = issues s \<and> audits t = audits s @ [a] \<and>
    audit_code a = ''issue.prepare_denied'' \<and> audit_approval_outcome a = AuditApprovalOutcome.Approved \<and>
    audit_execution_outcome a = AuditExecutionOutcome.Failed"
proof -
  let ?audit = "failure_audit P (Some i) ''issue.prepare_denied'' c Failure.Infrastructure s"
  obtain t where t: "?audit = (Inr (), t)"
    using failure_audit_ok [OF _ assms(6), of "''issue.prepare_denied''" "Some i" c Failure.Infrastructure]
    by (cases ?audit) auto
  have "prepare_classification P i r c s = (Inl (infrastructure_error c), t)"
    using assms(5) t by (simp add: prepare_classification_def refuse_prepare_def ebind_def throw_def map_failure_def)
  moreover have "prepare_support P i c ids j (required_role op) s = (Inr w, s)"
    using assms(4) by (simp add: prepare_support_def)
  ultimately have "prepare_fresh P op ids j c s = (Inl (infrastructure_error c), t)"
    using assms(2,3) by (simp add: prepare_fresh_def ebind_run) (simp add: ebind_def)
  then have "prepare_transition P op ids j c s = (Inl (infrastructure_error c), t)"
    using assms(1) by (simp add: prepare_transition_def ebind_run replay_unused) (simp add: ebind_def)
  with failure_audit_result [OF _ t] show ?thesis by auto
qed


end
