(* ===== verification/Risk_Record.thy ===== *)
theory Risk_Record
  imports Issue_Record Errors
begin

text \<open>
  The Risk aggregate of \<^verbatim>\<open>crates/pmc-domain/src/risks.rs\<close> and its restart boundary: the record and
  the constructors that rehydrate it, the link to the Issue an occurrence creates, what the
  idempotency table stores, and the snapshot with its validation and its decoder.
\<close>

section \<open>The record\<close>

record RiskOperationContext =
  risk_idempotency_id :: operation_id
  risk_correlation_id :: operation_id

record RiskRecord =
  risk_id :: entity_id
  risk_title :: string
  risk_details :: string
  risk_classification :: DataClassification
  risk_state :: RiskState
  risk_response :: "RiskResponseType option"
  risk_owner :: "entity_id option"
  risk_rationale :: "string option"
  risk_residual_exposure :: "string option"
  risk_next_review_at :: "UtcTimestamp option"
  in_exception_queue :: bool
  risk_version :: AggregateVersion

datatype RiskRehydrationError = InvalidCreatedRisk | DuplicateRisk

text \<open>The Risk every narrow constructor builds: no response attributes.\<close>

definition bare_risk ::
  "entity_id \<Rightarrow> string \<Rightarrow> string \<Rightarrow> DataClassification \<Rightarrow> RiskState \<Rightarrow> bool \<Rightarrow> AggregateVersion \<Rightarrow> RiskRecord" where
  "bare_risk i title details classification state in_queue version =
     \<lparr>risk_id = i, risk_title = title, risk_details = details, risk_classification = classification,
      risk_state = state, risk_response = None, risk_owner = None, risk_rationale = None,
      risk_residual_exposure = None, risk_next_review_at = None, in_exception_queue = in_queue,
      risk_version = version\<rparr>"

text \<open>\<^verbatim>\<open>AggregateVersion::initial().next().unwrap_or(AggregateVersion::initial())\<close>.\<close>

definition second_version :: AggregateVersion where
  "second_version =
     (case AggregateVersion_next AggregateVersion_initial of
        None \<Rightarrow> AggregateVersion_initial | Some v \<Rightarrow> v)"

definition from_persisted_closed_from_created_open ::
  "entity_id \<Rightarrow> string \<Rightarrow> string \<Rightarrow> DataClassification \<Rightarrow> AggregateVersion
     \<Rightarrow> RiskRehydrationError + RiskRecord" where
  "from_persisted_closed_from_created_open i title details classification version =
     (if classification = DataClassification.Unclassified \<or> version \<noteq> second_version
      then Inl InvalidCreatedRisk
      else Inr (bare_risk i title details classification RiskState.Closed False version))"

definition from_persisted_occurred_from_created_open ::
  "entity_id \<Rightarrow> string \<Rightarrow> string \<Rightarrow> DataClassification \<Rightarrow> AggregateVersion
     \<Rightarrow> RiskRehydrationError + RiskRecord" where
  "from_persisted_occurred_from_created_open i title details classification version =
     (if classification = DataClassification.Unclassified \<or> version \<noteq> second_version
      then Inl InvalidCreatedRisk
      else Inr (bare_risk i title details classification RiskState.Occurred True version))"

definition from_persisted_created_open ::
  "entity_id \<Rightarrow> string \<Rightarrow> string \<Rightarrow> DataClassification \<Rightarrow> AggregateVersion
     \<Rightarrow> RiskRehydrationError + RiskRecord" where
  "from_persisted_created_open i title details classification version =
     (if classification = DataClassification.Unclassified \<or> version \<noteq> AggregateVersion_initial
      then Inl InvalidCreatedRisk
      else Inr (bare_risk i title details classification RiskState.Open True version))"

definition from_persisted_open_with_lowered_classification ::
  "entity_id \<Rightarrow> string \<Rightarrow> string \<Rightarrow> DataClassification \<Rightarrow> AggregateVersion
     \<Rightarrow> RiskRehydrationError + RiskRecord" where
  "from_persisted_open_with_lowered_classification i title details classification version =
     (if classification = DataClassification.Unclassified then Inl InvalidCreatedRisk
      else Inr (bare_risk i title details classification RiskState.Open True version))"

definition settles :: "RiskResponseType \<Rightarrow> bool" where
  "settles response \<longleftrightarrow> response \<in> {RiskResponseType.Accept, RiskResponseType.Transfer}"

definition from_persisted_responded ::
  "entity_id \<Rightarrow> string \<Rightarrow> string \<Rightarrow> DataClassification \<Rightarrow> AggregateVersion \<Rightarrow> RiskState \<Rightarrow> RiskResponseType
     \<Rightarrow> entity_id option \<Rightarrow> string option \<Rightarrow> string option \<Rightarrow> UtcTimestamp option
     \<Rightarrow> RiskRehydrationError + RiskRecord" where
  "from_persisted_responded i title details classification version state response owner rationale
     residual_exposure next_review_at =
     (if classification = DataClassification.Unclassified \<or> version = AggregateVersion_initial
      then Inl InvalidCreatedRisk
      else if settles response \<and>
        (owner = None \<or> rationale = None \<or> residual_exposure = None \<or> next_review_at = None)
      then Inl InvalidCreatedRisk
      else Inr \<lparr>risk_id = i, risk_title = title, risk_details = details,
        risk_classification = classification, risk_state = state, risk_response = Some response,
        risk_owner = owner, risk_rationale = rationale, risk_residual_exposure = residual_exposure,
        risk_next_review_at = next_review_at,
        in_exception_queue = (state \<noteq> RiskState.Closed \<and> \<not> settles response),
        risk_version = version\<rparr>)"

record RiskIssueLink =
  link_risk_id :: entity_id
  link_issue_id :: entity_id
  link_risk_version :: AggregateVersion
  link_issue_version :: AggregateVersion
  link_classification :: DataClassification

definition RiskIssueLink_from_persisted ::
  "entity_id \<Rightarrow> entity_id \<Rightarrow> AggregateVersion \<Rightarrow> AggregateVersion \<Rightarrow> DataClassification
     \<Rightarrow> RiskRehydrationError + RiskIssueLink" where
  "RiskIssueLink_from_persisted risk issue risk_v issue_v classification =
     (if classification = DataClassification.Unclassified then Inl InvalidCreatedRisk
      else Inr \<lparr>link_risk_id = risk, link_issue_id = issue, link_risk_version = risk_v,
        link_issue_version = issue_v, link_classification = classification\<rparr>)"

section \<open>Outcomes and what is stored of them\<close>

record RiskMutationOutcome =
  mutated_record :: RiskRecord
  mutated_audit_events :: "AuditEvent list"
  mutated_receipt_id :: "entity_id option"

record OccurredRiskOutcome =
  occurred_risk :: RiskRecord
  occurred_issue :: IssueRecord
  occurred_audit_events :: "AuditEvent list"
  occurred_receipt_id :: entity_id

datatype RiskSignature =
  Create entity_id string string DataClassification
| Update entity_id AggregateVersion RiskResponseType "entity_id option" "string option" "string option"
    "UtcTimestamp option"
| PrepareOccurrence entity_id AggregateVersion entity_id
| PrepareClose entity_id AggregateVersion string
| RejectPrepared entity_id AuditActor
| PrepareLowerClassification entity_id AggregateVersion DataClassification string
| Execute entity_id AuditActor payload_digest

definition execution_signature :: "WorkManagementApproval \<Rightarrow> RiskSignature" where
  "execution_signature a =
     RiskSignature.Execute (approval_prepared_id a) (approval_actor a) (acknowledged_payload_digest a)"

record RiskTerminalFailure =
  terminal_prepared :: WorkManagementPreparedIntent
  terminal_error :: DomainError
  terminal_audit :: AuditEvent

datatype RiskStored =
  Risk RiskMutationOutcome
| Prepared WorkManagementPreparedIntent
| Occurred OccurredRiskOutcome
| Closed RiskMutationOutcome
| Terminal RiskTerminalFailure
| Rejected RejectedPreparedIntentOutcome

record RiskReplayEntry =
  entry_idempotency_id :: operation_id
  entry_signature :: RiskSignature
  entry_stored :: RiskStored

section \<open>The snapshot\<close>

record RiskPersistenceSnapshot =
  snapshot_risks :: "RiskRecord list"
  snapshot_occurrence_issues :: "IssueRecord list"
  snapshot_links :: "RiskIssueLink list"
  snapshot_risk_prepared :: "WorkManagementPreparedIntent list"
  snapshot_replay :: "RiskReplayEntry list"
  snapshot_audits :: "AuditEvent list"

text \<open>The Issue an occurrence created, still as created, and the Risk, still as it occurred.\<close>

definition link_holds :: "RiskRecord list \<Rightarrow> IssueRecord list \<Rightarrow> RiskIssueLink \<Rightarrow> bool" where
  "link_holds rs iss link \<longleftrightarrow>
     (case List.find (\<lambda>r. risk_id r = link_risk_id link) rs of
        None \<Rightarrow> False
      | Some risk \<Rightarrow>
          (case List.find (\<lambda>x. issue_id x = link_issue_id link) iss of
             None \<Rightarrow> False
           | Some issue \<Rightarrow>
               \<not> (risk_state risk \<noteq> RiskState.Occurred \<or>
                  risk_version risk \<noteq> link_risk_version link \<or>
                  risk_classification risk \<noteq> link_classification link \<or>
                  source_risk_id issue \<noteq> Some (link_risk_id link) \<or>
                  recurrence_of issue \<noteq> None \<or>
                  issue_state issue \<noteq> IssueState.Open \<or>
                  resolution_type issue \<noteq> None \<or>
                  resolution_rationale issue \<noteq> None \<or>
                  resolution_evidence issue \<noteq> [] \<or>
                  closure_verification_evidence issue \<noteq> [] \<or>
                  failed_verification_evidence issue \<noteq> [] \<or>
                  reopen_rationales issue \<noteq> [] \<or>
                  support_history issue \<noteq> [] \<or>
                  issue_version issue \<noteq> link_issue_version link \<or>
                  issue_classification issue \<noteq> link_classification link)))"

definition links_of :: "RiskIssueLink list \<Rightarrow> entity_id \<Rightarrow> RiskIssueLink list" where
  "links_of links i = filter (\<lambda>link. link_risk_id link = i) links"

definition link_count_matches :: "RiskIssueLink list \<Rightarrow> RiskRecord \<Rightarrow> bool" where
  "link_count_matches links risk \<longleftrightarrow>
     \<not> ((risk_state risk = RiskState.Occurred \<and> length (links_of links (risk_id risk)) \<noteq> 1) \<or>
        (risk_state risk \<noteq> RiskState.Occurred \<and> length (links_of links (risk_id risk)) \<noteq> 0))"

fun terminal_of :: "RiskStored \<Rightarrow> RiskTerminalFailure option" where
  "terminal_of (RiskStored.Terminal t) = Some t"
| "terminal_of _ = None"

definition terminal_entry_holds :: "entity_id list \<Rightarrow> entity_id list \<Rightarrow> RiskReplayEntry \<Rightarrow> bool" where
  "terminal_entry_holds prepared_ids audit_ids entry \<longleftrightarrow>
     (case entry_stored entry of
        RiskStored.Terminal terminal \<Rightarrow>
          audit_id (terminal_audit terminal) \<in> set audit_ids \<and>
          audit_correlation_id (terminal_audit terminal) = error_correlation_id (terminal_error terminal) \<and>
          prepared_id (terminal_prepared terminal) \<notin> set prepared_ids \<and>
          entry_signature entry =
            RiskSignature.Execute (prepared_id (terminal_prepared terminal)) AuditActor.HeadOfProducts
              (prepared_payload_digest (terminal_prepared terminal))
      | _ \<Rightarrow> True)"

definition rejected_entry_holds :: "entity_id list \<Rightarrow> entity_id list \<Rightarrow> RiskReplayEntry \<Rightarrow> bool" where
  "rejected_entry_holds prepared_ids audit_ids entry \<longleftrightarrow>
     (case entry_stored entry of
        RiskStored.Rejected outcome \<Rightarrow>
          entry_signature entry =
            RiskSignature.RejectPrepared (rejected_prepared_intent_id outcome) AuditActor.HeadOfProducts \<and>
          rejected_prepared_intent_id outcome \<notin> set prepared_ids \<and>
          audit_id (rejected_audit_event outcome) \<in> set audit_ids
      | _ \<Rightarrow> True)"

definition terminal_ids :: "RiskReplayEntry list \<Rightarrow> entity_id list" where
  "terminal_ids replay =
     map (\<lambda>t. prepared_id (terminal_prepared t)) (List.map_filter (\<lambda>e. terminal_of (entry_stored e)) replay)"

definition RiskPersistenceSnapshot_try_new_with_h2a ::
  "RiskRecord list \<Rightarrow> IssueRecord list \<Rightarrow> RiskIssueLink list \<Rightarrow> WorkManagementPreparedIntent list
     \<Rightarrow> RiskReplayEntry list \<Rightarrow> AuditEvent list \<Rightarrow> RiskRehydrationError + RiskPersistenceSnapshot" where
  "RiskPersistenceSnapshot_try_new_with_h2a rs iss links ps replay audits =
     (let prepared_ids = map prepared_id ps; audit_ids = map audit_id audits in
      if \<not> distinct (map risk_id rs) then Inl DuplicateRisk
      else if \<not> distinct (map issue_id iss) then Inl DuplicateRisk
      else if \<not> list_all (link_holds rs iss) links \<or>
        \<not> distinct (map (\<lambda>l. (link_risk_id l, link_issue_id l)) links) then Inl InvalidCreatedRisk
      else if \<not> list_all (link_count_matches links) rs then Inl InvalidCreatedRisk
      else if length iss \<noteq> length links then Inl InvalidCreatedRisk
      else if \<not> distinct prepared_ids then Inl DuplicateRisk
      else if \<not> distinct (map entry_idempotency_id replay) then Inl DuplicateRisk
      else if \<not> distinct audit_ids then Inl DuplicateRisk
      else if \<not> list_all (terminal_entry_holds prepared_ids audit_ids) replay \<or>
        \<not> distinct (terminal_ids replay) then Inl InvalidCreatedRisk
      else if \<not> list_all (rejected_entry_holds prepared_ids audit_ids) replay then Inl InvalidCreatedRisk
      else Inr \<lparr>snapshot_risks = rs, snapshot_occurrence_issues = iss, snapshot_links = links,
        snapshot_risk_prepared = ps, snapshot_replay = replay, snapshot_audits = audits\<rparr>)"

definition RiskPersistenceSnapshot_try_new ::
  "RiskRecord list \<Rightarrow> IssueRecord list \<Rightarrow> RiskIssueLink list
     \<Rightarrow> RiskRehydrationError + RiskPersistenceSnapshot" where
  "RiskPersistenceSnapshot_try_new rs iss links =
     RiskPersistenceSnapshot_try_new_with_h2a rs iss links [] [] []"

section \<open>Decoding durable evidence\<close>

datatype RiskH2aTerminalOperation = RecordOccurrence | Close

record RiskH2aTerminalReplay =
  durable_operation :: RiskH2aTerminalOperation
  durable_risk_id :: entity_id
  durable_prepared :: WorkManagementPreparedIntent
  durable_approval :: WorkManagementApproval
  durable_context :: RiskOperationContext
  durable_error :: DomainError
  durable_audit :: AuditEvent

record RiskH2aRejectionReplay =
  refused_prepared :: WorkManagementPreparedIntent
  refused_context :: RiskOperationContext
  refused_outcome :: RejectedPreparedIntentOutcome

record RiskH2aPersistenceDecodeInput =
  decode_base :: RiskPersistenceSnapshot
  decode_terminal_replays :: "RiskH2aTerminalReplay list"
  decode_prepared :: "WorkManagementPreparedIntent list"
  decode_rejections :: "RiskH2aRejectionReplay list"

definition RISK_PREPARED_REJECTED_AUDIT_CODE :: string where
  "RISK_PREPARED_REJECTED_AUDIT_CODE = ''risk.prepared_rejected''"

definition valid_risk_rejection :: "RiskH2aRejectionReplay \<Rightarrow> entity_id \<Rightarrow> bool" where
  "valid_risk_rejection rejection i =
     (let outcome = refused_outcome rejection; audit = rejected_audit_event outcome in
      rejected_prepared_intent_id outcome = prepared_id (refused_prepared rejection) \<and>
      expired_at_rejection outcome =
        (preview_expires_at (prepared_preview (refused_prepared rejection)) \<le> rejected_at outcome) \<and>
      audit_occurred_at audit = rejected_at outcome \<and>
      audit_actor audit = AuditActor.HeadOfProducts \<and>
      audit_module audit = AuditModule.WorkManagement \<and>
      audit_code audit = RISK_PREPARED_REJECTED_AUDIT_CODE \<and>
      audit_target audit = AuditTarget.Risk i \<and>
      audit_correlation_id audit = risk_correlation_id (refused_context rejection) \<and>
      audit_policy_outcome audit = AuditPolicyOutcome.Allowed \<and>
      audit_approval_outcome audit = AuditApprovalOutcome.Rejected)"

text \<open>
  The first conjunct of the code compares \<^verbatim>\<open>prepared.classification()\<close> with the classification of the
  preview it is read from; the two are one field here.
\<close>

definition valid_terminal_audit :: "RiskH2aTerminalReplay \<Rightarrow> bool" where
  "valid_terminal_audit terminal =
     (let expected_code = (case durable_operation terminal of
            RiskH2aTerminalOperation.RecordOccurrence \<Rightarrow> ''risk.occurrence_denied''
          | RiskH2aTerminalOperation.Close \<Rightarrow> ''risk.close_denied'');
          audit = durable_audit terminal
      in audit_actor audit = AuditActor.HeadOfProducts \<and>
         audit_module audit = AuditModule.WorkManagement \<and>
         audit_code audit = expected_code \<and>
         audit_target audit = AuditTarget.Risk (durable_risk_id terminal) \<and>
         audit_correlation_id audit = risk_correlation_id (durable_context terminal) \<and>
         audit_policy_outcome audit = AuditPolicyOutcome.Denied \<and>
         audit_approval_outcome audit = AuditApprovalOutcome.NotRequired \<and>
         audit_execution_outcome audit = AuditExecutionOutcome.NotAttempted \<and>
         audit_effect_scope audit = AuditEffectScope.ScopeNone \<and>
         audit_actual_effects audit = [])"

definition prepared_matches_terminal_risk :: "RiskH2aTerminalReplay \<Rightarrow> RiskRecord \<Rightarrow> bool" where
  "prepared_matches_terminal_risk terminal risk =
     (case (durable_operation terminal, prepared_operation (durable_prepared terminal)) of
        (RiskH2aTerminalOperation.RecordOccurrence, WorkManagementOperation.RecordRiskOccurrence i v _ _) \<Rightarrow>
          i = risk_id risk \<and> v = risk_version risk
      | (RiskH2aTerminalOperation.Close, WorkManagementOperation.CloseRisk i v _) \<Rightarrow>
          i = risk_id risk \<and> v = risk_version risk
      | _ \<Rightarrow> False)"

definition terminal_replay_holds :: "RiskRecord list \<Rightarrow> RiskH2aTerminalReplay \<Rightarrow> bool" where
  "terminal_replay_holds rs t \<longleftrightarrow>
     approval_idempotency_id (durable_approval t) = risk_idempotency_id (durable_context t) \<and>
     prepared_id (durable_prepared t) = approval_prepared_id (durable_approval t) \<and>
     prepared_payload_digest (durable_prepared t) = acknowledged_payload_digest (durable_approval t) \<and>
     error_code (durable_error t) = SecurityPolicyDenied \<and>
     \<not> error_retryable (durable_error t) \<and>
     error_correlation_id (durable_error t) = risk_correlation_id (durable_context t) \<and>
     list_ex (\<lambda>r. risk_id r = durable_risk_id t \<and> risk_state r = RiskState.Open \<and>
       prepared_matches_terminal_risk t r) rs \<and>
     approval_actor (durable_approval t) = AuditActor.HeadOfProducts \<and>
     valid_terminal_audit t"

definition rejected_risk_id :: "WorkManagementPreparedIntent \<Rightarrow> entity_id option" where
  "rejected_risk_id p =
     (case prepared_operation p of
        WorkManagementOperation.RecordRiskOccurrence i _ _ _ \<Rightarrow> Some i
      | WorkManagementOperation.CloseRisk i _ _ \<Rightarrow> Some i
      | _ \<Rightarrow> None)"

definition rejection_replay_holds :: "RiskRecord list \<Rightarrow> RiskH2aRejectionReplay \<Rightarrow> bool" where
  "rejection_replay_holds rs x \<longleftrightarrow>
     (case rejected_risk_id (refused_prepared x) of
        None \<Rightarrow> False
      | Some i \<Rightarrow> valid_risk_rejection x i \<and> list_ex (\<lambda>r. risk_id r = i) rs)"

definition terminal_entry :: "RiskH2aTerminalReplay \<Rightarrow> RiskReplayEntry" where
  "terminal_entry t =
     \<lparr>entry_idempotency_id = risk_idempotency_id (durable_context t),
      entry_signature = execution_signature (durable_approval t),
      entry_stored = RiskStored.Terminal \<lparr>terminal_prepared = durable_prepared t,
        terminal_error = durable_error t, terminal_audit = durable_audit t\<rparr>\<rparr>"

definition rejection_entry :: "RiskH2aRejectionReplay \<Rightarrow> RiskReplayEntry" where
  "rejection_entry x =
     \<lparr>entry_idempotency_id = risk_idempotency_id (refused_context x),
      entry_signature = RiskSignature.RejectPrepared (prepared_id (refused_prepared x)) AuditActor.HeadOfProducts,
      entry_stored = RiskStored.Rejected (refused_outcome x)\<rparr>"

text \<open>
  Both loops share the three sets of identities seen; every failure in them is
  \<open>InvalidCreatedRisk\<close>, so that what is seen twice is refused wherever it is seen.
\<close>

definition RiskH2aPersistenceDecodeInput_decode ::
  "RiskH2aPersistenceDecodeInput \<Rightarrow> RiskRehydrationError + RiskPersistenceSnapshot" where
  "RiskH2aPersistenceDecodeInput_decode inp =
     (let terminals = decode_terminal_replays inp; rejections = decode_rejections inp;
          rs = snapshot_risks (decode_base inp);
          replay = map terminal_entry terminals @ map rejection_entry rejections;
          audits = map durable_audit terminals @ map (\<lambda>x. rejected_audit_event (refused_outcome x)) rejections
      in
      if \<not> list_all (terminal_replay_holds rs) terminals \<or>
         \<not> list_all (rejection_replay_holds rs) rejections \<or>
         \<not> distinct (map entry_idempotency_id replay) \<or>
         \<not> distinct (map audit_id audits) \<or>
         \<not> distinct (map (\<lambda>t. prepared_id (durable_prepared t)) terminals @
              map (\<lambda>x. prepared_id (refused_prepared x)) rejections)
      then Inl InvalidCreatedRisk
      else RiskPersistenceSnapshot_try_new_with_h2a rs (snapshot_occurrence_issues (decode_base inp))
        (snapshot_links (decode_base inp)) (decode_prepared inp) replay audits)"

end
