(* ===== verification/Risk_Service.thy ===== *)
theory Risk_Service
  imports Risk_Record Service
begin

text \<open>
  \<^verbatim>\<open>InMemoryRiskService\<close> of \<^verbatim>\<open>crates/pmc-domain/src/risks.rs\<close>. As for Issues, the generic parameters
  are the record \<open>risk_ports\<close> over an environment \<open>'w\<close>. The state has the Issue store that the
  service shares with the Issue service (\<^verbatim>\<open>SharedIssueAuthority\<close>), the maps and lists of \<^verbatim>\<open>Store\<close>, the
  environment and the injected-failure flag. \<^verbatim>\<open>unreachable!()\<close> is \<open>undefined\<close>.
\<close>

section \<open>Commands, ports and state\<close>

record CreateRisk =
  create_risk_id :: entity_id
  create_risk_title :: string
  create_risk_details :: string
  create_risk_classification :: DataClassification
  create_risk_context :: RiskOperationContext

record UpdateRiskResponse =
  update_risk_id :: entity_id
  update_expected_version :: AggregateVersion
  update_response :: RiskResponseType
  update_owner :: "entity_id option"
  update_rationale :: "string option"
  update_residual_exposure :: "string option"
  update_next_review_at :: "UtcTimestamp option"
  update_context :: RiskOperationContext

record PrepareRecordRiskOccurrence =
  occurrence_risk_id :: entity_id
  occurrence_expected_version :: AggregateVersion
  occurrence_issue_id :: entity_id
  occurrence_context :: RiskOperationContext

record PrepareCloseRisk =
  close_risk_id :: entity_id
  close_risk_expected_version :: AggregateVersion
  close_risk_rationale :: string
  close_risk_context :: RiskOperationContext

record PrepareLowerRiskClassification =
  lower_risk_id :: entity_id
  lower_risk_expected_version :: AggregateVersion
  lower_risk_proposed_classification :: DataClassification
  lower_risk_rationale :: string
  lower_risk_context :: RiskOperationContext

text \<open>The three \<^verbatim>\<open>ApproveAndExecute...\<close> commands have the same fields.\<close>

record ApproveAndExecuteRisk =
  risk_approval :: WorkManagementApproval
  risk_execute_context :: RiskOperationContext

record RejectRiskPreparedIntent =
  reject_risk_prepared_id :: entity_id
  reject_risk_actor :: AuditActor
  reject_risk_context :: RiskOperationContext

datatype RiskExecutionPolicy = Allowed | Denied

datatype RiskEvidenceAuthorityError = Unavailable | NotFound

datatype RiskFailure =
  NotFound | Conflict | LifecycleConflict | IdempotencyConflict | PolicyDenied | Unauthorized
| DigestMismatch | Expired | PreviewChanged | Infrastructure

record 'w risk_ports =
  risk_clock_now :: "'w \<Rightarrow> UtcTimestamp \<times> 'w"
  risk_next_prepared_intent_id :: "'w \<Rightarrow> (DomainValueError + entity_id) \<times> 'w"
  risk_next_approval_receipt_id :: "'w \<Rightarrow> (DomainValueError + entity_id) \<times> 'w"
  risk_next_audit_event_id :: "'w \<Rightarrow> (DomainValueError + entity_id) \<times> 'w"
  risk_authorize :: "'w \<Rightarrow> AuditActor \<Rightarrow> bool"
  risk_current_policy :: "'w \<Rightarrow> WorkManagementOperation \<Rightarrow> RiskExecutionPolicy"
  linked_evidence_is_current :: "'w \<Rightarrow> entity_id \<Rightarrow> RiskEvidenceAuthorityError + bool"
  risk_current_classification ::
    "'w \<Rightarrow> entity_id \<Rightarrow> DataClassification \<Rightarrow> RiskEvidenceAuthorityError + DataClassification"
  risk_sha256_hex :: "string \<Rightarrow> string"

record 'w risk_service =
  risk_world :: 'w
  issue_authority :: "(entity_id \<times> IssueRecord) list"
  risks :: "(entity_id \<times> RiskRecord) list"
  risk_prepared :: "(entity_id \<times> WorkManagementPreparedIntent) list"
  risk_idem :: "(operation_id \<times> RiskSignature \<times> RiskStored) list"
  risk_audits :: "AuditEvent list"
  risk_links :: "RiskIssueLink list"
  fail_next_risk_commit :: bool

type_synonym ('w, 'e, 'a) risk_method = "'w risk_service \<Rightarrow> ('e + 'a) \<times> 'w risk_service"

section \<open>Helpers\<close>

definition risk_err :: "ErrorCode \<Rightarrow> string \<Rightarrow> RiskOperationContext \<Rightarrow> DomainError" where
  "risk_err code key c = DomainError_new code key (risk_correlation_id c) False"

definition risk_map_failure :: "RiskFailure \<Rightarrow> RiskOperationContext \<Rightarrow> DomainError" where
  "risk_map_failure f c =
     (case f of
        RiskFailure.PolicyDenied \<Rightarrow> risk_err SecurityPolicyDenied ''risk.security_denied'' c
      | RiskFailure.Unauthorized \<Rightarrow> risk_err SecurityPolicyDenied ''risk.security_denied'' c
      | RiskFailure.DigestMismatch \<Rightarrow> risk_err SecurityPreviewExpiredOrChanged ''risk.preview_changed'' c
      | RiskFailure.Expired \<Rightarrow> risk_err SecurityPreviewExpiredOrChanged ''risk.preview_changed'' c
      | RiskFailure.PreviewChanged \<Rightarrow> risk_err SecurityPreviewExpiredOrChanged ''risk.preview_changed'' c
      | RiskFailure.NotFound \<Rightarrow> risk_err DomainNotFound ''risk.not_found'' c
      | RiskFailure.Conflict \<Rightarrow> risk_err DomainConflict ''risk.conflict'' c
      | RiskFailure.LifecycleConflict \<Rightarrow> risk_err DomainConflict ''risk.stale_or_illegal'' c
      | RiskFailure.IdempotencyConflict \<Rightarrow>
          risk_err DomainIdempotencyConflict ''risk.idempotency_conflict'' c
      | RiskFailure.Infrastructure \<Rightarrow>
          DomainError_new PlatformInternal ''risk.infrastructure'' (risk_correlation_id c) True)"

definition risk_message_param :: "string \<Rightarrow> SafeParamValue \<Rightarrow> MessageParam" where
  "risk_message_param key v =
     (case MessageParam_new key v of Inr p \<Rightarrow> p | Inl _ \<Rightarrow> undefined)"

definition err_conflict :: "string \<Rightarrow> RiskOperationContext \<Rightarrow> AggregateVersion option \<Rightarrow> DomainError" where
  "err_conflict key c version =
     (let e = risk_err DomainConflict key c in
      case version of None \<Rightarrow> e | Some v \<Rightarrow> with_extension (CurrentVersion v) e)"

definition risk_conflict :: "RiskRecord \<Rightarrow> RiskOperationContext \<Rightarrow> DomainError" where
  "risk_conflict risk c =
     with_param (risk_message_param ''remediation'' (FieldKey ''risk.refresh_and_reprepare''))
       (with_param (risk_message_param ''allowed_next_intents'' (FieldKey
           (if risk_state risk = RiskState.Open then ''risk.update_response_or_prepare_transition''
            else ''risk.no_transition'')))
         (with_param (risk_message_param ''current_state''
             (Identifier (RiskState_as_persisted (risk_state risk))))
           (err_conflict ''risk.stale_or_illegal'' c (Some (risk_version risk)))))"

definition prepare_failure_error ::
  "entity_id \<Rightarrow> RiskFailure \<Rightarrow> RiskOperationContext \<Rightarrow> 'w risk_service \<Rightarrow> DomainError" where
  "prepare_failure_error target f c s =
     (if f = RiskFailure.LifecycleConflict then
        (case hm_get (risks s) target of
           Some risk \<Rightarrow> risk_conflict risk c
         | None \<Rightarrow> risk_map_failure f c)
      else risk_map_failure f c)"

definition risk_read_clock :: "'w risk_ports \<Rightarrow> ('w, 'e, UtcTimestamp) risk_method" where
  "risk_read_clock P s = (case risk_clock_now P (risk_world s) of (t, w) \<Rightarrow> (Inr t, s\<lparr>risk_world := w\<rparr>))"

definition risk_next_id ::
  "('w \<Rightarrow> (DomainValueError + entity_id) \<times> 'w) \<Rightarrow> 'e \<Rightarrow> ('w, 'e, entity_id) risk_method" where
  "risk_next_id source e s =
     (case source (risk_world s) of (r, w) \<Rightarrow> (map_err (\<lambda>_. e) r, s\<lparr>risk_world := w\<rparr>))"

definition risk_take_commit_failure :: "'e \<Rightarrow> ('w, 'e, unit) risk_method" where
  "risk_take_commit_failure e s =
     (if fail_next_risk_commit s then (Inl e, s\<lparr>fail_next_risk_commit := False\<rparr>) else (Inr (), s))"

definition risk_replay ::
  "RiskOperationContext \<Rightarrow> RiskSignature \<Rightarrow> 'w risk_service \<Rightarrow> DomainError + RiskStored option" where
  "risk_replay c sig s =
     (case hm_get (risk_idem s) (risk_idempotency_id c) of
        Some (old, v) \<Rightarrow>
          if old = sig then Inr (Some v)
          else Inl (risk_err DomainIdempotencyConflict ''risk.idempotency_conflict'' c)
      | None \<Rightarrow> Inr None)"

definition replayed_terminal_error ::
  "WorkManagementApproval \<Rightarrow> RiskOperationContext \<Rightarrow> 'w risk_service \<Rightarrow> DomainError + DomainError option" where
  "replayed_terminal_error approval c s =
     (case hm_get (risk_idem s) (risk_idempotency_id c) of
        None \<Rightarrow> Inr None
      | Some (sig, v) \<Rightarrow>
          if sig \<noteq> execution_signature approval
          then Inl (risk_err DomainIdempotencyConflict ''risk.idempotency_conflict'' c)
          else (case v of RiskStored.Terminal t \<Rightarrow> Inr (Some (terminal_error t)) | _ \<Rightarrow> Inr None))"

fun risk_stored_prepared_for :: "entity_id \<Rightarrow> RiskStored \<Rightarrow> bool" where
  "risk_stored_prepared_for i (RiskStored.Prepared p) = (prepared_id p = i)"
| "risk_stored_prepared_for i _ = False"

definition forget_prepared :: "entity_id \<Rightarrow> 'w risk_service \<Rightarrow> 'w risk_service" where
  "forget_prepared i s =
     s\<lparr>risk_prepared := hm_remove i (risk_prepared s),
       risk_idem := hm_retain (\<lambda>(_, v). \<not> risk_stored_prepared_for i v) (risk_idem s)\<rparr>"

definition terminalize_prepared_execution ::
  "RiskSignature \<Rightarrow> 'w risk_service \<Rightarrow> WorkManagementPreparedIntent option \<times> 'w risk_service" where
  "terminalize_prepared_execution sig s =
     (case sig of
        RiskSignature.Execute i _ _ \<Rightarrow>
          (case hm_get (risk_prepared s) i of
             None \<Rightarrow> (None, s)
           | Some p \<Rightarrow> (Some p, forget_prepared i s))
      | _ \<Rightarrow> (None, s))"

text \<open>\<^verbatim>\<open>audit\<close> and \<^verbatim>\<open>audit_h2\<close> differ in the recorded approval only.\<close>

definition risk_audit_as ::
  "AuditApprovalOutcome \<Rightarrow> 'w risk_ports \<Rightarrow> AuditTarget \<Rightarrow> string \<Rightarrow> RiskOperationContext \<Rightarrow> bool
     \<Rightarrow> ('w, DomainValueError, AuditEvent) risk_method" where
  "risk_audit_as approval P target code c effect s =
     (case risk_next_audit_event_id P (risk_world s) of
        (Inl e, w) \<Rightarrow> (Inl e, s\<lparr>risk_world := w\<rparr>)
      | (Inr i, w) \<Rightarrow>
          ebind (lift_result (AuditEventCode_parse code)) (\<lambda>event_code.
          ebind (lift_result (if effect then map_sum id (\<lambda>e. [e]) (AuditEffectCode_parse code) else Inr [])) (\<lambda>effects.
          ebind (lift_result (map_err (\<lambda>_. DomainValueError InvalidCharacter)
            (AuditDisposition_new AuditPolicyOutcome.Allowed approval AuditExecutionOutcome.Succeeded
              (if effect then AuditEffectScope.Complete else AuditEffectScope.ScopeNone) effects))) (\<lambda>disposition.
          ebind (risk_read_clock P) (\<lambda>now.
          ret (AuditEvent_new i now AuditActor.HeadOfProducts
            \<lparr>action_module = AuditModule.WorkManagement, action_code = event_code, action_target = target\<rparr>
            (risk_correlation_id c) disposition)))))
            (s\<lparr>risk_world := w\<rparr>))"

definition risk_audit ::
  "'w risk_ports \<Rightarrow> AuditTarget \<Rightarrow> string \<Rightarrow> RiskOperationContext \<Rightarrow> bool
     \<Rightarrow> ('w, DomainValueError, AuditEvent) risk_method" where
  "risk_audit = risk_audit_as AuditApprovalOutcome.NotRequired"

definition risk_audit_h2 ::
  "'w risk_ports \<Rightarrow> AuditTarget \<Rightarrow> string \<Rightarrow> RiskOperationContext \<Rightarrow> bool
     \<Rightarrow> ('w, DomainValueError, AuditEvent) risk_method" where
  "risk_audit_h2 = risk_audit_as AuditApprovalOutcome.Approved"

text \<open>The two failure audits, after the identifier is drawn.\<close>

definition push_failure_audit ::
  "'w risk_ports \<Rightarrow> entity_id \<Rightarrow> string \<Rightarrow> RiskOperationContext
     \<Rightarrow> AuditPolicyOutcome \<times> AuditApprovalOutcome \<times> AuditExecutionOutcome \<Rightarrow> ('w, DomainError, AuditEvent) risk_method" where
  "push_failure_audit P target code c outcomes =
     ebind (risk_next_id (risk_next_audit_event_id P) (risk_err PlatformInternal ''audit.failed'' c)) (\<lambda>i.
     ebind (risk_read_clock P) (\<lambda>now s.
       case outcomes of (policy, approval, execution) \<Rightarrow>
       (case (AuditEventCode_parse code,
              AuditDisposition_new policy approval execution AuditEffectScope.ScopeNone []) of
          (Inr event_code, Inr disposition) \<Rightarrow>
            let audit = AuditEvent_new i now AuditActor.HeadOfProducts
                  \<lparr>action_module = AuditModule.WorkManagement, action_code = event_code,
                   action_target = AuditTarget.Risk target\<rparr>
                  (risk_correlation_id c) disposition
            in (Inr audit, s\<lparr>risk_audits := risk_audits s @ [audit]\<rparr>)
        | _ \<Rightarrow> undefined)))"

definition record_prepare_failure_audit ::
  "'w risk_ports \<Rightarrow> entity_id \<Rightarrow> string \<Rightarrow> RiskOperationContext \<Rightarrow> RiskFailure
     \<Rightarrow> ('w, DomainError, AuditEvent) risk_method" where
  "record_prepare_failure_audit P target code c f =
     push_failure_audit P target code c
       (if f = RiskFailure.PolicyDenied then AuditPolicyOutcome.Denied else AuditPolicyOutcome.Allowed,
        AuditApprovalOutcome.NotRequired, AuditExecutionOutcome.NotAttempted)"

fun risk_failure_outcomes ::
  "RiskFailure \<Rightarrow> AuditPolicyOutcome \<times> AuditApprovalOutcome \<times> AuditExecutionOutcome" where
  "risk_failure_outcomes RiskFailure.PolicyDenied =
     (AuditPolicyOutcome.Denied, AuditApprovalOutcome.NotRequired, AuditExecutionOutcome.NotAttempted)"
| "risk_failure_outcomes RiskFailure.Infrastructure =
     (AuditPolicyOutcome.Allowed, AuditApprovalOutcome.Approved, AuditExecutionOutcome.Failed)"
| "risk_failure_outcomes _ =
     (AuditPolicyOutcome.Allowed, AuditApprovalOutcome.Rejected, AuditExecutionOutcome.NotAttempted)"

definition record_execution_failure_audit ::
  "'w risk_ports \<Rightarrow> entity_id option \<Rightarrow> string \<Rightarrow> RiskOperationContext \<Rightarrow> RiskFailure
     \<Rightarrow> ('w, DomainError, AuditEvent) risk_method" where
  "record_execution_failure_audit P target code c f =
     push_failure_audit P (case target of Some i \<Rightarrow> i | None \<Rightarrow> ''risk-unknown'') code c (risk_failure_outcomes f)"

definition prepared_risk_target :: "entity_id \<Rightarrow> 'w risk_service \<Rightarrow> entity_id option" where
  "prepared_risk_target i s =
     Option.bind (hm_get (risk_prepared s) i) (\<lambda>p.
       case prepared_operation p of
         WorkManagementOperation.RecordRiskOccurrence x _ _ _ \<Rightarrow> Some x
       | WorkManagementOperation.CloseRisk x _ _ \<Rightarrow> Some x
       | WorkManagementOperation.LowerRiskClassification x _ _ _ _ \<Rightarrow> Some x
       | _ \<Rightarrow> None)"

definition is_durable_post_start_terminal :: "RiskFailure \<Rightarrow> bool" where
  "is_durable_post_start_terminal f \<longleftrightarrow> f = RiskFailure.PolicyDenied"

definition risk_is_genuine_lowering :: "DataClassification \<Rightarrow> DataClassification \<Rightarrow> bool" where
  "risk_is_genuine_lowering current proposed \<longleftrightarrow> combine proposed current \<noteq> proposed"

section \<open>Creation and response\<close>

definition create_signature :: "CreateRisk \<Rightarrow> RiskSignature" where
  "create_signature c =
     RiskSignature.Create (create_risk_id c) (create_risk_title c) (create_risk_details c)
       (create_risk_classification c)"

definition update_signature :: "UpdateRiskResponse \<Rightarrow> RiskSignature" where
  "update_signature c =
     RiskSignature.Update (update_risk_id c) (update_expected_version c) (update_response c) (update_owner c)
       (update_rationale c) (update_residual_exposure c) (update_next_review_at c)"

text \<open>The insertion that ends both commands; it has no staged copy and no injected failure.\<close>

definition install_risk ::
  "RiskSignature \<Rightarrow> RiskOperationContext \<Rightarrow> RiskRecord \<Rightarrow> AuditEvent \<Rightarrow> ('w, 'e, RiskMutationOutcome) risk_method" where
  "install_risk sig c r audit s =
     (let out = \<lparr>mutated_record = r, mutated_audit_events = [audit], mutated_receipt_id = None\<rparr> in
      (Inr out,
       s\<lparr>risks := hm_insert (risk_id r) r (risks s),
         risk_audits := risk_audits s @ [audit],
         risk_idem := hm_insert (risk_idempotency_id c) (sig, RiskStored.Risk out) (risk_idem s)\<rparr>))"

definition create_risk_fresh :: "'w risk_ports \<Rightarrow> CreateRisk \<Rightarrow> ('w, DomainError, RiskMutationOutcome) risk_method" where
  "create_risk_fresh P c =
     (let x = create_risk_context c in
      ebind (ensure (create_risk_classification c \<noteq> DataClassification.Unclassified)
        (risk_err ValidationInvalidField ''risk.classification'' x)) (\<lambda>_.
      ebind (reads (\<lambda>s. if hm_get (risks s) (create_risk_id c) \<noteq> None
        then Inl (risk_err DomainConflict ''risk.already_exists'' x) else Inr ())) (\<lambda>_.
      let r = bare_risk (create_risk_id c) (create_risk_title c) (create_risk_details c)
                (create_risk_classification c) RiskState.Open True AggregateVersion_initial in
      ebind (with_err (\<lambda>_. risk_err PlatformInternal ''audit.failed'' x)
        (risk_audit P (AuditTarget.Risk (risk_id r)) ''risk.created'' x True)) (\<lambda>audit.
      install_risk (create_signature c) x r audit))))"

definition create_risk :: "'w risk_ports \<Rightarrow> CreateRisk \<Rightarrow> ('w, DomainError, RiskMutationOutcome) risk_method" where
  "create_risk P c =
     ebind (reads (risk_replay (create_risk_context c) (create_signature c))) (\<lambda>stored.
     case stored of
       Some (RiskStored.Risk v) \<Rightarrow> ret v
     | _ \<Rightarrow> create_risk_fresh P c)"

definition replace_risk ::
  "'w risk_ports \<Rightarrow> RiskRecord \<Rightarrow> RiskSignature \<Rightarrow> RiskOperationContext \<Rightarrow> string
     \<Rightarrow> ('w, DomainError, RiskMutationOutcome) risk_method" where
  "replace_risk P r sig c code =
     ebind (with_err (\<lambda>_. risk_err PlatformInternal ''audit.failed'' c)
       (risk_audit P (AuditTarget.Risk (risk_id r)) code c True)) (\<lambda>audit.
     install_risk sig c r audit)"

definition respond :: "UpdateRiskResponse \<Rightarrow> AggregateVersion \<Rightarrow> RiskRecord \<Rightarrow> RiskRecord" where
  "respond c version r =
     r\<lparr>risk_response := Some (update_response c), risk_owner := update_owner c,
       risk_rationale := update_rationale c, risk_residual_exposure := update_residual_exposure c,
       risk_next_review_at := update_next_review_at c,
       in_exception_queue := \<not> settles (update_response c), risk_version := version\<rparr>"

definition update_fresh ::
  "'w risk_ports \<Rightarrow> UpdateRiskResponse \<Rightarrow> ('w, DomainError, RiskMutationOutcome) risk_method" where
  "update_fresh P c =
     (let x = update_context c in
      ebind (reads (\<lambda>s. ok_or (risk_err DomainNotFound ''risk.not_found'' x)
        (hm_get (risks s) (update_risk_id c)))) (\<lambda>r.
      ebind (ensure (risk_version r = update_expected_version c \<and> risk_state r = RiskState.Open)
        (risk_conflict r x)) (\<lambda>_.
      ebind (ensure (\<not> (settles (update_response c) \<and>
          (update_owner c = None \<or> update_rationale c = None \<or> update_residual_exposure c = None \<or>
           update_next_review_at c = None)))
        (risk_err ValidationInvalidField ''risk.accepted_fields_required'' x)) (\<lambda>_.
      ebind (lift_result (ok_or (risk_err PlatformInternal ''version.overflow'' x)
        (AggregateVersion_next (risk_version r)))) (\<lambda>version.
      replace_risk P (respond c version r) (update_signature c) x ''risk.response_updated'')))))"

definition update_risk_response ::
  "'w risk_ports \<Rightarrow> UpdateRiskResponse \<Rightarrow> ('w, DomainError, RiskMutationOutcome) risk_method" where
  "update_risk_response P c =
     ebind (reads (risk_replay (update_context c) (update_signature c))) (\<lambda>stored.
     case stored of
       Some (RiskStored.Risk v) \<Rightarrow> ret v
     | _ \<Rightarrow> update_fresh P c)"

definition risk_reenters_queue ::
  "'w risk_ports \<Rightarrow> entity_id \<Rightarrow> UtcTimestamp \<Rightarrow> bool \<Rightarrow> bool \<Rightarrow> 'w risk_service \<Rightarrow> DomainError + bool" where
  "risk_reenters_queue P i now exposure_increased control_invalid s =
     rbind (ok_or (DomainError_new DomainNotFound ''risk.not_found'' ''risk-query'' False) (hm_get (risks s) i)) (\<lambda>r.
     if risk_state r \<noteq> RiskState.Open then Inr False
     else if \<not> (case risk_response r of None \<Rightarrow> False | Some response \<Rightarrow> settles response)
     then Inr (in_exception_queue r)
     else
       let due = (case risk_next_review_at r of None \<Rightarrow> False | Some at \<Rightarrow> at \<le> now) in
       rbind (map_err (\<lambda>_. DomainError_new PlatformInternal ''risk.evidence_unavailable'' ''risk-query'' True)
         (linked_evidence_is_current P (risk_world s) i)) (\<lambda>current.
       Inr (in_exception_queue r \<or> due \<or> exposure_increased \<or> \<not> current \<or> control_invalid)))"

section \<open>Preparation\<close>

definition store_risk_prepared ::
  "RiskOperationContext \<Rightarrow> RiskSignature \<Rightarrow> WorkManagementPreparedIntent
     \<Rightarrow> ('w, 'e, WorkManagementPreparedIntent) risk_method" where
  "store_risk_prepared c sig p s =
     (Inr p, s\<lparr>risk_prepared := hm_insert (prepared_id p) p (risk_prepared s),
               risk_idem := hm_insert (risk_idempotency_id c) (sig, RiskStored.Prepared p) (risk_idem s)\<rparr>)"

text \<open>What the three preparations share after their own checks: policy, identifier, clock, intent.\<close>

definition prepare_risk_intent ::
  "'w risk_ports \<Rightarrow> WorkManagementOperation \<Rightarrow> DataClassification
     \<Rightarrow> ('w, RiskFailure, WorkManagementPreparedIntent) risk_method" where
  "prepare_risk_intent P op class =
     ebind (reads (\<lambda>s. if risk_current_policy P (risk_world s) op = RiskExecutionPolicy.Denied
       then Inl RiskFailure.PolicyDenied else Inr ())) (\<lambda>_.
     ebind (risk_next_id (risk_next_prepared_intent_id P) RiskFailure.Infrastructure) (\<lambda>i.
     ebind (risk_read_clock P) (\<lambda>now.
     lift_result (map_err (\<lambda>_. RiskFailure.Conflict) (prepare (risk_sha256_hex P) i op class None now)))))"

definition prepare_replayed ::
  "RiskOperationContext \<Rightarrow> RiskSignature
     \<Rightarrow> ('w, RiskFailure, WorkManagementPreparedIntent) risk_method
     \<Rightarrow> ('w, RiskFailure, WorkManagementPreparedIntent) risk_method" where
  "prepare_replayed c sig fresh =
     ebind (reads (\<lambda>s. map_err (\<lambda>_. RiskFailure.IdempotencyConflict) (risk_replay c sig s))) (\<lambda>stored.
     case stored of
       Some (RiskStored.Prepared p) \<Rightarrow> ret p
     | _ \<Rightarrow> ebind fresh (store_risk_prepared c sig))"

definition prepare_occurrence ::
  "'w risk_ports \<Rightarrow> PrepareRecordRiskOccurrence \<Rightarrow> ('w, RiskFailure, WorkManagementPreparedIntent) risk_method" where
  "prepare_occurrence P c =
     prepare_replayed (occurrence_context c)
       (RiskSignature.PrepareOccurrence (occurrence_risk_id c) (occurrence_expected_version c) (occurrence_issue_id c))
       (ebind (reads (\<lambda>s. ok_or RiskFailure.NotFound (hm_get (risks s) (occurrence_risk_id c)))) (\<lambda>r.
        ebind (ensure (risk_version r = occurrence_expected_version c \<and> risk_state r = RiskState.Open)
          RiskFailure.LifecycleConflict) (\<lambda>_.
        prepare_risk_intent P
          (WorkManagementOperation.RecordRiskOccurrence (risk_id r) (risk_version r) (occurrence_issue_id c)
            (risk_classification r))
          (risk_classification r))))"

definition prepare_close ::
  "'w risk_ports \<Rightarrow> PrepareCloseRisk \<Rightarrow> ('w, RiskFailure, WorkManagementPreparedIntent) risk_method" where
  "prepare_close P c =
     prepare_replayed (close_risk_context c)
       (RiskSignature.PrepareClose (close_risk_id c) (close_risk_expected_version c) (close_risk_rationale c))
       (ebind (reads (\<lambda>s. ok_or RiskFailure.NotFound (hm_get (risks s) (close_risk_id c)))) (\<lambda>r.
        ebind (ensure (risk_version r = close_risk_expected_version c \<and> risk_state r = RiskState.Open)
          RiskFailure.LifecycleConflict) (\<lambda>_.
        ebind (prepare_risk_intent P
          (WorkManagementOperation.CloseRisk (risk_id r) (risk_version r) (close_risk_rationale c))
          (risk_classification r)) (\<lambda>p.
        case prepared_operation p of
          WorkManagementOperation.CloseRisk _ _ _ \<Rightarrow> ret p
        | _ \<Rightarrow> throw RiskFailure.Conflict))))"

definition prepare_lower_risk_classification_cause ::
  "'w risk_ports \<Rightarrow> PrepareLowerRiskClassification \<Rightarrow> ('w, RiskFailure, WorkManagementPreparedIntent) risk_method" where
  "prepare_lower_risk_classification_cause P c =
     prepare_replayed (lower_risk_context c)
       (RiskSignature.PrepareLowerClassification (lower_risk_id c) (lower_risk_expected_version c)
         (lower_risk_proposed_classification c) (lower_risk_rationale c))
       (ebind (reads (\<lambda>s. ok_or RiskFailure.NotFound (hm_get (risks s) (lower_risk_id c)))) (\<lambda>r.
        ebind (ensure (risk_version r = lower_risk_expected_version c) RiskFailure.LifecycleConflict) (\<lambda>_.
        ebind (ensure (risk_is_genuine_lowering (risk_classification r) (lower_risk_proposed_classification c))
          RiskFailure.Conflict) (\<lambda>_.
        prepare_risk_intent P
          (WorkManagementOperation.LowerRiskClassification (risk_id r) (risk_version r)
            (risk_classification r) (lower_risk_proposed_classification c) (lower_risk_rationale c))
          (risk_classification r)))))"

text \<open>A refused preparation is audited before it is reported.\<close>

definition audited_preparation ::
  "'w risk_ports \<Rightarrow> entity_id \<Rightarrow> string \<Rightarrow> RiskOperationContext
     \<Rightarrow> ('w, RiskFailure, WorkManagementPreparedIntent) risk_method
     \<Rightarrow> ('w, DomainError, WorkManagementPreparedIntent) risk_method" where
  "audited_preparation P target code c run s =
     (case run s of
        (Inr p, s') \<Rightarrow> (Inr p, s')
      | (Inl f, s') \<Rightarrow>
          ebind (record_prepare_failure_audit P target code c f)
            (\<lambda>_ s''. (Inl (prepare_failure_error target f c s''), s'')) s')"

definition prepare_record_risk_occurrence ::
  "'w risk_ports \<Rightarrow> PrepareRecordRiskOccurrence \<Rightarrow> ('w, DomainError, WorkManagementPreparedIntent) risk_method" where
  "prepare_record_risk_occurrence P c =
     audited_preparation P (occurrence_risk_id c) ''risk.occurrence_denied'' (occurrence_context c)
       (prepare_occurrence P c)"

definition prepare_close_risk ::
  "'w risk_ports \<Rightarrow> PrepareCloseRisk \<Rightarrow> ('w, DomainError, WorkManagementPreparedIntent) risk_method" where
  "prepare_close_risk P c =
     audited_preparation P (close_risk_id c) ''risk.close_denied'' (close_risk_context c) (prepare_close P c)"

definition prepare_lower_risk_classification ::
  "'w risk_ports \<Rightarrow> PrepareLowerRiskClassification \<Rightarrow> ('w, DomainError, WorkManagementPreparedIntent) risk_method" where
  "prepare_lower_risk_classification P c =
     audited_preparation P (lower_risk_id c) ''risk.classification_lowering_denied'' (lower_risk_context c)
       (prepare_lower_risk_classification_cause P c)"

section \<open>Execution\<close>

definition risk_validation_failure :: "WorkManagementApprovalValidationError \<Rightarrow> RiskFailure" where
  "risk_validation_failure e =
     (case e of
        WorkManagementApprovalValidationError.Unauthorized \<Rightarrow> RiskFailure.Unauthorized
      | WorkManagementApprovalValidationError.DigestMismatch \<Rightarrow> RiskFailure.DigestMismatch
      | WorkManagementApprovalValidationError.Expired \<Rightarrow> RiskFailure.Expired
      | _ \<Rightarrow> RiskFailure.PreviewChanged)"

text \<open>Policy, the fresh intent, the snapshot read from it, and the receipt they validate.\<close>

definition mint_risk_receipt ::
  "'w risk_ports \<Rightarrow> WorkManagementPreparedIntent \<Rightarrow> WorkManagementOperation \<Rightarrow> DataClassification
     \<Rightarrow> WorkManagementApproval \<Rightarrow> ('w, RiskFailure, WorkManagementApprovalReceipt) risk_method" where
  "mint_risk_receipt P p op class approval =
     ebind (reads (\<lambda>s. if risk_current_policy P (risk_world s) op = RiskExecutionPolicy.Denied
       then Inl RiskFailure.PolicyDenied else Inr ())) (\<lambda>_.
     ebind (risk_read_clock P) (\<lambda>prepared_at.
     ebind (lift_result (map_err (\<lambda>_. RiskFailure.PreviewChanged)
       (prepare (risk_sha256_hex P) (prepared_id p) op class None prepared_at))) (\<lambda>fresh.
     ebind (risk_read_clock P) (\<lambda>now.
     ebind (risk_next_id (risk_next_approval_receipt_id P) RiskFailure.Infrastructure) (\<lambda>rid.
     reads (\<lambda>s. map_err risk_validation_failure
       (validate_and_mint_work_management_h2a_receipt p approval
         \<lparr>snapshot_operation = op, snapshot_classification = class,
          snapshot_classification_sources = preview_classification_sources (prepared_preview fresh),
          snapshot_support = None, snapshot_policy = WorkManagementCurrentPolicy.Allowed\<rparr>
         now rid (risk_authorize P (risk_world s)))))))))"

text \<open>The Risk a preview names, at the version it was prepared for.\<close>

definition previewed_risk ::
  "entity_id \<Rightarrow> AggregateVersion \<Rightarrow> bool \<Rightarrow> ('w, RiskFailure, RiskRecord) risk_method" where
  "previewed_risk i v must_be_open =
     ebind (reads (\<lambda>s. ok_or RiskFailure.PreviewChanged (hm_get (risks s) i))) (\<lambda>r.
     ebind (ensure (risk_version r = v \<and> (must_be_open \<longrightarrow> risk_state r = RiskState.Open))
       RiskFailure.PreviewChanged) (\<lambda>_.
     ret r))"

definition read_risk_classification ::
  "'w risk_ports \<Rightarrow> RiskRecord \<Rightarrow> entity_id \<Rightarrow> ('w, RiskFailure, DataClassification) risk_method" where
  "read_risk_classification P r i =
     reads (\<lambda>s. map_err (\<lambda>_. RiskFailure.Infrastructure)
       (risk_current_classification P (risk_world s) i (risk_classification r)))"

definition stored_preview :: "ApproveAndExecuteRisk \<Rightarrow> ('w, RiskFailure, WorkManagementPreparedIntent) risk_method" where
  "stored_preview c =
     reads (\<lambda>s. ok_or RiskFailure.PreviewChanged
       (hm_get (risk_prepared s) (approval_prepared_id (risk_approval c))))"

definition risk_h2_audit_or_fail ::
  "'w risk_ports \<Rightarrow> AuditTarget \<Rightarrow> string \<Rightarrow> RiskOperationContext \<Rightarrow> ('w, RiskFailure, AuditEvent) risk_method" where
  "risk_h2_audit_or_fail P target code c =
     with_err (\<lambda>_. RiskFailure.Infrastructure) (risk_audit_h2 P target code c True)"

text \<open>\<^verbatim>\<open>RiskIssueStage\<close>: the Issue side, staged without touching the authority.\<close>

definition RiskIssueStage_prepare ::
  "(entity_id \<times> IssueRecord) list \<Rightarrow> IssueRecord \<Rightarrow> RiskFailure + (entity_id \<times> IssueRecord) list" where
  "RiskIssueStage_prepare current issue =
     (if hm_get current (issue_id issue) \<noteq> None then Inl RiskFailure.Conflict
      else Inr (hm_insert (issue_id issue) issue current))"

definition RiskIssueStage_preflight ::
  "(entity_id \<times> IssueRecord) list \<Rightarrow> IssueRecord \<Rightarrow> RiskFailure + unit" where
  "RiskIssueStage_preflight staged issue =
     (if hm_get staged (issue_id issue) = Some issue then Inr () else Inl RiskFailure.Infrastructure)"

definition commit_occurrence ::
  "ApproveAndExecuteRisk \<Rightarrow> OccurredRiskOutcome \<Rightarrow> (entity_id \<times> IssueRecord) list \<Rightarrow> entity_id
     \<Rightarrow> DataClassification \<Rightarrow> ('w, RiskFailure, OccurredRiskOutcome) risk_method" where
  "commit_occurrence c out staged_issues consumed class s =
     (let risk = occurred_risk out; issue = occurred_issue out in
      (Inr out,
       s\<lparr>risks := hm_insert (risk_id risk) risk (risks s),
         risk_links := risk_links s @
           [\<lparr>link_risk_id = risk_id risk, link_issue_id = issue_id issue,
             link_risk_version = risk_version risk, link_issue_version = issue_version issue,
             link_classification = class\<rparr>],
         risk_prepared := hm_remove consumed (risk_prepared s),
         risk_audits := risk_audits s @ occurred_audit_events out,
         risk_idem := hm_insert (risk_idempotency_id (risk_execute_context c))
           (execution_signature (risk_approval c), RiskStored.Occurred out) (risk_idem s),
         issue_authority := staged_issues\<rparr>))"

definition occurrence_fresh ::
  "'w risk_ports \<Rightarrow> ApproveAndExecuteRisk \<Rightarrow> ('w, RiskFailure, OccurredRiskOutcome) risk_method" where
  "occurrence_fresh P c =
     ebind (stored_preview c) (\<lambda>p.
     case prepared_operation p of
       WorkManagementOperation.RecordRiskOccurrence i v iid _ \<Rightarrow>
         ebind (previewed_risk i v True) (\<lambda>r.
         ebind (read_risk_classification P r i) (\<lambda>class.
         ebind (mint_risk_receipt P p
           (WorkManagementOperation.RecordRiskOccurrence i (risk_version r) iid class) class (risk_approval c)) (\<lambda>receipt.
         ebind (lift_result (ok_or RiskFailure.Infrastructure (AggregateVersion_next (risk_version r)))) (\<lambda>version.
         let risk = r\<lparr>risk_state := RiskState.Occurred, risk_version := version\<rparr>;
             issue = IssueRecord_from_risk iid i (risk_title r) (risk_details r) (risk_classification r) in
         ebind (reads (\<lambda>s. RiskIssueStage_prepare (issue_authority s) issue)) (\<lambda>staged.
         ebind (risk_h2_audit_or_fail P (AuditTarget.Risk i) ''risk.occurred'' (risk_execute_context c)) (\<lambda>a1.
         ebind (risk_h2_audit_or_fail P (AuditTarget.Issue iid) ''issue.created_from_risk'' (risk_execute_context c)) (\<lambda>a2.
         ebind (risk_h2_audit_or_fail P (AuditTarget.Risk i) ''risk.issue_linked'' (risk_execute_context c)) (\<lambda>a3.
         ebind (lift_result (RiskIssueStage_preflight staged issue)) (\<lambda>_.
         ebind (risk_take_commit_failure RiskFailure.Infrastructure) (\<lambda>_.
         commit_occurrence c
           \<lparr>occurred_risk = risk, occurred_issue = issue, occurred_audit_events = [a1, a2, a3],
            occurred_receipt_id = receipt_id receipt\<rparr>
           staged (prepared_id p) (risk_classification r)))))))))))
     | _ \<Rightarrow> throw RiskFailure.PreviewChanged)"

text \<open>What closing and lowering install: the Risk, its audit, the outcome, the consumed preview.\<close>

definition commit_risk_mutation ::
  "(RiskMutationOutcome \<Rightarrow> RiskStored) \<Rightarrow> ApproveAndExecuteRisk \<Rightarrow> RiskMutationOutcome \<Rightarrow> entity_id
     \<Rightarrow> ('w, RiskFailure, RiskMutationOutcome) risk_method" where
  "commit_risk_mutation store c out consumed s =
     (Inr out,
      s\<lparr>risks := hm_insert (risk_id (mutated_record out)) (mutated_record out) (risks s),
        risk_prepared := hm_remove consumed (risk_prepared s),
        risk_audits := risk_audits s @ mutated_audit_events out,
        risk_idem := hm_insert (risk_idempotency_id (risk_execute_context c))
          (execution_signature (risk_approval c), store out) (risk_idem s)\<rparr>)"

definition finish_risk_mutation ::
  "'w risk_ports \<Rightarrow> (RiskMutationOutcome \<Rightarrow> RiskStored) \<Rightarrow> ApproveAndExecuteRisk \<Rightarrow> WorkManagementPreparedIntent
     \<Rightarrow> WorkManagementApprovalReceipt \<Rightarrow> entity_id \<Rightarrow> RiskRecord \<Rightarrow> string
     \<Rightarrow> ('w, RiskFailure, RiskMutationOutcome) risk_method" where
  "finish_risk_mutation P store c p receipt i x code =
     ebind (risk_h2_audit_or_fail P (AuditTarget.Risk i) code (risk_execute_context c)) (\<lambda>audit.
     ebind (risk_take_commit_failure RiskFailure.Infrastructure) (\<lambda>_.
     commit_risk_mutation store c
       \<lparr>mutated_record = x, mutated_audit_events = [audit], mutated_receipt_id = Some (receipt_id receipt)\<rparr>
       (prepared_id p)))"

definition close_fresh ::
  "'w risk_ports \<Rightarrow> ApproveAndExecuteRisk \<Rightarrow> ('w, RiskFailure, RiskMutationOutcome) risk_method" where
  "close_fresh P c =
     ebind (stored_preview c) (\<lambda>p.
     case prepared_operation p of
       WorkManagementOperation.CloseRisk i v rationale \<Rightarrow>
         ebind (previewed_risk i v True) (\<lambda>r.
         ebind (read_risk_classification P r i) (\<lambda>class.
         ebind (mint_risk_receipt P p (WorkManagementOperation.CloseRisk i (risk_version r) rationale) class
           (risk_approval c)) (\<lambda>receipt.
         ebind (lift_result (ok_or RiskFailure.Infrastructure (AggregateVersion_next (risk_version r)))) (\<lambda>version.
         finish_risk_mutation P RiskStored.Closed c p receipt i
           (r\<lparr>risk_state := RiskState.Closed, in_exception_queue := False, risk_version := version\<rparr>)
           ''risk.closed''))))
     | _ \<Rightarrow> throw RiskFailure.PreviewChanged)"

definition lower_fresh ::
  "'w risk_ports \<Rightarrow> ApproveAndExecuteRisk \<Rightarrow> ('w, RiskFailure, RiskMutationOutcome) risk_method" where
  "lower_fresh P c =
     ebind (stored_preview c) (\<lambda>p.
     case prepared_operation p of
       WorkManagementOperation.LowerRiskClassification i v _ proposed rationale \<Rightarrow>
         ebind (previewed_risk i v False) (\<lambda>r.
         ebind (read_risk_classification P r i) (\<lambda>class.
         ebind (mint_risk_receipt P p
           (WorkManagementOperation.LowerRiskClassification i (risk_version r) class proposed rationale) class
           (risk_approval c)) (\<lambda>receipt.
         ebind (lift_result (ok_or RiskFailure.Infrastructure (AggregateVersion_next (risk_version r)))) (\<lambda>version.
         finish_risk_mutation P RiskStored.Risk c p receipt i
           (r\<lparr>risk_classification := proposed, risk_version := version\<rparr>)
           ''risk.classification_lowered''))))
     | _ \<Rightarrow> throw RiskFailure.PreviewChanged)"

definition execute_replayed ::
  "(RiskStored \<Rightarrow> 'a option) \<Rightarrow> ApproveAndExecuteRisk \<Rightarrow> ('w, RiskFailure, 'a) risk_method
     \<Rightarrow> ('w, RiskFailure, 'a) risk_method" where
  "execute_replayed outcome c fresh =
     ebind (ensure (approval_idempotency_id (risk_approval c) = risk_idempotency_id (risk_execute_context c))
       RiskFailure.Conflict) (\<lambda>_.
     ebind (reads (\<lambda>s. map_err (\<lambda>_. RiskFailure.IdempotencyConflict)
       (risk_replay (risk_execute_context c) (execution_signature (risk_approval c)) s))) (\<lambda>stored.
     case Option.bind stored outcome of
       Some v \<Rightarrow> ret v
     | None \<Rightarrow> fresh))"

fun stored_occurred :: "RiskStored \<Rightarrow> OccurredRiskOutcome option" where
  "stored_occurred (RiskStored.Occurred v) = Some v"
| "stored_occurred _ = None"

fun stored_closed :: "RiskStored \<Rightarrow> RiskMutationOutcome option" where
  "stored_closed (RiskStored.Closed v) = Some v"
| "stored_closed _ = None"

fun stored_risk :: "RiskStored \<Rightarrow> RiskMutationOutcome option" where
  "stored_risk (RiskStored.Risk v) = Some v"
| "stored_risk _ = None"

definition execute_occurrence ::
  "'w risk_ports \<Rightarrow> ApproveAndExecuteRisk \<Rightarrow> ('w, RiskFailure, OccurredRiskOutcome) risk_method" where
  "execute_occurrence P c = execute_replayed stored_occurred c (occurrence_fresh P c)"

definition execute_close ::
  "'w risk_ports \<Rightarrow> ApproveAndExecuteRisk \<Rightarrow> ('w, RiskFailure, RiskMutationOutcome) risk_method" where
  "execute_close P c = execute_replayed stored_closed c (close_fresh P c)"

definition execute_lower_risk_classification ::
  "'w risk_ports \<Rightarrow> ApproveAndExecuteRisk \<Rightarrow> ('w, RiskFailure, RiskMutationOutcome) risk_method" where
  "execute_lower_risk_classification P c = execute_replayed stored_risk c (lower_fresh P c)"

text \<open>
  The three traced executions: a stored terminal error is returned; a failure is audited, and a
  policy denial becomes terminal: the preview is consumed and the error stored for replay. The
  second component says whether the failure is durable.
\<close>

definition risk_traced ::
  "'w risk_ports \<Rightarrow> string \<Rightarrow> ApproveAndExecuteRisk \<Rightarrow> ('w, RiskFailure, 'a) risk_method
     \<Rightarrow> 'w risk_service \<Rightarrow> ((DomainError + 'a) \<times> bool) \<times> 'w risk_service" where
  "risk_traced P code c run s =
     (let context = risk_execute_context c; sig = execution_signature (risk_approval c) in
      case replayed_terminal_error (risk_approval c) context s of
        Inl e \<Rightarrow> ((Inl e, False), s)
      | Inr (Some e) \<Rightarrow> ((Inl e, False), s)
      | Inr None \<Rightarrow>
          let target = prepared_risk_target (approval_prepared_id (risk_approval c)) s in
          (case run s of
             (Inr v, s1) \<Rightarrow> ((Inr v, False), s1)
           | (Inl f, s1) \<Rightarrow>
               let error = risk_map_failure f context in
               (case record_execution_failure_audit P target code context f s1 of
                  (Inl e, s2) \<Rightarrow> ((Inl e, False), s2)
                | (Inr audit, s2) \<Rightarrow>
                    let durable = is_durable_post_start_terminal f;
                        s3 = (if durable then
                                (case terminalize_prepared_execution sig s2 of
                                   (None, s') \<Rightarrow> s'
                                 | (Some p, s') \<Rightarrow>
                                     s'\<lparr>risk_idem := hm_insert (risk_idempotency_id context)
                                       (sig, RiskStored.Terminal \<lparr>terminal_prepared = p,
                                          terminal_error = error, terminal_audit = audit\<rparr>) (risk_idem s')\<rparr>)
                              else s2)
                    in ((Inl error, durable), s3))))"

definition approve_and_execute_record_risk_occurrence_traced ::
  "'w risk_ports \<Rightarrow> ApproveAndExecuteRisk \<Rightarrow> 'w risk_service
     \<Rightarrow> ((DomainError + OccurredRiskOutcome) \<times> bool) \<times> 'w risk_service" where
  "approve_and_execute_record_risk_occurrence_traced P c =
     risk_traced P ''risk.occurrence_denied'' c (execute_occurrence P c)"

definition approve_and_execute_close_risk_traced ::
  "'w risk_ports \<Rightarrow> ApproveAndExecuteRisk \<Rightarrow> 'w risk_service
     \<Rightarrow> ((DomainError + RiskMutationOutcome) \<times> bool) \<times> 'w risk_service" where
  "approve_and_execute_close_risk_traced P c = risk_traced P ''risk.close_denied'' c (execute_close P c)"

definition approve_and_execute_lower_risk_classification_traced ::
  "'w risk_ports \<Rightarrow> ApproveAndExecuteRisk \<Rightarrow> 'w risk_service
     \<Rightarrow> ((DomainError + RiskMutationOutcome) \<times> bool) \<times> 'w risk_service" where
  "approve_and_execute_lower_risk_classification_traced P c =
     risk_traced P ''risk.classification_lowering_denied'' c (execute_lower_risk_classification P c)"

text \<open>The untraced methods drop the durability flag; \<^verbatim>\<open>..._with_durability\<close> is the traced one.\<close>

definition untraced :: "((DomainError + 'a) \<times> bool) \<times> 's \<Rightarrow> (DomainError + 'a) \<times> 's" where
  "untraced r = (fst (fst r), snd r)"

definition approve_and_execute_record_risk_occurrence ::
  "'w risk_ports \<Rightarrow> ApproveAndExecuteRisk \<Rightarrow> ('w, DomainError, OccurredRiskOutcome) risk_method" where
  "approve_and_execute_record_risk_occurrence P c s =
     untraced (approve_and_execute_record_risk_occurrence_traced P c s)"

definition approve_and_execute_close_risk ::
  "'w risk_ports \<Rightarrow> ApproveAndExecuteRisk \<Rightarrow> ('w, DomainError, RiskMutationOutcome) risk_method" where
  "approve_and_execute_close_risk P c s = untraced (approve_and_execute_close_risk_traced P c s)"

definition approve_and_execute_lower_risk_classification ::
  "'w risk_ports \<Rightarrow> ApproveAndExecuteRisk \<Rightarrow> ('w, DomainError, RiskMutationOutcome) risk_method" where
  "approve_and_execute_lower_risk_classification P c s =
     untraced (approve_and_execute_lower_risk_classification_traced P c s)"

section \<open>Rejection, discarding, restart\<close>

fun risk_stored_for :: "entity_id \<Rightarrow> RiskStored \<Rightarrow> bool" where
  "risk_stored_for i (RiskStored.Prepared p) = (prepared_id p = i)"
| "risk_stored_for i (RiskStored.Rejected outcome) = (rejected_prepared_intent_id outcome = i)"
| "risk_stored_for i (RiskStored.Terminal t) = (prepared_id (terminal_prepared t) = i)"
| "risk_stored_for i (RiskStored.Risk _) = False"
| "risk_stored_for i (RiskStored.Occurred _) = False"
| "risk_stored_for i (RiskStored.Closed _) = False"

definition reject_risk_fresh ::
  "'w risk_ports \<Rightarrow> RejectRiskPreparedIntent \<Rightarrow> ('w, DomainError, RejectedPreparedIntentOutcome) risk_method" where
  "reject_risk_fresh P c =
     (let x = reject_risk_context c in
      ebind (reads (\<lambda>s.
        if reject_risk_actor c \<noteq> AuditActor.HeadOfProducts \<or> \<not> risk_authorize P (risk_world s) (reject_risk_actor c)
        then Inl (risk_map_failure RiskFailure.Unauthorized x) else Inr ())) (\<lambda>_.
      ebind (reads (\<lambda>s.
        case hm_get (risk_prepared s) (reject_risk_prepared_id c) of
          Some intent \<Rightarrow> Inr intent
        | None \<Rightarrow>
            if list_ex (\<lambda>(_, v). risk_stored_for (reject_risk_prepared_id c) v) (hm_values (risk_idem s))
            then Inl (risk_map_failure RiskFailure.LifecycleConflict x)
            else Inl (risk_map_failure RiskFailure.NotFound x))) (\<lambda>intent.
      ebind (lift_result (ok_or (risk_map_failure RiskFailure.LifecycleConflict x) (rejected_risk_id intent))) (\<lambda>i.
      ebind (risk_read_clock P) (\<lambda>now.
      ebind (risk_next_id (risk_next_audit_event_id P) (risk_map_failure RiskFailure.Infrastructure x)) (\<lambda>aid.
      ebind (lift_result (ok_or (risk_map_failure RiskFailure.Infrastructure x)
        (prepared_intent_rejection_audit aid now RISK_PREPARED_REJECTED_AUDIT_CODE
          (AuditTarget.Risk i) (risk_correlation_id x)))) (\<lambda>audit.
      ebind (risk_take_commit_failure (risk_map_failure RiskFailure.Infrastructure x)) (\<lambda>_.
      ret \<lparr>rejected_prepared_intent_id = prepared_id intent, rejected_at = now,
           expired_at_rejection = (preview_expires_at (prepared_preview intent) \<le> now),
           rejected_audit_event = audit\<rparr>))))))))"

definition commit_risk_rejection ::
  "RejectRiskPreparedIntent \<Rightarrow> RejectedPreparedIntentOutcome
     \<Rightarrow> ('w, DomainError, RejectedPreparedIntentOutcome) risk_method" where
  "commit_risk_rejection c out s =
     (Inr out,
      s\<lparr>risk_prepared := hm_remove (reject_risk_prepared_id c) (risk_prepared s),
        risk_audits := risk_audits s @ [rejected_audit_event out],
        risk_idem := hm_insert (risk_idempotency_id (reject_risk_context c))
          (RiskSignature.RejectPrepared (reject_risk_prepared_id c) (reject_risk_actor c), RiskStored.Rejected out)
          (risk_idem s)\<rparr>)"

definition reject_risk_prepared_intent ::
  "'w risk_ports \<Rightarrow> RejectRiskPreparedIntent \<Rightarrow> ('w, DomainError, RejectedPreparedIntentOutcome) risk_method" where
  "reject_risk_prepared_intent P c =
     ebind (reads (risk_replay (reject_risk_context c)
       (RiskSignature.RejectPrepared (reject_risk_prepared_id c) (reject_risk_actor c)))) (\<lambda>stored.
     case stored of
       Some (RiskStored.Rejected out) \<Rightarrow> ret out
     | Some _ \<Rightarrow> throw (risk_map_failure RiskFailure.IdempotencyConflict (reject_risk_context c))
     | None \<Rightarrow> ebind (reject_risk_fresh P c) (commit_risk_rejection c))"

definition discard_risk_prepared_intent :: "entity_id \<Rightarrow> 'w risk_service \<Rightarrow> bool \<times> 'w risk_service" where
  "discard_risk_prepared_intent i s =
     (if hm_get (risk_prepared s) i \<noteq> None then (True, forget_prepared i s)
      else (False, s\<lparr>risk_prepared := hm_remove i (risk_prepared s)\<rparr>))"

definition inject_next_risk_commit_failure :: "'w risk_service \<Rightarrow> 'w risk_service" where
  "inject_next_risk_commit_failure s = s\<lparr>fail_next_risk_commit := True\<rparr>"

definition risk_service_new :: "'w \<Rightarrow> (entity_id \<times> IssueRecord) list \<Rightarrow> 'w risk_service" where
  "risk_service_new w authority =
     \<lparr>risk_world = w, issue_authority = authority, risks = [], risk_prepared = [], risk_idem = [],
      risk_audits = [], risk_links = [], fail_next_risk_commit = False\<rparr>"

text \<open>The Issue copies of the linked Issues, or none when the authority has lost one.\<close>

fun linked_issues ::
  "(entity_id \<times> IssueRecord) list \<Rightarrow> RiskIssueLink list \<Rightarrow> RiskRehydrationError + IssueRecord list" where
  "linked_issues authority [] = Inr []"
| "linked_issues authority (l # ls) =
     rbind (ok_or InvalidCreatedRisk (hm_get authority (link_issue_id l))) (\<lambda>x.
     rbind (linked_issues authority ls) (\<lambda>xs. Inr (x # xs)))"

definition persistence_snapshot_with_h2a :: "'w risk_service \<Rightarrow> RiskRehydrationError + RiskPersistenceSnapshot" where
  "persistence_snapshot_with_h2a s =
     (let links = sort_key (\<lambda>l. (link_risk_id l, link_issue_id l)) (risk_links s) in
      rbind (linked_issues (issue_authority s) links) (\<lambda>iss.
      RiskPersistenceSnapshot_try_new_with_h2a
        (sort_key risk_id (hm_values (risks s)))
        (sort_key issue_id iss) links
        (sort_key prepared_id (hm_values (risk_prepared s)))
        (sort_key entry_idempotency_id
          (map (\<lambda>(i, sig, v). \<lparr>entry_idempotency_id = i, entry_signature = sig, entry_stored = v\<rparr>) (risk_idem s)))
        (risk_audits s)))"

definition rehydrate_with_h2a_and_issue_authority ::
  "'w \<Rightarrow> RiskPersistenceSnapshot \<Rightarrow> (entity_id \<times> IssueRecord) list \<Rightarrow> RiskRehydrationError + 'w risk_service" where
  "rehydrate_with_h2a_and_issue_authority w snap authority =
     (if list_ex (\<lambda>x. hm_get authority (issue_id x) \<noteq> Some x) (snapshot_occurrence_issues snap)
      then Inl InvalidCreatedRisk
      else Inr \<lparr>risk_world = w, issue_authority = authority,
        risks = fold (\<lambda>r. hm_insert (risk_id r) r) (snapshot_risks snap) [],
        risk_prepared = fold (\<lambda>p. hm_insert (prepared_id p) p) (snapshot_risk_prepared snap) [],
        risk_idem = fold (\<lambda>e. hm_insert (entry_idempotency_id e) (entry_signature e, entry_stored e))
          (snapshot_replay snap) [],
        risk_audits = snapshot_audits snap, risk_links = snapshot_links snap,
        fail_next_risk_commit = False\<rparr>)"

section \<open>Commands\<close>

text \<open>
  Everything a caller can do to the service, and one more command that stands for everything outside
  it: the environment changes, and the Issue service puts another store in the shared authority.
\<close>

datatype 'w risk_command =
  Create_Risk CreateRisk
| Update_Response UpdateRiskResponse
| Prepare_Occurrence PrepareRecordRiskOccurrence
| Prepare_Close_Risk PrepareCloseRisk
| Prepare_Lower_Risk PrepareLowerRiskClassification
| Approve_Occurrence ApproveAndExecuteRisk
| Approve_Close_Risk ApproveAndExecuteRisk
| Approve_Lower_Risk ApproveAndExecuteRisk
| Reject_Risk RejectRiskPreparedIntent
| Discard_Risk entity_id
| Inject_Risk_Commit_Failure
| Risk_Environment 'w "(entity_id \<times> IssueRecord) list"

fun risk_step :: "'w risk_ports \<Rightarrow> 'w risk_command \<Rightarrow> 'w risk_service \<Rightarrow> 'w risk_service" where
  "risk_step P (Create_Risk c) s = snd (create_risk P c s)"
| "risk_step P (Update_Response c) s = snd (update_risk_response P c s)"
| "risk_step P (Prepare_Occurrence c) s = snd (prepare_record_risk_occurrence P c s)"
| "risk_step P (Prepare_Close_Risk c) s = snd (prepare_close_risk P c s)"
| "risk_step P (Prepare_Lower_Risk c) s = snd (prepare_lower_risk_classification P c s)"
| "risk_step P (Approve_Occurrence c) s = snd (approve_and_execute_record_risk_occurrence P c s)"
| "risk_step P (Approve_Close_Risk c) s = snd (approve_and_execute_close_risk P c s)"
| "risk_step P (Approve_Lower_Risk c) s = snd (approve_and_execute_lower_risk_classification P c s)"
| "risk_step P (Reject_Risk c) s = snd (reject_risk_prepared_intent P c s)"
| "risk_step P (Discard_Risk i) s = snd (discard_risk_prepared_intent i s)"
| "risk_step P Inject_Risk_Commit_Failure s = inject_next_risk_commit_failure s"
| "risk_step P (Risk_Environment w authority) s = s\<lparr>risk_world := w, issue_authority := authority\<rparr>"

end
