(* ===== verification/Risk_Events.thy ===== *)
theory Risk_Events
  imports Risk_Service
begin

text \<open>
  What the methods of the Risk service do to its state, method by method: the frames
  \<open>risk_unaudited\<close> (only the environment and the injected failure change) and \<open>risk_effectless\<close>
  (audits without effects may be added), the receipt an execution rests on, and for every method
  what it did when it succeeded. \<open>denied_terminally\<close> is the one failure that changes the state.
\<close>

section \<open>Frames\<close>

definition same_links :: "'w risk_service \<Rightarrow> 'w risk_service \<Rightarrow> bool" where
  "same_links s t \<longleftrightarrow> risk_links t = risk_links s \<and> issue_authority t = issue_authority s"

definition risk_unaudited :: "'w risk_service \<Rightarrow> 'w risk_service \<Rightarrow> bool" where
  "risk_unaudited s t \<longleftrightarrow> risks t = risks s \<and> risk_prepared t = risk_prepared s \<and>
     risk_idem t = risk_idem s \<and> risk_audits t = risk_audits s \<and> same_links s t"

definition risk_effectless :: "'w risk_service \<Rightarrow> 'w risk_service \<Rightarrow> bool" where
  "risk_effectless s t \<longleftrightarrow> risks t = risks s \<and> risk_prepared t = risk_prepared s \<and>
     risk_idem t = risk_idem s \<and> same_links s t \<and>
     (\<exists>es. risk_audits t = risk_audits s @ es \<and> list_all no_effect es)"

interpretation risk_unaudited: frame risk_unaudited
  by unfold_locales (simp_all add: risk_unaudited_def same_links_def)

interpretation risk_effectless: frame risk_effectless
  by unfold_locales (auto simp: risk_effectless_def same_links_def)

lemma risk_unaudited_effectless: "risk_unaudited s t \<Longrightarrow> risk_effectless s t"
  by (simp add: risk_unaudited_def risk_effectless_def)

lemma keeps_risk_world:
  "keeps risk_unaudited (risk_read_clock P)"
  "keeps risk_unaudited (risk_next_id source e)"
  "keeps risk_unaudited (risk_take_commit_failure e)"
  by (auto simp: keeps_def risk_read_clock_def risk_next_id_def risk_take_commit_failure_def
    risk_unaudited_def same_links_def split: prod.splits)

lemma ebind_risk_ports:
  "ebind (risk_read_clock P) f s =
     (case risk_clock_now P (risk_world s) of (t, w) \<Rightarrow> f t (s\<lparr>risk_world := w\<rparr>))"
  "ebind (risk_next_id source e) g s =
     (case source (risk_world s) of
        (Inl _, w) \<Rightarrow> (Inl e, s\<lparr>risk_world := w\<rparr>)
      | (Inr i, w) \<Rightarrow> g i (s\<lparr>risk_world := w\<rparr>))"
  by (simp_all add: ebind_def risk_read_clock_def risk_next_id_def map_err_def split: prod.splits sum.splits)

lemmas risk_unaudited_rules = risk_unaudited.keeps_ebind risk_unaudited.keeps_pure
  risk_unaudited.keeps_with_err keeps_risk_world

lemma keeps_risk_audit_as: "keeps risk_unaudited (risk_audit_as ao P target code c effect)"
proof (rule keepsI)
  fix s r t
  assume run: "risk_audit_as ao P target code c effect s = (r, t)"
  obtain x w where x: "risk_next_audit_event_id P (risk_world s) = (x, w)"
    by (cases "risk_next_audit_event_id P (risk_world s)")
  have world: "risk_unaudited s (s\<lparr>risk_world := w\<rparr>)" by (simp add: risk_unaudited_def same_links_def)
  have rest: "risk_unaudited (s\<lparr>risk_world := w\<rparr>) t'"
    if "ebind (lift_result a) (\<lambda>b. ebind (lift_result (d b)) (\<lambda>e. ebind (lift_result (f b e)) (\<lambda>g.
      ebind (risk_read_clock P) (\<lambda>now. ret (h b e g now))))) (s\<lparr>risk_world := w\<rparr>) = (r', t')"
    for a d f h r' t'
    using that by (rule keepsD [rotated]) (intro risk_unaudited_rules)
  from run x world show "risk_unaudited s t"
    unfolding risk_audit_as_def by (cases x) (auto dest!: rest intro: risk_unaudited.trans)
qed

lemma keeps_risk_audits:
  "keeps risk_unaudited (risk_audit P target code c effect)"
  "keeps risk_unaudited (risk_audit_h2 P target code c effect)"
  "keeps risk_unaudited (risk_h2_audit_or_fail P target code c)"
  unfolding risk_audit_def risk_audit_h2_def risk_h2_audit_or_fail_def
  by (intro keeps_risk_audit_as risk_unaudited_rules)+

lemma keeps_prepare_risk_intent: "keeps risk_unaudited (prepare_risk_intent P op class)"
  unfolding prepare_risk_intent_def by (intro risk_unaudited_rules)

lemma keeps_mint_risk_receipt: "keeps risk_unaudited (mint_risk_receipt P p op class a)"
  unfolding mint_risk_receipt_def by (intro risk_unaudited_rules)

lemma keeps_reject_risk_fresh: "keeps risk_unaudited (reject_risk_fresh P c)"
  unfolding reject_risk_fresh_def Let_def by (intro risk_unaudited_rules)

lemma keeps_risk_reads:
  "keeps risk_unaudited (stored_preview c)"
  "keeps risk_unaudited (previewed_risk i v b)"
  "keeps risk_unaudited (read_risk_classification P r i)"
  unfolding stored_preview_def previewed_risk_def read_risk_classification_def
  by (intro risk_unaudited_rules)+

section \<open>Audits\<close>

definition risk_mutation_audit ::
  "AuditEvent \<Rightarrow> AuditTarget \<Rightarrow> string \<Rightarrow> RiskOperationContext \<Rightarrow> AuditApprovalOutcome \<Rightarrow> bool" where
  "risk_mutation_audit a target code c approval \<longleftrightarrow>
     audit_code a = code \<and> audit_target a = target \<and>
     audit_actor a = AuditActor.HeadOfProducts \<and> audit_correlation_id a = risk_correlation_id c \<and>
     audit_policy_outcome a = AuditPolicyOutcome.Allowed \<and> audit_approval_outcome a = approval \<and>
     audit_execution_outcome a = AuditExecutionOutcome.Succeeded \<and>
     audit_effect_scope a = AuditEffectScope.Complete \<and> audit_actual_effects a = [code]"

lemma risk_audit_as_ok:
  "risk_audit_as ao P target code c True s = (Inr a, t) \<Longrightarrow> risk_mutation_audit a target code c ao"
  by (auto simp: risk_audit_as_def ebind_ok AuditDisposition_new_Inr_iff AuditEvent_new_def
    risk_mutation_audit_def AuditEventCode_parse_def AuditEffectCode_parse_def token_parse_Inr_iff
    map_sum_def split: sum.splits prod.splits)

lemma risk_audits_ok:
  "risk_audit P target code c True s = (Inr a, t) \<Longrightarrow>
     risk_mutation_audit a target code c AuditApprovalOutcome.NotRequired"
  "risk_h2_audit_or_fail P target code c s = (Inr a, t) \<Longrightarrow>
     risk_mutation_audit a target code c AuditApprovalOutcome.Approved"
  by (simp_all add: risk_audit_def risk_h2_audit_or_fail_def risk_audit_h2_def risk_audit_as_ok)

definition risk_denial_codes :: "string set" where
  "risk_denial_codes =
     {''risk.occurrence_denied'', ''risk.close_denied'', ''risk.classification_lowering_denied''}"

lemma risk_denial_codes_parse: "code \<in> risk_denial_codes \<Longrightarrow> AuditEventCode_parse code = Inr code"
proof -
  have "AuditEventCode_parse ''risk.occurrence_denied'' = Inr ''risk.occurrence_denied''"
    "AuditEventCode_parse ''risk.close_denied'' = Inr ''risk.close_denied''"
    "AuditEventCode_parse ''risk.classification_lowering_denied'' = Inr ''risk.classification_lowering_denied''"
    by code_simp+
  then show "code \<in> risk_denial_codes \<Longrightarrow> AuditEventCode_parse code = Inr code"
    unfolding risk_denial_codes_def by blast
qed

text \<open>A failure audit either cannot get an identifier or adds exactly one audit.\<close>

definition failure_audit_of ::
  "AuditEvent \<Rightarrow> entity_id \<Rightarrow> string \<Rightarrow> RiskOperationContext
     \<Rightarrow> AuditPolicyOutcome \<times> AuditApprovalOutcome \<times> AuditExecutionOutcome \<Rightarrow> bool" where
  "failure_audit_of a target code c outcomes \<longleftrightarrow>
     no_effect a \<and> audit_code a = code \<and> audit_target a = AuditTarget.Risk target \<and>
     audit_actor a = AuditActor.HeadOfProducts \<and> audit_correlation_id a = risk_correlation_id c \<and>
     (audit_policy_outcome a, audit_approval_outcome a, audit_execution_outcome a) = outcomes"

lemma push_failure_audit_result:
  assumes "push_failure_audit P target code c outcomes s = (r, t)" and "code \<in> risk_denial_codes"
    and "outcomes = risk_failure_outcomes f \<or>
      outcomes = (po, AuditApprovalOutcome.NotRequired, AuditExecutionOutcome.NotAttempted)"
  shows "risks t = risks s \<and> risk_prepared t = risk_prepared s \<and> risk_idem t = risk_idem s \<and> same_links s t \<and>
    (r = Inl (risk_err PlatformInternal ''audit.failed'' c) \<and> risk_audits t = risk_audits s \<or>
     (\<exists>a. r = Inr a \<and> risk_audits t = risk_audits s @ [a] \<and> failure_audit_of a target code c outcomes))"
proof -
  obtain p a e where out: "outcomes = (p, a, e)" by (cases outcomes)
  have disposition: "AuditDisposition_new p a e AuditEffectScope.ScopeNone [] =
       Inr \<lparr>policy_outcome = p, approval_outcome = a, execution_outcome = e,
            effect_scope = AuditEffectScope.ScopeNone, actual_effects = []\<rparr>"
    using assms(3) unfolding out by (cases f) (auto simp: AuditDisposition_new_Inr_iff)
  show ?thesis
    using assms(1)
    by (auto simp: push_failure_audit_def out disposition risk_denial_codes_parse [OF assms(2)] ebind_def
      risk_next_id_def risk_read_clock_def AuditEvent_new_def no_effect_def failure_audit_of_def
      same_links_def map_err_Inl_iff Let_def split: prod.splits sum.splits)
qed

section \<open>The receipt an execution rests on\<close>

text \<open>
  The moment at which an approval is judged: the second reading of the clock, after the one the
  fresh preview is built with; authorization is asked for last, after the receipt is named.
\<close>

definition risk_execution_time :: "'w risk_ports \<Rightarrow> 'w \<Rightarrow> UtcTimestamp" where
  "risk_execution_time P w = fst (risk_clock_now P (snd (risk_clock_now P w)))"

definition risk_receipt_draw :: "'w risk_ports \<Rightarrow> 'w \<Rightarrow> (DomainValueError + entity_id) \<times> 'w" where
  "risk_receipt_draw P w =
     risk_next_approval_receipt_id P (snd (risk_clock_now P (snd (risk_clock_now P w))))"

definition risk_approved ::
  "'w risk_ports \<Rightarrow> 'w \<Rightarrow> WorkManagementPreparedIntent \<Rightarrow> WorkManagementApproval \<Rightarrow> bool" where
  "risk_approved P w p a \<longleftrightarrow>
     approval_prepared_id a = prepared_id p \<and> approval_actor a = AuditActor.HeadOfProducts \<and>
     risk_authorize P (snd (risk_receipt_draw P w)) AuditActor.HeadOfProducts \<and>
     acknowledged_payload_digest a = prepared_payload_digest p \<and>
     risk_execution_time P w < preview_expires_at (prepared_preview p) \<and>
     risk_current_policy P w (prepared_operation p) = RiskExecutionPolicy.Allowed"

lemma mint_risk_receipt_iff:
  "mint_risk_receipt P p op class a s = (Inr receipt, t) \<longleftrightarrow>
    risk_approved P (risk_world s) p a \<and> op = prepared_operation p \<and>
    class = preview_classification (prepared_preview p) \<and> preview_support (prepared_preview p) = None \<and>
    (\<exists>fresh. prepare (risk_sha256_hex P) (prepared_id p) op class None (fst (risk_clock_now P (risk_world s))) =
        Inr fresh \<and>
      preview_classification_sources (prepared_preview fresh) =
        preview_classification_sources (prepared_preview p)) \<and>
    (\<exists>rid. fst (risk_receipt_draw P (risk_world s)) = Inr rid \<and>
      receipt = \<lparr>receipt_id = rid, receipt_prepared_id = prepared_id p,
        receipt_digest = prepared_payload_digest p, receipt_expires_at = preview_expires_at (prepared_preview p),
        receipt_actor = AuditActor.HeadOfProducts, receipt_idempotency_id = approval_idempotency_id a\<rparr>) \<and>
    t = s\<lparr>risk_world := snd (risk_receipt_draw P (risk_world s))\<rparr>"
proof -
  obtain t1 w1 where clock1: "risk_clock_now P (risk_world s) = (t1, w1)"
    by (cases "risk_clock_now P (risk_world s)")
  obtain now w2 where clock2: "risk_clock_now P w1 = (now, w2)" by (cases "risk_clock_now P w1")
  obtain ridr w3 where rid: "risk_next_approval_receipt_id P w2 = (ridr, w3)"
    by (cases "risk_next_approval_receipt_id P w2")
  have policy: "risk_current_policy P (risk_world s) op = RiskExecutionPolicy.Denied \<longleftrightarrow>
      risk_current_policy P (risk_world s) op \<noteq> RiskExecutionPolicy.Allowed"
    by (cases "risk_current_policy P (risk_world s) op") simp_all
  show ?thesis
  proof (cases "prepare (risk_sha256_hex P) (prepared_id p) op class None t1")
    case (Inl e)
    then show ?thesis
      by (simp add: mint_risk_receipt_def ebind_run ebind_risk_ports clock1)
  next
    case (Inr fresh)
    then show ?thesis
      by (cases ridr)
        (auto simp: mint_risk_receipt_def ebind_run ebind_risk_ports clock1 clock2 rid policy reads_def
          validate_Inr_iff expected_snapshot_def risk_approved_def risk_execution_time_def
          risk_receipt_draw_def split: if_splits)
  qed
qed

section \<open>Executions\<close>

text \<open>
  What every execution that succeeded rests on: a stored preview of this Risk at this version,
  approved now, whose classification is the one the authority gives now.
\<close>

definition executes ::
  "'w risk_ports \<Rightarrow> 'w risk_service \<Rightarrow> ApproveAndExecuteRisk \<Rightarrow> WorkManagementPreparedIntent
     \<Rightarrow> entity_id \<Rightarrow> RiskRecord \<Rightarrow> AggregateVersion \<Rightarrow> bool" where
  "executes P s c p i r version \<longleftrightarrow>
     hm_get (risk_prepared s) (approval_prepared_id (risk_approval c)) = Some p \<and>
     risk_approved P (risk_world s) p (risk_approval c) \<and>
     hm_get (risks s) i = Some r \<and> AggregateVersion_next (risk_version r) = Some version \<and>
     risk_current_classification P (risk_world s) i (risk_classification r) =
       Inr (preview_classification (prepared_preview p))"

text \<open>One Risk is installed, and one preview consumed, under an idempotency key.\<close>

definition risk_committed ::
  "entity_id option \<Rightarrow> operation_id \<Rightarrow> RiskSignature \<Rightarrow> RiskStored \<Rightarrow> RiskRecord \<Rightarrow> AuditEvent list
     \<Rightarrow> 'w risk_service \<Rightarrow> 'w risk_service \<Rightarrow> bool" where
  "risk_committed consumed k sig v r as s t \<longleftrightarrow>
     risks t = hm_insert (risk_id r) r (risks s) \<and>
     risk_prepared t = (case consumed of None \<Rightarrow> risk_prepared s | Some p \<Rightarrow> hm_remove p (risk_prepared s)) \<and>
     risk_idem t = hm_insert k (sig, v) (risk_idem s) \<and>
     risk_audits t = risk_audits s @ as"

lemma install_risk_committed:
  "install_risk sig c r a s = (x, t) \<longleftrightarrow>
     x = Inr \<lparr>mutated_record = r, mutated_audit_events = [a], mutated_receipt_id = None\<rparr> \<and>
     t = s\<lparr>risks := hm_insert (risk_id r) r (risks s), risk_audits := risk_audits s @ [a],
           risk_idem := hm_insert (risk_idempotency_id c) (sig, RiskStored.Risk
             \<lparr>mutated_record = r, mutated_audit_events = [a], mutated_receipt_id = None\<rparr>) (risk_idem s)\<rparr>"
  by (auto simp: install_risk_def Let_def)

lemma risk_committed_after:
  "risk_unaudited s s1 \<Longrightarrow> risk_committed consumed k sig v r as s1 t \<Longrightarrow> same_links s1 t \<Longrightarrow>
     risk_committed consumed k sig v r as s t \<and> same_links s t"
  by (simp add: risk_committed_def risk_unaudited_def same_links_def split: option.splits)

lemma previewed_risk_ok:
  "previewed_risk i v must_be_open s = (Inr r, t) \<longleftrightarrow>
     t = s \<and> hm_get (risks s) i = Some r \<and> risk_version r = v \<and>
     (must_be_open \<longrightarrow> risk_state r = RiskState.Open)"
  by (auto simp: previewed_risk_def ebind_ok)

lemma execution_reads_ok:
  "stored_preview c s = (Inr p, t) \<longleftrightarrow>
     t = s \<and> hm_get (risk_prepared s) (approval_prepared_id (risk_approval c)) = Some p"
  "read_risk_classification P r i s = (Inr class, t') \<longleftrightarrow>
     t' = s \<and> risk_current_classification P (risk_world s) i (risk_classification r) = Inr class"
  by (auto simp: stored_preview_def read_risk_classification_def)

lemma finish_risk_mutation_ok:
  assumes "finish_risk_mutation P store c p receipt i r code s = (Inr out, t)"
  shows "\<exists>a. risk_mutation_audit a (AuditTarget.Risk i) code (risk_execute_context c) AuditApprovalOutcome.Approved \<and>
    out = \<lparr>mutated_record = r, mutated_audit_events = [a], mutated_receipt_id = Some (receipt_id receipt)\<rparr> \<and>
    risk_committed (Some (prepared_id p)) (risk_idempotency_id (risk_execute_context c))
      (execution_signature (risk_approval c)) (store out) r [a] s t \<and> same_links s t"
proof -
  from assms obtain a u s1 s2 where
    a: "risk_h2_audit_or_fail P (AuditTarget.Risk i) code (risk_execute_context c) s = (Inr a, s1)"
    and u: "risk_take_commit_failure RiskFailure.Infrastructure s1 = (Inr u, s2)"
    and out: "out = \<lparr>mutated_record = r, mutated_audit_events = [a],
      mutated_receipt_id = Some (receipt_id receipt)\<rparr>"
    and t: "risk_committed (Some (prepared_id p)) (risk_idempotency_id (risk_execute_context c))
      (execution_signature (risk_approval c)) (store out) r [a] s2 t" "same_links s2 t"
    by (auto simp: finish_risk_mutation_def ebind_ok commit_risk_mutation_def risk_committed_def same_links_def)
  have "risk_unaudited s s2"
    using keepsD [OF keeps_risk_audits(3) a] keepsD [OF keeps_risk_world(3) u] by (rule risk_unaudited.trans)
  with risk_committed_after [OF this t] risk_audits_ok(2) [OF a] out show ?thesis by blast
qed

definition mutates ::
  "'w risk_ports \<Rightarrow> 'w risk_service \<Rightarrow> ApproveAndExecuteRisk \<Rightarrow> WorkManagementPreparedIntent \<Rightarrow> entity_id
     \<Rightarrow> RiskRecord \<Rightarrow> AggregateVersion \<Rightarrow> RiskRecord \<Rightarrow> string \<Rightarrow> (RiskMutationOutcome \<Rightarrow> RiskStored)
     \<Rightarrow> RiskMutationOutcome \<Rightarrow> 'w risk_service \<Rightarrow> bool" where
  "mutates P s c p i r version r' code store out t \<longleftrightarrow>
     executes P s c p i r version \<and>
     (\<exists>a. risk_mutation_audit a (AuditTarget.Risk i) code (risk_execute_context c) AuditApprovalOutcome.Approved \<and>
        out = \<lparr>mutated_record = r', mutated_audit_events = [a],
          mutated_receipt_id = Some (projr (fst (risk_receipt_draw P (risk_world s))))\<rparr> \<and>
        risk_committed (Some (prepared_id p)) (risk_idempotency_id (risk_execute_context c))
          (execution_signature (risk_approval c)) (store out) r' [a] s t) \<and>
     same_links s t"

lemma mutates_ok:
  assumes p: "hm_get (risk_prepared s) (approval_prepared_id (risk_approval c)) = Some p"
    and r: "hm_get (risks s) i = Some r"
    and cls: "risk_current_classification P (risk_world s) i (risk_classification r) = Inr class"
    and mint: "mint_risk_receipt P p op class (risk_approval c) s = (Inr receipt, s1)"
    and version: "AggregateVersion_next (risk_version r) = Some version"
    and finish: "finish_risk_mutation P store c p receipt i r' code s1 = (Inr out, t)"
  shows "mutates P s c p i r version r' code store out t \<and> prepared_operation p = op"
proof -
  note minted = mint [unfolded mint_risk_receipt_iff]
  from minted have receipt: "receipt_id receipt = projr (fst (risk_receipt_draw P (risk_world s)))" by auto
  from finish_risk_mutation_ok [OF finish] obtain a where
    a: "risk_mutation_audit a (AuditTarget.Risk i) code (risk_execute_context c) AuditApprovalOutcome.Approved"
      "out = \<lparr>mutated_record = r', mutated_audit_events = [a], mutated_receipt_id = Some (receipt_id receipt)\<rparr>"
    and t: "risk_committed (Some (prepared_id p)) (risk_idempotency_id (risk_execute_context c))
      (execution_signature (risk_approval c)) (store out) r' [a] s1 t" "same_links s1 t" by blast
  have "executes P s c p i r version"
    using p minted r cls version by (simp add: executes_def)
  with a risk_committed_after [OF keepsD [OF keeps_mint_risk_receipt mint] t] receipt
  have "mutates P s c p i r version r' code store out t" unfolding mutates_def by auto
  then show ?thesis using minted by simp
qed

definition closes ::
  "'w risk_ports \<Rightarrow> 'w risk_service \<Rightarrow> ApproveAndExecuteRisk \<Rightarrow> WorkManagementPreparedIntent \<Rightarrow> entity_id
     \<Rightarrow> RiskRecord \<Rightarrow> AggregateVersion \<Rightarrow> RiskMutationOutcome \<Rightarrow> 'w risk_service \<Rightarrow> bool" where
  "closes P s c p i r version out t \<longleftrightarrow>
     (\<exists>rationale. prepared_operation p = WorkManagementOperation.CloseRisk i (risk_version r) rationale) \<and>
     risk_state r = RiskState.Open \<and>
     mutates P s c p i r version
       (r\<lparr>risk_state := RiskState.Closed, in_exception_queue := False, risk_version := version\<rparr>)
       ''risk.closed'' RiskStored.Closed out t"

definition lowers ::
  "'w risk_ports \<Rightarrow> 'w risk_service \<Rightarrow> ApproveAndExecuteRisk \<Rightarrow> WorkManagementPreparedIntent \<Rightarrow> entity_id
     \<Rightarrow> RiskRecord \<Rightarrow> AggregateVersion \<Rightarrow> DataClassification \<Rightarrow> RiskMutationOutcome \<Rightarrow> 'w risk_service \<Rightarrow> bool" where
  "lowers P s c p i r version proposed out t \<longleftrightarrow>
     (\<exists>rationale. prepared_operation p = WorkManagementOperation.LowerRiskClassification i (risk_version r)
        (preview_classification (prepared_preview p)) proposed rationale) \<and>
     mutates P s c p i r version (r\<lparr>risk_classification := proposed, risk_version := version\<rparr>)
       ''risk.classification_lowered'' RiskStored.Risk out t"

lemma close_fresh_ok:
  assumes "close_fresh P c s = (Inr out, t)"
  shows "\<exists>p i r version. closes P s c p i r version out t"
proof -
  from assms obtain p i v rationale r cls receipt version s1 where
    p: "hm_get (risk_prepared s) (approval_prepared_id (risk_approval c)) = Some p"
    and r: "hm_get (risks s) i = Some r" "risk_state r = RiskState.Open"
    and rest: "risk_current_classification P (risk_world s) i (risk_classification r) = Inr cls"
      "mint_risk_receipt P p (WorkManagementOperation.CloseRisk i (risk_version r) rationale) cls
        (risk_approval c) s = (Inr receipt, s1)"
      "AggregateVersion_next (risk_version r) = Some version"
      "finish_risk_mutation P RiskStored.Closed c p receipt i
        (r\<lparr>risk_state := RiskState.Closed, in_exception_queue := False, risk_version := version\<rparr>)
        ''risk.closed'' s1 = (Inr out, t)"
    unfolding close_fresh_def ebind_ok execution_reads_ok
    by (elim exE conjE)
      (auto simp: ebind_ok execution_reads_ok previewed_risk_ok split: WorkManagementOperation.split_asm)
  from mutates_ok [OF p r(1) rest] r(2) show ?thesis by (auto simp: closes_def)
qed

lemma lower_fresh_ok:
  assumes "lower_fresh P c s = (Inr out, t)"
  shows "\<exists>p i r version proposed. lowers P s c p i r version proposed out t"
proof -
  from assms obtain p i v current proposed rationale r cls receipt version s1 where
    p: "hm_get (risk_prepared s) (approval_prepared_id (risk_approval c)) = Some p"
    and r: "hm_get (risks s) i = Some r"
    and rest: "risk_current_classification P (risk_world s) i (risk_classification r) = Inr cls"
      "mint_risk_receipt P p (WorkManagementOperation.LowerRiskClassification i (risk_version r) cls
        proposed rationale) cls (risk_approval c) s = (Inr receipt, s1)"
      "AggregateVersion_next (risk_version r) = Some version"
      "finish_risk_mutation P RiskStored.Risk c p receipt i
        (r\<lparr>risk_classification := proposed, risk_version := version\<rparr>)
        ''risk.classification_lowered'' s1 = (Inr out, t)"
    unfolding lower_fresh_def ebind_ok execution_reads_ok
    by (elim exE conjE)
      (auto simp: ebind_ok execution_reads_ok previewed_risk_ok split: WorkManagementOperation.split_asm)
  have "cls = preview_classification (prepared_preview p)"
    using rest(2) by (simp add: mint_risk_receipt_iff)
  with mutates_ok [OF p r rest] have "lowers P s c p i r version proposed out t" by (simp add: lowers_def)
  then show ?thesis by blast
qed

text \<open>The occurrence: the Risk, the new Issue, their link and three audits, together.\<close>

definition occurrence_link :: "RiskRecord \<Rightarrow> RiskRecord \<Rightarrow> entity_id \<Rightarrow> RiskIssueLink" where
  "occurrence_link r r' iid =
     \<lparr>link_risk_id = risk_id r', link_issue_id = iid, link_risk_version = risk_version r',
      link_issue_version = AggregateVersion_initial, link_classification = risk_classification r\<rparr>"

definition occurrence_audits :: "entity_id \<Rightarrow> entity_id \<Rightarrow> RiskOperationContext \<Rightarrow> AuditEvent list \<Rightarrow> bool" where
  "occurrence_audits i iid c as \<longleftrightarrow>
     (\<exists>a1 a2 a3. as = [a1, a2, a3] \<and>
        risk_mutation_audit a1 (AuditTarget.Risk i) ''risk.occurred'' c AuditApprovalOutcome.Approved \<and>
        risk_mutation_audit a2 (AuditTarget.Issue iid) ''issue.created_from_risk'' c AuditApprovalOutcome.Approved \<and>
        risk_mutation_audit a3 (AuditTarget.Risk i) ''risk.issue_linked'' c AuditApprovalOutcome.Approved)"

definition occurs ::
  "'w risk_ports \<Rightarrow> 'w risk_service \<Rightarrow> ApproveAndExecuteRisk \<Rightarrow> WorkManagementPreparedIntent \<Rightarrow> entity_id
     \<Rightarrow> RiskRecord \<Rightarrow> AggregateVersion \<Rightarrow> entity_id \<Rightarrow> OccurredRiskOutcome \<Rightarrow> 'w risk_service \<Rightarrow> bool" where
  "occurs P s c p i r version iid out t \<longleftrightarrow>
     executes P s c p i r version \<and>
     prepared_operation p = WorkManagementOperation.RecordRiskOccurrence i (risk_version r) iid
       (preview_classification (prepared_preview p)) \<and>
     risk_state r = RiskState.Open \<and> hm_get (issue_authority s) iid = None \<and>
     occurred_risk out = r\<lparr>risk_state := RiskState.Occurred, risk_version := version\<rparr> \<and>
     occurred_issue out =
       IssueRecord_from_risk iid i (risk_title r) (risk_details r) (risk_classification r) \<and>
     occurrence_audits i iid (risk_execute_context c) (occurred_audit_events out) \<and>
     occurred_receipt_id out = projr (fst (risk_receipt_draw P (risk_world s))) \<and>
     risk_committed (Some (prepared_id p)) (risk_idempotency_id (risk_execute_context c))
       (execution_signature (risk_approval c)) (RiskStored.Occurred out) (occurred_risk out)
       (occurred_audit_events out) s t \<and>
     risk_links t = risk_links s @ [occurrence_link r (occurred_risk out) iid] \<and>
     issue_authority t = hm_insert iid (occurred_issue out) (issue_authority s)"

lemma RiskIssueStage_ok:
  "RiskIssueStage_prepare m x = Inr staged \<longleftrightarrow> hm_get m (issue_id x) = None \<and> staged = hm_insert (issue_id x) x m"
  "RiskIssueStage_preflight (hm_insert (issue_id x) x m) x = Inr ()"
  by (auto simp: RiskIssueStage_prepare_def RiskIssueStage_preflight_def)

lemma issue_from_risk_fields [simp]:
  "issue_id (IssueRecord_from_risk iid i title details class) = iid"
  "issue_version (IssueRecord_from_risk iid i title details class) = AggregateVersion_initial"
  by (simp_all add: IssueRecord_from_risk_def IssueRecord_new_def)

lemma occurrence_fresh_ok:
  assumes "occurrence_fresh P c s = (Inr out, t)"
  shows "\<exists>p i r version iid. occurs P s c p i r version iid out t"
proof -
  let ?a = "risk_approval c" and ?x = "risk_execute_context c"
  from assms obtain p i v iid recorded r cls receipt version staged a1 a2 a3 u s1 s2 s3 s4 s5 where
    p: "hm_get (risk_prepared s) (approval_prepared_id ?a) = Some p"
    and op: "prepared_operation p = WorkManagementOperation.RecordRiskOccurrence i v iid recorded"
    and r: "hm_get (risks s) i = Some r" "risk_version r = v" "risk_state r = RiskState.Open"
    and cls: "risk_current_classification P (risk_world s) i (risk_classification r) = Inr cls"
    and mint: "mint_risk_receipt P p
      (WorkManagementOperation.RecordRiskOccurrence i (risk_version r) iid cls) cls ?a s = (Inr receipt, s1)"
    and version: "AggregateVersion_next (risk_version r) = Some version"
    and staged: "RiskIssueStage_prepare (issue_authority s1)
      (IssueRecord_from_risk iid i (risk_title r) (risk_details r) (risk_classification r)) = Inr staged"
    and a1: "risk_h2_audit_or_fail P (AuditTarget.Risk i) ''risk.occurred'' ?x s1 = (Inr a1, s2)"
    and a2: "risk_h2_audit_or_fail P (AuditTarget.Issue iid) ''issue.created_from_risk'' ?x s2 = (Inr a2, s3)"
    and a3: "risk_h2_audit_or_fail P (AuditTarget.Risk i) ''risk.issue_linked'' ?x s3 = (Inr a3, s4)"
    and u: "risk_take_commit_failure RiskFailure.Infrastructure s4 = (Inr u, s5)"
    and commit: "commit_occurrence c
      \<lparr>occurred_risk = r\<lparr>risk_state := RiskState.Occurred, risk_version := version\<rparr>,
       occurred_issue = IssueRecord_from_risk iid i (risk_title r) (risk_details r) (risk_classification r),
       occurred_audit_events = [a1, a2, a3], occurred_receipt_id = receipt_id receipt\<rparr>
      staged (prepared_id p) (risk_classification r) s5 = (Inr out :: RiskFailure + OccurredRiskOutcome, t)"
    unfolding occurrence_fresh_def Let_def ebind_ok execution_reads_ok
    by (elim exE conjE)
      (auto simp: ebind_ok execution_reads_ok previewed_risk_ok split: WorkManagementOperation.split_asm)
  note minted = mint [unfolded mint_risk_receipt_iff]
  have "risk_unaudited s s1" using keepsD [OF keeps_mint_risk_receipt mint] .
  moreover have "risk_unaudited s1 s5"
    using keepsD [OF keeps_risk_audits(3) a1] keepsD [OF keeps_risk_audits(3) a2]
      keepsD [OF keeps_risk_audits(3) a3] keepsD [OF keeps_risk_world(3) u] risk_unaudited.trans by blast
  ultimately have same: "risk_unaudited s s5" "issue_authority s1 = issue_authority s"
    by (auto simp: risk_unaudited_def same_links_def)
  have "executes P s c p i r version"
    using p minted r cls version by (simp add: executes_def)
  moreover have "occurrence_audits i iid ?x [a1, a2, a3]"
    using risk_audits_ok(2) [OF a1] risk_audits_ok(2) [OF a2] risk_audits_ok(2) [OF a3]
    by (simp add: occurrence_audits_def)
  moreover from commit have out: "out =
      \<lparr>occurred_risk = r\<lparr>risk_state := RiskState.Occurred, risk_version := version\<rparr>,
       occurred_issue = IssueRecord_from_risk iid i (risk_title r) (risk_details r) (risk_classification r),
       occurred_audit_events = [a1, a2, a3], occurred_receipt_id = receipt_id receipt\<rparr>"
    by (simp add: commit_occurrence_def Let_def)
  ultimately have "occurs P s c p i r version iid out t"
    using commit same op r minted staged
    by (auto simp: occurs_def commit_occurrence_def Let_def RiskIssueStage_ok risk_committed_def
      risk_unaudited_def same_links_def occurrence_link_def)
  then show ?thesis by blast
qed

section \<open>Failed executions\<close>

lemmas risk_errs_rules = risk_unaudited.errs_within_ebind risk_unaudited.errs_within_throw
  risk_unaudited.keeps_pure keeps_risk_reads keeps_mint_risk_receipt keeps_risk_audits keeps_risk_world

lemma errs_within_commit:
  "errs_within R (commit_risk_mutation store c out consumed)"
  "errs_within R (commit_occurrence c out' staged consumed cls)"
  by (simp_all add: errs_within_def commit_risk_mutation_def commit_occurrence_def Let_def)

lemma errs_within_operation:
  "(\<And>i v rationale. errs_within R (f i v rationale)) \<Longrightarrow> errs_within R z \<Longrightarrow>
     errs_within R (case op of WorkManagementOperation.CloseRisk i v rationale \<Rightarrow> f i v rationale | _ \<Rightarrow> z)"
  "(\<And>i v iid cls. errs_within R (g i v iid cls)) \<Longrightarrow> errs_within R z \<Longrightarrow>
     errs_within R (case op of WorkManagementOperation.RecordRiskOccurrence i v iid cls \<Rightarrow> g i v iid cls | _ \<Rightarrow> z)"
  "(\<And>i v current proposed rationale. errs_within R (h i v current proposed rationale)) \<Longrightarrow> errs_within R z \<Longrightarrow>
     errs_within R (case op of WorkManagementOperation.LowerRiskClassification i v current proposed rationale \<Rightarrow>
       h i v current proposed rationale | _ \<Rightarrow> z)"
  by (simp_all split: WorkManagementOperation.split)

lemma errs_within_finish: "errs_within risk_unaudited (finish_risk_mutation P store c p receipt i r code)"
  unfolding finish_risk_mutation_def by (intro risk_errs_rules errs_within_commit)

lemma errs_within_fresh:
  "errs_within risk_unaudited (close_fresh P c)"
  "errs_within risk_unaudited (lower_fresh P c)"
  "errs_within risk_unaudited (occurrence_fresh P c)"
  unfolding close_fresh_def lower_fresh_def occurrence_fresh_def Let_def
  by (intro risk_errs_rules errs_within_commit errs_within_finish errs_within_operation)+

end
