(* ===== verification/Risk_Refinement.thy ===== *)
theory Risk_Refinement
  imports Risk_Events "HOL-Library.Sublist"
begin

text \<open>
  The Risk service as an abstract machine. \<open>risk_event\<close> lists what can happen to its state: a Risk is
  created or responded to, a preview is stored, executed as an occurrence, a closure or a lowering,
  rejected, discarded or denied for good, or nothing happens. Every command is one of these events;
  the invariant and the history of the service are proved over the events and carried to runs by the
  locale \<open>monotone_system\<close>.
\<close>

section \<open>Executions, traced\<close>

definition risk_replaceable :: "operation_id \<Rightarrow> RiskSignature \<Rightarrow> 'w risk_service \<Rightarrow> bool" where
  "risk_replaceable k sig s \<longleftrightarrow>
     (case hm_get (risk_idem s) k of
        None \<Rightarrow> True
      | Some (sig', v) \<Rightarrow> sig' = sig \<and> terminal_of v = None)"

definition denied_terminally ::
  "'w risk_service \<Rightarrow> ApproveAndExecuteRisk \<Rightarrow> string \<Rightarrow> WorkManagementPreparedIntent \<Rightarrow> AuditEvent
     \<Rightarrow> 'w risk_service \<Rightarrow> bool" where
  "denied_terminally s c code p a t \<longleftrightarrow>
     (let i = approval_prepared_id (risk_approval c); x = risk_execute_context c in
      hm_get (risk_prepared s) i = Some p \<and>
      failure_audit_of a (case prepared_risk_target i s of Some r \<Rightarrow> r | None \<Rightarrow> ''risk-unknown'') code x
        (AuditPolicyOutcome.Denied, AuditApprovalOutcome.NotRequired, AuditExecutionOutcome.NotAttempted) \<and>
      risks t = risks s \<and> same_links s t \<and> risk_audits t = risk_audits s @ [a] \<and>
      risk_prepared t = hm_remove i (risk_prepared s) \<and>
      risk_idem t = hm_insert (risk_idempotency_id x)
        (execution_signature (risk_approval c), RiskStored.Terminal \<lparr>terminal_prepared = p,
           terminal_error = risk_map_failure RiskFailure.PolicyDenied x, terminal_audit = a\<rparr>)
        (hm_retain (\<lambda>(_, v). \<not> risk_stored_prepared_for i v) (risk_idem s)))"

lemma replayed_terminal_error_None:
  "replayed_terminal_error a c s = Inr None \<longleftrightarrow>
     risk_replaceable (risk_idempotency_id c) (execution_signature a) s"
  by (auto simp: replayed_terminal_error_def risk_replaceable_def
    split: option.splits prod.splits RiskStored.splits)

lemma execute_replayed_cases:
  assumes "execute_replayed outcome c fresh s = (r, t)"
  shows "(t = s \<and> (r = Inl RiskFailure.Conflict \<or> r = Inl RiskFailure.IdempotencyConflict)) \<or>
    (\<exists>v stored. r = Inr v \<and> t = s \<and> outcome stored = Some v \<and>
      risk_replay (risk_execute_context c) (execution_signature (risk_approval c)) s = Inr (Some stored)) \<or>
    (fresh s = (r, t) \<and>
      approval_idempotency_id (risk_approval c) = risk_idempotency_id (risk_execute_context c))"
  using assms
  by (cases "risk_replay (risk_execute_context c) (execution_signature (risk_approval c)) s")
    (auto simp: execute_replayed_def ebind_run ret_def bind_eq_Some_conv split: if_splits option.splits)

lemma risk_execution_err:
  "execute_occurrence P c s = (Inl f, t) \<Longrightarrow> risk_unaudited s t"
  "execute_close P c s = (Inl f, t) \<Longrightarrow> risk_unaudited s t"
  "execute_lower_risk_classification P c s = (Inl f, t) \<Longrightarrow> risk_unaudited s t"
  unfolding execute_occurrence_def execute_close_def execute_lower_risk_classification_def
  by (auto dest!: execute_replayed_cases
    dest: errs_within_fresh [THEN errs_withinD] intro: risk_unaudited.refl)

lemma risk_traced_Inr:
  "risk_traced P code c run s = ((Inr v, d), t) \<longleftrightarrow>
     \<not> d \<and> run s = (Inr v, t) \<and>
     risk_replaceable (risk_idempotency_id (risk_execute_context c)) (execution_signature (risk_approval c)) s"
  unfolding replayed_terminal_error_None [symmetric]
  by (auto simp: risk_traced_def Let_def split: sum.splits option.splits prod.splits)

lemma risk_traced_Inl:
  assumes run: "risk_traced P code c run s = ((Inl e, d), t)" and code: "code \<in> risk_denial_codes"
    and err: "\<And>f s1. run s = (Inl f, s1) \<Longrightarrow> risk_unaudited s s1"
  shows "(risk_effectless s t \<and> (d \<longrightarrow> hm_get (risk_prepared s) (approval_prepared_id (risk_approval c)) = None)) \<or>
    (\<exists>p a. d \<and> e = risk_map_failure RiskFailure.PolicyDenied (risk_execute_context c) \<and>
    denied_terminally s c code p a t \<and>
    risk_replaceable (risk_idempotency_id (risk_execute_context c)) (execution_signature (risk_approval c)) s)"
proof (cases "replayed_terminal_error (risk_approval c) (risk_execute_context c) s = Inr None")
  case False
  with run have "t = s \<and> \<not> d" by (auto simp: risk_traced_def Let_def split: sum.splits option.splits)
  then show ?thesis by (simp add: risk_effectless.refl)
next
  case fresh: True
  let ?i = "approval_prepared_id (risk_approval c)" and ?x = "risk_execute_context c"
  obtain f s1 where f: "run s = (Inl f, s1)"
    using run fresh by (auto simp: risk_traced_def Let_def split: sum.splits prod.splits)
  note same = err [OF f]
  let ?target = "case prepared_risk_target ?i s of Some r \<Rightarrow> r | None \<Rightarrow> ''risk-unknown''"
  obtain q s2 where q: "push_failure_audit P ?target code ?x (risk_failure_outcomes f) s1 = (q, s2)"
    by (cases "push_failure_audit P ?target code ?x (risk_failure_outcomes f) s1")
  note audited = push_failure_audit_result [OF q code, of f]
  show ?thesis
  proof (cases q)
    case (Inl e')
    with run fresh f q have "t = s2 \<and> \<not> d" by (simp add: risk_traced_def Let_def record_execution_failure_audit_def)
    with audited Inl same show ?thesis
      by (auto simp: risk_effectless_def risk_unaudited_def same_links_def)
  next
    case (Inr a)
    from audited Inr have a: "risk_audits s2 = risk_audits s1 @ [a]"
      "failure_audit_of a ?target code ?x (risk_failure_outcomes f)" by auto
    then have no: "no_effect a" by (simp add: failure_audit_of_def)
    have e: "e = risk_map_failure f ?x" "d = is_durable_post_start_terminal f"
      using run fresh f q Inr by (simp_all add: risk_traced_def Let_def record_execution_failure_audit_def)
    show ?thesis
    proof (cases "f = RiskFailure.PolicyDenied \<and> hm_get (risk_prepared s) ?i \<noteq> None")
      case False
      with run fresh f q Inr same audited have "risks t = risks s2 \<and> risk_prepared t = risk_prepared s2 \<and>
          risk_idem t = risk_idem s2 \<and> same_links s2 t \<and> risk_audits t = risk_audits s2"
        by (auto simp: risk_traced_def Let_def record_execution_failure_audit_def is_durable_post_start_terminal_def
          terminalize_prepared_execution_def execution_signature_def risk_unaudited_def same_links_def)
      with audited same a no have "risk_effectless s t"
        by (auto simp: risk_effectless_def risk_unaudited_def same_links_def)
      moreover from False e have "d \<longrightarrow> hm_get (risk_prepared s) ?i = None"
        by (simp add: is_durable_post_start_terminal_def)
      ultimately show ?thesis by blast
    next
      case True
      then obtain p where p: "hm_get (risk_prepared s) ?i = Some p" and f': "f = RiskFailure.PolicyDenied" by auto
      have "denied_terminally s c code p a t"
        using run fresh f q Inr same audited p a
        by (auto simp: f' risk_traced_def Let_def record_execution_failure_audit_def is_durable_post_start_terminal_def
          terminalize_prepared_execution_def execution_signature_def forget_prepared_def risk_unaudited_def
          same_links_def denied_terminally_def)
      with e f' fresh show ?thesis
        by (auto simp: is_durable_post_start_terminal_def replayed_terminal_error_None)
    qed
  qed
qed

section \<open>Invariant\<close>

fun risk_kind_matches :: "RiskSignature \<Rightarrow> RiskStored \<Rightarrow> bool" where
  "risk_kind_matches (RiskSignature.Create _ _ _ _) (RiskStored.Risk _) = True"
| "risk_kind_matches (RiskSignature.Update _ _ _ _ _ _ _) (RiskStored.Risk _) = True"
| "risk_kind_matches (RiskSignature.PrepareOccurrence _ _ _) (RiskStored.Prepared _) = True"
| "risk_kind_matches (RiskSignature.PrepareClose _ _ _) (RiskStored.Prepared _) = True"
| "risk_kind_matches (RiskSignature.PrepareLowerClassification _ _ _ _) (RiskStored.Prepared _) = True"
| "risk_kind_matches (RiskSignature.RejectPrepared _ _) (RiskStored.Rejected _) = True"
| "risk_kind_matches (RiskSignature.Execute _ _ _) (RiskStored.Risk _) = True"
| "risk_kind_matches (RiskSignature.Execute _ _ _) (RiskStored.Occurred _) = True"
| "risk_kind_matches (RiskSignature.Execute _ _ _) (RiskStored.Closed _) = True"
| "risk_kind_matches (RiskSignature.Execute _ _ _) (RiskStored.Terminal _) = True"
| "risk_kind_matches _ _ = False"

definition response_settled :: "RiskRecord \<Rightarrow> bool" where
  "response_settled r \<longleftrightarrow> (case risk_response r of None \<Rightarrow> False | Some response \<Rightarrow> settles response)"

definition risk_well_formed :: "RiskRecord \<Rightarrow> bool" where
  "risk_well_formed r \<longleftrightarrow>
     risk_classification r \<noteq> DataClassification.Unclassified \<and>
     in_exception_queue r = (risk_state r \<noteq> RiskState.Closed \<and> \<not> response_settled r) \<and>
     (risk_response r = None \<longrightarrow> risk_owner r = None \<and> risk_rationale r = None \<and>
        risk_residual_exposure r = None \<and> risk_next_review_at r = None) \<and>
     (response_settled r \<longrightarrow> risk_owner r \<noteq> None \<and> risk_rationale r \<noteq> None \<and>
        risk_residual_exposure r \<noteq> None \<and> risk_next_review_at r \<noteq> None) \<and>
     AggregateVersion_initial \<le> risk_version r \<and>
     (risk_response r \<noteq> None \<or> risk_state r \<noteq> RiskState.Open \<longrightarrow> AggregateVersion_initial < risk_version r)"

definition previewed_as ::
  "'w risk_service \<Rightarrow> entity_id \<Rightarrow> AggregateVersion \<Rightarrow> (RiskRecord \<Rightarrow> bool) \<Rightarrow> bool" where
  "previewed_as s i v holds \<longleftrightarrow>
     (\<exists>r. hm_get (risks s) i = Some r \<and> v \<le> risk_version r \<and> (v = risk_version r \<longrightarrow> holds r))"

fun operation_current :: "'w risk_service \<Rightarrow> WorkManagementOperation \<Rightarrow> bool" where
  "operation_current s (WorkManagementOperation.RecordRiskOccurrence i v _ class) =
     previewed_as s i v (\<lambda>r. risk_classification r = class)"
| "operation_current s (WorkManagementOperation.CloseRisk i v _) = previewed_as s i v (\<lambda>_. True)"
| "operation_current s (WorkManagementOperation.LowerRiskClassification i v current proposed _) =
     (risk_is_genuine_lowering current proposed \<and> previewed_as s i v (\<lambda>r. risk_classification r = current))"
| "operation_current s _ = False"

definition link_sound :: "'w risk_service \<Rightarrow> RiskIssueLink \<Rightarrow> bool" where
  "link_sound s l \<longleftrightarrow>
     link_issue_version l = AggregateVersion_initial \<and> link_classification l \<noteq> DataClassification.Unclassified \<and>
     (\<exists>r. hm_get (risks s) (link_risk_id l) = Some r \<and> risk_state r = RiskState.Occurred \<and>
        link_risk_version l \<le> risk_version r \<and>
        (link_risk_version l = risk_version r \<longrightarrow> link_classification l = risk_classification r))"

definition risk_inv :: "'w risk_service \<Rightarrow> bool" where
  "risk_inv s \<longleftrightarrow>
     hm_wf (risks s) \<and> hm_wf (risk_prepared s) \<and> hm_wf (risk_idem s) \<and>
     (\<forall>i r. hm_get (risks s) i = Some r \<longrightarrow>
        risk_id r = i \<and> risk_well_formed r \<and> link_count_matches (risk_links s) r) \<and>
     list_all (link_sound s) (risk_links s) \<and>
     (\<forall>i p. hm_get (risk_prepared s) i = Some p \<longrightarrow>
        prepared_id p = i \<and> operation_current s (prepared_operation p)) \<and>
     (\<forall>k sig v. hm_get (risk_idem s) k = Some (sig, v) \<longrightarrow> risk_kind_matches sig v)"

section \<open>Events\<close>

definition risk_unused :: "RiskOperationContext \<Rightarrow> 'w risk_service \<Rightarrow> bool" where
  "risk_unused c s \<longleftrightarrow> hm_get (risk_idem s) (risk_idempotency_id c) = None"

definition installs ::
  "'w risk_service \<Rightarrow> RiskOperationContext \<Rightarrow> RiskSignature \<Rightarrow> RiskRecord \<Rightarrow> string \<Rightarrow> 'w risk_service \<Rightarrow> bool" where
  "installs s c sig r code t \<longleftrightarrow>
     risk_unused c s \<and> same_links s t \<and>
     (\<exists>a. risk_mutation_audit a (AuditTarget.Risk (risk_id r)) code c AuditApprovalOutcome.NotRequired \<and>
        risk_committed None (risk_idempotency_id c) sig
          (RiskStored.Risk \<lparr>mutated_record = r, mutated_audit_events = [a], mutated_receipt_id = None\<rparr>) r [a] s t)"

definition creates :: "'w risk_service \<Rightarrow> CreateRisk \<Rightarrow> RiskRecord \<Rightarrow> 'w risk_service \<Rightarrow> bool" where
  "creates s c r t \<longleftrightarrow>
     create_risk_classification c \<noteq> DataClassification.Unclassified \<and>
     hm_get (risks s) (create_risk_id c) = None \<and>
     r = bare_risk (create_risk_id c) (create_risk_title c) (create_risk_details c)
       (create_risk_classification c) RiskState.Open True AggregateVersion_initial \<and>
     installs s (create_risk_context c) (create_signature c) r ''risk.created'' t"

definition responds :: "'w risk_service \<Rightarrow> UpdateRiskResponse \<Rightarrow> RiskRecord \<Rightarrow> RiskRecord \<Rightarrow> 'w risk_service \<Rightarrow> bool" where
  "responds s c r r' t \<longleftrightarrow>
     hm_get (risks s) (update_risk_id c) = Some r \<and> risk_version r = update_expected_version c \<and>
     risk_state r = RiskState.Open \<and>
     (settles (update_response c) \<longrightarrow> update_owner c \<noteq> None \<and> update_rationale c \<noteq> None \<and>
        update_residual_exposure c \<noteq> None \<and> update_next_review_at c \<noteq> None) \<and>
     (\<exists>version. AggregateVersion_next (risk_version r) = Some version \<and> r' = respond c version r) \<and>
     installs s (update_context c) (update_signature c) r' ''risk.response_updated'' t"

definition previews ::
  "'w risk_service \<Rightarrow> RiskOperationContext \<Rightarrow> RiskSignature \<Rightarrow> WorkManagementPreparedIntent \<Rightarrow> 'w risk_service \<Rightarrow> bool" where
  "previews s c sig p t \<longleftrightarrow>
     risk_unused c s \<and> risk_kind_matches sig (RiskStored.Prepared p) \<and>
     operation_current s (prepared_operation p) \<and>
     risks t = risks s \<and> same_links s t \<and> risk_audits t = risk_audits s \<and>
     risk_prepared t = hm_insert (prepared_id p) p (risk_prepared s) \<and>
     risk_idem t = hm_insert (risk_idempotency_id c) (sig, RiskStored.Prepared p) (risk_idem s)"

definition rejects ::
  "'w risk_service \<Rightarrow> RejectRiskPreparedIntent \<Rightarrow> WorkManagementPreparedIntent \<Rightarrow> RejectedPreparedIntentOutcome
     \<Rightarrow> 'w risk_service \<Rightarrow> bool" where
  "rejects s c p out t \<longleftrightarrow>
     risk_unused (reject_risk_context c) s \<and> reject_risk_actor c = AuditActor.HeadOfProducts \<and>
     hm_get (risk_prepared s) (reject_risk_prepared_id c) = Some p \<and>
     rejected_prepared_intent_id out = prepared_id p \<and>
     no_effect (rejected_audit_event out) \<and>
     Some (audit_target (rejected_audit_event out)) = map_option AuditTarget.Risk (rejected_risk_id p) \<and>
     risks t = risks s \<and> same_links s t \<and>
     risk_audits t = risk_audits s @ [rejected_audit_event out] \<and>
     risk_prepared t = hm_remove (reject_risk_prepared_id c) (risk_prepared s) \<and>
     risk_idem t = hm_insert (risk_idempotency_id (reject_risk_context c))
       (RiskSignature.RejectPrepared (reject_risk_prepared_id c) (reject_risk_actor c), RiskStored.Rejected out)
       (risk_idem s)"

definition execution_slot :: "ApproveAndExecuteRisk \<Rightarrow> 'w risk_service \<Rightarrow> bool" where
  "execution_slot c s \<longleftrightarrow>
     risk_replaceable (risk_idempotency_id (risk_execute_context c)) (execution_signature (risk_approval c)) s"

text \<open>The second argument is the approval the command carries, if it is an execution.\<close>

inductive risk_event ::
  "'w risk_ports \<Rightarrow> ApproveAndExecuteRisk option \<Rightarrow> 'w risk_service \<Rightarrow> 'w risk_service \<Rightarrow> bool" for P where
  quiet: "risk_effectless s t \<Longrightarrow> risk_event P ac s t"
| created: "creates s c r t \<Longrightarrow> risk_event P None s t"
| responded: "responds s c r r' t \<Longrightarrow> risk_event P None s t"
| previewed: "previews s c sig p t \<Longrightarrow> risk_event P None s t"
| occurred: "execution_slot c s \<Longrightarrow> occurs P s c p i r version iid out t \<Longrightarrow> risk_event P (Some c) s t"
| closed: "execution_slot c s \<Longrightarrow> closes P s c p i r version mout t \<Longrightarrow> risk_event P (Some c) s t"
| lowered: "execution_slot c s \<Longrightarrow> lowers P s c p i r version proposed mout t \<Longrightarrow> risk_event P (Some c) s t"
| rejected: "rejects s d p rout t \<Longrightarrow> risk_event P None s t"
| discarded: "hm_get (risk_prepared s) i \<noteq> None \<Longrightarrow> t = forget_prepared i s \<Longrightarrow> risk_event P None s t"
| denied: "execution_slot c s \<Longrightarrow> denied_terminally s c code p a t \<Longrightarrow> risk_event P (Some c) s t"

fun command_approval :: "'w risk_command \<Rightarrow> ApproveAndExecuteRisk option" where
  "command_approval (Approve_Occurrence c) = Some c"
| "command_approval (Approve_Close_Risk c) = Some c"
| "command_approval (Approve_Lower_Risk c) = Some c"
| "command_approval _ = None"

section \<open>Every command is an event\<close>

lemma risk_replay_cases:
  assumes "risk_inv s" and "risk_replay c sig s = Inr x"
  shows "(x = None \<and> risk_unused c s) \<or> (\<exists>v. x = Some v \<and> risk_kind_matches sig v)"
  using assms by (auto simp: risk_replay_def risk_unused_def risk_inv_def split: option.splits if_splits)

text \<open>Creation and response: run something unaudited, then install the Risk.\<close>

lemma installing_event:
  assumes inv: "risk_inv s"
    and run: "ebind (reads (risk_replay c sig)) (\<lambda>stored.
        case stored of Some (RiskStored.Risk v) \<Rightarrow> ret v | _ \<Rightarrow> fresh) s = (r, t)"
    and sig: "\<And>v. risk_kind_matches sig v \<Longrightarrow> \<exists>m. v = RiskStored.Risk m"
    and fresh: "\<And>r t. risk_unused c s \<Longrightarrow> fresh s = (r, t) \<Longrightarrow> risk_event P None s t"
  shows "risk_event P None s t"
proof (cases "risk_replay c sig s")
  case (Inl e)
  with run show ?thesis by (auto simp: ebind_run intro: quiet risk_effectless.refl)
next
  case x: (Inr x)
  from risk_replay_cases [OF inv x] sig consider
    (fresh) "x = None" "risk_unused c s" | (old) v where "x = Some (RiskStored.Risk v)" by blast
  then show ?thesis
    using x run fresh by cases (auto simp: ebind_run ret_def intro: quiet risk_effectless.refl)
qed

lemma audited_install:
  assumes "ebind (with_err e (risk_audit P (AuditTarget.Risk (risk_id r)) code c True)) (install_risk sig c r) s = (x, t)"
    and "risk_unused c s"
  shows "risk_unaudited s t \<or> installs s c sig r code t"
proof (cases "risk_audit P (AuditTarget.Risk (risk_id r)) code c True s")
  case (Pair q s1)
  note same = keepsD [OF keeps_risk_audits(1) Pair]
  show ?thesis
  proof (cases q)
    case (Inl e')
    with assms(1) Pair same show ?thesis by (auto simp: ebind_def with_err_def)
  next
    case (Inr a)
    with assms(1) Pair have "install_risk sig c r a s1 = (x, t)" by (simp add: ebind_def with_err_def)
    with same risk_audits_ok(1) [OF Pair [unfolded Inr]] assms(2) show ?thesis
      by (auto simp: install_risk_committed installs_def risk_committed_def risk_unaudited_def same_links_def)
  qed
qed

lemma create_risk_event:
  assumes inv: "risk_inv s" and run: "create_risk P c s = (r, t)"
  shows "risk_event P None s t"
proof (rule installing_event [OF inv run [unfolded create_risk_def]])
  show "risk_kind_matches (create_signature c) v \<Longrightarrow> \<exists>m. v = RiskStored.Risk m" for v
    by (cases v) (simp_all add: create_signature_def)
  fix x u
  assume unused: "risk_unused (create_risk_context c) s" and fresh: "create_risk_fresh P c s = (x, u)"
  let ?r = "bare_risk (create_risk_id c) (create_risk_title c) (create_risk_details c)
    (create_risk_classification c) RiskState.Open True AggregateVersion_initial"
  show "risk_event P None s u"
  proof (cases "create_risk_classification c \<noteq> DataClassification.Unclassified \<and>
      hm_get (risks s) (create_risk_id c) = None")
    case False
    with fresh have "u = s" by (auto simp: create_risk_fresh_def Let_def ebind_run split: if_splits)
    then show ?thesis by (auto intro: quiet risk_effectless.refl)
  next
    case True
    with fresh have "ebind (with_err (\<lambda>_. risk_err PlatformInternal ''audit.failed'' (create_risk_context c))
        (risk_audit P (AuditTarget.Risk (risk_id ?r)) ''risk.created'' (create_risk_context c) True))
        (install_risk (create_signature c) (create_risk_context c) ?r) s = (x, u)"
      by (simp add: create_risk_fresh_def Let_def ebind_run)
    from audited_install [OF this unused] True show ?thesis
      by (auto simp: creates_def intro: quiet risk_unaudited_effectless created)
  qed
qed

lemma update_risk_response_event:
  assumes inv: "risk_inv s" and run: "update_risk_response P c s = (r, t)"
  shows "risk_event P None s t"
proof (rule installing_event [OF inv run [unfolded update_risk_response_def]])
  show "risk_kind_matches (update_signature c) v \<Longrightarrow> \<exists>m. v = RiskStored.Risk m" for v
    by (cases v) (simp_all add: update_signature_def)
  fix x u
  assume unused: "risk_unused (update_context c) s" and fresh: "update_fresh P c s = (x, u)"
  show "risk_event P None s u"
  proof (cases "\<exists>r version. hm_get (risks s) (update_risk_id c) = Some r \<and>
      risk_version r = update_expected_version c \<and> risk_state r = RiskState.Open \<and>
      \<not> (settles (update_response c) \<and> (update_owner c = None \<or> update_rationale c = None \<or>
         update_residual_exposure c = None \<or> update_next_review_at c = None)) \<and>
      AggregateVersion_next (risk_version r) = Some version")
    case False
    with fresh have "u = s"
      by (cases "hm_get (risks s) (update_risk_id c)")
        (auto simp: update_fresh_def Let_def ebind_run ok_or_def split: if_splits option.splits)
    then show ?thesis by (auto intro: quiet risk_effectless.refl)
  next
    case True
    then obtain r version where ok: "hm_get (risks s) (update_risk_id c) = Some r"
      "risk_version r = update_expected_version c" "risk_state r = RiskState.Open"
      "\<not> (settles (update_response c) \<and> (update_owner c = None \<or> update_rationale c = None \<or>
         update_residual_exposure c = None \<or> update_next_review_at c = None))"
      "AggregateVersion_next (risk_version r) = Some version" by (elim exE conjE) (rule that)
    with fresh have "ebind (with_err (\<lambda>_. risk_err PlatformInternal ''audit.failed'' (update_context c))
        (risk_audit P (AuditTarget.Risk (risk_id (respond c version r))) ''risk.response_updated''
          (update_context c) True))
        (install_risk (update_signature c) (update_context c) (respond c version r)) s = (x, u)"
      by (simp add: update_fresh_def Let_def ebind_run replace_risk_def)
    from audited_install [OF this unused] consider (kept) "risk_unaudited s u"
      | (new) "installs s (update_context c) (update_signature c) (respond c version r) ''risk.response_updated'' u"
      by blast
    then show ?thesis
    proof cases
      case kept
      then show ?thesis by (intro quiet risk_unaudited_effectless)
    next
      case new
      with ok have "responds s c r (respond c version r) u" by (auto simp: responds_def)
      then show ?thesis by (rule responded)
    qed
  qed
qed

text \<open>Preparation: the intent is built unaudited, then stored; a refusal is audited.\<close>

lemma prepare_risk_intent_ok:
  assumes "prepare_risk_intent P op cls s = (Inr p, t)"
  shows "risk_unaudited s t \<and> risk_current_policy P (risk_world s) op = RiskExecutionPolicy.Allowed \<and>
    (\<exists>i now. prepare (risk_sha256_hex P) i op cls None now = Inr p)"
proof -
  have "risk_current_policy P (risk_world s) op = RiskExecutionPolicy.Allowed"
    using assms RiskExecutionPolicy.exhaust by (auto simp: prepare_risk_intent_def ebind_run split: if_splits)
  with keepsD [OF keeps_prepare_risk_intent assms] assms show ?thesis
    by (auto simp: prepare_risk_intent_def ebind_ok)
qed

lemma audited_preparation_event:
  assumes inv: "risk_inv s" and code: "code \<in> risk_denial_codes"
    and run: "audited_preparation P target code c (prepare_replayed c sig fresh) s = (r, t)"
    and sig: "\<And>v. risk_kind_matches sig v \<longleftrightarrow> (\<exists>p. v = RiskStored.Prepared p)"
    and keeps: "keeps risk_unaudited fresh"
    and ok: "\<And>p s1. fresh s = (Inr p, s1) \<Longrightarrow> operation_current s (prepared_operation p)"
  shows "risk_event P None s t"
proof -
  obtain q s1 where q: "prepare_replayed c sig fresh s = (q, s1)" by (cases "prepare_replayed c sig fresh s")
  have prepared: "(\<exists>p. q = Inr p \<and> previews s c sig p s1) \<or> risk_unaudited s s1"
  proof (cases "risk_replay c sig s")
    case (Inl e)
    with q show ?thesis by (auto simp: prepare_replayed_def ebind_run risk_unaudited.refl)
  next
    case x: (Inr x)
    from risk_replay_cases [OF inv x] sig consider
      (fresh) "x = None" "risk_unused c s" | (old) v where "x = Some (RiskStored.Prepared v)" by blast
    then show ?thesis
    proof cases
      case old
      with x q show ?thesis by (auto simp: prepare_replayed_def ebind_run ret_def risk_unaudited.refl)
    next
      case unused: fresh
      obtain y s2 where y: "fresh s = (y, s2)" by (cases "fresh s")
      note same = keepsD [OF keeps y]
      show ?thesis
      proof (cases y)
        case (Inl e)
        with x q unused y same show ?thesis by (auto simp: prepare_replayed_def ebind_run) (simp add: ebind_def)
      next
        case (Inr p)
        with x q unused y have "store_risk_prepared c sig p s2 = (q, s1)"
          by (simp add: prepare_replayed_def ebind_run) (simp add: ebind_def)
        with same unused ok [OF y [unfolded Inr]] sig show ?thesis
          by (auto simp: store_risk_prepared_def previews_def risk_unaudited_def same_links_def)
      qed
    qed
  qed
  show ?thesis
  proof (cases q)
    case (Inr p)
    with run q have "t = s1" by (simp add: audited_preparation_def)
    with prepared show ?thesis by (auto intro: previewed quiet risk_unaudited_effectless)
  next
    case (Inl f)
    with prepared have same: "risk_unaudited s s1" by auto
    let ?o = "(if f = RiskFailure.PolicyDenied then AuditPolicyOutcome.Denied else AuditPolicyOutcome.Allowed,
       AuditApprovalOutcome.NotRequired, AuditExecutionOutcome.NotAttempted)"
    obtain a s2 where a: "push_failure_audit P target code c ?o s1 = (a, s2)"
      by (cases "push_failure_audit P target code c ?o s1")
    from run q Inl a have "t = s2"
      by (auto simp: audited_preparation_def record_prepare_failure_audit_def ebind_def split: sum.splits)
    with push_failure_audit_result [OF a code disjI2 [OF refl]] same have "risk_effectless s t"
      by (auto simp: risk_effectless_def risk_unaudited_def same_links_def failure_audit_of_def)
    then show ?thesis by (rule quiet)
  qed
qed

lemma risk_denial_codes_intros:
  "''risk.occurrence_denied'' \<in> risk_denial_codes" "''risk.close_denied'' \<in> risk_denial_codes"
  "''risk.classification_lowering_denied'' \<in> risk_denial_codes"
  by (simp_all add: risk_denial_codes_def)

lemma previewed_as_current:
  "hm_get (risks s) i = Some r \<Longrightarrow> risk_version r = v \<Longrightarrow> holds r \<Longrightarrow> previewed_as s i v holds"
  by (auto simp: previewed_as_def)

lemma prepared_operation_built:
  "prepare_risk_intent P op cls s = (Inr p, t) \<Longrightarrow> canonical_operation op = op \<Longrightarrow> prepared_operation p = op"
  using prepare_risk_intent_ok prepared_operation_canonical by blast

lemma prepare_record_risk_occurrence_event:
  assumes inv: "risk_inv s" and run: "prepare_record_risk_occurrence P c s = (r, t)"
  shows "risk_event P None s t"
  using inv
  by (intro audited_preparation_event [OF inv risk_denial_codes_intros(1)
        run [unfolded prepare_record_risk_occurrence_def prepare_occurrence_def]])
    (auto simp: ebind_ok risk_inv_def dest!: prepared_operation_built
      intro!: risk_unaudited_rules keeps_prepare_risk_intent previewed_as_current elim: risk_kind_matches.elims)

lemma closing_operation:
  "(case op of WorkManagementOperation.CloseRisk _ _ _ \<Rightarrow> ret p | _ \<Rightarrow> throw e) s = (Inr q, t) \<Longrightarrow> q = p \<and> t = s"
  "keeps risk_unaudited (case op of WorkManagementOperation.CloseRisk _ _ _ \<Rightarrow> ret p | _ \<Rightarrow> throw e)"
  by (cases op; simp add: risk_unaudited.keeps_pure)+

lemma prepare_close_risk_event:
  assumes inv: "risk_inv s" and run: "prepare_close_risk P c s = (r, t)"
  shows "risk_event P None s t"
  using inv
  by (intro audited_preparation_event [OF inv risk_denial_codes_intros(2)
        run [unfolded prepare_close_risk_def prepare_close_def]])
    (auto simp: ebind_ok risk_inv_def dest!: prepared_operation_built closing_operation(1)
      intro!: risk_unaudited_rules keeps_prepare_risk_intent closing_operation(2) previewed_as_current elim: risk_kind_matches.elims)

lemma prepare_lower_risk_classification_event:
  assumes inv: "risk_inv s" and run: "prepare_lower_risk_classification P c s = (r, t)"
  shows "risk_event P None s t"
  using inv
  by (intro audited_preparation_event [OF inv risk_denial_codes_intros(3)
        run [unfolded prepare_lower_risk_classification_def prepare_lower_risk_classification_cause_def]])
    (auto simp: ebind_ok risk_inv_def dest!: prepared_operation_built
      intro!: risk_unaudited_rules keeps_prepare_risk_intent previewed_as_current elim: risk_kind_matches.elims)

text \<open>Execution.\<close>

lemma risk_traced_event:
  assumes run: "risk_traced P code c (execute_replayed outcome c fresh) s = ((r, d), t)"
    and code: "code \<in> risk_denial_codes" and err: "errs_within risk_unaudited fresh"
    and ok: "\<And>out. execution_slot c s \<Longrightarrow> fresh s = (Inr out, t) \<Longrightarrow> risk_event P (Some c) s t"
  shows "risk_event P (Some c) s t"
proof (cases r)
  case (Inr v)
  with run have slot: "execution_slot c s" and v: "execute_replayed outcome c fresh s = (Inr v, t)"
    by (simp_all add: risk_traced_Inr execution_slot_def)
  from execute_replayed_cases [OF v] ok [OF slot] show ?thesis by (auto intro: quiet risk_effectless.refl)
next
  case (Inl e)
  have unaudited: "risk_unaudited s s1" if "execute_replayed outcome c fresh s = (Inl f, s1)" for f s1
    using execute_replayed_cases [OF that] errs_withinD [OF err] by (auto intro: risk_unaudited.refl)
  have "risk_effectless s t \<or> (\<exists>p a. denied_terminally s c code p a t) \<and> execution_slot c s"
    using risk_traced_Inl [OF run [unfolded Inl] code] unaudited unfolding execution_slot_def by blast
  then show ?thesis by (auto intro: quiet denied)
qed

lemma approve_risk_event:
  "approve_and_execute_record_risk_occurrence P c s = (r1, t) \<Longrightarrow> risk_event P (Some c) s t"
  "approve_and_execute_close_risk P c s = (r2, t) \<Longrightarrow> risk_event P (Some c) s t"
  "approve_and_execute_lower_risk_classification P c s = (r3, t) \<Longrightarrow> risk_event P (Some c) s t"
proof -
  note defs = approve_and_execute_record_risk_occurrence_def approve_and_execute_close_risk_def
    approve_and_execute_lower_risk_classification_def untraced_def
    approve_and_execute_record_risk_occurrence_traced_def approve_and_execute_close_risk_traced_def
    approve_and_execute_lower_risk_classification_traced_def execute_occurrence_def execute_close_def
    execute_lower_risk_classification_def
  show "approve_and_execute_record_risk_occurrence P c s = (r1, t) \<Longrightarrow> risk_event P (Some c) s t"
    unfolding defs
    by (cases "risk_traced P ''risk.occurrence_denied'' c
          (execute_replayed stored_occurred c (occurrence_fresh P c)) s")
      (auto dest!: risk_traced_event [OF _ risk_denial_codes_intros(1) errs_within_fresh(3)]
        occurrence_fresh_ok intro: occurred)
  show "approve_and_execute_close_risk P c s = (r2, t) \<Longrightarrow> risk_event P (Some c) s t"
    unfolding defs
    by (cases "risk_traced P ''risk.close_denied'' c
          (execute_replayed stored_closed c (close_fresh P c)) s")
      (auto dest!: risk_traced_event [OF _ risk_denial_codes_intros(2) errs_within_fresh(1)]
        close_fresh_ok intro: closed)
  show "approve_and_execute_lower_risk_classification P c s = (r3, t) \<Longrightarrow> risk_event P (Some c) s t"
    unfolding defs
    by (cases "risk_traced P ''risk.classification_lowering_denied'' c
          (execute_replayed stored_risk c (lower_fresh P c)) s")
      (auto dest!: risk_traced_event [OF _ risk_denial_codes_intros(3) errs_within_fresh(2)]
        lower_fresh_ok intro: lowered)
qed

text \<open>Rejection.\<close>

lemma reject_risk_fresh_ok:
  assumes "reject_risk_fresh P c s = (Inr out, t)"
  shows "risk_unaudited s t \<and> reject_risk_actor c = AuditActor.HeadOfProducts \<and>
    risk_authorize P (risk_world s) AuditActor.HeadOfProducts \<and>
    (\<exists>p. hm_get (risk_prepared s) (reject_risk_prepared_id c) = Some p \<and>
       rejected_prepared_intent_id out = prepared_id p \<and>
       rejected_at out = fst (risk_clock_now P (risk_world s)) \<and>
       expired_at_rejection out = (preview_expires_at (prepared_preview p) \<le> rejected_at out) \<and>
       Some (audit_target (rejected_audit_event out)) = map_option AuditTarget.Risk (rejected_risk_id p)) \<and>
    no_effect (rejected_audit_event out) \<and>
    audit_approval_outcome (rejected_audit_event out) = AuditApprovalOutcome.Rejected \<and>
    audit_code (rejected_audit_event out) = RISK_PREPARED_REJECTED_AUDIT_CODE"
proof -
  obtain now w where clock: "risk_clock_now P (risk_world s) = (now, w)"
    by (cases "risk_clock_now P (risk_world s)")
  from assms obtain p i aid a s1 where
    actor: "reject_risk_actor c = AuditActor.HeadOfProducts" "risk_authorize P (risk_world s) AuditActor.HeadOfProducts"
    and p: "hm_get (risk_prepared s) (reject_risk_prepared_id c) = Some p"
    and i: "rejected_risk_id p = Some i"
    and a: "prepared_intent_rejection_audit aid now RISK_PREPARED_REJECTED_AUDIT_CODE
      (AuditTarget.Risk i) (risk_correlation_id (reject_risk_context c)) = Some a"
    and out: "out = \<lparr>rejected_prepared_intent_id = prepared_id p, rejected_at = now,
      expired_at_rejection = (preview_expires_at (prepared_preview p) \<le> now), rejected_audit_event = a\<rparr>"
    unfolding reject_risk_fresh_def Let_def
    by (auto simp: ebind_ok risk_read_clock_def clock split: if_splits option.splits)
  with keepsD [OF keeps_reject_risk_fresh assms] rejection_audit_no_effect [OF a] show ?thesis
    by (simp add: clock)
qed

lemma reject_risk_event:
  assumes inv: "risk_inv s" and run: "reject_risk_prepared_intent P c s = (r, t)"
  shows "risk_event P None s t"
proof -
  let ?x = "reject_risk_context c"
    and ?sig = "RiskSignature.RejectPrepared (reject_risk_prepared_id c) (reject_risk_actor c)"
  show ?thesis
  proof (cases "risk_replay ?x ?sig s")
    case (Inl e)
    with run show ?thesis
      by (auto simp: reject_risk_prepared_intent_def ebind_run intro: quiet risk_effectless.refl)
  next
    case x: (Inr x)
    from risk_replay_cases [OF inv x] consider
      (fresh) "x = None" "risk_unused ?x s" | (old) v where "x = Some (RiskStored.Rejected v)"
      by (auto elim: risk_kind_matches.elims)
    then show ?thesis
    proof cases
      case old
      with x run show ?thesis
        by (auto simp: reject_risk_prepared_intent_def ebind_run ret_def intro: quiet risk_effectless.refl)
    next
      case fresh
      obtain q s1 where q: "reject_risk_fresh P c s = (q, s1)" by (cases "reject_risk_fresh P c s")
      have rest: "ebind (reject_risk_fresh P c) (commit_risk_rejection c) s = (r, t)"
        using run x fresh by (simp add: reject_risk_prepared_intent_def ebind_run)
      show ?thesis
      proof (cases q)
        case (Inl e)
        with q rest keepsD [OF keeps_reject_risk_fresh q] show ?thesis
          by (auto simp: ebind_def intro: quiet risk_unaudited_effectless)
      next
        case (Inr out)
        from rest q Inr have t: "commit_risk_rejection c out s1 = (r, t)" by (simp add: ebind_def)
        from reject_risk_fresh_ok [OF q [unfolded Inr]] obtain p where
          "hm_get (risk_prepared s) (reject_risk_prepared_id c) = Some p"
          "rejected_prepared_intent_id out = prepared_id p" "risk_unaudited s s1"
          "reject_risk_actor c = AuditActor.HeadOfProducts" "no_effect (rejected_audit_event out)"
          "Some (audit_target (rejected_audit_event out)) = map_option AuditTarget.Risk (rejected_risk_id p)"
          by blast
        with t fresh have "rejects s c p out t"
          by (auto simp: rejects_def commit_risk_rejection_def risk_unaudited_def same_links_def)
        then show ?thesis by (rule rejected)
      qed
    qed
  qed
qed

lemma discard_risk_event:
  assumes "risk_inv s" shows "risk_event P None s (snd (discard_risk_prepared_intent i s))"
proof (cases "hm_get (risk_prepared s) i = None")
  case True
  then have "hm_remove i (risk_prepared s) = risk_prepared s"
    by (simp add: hm_remove_def hm_get_def delete_idem map_of_eq_None_iff)
  with True have "risk_effectless s (snd (discard_risk_prepared_intent i s))"
    by (simp add: discard_risk_prepared_intent_def risk_effectless_def same_links_def)
  then show ?thesis by (rule quiet)
next
  case False
  then show ?thesis by (auto simp: discard_risk_prepared_intent_def intro: discarded)
qed

text \<open>Every command is an event, but for the one that stands for everything outside the service.\<close>

lemma risk_step_event:
  assumes "risk_inv s"
  shows "risk_event P (command_approval c) s (risk_step P c s) \<or> (\<exists>w m. c = Risk_Environment w m)"
proof (cases c)
  case Inject_Risk_Commit_Failure
  then show ?thesis
    by (simp add: quiet inject_next_risk_commit_failure_def risk_effectless_def same_links_def)
qed (use assms in \<open>auto simp: prod_eq_iff intro: create_risk_event update_risk_response_event
    prepare_record_risk_occurrence_event prepare_close_risk_event prepare_lower_risk_classification_event
    approve_risk_event reject_risk_event discard_risk_event\<close>)

section \<open>The invariant is kept\<close>

definition risk_extends :: "'w risk_service \<Rightarrow> 'w risk_service \<Rightarrow> bool" where
  "risk_extends s t \<longleftrightarrow>
     (\<forall>i r. hm_get (risks s) i = Some r \<longrightarrow>
        (\<exists>r'. hm_get (risks t) i = Some r' \<and>
          (r' = r \<or> risk_version r < risk_version r' \<and>
             (risk_state r = RiskState.Occurred \<longrightarrow> risk_state r' = RiskState.Occurred))))"

lemma risk_extends_same: "risks t = risks s \<Longrightarrow> risk_extends s t"
  by (simp add: risk_extends_def)

lemma extends_previewed_as: "risk_extends s t \<Longrightarrow> previewed_as s i v holds \<Longrightarrow> previewed_as t i v holds"
  unfolding risk_extends_def previewed_as_def by (metis leD less_imp_le order.trans)

lemma extends_operation_current: "risk_extends s t \<Longrightarrow> operation_current s op \<Longrightarrow> operation_current t op"
  by (cases op) (auto intro: extends_previewed_as)

lemma extends_link_sound: "risk_extends s t \<Longrightarrow> link_sound s l \<Longrightarrow> link_sound t l"
  unfolding risk_extends_def link_sound_def
  by (elim conjE exE) (drule spec, drule spec, drule (1) mp, auto)

lemma risk_inv_update:
  assumes inv: "risk_inv s" and ext: "risk_extends s t"
    and wf: "hm_wf (risks t)" "hm_wf (risk_prepared t)" "hm_wf (risk_idem t)"
    and new_risk: "\<And>i r. hm_get (risks t) i = Some r \<Longrightarrow>
      risk_id r = i \<and> risk_well_formed r \<and> link_count_matches (risk_links t) r"
    and new_link: "\<And>l. l \<in> set (risk_links t) \<Longrightarrow> l \<in> set (risk_links s) \<or> link_sound t l"
    and new_prepared: "\<And>i p. hm_get (risk_prepared t) i = Some p \<Longrightarrow> hm_get (risk_prepared s) i = Some p \<or>
      prepared_id p = i \<and> operation_current s (prepared_operation p)"
    and new_idem: "\<And>k sig v. hm_get (risk_idem t) k = Some (sig, v) \<Longrightarrow>
      hm_get (risk_idem s) k = Some (sig, v) \<or> risk_kind_matches sig v"
  shows "risk_inv t"
  unfolding risk_inv_def
proof (intro conjI allI impI wf)
  have "\<forall>l \<in> set (risk_links s). link_sound s l" using inv by (simp add: risk_inv_def list_all_iff)
  then show "list_all (link_sound t) (risk_links t)"
    using new_link extends_link_sound [OF ext] unfolding list_all_iff by blast
  show "prepared_id p = i" "operation_current t (prepared_operation p)"
    if "hm_get (risk_prepared t) i = Some p" for i p
    using inv new_prepared [OF that] extends_operation_current [OF ext] by (auto simp: risk_inv_def)
  show "risk_kind_matches sig v" if "hm_get (risk_idem t) k = Some (sig, v)" for k sig v
    using inv new_idem [OF that] by (auto simp: risk_inv_def)
qed (use new_risk in blast)+

lemma risk_inv_quiet:
  fixes s t :: "'w risk_service"
  assumes "risk_inv s" and "risks t = risks s" and "risk_links t = risk_links s"
    and "hm_wf (risk_prepared t)" "hm_wf (risk_idem t)"
    and "\<And>i p. hm_get (risk_prepared t) i = Some p \<Longrightarrow> hm_get (risk_prepared s) i = Some p \<or>
      prepared_id p = i \<and> operation_current s (prepared_operation p)"
    and "\<And>k sig v. hm_get (risk_idem t) k = Some (sig, v) \<Longrightarrow>
      hm_get (risk_idem s) k = Some (sig, v) \<or> risk_kind_matches sig v"
  shows "risk_inv t"
  by (rule risk_inv_update [OF assms(1) risk_extends_same [OF assms(2)]])
    (use assms in \<open>auto simp: risk_inv_def\<close>)

lemma links_of_unlinked:
  assumes "risk_inv s" and "\<And>r. hm_get (risks s) i = Some r \<Longrightarrow> risk_state r \<noteq> RiskState.Occurred"
  shows "links_of (risk_links s) i = []"
  using assms by (auto simp: links_of_def filter_empty_conv risk_inv_def list_all_iff link_sound_def)

lemma link_count_matches_cong:
  "risk_id r' = risk_id r \<Longrightarrow> (risk_state r' = RiskState.Occurred) = (risk_state r = RiskState.Occurred) \<Longrightarrow>
     link_count_matches ls r' = link_count_matches ls r"
  by (simp add: link_count_matches_def)

lemma committed_risk_inv:
  assumes inv: "risk_inv s" and com: "risk_committed consumed k sig v r' as s t" "same_links s t"
    and new: "risk_well_formed r'" "risk_kind_matches sig v"
    and old: "\<And>r. hm_get (risks s) (risk_id r') = Some r \<Longrightarrow> risk_version r < risk_version r' \<and>
      (risk_state r' = RiskState.Occurred) = (risk_state r = RiskState.Occurred)"
    and fresh: "hm_get (risks s) (risk_id r') = None \<Longrightarrow> risk_state r' \<noteq> RiskState.Occurred"
  shows "risk_inv t"
proof (rule risk_inv_update [OF inv])
  show "risk_extends s t" using old com by (auto simp: risk_extends_def risk_committed_def)
  show "hm_wf (risks t)" "hm_wf (risk_prepared t)" "hm_wf (risk_idem t)"
    using inv com by (auto simp: risk_inv_def risk_committed_def split: option.splits)
  have count: "link_count_matches (risk_links s) r'"
  proof (cases "hm_get (risks s) (risk_id r')")
    case None
    then have "links_of (risk_links s) (risk_id r') = []" by (intro links_of_unlinked [OF inv]) simp
    with fresh [OF None] show ?thesis by (simp add: link_count_matches_def)
  next
    case (Some r)
    with inv have "risk_id r = risk_id r'" "link_count_matches (risk_links s) r"
      by (auto simp: risk_inv_def)
    with old [OF Some] link_count_matches_cong [of r' r] show ?thesis by simp
  qed
  show "risk_id r = i \<and> risk_well_formed r \<and> link_count_matches (risk_links t) r"
    if "hm_get (risks t) i = Some r" for i r
    using that inv com new count
    by (auto simp: risk_inv_def risk_committed_def same_links_def split: if_splits)
  show "l \<in> set (risk_links s) \<or> link_sound t l" if "l \<in> set (risk_links t)" for l
    using that com by (simp add: same_links_def)
  show "hm_get (risk_prepared s) i = Some p \<or> prepared_id p = i \<and> operation_current s (prepared_operation p)"
    if "hm_get (risk_prepared t) i = Some p" for i p
    using that inv com by (auto simp: risk_inv_def risk_committed_def split: option.splits if_splits)
  show "hm_get (risk_idem s) k' = Some (sig', v') \<or> risk_kind_matches sig' v'"
    if "hm_get (risk_idem t) k' = Some (sig', v')" for k' sig' v'
    using that com new by (auto simp: risk_committed_def split: if_splits)
qed

text \<open>The records the events install.\<close>

lemma initial_least: "AggregateVersion_initial \<le> v \<Longrightarrow> AggregateVersion_next v = Some v' \<Longrightarrow>
   AggregateVersion_initial < v' \<and> AggregateVersion_initial \<le> v'"
  using AggregateVersion_next_less by fastforce

lemma inv_risk: "risk_inv s \<Longrightarrow> hm_get (risks s) i = Some r \<Longrightarrow> risk_id r = i \<and> risk_well_formed r"
  by (simp add: risk_inv_def)

lemma responded_well_formed:
  assumes "responds s c r r' t" and "risk_well_formed r"
  shows "risk_well_formed r' \<and> risk_id r' = risk_id r \<and> risk_version r < risk_version r' \<and>
    risk_state r' = RiskState.Open"
proof -
  from assms(1) obtain version where version: "AggregateVersion_next (risk_version r) = Some version"
    and r': "r' = respond c version r" and state: "risk_state r = RiskState.Open"
    and fields: "settles (update_response c) \<longrightarrow> update_owner c \<noteq> None \<and> update_rationale c \<noteq> None \<and>
        update_residual_exposure c \<noteq> None \<and> update_next_review_at c \<noteq> None"
    unfolding responds_def by blast
  show ?thesis
    using assms(2) fields state initial_least [OF _ version] AggregateVersion_next_less [OF version]
    by (auto simp: r' respond_def risk_well_formed_def response_settled_def)
qed

lemma executes_parts:
  assumes "executes P s c p i r version" and "risk_inv s"
  shows "risk_id r = i \<and> risk_well_formed r \<and> risk_version r < version \<and> AggregateVersion_initial < version \<and>
    AggregateVersion_initial \<le> version \<and> hm_get (risks s) i = Some r \<and>
    operation_current s (prepared_operation p)"
proof -
  from assms(1) have r: "hm_get (risks s) i = Some r" and v: "AggregateVersion_next (risk_version r) = Some version"
    and p: "hm_get (risk_prepared s) (approval_prepared_id (risk_approval c)) = Some p"
    by (simp_all add: executes_def)
  from inv_risk [OF assms(2) r] have "risk_id r = i" "risk_well_formed r" by blast+
  with initial_least [OF _ v] AggregateVersion_next_less [OF v] r p assms(2) show ?thesis
    by (auto simp: risk_inv_def risk_well_formed_def)
qed

lemma lowering_facts:
  assumes "lowers P s c p i r version proposed out t" and "risk_inv s"
  shows "proposed < risk_classification r \<and> proposed \<noteq> DataClassification.Unclassified \<and>
    preview_classification (prepared_preview p) = risk_classification r"
proof -
  from assms(1) obtain rationale where op: "prepared_operation p = WorkManagementOperation.LowerRiskClassification i
      (risk_version r) (preview_classification (prepared_preview p)) proposed rationale"
    and ex: "executes P s c p i r version" unfolding lowers_def mutates_def by blast
  let ?current = "preview_classification (prepared_preview p)"
  from executes_parts [OF ex assms(2)] op have "previewed_as s i (risk_version r) (\<lambda>r. risk_classification r = ?current)"
    and genuine: "risk_is_genuine_lowering ?current proposed" and r: "hm_get (risks s) i = Some r" by auto
  then have same: "?current = risk_classification r" by (auto simp: previewed_as_def)
  from genuine have less: "proposed < ?current"
    by (auto simp: risk_is_genuine_lowering_def combine_eq_max max_def split: if_splits)
  then have "proposed \<noteq> DataClassification.Unclassified" by (metis le_Unclassified leD)
  with same less show ?thesis by simp
qed

lemma occurrence_inv:
  assumes occ: "occurs P s c p i r version iid out t" and inv: "risk_inv s"
  shows "risk_inv t"
proof -
  from occ have ex: "executes P s c p i r version" and state: "risk_state r = RiskState.Open"
    and r': "occurred_risk out = r\<lparr>risk_state := RiskState.Occurred, risk_version := version\<rparr>"
    and com: "risk_committed (Some (prepared_id p)) (risk_idempotency_id (risk_execute_context c))
       (execution_signature (risk_approval c)) (RiskStored.Occurred out) (occurred_risk out)
       (occurred_audit_events out) s t"
    and links: "risk_links t = risk_links s @ [occurrence_link r (occurred_risk out) iid]"
    unfolding occurs_def by blast+
  from executes_parts [OF ex inv] have i: "risk_id r = i" and wf: "risk_well_formed r"
    and v: "risk_version r < version" "AggregateVersion_initial < version" "AggregateVersion_initial \<le> version"
    and r: "hm_get (risks s) i = Some r" by blast+
  let ?l = "occurrence_link r (occurred_risk out) iid"
  have none: "links_of (risk_links s) i = []" using r state by (intro links_of_unlinked [OF inv]) simp
  have new: "links_of (risk_links t) i = [?l]"
    using none links i r' by (simp add: links_of_def occurrence_link_def)
  have other: "links_of (risk_links t) j = links_of (risk_links s) j" if "j \<noteq> i" for j
    using that links i r' by (simp add: links_of_def occurrence_link_def)
  show ?thesis
  proof (rule risk_inv_update [OF inv])
    show "risk_extends s t"
      using com r' i r v state by (auto simp: risk_extends_def risk_committed_def)
    show "hm_wf (risks t)" "hm_wf (risk_prepared t)" "hm_wf (risk_idem t)"
      using inv com by (auto simp: risk_inv_def risk_committed_def)
    show "risk_id q = j \<and> risk_well_formed q \<and> link_count_matches (risk_links t) q"
      if "hm_get (risks t) j = Some q" for j q
    proof (cases "j = i")
      case True
      with that com r' i have q: "q = r\<lparr>risk_state := RiskState.Occurred, risk_version := version\<rparr>"
        by (simp add: risk_committed_def)
      with True new i wf v state show ?thesis
        by (auto simp: link_count_matches_def risk_well_formed_def response_settled_def)
    next
      case False
      with that com r' i inv other show ?thesis
        by (auto simp: risk_committed_def risk_inv_def link_count_matches_def)
    qed
    show "l \<in> set (risk_links s) \<or> link_sound t l" if "l \<in> set (risk_links t)" for l
      using that links com r' i wf
      by (auto simp: link_sound_def occurrence_link_def risk_committed_def risk_well_formed_def)
    show "hm_get (risk_prepared s) j = Some q \<or> prepared_id q = j \<and> operation_current s (prepared_operation q)"
      if "hm_get (risk_prepared t) j = Some q" for j q
      using that inv com by (auto simp: risk_inv_def risk_committed_def split: if_splits)
    show "hm_get (risk_idem s) k = Some (sig, w) \<or> risk_kind_matches sig w"
      if "hm_get (risk_idem t) k = Some (sig, w)" for k sig w
      using that com by (auto simp: risk_committed_def execution_signature_def split: if_splits)
  qed
qed

lemma mutated_inv:
  assumes mut: "mutates P s c p i r version r' code store out t" and inv: "risk_inv s"
    and r': "risk_well_formed r'" "risk_id r' = i" "risk_version r' = version"
      "(risk_state r' = RiskState.Occurred) = (risk_state r = RiskState.Occurred)"
    and store: "risk_kind_matches (execution_signature (risk_approval c)) (store out)"
  shows "risk_inv t"
proof -
  from mut obtain a where ex: "executes P s c p i r version" and links: "same_links s t"
    and com: "risk_committed (Some (prepared_id p)) (risk_idempotency_id (risk_execute_context c))
          (execution_signature (risk_approval c)) (store out) r' [a] s t"
    unfolding mutates_def by blast
  from executes_parts [OF ex inv] show ?thesis
    by (intro committed_risk_inv [OF inv com links r'(1) store]) (use r' in auto)
qed

lemma installs_inv:
  assumes ins: "installs s c sig r' code t" and inv: "risk_inv s" and wf: "risk_well_formed r'"
    and sig: "\<And>m. risk_kind_matches sig (RiskStored.Risk m)" and state: "risk_state r' = RiskState.Open"
    and old: "\<And>r. hm_get (risks s) (risk_id r') = Some r \<Longrightarrow>
      risk_version r < risk_version r' \<and> risk_state r = RiskState.Open"
  shows "risk_inv t"
proof -
  from ins obtain m a where com: "risk_committed None (risk_idempotency_id c) sig (RiskStored.Risk m) r' [a] s t"
    and links: "same_links s t" unfolding installs_def by blast
  show ?thesis
    by (rule committed_risk_inv [OF inv com links wf sig]) (use old state in auto)
qed

lemma risk_event_inv: "risk_event P ac s t \<Longrightarrow> risk_inv s \<Longrightarrow> risk_inv t"
proof (induction rule: risk_event.induct)
  case (quiet s t ac)
  then show ?case
    by (intro risk_inv_quiet [OF quiet.prems]) (auto simp: risk_effectless_def same_links_def risk_inv_def)
next
  case (created s c r t)
  then have ins: "installs s (create_risk_context c) (create_signature c) r ''risk.created'' t"
    and r: "r = bare_risk (create_risk_id c) (create_risk_title c) (create_risk_details c)
       (create_risk_classification c) RiskState.Open True AggregateVersion_initial"
    and cls: "create_risk_classification c \<noteq> DataClassification.Unclassified"
    and none: "hm_get (risks s) (create_risk_id c) = None" unfolding creates_def by blast+
  from cls have "risk_well_formed r"
    by (simp add: r bare_risk_def risk_well_formed_def response_settled_def)
  then show ?case
    by (rule installs_inv [OF ins created.prems]) (simp_all add: r none bare_risk_def create_signature_def)
next
  case (responded s c r r' t)
  have r: "hm_get (risks s) (update_risk_id c) = Some r" "risk_state r = RiskState.Open"
    and ins: "installs s (update_context c) (update_signature c) r' ''risk.response_updated'' t"
    using responded.hyps by (simp_all add: responds_def)
  note old = inv_risk [OF responded.prems r(1)]
  note new = responded_well_formed [OF responded.hyps old [THEN conjunct2]]
  show ?case
    by (rule installs_inv [OF ins responded.prems]) (use new old r in \<open>auto simp: update_signature_def\<close>)
next
  case (previewed s c sig p t)
  then show ?case
    by (intro risk_inv_quiet [OF previewed.prems])
      (auto simp: previews_def same_links_def risk_inv_def split: if_splits)
next
  case (occurred c s p i r version iid out t)
  then show ?case by (blast intro: occurrence_inv)
next
  case (closed c s p i r version out t)
  then have mut: "mutates P s c p i r version
       (r\<lparr>risk_state := RiskState.Closed, in_exception_queue := False, risk_version := version\<rparr>)
       ''risk.closed'' RiskStored.Closed out t" and state: "risk_state r = RiskState.Open"
    by (auto simp: closes_def)
  then have "executes P s c p i r version" by (simp add: mutates_def)
  from executes_parts [OF this closed.prems] state show ?case
    by (intro mutated_inv [OF mut closed.prems])
      (auto simp: risk_well_formed_def response_settled_def execution_signature_def)
next
  case (lowered c s p i r version proposed out t)
  then have mut: "mutates P s c p i r version (r\<lparr>risk_classification := proposed, risk_version := version\<rparr>)
       ''risk.classification_lowered'' RiskStored.Risk out t"
    by (auto simp: lowers_def)
  then have "executes P s c p i r version" by (simp add: mutates_def)
  from executes_parts [OF this lowered.prems] lowering_facts [OF lowered.hyps(2) lowered.prems] show ?case
    by (intro mutated_inv [OF mut lowered.prems])
      (auto simp: risk_well_formed_def response_settled_def execution_signature_def)
next
  case (rejected s c p out t)
  then show ?case
    by (intro risk_inv_quiet [OF rejected.prems])
      (auto simp: rejects_def same_links_def risk_inv_def split: if_splits)
next
  case (discarded s i t)
  then show ?case
    by (intro risk_inv_quiet [OF discarded.prems])
      (auto simp: forget_prepared_def risk_inv_def dest: hm.retain_absent split: if_splits)
next
  case (denied c s code p a t)
  then show ?case
    by (intro risk_inv_quiet [OF denied.prems])
      (auto simp: denied_terminally_def Let_def same_links_def risk_inv_def execution_signature_def
        dest: hm.retain_absent split: if_splits)
qed

section \<open>History\<close>

definition risk_evolves :: "RiskRecord \<Rightarrow> RiskRecord \<Rightarrow> bool" where
  "risk_evolves r r' \<longleftrightarrow>
     risk_id r' = risk_id r \<and> risk_title r' = risk_title r \<and> risk_details r' = risk_details r \<and>
     risk_classification r' \<le> risk_classification r \<and>
     (r' = r \<or> risk_version r < risk_version r') \<and>
     (risk_state r \<noteq> RiskState.Open \<longrightarrow>
        risk_state r' = risk_state r \<and> risk_response r' = risk_response r \<and> risk_owner r' = risk_owner r \<and>
        risk_rationale r' = risk_rationale r \<and> risk_residual_exposure r' = risk_residual_exposure r \<and>
        risk_next_review_at r' = risk_next_review_at r \<and> in_exception_queue r' = in_exception_queue r)"

text \<open>What is stored for good: everything but previews and the outcomes of executions.\<close>

fun risk_permanent :: "RiskSignature \<Rightarrow> RiskStored \<Rightarrow> bool" where
  "risk_permanent (RiskSignature.Execute _ _ _) v = (terminal_of v \<noteq> None)"
| "risk_permanent _ (RiskStored.Prepared _) = False"
| "risk_permanent _ _ = True"

definition risk_later :: "'w risk_service \<Rightarrow> 'w risk_service \<Rightarrow> bool" where
  "risk_later s t \<longleftrightarrow>
     (\<forall>i r. hm_get (risks s) i = Some r \<longrightarrow> (\<exists>r'. hm_get (risks t) i = Some r' \<and> risk_evolves r r')) \<and>
     (\<forall>k sig v. hm_get (risk_idem s) k = Some (sig, v) \<longrightarrow> risk_permanent sig v \<longrightarrow>
        hm_get (risk_idem t) k = Some (sig, v)) \<and>
     prefix (risk_audits s) (risk_audits t) \<and> prefix (risk_links s) (risk_links t)"

lemma risk_evolves_refl [simp]: "risk_evolves r r"
  by (simp add: risk_evolves_def)

lemma risk_evolves_trans: "risk_evolves a b \<Longrightarrow> risk_evolves b c \<Longrightarrow> risk_evolves a c"
  unfolding risk_evolves_def by (auto intro: order.trans less_trans)

lemma risk_later_trans:
  assumes "risk_later s t" and "risk_later t u"
  shows "risk_later s u"
  unfolding risk_later_def
proof (intro conjI allI impI)
  show "\<exists>r2. hm_get (risks u) i = Some r2 \<and> risk_evolves r r2" if "hm_get (risks s) i = Some r" for i r
    using assms that unfolding risk_later_def by (meson risk_evolves_trans)
  show "hm_get (risk_idem u) k = Some (sig, v)"
    if "hm_get (risk_idem s) k = Some (sig, v)" "risk_permanent sig v" for k sig v
    using assms that unfolding risk_later_def by blast
  show "prefix (risk_audits s) (risk_audits u)" "prefix (risk_links s) (risk_links u)"
    using assms unfolding risk_later_def by (blast intro: prefix_order.trans)+
qed

lemma later_committed_risk:
  assumes com: "risk_committed consumed k sig v r' as s t" and links: "prefix (risk_links s) (risk_links t)"
    and slot: "\<And>sig' v'. hm_get (risk_idem s) k = Some (sig', v') \<Longrightarrow> \<not> risk_permanent sig' v'"
    and old: "\<And>r. hm_get (risks s) (risk_id r') = Some r \<Longrightarrow> risk_evolves r r'"
  shows "risk_later s t"
  unfolding risk_later_def
proof (intro conjI allI impI links)
  show "\<exists>r2. hm_get (risks t) i = Some r2 \<and> risk_evolves r r2" if "hm_get (risks s) i = Some r" for i r
    using that com old by (auto simp: risk_committed_def)
  show "hm_get (risk_idem t) k2 = Some (sig2, v2)"
    if "hm_get (risk_idem s) k2 = Some (sig2, v2)" "risk_permanent sig2 v2" for k2 sig2 v2
    using that com slot by (auto simp: risk_committed_def)
  show "prefix (risk_audits s) (risk_audits t)"
    using com by (simp add: risk_committed_def)
qed

lemma execution_slot_not_permanent:
  "execution_slot c s \<Longrightarrow> hm_get (risk_idem s) (risk_idempotency_id (risk_execute_context c)) = Some (sig, v) \<Longrightarrow>
     \<not> risk_permanent sig v"
  by (auto simp: execution_slot_def risk_replaceable_def execution_signature_def)

lemma stored_prepared_not_permanent: "risk_kind_matches sig v \<Longrightarrow> risk_stored_prepared_for i v \<Longrightarrow> \<not> risk_permanent sig v"
  by (cases sig; cases v) auto

lemma installs_later:
  assumes "installs s c sig r' code t" and "\<And>r. hm_get (risks s) (risk_id r') = Some r \<Longrightarrow> risk_evolves r r'"
  shows "risk_later s t"
proof -
  from assms(1) obtain m a where com: "risk_committed None (risk_idempotency_id c) sig (RiskStored.Risk m) r' [a] s t"
    and unused: "risk_unused c s" and links: "same_links s t" unfolding installs_def by blast
  show ?thesis
    by (rule later_committed_risk [OF com _ _ assms(2)])
      (use unused links in \<open>simp_all add: risk_unused_def same_links_def\<close>)
qed

lemma mutates_later:
  assumes "mutates P s c p i r version r' code store out t" and "execution_slot c s"
    and "risk_id r' = i" and "risk_evolves r r'"
  shows "risk_later s t"
proof -
  from assms(1) obtain a where ex: "executes P s c p i r version" and links: "same_links s t"
    and com: "risk_committed (Some (prepared_id p)) (risk_idempotency_id (risk_execute_context c))
          (execution_signature (risk_approval c)) (store out) r' [a] s t"
    unfolding mutates_def by blast
  show ?thesis
    by (rule later_committed_risk [OF com _ execution_slot_not_permanent [OF assms(2)]])
      (use ex links assms(3,4) in \<open>auto simp: executes_def same_links_def\<close>)
qed

lemma retained_permanent:
  assumes "risk_inv s" and "hm_get (risk_idem s) k = Some (sig, v)" and "risk_permanent sig v"
  shows "hm_get (hm_retain (\<lambda>(_, v). \<not> risk_stored_prepared_for i v) (risk_idem s)) k = Some (sig, v)"
proof -
  have "hm_wf (risk_idem s)" "\<not> risk_stored_prepared_for i v"
    using assms stored_prepared_not_permanent [of sig v i] by (auto simp: risk_inv_def)
  with assms(2) show ?thesis by (simp add: hm.get_retain)
qed

lemma risk_event_later:
  assumes "risk_event P ac s t" and "risk_inv s"
  shows "risk_later s t"
  using assms
proof (induction rule: risk_event.induct)
  case (quiet s t ac)
  then show ?case by (auto simp: risk_effectless_def same_links_def risk_later_def)
next
  case (created s c r t)
  then have "hm_get (risks s) (risk_id r) = None" by (auto simp: creates_def bare_risk_def)
  with created.hyps show ?case by (auto simp: creates_def intro: installs_later)
next
  case (responded s c r r' t)
  have r: "hm_get (risks s) (update_risk_id c) = Some r" "risk_state r = RiskState.Open"
    and ins: "installs s (update_context c) (update_signature c) r' ''risk.response_updated'' t"
    using responded.hyps by (simp_all add: responds_def)
  from responded.hyps obtain version where "r' = respond c version r" by (auto simp: responds_def)
  with responded_well_formed [OF responded.hyps] inv_risk [OF responded.prems r(1)] r
  have "risk_evolves r r' \<and> risk_id r' = update_risk_id c"
    by (auto simp: risk_evolves_def respond_def)
  with r show ?case by (auto intro: installs_later [OF ins])
next
  case (previewed s c sig p t)
  then show ?case by (auto simp: previews_def risk_later_def risk_unused_def same_links_def)
next
  case (occurred c s p i r version iid out t)
  from occurred.hyps(2) have ex: "executes P s c p i r version" and state: "risk_state r = RiskState.Open"
    and r': "occurred_risk out = r\<lparr>risk_state := RiskState.Occurred, risk_version := version\<rparr>"
    and com: "risk_committed (Some (prepared_id p)) (risk_idempotency_id (risk_execute_context c))
       (execution_signature (risk_approval c)) (RiskStored.Occurred out) (occurred_risk out)
       (occurred_audit_events out) s t"
    and links: "risk_links t = risk_links s @ [occurrence_link r (occurred_risk out) iid]"
    unfolding occurs_def by blast+
  from executes_parts [OF ex occurred.prems] state r'
  have "risk_evolves r (occurred_risk out) \<and> risk_id (occurred_risk out) = i \<and> hm_get (risks s) i = Some r"
    by (simp add: risk_evolves_def)
  with links show ?case
    by (intro later_committed_risk [OF com _ execution_slot_not_permanent [OF occurred.hyps(1)]]) auto
next
  case (closed c s p i r version out t)
  then have mut: "mutates P s c p i r version
       (r\<lparr>risk_state := RiskState.Closed, in_exception_queue := False, risk_version := version\<rparr>)
       ''risk.closed'' RiskStored.Closed out t" and state: "risk_state r = RiskState.Open"
    by (auto simp: closes_def)
  then have "executes P s c p i r version" by (simp add: mutates_def)
  from executes_parts [OF this closed.prems] state show ?case
    by (intro mutates_later [OF mut closed.hyps(1)]) (auto simp: risk_evolves_def)
next
  case (lowered c s p i r version proposed out t)
  then have mut: "mutates P s c p i r version (r\<lparr>risk_classification := proposed, risk_version := version\<rparr>)
       ''risk.classification_lowered'' RiskStored.Risk out t"
    by (auto simp: lowers_def)
  then have "executes P s c p i r version" by (simp add: mutates_def)
  from executes_parts [OF this lowered.prems] lowering_facts [OF lowered.hyps(2) lowered.prems] show ?case
    by (intro mutates_later [OF mut lowered.hyps(1)]) (auto simp: risk_evolves_def)
next
  case (rejected s c p out t)
  then show ?case by (auto simp: rejects_def risk_later_def risk_unused_def same_links_def)
next
  case (discarded s i t)
  then show ?case using retained_permanent [OF discarded.prems] by (auto simp: forget_prepared_def risk_later_def)
next
  case (denied c s code p a t)
  then show ?case
    using retained_permanent [OF denied.prems] execution_slot_not_permanent [OF denied.hyps(1)]
    by (auto simp: denied_terminally_def Let_def risk_later_def same_links_def)
qed

section \<open>Runs\<close>

lemma risk_inv_elsewhere: "risk_inv s \<Longrightarrow> risk_inv (s\<lparr>risk_world := w, issue_authority := m\<rparr>)"
  by (rule risk_inv_quiet) (auto simp: risk_inv_def)

lemma risk_later_elsewhere: "risk_later s (s\<lparr>risk_world := w, issue_authority := m\<rparr>)"
  by (simp add: risk_later_def)

lemma risk_step_inv: "risk_inv s \<Longrightarrow> risk_inv (risk_step P c s)"
  using risk_step_event [of s P c] by (auto intro: risk_event_inv risk_inv_elsewhere)

lemma risk_step_later: "risk_inv s \<Longrightarrow> risk_later s (risk_step P c s)"
  using risk_step_event [of s P c] by (auto intro: risk_event_later risk_later_elsewhere)

interpretation risk_machine: monotone_system "risk_step P" risk_inv risk_later
proof
  fix c s t u
  show "risk_inv (risk_step P c s)" if "risk_inv s"
    using that by (rule risk_step_inv)
  show "risk_later s s" by (simp add: risk_later_def)
  show "risk_later s u" if "risk_later s t" "risk_later t u"
    using that by (rule risk_later_trans)
  show "risk_later s (risk_step P c s)" if "risk_inv s"
    using that by (rule risk_step_later)
qed

text \<open>Only an occurrence touches the links and the shared Issues.\<close>

lemma risk_event_links:
  assumes "risk_event P ac s t"
  shows "same_links s t \<or> (\<exists>c p i r version iid out. ac = Some c \<and> execution_slot c s \<and> occurs P s c p i r version iid out t)"
  using assms
proof (cases rule: risk_event.cases)
  case (discarded i)
  then show ?thesis by (simp add: forget_prepared_def same_links_def)
qed (auto simp: risk_effectless_def creates_def responds_def installs_def previews_def closes_def lowers_def
    mutates_def rejects_def denied_terminally_def Let_def)

lemma risk_inv_new: "risk_inv (risk_service_new w authority)"
  by (simp add: risk_inv_def risk_service_new_def)

end
