(* ===== verification/Risk_Example.thy ===== *)
theory Risk_Example
  imports Risk_Refinement
begin

text \<open>
  The concrete Risk service the witnesses run on: a clock that ticks at every reading, identifiers
  drawn from the tick, an authorizing environment whose second component says whether policy denies,
  and one Risk that is created, responded to, occurs, is lowered or closed.
\<close>

definition risk_example_ports :: "(nat \<times> bool) risk_ports" where
  "risk_example_ports =
     \<lparr>risk_clock_now = \<lambda>(n, d). (UtcTimestamp (word_of_nat n), (Suc n, d)),
      risk_next_prepared_intent_id = \<lambda>(n, d). (Inr (CHR ''p'' # replicate n CHR ''i''), (Suc n, d)),
      risk_next_approval_receipt_id = \<lambda>(n, d). (Inr (CHR ''r'' # replicate n CHR ''i''), (Suc n, d)),
      risk_next_audit_event_id = \<lambda>(n, d). (Inr (CHR ''a'' # replicate n CHR ''i''), (Suc n, d)),
      risk_authorize = \<lambda>w a. True,
      risk_current_policy = \<lambda>(n, d) op. if d then RiskExecutionPolicy.Denied else RiskExecutionPolicy.Allowed,
      linked_evidence_is_current = \<lambda>w i. Inr True,
      risk_current_classification = \<lambda>w i recorded. Inr recorded,
      risk_sha256_hex = \<lambda>m. ''digest''\<rparr>"

text \<open>The same environment with a clock that stands still and a policy that always allows.\<close>

definition steady_ports :: "(nat \<times> bool) risk_ports" where
  "steady_ports = risk_example_ports
     \<lparr>risk_clock_now := \<lambda>(n, d). (UtcTimestamp 0, (Suc n, d)),
      risk_current_policy := \<lambda>w op. RiskExecutionPolicy.Allowed\<rparr>"

definition risk_example_context :: "string \<Rightarrow> RiskOperationContext" where
  "risk_example_context k = \<lparr>risk_idempotency_id = k, risk_correlation_id = ''corr''\<rparr>"

definition risk_example_create :: CreateRisk where
  "risk_example_create =
     \<lparr>create_risk_id = ''risk-1'', create_risk_title = ''Title'', create_risk_details = ''Details'',
      create_risk_classification = DataClassification.Internal,
      create_risk_context = risk_example_context ''k-create''\<rparr>"

definition risk_example_prepare_occurrence :: PrepareRecordRiskOccurrence where
  "risk_example_prepare_occurrence =
     \<lparr>occurrence_risk_id = ''risk-1'', occurrence_expected_version = AggregateVersion 1,
      occurrence_issue_id = ''issue-1'', occurrence_context = risk_example_context ''k-prepare''\<rparr>"

definition risk_example_prepare_close :: "AggregateVersion \<Rightarrow> PrepareCloseRisk" where
  "risk_example_prepare_close v =
     \<lparr>close_risk_id = ''risk-1'', close_risk_expected_version = v, close_risk_rationale = ''Gone'',
      close_risk_context = risk_example_context ''k-prepare-close''\<rparr>"

definition risk_example_prepare_lower :: "AggregateVersion \<Rightarrow> PrepareLowerRiskClassification" where
  "risk_example_prepare_lower v =
     \<lparr>lower_risk_id = ''risk-1'', lower_risk_expected_version = v,
      lower_risk_proposed_classification = DataClassification.Public, lower_risk_rationale = ''Cleared'',
      lower_risk_context = risk_example_context ''k-prepare-lower''\<rparr>"

definition risk_example_approve :: "string \<Rightarrow> string \<Rightarrow> string \<Rightarrow> ApproveAndExecuteRisk" where
  "risk_example_approve p digest k =
     \<lparr>risk_approval = \<lparr>approval_prepared_id = p, approval_actor = AuditActor.HeadOfProducts,
        acknowledged_payload_digest = digest, approval_idempotency_id = k\<rparr>,
      risk_execute_context = risk_example_context k\<rparr>"

definition risk_example_run :: "(nat \<times> bool) risk_command list \<Rightarrow> (nat \<times> bool) risk_service" where
  "risk_example_run cs = fold (risk_step risk_example_ports) cs (risk_service_new (0, False) [])"

lemma risk_example_inv: "risk_inv (risk_example_run cs)"
  unfolding risk_example_run_def by (rule risk_machine.inv_run [OF risk_inv_new])

lemma result_collapse: "is_ok (fst x) \<Longrightarrow> x = (Inr (projr (fst x)), snd x)"
  by (cases x; cases "fst x") simp_all

text \<open>The runs the witnesses use.\<close>

definition prepared_to_occur :: "(nat \<times> bool) risk_command list" where
  "prepared_to_occur = [Create_Risk risk_example_create, Prepare_Occurrence risk_example_prepare_occurrence]"

definition occurred_run :: "(nat \<times> bool) risk_command list" where
  "occurred_run = prepared_to_occur @ [Approve_Occurrence (risk_example_approve ''pii'' ''digest'' ''k-occur'')]"

definition occurred_to_lower :: "(nat \<times> bool) risk_command list" where
  "occurred_to_lower = occurred_run @ [Prepare_Lower_Risk (risk_example_prepare_lower (AggregateVersion 2))]"

definition lowered_run :: "(nat \<times> bool) risk_command list" where
  "lowered_run =
     [Create_Risk risk_example_create, Prepare_Lower_Risk (risk_example_prepare_lower (AggregateVersion 1)),
      Approve_Lower_Risk (risk_example_approve ''pii'' ''digest'' ''k-lower'')]"

definition lowered_and_closed :: "(nat \<times> bool) risk_command list" where
  "lowered_and_closed = lowered_run @
     [Prepare_Close_Risk (risk_example_prepare_close (AggregateVersion 2)),
      Approve_Close_Risk (risk_example_approve ''piiiiiiiii'' ''digest'' ''k-close'')]"

definition denied_to_close :: "(nat \<times> bool) risk_command list" where
  "denied_to_close =
     [Create_Risk risk_example_create, Prepare_Close_Risk (risk_example_prepare_close (AggregateVersion 1)),
      Risk_Environment (9, True) []]"

lemmas risk_example_runs = prepared_to_occur_def occurred_run_def occurred_to_lower_def lowered_run_def
  lowered_and_closed_def denied_to_close_def

end
