(* ===== verification/Store_Maps.thy ===== *)
theory Store_Maps
  imports Prelude
begin

text \<open>
  Hash maps rebuilt from lists: insertion of new keys in order, and a map keyed by its values' identity
  that is written out in key order and read back.
\<close>

lemma hm_insert_fresh: "k \<notin> set (map fst m) \<Longrightarrow> hm_insert k v m = m @ [(k, v)]"
  unfolding hm_insert_def by (induction m) auto

lemma fold_hm_insert:
  "distinct (map key xs) \<Longrightarrow> set (map fst m) \<inter> set (map key xs) = {} \<Longrightarrow>
     fold (\<lambda>x. hm_insert (key x) (val x)) xs m = m @ map (\<lambda>x. (key x, val x)) xs"
proof (induction xs arbitrary: m)
  case (Cons x xs)
  then have "fold (\<lambda>x. hm_insert (key x) (val x)) (x # xs) m =
      fold (\<lambda>x. hm_insert (key x) (val x)) xs (m @ [(key x, val x)])"
    by (simp add: hm_insert_fresh)
  also from Cons.prems have "\<dots> = (m @ [(key x, val x)]) @ map (\<lambda>x. (key x, val x)) xs"
    by (intro Cons.IH) auto
  finally show ?case by simp
qed simp

lemma hm_get_map:
  assumes "distinct (map key xs)"
  shows "hm_get (map (\<lambda>x. (key x, val x)) xs) k = Some v \<longleftrightarrow> (\<exists>x \<in> set xs. key x = k \<and> val x = v)"
proof -
  have "distinct (map fst (map (\<lambda>x. (key x, val x)) xs))" using assms by (simp add: comp_def)
  then have "hm_get (map (\<lambda>x. (key x, val x)) xs) k = Some v \<longleftrightarrow> (k, v) \<in> set (map (\<lambda>x. (key x, val x)) xs)"
    unfolding hm_get_def by (rule map_of_eq_Some_iff)
  then show ?thesis by auto
qed

lemma hm_get_in: "hm_wf m \<Longrightarrow> hm_get m k = Some v \<longleftrightarrow> (k, v) \<in> set m"
  by (simp add: hm_get_def hm_wf_def)

text \<open>A map keyed by its values' identity, written out in key order and read back.\<close>

lemma rebuilt_map:
  assumes wf: "hm_wf m" and keyed: "\<And>k v. hm_get m k = Some v \<Longrightarrow> key v = k"
  shows "distinct (map key (sort_key key (hm_values m)))"
    and "hm_get (map (\<lambda>v. (key v, v)) (sort_key key (hm_values m))) = hm_get m"
    and "hm_values (map (\<lambda>v. (key v, v)) (sort_key key (hm_values m))) = sort_key key (hm_values m)"
proof -
  from keyed hm_get_in [OF wf] have pairs: "\<forall>(k, v) \<in> set m. key v = k" by fast
  then have "map key (hm_values m) = map fst m" by (auto simp: hm_values_def)
  with wf show d: "distinct (map key (sort_key key (hm_values m)))"
    by (simp add: hm_wf_def distinct_map_sort_key)
  show "hm_get (map (\<lambda>v. (key v, v)) (sort_key key (hm_values m))) = hm_get m"
  proof
    fix k
    have "hm_get (map (\<lambda>v. (key v, v)) (sort_key key (hm_values m))) k = Some v \<longleftrightarrow> hm_get m k = Some v" for v
      using hm_get_map [OF d, of "\<lambda>v. v" k v] hm.set_vals [OF wf] keyed by auto
    then show "hm_get (map (\<lambda>v. (key v, v)) (sort_key key (hm_values m))) k = hm_get m k"
      by (metis option.exhaust)
  qed
  show "hm_values (map (\<lambda>v. (key v, v)) (sort_key key (hm_values m))) = sort_key key (hm_values m)"
    by (simp add: hm_values_def comp_def)
qed

lemma sort_key_twice [simp]: "sort_key f (sort_key f xs) = sort_key f xs"
  by (simp add: sort_key_id_iff)

end
