(* ===== verification/Risk_Restart.thy ===== *)
theory Risk_Restart
  imports Risk_Example Store_Maps
begin

text \<open>
  Restarting the Risk service: what a snapshot of it holds, what rehydration makes of a snapshot, which
  Risks the persisted constructors can rebuild, and two ways in which accepted commands leave a state
  that can never be snapshotted again.
\<close>

section \<open>What a snapshot holds\<close>

definition replay_entries :: "(operation_id \<times> RiskSignature \<times> RiskStored) list \<Rightarrow> RiskReplayEntry list" where
  "replay_entries m =
     sort_key entry_idempotency_id
       (map (\<lambda>(i, sig, v). \<lparr>entry_idempotency_id = i, entry_signature = sig, entry_stored = v\<rparr>) m)"

definition sorted_links :: "'w risk_service \<Rightarrow> RiskIssueLink list" where
  "sorted_links s = sort_key (\<lambda>l. (link_risk_id l, link_issue_id l)) (risk_links s)"

lemma risk_snapshot_Inr:
  assumes "persistence_snapshot_with_h2a s = Inr snap"
  obtains iss where "linked_issues (issue_authority s) (sorted_links s) = Inr iss"
    and "RiskPersistenceSnapshot_try_new_with_h2a (sort_key risk_id (hm_values (risks s))) (sort_key issue_id iss)
      (sorted_links s) (sort_key prepared_id (hm_values (risk_prepared s))) (replay_entries (risk_idem s))
      (risk_audits s) = Inr snap"
  using assms that
  unfolding persistence_snapshot_with_h2a_def Let_def replay_entries_def sorted_links_def rbind_Inr_iff by blast

lemma try_new_Inr:
  assumes "RiskPersistenceSnapshot_try_new_with_h2a rs iss links ps replay audits = Inr snap"
  shows "snap = \<lparr>snapshot_risks = rs, snapshot_occurrence_issues = iss, snapshot_links = links,
        snapshot_risk_prepared = ps, snapshot_replay = replay, snapshot_audits = audits\<rparr>"
    and "list_all (link_holds rs iss) links" and "list_all (link_count_matches links) rs"
    and "list_all (terminal_entry_holds (map prepared_id ps) (map audit_id audits)) replay"
  using assms by (auto simp: RiskPersistenceSnapshot_try_new_with_h2a_def Let_def split: if_splits)

lemma set_sorted_links [simp]: "set (sorted_links s) = set (risk_links s)"
  by (simp add: sorted_links_def)

lemma linked_issues_found:
  "linked_issues m ls = Inr iss \<Longrightarrow> x \<in> set iss \<Longrightarrow> \<exists>l \<in> set ls. hm_get m (link_issue_id l) = Some x"
  by (induction ls arbitrary: iss) (auto simp: rbind_Inr_iff)

section \<open>States that cannot be snapshotted\<close>

text \<open>A link whose Risk has moved on refuses the snapshot.\<close>

lemma moved_link_blocks_snapshot:
  assumes inv: "risk_inv s" and l: "l \<in> set (risk_links s)"
    and r: "hm_get (risks s) (link_risk_id l) = Some r" and moved: "link_risk_version l \<noteq> risk_version r"
  shows "\<not> is_ok (persistence_snapshot_with_h2a s)"
proof
  assume "is_ok (persistence_snapshot_with_h2a s)"
  then obtain snap where "persistence_snapshot_with_h2a s = Inr snap" by (auto simp: is_ok_iff)
  then obtain iss where
    "RiskPersistenceSnapshot_try_new_with_h2a (sort_key risk_id (hm_values (risks s))) (sort_key issue_id iss)
      (sorted_links s) (sort_key prepared_id (hm_values (risk_prepared s))) (replay_entries (risk_idem s))
      (risk_audits s) = Inr snap" by (rule risk_snapshot_Inr)
  from try_new_Inr(2) [OF this] l
  have "link_holds (sort_key risk_id (hm_values (risks s))) (sort_key issue_id iss) l"
    by (simp add: list_all_iff)
  then obtain r' where r': "List.find (\<lambda>q. risk_id q = link_risk_id l) (sort_key risk_id (hm_values (risks s))) = Some r'"
    and same: "risk_version r' = link_risk_version l"
    by (auto simp: link_holds_def split: option.splits)
  from r' have "r' \<in> set (sort_key risk_id (hm_values (risks s)))" "risk_id r' = link_risk_id l"
    using nth_mem unfolding find_Some_iff by blast+
  then have "hm_get (risks s) (link_risk_id l) = Some r'"
    using inv by (auto simp: hm.set_vals risk_inv_def)
  with r same moved show False by simp
qed

text \<open>So does a terminal denial that is not the acknowledged one of the Head of Products.\<close>

lemma odd_terminal_blocks_snapshot:
  assumes inv: "risk_inv s" and k: "hm_get (risk_idem s) k = Some (sig, RiskStored.Terminal x)"
    and odd: "sig \<noteq> RiskSignature.Execute (prepared_id (terminal_prepared x)) AuditActor.HeadOfProducts
      (prepared_payload_digest (terminal_prepared x))"
  shows "\<not> is_ok (persistence_snapshot_with_h2a s)"
proof
  assume "is_ok (persistence_snapshot_with_h2a s)"
  then obtain snap where "persistence_snapshot_with_h2a s = Inr snap" by (auto simp: is_ok_iff)
  then obtain iss where
    "RiskPersistenceSnapshot_try_new_with_h2a (sort_key risk_id (hm_values (risks s))) (sort_key issue_id iss)
      (sorted_links s) (sort_key prepared_id (hm_values (risk_prepared s))) (replay_entries (risk_idem s))
      (risk_audits s) = Inr snap" by (rule risk_snapshot_Inr)
  note holds = try_new_Inr(4) [OF this]
  have "(k, sig, RiskStored.Terminal x) \<in> set (risk_idem s)"
    using inv k by (simp add: risk_inv_def hm_get_in)
  then have "\<lparr>entry_idempotency_id = k, entry_signature = sig, entry_stored = RiskStored.Terminal x\<rparr>
      \<in> set (replay_entries (risk_idem s))"
    by (force simp: replay_entries_def)
  with holds odd show False by (auto simp: list_all_iff terminal_entry_holds_def)
qed

section \<open>Which Risks can be rebuilt\<close>

definition rebuilt :: "RiskRecord \<Rightarrow> bool" where
  "rebuilt r \<longleftrightarrow>
     (let i = risk_id r; title = risk_title r; details = risk_details r;
          cls = risk_classification r; version = risk_version r in
      Inr r \<in> {from_persisted_created_open i title details cls version,
               from_persisted_open_with_lowered_classification i title details cls version,
               from_persisted_occurred_from_created_open i title details cls version,
               from_persisted_closed_from_created_open i title details cls version} \<or>
      (case risk_response r of
         None \<Rightarrow> False
       | Some response \<Rightarrow>
           Inr r = from_persisted_responded i title details cls version (risk_state r) response (risk_owner r)
             (risk_rationale r) (risk_residual_exposure r) (risk_next_review_at r)))"

lemma bare_risk_eq:
  "risk_version r = v \<Longrightarrow>
   bare_risk (risk_id r) (risk_title r) (risk_details r) (risk_classification r) state queue v = r \<longleftrightarrow>
     risk_response r = None \<and> risk_owner r = None \<and> risk_rationale r = None \<and>
     risk_residual_exposure r = None \<and> risk_next_review_at r = None \<and>
     risk_state r = state \<and> in_exception_queue r = queue"
  by (cases r) (auto simp: bare_risk_def)

text \<open>
  C23. The persisted constructors of a Risk rebuild a Risk of the service exactly when it has a
  response, or is Open, or is at the second version: whatever commands led to it, the rebuilt Risk is
  then the same Risk, otherwise no constructor accepts it. A Risk whose classification was lowered
  before it was closed or occurred without a response is not one of them.
\<close>

theorem risk_rebuilt_exactly:
  assumes inv: "risk_inv s" and r: "hm_get (risks s) i = Some r"
  shows "rebuilt r \<longleftrightarrow>
    risk_response r \<noteq> None \<or> risk_state r = RiskState.Open \<or> risk_version r = second_version"
proof -
  from inv_risk [OF inv r] have wf: "risk_well_formed r" by blast
  show ?thesis
  proof (cases "risk_response r")
    case None
    with wf show ?thesis
      by (cases "risk_state r")
        (auto simp: rebuilt_def Let_def from_persisted_created_open_def from_persisted_open_with_lowered_classification_def
          from_persisted_occurred_from_created_open_def from_persisted_closed_from_created_open_def
          risk_well_formed_def response_settled_def bare_risk_eq eq_commute [of r])
  next
    case (Some response)
    with wf have "Inr r = from_persisted_responded (risk_id r) (risk_title r) (risk_details r)
        (risk_classification r) (risk_version r) (risk_state r) response (risk_owner r)
        (risk_rationale r) (risk_residual_exposure r) (risk_next_review_at r)"
      by (cases r) (auto simp: from_persisted_responded_def risk_well_formed_def response_settled_def)
    with Some show ?thesis by (simp add: rebuilt_def Let_def)
  qed
qed

theorem risk_rebuilt_exactly_witness:
  "\<exists>r. hm_get (risks (risk_example_run lowered_and_closed)) ''risk-1'' = Some r \<and> \<not> rebuilt r \<and>
    risk_state r = RiskState.Closed \<and> risk_response r = None \<and> risk_version r = AggregateVersion 3"
proof -
  let ?s = "risk_example_run lowered_and_closed"
  have found: "hm_get (risks ?s) ''risk-1'' = Some (the (hm_get (risks ?s) ''risk-1''))" by code_simp
  have facts: "risk_state (the (hm_get (risks ?s) ''risk-1'')) = RiskState.Closed"
    "risk_response (the (hm_get (risks ?s) ''risk-1'')) = None"
    "risk_version (the (hm_get (risks ?s) ''risk-1'')) = AggregateVersion 3"
    "AggregateVersion 3 \<noteq> second_version" by code_simp+
  with risk_rebuilt_exactly [OF risk_example_inv found] found show ?thesis by (intro exI) auto
qed

section \<open>Restart\<close>

lemma sorted_risks_map:
  assumes "risk_inv s"
  shows "distinct (map risk_id (sort_key risk_id (hm_values (risks s))))"
    and "hm_get (map (\<lambda>r. (risk_id r, r)) (sort_key risk_id (hm_values (risks s)))) = hm_get (risks s)"
    and "hm_values (map (\<lambda>r. (risk_id r, r)) (sort_key risk_id (hm_values (risks s)))) =
      sort_key risk_id (hm_values (risks s))"
    and "distinct (map prepared_id (sort_key prepared_id (hm_values (risk_prepared s))))"
    and "hm_get (map (\<lambda>p. (prepared_id p, p)) (sort_key prepared_id (hm_values (risk_prepared s)))) =
      hm_get (risk_prepared s)"
    and "hm_values (map (\<lambda>p. (prepared_id p, p)) (sort_key prepared_id (hm_values (risk_prepared s)))) =
      sort_key prepared_id (hm_values (risk_prepared s))"
  using assms by (auto simp: risk_inv_def intro!: rebuilt_map)

lemma replay_entries_map:
  assumes "hm_wf m"
  shows "distinct (map entry_idempotency_id (replay_entries m))"
    and "hm_get (map (\<lambda>e. (entry_idempotency_id e, entry_signature e, entry_stored e)) (replay_entries m)) = hm_get m"
    and "replay_entries (map (\<lambda>e. (entry_idempotency_id e, entry_signature e, entry_stored e)) (replay_entries m)) =
      replay_entries m"
proof -
  let ?entry = "\<lambda>(i, sig, v). \<lparr>entry_idempotency_id = i, entry_signature = sig, entry_stored = v\<rparr>"
  have keys: "map entry_idempotency_id (map ?entry m) = map fst m" by auto
  show d: "distinct (map entry_idempotency_id (replay_entries m))"
    using assms unfolding replay_entries_def distinct_map_sort_key keys hm_wf_def .
  have members: "e \<in> set (replay_entries m) \<longleftrightarrow>
      (entry_idempotency_id e, entry_signature e, entry_stored e) \<in> set m" for e
    by (cases e) (force simp: replay_entries_def)
  show "hm_get (map (\<lambda>e. (entry_idempotency_id e, entry_signature e, entry_stored e)) (replay_entries m)) = hm_get m"
  proof
    fix k
    have "hm_get (map (\<lambda>e. (entry_idempotency_id e, entry_signature e, entry_stored e)) (replay_entries m)) k =
        Some (sig, v) \<longleftrightarrow> hm_get m k = Some (sig, v)" for sig v
    proof -
      have "(\<exists>e \<in> set (replay_entries m). entry_idempotency_id e = k \<and> (entry_signature e, entry_stored e) = (sig, v)) \<longleftrightarrow>
          (k, sig, v) \<in> set m"
        using members [of "\<lparr>entry_idempotency_id = k, entry_signature = sig, entry_stored = v\<rparr>"]
        by (auto simp: members
          intro: bexI [of _ "\<lparr>entry_idempotency_id = k, entry_signature = sig, entry_stored = v\<rparr>"])
      then show ?thesis
        unfolding hm_get_map [OF d, of "\<lambda>e. (entry_signature e, entry_stored e)"] hm_get_in [OF assms] .
    qed
    then show "hm_get (map (\<lambda>e. (entry_idempotency_id e, entry_signature e, entry_stored e)) (replay_entries m)) k =
        hm_get m k"
      by (cases "hm_get m k";
          cases "hm_get (map (\<lambda>e. (entry_idempotency_id e, entry_signature e, entry_stored e)) (replay_entries m)) k")
        auto
  qed
  have "map ?entry (map (\<lambda>e. (entry_idempotency_id e, entry_signature e, entry_stored e)) (replay_entries m)) =
      replay_entries m"
    by (rule trans [OF map_map], rule map_idI) simp
  then show "replay_entries (map (\<lambda>e. (entry_idempotency_id e, entry_signature e, entry_stored e)) (replay_entries m)) =
      replay_entries m"
    unfolding replay_entries_def [of "map _ _"] by (simp add: replay_entries_def)
qed

definition restored :: "'w \<Rightarrow> 'v risk_service \<Rightarrow> 'w risk_service" where
  "restored w s =
     \<lparr>risk_world = w, issue_authority = issue_authority s,
      risks = map (\<lambda>r. (risk_id r, r)) (sort_key risk_id (hm_values (risks s))),
      risk_prepared = map (\<lambda>p. (prepared_id p, p)) (sort_key prepared_id (hm_values (risk_prepared s))),
      risk_idem = map (\<lambda>e. (entry_idempotency_id e, entry_signature e, entry_stored e))
        (replay_entries (risk_idem s)),
      risk_audits = risk_audits s, risk_links = sorted_links s, fail_next_risk_commit = False\<rparr>"

lemma rehydrated:
  assumes inv: "risk_inv s" and snap: "persistence_snapshot_with_h2a s = Inr snap"
    and keyed: "\<And>i x. hm_get (issue_authority s) i = Some x \<Longrightarrow> issue_id x = i"
  shows "rehydrate_with_h2a_and_issue_authority w snap (issue_authority s) = Inr (restored w s)"
proof -
  from risk_snapshot_Inr [OF snap] obtain iss where
    iss: "linked_issues (issue_authority s) (sorted_links s) = Inr iss"
    and new: "RiskPersistenceSnapshot_try_new_with_h2a (sort_key risk_id (hm_values (risks s))) (sort_key issue_id iss)
      (sorted_links s) (sort_key prepared_id (hm_values (risk_prepared s))) (replay_entries (risk_idem s))
      (risk_audits s) = Inr snap" .
  have held: "hm_get (issue_authority s) (issue_id x) = Some x" if "x \<in> set iss" for x
    using linked_issues_found [OF iss that] keyed by auto
  have wf: "hm_wf (risk_idem s)" using inv by (simp add: risk_inv_def)
  show ?thesis
    unfolding rehydrate_with_h2a_and_issue_authority_def try_new_Inr(1) [OF new] restored_def
    using held fold_hm_insert [OF sorted_risks_map(1) [OF inv], of "[]" "\<lambda>r. r"]
      fold_hm_insert [OF sorted_risks_map(4) [OF inv], of "[]" "\<lambda>p. p"]
      fold_hm_insert [OF replay_entries_map(1) [OF wf], of "[]" "\<lambda>e. (entry_signature e, entry_stored e)"]
    by (auto simp: list_ex_iff)
qed

lemma restored_inv:
  assumes "risk_inv s" shows "risk_inv (restored w s)"
proof -
  have wf: "hm_wf (risk_idem s)" using assms by (simp add: risk_inv_def)
  have same: "hm_get (risks (restored w s)) = hm_get (risks s)"
    "hm_get (risk_prepared (restored w s)) = hm_get (risk_prepared s)"
    "hm_get (risk_idem (restored w s)) = hm_get (risk_idem s)"
    using sorted_risks_map [OF assms] replay_entries_map [OF wf] by (simp_all add: restored_def)
  have maps: "hm_wf (risks (restored w s))" "hm_wf (risk_prepared (restored w s))" "hm_wf (risk_idem (restored w s))"
    using sorted_risks_map [OF assms] replay_entries_map(1) [OF wf]
    by (simp_all add: hm_wf_def restored_def comp_def)
  have "mset (links_of (sorted_links s) i) = mset (links_of (risk_links s) i)" for i
    by (simp add: links_of_def sorted_links_def mset_filter)
  then have "length (links_of (sorted_links s) i) = length (links_of (risk_links s) i)" for i
    by (metis size_mset)
  then have count: "link_count_matches (risk_links (restored w s)) r = link_count_matches (risk_links s) r" for r
    by (simp add: link_count_matches_def restored_def)
  have current: "operation_current (restored w s) op = operation_current s op" for op
    by (cases op) (simp_all add: previewed_as_def same)
  have sound: "link_sound (restored w s) l = link_sound s l" for l
    by (simp add: link_sound_def same)
  have links: "set (risk_links (restored w s)) = set (risk_links s)" by (simp add: restored_def)
  show ?thesis
    using assms unfolding risk_inv_def same count current list_all_iff sound links by (simp add: maps)
qed

lemma restored_snapshot:
  assumes "risk_inv s"
  shows "persistence_snapshot_with_h2a (restored w s) = persistence_snapshot_with_h2a s"
proof -
  have wf: "hm_wf (risk_idem s)" using assms by (simp add: risk_inv_def)
  have links: "sort_key (\<lambda>l. (link_risk_id l, link_issue_id l)) (sorted_links s) = sorted_links s"
    by (simp add: sorted_links_def)
  show ?thesis
    using sorted_risks_map(3,6) [OF assms] replay_entries_map(3) [OF wf] links
    unfolding persistence_snapshot_with_h2a_def Let_def replay_entries_def [symmetric] sorted_links_def [symmetric]
    by (simp add: restored_def sorted_links_def)
qed

text \<open>
  C10. Restart is lossless: when the service can be snapshotted, over an Issue authority whose records
  are stored under their own identity, rehydration accepts the snapshot; the restored service answers
  every lookup of a Risk, a preview and an idempotency key as before, keeps the audit log and the links,
  satisfies the invariant, and gives the same snapshot again.
\<close>

theorem risk_restart_round_trip:
  assumes inv: "risk_inv s" and snap: "persistence_snapshot_with_h2a s = Inr snap"
    and keyed: "\<And>i x. hm_get (issue_authority s) i = Some x \<Longrightarrow> issue_id x = i"
  shows "\<exists>t. rehydrate_with_h2a_and_issue_authority w snap (issue_authority s) = Inr t \<and>
    hm_get (risks t) = hm_get (risks s) \<and> hm_get (risk_prepared t) = hm_get (risk_prepared s) \<and>
    hm_get (risk_idem t) = hm_get (risk_idem s) \<and> risk_audits t = risk_audits s \<and>
    mset (risk_links t) = mset (risk_links s) \<and> issue_authority t = issue_authority s \<and>
    risk_inv t \<and> persistence_snapshot_with_h2a t = Inr snap"
proof (intro exI conjI)
  have wf: "hm_wf (risk_idem s)" using inv by (simp add: risk_inv_def)
  show "rehydrate_with_h2a_and_issue_authority w snap (issue_authority s) = Inr (restored w s)"
    by (rule rehydrated [OF inv snap keyed])
  show "risk_inv (restored w s)" by (rule restored_inv [OF inv])
  show "persistence_snapshot_with_h2a (restored w s) = Inr snap" by (simp add: restored_snapshot [OF inv] snap)
  show "hm_get (risk_idem (restored w s)) = hm_get (risk_idem s)"
    using replay_entries_map(2) [OF wf] by (simp add: restored_def)
qed (use sorted_risks_map [OF inv] in \<open>simp_all add: restored_def sorted_links_def\<close>)

theorem risk_restart_round_trip_witness:
  "\<exists>snap t. persistence_snapshot_with_h2a (risk_example_run occurred_run) = Inr snap \<and>
    rehydrate_with_h2a_and_issue_authority (0, False) snap (issue_authority (risk_example_run occurred_run)) = Inr t \<and>
    hm_get (risks t) = hm_get (risks (risk_example_run occurred_run)) \<and> risk_links t \<noteq> []"
proof -
  let ?s = "risk_example_run occurred_run"
  have "is_ok (persistence_snapshot_with_h2a ?s)" by code_simp
  then obtain snap where snap: "persistence_snapshot_with_h2a ?s = Inr snap" by (auto simp: is_ok_iff)
  have "list_all (\<lambda>(i, x). issue_id x = i) (issue_authority ?s)" by code_simp
  then have keyed: "issue_id x = i" if "hm_get (issue_authority ?s) i = Some x" for i x
    using map_of_SomeD [OF that [unfolded hm_get_def]] by (auto simp: list_all_iff)
  have "risk_links ?s \<noteq> []" by code_simp
  with risk_restart_round_trip [OF risk_example_inv snap keyed, of "(0, False)"] snap show ?thesis
    by (metis mset_zero_iff)
qed

section \<open>Commands that end the service's restarts\<close>

lemma traced_success:
  assumes "untraced (risk_traced P code c (execute_replayed outcome c fresh) s) = (Inr out, t)"
    and "hm_get (risk_idem s) (risk_idempotency_id (risk_execute_context c)) = None"
  shows "execution_slot c s \<and> fresh s = (Inr out, t) \<and>
    approval_idempotency_id (risk_approval c) = risk_idempotency_id (risk_execute_context c)"
proof -
  obtain r d u where run: "risk_traced P code c (execute_replayed outcome c fresh) s = ((r, d), u)"
    by (metis prod.collapse)
  with assms(1) have "r = Inr out" "u = t" by (simp_all add: untraced_def)
  with run have slot: "execution_slot c s" and ok: "execute_replayed outcome c fresh s = (Inr out, t)"
    by (simp_all add: risk_traced_Inr execution_slot_def)
  from execute_replayed_cases [OF ok] assms(2) slot show ?thesis by (auto simp: risk_replay_def)
qed

lemma traced_denial:
  assumes "risk_traced P code c (execute_replayed outcome c fresh) s = ((r, True), t)"
    and "code \<in> risk_denial_codes" and "errs_within risk_unaudited fresh"
    and "hm_get (risk_prepared s) (approval_prepared_id (risk_approval c)) = Some p"
  obtains a where "execution_slot c s" and "denied_terminally s c code p a t"
    and "r = Inl (risk_map_failure RiskFailure.PolicyDenied (risk_execute_context c))"
proof -
  from assms(1) obtain e where e: "r = Inl e" by (cases r) (simp_all add: risk_traced_Inr)
  have unaudited: "risk_unaudited s s1" if "execute_replayed outcome c fresh s = (Inl f, s1)" for f s1
    using execute_replayed_cases [OF that] errs_withinD [OF assms(3)] by (auto intro: risk_unaudited.refl)
  from risk_traced_Inl [OF assms(1) [unfolded e] assms(2)] unaudited assms(4)
  obtain q a where "e = risk_map_failure RiskFailure.PolicyDenied (risk_execute_context c)"
    and denied: "denied_terminally s c code q a t" and "execution_slot c s"
    unfolding execution_slot_def by (metis option.distinct(1))
  moreover from denied assms(4) have "q = p" by (simp add: denied_terminally_def Let_def)
  ultimately show thesis using that e by simp
qed

lemma lowered_by:
  assumes "approve_and_execute_lower_risk_classification P c s = (Inr out, t)"
    and "hm_get (risk_idem s) (risk_idempotency_id (risk_execute_context c)) = None"
  obtains p i r version proposed where "execution_slot c s" and "lowers P s c p i r version proposed out t"
  using traced_success [OF assms(1) [unfolded approve_and_execute_lower_risk_classification_def
      approve_and_execute_lower_risk_classification_traced_def execute_lower_risk_classification_def] assms(2)]
    lower_fresh_ok that by blast

text \<open>
  C24. Lowering the classification of an Occurred Risk, which the service accepts, ends its restarts: in
  the state after it and in every state any later commands lead to, no snapshot can be taken, because
  the link still carries the version and classification the Risk occurred with.
\<close>

theorem lowering_an_occurred_risk_blocks_restart:
  assumes inv: "risk_inv s"
    and run: "approve_and_execute_lower_risk_classification P c s = (Inr out, t)"
    and fresh: "hm_get (risk_idem s) (risk_idempotency_id (risk_execute_context c)) = None"
    and occurred: "risk_state (mutated_record out) = RiskState.Occurred"
  shows "\<not> is_ok (persistence_snapshot_with_h2a (fold (risk_step P) cs t))"
proof -
  from lowered_by [OF run fresh] obtain p i r version proposed where
    slot: "execution_slot c s" and low: "lowers P s c p i r version proposed out t" .
  then have event: "risk_event P (Some c) s t" by (rule lowered)
  note inv' = risk_event_inv [OF event inv]
  from low have ex: "executes P s c p i r version" and links: "same_links s t"
    and out: "mutated_record out = r\<lparr>risk_classification := proposed, risk_version := version\<rparr>"
    and after: "hm_get (risks t) i = Some (mutated_record out)"
    using inv_risk [OF inv, of i r]
    by (auto simp: lowers_def mutates_def risk_committed_def executes_def)
  from executes_parts [OF ex inv] have r: "hm_get (risks s) i = Some r" "risk_id r = i"
    and less: "risk_version r < version" by blast+
  from inv r have "link_count_matches (risk_links s) r" by (simp add: risk_inv_def)
  with occurred out r have "links_of (risk_links s) i \<noteq> []" by (auto simp: link_count_matches_def)
  then obtain l where l: "l \<in> set (risk_links s)" "link_risk_id l = i"
    by (auto simp: links_of_def filter_empty_conv)
  with inv r have bound: "link_risk_version l \<le> risk_version r"
    by (auto simp: risk_inv_def list_all_iff link_sound_def)
  let ?u = "fold (risk_step P) cs t"
  have later: "risk_later t ?u" by (rule risk_machine.later_run [OF inv'])
  from later after out obtain r' where r': "hm_get (risks ?u) i = Some r'" "version \<le> risk_version r'"
    by (fastforce simp: risk_later_def risk_evolves_def)
  from later links l have "l \<in> set (risk_links ?u)"
    by (auto simp: risk_later_def same_links_def dest: set_mono_prefix)
  moreover from bound less r'(2) have "link_risk_version l \<noteq> risk_version r'" by auto
  ultimately show ?thesis
    using moved_link_blocks_snapshot [OF risk_machine.inv_run [OF inv']] r' l by blast
qed

theorem lowering_an_occurred_risk_blocks_restart_witness:
  "is_ok (persistence_snapshot_with_h2a (risk_example_run occurred_to_lower)) \<and>
   \<not> is_ok (persistence_snapshot_with_h2a (snd (approve_and_execute_lower_risk_classification risk_example_ports
     (risk_example_approve ''piiiiiiiiiiiii'' ''digest'' ''k-lower'') (risk_example_run occurred_to_lower))))"
proof -
  let ?s = "risk_example_run occurred_to_lower"
  let ?run = "approve_and_execute_lower_risk_classification risk_example_ports
     (risk_example_approve ''piiiiiiiiiiiii'' ''digest'' ''k-lower'') ?s"
  have "is_ok (fst ?run)" by code_simp
  note run = result_collapse [OF this]
  have "hm_get (risk_idem ?s) (risk_idempotency_id
      (risk_execute_context (risk_example_approve ''piiiiiiiiiiiii'' ''digest'' ''k-lower''))) = None" by code_simp
  moreover have "risk_state (mutated_record (projr (fst ?run))) = RiskState.Occurred" by code_simp
  ultimately have "\<not> is_ok (persistence_snapshot_with_h2a (snd ?run))"
    using lowering_an_occurred_risk_blocks_restart [OF risk_example_inv run, of "[]"] by simp
  moreover have "is_ok (persistence_snapshot_with_h2a ?s)" by code_simp
  ultimately show ?thesis by blast
qed

text \<open>
  C31. Policy is asked before the approval is checked, so a denied closure is recorded whoever approves
  it and whatever digest is acknowledged. When that is not the Head of Products with the digest of
  the preview, the recorded denial ends the restarts: no snapshot can be taken in the state after it,
  nor in any state later commands lead to.
\<close>

theorem unacknowledged_denial_blocks_restart:
  assumes inv: "risk_inv s"
    and run: "approve_and_execute_close_risk_traced P c s = ((res, True), t)"
    and p: "hm_get (risk_prepared s) (approval_prepared_id (risk_approval c)) = Some p"
    and odd: "approval_actor (risk_approval c) \<noteq> AuditActor.HeadOfProducts \<or>
      acknowledged_payload_digest (risk_approval c) \<noteq> prepared_payload_digest p"
  shows "\<not> is_ok (persistence_snapshot_with_h2a (fold (risk_step P) cs t))"
proof -
  from traced_denial [OF run [unfolded approve_and_execute_close_risk_traced_def execute_close_def]
    risk_denial_codes_intros(2) errs_within_fresh(1) p] obtain a where
    slot: "execution_slot c s" and denied: "denied_terminally s c ''risk.close_denied'' p a t" .
  note inv' = risk_event_inv [OF risk_event.denied [OF slot denied] inv]
  let ?sig = "execution_signature (risk_approval c)" and ?u = "fold (risk_step P) cs t"
    and ?x = "\<lparr>terminal_prepared = p, terminal_error = risk_map_failure RiskFailure.PolicyDenied
      (risk_execute_context c), terminal_audit = a\<rparr>"
  have "hm_get (risk_idem t) (risk_idempotency_id (risk_execute_context c)) = Some (?sig, RiskStored.Terminal ?x)"
    using denied by (simp add: denied_terminally_def Let_def)
  then have kept: "hm_get (risk_idem ?u) (risk_idempotency_id (risk_execute_context c)) =
      Some (?sig, RiskStored.Terminal ?x)"
    using risk_machine.later_run [OF inv'] by (auto simp: risk_later_def execution_signature_def)
  have "prepared_id p = approval_prepared_id (risk_approval c)" using inv p by (simp add: risk_inv_def)
  with odd show ?thesis
    by (intro odd_terminal_blocks_snapshot [OF risk_machine.inv_run [OF inv'] kept])
      (auto simp: execution_signature_def)
qed

theorem unacknowledged_denial_blocks_restart_witness:
  "is_ok (persistence_snapshot_with_h2a (risk_example_run denied_to_close)) \<and>
   \<not> is_ok (persistence_snapshot_with_h2a (snd (approve_and_execute_close_risk_traced risk_example_ports
     (risk_example_approve ''pii'' ''wrong'' ''k-close'') (risk_example_run denied_to_close))))"
proof -
  let ?s = "risk_example_run denied_to_close"
  let ?c = "risk_example_approve ''pii'' ''wrong'' ''k-close''"
  let ?run = "approve_and_execute_close_risk_traced risk_example_ports ?c ?s"
  have "snd (fst ?run)" by code_simp
  then have run: "?run = ((fst (fst ?run), True), snd ?run)" by (simp add: prod_eq_iff)
  have "\<exists>p. hm_get (risk_prepared ?s) (approval_prepared_id (risk_approval ?c)) = Some p \<and>
      acknowledged_payload_digest (risk_approval ?c) \<noteq> prepared_payload_digest p"
    by (rule exI [of _ "the (hm_get (risk_prepared ?s) (approval_prepared_id (risk_approval ?c)))"]) code_simp
  with unacknowledged_denial_blocks_restart [OF risk_example_inv run, of _ "[]"]
  have "\<not> is_ok (persistence_snapshot_with_h2a (snd ?run))" by auto
  moreover have "is_ok (persistence_snapshot_with_h2a ?s)" by code_simp
  ultimately show ?thesis by blast
qed

end
