(* ===== verification/Risk_Properties.thy ===== *)
theory Risk_Properties
  imports Risk_Restart
begin

text \<open>
  The properties of the Risk service over single commands and over runs: its invariant and history,
  the atomic occurrence, the approval every change of state or classification rests on, the terminal
  policy denial, and that an Open Risk can be closed.
\<close>

section \<open>Runs\<close>

text \<open>
  C6. Whatever commands are sent to a new Risk service, and however its environment and the shared
  Issue authority change between them, its invariant holds: Risks are stored under their identity,
  never unclassified, and in the exception queue exactly when they are not Closed and not accepted or
  transferred; settled responses are complete; an Occurred Risk has exactly one link and every
  other none; previews bind a Risk at its version or an earlier one; every recorded outcome is of the
  kind its command has.
\<close>

theorem risk_invariant_over_runs: "risk_inv (fold (risk_step P) cs (risk_service_new w authority))"
  by (rule risk_machine.inv_run [OF risk_inv_new])

text \<open>
  C9. A Risk's history is never rewritten: between any two points of a run every Risk stays, keeps its
  identity, title and details, its version only grows and its classification only falls; after it has
  occurred or closed nothing but those two changes; links and audits are only appended, and recorded
  denials, rejections, creations and responses stay recorded.
\<close>

theorem risk_history_over_runs:
  "risk_later (fold (risk_step P) cs (risk_service_new w authority))
     (fold (risk_step P) (cs @ ds) (risk_service_new w authority))"
  using risk_machine.later_run [OF risk_machine.inv_run [OF risk_inv_new]] by simp

section \<open>Executions\<close>

lemma occurrence_classification:
  assumes "occurs P s c p i r version iid out t" and "risk_inv s"
  shows "preview_classification (prepared_preview p) = risk_classification r"
  using assms executes_parts [of P s c p i r version]
  by (auto simp: occurs_def previewed_as_def)

definition occurrence_committed ::
  "'w risk_ports \<Rightarrow> ApproveAndExecuteRisk \<Rightarrow> 'w risk_service \<Rightarrow> OccurredRiskOutcome \<Rightarrow> 'w risk_service \<Rightarrow> bool" where
  "occurrence_committed P c s out t \<longleftrightarrow>
     (\<exists>p r version iid.
        hm_get (risk_prepared s) (approval_prepared_id (risk_approval c)) = Some p \<and>
        risk_approved P (risk_world s) p (risk_approval c) \<and>
        hm_get (risks s) (risk_id r) = Some r \<and> risk_state r = RiskState.Open \<and>
        prepared_operation p =
          WorkManagementOperation.RecordRiskOccurrence (risk_id r) (risk_version r) iid (risk_classification r) \<and>
        AggregateVersion_next (risk_version r) = Some version \<and>
        hm_get (issue_authority s) iid = None \<and>
        occurred_risk out = r\<lparr>risk_state := RiskState.Occurred, risk_version := version\<rparr> \<and>
        occurred_issue out =
          IssueRecord_from_risk iid (risk_id r) (risk_title r) (risk_details r) (risk_classification r) \<and>
        occurrence_audits (risk_id r) iid (risk_execute_context c) (occurred_audit_events out) \<and>
        hm_get (risks t) = (hm_get (risks s))(risk_id r \<mapsto> occurred_risk out) \<and>
        hm_get (issue_authority t) = (hm_get (issue_authority s))(iid \<mapsto> occurred_issue out) \<and>
        risk_links t = risk_links s @ [occurrence_link r (occurred_risk out) iid] \<and>
        risk_audits t = risk_audits s @ occurred_audit_events out \<and>
        hm_get (risk_prepared t) = (hm_get (risk_prepared s))(prepared_id p := None))"

lemma occurs_committed:
  assumes occ: "occurs P s c p i r version iid out t" and inv: "risk_inv s"
  shows "occurrence_committed P c s out t"
proof -
  have ex: "executes P s c p i r version" using occ by (simp add: occurs_def)
  from executes_parts [OF ex inv] have i: "risk_id r = i" by blast
  have wf: "hm_wf (risk_prepared s)" using inv by (simp add: risk_inv_def)
  show ?thesis
    unfolding occurrence_committed_def
    by (rule exI [of _ p], rule exI [of _ r], rule exI [of _ version], rule exI [of _ iid])
      (use occ ex i wf occurrence_classification [OF occ inv] in
        \<open>auto simp: occurs_def executes_def risk_committed_def fun_eq_iff\<close>)
qed

text \<open>
  C7. Recording an occurrence is all or nothing. When it succeeds, it is either the replay of an
  occurrence already recorded under the same key and approval, or one step in which the Open
  Risk the approved preview binds occurs at its next version, the Issue is created from it with its
  title, details and classification under an identity that was free, the two are linked, three audits
  are written and the preview is consumed; nothing else changes. When it fails, no Risk, Issue or link
  changes.
\<close>

theorem risk_occurrence_atomic:
  assumes inv: "risk_inv s" and run: "approve_and_execute_record_risk_occurrence P c s = (res, t)"
  shows "case res of
      Inr out \<Rightarrow>
        t = s \<and> hm_get (risk_idem s) (risk_idempotency_id (risk_execute_context c)) =
          Some (execution_signature (risk_approval c), RiskStored.Occurred out) \<or>
        occurrence_committed P c s out t
    | Inl e \<Rightarrow> risks t = risks s \<and> issue_authority t = issue_authority s \<and> risk_links t = risk_links s \<and>
        (\<exists>as. risk_audits t = risk_audits s @ as \<and> list_all no_effect as)"
proof -
  obtain d where traced: "risk_traced P ''risk.occurrence_denied'' c
      (execute_replayed stored_occurred c (occurrence_fresh P c)) s = ((res, d), t)"
    using run unfolding approve_and_execute_record_risk_occurrence_def untraced_def execute_occurrence_def
      approve_and_execute_record_risk_occurrence_traced_def by (metis prod.collapse prod.inject)
  show ?thesis
  proof (cases res)
    case (Inl e)
    have unaudited: "risk_unaudited s s1"
      if "execute_replayed stored_occurred c (occurrence_fresh P c) s = (Inl f, s1)" for f s1
      using execute_replayed_cases [OF that] errs_withinD [OF errs_within_fresh(3)]
      by (auto intro: risk_unaudited.refl)
    from risk_traced_Inl [OF traced [unfolded Inl] risk_denial_codes_intros(1)] unaudited
    have "risk_effectless s t \<or> (\<exists>p a. denied_terminally s c ''risk.occurrence_denied'' p a t)" by blast
    with Inl show ?thesis
      by (auto simp: risk_effectless_def same_links_def denied_terminally_def Let_def failure_audit_of_def)
  next
    case (Inr out)
    with traced have "execute_replayed stored_occurred c (occurrence_fresh P c) s = (Inr out, t)"
      by (simp add: risk_traced_Inr)
    from execute_replayed_cases [OF this] show ?thesis
    proof (elim disjE exE conjE)
      fix v stored
      assume "Inr out = Inr v" "t = s" "stored_occurred stored = Some v"
        "risk_replay (risk_execute_context c) (execution_signature (risk_approval c)) s = Inr (Some stored)"
      with Inr show ?thesis
        by (cases stored) (auto simp: risk_replay_def split: option.splits if_splits)
    next
      assume "occurrence_fresh P c s = (Inr out, t)"
      with occurrence_fresh_ok occurs_committed [OF _ inv] Inr show ?thesis by fastforce
    qed auto
  qed
qed

theorem risk_occurrence_atomic_witness:
  "\<exists>out t. approve_and_execute_record_risk_occurrence risk_example_ports
      (risk_example_approve ''pii'' ''digest'' ''k-occur'') (risk_example_run prepared_to_occur) = (Inr out, t) \<and>
    occurrence_committed risk_example_ports (risk_example_approve ''pii'' ''digest'' ''k-occur'')
      (risk_example_run prepared_to_occur) out t"
proof -
  let ?s = "risk_example_run prepared_to_occur" and ?c = "risk_example_approve ''pii'' ''digest'' ''k-occur''"
  let ?run = "approve_and_execute_record_risk_occurrence risk_example_ports ?c ?s"
  have "is_ok (fst ?run)" by code_simp
  note run = result_collapse [OF this]
  have "hm_get (risk_idem ?s) (risk_idempotency_id (risk_execute_context ?c)) = None" by code_simp
  with risk_occurrence_atomic [OF risk_example_inv run] run show ?thesis by auto
qed

text \<open>
  C8. Nothing but an approved execution changes the state or the classification of a Risk: if a command
  leaves an existing Risk in another state or with another classification, it is one of the three
  approvals, its preview is stored and binds that Risk at its current version, and the Head of Products,
  authorized now, acknowledged the digest of that preview before it expired, under an allowing policy;
  the Risk was Open and occurred or closed, or its classification was lowered.
\<close>

theorem risk_changes_need_approval:
  assumes inv: "risk_inv s" and before: "hm_get (risks s) i = Some r"
    and after: "hm_get (risks (risk_step P cmd s)) i = Some r'"
    and changed: "risk_state r' \<noteq> risk_state r \<or> risk_classification r' \<noteq> risk_classification r"
  shows "\<exists>c p. command_approval cmd = Some c \<and>
    hm_get (risk_prepared s) (approval_prepared_id (risk_approval c)) = Some p \<and>
    risk_approved P (risk_world s) p (risk_approval c) \<and>
    ((\<exists>iid. prepared_operation p =
         WorkManagementOperation.RecordRiskOccurrence i (risk_version r) iid (risk_classification r) \<and>
       risk_state r = RiskState.Open \<and> risk_state r' = RiskState.Occurred \<and>
       risk_classification r' = risk_classification r) \<or>
     (\<exists>rationale. prepared_operation p = WorkManagementOperation.CloseRisk i (risk_version r) rationale \<and>
       risk_state r = RiskState.Open \<and> risk_state r' = RiskState.Closed \<and>
       risk_classification r' = risk_classification r) \<or>
     (\<exists>rationale. prepared_operation p = WorkManagementOperation.LowerRiskClassification i (risk_version r)
         (risk_classification r) (risk_classification r') rationale \<and>
       risk_state r' = risk_state r \<and> risk_classification r' < risk_classification r))"
proof -
  from before after changed have "\<nexists>w m. cmd = Risk_Environment w m" by auto
  then have "risk_event P (command_approval cmd) s (risk_step P cmd s)"
    using risk_step_event [OF inv] by blast
  then show ?thesis
  proof (cases rule: risk_event.cases)
    case quiet
    with before after changed show ?thesis by (simp add: risk_effectless_def)
  next
    case (created c q)
    then have "hm_get (risks s) (create_risk_id c) = None" "risk_id q = create_risk_id c"
      by (simp_all add: creates_def bare_risk_def)
    with created before after changed show ?thesis
      by (auto simp: creates_def installs_def risk_committed_def split: if_splits)
  next
    case (responded c q q')
    have q: "hm_get (risks s) (update_risk_id c) = Some q" using responded by (simp add: responds_def)
    with responded_well_formed [OF responded(2)] inv_risk [OF inv q]
    have same: "risk_id q' = update_risk_id c" "risk_state q' = RiskState.Open" by auto
    from responded have "risk_classification q' = risk_classification q" "risk_state q = RiskState.Open"
      by (auto simp: responds_def respond_def)
    with responded q same before after changed show ?thesis
      by (auto simp: responds_def installs_def risk_committed_def split: if_splits)
  next
    case (previewed c sig p)
    with before after changed show ?thesis by (simp add: previews_def)
  next
    case (occurred c p j q version iid out)
    from occurred have ex: "executes P s c p j q version" by (simp add: occurs_def)
    note parts = executes_parts [OF ex inv]
    have "risks (risk_step P cmd s) = hm_insert j (q\<lparr>risk_state := RiskState.Occurred, risk_version := version\<rparr>) (risks s)"
      using occurred parts by (simp add: occurs_def risk_committed_def)
    with before after changed parts have "j = i" "q = r" "r' = r\<lparr>risk_state := RiskState.Occurred, risk_version := version\<rparr>"
      by (auto split: if_splits)
    with occurred ex occurrence_classification [OF occurred(3) inv] show ?thesis
      by (auto simp: occurs_def executes_def)
  next
    case (closed c p j q version out)
    from closed have ex: "executes P s c p j q version" by (simp add: closes_def mutates_def)
    note parts = executes_parts [OF ex inv]
    have "risks (risk_step P cmd s) = hm_insert j
        (q\<lparr>risk_state := RiskState.Closed, in_exception_queue := False, risk_version := version\<rparr>) (risks s)"
      using closed parts by (auto simp: closes_def mutates_def risk_committed_def)
    with before after changed parts have "j = i" "q = r"
      "r' = r\<lparr>risk_state := RiskState.Closed, in_exception_queue := False, risk_version := version\<rparr>"
      by (auto split: if_splits)
    with closed ex show ?thesis by (auto simp: closes_def executes_def)
  next
    case (lowered c p j q version proposed out)
    from lowered have ex: "executes P s c p j q version" by (simp add: lowers_def mutates_def)
    note parts = executes_parts [OF ex inv]
    have "risks (risk_step P cmd s) = hm_insert j
        (q\<lparr>risk_classification := proposed, risk_version := version\<rparr>) (risks s)"
      using lowered parts by (auto simp: lowers_def mutates_def risk_committed_def)
    with before after changed parts have "j = i" "q = r"
      "r' = r\<lparr>risk_classification := proposed, risk_version := version\<rparr>"
      by (auto split: if_splits)
    with lowered ex lowering_facts [OF lowered(3) inv] show ?thesis by (auto simp: lowers_def executes_def)
  next
    case (rejected d p out)
    with before after changed show ?thesis by (simp add: rejects_def)
  next
    case (discarded j)
    with before after changed show ?thesis by (simp add: forget_prepared_def)
  next
    case (denied c code p a)
    with before after changed show ?thesis by (simp add: denied_terminally_def Let_def)
  qed
qed

theorem risk_changes_need_approval_witness:
  "\<exists>c p. command_approval (Approve_Occurrence (risk_example_approve ''pii'' ''digest'' ''k-occur'') ::
      (nat \<times> bool) risk_command) = Some c \<and>
    hm_get (risk_prepared (risk_example_run prepared_to_occur)) (approval_prepared_id (risk_approval c)) = Some p \<and>
    risk_approved risk_example_ports (risk_world (risk_example_run prepared_to_occur)) p (risk_approval c)"
proof -
  let ?s = "risk_example_run prepared_to_occur"
    and ?cmd = "Approve_Occurrence (risk_example_approve ''pii'' ''digest'' ''k-occur'') :: (nat \<times> bool) risk_command"
  let ?t = "risk_step risk_example_ports ?cmd ?s"
  have before: "hm_get (risks ?s) ''risk-1'' = Some (the (hm_get (risks ?s) ''risk-1''))" by code_simp
  have after: "hm_get (risks ?t) ''risk-1'' = Some (the (hm_get (risks ?t) ''risk-1''))" by code_simp
  have "risk_state (the (hm_get (risks ?t) ''risk-1'')) \<noteq> risk_state (the (hm_get (risks ?s) ''risk-1''))"
    by code_simp
  from risk_changes_need_approval [OF risk_example_inv before after disjI1 [OF this]]
  obtain c p where "command_approval ?cmd = Some c"
    "hm_get (risk_prepared ?s) (approval_prepared_id (risk_approval c)) = Some p"
    "risk_approved risk_example_ports (risk_world ?s) p (risk_approval c)"
    by (elim exE conjE) (rule that)
  then show ?thesis by (intro exI conjI)
qed

section \<open>Denials\<close>

lemma terminal_replayed:
  assumes "hm_get (risk_idem s) (risk_idempotency_id (risk_execute_context c)) =
      Some (execution_signature (risk_approval c), RiskStored.Terminal x)"
  shows "risk_traced P code c run s = ((Inl (terminal_error x), False), s)"
  using assms by (simp add: risk_traced_def replayed_terminal_error_def Let_def)

lemma denial_is_terminal:
  assumes inv: "risk_inv s"
    and run: "risk_traced P code c (execute_replayed outcome c fresh) s = ((res, True), t)"
    and code: "code \<in> risk_denial_codes" and err: "errs_within risk_unaudited fresh"
    and p: "hm_get (risk_prepared s) (approval_prepared_id (risk_approval c)) = Some p"
  shows "res = Inl (risk_err SecurityPolicyDenied ''risk.security_denied'' (risk_execute_context c)) \<and>
    (\<exists>a. denied_terminally s c code p a t) \<and>
    (\<forall>cs. risk_traced P code c (execute_replayed outcome c fresh) (fold (risk_step P) cs t) =
      ((res, False), fold (risk_step P) cs t))"
proof -
  from traced_denial [OF run code err p] obtain a where slot: "execution_slot c s"
    and denied: "denied_terminally s c code p a t"
    and res: "res = Inl (risk_map_failure RiskFailure.PolicyDenied (risk_execute_context c))" .
  note inv' = risk_event_inv [OF risk_event.denied [OF slot denied] inv]
  let ?x = "\<lparr>terminal_prepared = p, terminal_error = risk_map_failure RiskFailure.PolicyDenied
      (risk_execute_context c), terminal_audit = a\<rparr>"
  have "hm_get (risk_idem t) (risk_idempotency_id (risk_execute_context c)) =
      Some (execution_signature (risk_approval c), RiskStored.Terminal ?x)"
    using denied by (simp add: denied_terminally_def Let_def)
  then have "hm_get (risk_idem (fold (risk_step P) cs t)) (risk_idempotency_id (risk_execute_context c)) =
      Some (execution_signature (risk_approval c), RiskStored.Terminal ?x)" for cs
    using risk_machine.later_run [OF inv', of P cs] by (auto simp: risk_later_def execution_signature_def)
  from terminal_replayed [OF this] denied res show ?thesis by (auto simp: risk_map_failure_def)
qed

text \<open>
  C21. A closure that policy denies is denied for good: it answers with the security error, changes no
  Risk, Issue or link, consumes the preview and writes one audit of a denied, unattempted operation;
  afterwards, whatever commands run in between, the same approval answers with the same error and
  changes nothing.
\<close>

theorem policy_denial_is_terminal:
  assumes inv: "risk_inv s"
    and run: "approve_and_execute_close_risk_traced P c s = ((res, True), t)"
    and p: "hm_get (risk_prepared s) (approval_prepared_id (risk_approval c)) = Some p"
  shows "res = Inl (risk_err SecurityPolicyDenied ''risk.security_denied'' (risk_execute_context c)) \<and>
    risks t = risks s \<and> issue_authority t = issue_authority s \<and> risk_links t = risk_links s \<and>
    hm_get (risk_prepared t) = (hm_get (risk_prepared s))(approval_prepared_id (risk_approval c) := None) \<and>
    (\<exists>a. risk_audits t = risk_audits s @ [a] \<and> no_effect a \<and> audit_code a = ''risk.close_denied'' \<and>
       audit_policy_outcome a = AuditPolicyOutcome.Denied \<and>
       audit_execution_outcome a = AuditExecutionOutcome.NotAttempted) \<and>
    approve_and_execute_close_risk_traced P c (fold (risk_step P) cs t) = ((res, False), fold (risk_step P) cs t)"
proof -
  note defs = approve_and_execute_close_risk_traced_def execute_close_def
  have wf: "hm_wf (risk_prepared s)" using inv by (simp add: risk_inv_def)
  from denial_is_terminal [OF inv run [unfolded defs] risk_denial_codes_intros(2) errs_within_fresh(1) p]
  obtain a where res: "res = Inl (risk_err SecurityPolicyDenied ''risk.security_denied'' (risk_execute_context c))"
    and denied: "denied_terminally s c ''risk.close_denied'' p a t"
    and again: "approve_and_execute_close_risk_traced P c (fold (risk_step P) cs t) =
      ((res, False), fold (risk_step P) cs t)"
    unfolding defs by blast
  from denied wf have "hm_get (risk_prepared t) = (hm_get (risk_prepared s))(approval_prepared_id (risk_approval c) := None)"
    by (auto simp: denied_terminally_def Let_def)
  with denied again res show ?thesis
    by (auto simp: denied_terminally_def Let_def same_links_def failure_audit_of_def)
qed

theorem policy_denial_is_terminal_witness:
  "\<exists>res t. approve_and_execute_close_risk_traced risk_example_ports (risk_example_approve ''pii'' ''digest'' ''k-close'')
      (risk_example_run denied_to_close) = ((res, True), t) \<and>
    approve_and_execute_close_risk_traced risk_example_ports (risk_example_approve ''pii'' ''digest'' ''k-close'')
      t = ((res, False), t)"
proof -
  let ?s = "risk_example_run denied_to_close" and ?c = "risk_example_approve ''pii'' ''digest'' ''k-close''"
  let ?run = "approve_and_execute_close_risk_traced risk_example_ports ?c ?s"
  have "snd (fst ?run)" by code_simp
  then have run: "?run = ((fst (fst ?run), True), snd ?run)" by (simp add: prod_eq_iff)
  have "hm_get (risk_prepared ?s) (approval_prepared_id (risk_approval ?c)) =
      Some (the (hm_get (risk_prepared ?s) (approval_prepared_id (risk_approval ?c))))" by code_simp
  from policy_denial_is_terminal [OF risk_example_inv run this, of "[]"]
  have "approve_and_execute_close_risk_traced risk_example_ports ?c (snd ?run) = ((fst (fst ?run), False), snd ?run)"
    by simp
  with run show ?thesis by (intro exI conjI)
qed

section \<open>Progress\<close>

text \<open>An environment that serves: identifiers are drawn, authority, policy and classification agree.\<close>

definition risk_ports_serve :: "'w risk_ports \<Rightarrow> bool" where
  "risk_ports_serve P \<longleftrightarrow>
     (\<forall>w. is_ok (fst (risk_next_prepared_intent_id P w))) \<and>
     (\<forall>w. is_ok (fst (risk_next_approval_receipt_id P w))) \<and>
     (\<forall>w. is_ok (fst (risk_next_audit_event_id P w))) \<and>
     (\<forall>w. risk_authorize P w AuditActor.HeadOfProducts) \<and>
     (\<forall>w op. risk_current_policy P w op = RiskExecutionPolicy.Allowed) \<and>
     (\<forall>w i cls. risk_current_classification P w i cls = Inr cls) \<and>
     (\<forall>w. i64_in_range (unix_millis (fst (risk_clock_now P w)) + 300000)) \<and>
     (\<forall>w w'. fst (risk_clock_now P w) < from_unix_millis (unix_millis (fst (risk_clock_now P w')) + 300000))"

lemma close_intent:
  assumes "cls \<noteq> DataClassification.Unclassified" and "i64_in_range (unix_millis now + 300000)"
  shows "\<exists>p. prepare sha pid (WorkManagementOperation.CloseRisk i v why) cls None now = Inr p \<and>
    prepared_preview p = intent_preview pid (WorkManagementOperation.CloseRisk i v why) cls None
      (from_unix_millis (unix_millis now + 300000))"
proof -
  have "intent_classification (WorkManagementOperation.CloseRisk i v why) cls None = cls"
    by (simp add: intent_classification_def intent_sources_def classification_sources_def)
  with assms show ?thesis
    by (simp add: prepare_outcome support_matches_def operation_support_requirement_def supersedes_itself_def Let_def)
qed

lemma close_intent_preview:
  "intent_preview pid (WorkManagementOperation.CloseRisk i v why) cls None at =
     (let q = intent_preview pid (WorkManagementOperation.CloseRisk i v why) cls None at in
      q\<lparr>preview_classification := cls, preview_support := None\<rparr>)"
  by (simp add: intent_preview_def intent_classification_def intent_sources_def classification_sources_def)

lemma served_audit:
  assumes "risk_ports_serve P"
  shows "\<exists>a w. risk_h2_audit_or_fail P target ''risk.closed'' c s = (Inr a, s\<lparr>risk_world := w\<rparr>)"
proof -
  obtain x w where x: "risk_next_audit_event_id P (risk_world s) = (x, w)"
    by (cases "risk_next_audit_event_id P (risk_world s)")
  moreover from assms x obtain aid where "x = Inr aid"
    unfolding risk_ports_serve_def is_ok_iff by (metis fst_conv)
  moreover obtain now w' where "risk_clock_now P w = (now, w')" by (cases "risk_clock_now P w")
  moreover have "AuditEventCode_parse ''risk.closed'' = Inr ''risk.closed''"
    "AuditEffectCode_parse ''risk.closed'' = Inr ''risk.closed''" by code_simp+
  moreover have "AuditDisposition_new AuditPolicyOutcome.Allowed AuditApprovalOutcome.Approved
      AuditExecutionOutcome.Succeeded AuditEffectScope.Complete [''risk.closed''] =
      Inr \<lparr>policy_outcome = AuditPolicyOutcome.Allowed, approval_outcome = AuditApprovalOutcome.Approved,
        execution_outcome = AuditExecutionOutcome.Succeeded, effect_scope = AuditEffectScope.Complete,
        actual_effects = [''risk.closed'']\<rparr>"
    by (simp add: AuditDisposition_new_Inr_iff)
  ultimately show ?thesis
    by (simp add: risk_h2_audit_or_fail_def risk_audit_h2_def risk_audit_as_def with_err_def ebind_run
      ebind_risk_ports ret_def) (rule exI, rule refl)
qed

lemma served_preparation:
  assumes serve: "risk_ports_serve P" and inv: "risk_inv s"
    and r: "hm_get (risks s) i = Some r" "risk_state r = RiskState.Open"
    and unused: "hm_get (risk_idem s) (risk_idempotency_id c) = None"
  shows "\<exists>p pid w now. prepare_close_risk P
      \<lparr>close_risk_id = i, close_risk_expected_version = risk_version r, close_risk_rationale = why,
       close_risk_context = c\<rparr> s =
      (Inr p, s\<lparr>risk_world := w, risk_prepared := hm_insert pid p (risk_prepared s),
        risk_idem := hm_insert (risk_idempotency_id c)
          (RiskSignature.PrepareClose i (risk_version r) why, RiskStored.Prepared p) (risk_idem s)\<rparr>) \<and>
    prepared_preview p = intent_preview pid (WorkManagementOperation.CloseRisk i (risk_version r) why)
      (risk_classification r) None (from_unix_millis (unix_millis (fst (risk_clock_now P now)) + 300000))"
proof -
  let ?op = "WorkManagementOperation.CloseRisk i (risk_version r) why"
  from inv_risk [OF inv r(1)] have id: "risk_id r = i" and cls: "risk_classification r \<noteq> DataClassification.Unclassified"
    by (auto simp: risk_well_formed_def)
  obtain x w where x: "risk_next_prepared_intent_id P (risk_world s) = (x, w)"
    by (cases "risk_next_prepared_intent_id P (risk_world s)")
  with serve obtain pid where pid: "x = Inr pid"
    unfolding risk_ports_serve_def is_ok_iff by (metis fst_conv)
  obtain now w' where now: "risk_clock_now P w = (now, w')" by (cases "risk_clock_now P w")
  with serve have range: "i64_in_range (unix_millis now + 300000)"
    unfolding risk_ports_serve_def by (metis fst_conv)
  from close_intent [OF cls range] obtain p where
    p: "prepare (risk_sha256_hex P) pid ?op (risk_classification r) None now = Inr p"
    and preview: "prepared_preview p = intent_preview pid ?op (risk_classification r) None
      (from_unix_millis (unix_millis now + 300000))" by blast
  have fields: "prepared_operation p = ?op" "prepared_id p = pid" by (simp_all add: preview intent_preview_def)
  have allowed: "risk_current_policy P w0 op = RiskExecutionPolicy.Allowed" for w0 op
    using serve by (simp add: risk_ports_serve_def)
  have intent: "prepare_risk_intent P ?op (risk_classification r) s = (Inr p, s\<lparr>risk_world := w'\<rparr>)"
    using p allowed by (simp add: prepare_risk_intent_def ebind_run ebind_risk_ports x pid now lift_result_def)
  have "prepare_close P
      \<lparr>close_risk_id = i, close_risk_expected_version = risk_version r, close_risk_rationale = why,
       close_risk_context = c\<rparr> s =
      (Inr p, s\<lparr>risk_world := w', risk_prepared := hm_insert pid p (risk_prepared s),
        risk_idem := hm_insert (risk_idempotency_id c)
          (RiskSignature.PrepareClose i (risk_version r) why, RiskStored.Prepared p) (risk_idem s)\<rparr>)"
    using r unused intent fields id
    by (simp add: prepare_close_def prepare_replayed_def risk_replay_def ebind_run)
      (simp add: ebind_def reads_def ensure_def ret_def store_risk_prepared_def)
  with preview now show ?thesis
    by (intro exI [of _ p] exI [of _ pid] exI [of _ w'] exI [of _ w])
      (simp add: prepare_close_risk_def audited_preparation_def)
qed

lemma served_receipt:
  assumes serve: "risk_ports_serve P" and cls: "cls \<noteq> DataClassification.Unclassified"
    and p: "prepared_preview p = intent_preview pid (WorkManagementOperation.CloseRisk i v why) cls None
      (from_unix_millis (unix_millis (fst (risk_clock_now P now)) + 300000))"
    and a: "approval_prepared_id a = pid" "approval_actor a = AuditActor.HeadOfProducts"
      "acknowledged_payload_digest a = prepared_payload_digest p"
  shows "\<exists>receipt w. mint_risk_receipt P p (WorkManagementOperation.CloseRisk i v why) cls a s =
    (Inr receipt, s\<lparr>risk_world := w\<rparr>)"
proof -
  let ?op = "WorkManagementOperation.CloseRisk i v why"
  obtain rid where rid: "fst (risk_receipt_draw P (risk_world s)) = Inr rid"
    using serve unfolding risk_ports_serve_def is_ok_iff risk_receipt_draw_def by blast
  have range: "i64_in_range (unix_millis (fst (risk_clock_now P (risk_world s))) + 300000)"
    using serve unfolding risk_ports_serve_def by blast
  from close_intent [OF cls range] obtain fresh where
    fresh: "prepare (risk_sha256_hex P) pid ?op cls None (fst (risk_clock_now P (risk_world s))) = Inr fresh"
    and preview: "prepared_preview fresh = intent_preview pid ?op cls None
      (from_unix_millis (unix_millis (fst (risk_clock_now P (risk_world s))) + 300000))" by blast
  have sources: "preview_classification_sources (prepared_preview fresh) =
      preview_classification_sources (prepared_preview p)"
    by (simp add: preview p intent_preview_def)
  have fields: "prepared_operation p = ?op" "prepared_id p = pid" "preview_support (prepared_preview p) = None"
    "preview_classification (prepared_preview p) = cls"
    "preview_expires_at (prepared_preview p) =
      from_unix_millis (unix_millis (fst (risk_clock_now P now)) + 300000)"
    by (simp_all add: p intent_preview_def intent_classification_def intent_sources_def classification_sources_def)
  have "risk_approved P (risk_world s) p a"
    using serve a fields by (simp add: risk_approved_def risk_ports_serve_def risk_execution_time_def)
  with fresh sources fields rid mint_risk_receipt_iff [of P p ?op cls a s
      "\<lparr>receipt_id = rid, receipt_prepared_id = pid, receipt_digest = prepared_payload_digest p,
        receipt_expires_at = preview_expires_at (prepared_preview p),
        receipt_actor = AuditActor.HeadOfProducts, receipt_idempotency_id = approval_idempotency_id a\<rparr>"
      "s\<lparr>risk_world := snd (risk_receipt_draw P (risk_world s))\<rparr>"]
  show ?thesis by (intro exI) auto
qed

lemma served_closure:
  assumes serve: "risk_ports_serve P" and wf: "risk_well_formed r"
    and r: "hm_get (risks s) i = Some r" "risk_state r = RiskState.Open"
    and version: "AggregateVersion_next (risk_version r) = Some v"
    and stored: "hm_get (risk_prepared s) pid = Some p"
    and p: "prepared_preview p = intent_preview pid (WorkManagementOperation.CloseRisk i (risk_version r) why)
      (risk_classification r) None (from_unix_millis (unix_millis (fst (risk_clock_now P now)) + 300000))"
    and flag: "\<not> fail_next_risk_commit s" and unused: "hm_get (risk_idem s) (risk_idempotency_id x) = None"
  shows "is_ok (fst (approve_and_execute_close_risk P
    \<lparr>risk_approval = \<lparr>approval_prepared_id = pid, approval_actor = AuditActor.HeadOfProducts,
       acknowledged_payload_digest = prepared_payload_digest p, approval_idempotency_id = risk_idempotency_id x\<rparr>,
     risk_execute_context = x\<rparr> s))"
proof -
  let ?a = "\<lparr>approval_prepared_id = pid, approval_actor = AuditActor.HeadOfProducts,
       acknowledged_payload_digest = prepared_payload_digest p, approval_idempotency_id = risk_idempotency_id x\<rparr>"
  let ?c = "\<lparr>risk_approval = ?a, risk_execute_context = x\<rparr>"
  have cls: "risk_classification r \<noteq> DataClassification.Unclassified" using wf by (simp add: risk_well_formed_def)
  have op: "prepared_operation p = WorkManagementOperation.CloseRisk i (risk_version r) why"
    by (simp add: p intent_preview_def)
  obtain receipt w where receipt: "mint_risk_receipt P p (WorkManagementOperation.CloseRisk i (risk_version r) why)
      (risk_classification r) ?a s = (Inr receipt, s\<lparr>risk_world := w\<rparr>)"
    using served_receipt [OF serve cls p, of ?a s] by auto
  obtain a w' where audit: "risk_h2_audit_or_fail P (AuditTarget.Risk i) ''risk.closed'' x (s\<lparr>risk_world := w\<rparr>) =
      (Inr a, s\<lparr>risk_world := w'\<rparr>)"
    using served_audit [OF serve, of "AuditTarget.Risk i" x "s\<lparr>risk_world := w\<rparr>"] by auto
  have now: "risk_current_classification P (risk_world s) i (risk_classification r) = Inr (risk_classification r)"
    using serve by (simp add: risk_ports_serve_def)
  have fresh: "\<exists>out t. close_fresh P ?c s = (Inr out, t)"
    using stored op r now receipt version audit flag
    by (simp add: close_fresh_def stored_preview_def previewed_risk_def read_risk_classification_def
      finish_risk_mutation_def ebind_run)
      (simp add: ebind_def reads_def ret_def ensure_def risk_take_commit_failure_def commit_risk_mutation_def lift_result_def)
  then obtain out t where "execute_replayed stored_closed ?c (close_fresh P ?c) s = (Inr out, t)"
    using unused by (auto simp: execute_replayed_def risk_replay_def ebind_run)
  moreover have "replayed_terminal_error ?a x s = Inr None"
    using unused by (simp add: replayed_terminal_error_def)
  ultimately show ?thesis
    by (simp add: approve_and_execute_close_risk_def approve_and_execute_close_risk_traced_def execute_close_def
      risk_traced_def untraced_def Let_def)
qed

text \<open>
  C22. An Open Risk can be closed. Take any state of the service in which the Risk is Open below the last
  version, with no injected failure, and any environment that serves: identifiers can be drawn, the Head
  of Products is authorized, policy allows, the classification authority confirms the recorded
  classification, and the clock stays in range and within five minutes. Then preparing its closure
  at its version and approving that preview, under two unused keys, succeeds, and the Risk is Closed.
\<close>

theorem open_risk_can_be_closed:
  assumes inv: "risk_inv s" and serve: "risk_ports_serve P"
    and r: "hm_get (risks s) i = Some r" "risk_state r = RiskState.Open"
    and version: "AggregateVersion_next (risk_version r) = Some v"
    and flag: "\<not> fail_next_risk_commit s"
    and unused: "hm_get (risk_idem s) (risk_idempotency_id c1) = None"
      "hm_get (risk_idem s) (risk_idempotency_id c2) = None"
      "risk_idempotency_id c1 \<noteq> risk_idempotency_id c2"
  shows "\<exists>p s1 out t. prepare_close_risk P
      \<lparr>close_risk_id = i, close_risk_expected_version = risk_version r, close_risk_rationale = why,
       close_risk_context = c1\<rparr> s = (Inr p, s1) \<and>
    approve_and_execute_close_risk P
      \<lparr>risk_approval = \<lparr>approval_prepared_id = prepared_id p, approval_actor = AuditActor.HeadOfProducts,
         acknowledged_payload_digest = prepared_payload_digest p,
         approval_idempotency_id = risk_idempotency_id c2\<rparr>,
       risk_execute_context = c2\<rparr> s1 = (Inr out, t) \<and>
    (\<exists>r'. hm_get (risks t) i = Some r' \<and> risk_state r' = RiskState.Closed)"
proof -
  note wf = inv_risk [OF inv r(1), THEN conjunct2]
  from served_preparation [OF serve inv r unused(1), of why] obtain p pid w now where
    prepared: "prepare_close_risk P
      \<lparr>close_risk_id = i, close_risk_expected_version = risk_version r, close_risk_rationale = why,
       close_risk_context = c1\<rparr> s =
      (Inr p, s\<lparr>risk_world := w, risk_prepared := hm_insert pid p (risk_prepared s),
        risk_idem := hm_insert (risk_idempotency_id c1)
          (RiskSignature.PrepareClose i (risk_version r) why, RiskStored.Prepared p) (risk_idem s)\<rparr>)" (is "_ = (Inr p, ?s1)")
    and p: "prepared_preview p = intent_preview pid (WorkManagementOperation.CloseRisk i (risk_version r) why)
      (risk_classification r) None (from_unix_millis (unix_millis (fst (risk_clock_now P now)) + 300000))" by blast
  have pid: "prepared_id p = pid" "prepared_operation p = WorkManagementOperation.CloseRisk i (risk_version r) why"
    by (simp_all add: p intent_preview_def)
  let ?c = "\<lparr>risk_approval = \<lparr>approval_prepared_id = pid, approval_actor = AuditActor.HeadOfProducts,
       acknowledged_payload_digest = prepared_payload_digest p, approval_idempotency_id = risk_idempotency_id c2\<rparr>,
     risk_execute_context = c2\<rparr>"
  have free: "hm_get (risk_idem ?s1) (risk_idempotency_id c2) = None" using unused by simp
  have "is_ok (fst (approve_and_execute_close_risk P ?c ?s1))"
    by (rule served_closure [OF serve wf _ r(2) version _ p _ free]) (use r(1) flag in simp_all)
  then obtain out t where run: "approve_and_execute_close_risk P ?c ?s1 = (Inr out, t)"
    using result_collapse by blast
  have inv1: "risk_inv ?s1" using risk_event_inv [OF prepare_close_risk_event [OF inv prepared] inv] .
  from traced_success [OF run [unfolded approve_and_execute_close_risk_def approve_and_execute_close_risk_traced_def
      execute_close_def]] free
  have "close_fresh P ?c ?s1 = (Inr out, t)" by simp
  from close_fresh_ok [OF this] obtain q j r2 v2 where closed: "closes P ?s1 ?c q j r2 v2 out t" by blast
  then have ex: "executes P ?s1 ?c q j r2 v2" by (simp add: closes_def mutates_def)
  then have "q = p" by (simp add: executes_def)
  with closed pid have j: "j = i" by (auto simp: closes_def)
  with executes_parts [OF ex inv1] have "risk_id r2 = i" by blast
  with closed j have "\<exists>r'. hm_get (risks t) i = Some r' \<and> risk_state r' = RiskState.Closed"
    by (auto simp: closes_def mutates_def risk_committed_def)
  with prepared run show ?thesis
    by (intro exI [of _ p] exI [of _ ?s1] exI [of _ out] exI [of _ t] conjI) (simp_all add: pid)
qed

lemma steady_ports_serve: "risk_ports_serve steady_ports"
proof -
  have "unix_millis (UtcTimestamp 0) = 0" "i64_in_range 300000"
    "UtcTimestamp 0 < from_unix_millis 300000" by code_simp+
  then show ?thesis
    by (auto simp: risk_ports_serve_def steady_ports_def risk_example_ports_def)
qed

theorem open_risk_can_be_closed_witness:
  "\<exists>p s1 out t. prepare_close_risk steady_ports (risk_example_prepare_close (AggregateVersion 1))
      (risk_example_run [Create_Risk risk_example_create]) = (Inr p, s1) \<and>
    approve_and_execute_close_risk steady_ports
      \<lparr>risk_approval = \<lparr>approval_prepared_id = prepared_id p, approval_actor = AuditActor.HeadOfProducts,
         acknowledged_payload_digest = prepared_payload_digest p, approval_idempotency_id = ''k-close''\<rparr>,
       risk_execute_context = risk_example_context ''k-close''\<rparr> s1 = (Inr out, t) \<and>
    (\<exists>r'. hm_get (risks t) ''risk-1'' = Some r' \<and> risk_state r' = RiskState.Closed)"
proof -
  let ?s = "risk_example_run [Create_Risk risk_example_create]"
  let ?r = "the (hm_get (risks ?s) ''risk-1'')"
  let ?c1 = "risk_example_context ''k-prepare-close''" and ?c2 = "risk_example_context ''k-close''"
  have r: "hm_get (risks ?s) ''risk-1'' = Some ?r" "risk_state ?r = RiskState.Open"
    and version: "AggregateVersion_next (risk_version ?r) = Some (AggregateVersion 2)"
    and v: "risk_version ?r = AggregateVersion 1"
    and flag: "\<not> fail_next_risk_commit ?s"
    and unused: "hm_get (risk_idem ?s) (risk_idempotency_id ?c1) = None"
      "hm_get (risk_idem ?s) (risk_idempotency_id ?c2) = None"
      "risk_idempotency_id ?c1 \<noteq> risk_idempotency_id ?c2"
    by code_simp+
  from open_risk_can_be_closed [OF risk_example_inv steady_ports_serve r version flag unused, of "''Gone''"] v
  show ?thesis by (simp add: risk_example_prepare_close_def risk_example_context_def)
qed

end
