(* ===== verification/Work_Runtime.thy ===== *)
theory Work_Runtime
  imports Risk_Restart Issue_Properties
begin

text \<open>
  \<^verbatim>\<open>WorkManagementRuntimeComposition\<close> of \<^verbatim>\<open>crates/pmc-domain/src/work_management_runtime.rs\<close>: the Risk
  and the Issue service over one shared store of Issues. The two services hold handles of the same
  \<^verbatim>\<open>Rc<RefCell<IssueStore>>\<close>; here each holds a copy, and an operation on one puts its copy into the other.
  \<open>shared\<close> says that the copies agree, which the constructors establish and every operation keeps.
\<close>

section \<open>State and forwarding\<close>

record ('v, 'w) work_runtime =
  runtime_risks :: "'v risk_service"
  runtime_issues :: "'w issue_service"

type_synonym ('v, 'w, 'r) runtime_method = "('v, 'w) work_runtime \<Rightarrow> 'r \<times> ('v, 'w) work_runtime"

definition put_risks :: "'v risk_service \<Rightarrow> ('v, 'w) work_runtime \<Rightarrow> ('v, 'w) work_runtime" where
  "put_risks s rt =
     \<lparr>runtime_risks = s, runtime_issues = (runtime_issues rt)\<lparr>issues := issue_authority s\<rparr>\<rparr>"

definition put_issues :: "'w issue_service \<Rightarrow> ('v, 'w) work_runtime \<Rightarrow> ('v, 'w) work_runtime" where
  "put_issues s rt =
     \<lparr>runtime_risks = (runtime_risks rt)\<lparr>issue_authority := issues s\<rparr>, runtime_issues = s\<rparr>"

definition on_risks :: "('v risk_service \<Rightarrow> 'r \<times> 'v risk_service) \<Rightarrow> ('v, 'w, 'r) runtime_method" where
  "on_risks m rt = (case m (runtime_risks rt) of (r, s) \<Rightarrow> (r, put_risks s rt))"

definition on_issues :: "('w issue_service \<Rightarrow> 'r \<times> 'w issue_service) \<Rightarrow> ('v, 'w, 'r) runtime_method" where
  "on_issues m rt = (case m (runtime_issues rt) of (r, s) \<Rightarrow> (r, put_issues s rt))"

lemma on_risks_result [simp]:
  "fst (on_risks m rt) = fst (m (runtime_risks rt))"
  "snd (on_risks m rt) = put_risks (snd (m (runtime_risks rt))) rt"
  by (simp_all add: on_risks_def split: prod.splits)

lemma on_issues_result [simp]:
  "fst (on_issues m rt) = fst (m (runtime_issues rt))"
  "snd (on_issues m rt) = put_issues (snd (m (runtime_issues rt))) rt"
  by (simp_all add: on_issues_def split: prod.splits)

definition shared :: "('v, 'w) work_runtime \<Rightarrow> bool" where
  "shared rt \<longleftrightarrow> issue_authority (runtime_risks rt) = issues (runtime_issues rt)"

section \<open>Construction and restart\<close>

datatype WorkManagementRuntimeRehydrationError = InvalidIssueSnapshot | InvalidRiskSnapshot

definition runtime_new :: "'v \<Rightarrow> 'w \<Rightarrow> ('v, 'w) work_runtime" where
  "runtime_new v w = \<lparr>runtime_risks = risk_service_new v [], runtime_issues = issue_service_new w []\<rparr>"

text \<open>\<^verbatim>\<open>merge_occurrence_issues_into\<close>.\<close>

fun merge_occurrence_issues ::
  "IssueRecord list \<Rightarrow> (entity_id \<times> IssueRecord) list \<Rightarrow> RiskRehydrationError + (entity_id \<times> IssueRecord) list" where
  "merge_occurrence_issues [] store = Inr store"
| "merge_occurrence_issues (x # xs) store =
     (if hm_get store (issue_id x) \<noteq> None then Inl DuplicateRisk
      else merge_occurrence_issues xs (hm_insert (issue_id x) x store))"

text \<open>\<^verbatim>\<open>InMemoryRiskService::rehydrate_with_h2a\<close>: over the snapshot's own Issues.\<close>

definition rehydrate_with_h2a :: "'v \<Rightarrow> RiskPersistenceSnapshot \<Rightarrow> RiskRehydrationError + 'v risk_service" where
  "rehydrate_with_h2a v snap =
     rbind (ok_or DuplicateRisk (store_from_records [] (snapshot_occurrence_issues snap)))
       (rehydrate_with_h2a_and_issue_authority v snap)"

definition rehydrate_with_h2a_and_issue_h1 ::
  "'v \<Rightarrow> 'w \<Rightarrow> RiskPersistenceSnapshot \<Rightarrow> IssueRecord list
     \<Rightarrow> WorkManagementRuntimeRehydrationError + ('v, 'w) work_runtime" where
  "rehydrate_with_h2a_and_issue_h1 v w risk_snapshot issue_snapshot =
     rbind (ok_or InvalidIssueSnapshot (store_from_records [] issue_snapshot)) (\<lambda>store.
     rbind (map_err (\<lambda>_. InvalidRiskSnapshot)
       (merge_occurrence_issues (snapshot_occurrence_issues risk_snapshot) store)) (\<lambda>authority.
     rbind (map_err (\<lambda>_. InvalidRiskSnapshot)
       (rehydrate_with_h2a_and_issue_authority v risk_snapshot authority)) (\<lambda>s.
     Inr \<lparr>runtime_risks = s, runtime_issues = issue_service_new w authority\<rparr>)))"

definition rehydrate_with_risk_h2a_and_issue_h2a ::
  "'v \<Rightarrow> 'w \<Rightarrow> RiskPersistenceSnapshot \<Rightarrow> IssueH2aRuntimeSnapshot
     \<Rightarrow> WorkManagementRuntimeRehydrationError + ('v, 'w) work_runtime" where
  "rehydrate_with_risk_h2a_and_issue_h2a v w risk_snapshot issue_snapshot =
     rbind (ok_or InvalidIssueSnapshot (store_from_records [] (snapshot_records issue_snapshot))) (\<lambda>authority.
     rbind (map_err (\<lambda>_. InvalidRiskSnapshot)
       (rehydrate_with_h2a_and_issue_authority v risk_snapshot authority)) (\<lambda>s.
     Inr \<lparr>runtime_risks = s,
          runtime_issues = rehydrate_with_prepared_and_issue_authority w (snapshot_prepared issue_snapshot)
            (snapshot_rejections issue_snapshot) authority\<rparr>))"

definition rehydrate_with_issue_h2a ::
  "'v \<Rightarrow> 'w \<Rightarrow> IssueH2aRuntimeSnapshot
     \<Rightarrow> WorkManagementRuntimeRehydrationError + ('v, 'w) work_runtime" where
  "rehydrate_with_issue_h2a v w issue_snapshot =
     rbind (ok_or InvalidIssueSnapshot (store_from_records [] (snapshot_records issue_snapshot))) (\<lambda>authority.
     Inr \<lparr>runtime_risks = risk_service_new v authority,
          runtime_issues = rehydrate_with_prepared_and_issue_authority w (snapshot_prepared issue_snapshot)
            (snapshot_rejections issue_snapshot) authority\<rparr>)"

text \<open>The two \<^verbatim>\<open>isolated_copy_with_issue_authority\<close> and the stage of both over one copied store.\<close>

definition isolated_risks :: "(entity_id \<times> IssueRecord) list \<Rightarrow> 'v risk_service \<Rightarrow> 'v risk_service" where
  "isolated_risks authority s = s\<lparr>issue_authority := authority, fail_next_risk_commit := False\<rparr>"

definition isolated_issues :: "(entity_id \<times> IssueRecord) list \<Rightarrow> 'w issue_service \<Rightarrow> 'w issue_service" where
  "isolated_issues authority s = s\<lparr>issues := authority, fail_next_commit := False\<rparr>"

definition isolated_stage :: "('v, 'w) work_runtime \<Rightarrow> ('v, 'w) work_runtime" where
  "isolated_stage rt =
     (let authority = issues (runtime_issues rt) in
      \<lparr>runtime_risks = isolated_risks authority (runtime_risks rt),
       runtime_issues = isolated_issues authority (runtime_issues rt)\<rparr>)"

section \<open>Operations\<close>

definition runtime_risk :: "('v, 'w) work_runtime \<Rightarrow> entity_id \<Rightarrow> RiskRecord option" where
  "runtime_risk rt i = hm_get (risks (runtime_risks rt)) i"

definition runtime_issue :: "('v, 'w) work_runtime \<Rightarrow> entity_id \<Rightarrow> IssueRecord option" where
  "runtime_issue rt i = hm_get (issues (runtime_issues rt)) i"

definition runtime_risk_issue_link :: "('v, 'w) work_runtime \<Rightarrow> entity_id \<Rightarrow> entity_id \<Rightarrow> RiskIssueLink option" where
  "runtime_risk_issue_link rt i k =
     List.find (\<lambda>l. link_risk_id l = i \<and> link_issue_id l = k) (risk_links (runtime_risks rt))"

definition runtime_inject_next_risk_commit_failure :: "('v, 'w, unit) runtime_method" where
  "runtime_inject_next_risk_commit_failure = on_risks (\<lambda>s. ((), inject_next_risk_commit_failure s))"

definition runtime_create_risk ::
  "'v risk_ports \<Rightarrow> CreateRisk \<Rightarrow> ('v, 'w, DomainError + RiskMutationOutcome) runtime_method" where
  "runtime_create_risk P c = on_risks (create_risk P c)"

definition runtime_update_risk_response ::
  "'v risk_ports \<Rightarrow> UpdateRiskResponse \<Rightarrow> ('v, 'w, DomainError + RiskMutationOutcome) runtime_method" where
  "runtime_update_risk_response P c = on_risks (update_risk_response P c)"

definition runtime_prepare_record_risk_occurrence ::
  "'v risk_ports \<Rightarrow> PrepareRecordRiskOccurrence
     \<Rightarrow> ('v, 'w, DomainError + WorkManagementPreparedIntent) runtime_method" where
  "runtime_prepare_record_risk_occurrence P c = on_risks (prepare_record_risk_occurrence P c)"

definition runtime_prepare_close_risk ::
  "'v risk_ports \<Rightarrow> PrepareCloseRisk \<Rightarrow> ('v, 'w, DomainError + WorkManagementPreparedIntent) runtime_method" where
  "runtime_prepare_close_risk P c = on_risks (prepare_close_risk P c)"

definition runtime_approve_and_execute_record_risk_occurrence ::
  "'v risk_ports \<Rightarrow> ApproveAndExecuteRisk \<Rightarrow> ('v, 'w, DomainError + OccurredRiskOutcome) runtime_method" where
  "runtime_approve_and_execute_record_risk_occurrence P c =
     on_risks (approve_and_execute_record_risk_occurrence P c)"

definition runtime_approve_and_execute_record_risk_occurrence_with_durability ::
  "'v risk_ports \<Rightarrow> ApproveAndExecuteRisk \<Rightarrow> ('v, 'w, (DomainError + OccurredRiskOutcome) \<times> bool) runtime_method" where
  "runtime_approve_and_execute_record_risk_occurrence_with_durability P c =
     on_risks (approve_and_execute_record_risk_occurrence_traced P c)"

definition runtime_approve_and_execute_close_risk ::
  "'v risk_ports \<Rightarrow> ApproveAndExecuteRisk \<Rightarrow> ('v, 'w, DomainError + RiskMutationOutcome) runtime_method" where
  "runtime_approve_and_execute_close_risk P c = on_risks (approve_and_execute_close_risk P c)"

definition runtime_approve_and_execute_close_risk_with_durability ::
  "'v risk_ports \<Rightarrow> ApproveAndExecuteRisk \<Rightarrow> ('v, 'w, (DomainError + RiskMutationOutcome) \<times> bool) runtime_method" where
  "runtime_approve_and_execute_close_risk_with_durability P c =
     on_risks (approve_and_execute_close_risk_traced P c)"

definition runtime_risk_reenters_queue ::
  "'v risk_ports \<Rightarrow> entity_id \<Rightarrow> UtcTimestamp \<Rightarrow> bool \<Rightarrow> bool \<Rightarrow> ('v, 'w) work_runtime \<Rightarrow> DomainError + bool" where
  "runtime_risk_reenters_queue P i now exposure_increased control_invalid rt =
     risk_reenters_queue P i now exposure_increased control_invalid (runtime_risks rt)"

definition runtime_discard_risk_prepared_intent :: "entity_id \<Rightarrow> ('v, 'w, bool) runtime_method" where
  "runtime_discard_risk_prepared_intent i = on_risks (discard_risk_prepared_intent i)"

definition runtime_reject_risk_prepared_intent ::
  "'v risk_ports \<Rightarrow> RejectRiskPreparedIntent
     \<Rightarrow> ('v, 'w, DomainError + RejectedPreparedIntentOutcome) runtime_method" where
  "runtime_reject_risk_prepared_intent P c = on_risks (reject_risk_prepared_intent P c)"

definition runtime_create_issue ::
  "'w issue_ports \<Rightarrow> CreateIssue \<Rightarrow> ('v, 'w, DomainError + IssueMutationOutcome) runtime_method" where
  "runtime_create_issue Q c = on_issues (create_issue Q c)"

definition runtime_prepare_resolve_issue ::
  "'w issue_ports \<Rightarrow> PrepareResolveIssue \<Rightarrow> ('v, 'w, DomainError + WorkManagementPreparedIntent) runtime_method" where
  "runtime_prepare_resolve_issue Q c = on_issues (prepare_resolve_issue Q c)"

definition runtime_prepare_close_issue ::
  "'w issue_ports \<Rightarrow> PrepareCloseIssue \<Rightarrow> ('v, 'w, DomainError + WorkManagementPreparedIntent) runtime_method" where
  "runtime_prepare_close_issue Q c = on_issues (prepare_close_issue Q c)"

definition runtime_prepare_reopen_issue ::
  "'w issue_ports \<Rightarrow> PrepareReopenIssue \<Rightarrow> ('v, 'w, DomainError + WorkManagementPreparedIntent) runtime_method" where
  "runtime_prepare_reopen_issue Q c = on_issues (prepare_reopen_issue Q c)"

definition runtime_approve_and_execute_resolve_issue ::
  "'w issue_ports \<Rightarrow> ApproveAndExecute \<Rightarrow> ('v, 'w, DomainError + IssueMutationOutcome) runtime_method" where
  "runtime_approve_and_execute_resolve_issue Q c = on_issues (approve_and_execute_resolve Q c)"

definition runtime_approve_and_execute_close_issue ::
  "'w issue_ports \<Rightarrow> ApproveAndExecute \<Rightarrow> ('v, 'w, DomainError + IssueMutationOutcome) runtime_method" where
  "runtime_approve_and_execute_close_issue Q c = on_issues (approve_and_execute_close Q c)"

definition runtime_approve_and_execute_reopen_issue ::
  "'w issue_ports \<Rightarrow> ApproveAndExecute \<Rightarrow> ('v, 'w, DomainError + IssueMutationOutcome) runtime_method" where
  "runtime_approve_and_execute_reopen_issue Q c = on_issues (approve_and_execute_reopen Q c)"

definition runtime_approve_and_execute_lower_issue_classification ::
  "'w issue_ports \<Rightarrow> ApproveAndExecute \<Rightarrow> ('v, 'w, DomainError + IssueMutationOutcome) runtime_method" where
  "runtime_approve_and_execute_lower_issue_classification Q c =
     on_issues (approve_and_execute_lower_issue_classification Q c)"

definition runtime_discard_issue_prepared_intent :: "entity_id \<Rightarrow> ('v, 'w, bool) runtime_method" where
  "runtime_discard_issue_prepared_intent i = on_issues (discard_prepared_intent i)"

definition runtime_reject_issue_prepared_intent ::
  "'w issue_ports \<Rightarrow> RejectIssuePreparedIntent
     \<Rightarrow> ('v, 'w, DomainError + RejectedPreparedIntentOutcome) runtime_method" where
  "runtime_reject_issue_prepared_intent Q c = on_issues (reject_issue_prepared_intent Q c)"

lemmas runtime_operations =
  runtime_inject_next_risk_commit_failure_def runtime_create_risk_def runtime_update_risk_response_def
  runtime_prepare_record_risk_occurrence_def runtime_prepare_close_risk_def
  runtime_approve_and_execute_record_risk_occurrence_def runtime_approve_and_execute_close_risk_def
  runtime_discard_risk_prepared_intent_def runtime_reject_risk_prepared_intent_def runtime_create_issue_def
  runtime_prepare_resolve_issue_def runtime_prepare_close_issue_def runtime_prepare_reopen_issue_def
  runtime_approve_and_execute_resolve_issue_def runtime_approve_and_execute_close_issue_def
  runtime_approve_and_execute_reopen_issue_def runtime_approve_and_execute_lower_issue_classification_def
  runtime_discard_issue_prepared_intent_def runtime_reject_issue_prepared_intent_def

section \<open>Commands\<close>

text \<open>
  What a holder of the runtime can do. It exposes neither the lowering of a Risk, nor the preparation of
  an Issue lowering, nor the generic execution of an Issue preview. The two executions
  \<^verbatim>\<open>..._with_durability\<close> lead to the same state as the plain ones. The last command stands for everything
  outside: the environments of both services change.
\<close>

datatype ('v, 'w) runtime_command =
  R_Inject_Risk_Commit_Failure
| R_Create_Risk CreateRisk
| R_Update_Response UpdateRiskResponse
| R_Prepare_Occurrence PrepareRecordRiskOccurrence
| R_Prepare_Close_Risk PrepareCloseRisk
| R_Approve_Occurrence ApproveAndExecuteRisk
| R_Approve_Close_Risk ApproveAndExecuteRisk
| R_Discard_Risk entity_id
| R_Reject_Risk RejectRiskPreparedIntent
| R_Create_Issue CreateIssue
| R_Prepare_Resolve PrepareResolveIssue
| R_Prepare_Close PrepareCloseIssue
| R_Prepare_Reopen PrepareReopenIssue
| R_Approve_Resolve ApproveAndExecute
| R_Approve_Close ApproveAndExecute
| R_Approve_Reopen ApproveAndExecute
| R_Approve_Lower ApproveAndExecute
| R_Discard_Issue entity_id
| R_Reject_Issue RejectIssuePreparedIntent
| R_Environment 'v 'w

fun runtime_step ::
  "'v risk_ports \<Rightarrow> 'w issue_ports \<Rightarrow> ('v, 'w) runtime_command \<Rightarrow> ('v, 'w) work_runtime \<Rightarrow> ('v, 'w) work_runtime" where
  "runtime_step P Q R_Inject_Risk_Commit_Failure rt = snd (runtime_inject_next_risk_commit_failure rt)"
| "runtime_step P Q (R_Create_Risk c) rt = snd (runtime_create_risk P c rt)"
| "runtime_step P Q (R_Update_Response c) rt = snd (runtime_update_risk_response P c rt)"
| "runtime_step P Q (R_Prepare_Occurrence c) rt = snd (runtime_prepare_record_risk_occurrence P c rt)"
| "runtime_step P Q (R_Prepare_Close_Risk c) rt = snd (runtime_prepare_close_risk P c rt)"
| "runtime_step P Q (R_Approve_Occurrence c) rt =
     snd (runtime_approve_and_execute_record_risk_occurrence P c rt)"
| "runtime_step P Q (R_Approve_Close_Risk c) rt = snd (runtime_approve_and_execute_close_risk P c rt)"
| "runtime_step P Q (R_Discard_Risk i) rt = snd (runtime_discard_risk_prepared_intent i rt)"
| "runtime_step P Q (R_Reject_Risk c) rt = snd (runtime_reject_risk_prepared_intent P c rt)"
| "runtime_step P Q (R_Create_Issue c) rt = snd (runtime_create_issue Q c rt)"
| "runtime_step P Q (R_Prepare_Resolve c) rt = snd (runtime_prepare_resolve_issue Q c rt)"
| "runtime_step P Q (R_Prepare_Close c) rt = snd (runtime_prepare_close_issue Q c rt)"
| "runtime_step P Q (R_Prepare_Reopen c) rt = snd (runtime_prepare_reopen_issue Q c rt)"
| "runtime_step P Q (R_Approve_Resolve c) rt = snd (runtime_approve_and_execute_resolve_issue Q c rt)"
| "runtime_step P Q (R_Approve_Close c) rt = snd (runtime_approve_and_execute_close_issue Q c rt)"
| "runtime_step P Q (R_Approve_Reopen c) rt = snd (runtime_approve_and_execute_reopen_issue Q c rt)"
| "runtime_step P Q (R_Approve_Lower c) rt =
     snd (runtime_approve_and_execute_lower_issue_classification Q c rt)"
| "runtime_step P Q (R_Discard_Issue i) rt = snd (runtime_discard_issue_prepared_intent i rt)"
| "runtime_step P Q (R_Reject_Issue c) rt = snd (runtime_reject_issue_prepared_intent Q c rt)"
| "runtime_step P Q (R_Environment v w) rt =
     \<lparr>runtime_risks = (runtime_risks rt)\<lparr>risk_world := v\<rparr>,
      runtime_issues = (runtime_issues rt)\<lparr>world := w\<rparr>\<rparr>"

text \<open>Every command is one of a service, or changes the environment.\<close>

fun risk_part :: "('v, 'w) runtime_command \<Rightarrow> 'v risk_command option" where
  "risk_part R_Inject_Risk_Commit_Failure = Some Inject_Risk_Commit_Failure"
| "risk_part (R_Create_Risk c) = Some (Create_Risk c)"
| "risk_part (R_Update_Response c) = Some (Update_Response c)"
| "risk_part (R_Prepare_Occurrence c) = Some (Prepare_Occurrence c)"
| "risk_part (R_Prepare_Close_Risk c) = Some (Prepare_Close_Risk c)"
| "risk_part (R_Approve_Occurrence c) = Some (Approve_Occurrence c)"
| "risk_part (R_Approve_Close_Risk c) = Some (Approve_Close_Risk c)"
| "risk_part (R_Discard_Risk i) = Some (Discard_Risk i)"
| "risk_part (R_Reject_Risk c) = Some (Reject_Risk c)"
| "risk_part _ = None"

fun issue_part :: "('v, 'w) runtime_command \<Rightarrow> 'w issue_command option" where
  "issue_part (R_Create_Issue c) = Some (Create_Issue c)"
| "issue_part (R_Prepare_Resolve c) = Some (Prepare_Resolve c)"
| "issue_part (R_Prepare_Close c) = Some (Prepare_Close c)"
| "issue_part (R_Prepare_Reopen c) = Some (Prepare_Reopen c)"
| "issue_part (R_Approve_Resolve c) = Some (Approve_Resolve c)"
| "issue_part (R_Approve_Close c) = Some (Approve_Close c)"
| "issue_part (R_Approve_Reopen c) = Some (Approve_Reopen c)"
| "issue_part (R_Approve_Lower c) = Some (Approve_Lower c)"
| "issue_part (R_Discard_Issue i) = Some (Discard i)"
| "issue_part (R_Reject_Issue c) = Some (Reject c)"
| "issue_part _ = None"

lemma runtime_step_cases:
  obtains (risk) c where "risk_part cmd = Some c" "\<nexists>w m. c = Risk_Environment w m"
      "runtime_step P Q cmd rt = put_risks (risk_step P c (runtime_risks rt)) rt"
  | (issue) c where "issue_part cmd = Some c"
      "runtime_step P Q cmd rt = put_issues (issue_step Q c (runtime_issues rt)) rt"
  | (outside) v w where "cmd = R_Environment v w"
  by (cases cmd) (auto simp: runtime_operations)

end
