(* ===== verification/Work_Runtime_Properties.thy ===== *)
theory Work_Runtime_Properties
  imports Work_Runtime
begin

text \<open>
  The Risk and the Issue service over one store: the invariant that ties the links of the one to the
  records of the other, its runs, the restart of the pair, and what the first change of an Issue that
  came from a Risk does to the snapshots of the Risk service.
\<close>

section \<open>The invariant of the pair\<close>

definition link_backed :: "(entity_id \<times> IssueRecord) list \<Rightarrow> RiskIssueLink \<Rightarrow> bool" where
  "link_backed m l \<longleftrightarrow>
     (\<exists>x. hm_get m (link_issue_id l) = Some x \<and> source_risk_id x = Some (link_risk_id l))"

definition sources_linked :: "(entity_id \<times> IssueRecord) list \<Rightarrow> RiskIssueLink list \<Rightarrow> bool" where
  "sources_linked m ls \<longleftrightarrow>
     (\<forall>k x i. hm_get m k = Some x \<longrightarrow> source_risk_id x = Some i \<longrightarrow>
        (\<exists>l \<in> set ls. link_risk_id l = i \<and> link_issue_id l = k))"

definition runtime_inv :: "('v, 'w) work_runtime \<Rightarrow> bool" where
  "runtime_inv rt \<longleftrightarrow>
     risk_inv (runtime_risks rt) \<and> issue_inv (runtime_issues rt) \<and> shared rt \<and>
     list_all (link_backed (issues (runtime_issues rt))) (risk_links (runtime_risks rt)) \<and>
     sources_linked (issues (runtime_issues rt)) (risk_links (runtime_risks rt))"

definition runtime_later :: "('v, 'w) work_runtime \<Rightarrow> ('v, 'w) work_runtime \<Rightarrow> bool" where
  "runtime_later rt rt' \<longleftrightarrow>
     risk_later (runtime_risks rt) (runtime_risks rt') \<and> issue_later (runtime_issues rt) (runtime_issues rt')"

lemma shared_put [simp]: "shared (put_risks s rt)" "shared (put_issues t rt)"
  by (simp_all add: shared_def put_risks_def put_issues_def)

lemma put_same: "shared rt \<Longrightarrow> issue_authority s = issue_authority (runtime_risks rt) \<Longrightarrow>
    runtime_issues (put_risks s rt) = runtime_issues rt"
  by (simp add: put_risks_def shared_def)

section \<open>Steps of the Issue service\<close>

text \<open>No event of the Issue service gives an Issue a source Risk, and none takes it away.\<close>

lemma issue_event_sources:
  assumes "issue_event Q s t" and "issue_inv s"
    and "hm_get (issues t) k = Some x" and "source_risk_id x = Some i"
  shows "\<exists>y. hm_get (issues s) k = Some y \<and> source_risk_id y = Some i"
  using assms
proof (cases rule: issue_event.cases)
  case quiet
  with assms show ?thesis by (simp add: effectless_def)
next
  case (created c r a)
  have "source_risk_id r = None"
    using created(2) unfolding created_from_def by (metis IssueRecord.select_convs(2) IssueRecord_new_def)
  with assms(3,4) committed_get [OF created(4)] show ?thesis by (auto split: if_splits)
next
  case (transitioned c p r sw r' j out)
  have "evolves r r'" using executed_transition_evolves [OF transitioned(2)] .
  moreover have "issue_id r = j" using assms(2) transitioned(4) by (simp add: issue_inv_def)
  ultimately show ?thesis
    using assms(3,4) committed_get [OF transitioned(6)] executed_out [OF transitioned(5)] transitioned(4)
    by (auto simp: evolves_def split: if_splits)
next
  case (lowered c p r r' j out)
  have "evolves r r'" using executed_lowering_evolves [OF lowered(2)] .
  moreover have "issue_id r = j" using assms(2) lowered(4) by (simp add: issue_inv_def)
  ultimately show ?thesis
    using assms(3,4) committed_get [OF lowered(6)] executed_out [OF lowered(5)] lowered(4)
    by (auto simp: evolves_def split: if_splits)
qed (use assms in auto)

lemma put_issues_inv:
  assumes inv: "runtime_inv rt" and event: "issue_event Q (runtime_issues rt) t"
  shows "runtime_inv (put_issues t rt)"
proof -
  from inv have old: "issue_inv (runtime_issues rt)" and risk: "risk_inv (runtime_risks rt)"
    and backed: "list_all (link_backed (issues (runtime_issues rt))) (risk_links (runtime_risks rt))"
    and linked: "sources_linked (issues (runtime_issues rt)) (risk_links (runtime_risks rt))"
    by (simp_all add: runtime_inv_def)
  have "risk_inv ((runtime_risks rt)\<lparr>issue_authority := issues t\<rparr>)"
    using risk_inv_elsewhere [OF risk, where w = "risk_world (runtime_risks rt)" and m = "issues t"] by simp
  moreover have "link_backed (issues t) l" if "link_backed (issues (runtime_issues rt)) l" for l
    using that issue_event_later [OF event old]
    unfolding link_backed_def issue_later_def evolves_def by metis
  moreover have "sources_linked (issues t) (risk_links (runtime_risks rt))"
    using linked issue_event_sources [OF event old] unfolding sources_linked_def by blast
  ultimately show ?thesis
    using issue_event_inv [OF event old] backed
    unfolding runtime_inv_def by (simp add: put_issues_def list_all_iff shared_def)
qed

lemma put_issues_later:
  assumes "runtime_inv rt" and "issue_event Q (runtime_issues rt) t"
  shows "runtime_later rt (put_issues t rt)"
proof -
  have "risk_later (runtime_risks rt) ((runtime_risks rt)\<lparr>issue_authority := issues t\<rparr>)"
    using risk_later_elsewhere [where s = "runtime_risks rt" and w = "risk_world (runtime_risks rt)" and m = "issues t"] by simp
  moreover have "issue_later (runtime_issues rt) t"
    using assms issue_event_later by (auto simp: runtime_inv_def)
  ultimately show ?thesis by (simp add: runtime_later_def put_issues_def)
qed

section \<open>Steps of the Risk service\<close>

text \<open>What an occurrence puts into the store is a sound Issue under a free identity.\<close>

lemma occurrence_issue:
  assumes inv: "issue_inv s" and free: "hm_get (issues s) iid = None"
    and cls: "cls \<noteq> DataClassification.Unclassified"
  shows "issue_inv (s\<lparr>issues := hm_insert iid (IssueRecord_from_risk iid i title details cls) (issues s)\<rparr>)"
    and "issue_later s (s\<lparr>issues := hm_insert iid (IssueRecord_from_risk iid i title details cls) (issues s)\<rparr>)"
proof -
  let ?x = "IssueRecord_from_risk iid i title details cls"
  let ?t = "s\<lparr>issues := hm_insert iid ?x (issues s)\<rparr>"
  have new: "issue_well_formed ?x" "recurrence_closed s ?x"
    using cls by (simp_all add: issue_well_formed_def recurrence_closed_def IssueRecord_from_risk_def
      IssueRecord_new_def AggregateVersion_initial_def)
  show "issue_inv ?t"
    by (rule issue_inv_update [OF inv])
      (use inv free new in \<open>auto simp: extends_def issue_inv_def split: if_splits\<close>)
  show "issue_later s ?t" using free by (auto simp: issue_later_def)
qed

lemma put_occurrence:
  assumes inv: "runtime_inv rt" and occ: "occurs P (runtime_risks rt) c p i r version iid out t"
    and event: "risk_event P (Some c) (runtime_risks rt) t"
  shows "runtime_inv (put_risks t rt) \<and> runtime_later rt (put_risks t rt)"
proof -
  from inv have risk: "risk_inv (runtime_risks rt)" and issue: "issue_inv (runtime_issues rt)"
    and same: "issue_authority (runtime_risks rt) = issues (runtime_issues rt)"
    and backed: "list_all (link_backed (issues (runtime_issues rt))) (risk_links (runtime_risks rt))"
    and linked: "sources_linked (issues (runtime_issues rt)) (risk_links (runtime_risks rt))"
    by (simp_all add: runtime_inv_def shared_def)
  let ?x = "IssueRecord_from_risk iid i (risk_title r) (risk_details r) (risk_classification r)"
  let ?l = "occurrence_link r (occurred_risk out) iid"
  from occ have ex: "executes P (runtime_risks rt) c p i r version"
    and free: "hm_get (issues (runtime_issues rt)) iid = None"
    and store: "issue_authority t = hm_insert iid ?x (issues (runtime_issues rt))"
    and links: "risk_links t = risk_links (runtime_risks rt) @ [?l]"
    by (simp_all add: occurs_def same)
  note parts = executes_parts [OF ex risk]
  then have cls: "risk_classification r \<noteq> DataClassification.Unclassified" by (simp add: risk_well_formed_def)
  have l: "link_risk_id ?l = i" "link_issue_id ?l = iid"
    using occ parts by (simp_all add: occurrence_link_def occurs_def)
  have source: "source_risk_id ?x = Some i" by (simp add: IssueRecord_from_risk_def IssueRecord_new_def)
  have put: "put_risks t rt = \<lparr>runtime_risks = t,
      runtime_issues = (runtime_issues rt)\<lparr>issues := hm_insert iid ?x (issues (runtime_issues rt))\<rparr>\<rparr>"
    by (simp add: put_risks_def store)
  have "list_all (link_backed (hm_insert iid ?x (issues (runtime_issues rt)))) (risk_links t)"
    using backed free l source by (auto simp: links list_all_iff link_backed_def)
  moreover have "sources_linked (hm_insert iid ?x (issues (runtime_issues rt))) (risk_links t)"
    using linked l source unfolding sources_linked_def links by (auto split: if_splits)
  ultimately show ?thesis
    using risk_event_inv [OF event risk] risk_event_later [OF event risk] occurrence_issue [OF issue free cls]
    by (simp add: runtime_inv_def runtime_later_def put store shared_def)
qed

lemma put_risks_inv:
  assumes inv: "runtime_inv rt" and event: "risk_event P ac (runtime_risks rt) t"
  shows "runtime_inv (put_risks t rt) \<and> runtime_later rt (put_risks t rt)"
  using risk_event_links [OF event]
proof (elim disjE exE conjE)
  assume links: "same_links (runtime_risks rt) t"
  from inv have risk: "risk_inv (runtime_risks rt)" by (simp add: runtime_inv_def)
  have "runtime_issues (put_risks t rt) = runtime_issues rt"
    using inv links by (intro put_same) (simp_all add: runtime_inv_def same_links_def)
  moreover have "runtime_risks (put_risks t rt) = t" by (simp add: put_risks_def)
  moreover have "risk_links t = risk_links (runtime_risks rt)" using links by (simp add: same_links_def)
  ultimately show ?thesis
    using inv risk_event_inv [OF event risk] risk_event_later [OF event risk]
    unfolding runtime_inv_def runtime_later_def by (simp add: issue_later_def)
next
  fix c p i r version iid out
  assume "ac = Some c" "occurs P (runtime_risks rt) c p i r version iid out t"
  with put_occurrence [OF inv] event show ?thesis by blast
qed

section \<open>Runs\<close>

lemma runtime_step_kept:
  assumes inv: "runtime_inv rt"
  shows "runtime_inv (runtime_step P Q cmd rt) \<and> runtime_later rt (runtime_step P Q cmd rt)"
proof (cases rule: runtime_step_cases [of cmd P Q rt])
  case (risk c)
  from inv have "risk_inv (runtime_risks rt)" by (simp add: runtime_inv_def)
  with risk(2) have "risk_event P (command_approval c) (runtime_risks rt) (risk_step P c (runtime_risks rt))"
    using risk_step_event by blast
  from put_risks_inv [OF inv this] show ?thesis by (simp add: risk(3))
next
  case (issue c)
  from inv have "issue_event Q (runtime_issues rt) (issue_step Q c (runtime_issues rt))"
    by (intro issue_step_event) (simp add: runtime_inv_def)
  with put_issues_inv [OF inv this] put_issues_later [OF inv this] show ?thesis by (simp add: issue(2))
next
  case (outside v w)
  have risk: "risk_inv ((runtime_risks rt)\<lparr>risk_world := v\<rparr>)"
    using inv risk_inv_elsewhere [where s = "runtime_risks rt" and w = v and m = "issue_authority (runtime_risks rt)"]
    by (simp add: runtime_inv_def)
  have issue: "issue_inv ((runtime_issues rt)\<lparr>world := w\<rparr>)"
    using inv issue_machine.inv_step [of "runtime_issues rt" Q "Environment w"] by (simp add: runtime_inv_def)
  show ?thesis
    using inv risk issue by (simp add: outside runtime_inv_def shared_def runtime_later_def risk_later_def issue_later_def)
qed

interpretation runtime_machine: monotone_system "runtime_step P Q" runtime_inv runtime_later
proof
  fix c s t u
  show "runtime_inv (runtime_step P Q c s)" if "runtime_inv s"
    using runtime_step_kept [OF that] by blast
  show "runtime_later s s"
    by (simp add: runtime_later_def risk_machine.later_refl issue_machine.later_refl)
  show "runtime_later s u" if "runtime_later s t" "runtime_later t u"
    using that risk_later_trans issue_later_trans unfolding runtime_later_def by blast
  show "runtime_later s (runtime_step P Q c s)" if "runtime_inv s"
    using runtime_step_kept [OF that] by blast
qed

lemma runtime_inv_new: "runtime_inv (runtime_new v w)"
  by (simp add: runtime_inv_def runtime_new_def risk_inv_new issue_inv_new shared_def sources_linked_def)
    (simp add: risk_service_new_def issue_service_new_def)

section \<open>A concrete runtime\<close>

text \<open>One Risk occurs, and the Issue it became is resolved.\<close>

definition runtime_example_run ::
  "(nat \<times> bool, nat) runtime_command list \<Rightarrow> (nat \<times> bool, nat) work_runtime" where
  "runtime_example_run cs =
     fold (runtime_step risk_example_ports example_ports) cs (runtime_new (0, False) 0)"

lemma runtime_example_inv: "runtime_inv (runtime_example_run cs)"
  unfolding runtime_example_run_def by (rule runtime_machine.inv_run [OF runtime_inv_new])

definition runtime_occurred :: "(nat \<times> bool, nat) runtime_command list" where
  "runtime_occurred =
     [R_Create_Risk risk_example_create, R_Prepare_Occurrence risk_example_prepare_occurrence,
      R_Approve_Occurrence (risk_example_approve ''pii'' ''digest'' ''k-occur''),
      R_Prepare_Resolve example_prepare_resolve]"

definition runtime_resolution :: "(nat \<times> bool, nat) runtime_command" where
  "runtime_resolution = R_Approve_Resolve (example_approve ''p'' ''k-approve'')"

section \<open>Risks and the Issues they became\<close>

text \<open>
  Whatever is done through the runtime, and whatever happens to the environments of its two services,
  the invariant of the pair holds: both services are sound, they see the same Issues, every link of an
  Occurred Risk leads to an Issue that names that Risk as its source, and every Issue with a source
  Risk is linked to it.
\<close>

theorem runtime_invariant_over_runs: "runtime_inv (fold (runtime_step P Q) cs (runtime_new v w))"
  by (rule runtime_machine.inv_run [OF runtime_inv_new])

definition issues_from :: "('v, 'w) work_runtime \<Rightarrow> entity_id \<Rightarrow> entity_id set" where
  "issues_from rt i = {k. \<exists>x. runtime_issue rt k = Some x \<and> source_risk_id x = Some i}"

lemma issues_from_linked:
  assumes "runtime_inv rt"
  shows "issues_from rt i = link_issue_id ` set (links_of (risk_links (runtime_risks rt)) i)"
  using assms
  by (force simp: issues_from_def runtime_issue_def runtime_inv_def links_of_def list_all_iff link_backed_def
    sources_linked_def)

text \<open>
  C11. A Risk has become exactly one Issue when it is Occurred and none otherwise, whatever was done through
  the runtime: the Issues that name a Risk as their source are a single one if that Risk is stored and
  Occurred, and there are none if it is not.
\<close>

theorem occurred_risks_are_one_issue:
  "if \<exists>r. runtime_risk (fold (runtime_step P Q) cs (runtime_new v w)) i = Some r \<and> risk_state r = RiskState.Occurred
   then \<exists>k. issues_from (fold (runtime_step P Q) cs (runtime_new v w)) i = {k}
   else issues_from (fold (runtime_step P Q) cs (runtime_new v w)) i = {}"
proof -
  let ?rt = "fold (runtime_step P Q) cs (runtime_new v w)"
  have inv: "runtime_inv ?rt" by (rule runtime_machine.inv_run [OF runtime_inv_new])
  then have risk: "risk_inv (runtime_risks ?rt)" by (simp add: runtime_inv_def)
  let ?ls = "links_of (risk_links (runtime_risks ?rt)) i"
  show ?thesis
  proof (cases "\<exists>r. runtime_risk ?rt i = Some r \<and> risk_state r = RiskState.Occurred")
    case True
    then obtain r where "hm_get (risks (runtime_risks ?rt)) i = Some r" "risk_state r = RiskState.Occurred"
      by (auto simp: runtime_risk_def)
    with risk have "length ?ls = 1" by (auto simp: risk_inv_def link_count_matches_def)
    then obtain l where "?ls = [l]" by (auto simp: length_Suc_conv)
    with True show ?thesis by (simp add: issues_from_linked [OF inv])
  next
    case False
    then have "?ls = []" by (intro links_of_unlinked [OF risk]) (auto simp: runtime_risk_def)
    with False show ?thesis by (simp add: issues_from_linked [OF inv])
  qed
qed

text \<open>A link whose Issue has moved on refuses the snapshot, as one whose Risk has does.\<close>

lemma moved_issue_blocks_snapshot:
  assumes inv: "runtime_inv rt" and l: "l \<in> set (risk_links (runtime_risks rt))"
    and x: "runtime_issue rt (link_issue_id l) = Some x" and moved: "issue_version x \<noteq> AggregateVersion_initial"
  shows "\<not> is_ok (persistence_snapshot_with_h2a (runtime_risks rt))"
proof
  let ?s = "runtime_risks rt"
  assume "is_ok (persistence_snapshot_with_h2a ?s)"
  then obtain snap where "persistence_snapshot_with_h2a ?s = Inr snap" by (auto simp: is_ok_iff)
  then obtain iss where iss: "linked_issues (issue_authority ?s) (sorted_links ?s) = Inr iss"
    and new: "RiskPersistenceSnapshot_try_new_with_h2a (sort_key risk_id (hm_values (risks ?s)))
      (sort_key issue_id iss) (sorted_links ?s) (sort_key prepared_id (hm_values (risk_prepared ?s)))
      (replay_entries (risk_idem ?s)) (risk_audits ?s) = Inr snap" by (rule risk_snapshot_Inr)
  from try_new_Inr(2) [OF new] l
  have "link_holds (sort_key risk_id (hm_values (risks ?s))) (sort_key issue_id iss) l"
    by (simp add: list_all_iff)
  then obtain y where y: "List.find (\<lambda>q. issue_id q = link_issue_id l) (sort_key issue_id iss) = Some y"
    and version: "issue_version y = link_issue_version l"
    by (auto simp: link_holds_def split: option.splits)
  from y have mem: "y \<in> set (sort_key issue_id iss)" and id: "issue_id y = link_issue_id l"
    using nth_mem unfolding find_Some_iff by blast+
  from mem have "y \<in> set iss" by simp
  with linked_issues_found [OF iss] obtain l' :: RiskIssueLink
    where "hm_get (issue_authority ?s) (link_issue_id l') = Some y"
    by blast
  with inv id have "runtime_issue rt (link_issue_id l) = Some y"
    by (auto simp: runtime_inv_def shared_def issue_inv_def runtime_issue_def)
  moreover from inv l have "link_issue_version l = AggregateVersion_initial"
    by (simp add: runtime_inv_def risk_inv_def list_all_iff link_sound_def)
  ultimately show False using x moved version by simp
qed

lemma grown_version:
  "issue_well_formed r \<Longrightarrow> issue_version r < issue_version r' \<Longrightarrow> issue_version r' \<noteq> AggregateVersion_initial"
  by (cases "issue_version r"; cases "issue_version r'")
    (auto simp add: issue_well_formed_def AggregateVersion_initial_def less_AggregateVersion_def word_less_nat_alt)

text \<open>
  C12. The first change of an Issue that a Risk became, which the runtime accepts (resolving it, lowering
  it), ends the snapshots of the Risk service: in the state after the change and in every state any later
  commands lead to, none can be taken, because a link is only accepted while its Issue is as the
  occurrence created it.
\<close>

theorem changed_risk_issue_ends_risk_snapshots:
  assumes inv: "runtime_inv rt"
    and x: "runtime_issue rt k = Some x" "source_risk_id x = Some i"
    and y: "runtime_issue (runtime_step P Q cmd rt) k = Some y" "y \<noteq> x"
  shows "\<not> is_ok (persistence_snapshot_with_h2a (runtime_risks (fold (runtime_step P Q) cs (runtime_step P Q cmd rt))))"
proof -
  let ?t = "runtime_step P Q cmd rt"
  let ?u = "fold (runtime_step P Q) cs ?t"
  from runtime_step_kept [OF inv] have inv': "runtime_inv ?t" and later: "runtime_later rt ?t" by blast+
  have well_formed: "issue_well_formed x" using inv x by (auto simp: runtime_inv_def issue_inv_def runtime_issue_def)
  from later x(1) y have "evolves x y" "issue_version x < issue_version y"
    by (force simp: runtime_later_def issue_later_def runtime_issue_def evolves_def)+
  then have moved: "issue_version y \<noteq> AggregateVersion_initial" and source: "source_risk_id y = Some i"
    using grown_version [OF well_formed] x(2) by (auto simp: evolves_def)
  have "issue_well_formed y" using inv' y by (auto simp: runtime_inv_def issue_inv_def runtime_issue_def)
  moreover obtain z where z: "runtime_issue ?u k = Some z" "evolves y z"
    using runtime_machine.later_run [OF inv'] y(1)
    unfolding runtime_later_def issue_later_def runtime_issue_def by blast
  ultimately have version: "issue_version z \<noteq> AggregateVersion_initial"
    using moved grown_version by (auto simp: evolves_def)
  have inv_u: "runtime_inv ?u" by (rule runtime_machine.inv_run [OF inv'])
  moreover from z source have "source_risk_id z = Some i" by (simp add: evolves_def)
  ultimately obtain l :: RiskIssueLink where "l \<in> set (risk_links (runtime_risks ?u))" "link_issue_id l = k"
    using z(1) unfolding runtime_inv_def sources_linked_def runtime_issue_def by blast
  with moved_issue_blocks_snapshot [OF inv_u] z(1) version show ?thesis by blast
qed

theorem changed_risk_issue_ends_risk_snapshots_witness:
  "is_ok (persistence_snapshot_with_h2a (runtime_risks (runtime_example_run runtime_occurred))) \<and>
   \<not> is_ok (persistence_snapshot_with_h2a (runtime_risks
     (runtime_step risk_example_ports example_ports runtime_resolution (runtime_example_run runtime_occurred))))"
proof -
  let ?rt = "runtime_example_run runtime_occurred"
  let ?t = "runtime_step risk_example_ports example_ports runtime_resolution ?rt"
  have x: "runtime_issue ?rt ''issue-1'' = Some (the (runtime_issue ?rt ''issue-1''))"
    "source_risk_id (the (runtime_issue ?rt ''issue-1'')) = Some ''risk-1''"
    and y: "runtime_issue ?t ''issue-1'' = Some (the (runtime_issue ?t ''issue-1''))" by code_simp+
  have "issue_state (the (runtime_issue ?t ''issue-1'')) \<noteq> issue_state (the (runtime_issue ?rt ''issue-1''))"
    by code_simp
  then have "the (runtime_issue ?t ''issue-1'') \<noteq> the (runtime_issue ?rt ''issue-1'')" by metis
  from changed_risk_issue_ends_risk_snapshots [OF runtime_example_inv x y this, of "[]"]
  have "\<not> is_ok (persistence_snapshot_with_h2a (runtime_risks ?t))" by simp
  moreover have "is_ok (persistence_snapshot_with_h2a (runtime_risks ?rt))" by code_simp
  ultimately show ?thesis by blast
qed

end
