(* ===== verification/Work_Runtime_Restart.thy ===== *)
theory Work_Runtime_Restart
  imports Work_Runtime_Properties
begin

text \<open>
  Restarting the pair of services: which snapshots each way of restarting accepts, and that a pair that
  can be snapshotted is rebuilt with everything its snapshots hold.
\<close>

section \<open>Stores built from records\<close>

lemma store_from_records_Some:
  "store_from_records m xs = Some m' \<longleftrightarrow>
     distinct (map issue_id xs) \<and> set (map fst m) \<inter> set (map issue_id xs) = {} \<and>
     m' = m @ map (\<lambda>x. (issue_id x, x)) xs"
proof (induction xs arbitrary: m)
  case (Cons x xs)
  have free: "hm_get m (issue_id x) = None \<longleftrightarrow> issue_id x \<notin> set (map fst m)"
    by (simp add: hm_get_def map_of_eq_None_iff)
  show ?case
  proof (cases "issue_id x \<in> set (map fst m)")
    case True
    then have "hm_get m (issue_id x) \<noteq> None" using free by blast
    with True show ?thesis by auto
  next
    case False
    then have "hm_get m (issue_id x) = None" using free by blast
    moreover from Cons.IH [of "hm_insert (issue_id x) x m"]
    have "store_from_records (hm_insert (issue_id x) x m) xs = Some m' \<longleftrightarrow>
        distinct (map issue_id xs) \<and> set (map fst (m @ [(issue_id x, x)])) \<inter> set (map issue_id xs) = {} \<and>
        m' = (m @ [(issue_id x, x)]) @ map (\<lambda>x. (issue_id x, x)) xs"
      unfolding hm_insert_fresh [OF False] .
    ultimately show ?thesis using False by auto
  qed
qed auto

lemma store_from_records_fresh:
  "store_from_records [] xs = (if distinct (map issue_id xs) then Some (map (\<lambda>x. (issue_id x, x)) xs) else None)"
  using store_from_records_Some [of "[]" xs] by (cases "store_from_records [] xs") auto

lemma merge_occurrence_issues_records:
  "merge_occurrence_issues xs m = ok_or DuplicateRisk (store_from_records m xs)"
  by (induction xs arbitrary: m) (simp_all add: ok_or_def)

lemma rehydrates_over:
  "is_ok (rehydrate_with_h2a_and_issue_authority w snap m) \<longleftrightarrow>
     (\<forall>x \<in> set (snapshot_occurrence_issues snap). hm_get m (issue_id x) = Some x)"
  by (auto simp: rehydrate_with_h2a_and_issue_authority_def list_ex_iff is_ok_iff)

lemma held_records:
  assumes "distinct (map issue_id xs)"
  shows "hm_get (map (\<lambda>x. (issue_id x, x)) xs) (issue_id x) = Some x \<longleftrightarrow> x \<in> set xs"
  using hm_get_map [OF assms, of "\<lambda>x. x" "issue_id x" x] by auto

lemma restart_accepts_records:
  "is_ok (rehydrate_with_risk_h2a_and_issue_h2a v w risk_snapshot issue_snapshot) \<longleftrightarrow>
     distinct (map issue_id (snapshot_records issue_snapshot)) \<and>
     set (snapshot_occurrence_issues risk_snapshot) \<subseteq> set (snapshot_records issue_snapshot)"
proof (cases "distinct (map issue_id (snapshot_records issue_snapshot))")
  case True
  let ?m = "map (\<lambda>x. (issue_id x, x)) (snapshot_records issue_snapshot)"
  have "is_ok (rehydrate_with_risk_h2a_and_issue_h2a v w risk_snapshot issue_snapshot) \<longleftrightarrow>
      is_ok (rehydrate_with_h2a_and_issue_authority v risk_snapshot ?m)"
    by (cases "rehydrate_with_h2a_and_issue_authority v risk_snapshot ?m")
      (simp_all add: rehydrate_with_risk_h2a_and_issue_h2a_def store_from_records_fresh True ok_or_def)
  with True show ?thesis unfolding rehydrates_over held_records [OF True] by auto
next
  case False
  then show ?thesis
    by (simp add: rehydrate_with_risk_h2a_and_issue_h2a_def store_from_records_fresh ok_or_def)
qed

lemma linked_issues_all:
  "linked_issues m ls = Inr iss \<Longrightarrow> l \<in> set ls \<Longrightarrow> hm_get m (link_issue_id l) = Some x \<Longrightarrow> x \<in> set iss"
  by (induction ls arbitrary: iss) (auto simp: rbind_Inr_iff)

text \<open>
  What the two restarts of the pair accept. The one from complete Issue records takes exactly the
  snapshots whose Issues have distinct identities and include every Issue of the Risk snapshot as that
  snapshot has it. The one from created Issues takes exactly those whose Issues, together with the
  Issues of the Risk snapshot, have distinct identities.
\<close>

theorem paired_restarts_accept_exactly:
  "(is_ok (rehydrate_with_risk_h2a_and_issue_h2a v w risk_snapshot issue_snapshot) \<longleftrightarrow>
      distinct (map issue_id (snapshot_records issue_snapshot)) \<and>
      set (snapshot_occurrence_issues risk_snapshot) \<subseteq> set (snapshot_records issue_snapshot)) \<and>
   (is_ok (rehydrate_with_h2a_and_issue_h1 v w risk_snapshot records) \<longleftrightarrow>
      distinct (map issue_id (records @ snapshot_occurrence_issues risk_snapshot)))"
proof (rule conjI [OF restart_accepts_records])
  let ?os = "snapshot_occurrence_issues risk_snapshot" and ?m = "\<lambda>xs. map (\<lambda>x. (issue_id x, x)) xs"
  show "is_ok (rehydrate_with_h2a_and_issue_h1 v w risk_snapshot records) \<longleftrightarrow> distinct (map issue_id (records @ ?os))"
  proof (cases "distinct (map issue_id (records @ ?os))")
    case True
    then have "store_from_records [] records = Some (?m records)"
      "store_from_records (?m records) ?os = Some (?m (records @ ?os))"
      unfolding store_from_records_Some by auto
    moreover have "is_ok (rehydrate_with_h2a_and_issue_authority v risk_snapshot (?m (records @ ?os)))"
      unfolding rehydrates_over held_records [OF True] by simp
    ultimately show ?thesis using True
      by (cases "rehydrate_with_h2a_and_issue_authority v risk_snapshot (?m (records @ ?os))")
        (simp_all add: rehydrate_with_h2a_and_issue_h1_def merge_occurrence_issues_records ok_or_def)
  next
    case False
    have "store_from_records [] records = None \<or> store_from_records (?m records) ?os = None"
    proof (cases "distinct (map issue_id records)")
      case True
      have "store_from_records (?m records) ?os \<noteq> Some m'" for m'
        unfolding store_from_records_Some using False True by auto
      then show ?thesis by (metis not_None_eq)
    qed (simp add: store_from_records_fresh)
    with False show ?thesis
      by (auto simp: rehydrate_with_h2a_and_issue_h1_def merge_occurrence_issues_records ok_or_def
        store_from_records_fresh split: if_splits)
  qed
qed

section \<open>A restart of the pair loses nothing its snapshots hold\<close>

lemma listed_map:
  fixes key :: "'v \<Rightarrow> 'k::linorder"
  assumes wf: "hm_wf m" and keyed: "\<And>k v. hm_get m k = Some v \<Longrightarrow> key v = k"
    and same: "mset xs = mset (hm_values m)"
  shows "distinct (map key xs)" and "hm_get (map (\<lambda>v. (key v, v)) xs) = hm_get m"
proof -
  have elements: "set xs = set (sort_key key (hm_values m))"
    using mset_eq_setD [OF same] by simp
  have "mset (map key xs) = mset (map key (sort_key key (hm_values m)))" by (simp add: same)
  from mset_eq_imp_distinct_iff [OF this] rebuilt_map(1) [OF wf keyed] show d: "distinct (map key xs)"
    by simp
  show "hm_get (map (\<lambda>v. (key v, v)) xs) = hm_get m"
  proof
    fix k
    have "hm_get (map (\<lambda>v. (key v, v)) xs) k = Some u \<longleftrightarrow> hm_get m k = Some u" for u
      using hm_get_map [OF d, of "\<lambda>v. v" k u] hm.set_vals [OF wf] keyed elements by auto
    then show "hm_get (map (\<lambda>v. (key v, v)) xs) k = hm_get m k" by (metis option.exhaust)
  qed
qed

lemma linked_issues_cong: "hm_get m = hm_get m' \<Longrightarrow> linked_issues m ls = linked_issues m' ls"
  by (induction ls) simp_all

lemma snapshot_cong:
  "hm_get m = hm_get (issue_authority s) \<Longrightarrow>
     persistence_snapshot_with_h2a (s\<lparr>issue_authority := m\<rparr>) = persistence_snapshot_with_h2a s"
  by (simp add: persistence_snapshot_with_h2a_def Let_def cong: linked_issues_cong)

lemma rehydrated_over:
  assumes inv: "risk_inv s" and snap: "persistence_snapshot_with_h2a s = Inr snap"
    and same: "hm_get m = hm_get (issue_authority s)"
    and keyed: "\<And>i x. hm_get m i = Some x \<Longrightarrow> issue_id x = i"
  shows "rehydrate_with_h2a_and_issue_authority v snap m = Inr ((restored v s)\<lparr>issue_authority := m\<rparr>)"
proof -
  have "risk_inv (s\<lparr>issue_authority := m\<rparr>)"
    using risk_inv_elsewhere [OF inv, where w = "risk_world s" and m = m] by simp
  from rehydrated [OF this, of snap v] snap snapshot_cong [OF same] keyed
  show ?thesis by (simp add: restored_def sorted_links_def)
qed

lemma fold_hm_insert_all:
  assumes "hm_wf m" and "\<And>k v. hm_get m k = Some v \<Longrightarrow> \<Phi> v" and "\<And>x. \<Phi> (val x)"
  shows "hm_wf (fold (\<lambda>x. hm_insert (key x) (val x)) xs m) \<and>
    (\<forall>k v. hm_get (fold (\<lambda>x. hm_insert (key x) (val x)) xs m) k = Some v \<longrightarrow> \<Phi> v)"
  using assms(1,2)
proof (induction xs arbitrary: m)
  case (Cons x xs)
  have "\<Phi> v" if "hm_get (hm_insert (key x) (val x) m) k = Some v" for k v
    using that assms(3) Cons.prems(2) by (auto split: if_splits)
  with Cons.IH [of "hm_insert (key x) (val x) m"] Cons.prems(1) show ?case by simp
qed simp

lemma restored_issues_inv:
  fixes s :: "'w issue_service" and w :: 'w
  assumes inv: "issue_inv s" and m: "hm_wf m" "hm_get m = hm_get (issues s)"
    and ps: "mset ps = mset (hm_values (prepared s))"
  shows "issue_inv (rehydrate_with_prepared_and_issue_authority w ps xs m)"
    and "hm_get (prepared (rehydrate_with_prepared_and_issue_authority w ps xs m)) = hm_get (prepared s)"
proof -
  let ?t = "rehydrate_with_prepared_and_issue_authority w ps xs m"
  note list = listed_map [where key = prepared_id, OF _ _ ps]
  have wf: "hm_wf (prepared s)" and keyed: "hm_get (prepared s) i = Some p \<Longrightarrow> prepared_id p = i" for i p
    using inv by (auto simp: issue_inv_def)
  have built: "prepared ?t = map (\<lambda>p. (prepared_id p, p)) ps"
    using fold_hm_insert [OF list(1) [OF wf keyed], of "[]" "\<lambda>p. p"]
    by (simp add: rehydrate_with_prepared_and_issue_authority_def)
  show same: "hm_get (prepared ?t) = hm_get (prepared s)"
    unfolding built by (rule list(2) [OF wf keyed])
  have idem: "idem ?t = fold (\<lambda>x. hm_insert (rejection_idempotency x)
      (RejectPrepared (rejection_id x) AuditActor.HeadOfProducts, Rejected (rejection_outcome x))) xs []"
    by (simp add: rehydrate_with_prepared_and_issue_authority_def)
  have idems: "hm_wf (idem ?t) \<and> (\<forall>k v. hm_get (idem ?t) k = Some v \<longrightarrow> (case v of (sig, x) \<Rightarrow> kind_matches sig x))"
    unfolding idem by (rule fold_hm_insert_all) simp_all
  have "hm_wf (prepared ?t)"
    using list(1) [OF wf keyed] by (simp add: built hm_wf_def comp_def)
  moreover have "issues ?t = m" by (simp add: rehydrate_with_prepared_and_issue_authority_def)
  ultimately show "issue_inv ?t"
    using idems m by (intro issue_inv_update [OF inv]) (auto simp: same extends_def)
qed

text \<open>
  C13. Restart of the pair is lossless. Take any state the runtime can reach in which the Risk service can
  be snapshotted, with an Issue snapshot that lists the records and the outstanding previews of the
  Issue service in any order. The restart accepts them, and the runtime it builds satisfies the
  invariant, answers every lookup of a Risk, an Issue or a preview as before, keeps the recorded outcomes, the
  audits and the links of the Risk service, and gives the same Risk snapshot again.
\<close>

theorem paired_restart_round_trip:
  fixes rt :: "('v, 'w) work_runtime" and v :: 'v and w :: 'w
  assumes inv: "runtime_inv rt" and snap: "persistence_snapshot_with_h2a (runtime_risks rt) = Inr risk_snapshot"
    and records: "mset (snapshot_records issue_snapshot) = mset (hm_values (issues (runtime_issues rt)))"
    and previews: "mset (snapshot_prepared issue_snapshot) = mset (hm_values (prepared (runtime_issues rt)))"
  shows "\<exists>rt'. rehydrate_with_risk_h2a_and_issue_h2a v w risk_snapshot issue_snapshot = Inr rt' \<and>
    runtime_inv rt' \<and> runtime_risk rt' = runtime_risk rt \<and> runtime_issue rt' = runtime_issue rt \<and>
    hm_get (risk_prepared (runtime_risks rt')) = hm_get (risk_prepared (runtime_risks rt)) \<and>
    hm_get (prepared (runtime_issues rt')) = hm_get (prepared (runtime_issues rt)) \<and>
    hm_get (risk_idem (runtime_risks rt')) = hm_get (risk_idem (runtime_risks rt)) \<and>
    risk_audits (runtime_risks rt') = risk_audits (runtime_risks rt) \<and>
    mset (risk_links (runtime_risks rt')) = mset (risk_links (runtime_risks rt)) \<and>
    persistence_snapshot_with_h2a (runtime_risks rt') = Inr risk_snapshot"
proof -
  let ?s = "runtime_risks rt" and ?i = "runtime_issues rt"
  let ?m = "map (\<lambda>x. (issue_id x, x)) (snapshot_records issue_snapshot)"
  let ?t = "(restored v ?s)\<lparr>issue_authority := ?m\<rparr>"
  let ?j = "rehydrate_with_prepared_and_issue_authority w (snapshot_prepared issue_snapshot)
    (snapshot_rejections issue_snapshot) ?m"
  let ?rt = "\<lparr>runtime_risks = ?t, runtime_issues = ?j\<rparr>"
  from inv have risk: "risk_inv ?s" and issue: "issue_inv ?i"
    and same: "issue_authority ?s = issues ?i"
    and backed: "list_all (link_backed (issues ?i)) (risk_links ?s)"
    and linked: "sources_linked (issues ?i) (risk_links ?s)"
    by (simp_all add: runtime_inv_def shared_def)
  have wf: "hm_wf (issues ?i)" and keyed: "hm_get (issues ?i) k = Some x \<Longrightarrow> issue_id x = k" for k x
    using issue by (auto simp: issue_inv_def)
  note list = listed_map [where key = issue_id, OF wf keyed records]
  have m: "hm_wf ?m" "hm_get ?m = hm_get (issues ?i)"
    using list by (simp_all add: hm_wf_def comp_def)
  have t: "rehydrate_with_h2a_and_issue_authority v risk_snapshot ?m = Inr ?t"
    by (rule rehydrated_over [OF risk snap]) (use m keyed same in auto)
  have result: "rehydrate_with_risk_h2a_and_issue_h2a v w risk_snapshot issue_snapshot = Inr ?rt"
    using list(1) t by (simp add: rehydrate_with_risk_h2a_and_issue_h2a_def store_from_records_fresh)
  note issue' = restored_issues_inv [OF issue m previews]
  have store: "issues ?j = ?m" by (simp add: rehydrate_with_prepared_and_issue_authority_def)
  have links: "set (risk_links (restored v ?s)) = set (risk_links ?s)" by (simp add: restored_def)
  have "risk_inv (restored v ?s)" by (rule restored_inv [OF risk])
  from risk_inv_elsewhere [OF this, where w = v and m = ?m] have "risk_inv ?t" by (simp add: restored_def)
  moreover have "list_all (link_backed ?m) (risk_links ?t)" "sources_linked ?m (risk_links ?t)"
    using backed linked by (simp_all add: list_all_iff link_backed_def sources_linked_def links m(2))
  ultimately have inv': "runtime_inv ?rt"
    using issue'(1) by (simp add: runtime_inv_def shared_def store)
  have again: "persistence_snapshot_with_h2a ?t = Inr risk_snapshot"
    using snapshot_cong [of ?m "restored v ?s"] m same restored_snapshot [OF risk, of v] snap
    by (simp add: restored_def)
  show ?thesis
  proof (intro exI conjI)
    have idems: "hm_wf (risk_idem ?s)" using risk by (simp add: risk_inv_def)
    show "hm_get (risk_idem (runtime_risks ?rt)) = hm_get (risk_idem ?s)"
      using replay_entries_map(2) [OF idems] by (simp add: restored_def)
  qed (use result inv' again issue'(2) m store sorted_risks_map [OF risk] in
    \<open>simp_all add: restored_def sorted_links_def runtime_risk_def runtime_issue_def fun_eq_iff\<close>)
qed

theorem paired_restart_round_trip_witness:
  "\<exists>risk_snapshot rt'. persistence_snapshot_with_h2a (runtime_risks (runtime_example_run runtime_occurred)) =
      Inr risk_snapshot \<and>
    rehydrate_with_risk_h2a_and_issue_h2a (0 :: nat, False) (0 :: nat) risk_snapshot
      \<lparr>snapshot_records = hm_values (issues (runtime_issues (runtime_example_run runtime_occurred))),
       snapshot_prepared = hm_values (prepared (runtime_issues (runtime_example_run runtime_occurred))),
       snapshot_rejections = []\<rparr> = Inr rt' \<and>
    runtime_inv rt' \<and> runtime_issue rt' ''issue-1'' \<noteq> None"
proof -
  let ?rt = "runtime_example_run runtime_occurred"
  let ?snap = "\<lparr>snapshot_records = hm_values (issues (runtime_issues ?rt)),
       snapshot_prepared = hm_values (prepared (runtime_issues ?rt)), snapshot_rejections = []\<rparr>"
  have "is_ok (persistence_snapshot_with_h2a (runtime_risks ?rt))" by code_simp
  then obtain risk_snapshot where snap: "persistence_snapshot_with_h2a (runtime_risks ?rt) = Inr risk_snapshot"
    by (auto simp: is_ok_iff)
  have found: "runtime_issue ?rt ''issue-1'' \<noteq> None" by code_simp
  from paired_restart_round_trip [OF runtime_example_inv snap, of ?snap "(0, False)" 0] obtain rt' :: "(nat \<times> bool, nat) work_runtime" where
    "rehydrate_with_risk_h2a_and_issue_h2a (0, False) 0 risk_snapshot ?snap = Inr rt'" "runtime_inv rt'"
    "runtime_issue rt' = runtime_issue ?rt" by auto
  with snap found show ?thesis by auto
qed

section \<open>A restart after an Issue has moved\<close>

text \<open>
  A Risk snapshot goes stale with the Issues it lists: once the runtime has changed one of the Issues that
  Risks became, the Risk snapshot taken before and the Issue records of any later state cannot be restarted
  together, although every record is complete.
\<close>

theorem changed_risk_issue_refuses_restart:
  assumes inv: "runtime_inv rt" and snap: "persistence_snapshot_with_h2a (runtime_risks rt) = Inr risk_snapshot"
    and x: "runtime_issue rt k = Some x" "source_risk_id x = Some i"
    and y: "runtime_issue (runtime_step P Q cmd rt) k = Some y" "y \<noteq> x"
    and records: "set (snapshot_records issue_snapshot) =
      set (hm_values (issues (runtime_issues (fold (runtime_step P Q) cs (runtime_step P Q cmd rt)))))"
  shows "\<not> is_ok (rehydrate_with_risk_h2a_and_issue_h2a v w risk_snapshot issue_snapshot)"
proof
  let ?t = "runtime_step P Q cmd rt"
  let ?u = "fold (runtime_step P Q) cs ?t"
  assume "is_ok (rehydrate_with_risk_h2a_and_issue_h2a v w risk_snapshot issue_snapshot)"
  then have listed: "set (snapshot_occurrence_issues risk_snapshot) \<subseteq> set (snapshot_records issue_snapshot)"
    and distinct: "distinct (map issue_id (snapshot_records issue_snapshot))"
    by (simp_all add: restart_accepts_records)
  from runtime_step_kept [OF inv] have inv': "runtime_inv ?t" and later: "runtime_later rt ?t" by blast+
  have inv_u: "runtime_inv ?u" by (rule runtime_machine.inv_run [OF inv'])
  from inv have risk: "risk_inv (runtime_risks rt)" and same: "issue_authority (runtime_risks rt) = issues (runtime_issues rt)"
    by (simp_all add: runtime_inv_def shared_def)
  from inv x obtain l :: RiskIssueLink where l: "l \<in> set (risk_links (runtime_risks rt))" "link_issue_id l = k"
    unfolding runtime_inv_def sources_linked_def runtime_issue_def by blast
  from risk_snapshot_Inr [OF snap] obtain iss where
    iss: "linked_issues (issue_authority (runtime_risks rt)) (sorted_links (runtime_risks rt)) = Inr iss"
    and new: "RiskPersistenceSnapshot_try_new_with_h2a (sort_key risk_id (hm_values (risks (runtime_risks rt))))
      (sort_key issue_id iss) (sorted_links (runtime_risks rt))
      (sort_key prepared_id (hm_values (risk_prepared (runtime_risks rt))))
      (replay_entries (risk_idem (runtime_risks rt))) (risk_audits (runtime_risks rt)) = Inr risk_snapshot" .
  have "x \<in> set iss" using linked_issues_all [OF iss, of l] l x(1) same by (simp add: runtime_issue_def)
  with new listed have "x \<in> set (snapshot_records issue_snapshot)" using try_new_Inr(1) [OF new] by auto
  moreover obtain z where z: "runtime_issue ?u k = Some z" "evolves y z"
    using runtime_machine.later_run [OF inv'] y(1)
    unfolding runtime_later_def issue_later_def runtime_issue_def by blast
  moreover have "hm_wf (issues (runtime_issues ?u))" using inv_u by (simp add: runtime_inv_def issue_inv_def)
  ultimately have "x \<in> set (hm_values (issues (runtime_issues ?u)))" using records by simp
  then have "hm_get (issues (runtime_issues ?u)) (issue_id x) = Some x"
    using inv_u by (auto simp: hm.set_vals runtime_inv_def issue_inv_def)
  moreover have "issue_id x = k" using inv x(1) by (simp add: runtime_inv_def issue_inv_def runtime_issue_def)
  ultimately have "z = x" using z(1) by (simp add: runtime_issue_def)
  from later x(1) y have grown: "issue_version x < issue_version y"
    by (force simp: runtime_later_def issue_later_def runtime_issue_def evolves_def)
  with z(2) \<open>z = x\<close> show False by (auto simp: evolves_def)
qed

end
