(* ===== verification/Portfolio_Record.thy ===== *)
theory Portfolio_Record
  imports H2a_Intent Errors
begin

text \<open>
  The data of \<^verbatim>\<open>crates/pmc-domain/src/portfolio.rs\<close>: Portfolio, Product and Roadmap records (one
  shape, \<^verbatim>\<open>simple_record!\<close>), KPI definitions and their observations, the commands on them, what an
  idempotency key is remembered with, and the persistence snapshot. A \<open>simple_kind\<close> says which of the
  three record types of one shape is meant, a \<open>lowered_kind\<close> which of the five whose classification can
  be lowered. The identifiers of the five families are strings.
\<close>

section \<open>Records\<close>

datatype simple_kind = PortfolioKind | ProductKind | RoadmapKind

datatype lowered_kind = Simple simple_kind | KpiKind | ObservationKind

record OperationContext =
  context_idempotency_id :: operation_id
  context_correlation_id :: operation_id

record 'r MutationOutcome =
  mutation_record :: 'r
  mutation_audit_event :: AuditEvent

record SimpleRecord =
  simple_id :: entity_id
  simple_name :: string
  simple_details :: string
  simple_classification :: DataClassification
  simple_provenance :: Provenance
  simple_version :: AggregateVersion

type_synonym PortfolioRecord = SimpleRecord
type_synonym ProductRecord = SimpleRecord
type_synonym RoadmapRecord = SimpleRecord

record KpiDefinitionRecord =
  kpi_id :: entity_id
  kpi_name :: string
  kpi_definition :: string
  kpi_owner :: string
  kpi_target :: string
  kpi_cadence :: string
  kpi_source :: string
  kpi_classification :: DataClassification
  kpi_provenance :: Provenance
  kpi_version :: AggregateVersion

record KpiObservationRecord =
  observation_id :: entity_id
  observation_kpi_id :: entity_id
  observation_value :: string
  observation_observed_at :: UtcTimestamp
  observation_source :: string
  observation_classification :: DataClassification
  observation_provenance :: Provenance
  observation_version :: AggregateVersion
  observation_created_at :: UtcTimestamp
  observation_updated_at :: UtcTimestamp

text \<open>\<^verbatim>\<open>DataClassification::default()\<close>, used by \<^verbatim>\<open>unwrap_or_default\<close>.\<close>

definition classification_or_default :: "DataClassification option \<Rightarrow> DataClassification" where
  "classification_or_default c = (case c of None \<Rightarrow> DataClassification.Unclassified | Some v \<Rightarrow> v)"

section \<open>Commands\<close>

record CreateSimple =
  new_simple_id :: entity_id
  new_simple_name :: string
  new_simple_details :: string
  new_simple_classification :: "DataClassification option"
  new_simple_provenance :: Provenance
  new_simple_context :: OperationContext

record UpdateSimpleDetails =
  upd_simple_id :: entity_id
  upd_simple_expected_version :: AggregateVersion
  upd_simple_name :: string
  upd_simple_details :: string
  upd_simple_classification :: "DataClassification option"
  upd_simple_context :: OperationContext

type_synonym CreatePortfolio = CreateSimple
type_synonym CreateProduct = CreateSimple
type_synonym CreateRoadmap = CreateSimple
type_synonym UpdatePortfolioDetails = UpdateSimpleDetails
type_synonym UpdateProductDetails = UpdateSimpleDetails
type_synonym UpdateRoadmapDetails = UpdateSimpleDetails

record CreateKpiDefinition =
  new_kpi_id :: entity_id
  new_kpi_name :: string
  new_kpi_definition :: string
  new_kpi_owner :: string
  new_kpi_target :: string
  new_kpi_cadence :: string
  new_kpi_source :: string
  new_kpi_classification :: "DataClassification option"
  new_kpi_provenance :: Provenance
  new_kpi_context :: OperationContext

record UpdateKpiDefinitionDetails =
  upd_kpi_id :: entity_id
  upd_kpi_expected_version :: AggregateVersion
  upd_kpi_name :: string
  upd_kpi_definition :: string
  upd_kpi_owner :: string
  upd_kpi_target :: string
  upd_kpi_cadence :: string
  upd_kpi_source :: string
  upd_kpi_classification :: "DataClassification option"
  upd_kpi_context :: OperationContext

record CreateKpiObservation =
  new_observation_id :: entity_id
  new_observation_kpi_id :: entity_id
  new_observation_value :: string
  new_observation_observed_at :: UtcTimestamp
  new_observation_source :: string
  new_observation_classification :: "DataClassification option"
  new_observation_provenance :: Provenance
  new_observation_context :: OperationContext

record UpdateKpiObservationDetails =
  upd_observation_id :: entity_id
  upd_observation_expected_version :: AggregateVersion
  upd_observation_value :: string
  upd_observation_observed_at :: UtcTimestamp
  upd_observation_source :: string
  upd_observation_classification :: "DataClassification option"
  upd_observation_context :: OperationContext

text \<open>
  The five \<^verbatim>\<open>PrepareLower...Classification\<close> commands have the same fields, and so have the five
  \<^verbatim>\<open>ApproveAndExecuteLower...Classification\<close> commands.
\<close>

record PrepareLowerClassification =
  lowering_subject_id :: entity_id
  lowering_expected_version :: AggregateVersion
  lowering_proposed_classification :: DataClassification
  lowering_rationale :: string
  lowering_prepare_context :: OperationContext

record ApproveAndExecuteLowerClassification =
  lowering_approval :: WorkManagementApproval
  lowering_context :: OperationContext

datatype PortfolioCommandIdentity =
  CreatePortfolio entity_id string string "DataClassification option" Provenance
| UpdatePortfolio entity_id AggregateVersion string string "DataClassification option"
| CreateProduct entity_id string string "DataClassification option" Provenance
| UpdateProduct entity_id AggregateVersion string string "DataClassification option"
| CreateRoadmap entity_id string string "DataClassification option" Provenance
| UpdateRoadmap entity_id AggregateVersion string string "DataClassification option"
| CreateKpi entity_id string string string string string string "DataClassification option" Provenance
| UpdateKpi entity_id AggregateVersion string string string string string string "DataClassification option"
| CreateObservation entity_id entity_id string UtcTimestamp string "DataClassification option" Provenance
| UpdateObservation entity_id AggregateVersion string UtcTimestamp string "DataClassification option"
| PrepareLowerPortfolioClassification entity_id AggregateVersion DataClassification string
| ApproveAndExecuteLowerPortfolioClassification entity_id AuditActor payload_digest
| PrepareLowerProductClassification entity_id AggregateVersion DataClassification string
| ApproveAndExecuteLowerProductClassification entity_id AuditActor payload_digest
| PrepareLowerRoadmapClassification entity_id AggregateVersion DataClassification string
| ApproveAndExecuteLowerRoadmapClassification entity_id AuditActor payload_digest
| PrepareLowerKpiClassification entity_id AggregateVersion DataClassification string
| ApproveAndExecuteLowerKpiClassification entity_id AuditActor payload_digest
| PrepareLowerKpiObservationClassification entity_id AggregateVersion DataClassification string
| ApproveAndExecuteLowerKpiObservationClassification entity_id AuditActor payload_digest

section \<open>Remembered outcomes and the persistence snapshot\<close>

datatype PortfolioStoredResult =
  Portfolio "PortfolioRecord MutationOutcome"
| Product "ProductRecord MutationOutcome"
| Roadmap "RoadmapRecord MutationOutcome"
| Kpi "KpiDefinitionRecord MutationOutcome"
| Observation "KpiObservationRecord MutationOutcome"

datatype PortfolioPersistenceResult =
  Portfolio "PortfolioRecord MutationOutcome"
| Product "ProductRecord MutationOutcome"
| Roadmap "RoadmapRecord MutationOutcome"
| KpiDefinition "KpiDefinitionRecord MutationOutcome"
| KpiObservation "KpiObservationRecord MutationOutcome"

fun persistence_result :: "PortfolioStoredResult \<Rightarrow> PortfolioPersistenceResult" where
  "persistence_result (PortfolioStoredResult.Portfolio x) = PortfolioPersistenceResult.Portfolio x"
| "persistence_result (PortfolioStoredResult.Product x) = PortfolioPersistenceResult.Product x"
| "persistence_result (PortfolioStoredResult.Roadmap x) = PortfolioPersistenceResult.Roadmap x"
| "persistence_result (PortfolioStoredResult.Kpi x) = PortfolioPersistenceResult.KpiDefinition x"
| "persistence_result (PortfolioStoredResult.Observation x) = PortfolioPersistenceResult.KpiObservation x"

fun stored_result :: "PortfolioPersistenceResult \<Rightarrow> PortfolioStoredResult" where
  "stored_result (PortfolioPersistenceResult.Portfolio x) = PortfolioStoredResult.Portfolio x"
| "stored_result (PortfolioPersistenceResult.Product x) = PortfolioStoredResult.Product x"
| "stored_result (PortfolioPersistenceResult.Roadmap x) = PortfolioStoredResult.Roadmap x"
| "stored_result (PortfolioPersistenceResult.KpiDefinition x) = PortfolioStoredResult.Kpi x"
| "stored_result (PortfolioPersistenceResult.KpiObservation x) = PortfolioStoredResult.Observation x"

lemma stored_persistence_result [simp]: "stored_result (persistence_result r) = r"
  by (cases r) simp_all

record DerivedKpiObservationMutation =
  derived_observation_id :: entity_id
  derived_previous_version :: AggregateVersion
  derived_resulting_version :: AggregateVersion
  derived_previous_classification :: DataClassification
  derived_resulting_classification :: DataClassification
  derived_previous_updated_at :: UtcTimestamp
  derived_resulting_updated_at :: UtcTimestamp
  derived_audit_event_id :: entity_id

record PortfolioStoredOutcome =
  stored_command :: PortfolioCommandIdentity
  stored_outcome_result :: PortfolioStoredResult
  stored_correlation_id :: operation_id
  stored_audit_event_ids :: "entity_id list"
  stored_operation_ordinal :: "64 word"
  stored_derived_mutations :: "DerivedKpiObservationMutation list"

record PortfolioReplayCapsule =
  capsule_idempotency_id :: operation_id
  capsule_command :: PortfolioCommandIdentity
  capsule_result :: PortfolioPersistenceResult
  capsule_correlation_id :: operation_id
  capsule_audit_event_ids :: "entity_id list"
  capsule_operation_ordinal :: "64 word"
  capsule_derived_mutations :: "DerivedKpiObservationMutation list"

datatype PortfolioRehydrationError =
  DuplicateRecord | MissingParent | DuplicateAuditEvent | DuplicateIdempotency | ResultMismatch
| VersionLineageMismatch | ClassificationMismatch | AuditMismatch | OrphanAuditEvent

record PortfolioPersistenceSnapshot =
  snap_portfolios :: "PortfolioRecord list"
  snap_products :: "ProductRecord list"
  snap_roadmaps :: "RoadmapRecord list"
  snap_kpi_definitions :: "KpiDefinitionRecord list"
  snap_kpi_observations :: "KpiObservationRecord list"
  snap_replay :: "PortfolioReplayCapsule list"
  snap_audits :: "AuditEvent list"

section \<open>The five maps\<close>

text \<open>
  The maps that both the service and the timeline check keep; each extends this record with its own
  fields.
\<close>

record portfolio_stores =
  portfolios :: "(entity_id \<times> PortfolioRecord) list"
  products :: "(entity_id \<times> ProductRecord) list"
  roadmaps :: "(entity_id \<times> RoadmapRecord) list"
  kpis :: "(entity_id \<times> KpiDefinitionRecord) list"
  observations :: "(entity_id \<times> KpiObservationRecord) list"

definition simple_store :: "simple_kind \<Rightarrow> 'a portfolio_stores_scheme \<Rightarrow> (entity_id \<times> SimpleRecord) list" where
  "simple_store k s =
     (case k of PortfolioKind \<Rightarrow> portfolios s | ProductKind \<Rightarrow> products s | RoadmapKind \<Rightarrow> roadmaps s)"

definition put_simple_at ::
  "simple_kind \<Rightarrow> entity_id \<Rightarrow> SimpleRecord \<Rightarrow> 'a portfolio_stores_scheme \<Rightarrow> 'a portfolio_stores_scheme" where
  "put_simple_at k i r s =
     (case k of
        PortfolioKind \<Rightarrow> s\<lparr>portfolios := hm_insert i r (portfolios s)\<rparr>
      | ProductKind \<Rightarrow> s\<lparr>products := hm_insert i r (products s)\<rparr>
      | RoadmapKind \<Rightarrow> s\<lparr>roadmaps := hm_insert i r (roadmaps s)\<rparr>)"

definition put_simple ::
  "simple_kind \<Rightarrow> SimpleRecord \<Rightarrow> 'a portfolio_stores_scheme \<Rightarrow> 'a portfolio_stores_scheme" where
  "put_simple k r = put_simple_at k (simple_id r) r"

definition put_kpi :: "KpiDefinitionRecord \<Rightarrow> 'a portfolio_stores_scheme \<Rightarrow> 'a portfolio_stores_scheme" where
  "put_kpi r s = s\<lparr>kpis := hm_insert (kpi_id r) r (kpis s)\<rparr>"

definition put_observation ::
  "KpiObservationRecord \<Rightarrow> 'a portfolio_stores_scheme \<Rightarrow> 'a portfolio_stores_scheme" where
  "put_observation r s = s\<lparr>observations := hm_insert (observation_id r) r (observations s)\<rparr>"

text \<open>
  The observations of a KPI definition that a classification raises, in identifier order
  (\<^verbatim>\<open>affected_ids\<close> of \<^verbatim>\<open>commit_kpi\<close> and of the timeline check).
\<close>

definition affected_ids ::
  "entity_id \<Rightarrow> DataClassification \<Rightarrow> (entity_id \<times> KpiObservationRecord) list \<Rightarrow> entity_id list" where
  "affected_ids kpi cls m =
     sort (map observation_id (filter (\<lambda>v. observation_kpi_id v = kpi \<and>
       combine cls (observation_classification v) \<noteq> observation_classification v) (hm_values m)))"

fun simple_target :: "simple_kind \<Rightarrow> entity_id \<Rightarrow> AuditTarget" where
  "simple_target PortfolioKind i = AuditTarget.Portfolio i"
| "simple_target ProductKind i = AuditTarget.Product i"
| "simple_target RoadmapKind i = AuditTarget.Roadmap i"

fun simple_key :: "simple_kind \<Rightarrow> string" where
  "simple_key PortfolioKind = ''portfolio''"
| "simple_key ProductKind = ''product''"
| "simple_key RoadmapKind = ''roadmap''"

fun simple_result :: "simple_kind \<Rightarrow> SimpleRecord MutationOutcome \<Rightarrow> PortfolioStoredResult" where
  "simple_result PortfolioKind x = PortfolioStoredResult.Portfolio x"
| "simple_result ProductKind x = PortfolioStoredResult.Product x"
| "simple_result RoadmapKind x = PortfolioStoredResult.Roadmap x"

end
