(* ===== verification/Portfolio_Service.thy ===== *)
theory Portfolio_Service
  imports Portfolio_Record Service
begin

text \<open>
  \<^verbatim>\<open>InMemoryPortfolioService\<close> of \<^verbatim>\<open>crates/pmc-domain/src/portfolio.rs\<close>. The clock, the identifier
  sources, the authorization port and the hash are the record \<open>portfolio_ports\<close> over an environment
  \<open>'w\<close>; the code passes the identifier source and the authorization of the classification lowering to
  each call, here they are fields of the ports that each method receives. A method returns its outcome
  in the constructor of \<^verbatim>\<open>StoredResult\<close> it is remembered with. The three families of one record shape
  share their definitions: the operation of one family is the instance for its \<open>simple_kind\<close>.
  \<^verbatim>\<open>unreachable!()\<close> is \<open>undefined\<close>.
\<close>

section \<open>State and helpers\<close>

record 'w portfolio_ports =
  portfolio_clock_now :: "'w \<Rightarrow> UtcTimestamp \<times> 'w"
  portfolio_next_audit_event_id :: "'w \<Rightarrow> (DomainValueError + entity_id) \<times> 'w"
  portfolio_next_prepared_intent_id :: "'w \<Rightarrow> (DomainValueError + entity_id) \<times> 'w"
  portfolio_next_approval_receipt_id :: "'w \<Rightarrow> (DomainValueError + entity_id) \<times> 'w"
  portfolio_authorize :: "'w \<Rightarrow> AuditActor \<Rightarrow> bool"
  portfolio_sha256_hex :: "string \<Rightarrow> string"

record 'w portfolio_service = portfolio_stores +
  portfolio_outcomes :: "(operation_id \<times> PortfolioStoredOutcome) list"
  portfolio_audit_events :: "AuditEvent list"
  next_operation_ordinal :: "64 word"
  fail_next_portfolio_commit :: bool
  portfolio_world :: 'w
  prepared_lowerings :: "(entity_id \<times> WorkManagementPreparedIntent) list"
  prepared_lowering_requests :: "(operation_id \<times> PortfolioCommandIdentity \<times> entity_id) list"

type_synonym ('w, 'a) portfolio_method = "'w portfolio_service \<Rightarrow> (DomainError + 'a) \<times> 'w portfolio_service"

definition InMemoryPortfolioService_new :: "'w \<Rightarrow> 'w portfolio_service" where
  "InMemoryPortfolioService_new w =
     \<lparr>portfolios = [], products = [], roadmaps = [], kpis = [], observations = [],
      portfolio_outcomes = [], portfolio_audit_events = [], next_operation_ordinal = 0,
      fail_next_portfolio_commit = False, portfolio_world = w, prepared_lowerings = [],
      prepared_lowering_requests = []\<rparr>"

definition portfolio_inject_next_commit_failure :: "'w portfolio_service \<Rightarrow> 'w portfolio_service" where
  "portfolio_inject_next_commit_failure s = s\<lparr>fail_next_portfolio_commit := True\<rparr>"

definition operation_error :: "ErrorCode \<Rightarrow> string \<Rightarrow> OperationContext \<Rightarrow> DomainError" where
  "operation_error code key c = DomainError_new code key (context_correlation_id c) (code = PlatformInternal)"

definition idempotency_error :: "OperationContext \<Rightarrow> DomainError" where
  "idempotency_error c =
     DomainError_new DomainIdempotencyConflict ''portfolio.idempotency_conflict'' (context_correlation_id c) False"

definition ensure_version ::
  "AggregateVersion \<Rightarrow> AggregateVersion \<Rightarrow> OperationContext \<Rightarrow> DomainError + unit" where
  "ensure_version actual expected c =
     (if actual \<noteq> expected
      then Inl (with_extension (CurrentVersion actual)
             (operation_error DomainConflict ''portfolio.stale_version'' c))
      else Inr ())"

definition ensure_absent :: "bool \<Rightarrow> string \<Rightarrow> OperationContext \<Rightarrow> DomainError + unit" where
  "ensure_absent already_exists key c =
     (if already_exists then Inl (operation_error DomainConflict key c) else Inr ())"

definition portfolio_is_genuine_lowering :: "DataClassification \<Rightarrow> DataClassification \<Rightarrow> bool" where
  "portfolio_is_genuine_lowering current proposed \<longleftrightarrow> combine proposed current \<noteq> proposed"

definition ensure_classification_not_lowered ::
  "DataClassification \<Rightarrow> DataClassification \<Rightarrow> OperationContext \<Rightarrow> DomainError + unit" where
  "ensure_classification_not_lowered current requested c =
     (if combine requested current \<noteq> requested
      then Inl (operation_error SecurityPolicyDenied ''classification.lowering_requires_governed_intent'' c)
      else Inr ())"

definition next_version :: "AggregateVersion \<Rightarrow> OperationContext \<Rightarrow> DomainError + AggregateVersion" where
  "next_version v c =
     ok_or (operation_error DomainConflict ''portfolio.version_exhausted'' c) (AggregateVersion_next v)"

definition successful_disposition :: AuditDisposition where
  "successful_disposition =
     (case AuditDisposition_new AuditPolicyOutcome.NotRequired AuditApprovalOutcome.NotRequired
             AuditExecutionOutcome.Succeeded AuditEffectScope.Complete
             [case AuditEffectCode_parse ''portfolio-record-mutated'' of Inr e \<Rightarrow> e | Inl _ \<Rightarrow> undefined] of
        Inr d \<Rightarrow> d
      | Inl _ \<Rightarrow> undefined)"

definition parse_audit_code :: "string \<Rightarrow> string" where
  "parse_audit_code code = (case AuditEventCode_parse code of Inr v \<Rightarrow> v | Inl _ \<Rightarrow> undefined)"

text \<open>\<^verbatim>\<open>self.clock.now()\<close>\<close>

definition portfolio_read_clock :: "'w portfolio_ports \<Rightarrow> ('w, UtcTimestamp) portfolio_method" where
  "portfolio_read_clock P s =
     (case portfolio_clock_now P (portfolio_world s) of (t, w) \<Rightarrow> (Inr t, s\<lparr>portfolio_world := w\<rparr>))"

definition portfolio_draw_id ::
  "('w \<Rightarrow> (DomainValueError + entity_id) \<times> 'w) \<Rightarrow> DomainError \<Rightarrow> ('w, entity_id) portfolio_method" where
  "portfolio_draw_id source e s =
     (case source (portfolio_world s) of (r, w) \<Rightarrow> (map_err (\<lambda>_. e) r, s\<lparr>portfolio_world := w\<rparr>))"

definition check_commit :: "OperationContext \<Rightarrow> ('w, unit) portfolio_method" where
  "check_commit c s =
     (if fail_next_portfolio_commit s
      then (Inl (operation_error PlatformInternal ''portfolio.repository_unavailable'' c),
            s\<lparr>fail_next_portfolio_commit := False\<rparr>)
      else (Inr (), s))"

definition take_operation_ordinal :: "OperationContext \<Rightarrow> ('w, 64 word) portfolio_method" where
  "take_operation_ordinal c s =
     (case checked_add_u64 (next_operation_ordinal s) 1 of
        None \<Rightarrow> (Inl (operation_error PlatformInternal ''portfolio.operation_ordinal_exhausted'' c), s)
      | Some n \<Rightarrow> (Inr (next_operation_ordinal s), s\<lparr>next_operation_ordinal := n\<rparr>))"

definition prepare_audit ::
  "'w portfolio_ports \<Rightarrow> OperationContext \<Rightarrow> AuditTarget \<Rightarrow> string \<Rightarrow> UtcTimestamp
     \<Rightarrow> ('w, AuditEvent) portfolio_method" where
  "prepare_audit P c target code occurred_at =
     ebind (portfolio_draw_id (portfolio_next_audit_event_id P)
       (operation_error PlatformInternal ''portfolio.audit_id_unavailable'' c)) (\<lambda>event_id.
     ret (AuditEvent_new event_id occurred_at AuditActor.HeadOfProducts
       \<lparr>action_module = AuditModule.Portfolio, action_code = parse_audit_code code, action_target = target\<rparr>
       (context_correlation_id c) successful_disposition))"

section \<open>Replay\<close>

text \<open>
  \<^verbatim>\<open>replay!\<close>, whose variant is \<open>matches\<close>: a remembered command that differs, or one that was remembered
  with another variant of \<^verbatim>\<open>StoredResult\<close>, is an idempotency conflict.
\<close>

fun result_of_kind :: "lowered_kind \<Rightarrow> PortfolioStoredResult \<Rightarrow> bool" where
  "result_of_kind (Simple PortfolioKind) (PortfolioStoredResult.Portfolio _) = True"
| "result_of_kind (Simple ProductKind) (PortfolioStoredResult.Product _) = True"
| "result_of_kind (Simple RoadmapKind) (PortfolioStoredResult.Roadmap _) = True"
| "result_of_kind KpiKind (PortfolioStoredResult.Kpi _) = True"
| "result_of_kind ObservationKind (PortfolioStoredResult.Observation _) = True"
| "result_of_kind _ _ = False"

definition replay_outcome ::
  "lowered_kind \<Rightarrow> PortfolioCommandIdentity \<Rightarrow> OperationContext \<Rightarrow> 'w portfolio_service
     \<Rightarrow> DomainError + PortfolioStoredResult option" where
  "replay_outcome k command c s =
     (case hm_get (portfolio_outcomes s) (context_idempotency_id c) of
        None \<Rightarrow> Inr None
      | Some stored \<Rightarrow>
          if stored_command stored \<noteq> command then Inl (idempotency_error c)
          else if result_of_kind k (stored_outcome_result stored)
          then Inr (Some (stored_outcome_result stored))
          else Inl (idempotency_error c))"

text \<open>\<^verbatim>\<open>if let Some(outcome) = self.replay_...(&command, &context)? { return Ok(outcome); }\<close>\<close>

definition or_replay ::
  "lowered_kind \<Rightarrow> PortfolioCommandIdentity \<Rightarrow> OperationContext
     \<Rightarrow> ('w, PortfolioStoredResult) portfolio_method \<Rightarrow> ('w, PortfolioStoredResult) portfolio_method" where
  "or_replay k command c m =
     ebind (reads (replay_outcome k command c)) (\<lambda>replayed.
     case replayed of Some outcome \<Rightarrow> ret outcome | None \<Rightarrow> m)"

section \<open>Commit\<close>

definition remember ::
  "OperationContext \<Rightarrow> PortfolioStoredOutcome \<Rightarrow> AuditEvent list \<Rightarrow> 'w portfolio_service \<Rightarrow> 'w portfolio_service" where
  "remember c outcome audits s =
     s\<lparr>portfolio_audit_events := portfolio_audit_events s @ audits,
       portfolio_outcomes := hm_insert (context_idempotency_id c) outcome (portfolio_outcomes s)\<rparr>"

text \<open>
  The common end of the commits that write one record: audit, injected failure, ordinal, and then the
  record, the audit event and the outcome together.
\<close>

definition commit_record ::
  "'w portfolio_ports \<Rightarrow> ('w portfolio_service \<Rightarrow> 'w portfolio_service)
     \<Rightarrow> ('r MutationOutcome \<Rightarrow> PortfolioStoredResult) \<Rightarrow> 'r \<Rightarrow> AuditTarget \<Rightarrow> OperationContext
     \<Rightarrow> PortfolioCommandIdentity \<Rightarrow> string \<Rightarrow> UtcTimestamp \<Rightarrow> ('w, PortfolioStoredResult) portfolio_method" where
  "commit_record P put result r target c command code occurred_at =
     ebind (prepare_audit P c target code occurred_at) (\<lambda>audit.
     ebind (check_commit c) (\<lambda>_.
     ebind (take_operation_ordinal c) (\<lambda>ordinal s.
       let outcome = result \<lparr>mutation_record = r, mutation_audit_event = audit\<rparr> in
       (Inr outcome,
        remember c \<lparr>stored_command = command, stored_outcome_result = outcome,
          stored_correlation_id = context_correlation_id c, stored_audit_event_ids = [audit_id audit],
          stored_operation_ordinal = ordinal, stored_derived_mutations = []\<rparr> [audit] (put s)))))"

definition commit_simple ::
  "simple_kind \<Rightarrow> 'w portfolio_ports \<Rightarrow> SimpleRecord \<Rightarrow> OperationContext \<Rightarrow> PortfolioCommandIdentity \<Rightarrow> string
     \<Rightarrow> ('w, PortfolioStoredResult) portfolio_method" where
  "commit_simple k P r c command code =
     ebind (portfolio_read_clock P) (\<lambda>now.
     commit_record P (put_simple k r) (simple_result k) r (simple_target k (simple_id r)) c command code now)"

definition commit_portfolio ::
  "'w portfolio_ports \<Rightarrow> PortfolioRecord \<Rightarrow> OperationContext \<Rightarrow> PortfolioCommandIdentity \<Rightarrow> string
     \<Rightarrow> ('w, PortfolioStoredResult) portfolio_method" where
  "commit_portfolio = commit_simple PortfolioKind"

definition commit_product ::
  "'w portfolio_ports \<Rightarrow> ProductRecord \<Rightarrow> OperationContext \<Rightarrow> PortfolioCommandIdentity \<Rightarrow> string
     \<Rightarrow> ('w, PortfolioStoredResult) portfolio_method" where
  "commit_product = commit_simple ProductKind"

definition commit_roadmap ::
  "'w portfolio_ports \<Rightarrow> RoadmapRecord \<Rightarrow> OperationContext \<Rightarrow> PortfolioCommandIdentity \<Rightarrow> string
     \<Rightarrow> ('w, PortfolioStoredResult) portfolio_method" where
  "commit_roadmap = commit_simple RoadmapKind"

definition commit_observation ::
  "'w portfolio_ports \<Rightarrow> KpiObservationRecord \<Rightarrow> OperationContext \<Rightarrow> PortfolioCommandIdentity \<Rightarrow> string
     \<Rightarrow> UtcTimestamp \<Rightarrow> ('w, PortfolioStoredResult) portfolio_method" where
  "commit_observation P r c command code occurred_at =
     commit_record P (put_observation r) PortfolioStoredResult.Observation r
       (AuditTarget.KpiObservation (observation_id r)) c command code occurred_at"

text \<open>
  The loop of \<^verbatim>\<open>commit_kpi\<close> over the affected observations, on a copy of the observations; it returns
  the copy with the derived audit events and mutations.
\<close>

fun fan_out ::
  "'w portfolio_ports \<Rightarrow> OperationContext \<Rightarrow> DataClassification \<Rightarrow> UtcTimestamp \<Rightarrow> entity_id list
     \<Rightarrow> (entity_id \<times> KpiObservationRecord) list
     \<Rightarrow> ('w, (entity_id \<times> KpiObservationRecord) list \<times> AuditEvent list \<times> DerivedKpiObservationMutation list)
          portfolio_method" where
  "fan_out P c cls now [] m = ret (m, [], [])"
| "fan_out P c cls now (i # ids) m =
     ebind (lift_result (ok_or (operation_error PlatformInternal ''portfolio.fan_out_state_invalid'' c)
       (hm_get m i))) (\<lambda>v.
     ebind (lift_result (next_version (observation_version v) c)) (\<lambda>resulting_version.
     ebind (prepare_audit P c (AuditTarget.KpiObservation i) ''kpi.observation.classification.inherited'' now)
       (\<lambda>audit.
     let resulting_classification = combine cls (observation_classification v);
         resulting_updated_at = max now (observation_updated_at v);
         v' = v\<lparr>observation_version := resulting_version,
                observation_classification := resulting_classification,
                observation_updated_at := resulting_updated_at\<rparr>;
         mutation = \<lparr>derived_observation_id = i,
           derived_previous_version = observation_version v, derived_resulting_version = resulting_version,
           derived_previous_classification = observation_classification v,
           derived_resulting_classification = resulting_classification,
           derived_previous_updated_at = observation_updated_at v,
           derived_resulting_updated_at = resulting_updated_at, derived_audit_event_id = audit_id audit\<rparr> in
     ebind (fan_out P c cls now ids (hm_insert i v' m)) (\<lambda>(m', audits, mutations).
     ret (m', audit # audits, mutation # mutations)))))"

definition commit_kpi ::
  "'w portfolio_ports \<Rightarrow> KpiDefinitionRecord \<Rightarrow> OperationContext \<Rightarrow> PortfolioCommandIdentity \<Rightarrow> string
     \<Rightarrow> ('w, PortfolioStoredResult) portfolio_method" where
  "commit_kpi P r c command code =
     ebind (portfolio_read_clock P) (\<lambda>now.
     ebind (prepare_audit P c (AuditTarget.Kpi (kpi_id r)) code now) (\<lambda>audit.
     ebind (\<lambda>s. fan_out P c (kpi_classification r) now
         (affected_ids (kpi_id r) (kpi_classification r) (observations s)) (observations s) s)
       (\<lambda>(next_observations, derived_audits, derived_mutations).
     ebind (check_commit c) (\<lambda>_.
     ebind (take_operation_ordinal c) (\<lambda>ordinal s.
       let outcome = PortfolioStoredResult.Kpi \<lparr>mutation_record = r, mutation_audit_event = audit\<rparr> in
       (Inr outcome,
        remember c \<lparr>stored_command = command, stored_outcome_result = outcome,
          stored_correlation_id = context_correlation_id c,
          stored_audit_event_ids = audit_id audit # map audit_id derived_audits,
          stored_operation_ordinal = ordinal, stored_derived_mutations = derived_mutations\<rparr>
          (audit # derived_audits) ((put_kpi r s)\<lparr>observations := next_observations\<rparr>)))))))"

section \<open>Portfolios, Products and Roadmaps\<close>

fun simple_create_identity :: "simple_kind \<Rightarrow> CreateSimple \<Rightarrow> PortfolioCommandIdentity" where
  "simple_create_identity PortfolioKind x = PortfolioCommandIdentity.CreatePortfolio (new_simple_id x)
     (new_simple_name x) (new_simple_details x) (new_simple_classification x) (new_simple_provenance x)"
| "simple_create_identity ProductKind x = PortfolioCommandIdentity.CreateProduct (new_simple_id x)
     (new_simple_name x) (new_simple_details x) (new_simple_classification x) (new_simple_provenance x)"
| "simple_create_identity RoadmapKind x = PortfolioCommandIdentity.CreateRoadmap (new_simple_id x)
     (new_simple_name x) (new_simple_details x) (new_simple_classification x) (new_simple_provenance x)"

fun simple_update_identity :: "simple_kind \<Rightarrow> UpdateSimpleDetails \<Rightarrow> PortfolioCommandIdentity" where
  "simple_update_identity PortfolioKind x = PortfolioCommandIdentity.UpdatePortfolio (upd_simple_id x)
     (upd_simple_expected_version x) (upd_simple_name x) (upd_simple_details x) (upd_simple_classification x)"
| "simple_update_identity ProductKind x = PortfolioCommandIdentity.UpdateProduct (upd_simple_id x)
     (upd_simple_expected_version x) (upd_simple_name x) (upd_simple_details x) (upd_simple_classification x)"
| "simple_update_identity RoadmapKind x = PortfolioCommandIdentity.UpdateRoadmap (upd_simple_id x)
     (upd_simple_expected_version x) (upd_simple_name x) (upd_simple_details x) (upd_simple_classification x)"

definition new_simple :: "CreateSimple \<Rightarrow> SimpleRecord" where
  "new_simple x =
     \<lparr>simple_id = new_simple_id x, simple_name = new_simple_name x, simple_details = new_simple_details x,
      simple_classification = classification_or_default (new_simple_classification x),
      simple_provenance = new_simple_provenance x, simple_version = AggregateVersion_initial\<rparr>"

definition create_simple ::
  "simple_kind \<Rightarrow> 'w portfolio_ports \<Rightarrow> CreateSimple \<Rightarrow> ('w, PortfolioStoredResult) portfolio_method" where
  "create_simple k P x =
     (let c = new_simple_context x; command = simple_create_identity k x in
      or_replay (Simple k) command c
       (ebind (reads (\<lambda>s. ensure_absent (hm_get (simple_store k s) (new_simple_id x) \<noteq> None)
          (simple_key k @ ''.already_exists'') c)) (\<lambda>_.
        commit_simple k P (new_simple x) c command (simple_key k @ ''.created''))))"

text \<open>\<^verbatim>\<open>if let Some(value) = intent.classification { ensure_classification_not_lowered(..)?; .. }\<close>\<close>

definition requested_classification ::
  "DataClassification \<Rightarrow> DataClassification option \<Rightarrow> OperationContext \<Rightarrow> DomainError + DataClassification" where
  "requested_classification current requested c =
     (case requested of
        None \<Rightarrow> Inr current
      | Some v \<Rightarrow> rbind (ensure_classification_not_lowered current v c) (\<lambda>_. Inr v))"

definition updated_simple ::
  "UpdateSimpleDetails \<Rightarrow> AggregateVersion \<Rightarrow> DataClassification \<Rightarrow> SimpleRecord \<Rightarrow> SimpleRecord" where
  "updated_simple x version cls r =
     r\<lparr>simple_version := version, simple_name := upd_simple_name x, simple_details := upd_simple_details x,
       simple_classification := cls\<rparr>"

definition update_simple_details ::
  "simple_kind \<Rightarrow> 'w portfolio_ports \<Rightarrow> UpdateSimpleDetails \<Rightarrow> ('w, PortfolioStoredResult) portfolio_method" where
  "update_simple_details k P x =
     (let c = upd_simple_context x; command = simple_update_identity k x in
      or_replay (Simple k) command c
       (ebind (reads (\<lambda>s. ok_or (operation_error DomainNotFound (simple_key k @ ''.not_found'') c)
          (hm_get (simple_store k s) (upd_simple_id x)))) (\<lambda>r.
        ebind (lift_result (ensure_version (simple_version r) (upd_simple_expected_version x) c)) (\<lambda>_.
        ebind (lift_result (next_version (simple_version r) c)) (\<lambda>version.
        ebind (lift_result (requested_classification (simple_classification r) (upd_simple_classification x) c))
          (\<lambda>classification.
        commit_simple k P (updated_simple x version classification r) c command (simple_key k @ ''.updated'')))))))"

definition create_portfolio ::
  "'w portfolio_ports \<Rightarrow> CreatePortfolio \<Rightarrow> ('w, PortfolioStoredResult) portfolio_method" where
  "create_portfolio = create_simple PortfolioKind"

definition update_portfolio_details ::
  "'w portfolio_ports \<Rightarrow> UpdatePortfolioDetails \<Rightarrow> ('w, PortfolioStoredResult) portfolio_method" where
  "update_portfolio_details = update_simple_details PortfolioKind"

definition create_product ::
  "'w portfolio_ports \<Rightarrow> CreateProduct \<Rightarrow> ('w, PortfolioStoredResult) portfolio_method" where
  "create_product = create_simple ProductKind"

definition update_product_details ::
  "'w portfolio_ports \<Rightarrow> UpdateProductDetails \<Rightarrow> ('w, PortfolioStoredResult) portfolio_method" where
  "update_product_details = update_simple_details ProductKind"

definition create_roadmap ::
  "'w portfolio_ports \<Rightarrow> CreateRoadmap \<Rightarrow> ('w, PortfolioStoredResult) portfolio_method" where
  "create_roadmap = create_simple RoadmapKind"

definition update_roadmap_details ::
  "'w portfolio_ports \<Rightarrow> UpdateRoadmapDetails \<Rightarrow> ('w, PortfolioStoredResult) portfolio_method" where
  "update_roadmap_details = update_simple_details RoadmapKind"

section \<open>KPI definitions\<close>

definition kpi_create_identity :: "CreateKpiDefinition \<Rightarrow> PortfolioCommandIdentity" where
  "kpi_create_identity x =
     PortfolioCommandIdentity.CreateKpi (new_kpi_id x) (new_kpi_name x) (new_kpi_definition x)
       (new_kpi_owner x) (new_kpi_target x) (new_kpi_cadence x) (new_kpi_source x)
       (new_kpi_classification x) (new_kpi_provenance x)"

definition new_kpi :: "CreateKpiDefinition \<Rightarrow> KpiDefinitionRecord" where
  "new_kpi x =
     \<lparr>kpi_id = new_kpi_id x, kpi_name = new_kpi_name x, kpi_definition = new_kpi_definition x,
      kpi_owner = new_kpi_owner x, kpi_target = new_kpi_target x, kpi_cadence = new_kpi_cadence x,
      kpi_source = new_kpi_source x, kpi_classification = classification_or_default (new_kpi_classification x),
      kpi_provenance = new_kpi_provenance x, kpi_version = AggregateVersion_initial\<rparr>"

definition create_kpi_definition ::
  "'w portfolio_ports \<Rightarrow> CreateKpiDefinition \<Rightarrow> ('w, PortfolioStoredResult) portfolio_method" where
  "create_kpi_definition P x =
     (let c = new_kpi_context x;
          command = kpi_create_identity x in
      or_replay KpiKind command c
       (ebind (reads (\<lambda>s. ensure_absent (hm_get (kpis s) (new_kpi_id x) \<noteq> None) ''kpi.already_exists'' c)) (\<lambda>_.
        commit_kpi P (new_kpi x) c command ''kpi.definition.created'')))"

definition kpi_update_identity :: "UpdateKpiDefinitionDetails \<Rightarrow> PortfolioCommandIdentity" where
  "kpi_update_identity x =
     PortfolioCommandIdentity.UpdateKpi (upd_kpi_id x) (upd_kpi_expected_version x)
       (upd_kpi_name x) (upd_kpi_definition x) (upd_kpi_owner x) (upd_kpi_target x) (upd_kpi_cadence x)
       (upd_kpi_source x) (upd_kpi_classification x)"

definition updated_kpi ::
  "UpdateKpiDefinitionDetails \<Rightarrow> AggregateVersion \<Rightarrow> DataClassification \<Rightarrow> KpiDefinitionRecord
     \<Rightarrow> KpiDefinitionRecord" where
  "updated_kpi x version cls r =
     r\<lparr>kpi_version := version, kpi_name := upd_kpi_name x, kpi_definition := upd_kpi_definition x,
       kpi_owner := upd_kpi_owner x, kpi_target := upd_kpi_target x, kpi_cadence := upd_kpi_cadence x,
       kpi_source := upd_kpi_source x, kpi_classification := cls\<rparr>"

definition update_kpi_definition_details ::
  "'w portfolio_ports \<Rightarrow> UpdateKpiDefinitionDetails \<Rightarrow> ('w, PortfolioStoredResult) portfolio_method" where
  "update_kpi_definition_details P x =
     (let c = upd_kpi_context x;
          command = kpi_update_identity x in
      or_replay KpiKind command c
       (ebind (reads (\<lambda>s. ok_or (operation_error DomainNotFound ''kpi.not_found'' c)
          (hm_get (kpis s) (upd_kpi_id x)))) (\<lambda>r.
        ebind (lift_result (ensure_version (kpi_version r) (upd_kpi_expected_version x) c)) (\<lambda>_.
        ebind (lift_result (next_version (kpi_version r) c)) (\<lambda>version.
        ebind (lift_result (requested_classification (kpi_classification r) (upd_kpi_classification x) c))
          (\<lambda>classification.
        commit_kpi P (updated_kpi x version classification r) c command ''kpi.definition.updated''))))))"

section \<open>KPI observations\<close>

definition definition_classification ::
  "entity_id \<Rightarrow> OperationContext \<Rightarrow> 'w portfolio_service \<Rightarrow> DomainError + DataClassification" where
  "definition_classification i c s =
     ok_or (operation_error DomainNotFound ''kpi.not_found'' c) (map_option kpi_classification (hm_get (kpis s) i))"

definition observation_create_identity :: "CreateKpiObservation \<Rightarrow> PortfolioCommandIdentity" where
  "observation_create_identity x =
     PortfolioCommandIdentity.CreateObservation (new_observation_id x) (new_observation_kpi_id x)
       (new_observation_value x) (new_observation_observed_at x) (new_observation_source x)
       (new_observation_classification x) (new_observation_provenance x)"

definition new_observation ::
  "CreateKpiObservation \<Rightarrow> DataClassification \<Rightarrow> UtcTimestamp \<Rightarrow> KpiObservationRecord" where
  "new_observation x inherited now =
     \<lparr>observation_id = new_observation_id x, observation_kpi_id = new_observation_kpi_id x,
      observation_value = new_observation_value x, observation_observed_at = new_observation_observed_at x,
      observation_source = new_observation_source x,
      observation_classification =
        (case new_observation_classification x of None \<Rightarrow> inherited | Some v \<Rightarrow> combine v inherited),
      observation_provenance = new_observation_provenance x, observation_version = AggregateVersion_initial,
      observation_created_at = now, observation_updated_at = now\<rparr>"

definition create_kpi_observation ::
  "'w portfolio_ports \<Rightarrow> CreateKpiObservation \<Rightarrow> ('w, PortfolioStoredResult) portfolio_method" where
  "create_kpi_observation P x =
     (let c = new_observation_context x;
          command = observation_create_identity x in
      or_replay ObservationKind command c
       (ebind (reads (\<lambda>s. ensure_absent (hm_get (observations s) (new_observation_id x) \<noteq> None)
          ''kpi.observation.already_exists'' c)) (\<lambda>_.
        ebind (reads (definition_classification (new_observation_kpi_id x) c)) (\<lambda>inherited.
        ebind (portfolio_read_clock P) (\<lambda>now.
        commit_observation P (new_observation x inherited now) c command ''kpi.observation.created'' now)))))"

definition observation_update_identity :: "UpdateKpiObservationDetails \<Rightarrow> PortfolioCommandIdentity" where
  "observation_update_identity x =
     PortfolioCommandIdentity.UpdateObservation (upd_observation_id x) (upd_observation_expected_version x)
       (upd_observation_value x) (upd_observation_observed_at x) (upd_observation_source x)
       (upd_observation_classification x)"

definition updated_observation ::
  "UpdateKpiObservationDetails \<Rightarrow> AggregateVersion \<Rightarrow> UtcTimestamp \<Rightarrow> DataClassification \<Rightarrow> DataClassification
     \<Rightarrow> KpiObservationRecord \<Rightarrow> KpiObservationRecord" where
  "updated_observation x version now cls inherited r =
     r\<lparr>observation_version := version, observation_value := upd_observation_value x,
       observation_observed_at := upd_observation_observed_at x, observation_source := upd_observation_source x,
       observation_updated_at := max now (observation_updated_at r),
       observation_classification := combine cls inherited\<rparr>"

definition update_kpi_observation_details ::
  "'w portfolio_ports \<Rightarrow> UpdateKpiObservationDetails \<Rightarrow> ('w, PortfolioStoredResult) portfolio_method" where
  "update_kpi_observation_details P x =
     (let c = upd_observation_context x;
          command = observation_update_identity x in
      or_replay ObservationKind command c
       (ebind (reads (\<lambda>s. ok_or (operation_error DomainNotFound ''kpi.observation.not_found'' c)
          (hm_get (observations s) (upd_observation_id x)))) (\<lambda>r.
        ebind (lift_result (ensure_version (observation_version r) (upd_observation_expected_version x) c)) (\<lambda>_.
        ebind (lift_result (next_version (observation_version r) c)) (\<lambda>version.
        ebind (portfolio_read_clock P) (\<lambda>now.
        ebind (lift_result (requested_classification (observation_classification r)
          (upd_observation_classification x) c)) (\<lambda>classification.
        ebind (reads (definition_classification (observation_kpi_id r) c)) (\<lambda>inherited.
        commit_observation P (updated_observation x version now classification inherited r) c command ''kpi.observation.updated'' now))))))))"

end
