(* ===== verification/Portfolio_Lowering.thy ===== *)
theory Portfolio_Lowering
  imports Portfolio_Service
begin

text \<open>
  The governed lowering of a classification in \<^verbatim>\<open>crates/pmc-domain/src/portfolio.rs\<close>: the preview and
  its approval for the five record types. The five pairs of methods have one shape; \<open>prepare_lower\<close> and
  \<open>approve_and_execute_lower\<close> are that shape over a \<open>lowered_kind\<close>, and each method of the code is an
  instance.
\<close>

fun lowering_key :: "lowered_kind \<Rightarrow> string" where
  "lowering_key (Simple k) = simple_key k"
| "lowering_key KpiKind = ''kpi''"
| "lowering_key ObservationKind = ''kpi.observation''"

text \<open>The record a lowering is about.\<close>

datatype lowered_record =
  LoweredSimple simple_kind SimpleRecord
| LoweredKpi KpiDefinitionRecord
| LoweredObservation KpiObservationRecord

fun lowered_id :: "lowered_record \<Rightarrow> entity_id" where
  "lowered_id (LoweredSimple k r) = simple_id r"
| "lowered_id (LoweredKpi r) = kpi_id r"
| "lowered_id (LoweredObservation r) = observation_id r"

fun lowered_version :: "lowered_record \<Rightarrow> AggregateVersion" where
  "lowered_version (LoweredSimple k r) = simple_version r"
| "lowered_version (LoweredKpi r) = kpi_version r"
| "lowered_version (LoweredObservation r) = observation_version r"

fun lowered_classification :: "lowered_record \<Rightarrow> DataClassification" where
  "lowered_classification (LoweredSimple k r) = simple_classification r"
| "lowered_classification (LoweredKpi r) = kpi_classification r"
| "lowered_classification (LoweredObservation r) = observation_classification r"

fun lowering_subject :: "lowered_kind \<Rightarrow> entity_id \<Rightarrow> 'a portfolio_stores_scheme \<Rightarrow> lowered_record option" where
  "lowering_subject (Simple k) i s = map_option (LoweredSimple k) (hm_get (simple_store k s) i)"
| "lowering_subject KpiKind i s = map_option LoweredKpi (hm_get (kpis s) i)"
| "lowering_subject ObservationKind i s = map_option LoweredObservation (hm_get (observations s) i)"

fun lowering_operation ::
  "lowered_kind \<Rightarrow> entity_id \<Rightarrow> AggregateVersion \<Rightarrow> DataClassification \<Rightarrow> DataClassification \<Rightarrow> string
     \<Rightarrow> WorkManagementOperation" where
  "lowering_operation (Simple PortfolioKind) = WorkManagementOperation.LowerPortfolioClassification"
| "lowering_operation (Simple ProductKind) = WorkManagementOperation.LowerProductClassification"
| "lowering_operation (Simple RoadmapKind) = WorkManagementOperation.LowerRoadmapClassification"
| "lowering_operation KpiKind = WorkManagementOperation.LowerKpiClassification"
| "lowering_operation ObservationKind = WorkManagementOperation.LowerKpiObservationClassification"

text \<open>
  The fields an approval reads from the prepared operation: identifier, version, proposed
  classification and rationale, for the one operation of the family.
\<close>

definition lowering_of ::
  "lowered_kind \<Rightarrow> WorkManagementOperation \<Rightarrow> (entity_id \<times> AggregateVersion \<times> DataClassification \<times> string) option" where
  "lowering_of k op =
     (case k of
        Simple PortfolioKind \<Rightarrow>
          (case op of WorkManagementOperation.LowerPortfolioClassification i v _ p r \<Rightarrow> Some (i, v, p, r) | _ \<Rightarrow> None)
      | Simple ProductKind \<Rightarrow>
          (case op of WorkManagementOperation.LowerProductClassification i v _ p r \<Rightarrow> Some (i, v, p, r) | _ \<Rightarrow> None)
      | Simple RoadmapKind \<Rightarrow>
          (case op of WorkManagementOperation.LowerRoadmapClassification i v _ p r \<Rightarrow> Some (i, v, p, r) | _ \<Rightarrow> None)
      | KpiKind \<Rightarrow>
          (case op of WorkManagementOperation.LowerKpiClassification i v _ p r \<Rightarrow> Some (i, v, p, r) | _ \<Rightarrow> None)
      | ObservationKind \<Rightarrow>
          (case op of WorkManagementOperation.LowerKpiObservationClassification i v _ p r \<Rightarrow> Some (i, v, p, r)
           | _ \<Rightarrow> None))"

fun prepare_lower_identity :: "lowered_kind \<Rightarrow> PrepareLowerClassification \<Rightarrow> PortfolioCommandIdentity" where
  "prepare_lower_identity (Simple PortfolioKind) x = PortfolioCommandIdentity.PrepareLowerPortfolioClassification
     (lowering_subject_id x) (lowering_expected_version x) (lowering_proposed_classification x) (lowering_rationale x)"
| "prepare_lower_identity (Simple ProductKind) x = PortfolioCommandIdentity.PrepareLowerProductClassification
     (lowering_subject_id x) (lowering_expected_version x) (lowering_proposed_classification x) (lowering_rationale x)"
| "prepare_lower_identity (Simple RoadmapKind) x = PortfolioCommandIdentity.PrepareLowerRoadmapClassification
     (lowering_subject_id x) (lowering_expected_version x) (lowering_proposed_classification x) (lowering_rationale x)"
| "prepare_lower_identity KpiKind x = PortfolioCommandIdentity.PrepareLowerKpiClassification
     (lowering_subject_id x) (lowering_expected_version x) (lowering_proposed_classification x) (lowering_rationale x)"
| "prepare_lower_identity ObservationKind x = PortfolioCommandIdentity.PrepareLowerKpiObservationClassification
     (lowering_subject_id x) (lowering_expected_version x) (lowering_proposed_classification x) (lowering_rationale x)"

fun execute_lower_identity :: "lowered_kind \<Rightarrow> WorkManagementApproval \<Rightarrow> PortfolioCommandIdentity" where
  "execute_lower_identity (Simple PortfolioKind) a = PortfolioCommandIdentity.ApproveAndExecuteLowerPortfolioClassification
     (approval_prepared_id a) (approval_actor a) (acknowledged_payload_digest a)"
| "execute_lower_identity (Simple ProductKind) a = PortfolioCommandIdentity.ApproveAndExecuteLowerProductClassification
     (approval_prepared_id a) (approval_actor a) (acknowledged_payload_digest a)"
| "execute_lower_identity (Simple RoadmapKind) a = PortfolioCommandIdentity.ApproveAndExecuteLowerRoadmapClassification
     (approval_prepared_id a) (approval_actor a) (acknowledged_payload_digest a)"
| "execute_lower_identity KpiKind a = PortfolioCommandIdentity.ApproveAndExecuteLowerKpiClassification
     (approval_prepared_id a) (approval_actor a) (acknowledged_payload_digest a)"
| "execute_lower_identity ObservationKind a = PortfolioCommandIdentity.ApproveAndExecuteLowerKpiObservationClassification
     (approval_prepared_id a) (approval_actor a) (acknowledged_payload_digest a)"

section \<open>Preview\<close>

definition portfolio_prepare_lower_fresh ::
  "lowered_kind \<Rightarrow> 'w portfolio_ports \<Rightarrow> PrepareLowerClassification
     \<Rightarrow> ('w, WorkManagementPreparedIntent) portfolio_method" where
  "portfolio_prepare_lower_fresh k P x =
     (let c = lowering_prepare_context x; proposed = lowering_proposed_classification x in
      ebind (reads (\<lambda>s. ok_or (operation_error DomainNotFound (lowering_key k @ ''.not_found'') c)
        (lowering_subject k (lowering_subject_id x) s))) (\<lambda>r.
      let current = lowered_classification r in
      ebind (lift_result (ensure_version (lowered_version r) (lowering_expected_version x) c)) (\<lambda>_.
      ebind (ensure (portfolio_is_genuine_lowering current proposed)
        (operation_error DomainConflict (lowering_key k @ ''.classification_lowering_not_a_lowering'') c)) (\<lambda>_.
      ebind (check_commit c) (\<lambda>_.
      ebind (portfolio_draw_id (portfolio_next_prepared_intent_id P)
        (operation_error PlatformInternal (lowering_key k @ ''.prepared_intent_id_unavailable'') c)) (\<lambda>intent_id.
      ebind (portfolio_read_clock P) (\<lambda>now.
      ebind (lift_result (map_err (\<lambda>_. operation_error DomainConflict
          (lowering_key k @ ''.classification_lowering_invalid'') c)
        (prepare (portfolio_sha256_hex P) intent_id
          (lowering_operation k (lowered_id r) (lowered_version r) current proposed (lowering_rationale x))
          current None now))) (\<lambda>prepared s.
      (Inr prepared,
       s\<lparr>prepared_lowerings := hm_insert (preview_id (prepared_preview prepared)) prepared (prepared_lowerings s),
         prepared_lowering_requests := hm_insert (context_idempotency_id c)
           (prepare_lower_identity k x, preview_id (prepared_preview prepared)) (prepared_lowering_requests s)\<rparr>)))))))))"

definition prepare_lower ::
  "lowered_kind \<Rightarrow> 'w portfolio_ports \<Rightarrow> PrepareLowerClassification
     \<Rightarrow> ('w, WorkManagementPreparedIntent) portfolio_method" where
  "prepare_lower k P x =
     (let c = lowering_prepare_context x in
      ebind (reads (\<lambda>s. Inr (hm_get (prepared_lowering_requests s) (context_idempotency_id c)))) (\<lambda>requested.
      case requested of
        Some (stored, intent_id) \<Rightarrow>
          if stored \<noteq> prepare_lower_identity k x then throw (idempotency_error c)
          else reads (\<lambda>s. ok_or (idempotency_error c) (hm_get (prepared_lowerings s) intent_id))
      | None \<Rightarrow> portfolio_prepare_lower_fresh k P x))"

section \<open>Approval\<close>

fun lowering_validation_error ::
  "lowered_kind \<Rightarrow> OperationContext \<Rightarrow> WorkManagementApprovalValidationError \<Rightarrow> DomainError" where
  "lowering_validation_error k c WorkManagementApprovalValidationError.Unauthorized =
     operation_error SecurityPolicyDenied (lowering_key k @ ''.classification_lowering_approval_denied'') c"
| "lowering_validation_error k c _ =
     operation_error SecurityPreviewExpiredOrChanged (lowering_key k @ ''.classification_lowering_preview_changed'') c"

text \<open>
  The write that ends an approval: the record of the subject with its next version and the proposed
  classification. An observation is also stamped with a further reading of the clock.
\<close>

fun commit_lowered ::
  "'w portfolio_ports \<Rightarrow> lowered_record \<Rightarrow> DataClassification \<Rightarrow> OperationContext \<Rightarrow> PortfolioCommandIdentity
     \<Rightarrow> ('w, PortfolioStoredResult) portfolio_method" where
  "commit_lowered P (LoweredSimple k r) proposed c command =
     ebind (lift_result (next_version (simple_version r) c)) (\<lambda>version.
     commit_simple k P (r\<lparr>simple_version := version, simple_classification := proposed\<rparr>) c command
       (simple_key k @ ''.classification_lowered''))"
| "commit_lowered P (LoweredKpi r) proposed c command =
     ebind (lift_result (next_version (kpi_version r) c)) (\<lambda>version.
     commit_kpi P (r\<lparr>kpi_version := version, kpi_classification := proposed\<rparr>) c command
       ''kpi.classification_lowered'')"
| "commit_lowered P (LoweredObservation r) proposed c command =
     ebind (lift_result (next_version (observation_version r) c)) (\<lambda>version.
     ebind (portfolio_read_clock P) (\<lambda>occurred_at.
     commit_observation P
       (r\<lparr>observation_version := version, observation_classification := proposed,
          observation_updated_at := max occurred_at (observation_updated_at r)\<rparr>)
       c command ''kpi.observation.classification_lowered'' occurred_at))"

definition approve_lower_fresh ::
  "lowered_kind \<Rightarrow> 'w portfolio_ports \<Rightarrow> ApproveAndExecuteLowerClassification
     \<Rightarrow> ('w, PortfolioStoredResult) portfolio_method" where
  "approve_lower_fresh k P x =
     (let c = lowering_context x; approval = lowering_approval x;
          preview_changed = (\<lambda>code. operation_error code
            (lowering_key k @ ''.classification_lowering_preview_changed'') c) in
      ebind (reads (\<lambda>s. ok_or (preview_changed DomainConflict)
        (hm_get (prepared_lowerings s) (approval_prepared_id approval)))) (\<lambda>prepared.
      ebind (lift_result (ok_or (preview_changed DomainConflict)
        (lowering_of k (preview_operation (prepared_preview prepared))))) (\<lambda>(subject, version, proposed, rationale).
      ebind (reads (\<lambda>s. ok_or (operation_error DomainNotFound (lowering_key k @ ''.not_found'') c)
        (lowering_subject k subject s))) (\<lambda>r.
      ebind (ensure (lowered_version r = version)
        (with_extension (CurrentVersion (lowered_version r))
          (preview_changed SecurityPreviewExpiredOrChanged))) (\<lambda>_.
      let current = lowered_classification r;
          current_op = lowering_operation k subject (lowered_version r) current proposed rationale in
      ebind (portfolio_read_clock P) (\<lambda>now.
      ebind (lift_result (map_err (\<lambda>_. preview_changed DomainConflict)
        (prepare (portfolio_sha256_hex P) (preview_id (prepared_preview prepared)) current_op current None now))) (\<lambda>fresh.
      ebind (portfolio_draw_id (portfolio_next_approval_receipt_id P)
        (operation_error PlatformInternal (lowering_key k @ ''.approval_receipt_id_unavailable'') c)) (\<lambda>rid.
      ebind (portfolio_read_clock P) (\<lambda>validated_at.
      ebind (reads (\<lambda>s. map_err (lowering_validation_error k c)
        (validate_and_mint_work_management_h2a_receipt prepared approval
          \<lparr>snapshot_operation = current_op,
           snapshot_classification = preview_classification (prepared_preview fresh),
           snapshot_classification_sources = preview_classification_sources (prepared_preview fresh),
           snapshot_support = None, snapshot_policy = WorkManagementCurrentPolicy.Allowed\<rparr>
          validated_at rid (portfolio_authorize P (portfolio_world s))))) (\<lambda>_.
      commit_lowered P r proposed c (execute_lower_identity k approval)))))))))))"

definition approve_and_execute_lower ::
  "lowered_kind \<Rightarrow> 'w portfolio_ports \<Rightarrow> ApproveAndExecuteLowerClassification
     \<Rightarrow> ('w, PortfolioStoredResult) portfolio_method" where
  "approve_and_execute_lower k P x =
     (let c = lowering_context x; approval = lowering_approval x in
      ebind (ensure (approval_idempotency_id approval = context_idempotency_id c)
        (operation_error DomainConflict (lowering_key k @ ''.classification_lowering_approval_mismatch'') c)) (\<lambda>_.
      or_replay k (execute_lower_identity k approval) c (approve_lower_fresh k P x)))"

section \<open>The methods of the five families\<close>

definition prepare_lower_portfolio_classification ::
  "'w portfolio_ports \<Rightarrow> PrepareLowerClassification \<Rightarrow> ('w, WorkManagementPreparedIntent) portfolio_method" where
  "prepare_lower_portfolio_classification = prepare_lower (Simple PortfolioKind)"

definition approve_and_execute_lower_portfolio_classification ::
  "'w portfolio_ports \<Rightarrow> ApproveAndExecuteLowerClassification \<Rightarrow> ('w, PortfolioStoredResult) portfolio_method" where
  "approve_and_execute_lower_portfolio_classification = approve_and_execute_lower (Simple PortfolioKind)"

definition prepare_lower_product_classification ::
  "'w portfolio_ports \<Rightarrow> PrepareLowerClassification \<Rightarrow> ('w, WorkManagementPreparedIntent) portfolio_method" where
  "prepare_lower_product_classification = prepare_lower (Simple ProductKind)"

definition approve_and_execute_lower_product_classification ::
  "'w portfolio_ports \<Rightarrow> ApproveAndExecuteLowerClassification \<Rightarrow> ('w, PortfolioStoredResult) portfolio_method" where
  "approve_and_execute_lower_product_classification = approve_and_execute_lower (Simple ProductKind)"

definition prepare_lower_roadmap_classification ::
  "'w portfolio_ports \<Rightarrow> PrepareLowerClassification \<Rightarrow> ('w, WorkManagementPreparedIntent) portfolio_method" where
  "prepare_lower_roadmap_classification = prepare_lower (Simple RoadmapKind)"

definition approve_and_execute_lower_roadmap_classification ::
  "'w portfolio_ports \<Rightarrow> ApproveAndExecuteLowerClassification \<Rightarrow> ('w, PortfolioStoredResult) portfolio_method" where
  "approve_and_execute_lower_roadmap_classification = approve_and_execute_lower (Simple RoadmapKind)"

definition prepare_lower_kpi_classification ::
  "'w portfolio_ports \<Rightarrow> PrepareLowerClassification \<Rightarrow> ('w, WorkManagementPreparedIntent) portfolio_method" where
  "prepare_lower_kpi_classification = prepare_lower KpiKind"

definition approve_and_execute_lower_kpi_classification ::
  "'w portfolio_ports \<Rightarrow> ApproveAndExecuteLowerClassification \<Rightarrow> ('w, PortfolioStoredResult) portfolio_method" where
  "approve_and_execute_lower_kpi_classification = approve_and_execute_lower KpiKind"

definition prepare_lower_kpi_observation_classification ::
  "'w portfolio_ports \<Rightarrow> PrepareLowerClassification \<Rightarrow> ('w, WorkManagementPreparedIntent) portfolio_method" where
  "prepare_lower_kpi_observation_classification = prepare_lower ObservationKind"

definition approve_and_execute_lower_kpi_observation_classification ::
  "'w portfolio_ports \<Rightarrow> ApproveAndExecuteLowerClassification \<Rightarrow> ('w, PortfolioStoredResult) portfolio_method" where
  "approve_and_execute_lower_kpi_observation_classification = approve_and_execute_lower ObservationKind"

end
