(* ===== verification/Portfolio_Timeline.thy ===== *)
theory Portfolio_Timeline
  imports Portfolio_Lowering
begin

text \<open>
  Persistence in \<^verbatim>\<open>crates/pmc-domain/src/portfolio.rs\<close>: the snapshot of a service, the check that a
  snapshot is the history of accepted commands (\<^verbatim>\<open>PortfolioPersistenceSnapshot::validate\<close> and
  \<^verbatim>\<open>validate_portfolio_timeline\<close>, which replays the commands in ordinal order against the audit events),
  and the service rebuilt from a snapshot. The hash set of claimed audit identifiers is the list of its
  elements; the check leaves at the first repeated one, so it never holds an element twice.
\<close>

section \<open>Snapshot and rehydration\<close>

definition persistence_capsule :: "operation_id \<times> PortfolioStoredOutcome \<Rightarrow> PortfolioReplayCapsule" where
  "persistence_capsule e =
     (case e of (i, v) \<Rightarrow>
       \<lparr>capsule_idempotency_id = i, capsule_command = stored_command v,
        capsule_result = persistence_result (stored_outcome_result v),
        capsule_correlation_id = stored_correlation_id v,
        capsule_audit_event_ids = stored_audit_event_ids v,
        capsule_operation_ordinal = stored_operation_ordinal v,
        capsule_derived_mutations = stored_derived_mutations v\<rparr>)"

definition sorted_records :: "('r \<Rightarrow> entity_id) \<Rightarrow> (entity_id \<times> 'r) list \<Rightarrow> 'r list" where
  "sorted_records key m = sort_key key (hm_values m)"

definition portfolio_persistence_snapshot :: "'w portfolio_service \<Rightarrow> PortfolioPersistenceSnapshot" where
  "portfolio_persistence_snapshot s =
     \<lparr>snap_portfolios = sorted_records simple_id (portfolios s),
      snap_products = sorted_records simple_id (products s),
      snap_roadmaps = sorted_records simple_id (roadmaps s),
      snap_kpi_definitions = sorted_records kpi_id (kpis s),
      snap_kpi_observations = sorted_records observation_id (observations s),
      snap_replay = sort_key capsule_operation_ordinal (map persistence_capsule (portfolio_outcomes s)),
      snap_audits = portfolio_audit_events s\<rparr>"

text \<open>\<^verbatim>\<open>.map(|v| (key, value)).collect()\<close> into a hash map.\<close>

definition collect_map :: "('a \<Rightarrow> 'k) \<Rightarrow> ('a \<Rightarrow> 'v) \<Rightarrow> 'a list \<Rightarrow> ('k \<times> 'v) list" where
  "collect_map key val xs = fold (\<lambda>x. hm_insert (key x) (val x)) xs []"

definition restored_outcome :: "PortfolioReplayCapsule \<Rightarrow> PortfolioStoredOutcome" where
  "restored_outcome v =
     \<lparr>stored_command = capsule_command v, stored_outcome_result = stored_result (capsule_result v),
      stored_correlation_id = capsule_correlation_id v, stored_audit_event_ids = capsule_audit_event_ids v,
      stored_operation_ordinal = capsule_operation_ordinal v,
      stored_derived_mutations = capsule_derived_mutations v\<rparr>"

definition saturating_succ :: "64 word \<Rightarrow> 64 word" where
  "saturating_succ v = (case checked_add_u64 v 1 of Some w \<Rightarrow> w | None \<Rightarrow> - 1)"

definition portfolio_rehydrate :: "'w \<Rightarrow> PortfolioPersistenceSnapshot \<Rightarrow> 'w portfolio_service" where
  "portfolio_rehydrate w snap =
     \<lparr>portfolios = collect_map simple_id id (snap_portfolios snap),
      products = collect_map simple_id id (snap_products snap),
      roadmaps = collect_map simple_id id (snap_roadmaps snap),
      kpis = collect_map kpi_id id (snap_kpi_definitions snap),
      observations = collect_map observation_id id (snap_kpi_observations snap),
      portfolio_outcomes = collect_map capsule_idempotency_id restored_outcome (snap_replay snap),
      portfolio_audit_events = snap_audits snap,
      next_operation_ordinal =
        (case map capsule_operation_ordinal (snap_replay snap) of
           [] \<Rightarrow> 0
         | n # ns \<Rightarrow> saturating_succ (fold max ns n)),
      fail_next_portfolio_commit = False, portfolio_world = w, prepared_lowerings = [],
      prepared_lowering_requests = []\<rparr>"

section \<open>The checks of one command\<close>

record portfolio_replay = portfolio_stores +
  replay_claimed :: "entity_id list"
  replay_cursor :: nat

type_synonym 'a portfolio_check = "PortfolioRehydrationError + 'a"

definition valid_or :: "bool \<Rightarrow> PortfolioRehydrationError \<Rightarrow> unit portfolio_check" where
  "valid_or b e = (if b then Inr () else Inl e)"

definition check_simple_create ::
  "simple_kind \<Rightarrow> entity_id \<Rightarrow> string \<Rightarrow> string \<Rightarrow> DataClassification option \<Rightarrow> Provenance \<Rightarrow> SimpleRecord
     \<Rightarrow> portfolio_replay \<Rightarrow> portfolio_replay portfolio_check" where
  "check_simple_create k i name details cls provenance v s =
     rbind (valid_or (simple_id v = i \<and> simple_name v = name \<and> simple_details v = details \<and>
         simple_classification v = classification_or_default cls \<and> simple_provenance v = provenance \<and>
         simple_version v = AggregateVersion_initial \<and> hm_get (simple_store k s) (simple_id v) = None)
       ResultMismatch) (\<lambda>_. Inr (put_simple k v s))"

definition keeps_or_takes :: "DataClassification \<Rightarrow> DataClassification \<Rightarrow> DataClassification option \<Rightarrow> bool" where
  "keeps_or_takes previous v cls = (case cls of None \<Rightarrow> v = previous | Some c \<Rightarrow> c = v)"

definition validate_simple_update ::
  "SimpleRecord \<Rightarrow> SimpleRecord \<Rightarrow> AggregateVersion \<Rightarrow> string \<Rightarrow> string \<Rightarrow> DataClassification option
     \<Rightarrow> unit portfolio_check" where
  "validate_simple_update previous v expected name details cls =
     valid_or (simple_version previous = expected \<and> AggregateVersion_next expected = Some (simple_version v) \<and>
       simple_id v = simple_id previous \<and> simple_name v = name \<and> simple_details v = details \<and>
       simple_provenance v = simple_provenance previous \<and>
       combine (simple_classification previous) (simple_classification v) = simple_classification v \<and>
       keeps_or_takes (simple_classification previous) (simple_classification v) cls) ResultMismatch"

definition check_simple_update ::
  "simple_kind \<Rightarrow> entity_id \<Rightarrow> AggregateVersion \<Rightarrow> string \<Rightarrow> string \<Rightarrow> DataClassification option \<Rightarrow> SimpleRecord
     \<Rightarrow> portfolio_replay \<Rightarrow> portfolio_replay portfolio_check" where
  "check_simple_update k i expected name details cls v s =
     rbind (ok_or VersionLineageMismatch (hm_get (simple_store k s) i)) (\<lambda>previous.
     rbind (validate_simple_update previous v expected name details cls) (\<lambda>_. Inr (put_simple_at k i v s)))"

definition check_kpi_create ::
  "entity_id \<Rightarrow> string \<Rightarrow> string \<Rightarrow> string \<Rightarrow> string \<Rightarrow> string \<Rightarrow> string \<Rightarrow> DataClassification option \<Rightarrow> Provenance
     \<Rightarrow> KpiDefinitionRecord \<Rightarrow> portfolio_replay \<Rightarrow> portfolio_replay portfolio_check" where
  "check_kpi_create i name def owner target cadence source cls provenance v s =
     rbind (valid_or (kpi_id v = i \<and> kpi_name v = name \<and> kpi_definition v = def \<and> kpi_owner v = owner \<and>
         kpi_target v = target \<and> kpi_cadence v = cadence \<and> kpi_source v = source \<and>
         kpi_classification v = classification_or_default cls \<and> kpi_provenance v = provenance \<and>
         kpi_version v = AggregateVersion_initial \<and> hm_get (kpis s) (kpi_id v) = None) ResultMismatch)
       (\<lambda>_. Inr (put_kpi v s))"

text \<open>The audit event of a mutation: everything but the code, the target and the instant is fixed.\<close>

definition audit_of_mutation :: "AuditEvent \<Rightarrow> string \<Rightarrow> AuditTarget \<Rightarrow> operation_id \<Rightarrow> bool" where
  "audit_of_mutation e code target correlation \<longleftrightarrow>
     audit_actor e = AuditActor.HeadOfProducts \<and> audit_module e = AuditModule.Portfolio \<and>
     audit_code e = code \<and> audit_target e = target \<and> audit_correlation_id e = correlation \<and>
     audit_policy_outcome e = AuditPolicyOutcome.NotRequired \<and>
     audit_approval_outcome e = AuditApprovalOutcome.NotRequired \<and>
     audit_execution_outcome e = AuditExecutionOutcome.Succeeded \<and>
     audit_effect_scope e = AuditEffectScope.Complete \<and>
     audit_actual_effects e = [''portfolio-record-mutated'']"

text \<open>
  The loop over the observations that a KPI update raises, paired with the recorded mutations; \<open>index\<close>
  is the position in the pairing.
\<close>

fun check_derived ::
  "(entity_id \<times> AuditEvent) list \<Rightarrow> PortfolioReplayCapsule \<Rightarrow> AuditEvent \<Rightarrow> DataClassification \<Rightarrow> nat
     \<Rightarrow> (entity_id \<times> DerivedKpiObservationMutation) list \<Rightarrow> (entity_id \<times> KpiObservationRecord) list
     \<Rightarrow> (entity_id \<times> KpiObservationRecord) list portfolio_check" where
  "check_derived audit_map capsule main cls index [] m = Inr m"
| "check_derived audit_map capsule main cls index ((i, mutation) # pairs) m =
     rbind (ok_or MissingParent (hm_get m i)) (\<lambda>v.
     rbind (ok_or VersionLineageMismatch (AggregateVersion_next (observation_version v))) (\<lambda>expected_version.
     let expected_classification = combine cls (observation_classification v) in
     rbind (ok_or AuditMismatch (if index + 1 < length (capsule_audit_event_ids capsule)
        then Some (capsule_audit_event_ids capsule ! (index + 1)) else None)) (\<lambda>audit_id'.
     rbind (ok_or AuditMismatch (hm_get audit_map audit_id')) (\<lambda>audit.
     rbind (valid_or (derived_observation_id mutation = i \<and>
         derived_previous_version mutation = observation_version v \<and>
         derived_resulting_version mutation = expected_version \<and>
         derived_previous_classification mutation = observation_classification v \<and>
         derived_resulting_classification mutation = expected_classification \<and>
         derived_previous_updated_at mutation = observation_updated_at v \<and>
         derived_resulting_updated_at mutation = max (audit_occurred_at main) (observation_updated_at v) \<and>
         derived_audit_event_id mutation = audit_id' \<and>
         audit_occurred_at audit = audit_occurred_at main \<and>
         audit_of_mutation audit ''kpi.observation.classification.inherited''
           (AuditTarget.KpiObservation i) (capsule_correlation_id capsule)) AuditMismatch) (\<lambda>_.
     check_derived audit_map capsule main cls (index + 1) pairs
       (hm_insert i (v\<lparr>observation_version := expected_version,
                       observation_classification := expected_classification,
                       observation_updated_at := derived_resulting_updated_at mutation\<rparr>) m))))))"

definition check_kpi_update ::
  "(entity_id \<times> AuditEvent) list \<Rightarrow> PortfolioReplayCapsule \<Rightarrow> entity_id \<Rightarrow> AggregateVersion \<Rightarrow> string \<Rightarrow> string
     \<Rightarrow> string \<Rightarrow> string \<Rightarrow> string \<Rightarrow> string \<Rightarrow> DataClassification option \<Rightarrow> KpiDefinitionRecord MutationOutcome
     \<Rightarrow> portfolio_replay \<Rightarrow> portfolio_replay portfolio_check" where
  "check_kpi_update audit_map capsule i expected name def owner target cadence source cls outcome s =
     rbind (ok_or VersionLineageMismatch (hm_get (kpis s) i)) (\<lambda>previous.
     let v = mutation_record outcome in
     rbind (valid_or (kpi_version previous = expected \<and> AggregateVersion_next expected = Some (kpi_version v) \<and>
         kpi_id v = i \<and> kpi_name v = name \<and> kpi_definition v = def \<and> kpi_owner v = owner \<and>
         kpi_target v = target \<and> kpi_cadence v = cadence \<and> kpi_source v = source \<and>
         kpi_provenance v = kpi_provenance previous \<and>
         combine (kpi_classification previous) (kpi_classification v) = kpi_classification v \<and>
         keeps_or_takes (kpi_classification previous) (kpi_classification v) cls) ResultMismatch) (\<lambda>_.
     let affected = affected_ids i (kpi_classification v) (observations s) in
     rbind (valid_or (length affected = length (capsule_derived_mutations capsule)) ClassificationMismatch) (\<lambda>_.
     rbind (check_derived audit_map capsule (mutation_audit_event outcome) (kpi_classification v) 0
         (zip affected (capsule_derived_mutations capsule)) (observations s)) (\<lambda>m.
     Inr ((s\<lparr>observations := m\<rparr>)\<lparr>kpis := hm_insert i v (kpis s)\<rparr>)))))"

definition check_observation_create ::
  "entity_id \<Rightarrow> entity_id \<Rightarrow> string \<Rightarrow> UtcTimestamp \<Rightarrow> string \<Rightarrow> DataClassification option \<Rightarrow> Provenance
     \<Rightarrow> KpiObservationRecord MutationOutcome \<Rightarrow> portfolio_replay \<Rightarrow> portfolio_replay portfolio_check" where
  "check_observation_create i kpi val observed_at source cls provenance outcome s =
     rbind (ok_or MissingParent (hm_get (kpis s) kpi)) (\<lambda>parent.
     let v = mutation_record outcome in
     rbind (valid_or (observation_id v = i \<and> observation_kpi_id v = kpi \<and> observation_value v = val \<and>
         observation_observed_at v = observed_at \<and> observation_source v = source \<and>
         observation_classification v =
           (case cls of None \<Rightarrow> kpi_classification parent | Some c \<Rightarrow> combine c (kpi_classification parent)) \<and>
         observation_provenance v = provenance \<and> observation_version v = AggregateVersion_initial \<and>
         observation_created_at v = observation_updated_at v \<and>
         observation_created_at v = audit_occurred_at (mutation_audit_event outcome) \<and>
         hm_get (observations s) (observation_id v) = None) ResultMismatch) (\<lambda>_.
     Inr (put_observation v s)))"

definition check_observation_update ::
  "entity_id \<Rightarrow> AggregateVersion \<Rightarrow> string \<Rightarrow> UtcTimestamp \<Rightarrow> string \<Rightarrow> DataClassification option
     \<Rightarrow> KpiObservationRecord MutationOutcome \<Rightarrow> portfolio_replay \<Rightarrow> portfolio_replay portfolio_check" where
  "check_observation_update i expected val observed_at source cls outcome s =
     rbind (ok_or VersionLineageMismatch (hm_get (observations s) i)) (\<lambda>previous.
     rbind (ok_or MissingParent (hm_get (kpis s) (observation_kpi_id previous))) (\<lambda>parent.
     let v = mutation_record outcome;
         requested = (case cls of None \<Rightarrow> observation_classification previous | Some c \<Rightarrow> c) in
     rbind (valid_or (observation_version previous = expected \<and>
         AggregateVersion_next expected = Some (observation_version v) \<and>
         observation_id v = i \<and> observation_kpi_id v = observation_kpi_id previous \<and>
         observation_value v = val \<and> observation_observed_at v = observed_at \<and> observation_source v = source \<and>
         observation_provenance v = observation_provenance previous \<and>
         observation_created_at v = observation_created_at previous \<and>
         observation_updated_at v =
           max (audit_occurred_at (mutation_audit_event outcome)) (observation_updated_at previous) \<and>
         combine (observation_classification previous) requested = requested \<and>
         observation_classification v = combine requested (kpi_classification parent)) ClassificationMismatch) (\<lambda>_.
     Inr (s\<lparr>observations := hm_insert i v (observations s)\<rparr>))))"

section \<open>The timeline\<close>

text \<open>
  The match of the timeline over the command and its result: the stores after the command, and the
  audit event, target and code that the rest of the check compares. Everything outside the ten pairs of
  ordinary commands is refused.
\<close>

definition replay_command ::
  "(entity_id \<times> AuditEvent) list \<Rightarrow> PortfolioReplayCapsule \<Rightarrow> portfolio_replay
     \<Rightarrow> (portfolio_replay \<times> AuditEvent \<times> AuditTarget \<times> string) portfolio_check" where
  "replay_command audit_map capsule s =
     (case capsule_command capsule of
        PortfolioCommandIdentity.CreatePortfolio i name details cls provenance \<Rightarrow>
          (case capsule_result capsule of
             PortfolioPersistenceResult.Portfolio outcome \<Rightarrow>
               rbind (check_simple_create PortfolioKind i name details cls provenance (mutation_record outcome) s) (\<lambda>t.
               Inr (t, mutation_audit_event outcome, AuditTarget.Portfolio i, ''portfolio.created''))
           | _ \<Rightarrow> Inl ResultMismatch)
      | PortfolioCommandIdentity.UpdatePortfolio i expected name details cls \<Rightarrow>
          (case capsule_result capsule of
             PortfolioPersistenceResult.Portfolio outcome \<Rightarrow>
               rbind (check_simple_update PortfolioKind i expected name details cls (mutation_record outcome) s) (\<lambda>t.
               Inr (t, mutation_audit_event outcome, AuditTarget.Portfolio i, ''portfolio.updated''))
           | _ \<Rightarrow> Inl ResultMismatch)
      | PortfolioCommandIdentity.CreateProduct i name details cls provenance \<Rightarrow>
          (case capsule_result capsule of
             PortfolioPersistenceResult.Product outcome \<Rightarrow>
               rbind (check_simple_create ProductKind i name details cls provenance (mutation_record outcome) s) (\<lambda>t.
               Inr (t, mutation_audit_event outcome, AuditTarget.Product i, ''product.created''))
           | _ \<Rightarrow> Inl ResultMismatch)
      | PortfolioCommandIdentity.UpdateProduct i expected name details cls \<Rightarrow>
          (case capsule_result capsule of
             PortfolioPersistenceResult.Product outcome \<Rightarrow>
               rbind (check_simple_update ProductKind i expected name details cls (mutation_record outcome) s) (\<lambda>t.
               Inr (t, mutation_audit_event outcome, AuditTarget.Product i, ''product.updated''))
           | _ \<Rightarrow> Inl ResultMismatch)
      | PortfolioCommandIdentity.CreateRoadmap i name details cls provenance \<Rightarrow>
          (case capsule_result capsule of
             PortfolioPersistenceResult.Roadmap outcome \<Rightarrow>
               rbind (check_simple_create RoadmapKind i name details cls provenance (mutation_record outcome) s) (\<lambda>t.
               Inr (t, mutation_audit_event outcome, AuditTarget.Roadmap i, ''roadmap.created''))
           | _ \<Rightarrow> Inl ResultMismatch)
      | PortfolioCommandIdentity.UpdateRoadmap i expected name details cls \<Rightarrow>
          (case capsule_result capsule of
             PortfolioPersistenceResult.Roadmap outcome \<Rightarrow>
               rbind (check_simple_update RoadmapKind i expected name details cls (mutation_record outcome) s) (\<lambda>t.
               Inr (t, mutation_audit_event outcome, AuditTarget.Roadmap i, ''roadmap.updated''))
           | _ \<Rightarrow> Inl ResultMismatch)
      | PortfolioCommandIdentity.CreateKpi i name def owner target cadence source cls provenance \<Rightarrow>
          (case capsule_result capsule of
             PortfolioPersistenceResult.KpiDefinition outcome \<Rightarrow>
               rbind (check_kpi_create i name def owner target cadence source cls provenance
                 (mutation_record outcome) s) (\<lambda>t.
               Inr (t, mutation_audit_event outcome, AuditTarget.Kpi i, ''kpi.definition.created''))
           | _ \<Rightarrow> Inl ResultMismatch)
      | PortfolioCommandIdentity.UpdateKpi i expected name def owner target cadence source cls \<Rightarrow>
          (case capsule_result capsule of
             PortfolioPersistenceResult.KpiDefinition outcome \<Rightarrow>
               rbind (check_kpi_update audit_map capsule i expected name def owner target cadence source cls
                 outcome s) (\<lambda>t.
               Inr (t, mutation_audit_event outcome, AuditTarget.Kpi i, ''kpi.definition.updated''))
           | _ \<Rightarrow> Inl ResultMismatch)
      | PortfolioCommandIdentity.CreateObservation i kpi val observed_at source cls provenance \<Rightarrow>
          (case capsule_result capsule of
             PortfolioPersistenceResult.KpiObservation outcome \<Rightarrow>
               rbind (check_observation_create i kpi val observed_at source cls provenance outcome s) (\<lambda>t.
               Inr (t, mutation_audit_event outcome, AuditTarget.KpiObservation i, ''kpi.observation.created''))
           | _ \<Rightarrow> Inl ResultMismatch)
      | PortfolioCommandIdentity.UpdateObservation i expected val observed_at source cls \<Rightarrow>
          (case capsule_result capsule of
             PortfolioPersistenceResult.KpiObservation outcome \<Rightarrow>
               rbind (check_observation_update i expected val observed_at source cls outcome s) (\<lambda>t.
               Inr (t, mutation_audit_event outcome, AuditTarget.KpiObservation i, ''kpi.observation.updated''))
           | _ \<Rightarrow> Inl ResultMismatch)
      | _ \<Rightarrow> Inl ResultMismatch)"

text \<open>
  The audit identifiers of a command: not claimed before, and the next ones of the audit trail in
  their order.
\<close>

fun claim_audits ::
  "AuditEvent list \<Rightarrow> (entity_id \<times> AuditEvent) list \<Rightarrow> nat \<Rightarrow> entity_id list \<Rightarrow> entity_id list
     \<Rightarrow> entity_id list portfolio_check" where
  "claim_audits audits audit_map position [] claimed = Inr claimed"
| "claim_audits audits audit_map position (i # ids) claimed =
     (if i \<in> set claimed \<or> \<not> (position < length audits \<and> audit_id (audits ! position) = i) \<or>
         hm_get audit_map i = None
      then Inl AuditMismatch
      else claim_audits audits audit_map (Suc position) ids (i # claimed))"

fun is_kpi_update :: "PortfolioCommandIdentity \<Rightarrow> bool" where
  "is_kpi_update (PortfolioCommandIdentity.UpdateKpi _ _ _ _ _ _ _ _ _) = True"
| "is_kpi_update _ = False"

definition replay_capsule ::
  "AuditEvent list \<Rightarrow> (entity_id \<times> AuditEvent) list \<Rightarrow> PortfolioReplayCapsule \<Rightarrow> portfolio_replay
     \<Rightarrow> portfolio_replay portfolio_check" where
  "replay_capsule audits audit_map capsule s =
     rbind (valid_or (capsule_audit_event_ids capsule \<noteq> [] \<and>
         length (capsule_audit_event_ids capsule) = length (capsule_derived_mutations capsule) + 1)
       AuditMismatch) (\<lambda>_.
     rbind (claim_audits audits audit_map (replay_cursor s) (capsule_audit_event_ids capsule) (replay_claimed s))
       (\<lambda>claimed.
     let main_id = hd (capsule_audit_event_ids capsule) in
     rbind (ok_or AuditMismatch (hm_get audit_map main_id)) (\<lambda>persisted.
     rbind (valid_or (is_kpi_update (capsule_command capsule) \<or> capsule_derived_mutations capsule = [])
       ResultMismatch) (\<lambda>_.
     rbind (replay_command audit_map capsule
         (s\<lparr>replay_claimed := claimed,
            replay_cursor := replay_cursor s + length (capsule_audit_event_ids capsule)\<rparr>))
       (\<lambda>(t, audit, target, code).
     rbind (valid_or (audit = persisted \<and> audit_id audit = main_id \<and>
         audit_occurred_at audit = audit_occurred_at persisted \<and>
         audit_of_mutation audit code target (capsule_correlation_id capsule)) AuditMismatch) (\<lambda>_.
     Inr t))))))"

fun replay_capsules ::
  "AuditEvent list \<Rightarrow> (entity_id \<times> AuditEvent) list \<Rightarrow> PortfolioReplayCapsule list \<Rightarrow> portfolio_replay
     \<Rightarrow> portfolio_replay portfolio_check" where
  "replay_capsules audits audit_map [] s = Inr s"
| "replay_capsules audits audit_map (c # cs) s =
     rbind (replay_capsule audits audit_map c s) (replay_capsules audits audit_map cs)"

definition empty_replay :: portfolio_replay where
  "empty_replay = \<lparr>portfolios = [], products = [], roadmaps = [], kpis = [], observations = [],
     replay_claimed = [], replay_cursor = 0\<rparr>"

definition maps_equal :: "('k \<times> 'v) list \<Rightarrow> ('k \<times> 'v) list \<Rightarrow> bool" where
  "maps_equal actual expected \<longleftrightarrow>
     length actual = length expected \<and> list_all (\<lambda>(i, v). hm_get expected i = Some v) actual"

text \<open>\<open>v.operation_ordinal != i as u64\<close> for the commands in ordinal order.\<close>

definition consecutive_from_zero :: "PortfolioReplayCapsule list \<Rightarrow> bool" where
  "consecutive_from_zero cs \<longleftrightarrow> map capsule_operation_ordinal cs = map of_nat [0..<length cs]"

definition validate_portfolio_timeline ::
  "PortfolioReplayCapsule list \<Rightarrow> AuditEvent list \<Rightarrow> portfolio_stores \<Rightarrow> unit portfolio_check" where
  "validate_portfolio_timeline replay audits expected =
     (let audit_map = collect_map audit_id id audits;
          ordered = sort_key capsule_operation_ordinal replay in
      rbind (valid_or (consecutive_from_zero ordered) VersionLineageMismatch) (\<lambda>_.
      rbind (replay_capsules audits audit_map ordered empty_replay) (\<lambda>s.
      rbind (valid_or (length (replay_claimed s) = length audits) OrphanAuditEvent) (\<lambda>_.
      valid_or (maps_equal (portfolios s) (portfolios expected) \<and> maps_equal (products s) (products expected) \<and>
        maps_equal (roadmaps s) (roadmaps expected) \<and> maps_equal (kpis s) (kpis expected) \<and>
        maps_equal (observations s) (observations expected)) VersionLineageMismatch))))"

definition unique_records :: "('r \<Rightarrow> entity_id) \<Rightarrow> 'r list \<Rightarrow> (entity_id \<times> 'r) list portfolio_check" where
  "unique_records key rs =
     (if distinct (map key rs) then Inr (collect_map key id rs) else Inl DuplicateRecord)"

definition PortfolioPersistenceSnapshot_validate ::
  "PortfolioRecord list \<Rightarrow> ProductRecord list \<Rightarrow> RoadmapRecord list \<Rightarrow> KpiDefinitionRecord list
     \<Rightarrow> KpiObservationRecord list \<Rightarrow> PortfolioReplayCapsule list \<Rightarrow> AuditEvent list
     \<Rightarrow> PortfolioPersistenceSnapshot portfolio_check" where
  "PortfolioPersistenceSnapshot_validate ps prods rms ks obs replay audits =
     rbind (unique_records simple_id ps) (\<lambda>portfolio_map.
     rbind (unique_records simple_id prods) (\<lambda>product_map.
     rbind (unique_records simple_id rms) (\<lambda>roadmap_map.
     rbind (unique_records kpi_id ks) (\<lambda>kpi_map.
     rbind (unique_records observation_id obs) (\<lambda>observation_map.
     rbind (valid_or (list_all (\<lambda>v. hm_get kpi_map (observation_kpi_id v) \<noteq> None) obs) MissingParent) (\<lambda>_.
     rbind (valid_or (distinct (map audit_id audits)) DuplicateAuditEvent) (\<lambda>_.
     rbind (valid_or (distinct (map capsule_idempotency_id replay)) DuplicateIdempotency) (\<lambda>_.
     rbind (validate_portfolio_timeline replay audits
       \<lparr>portfolios = portfolio_map, products = product_map, roadmaps = roadmap_map, kpis = kpi_map,
        observations = observation_map\<rparr>) (\<lambda>_.
     Inr \<lparr>snap_portfolios = ps, snap_products = prods, snap_roadmaps = rms, snap_kpi_definitions = ks,
          snap_kpi_observations = obs, snap_replay = replay, snap_audits = audits\<rparr>)))))))))"

text \<open>\<^verbatim>\<open>validate\<close> on the fields of a snapshot.\<close>

definition validate_snapshot :: "PortfolioPersistenceSnapshot \<Rightarrow> PortfolioPersistenceSnapshot portfolio_check" where
  "validate_snapshot snap =
     PortfolioPersistenceSnapshot_validate (snap_portfolios snap) (snap_products snap) (snap_roadmaps snap)
       (snap_kpi_definitions snap) (snap_kpi_observations snap) (snap_replay snap) (snap_audits snap)"

end
