(* ===== verification/Portfolio_Events.thy ===== *)
theory Portfolio_Events
  imports Portfolio_Timeline
begin

text \<open>
  What the methods of the Portfolio service do to its state: \<open>portfolio_undisturbed\<close> is the frame of everything
  that leaves records, outcomes, audit events and the ordinal alone, \<open>portfolio_committed\<close> is the one way in which
  they change, and for every method there is what it did when it succeeded.
\<close>

section \<open>The frame of failures\<close>

definition portfolio_undisturbed :: "'w portfolio_service \<Rightarrow> 'w portfolio_service \<Rightarrow> bool" where
  "portfolio_undisturbed s t \<longleftrightarrow>
     portfolios t = portfolios s \<and> products t = products s \<and> roadmaps t = roadmaps s \<and> kpis t = kpis s \<and>
     observations t = observations s \<and> portfolio_outcomes t = portfolio_outcomes s \<and>
     portfolio_audit_events t = portfolio_audit_events s \<and> next_operation_ordinal t = next_operation_ordinal s"

interpretation portfolio_undisturbed: frame portfolio_undisturbed
  by unfold_locales (simp_all add: portfolio_undisturbed_def)

lemma keeps_portfolio_ports:
  "keeps portfolio_undisturbed (portfolio_read_clock P)"
  "keeps portfolio_undisturbed (portfolio_draw_id source e)"
  "keeps portfolio_undisturbed (check_commit c)"
  by (auto simp: keeps_def portfolio_read_clock_def portfolio_draw_id_def check_commit_def portfolio_undisturbed_def
    split: prod.splits)

lemmas portfolio_undisturbed_rules = portfolio_undisturbed.keeps_ebind portfolio_undisturbed.keeps_pure keeps_portfolio_ports

lemma keeps_prepare_audit: "keeps portfolio_undisturbed (prepare_audit P c target code now)"
  unfolding prepare_audit_def by (intro portfolio_undisturbed_rules)

lemma keeps_fan_out: "keeps portfolio_undisturbed (fan_out P c cls now ids m)"
proof (induction ids arbitrary: m)
  case (Cons i ids)
  show ?case
    unfolding fan_out.simps Let_def
    by (intro portfolio_undisturbed_rules keeps_prepare_audit Cons) (auto split: prod.splits intro: portfolio_undisturbed_rules)
qed (simp add: portfolio_undisturbed_rules)

lemma keeps_fan_out_here: "keeps portfolio_undisturbed (\<lambda>s. fan_out P c cls now (ids s) (m s) s)"
  unfolding keeps_def using keeps_fan_out unfolding keeps_def by blast

lemma errs_take_ordinal:
  "errs_within portfolio_undisturbed (ebind (take_operation_ordinal c) (\<lambda>n s. (Inr (f n s), g n s)))"
  by (auto simp: errs_within_def ebind_def take_operation_ordinal_def portfolio_undisturbed_def split: option.splits)

lemmas errs_rules = portfolio_undisturbed.errs_within_ebind portfolio_undisturbed.errs_within_throw errs_within_keeps [OF portfolio_undisturbed_rules(1)]

lemma errs_commit_record: "errs_within portfolio_undisturbed (commit_record P put result r target c command code now)"
  unfolding commit_record_def Let_def
  by (intro portfolio_undisturbed.errs_within_ebind keeps_prepare_audit keeps_portfolio_ports errs_take_ordinal)

lemma errs_commits:
  "errs_within portfolio_undisturbed (commit_simple k P sr c command code)"
  "errs_within portfolio_undisturbed (commit_observation P obs c command code now)"
  unfolding commit_simple_def commit_observation_def
  by (intro portfolio_undisturbed.errs_within_ebind errs_commit_record keeps_portfolio_ports)+

lemma errs_commit_kpi: "errs_within portfolio_undisturbed (commit_kpi P r c command code)"
  unfolding commit_kpi_def Let_def
  by (intro portfolio_undisturbed.errs_within_ebind keeps_prepare_audit keeps_portfolio_ports keeps_fan_out_here)
    (auto intro!: portfolio_undisturbed.errs_within_ebind keeps_portfolio_ports errs_take_ordinal split: prod.splits)

lemma errs_or_replay:
  assumes "errs_within portfolio_undisturbed m"
  shows "errs_within portfolio_undisturbed (or_replay k command c m)"
  unfolding or_replay_def
  by (intro portfolio_undisturbed.errs_within_ebind portfolio_undisturbed_rules)
    (auto intro: assms errs_within_keeps portfolio_undisturbed_rules split: option.splits)

lemma errs_simple:
  "errs_within portfolio_undisturbed (create_simple k P x)"
  "errs_within portfolio_undisturbed (update_simple_details k P y)"
  unfolding create_simple_def update_simple_details_def Let_def
  by (intro errs_or_replay portfolio_undisturbed.errs_within_ebind portfolio_undisturbed_rules errs_commits)+

lemma errs_kpi:
  "errs_within portfolio_undisturbed (create_kpi_definition P x)"
  "errs_within portfolio_undisturbed (update_kpi_definition_details P y)"
  unfolding create_kpi_definition_def update_kpi_definition_details_def Let_def
  by (intro errs_or_replay portfolio_undisturbed.errs_within_ebind portfolio_undisturbed_rules errs_commit_kpi)+

lemma errs_observation:
  "errs_within portfolio_undisturbed (create_kpi_observation P x)"
  "errs_within portfolio_undisturbed (update_kpi_observation_details P y)"
  unfolding create_kpi_observation_def update_kpi_observation_details_def Let_def
  by (intro errs_or_replay portfolio_undisturbed.errs_within_ebind portfolio_undisturbed_rules errs_commits)+

lemma errs_commit_lowered: "errs_within portfolio_undisturbed (commit_lowered P r proposed c command)"
  by (cases r) (auto intro!: portfolio_undisturbed.errs_within_ebind portfolio_undisturbed_rules errs_commits errs_commit_kpi)

lemma errs_approve: "errs_within portfolio_undisturbed (approve_and_execute_lower k P x)"
  unfolding approve_and_execute_lower_def approve_lower_fresh_def Let_def
  by (intro errs_or_replay portfolio_undisturbed.errs_within_ebind portfolio_undisturbed_rules)
    (auto intro!: portfolio_undisturbed.errs_within_ebind portfolio_undisturbed_rules errs_commit_lowered split: prod.splits)

lemma keeps_prepare_lower: "keeps portfolio_undisturbed (prepare_lower k P x)"
proof -
  have stored: "keeps portfolio_undisturbed (\<lambda>s. (Inr a, s\<lparr>prepared_lowerings := f s, prepared_lowering_requests := g s\<rparr>))"
    for a f g by (simp add: keeps_def portfolio_undisturbed_def)
  have "keeps portfolio_undisturbed (portfolio_prepare_lower_fresh k P x)"
    unfolding portfolio_prepare_lower_fresh_def Let_def by (intro portfolio_undisturbed_rules stored)
  then show ?thesis
    unfolding prepare_lower_def Let_def
    by (intro portfolio_undisturbed_rules) (auto intro: portfolio_undisturbed_rules split: option.splits prod.splits)
qed

section \<open>Audit events of mutations\<close>

definition portfolio_mutation_audit :: "AuditEvent \<Rightarrow> UtcTimestamp \<Rightarrow> string \<Rightarrow> AuditTarget \<Rightarrow> OperationContext \<Rightarrow> bool" where
  "portfolio_mutation_audit a now code target c \<longleftrightarrow>
     audit_occurred_at a = now \<and> audit_of_mutation a code target (context_correlation_id c)"

lemma successful_disposition_eq:
  "successful_disposition =
     \<lparr>policy_outcome = AuditPolicyOutcome.NotRequired, approval_outcome = AuditApprovalOutcome.NotRequired,
      execution_outcome = AuditExecutionOutcome.Succeeded, effect_scope = AuditEffectScope.Complete,
      actual_effects = [''portfolio-record-mutated'']\<rparr>"
  by code_simp

lemma prepare_audit_ok:
  "prepare_audit P c target code now s = (Inr a, t) \<Longrightarrow>
     portfolio_mutation_audit a now (parse_audit_code code) target c \<and> (\<exists>w. t = s\<lparr>portfolio_world := w\<rparr>)"
  by (auto simp: prepare_audit_def ebind_ok portfolio_draw_id_def portfolio_mutation_audit_def audit_of_mutation_def
    AuditEvent_new_def successful_disposition_eq split: prod.splits)

lemma parse_audit_code_eq: "AuditEventCode_parse code = Inr code \<Longrightarrow> parse_audit_code code = code"
  by (simp add: parse_audit_code_def)

lemma parse_simple_codes [simp]:
  "parse_audit_code (simple_key k @ ''.created'') = simple_key k @ ''.created''"
  "parse_audit_code (simple_key k @ ''.updated'') = simple_key k @ ''.updated''"
  by (cases k; simp only: simple_key.simps append.simps; rule parse_audit_code_eq; code_simp)+

lemma parse_kpi_codes [simp]:
  "parse_audit_code ''kpi.definition.created'' = ''kpi.definition.created''"
  "parse_audit_code ''kpi.definition.updated'' = ''kpi.definition.updated''"
  "parse_audit_code ''kpi.observation.created'' = ''kpi.observation.created''"
  "parse_audit_code ''kpi.observation.updated'' = ''kpi.observation.updated''"
  "parse_audit_code ''kpi.observation.classification.inherited'' = ''kpi.observation.classification.inherited''"
  by (rule parse_audit_code_eq, code_simp)+

section \<open>Commits\<close>

text \<open>
  \<open>portfolio_committed put\<close>: the stores changed by \<open>put\<close>, the audit events were appended, the outcome was stored
  under the key of the context with the current ordinal, and the ordinal moved on.
\<close>

definition portfolio_committed ::
  "('w portfolio_service \<Rightarrow> 'w portfolio_service) \<Rightarrow> OperationContext \<Rightarrow> PortfolioCommandIdentity
     \<Rightarrow> PortfolioStoredResult \<Rightarrow> DerivedKpiObservationMutation list \<Rightarrow> AuditEvent list
     \<Rightarrow> 'w portfolio_service \<Rightarrow> 'w portfolio_service \<Rightarrow> bool" where
  "portfolio_committed put c command out mutations audits s t \<longleftrightarrow>
     (\<exists>w n. checked_add_u64 (next_operation_ordinal s) 1 = Some n \<and>
       t = remember c \<lparr>stored_command = command, stored_outcome_result = out,
          stored_correlation_id = context_correlation_id c, stored_audit_event_ids = map audit_id audits,
          stored_operation_ordinal = next_operation_ordinal s, stored_derived_mutations = mutations\<rparr> audits
         (put (s\<lparr>portfolio_world := w, next_operation_ordinal := n\<rparr>)))"

lemma committed_world:
  "portfolio_committed put c command out ms as (s\<lparr>portfolio_world := w\<rparr>) t \<longleftrightarrow> portfolio_committed put c command out ms as s t"
  by (simp add: portfolio_committed_def)

lemma check_commit_ok: "check_commit c s = (Inr u, t) \<longleftrightarrow> \<not> fail_next_portfolio_commit s \<and> t = s"
  by (auto simp: check_commit_def)

lemma read_clock_ok: "portfolio_read_clock P s = (Inr now, t) \<Longrightarrow> \<exists>w. t = s\<lparr>portfolio_world := w\<rparr>"
  by (auto simp: portfolio_read_clock_def split: prod.splits)

lemma take_ordinal_ok:
  "take_operation_ordinal c s = (Inr n, t) \<longleftrightarrow>
     n = next_operation_ordinal s \<and>
     (\<exists>m. checked_add_u64 (next_operation_ordinal s) 1 = Some m \<and> t = s\<lparr>next_operation_ordinal := m\<rparr>)"
  by (auto simp: take_operation_ordinal_def split: option.splits)

lemma commit_record_ok:
  assumes "commit_record P put result r target c command code now s = (Inr out, t)"
  obtains a where "portfolio_mutation_audit a now (parse_audit_code code) target c"
    and "out = result \<lparr>mutation_record = r, mutation_audit_event = a\<rparr>"
    and "portfolio_committed put c command out [] [a] s t"
proof -
  from assms obtain a s1 n s2 where a: "prepare_audit P c target code now s = (Inr a, s1)"
    and n: "take_operation_ordinal c s1 = (Inr n, s2)"
    and out: "out = result \<lparr>mutation_record = r, mutation_audit_event = a\<rparr>"
    and t: "t = remember c \<lparr>stored_command = command, stored_outcome_result = out,
          stored_correlation_id = context_correlation_id c, stored_audit_event_ids = [audit_id a],
          stored_operation_ordinal = n, stored_derived_mutations = []\<rparr> [a] (put s2)"
    by (auto simp: commit_record_def ebind_ok check_commit_ok Let_def)
  from prepare_audit_ok [OF a] obtain w where m: "portfolio_mutation_audit a now (parse_audit_code code) target c"
    and s1: "s1 = s\<lparr>portfolio_world := w\<rparr>" by blast
  from n t s1 have "portfolio_committed put c command out [] [a] s t"
    by (auto simp: portfolio_committed_def take_ordinal_ok)
  with m out show thesis by (rule that)
qed

lemma commit_simple_ok:
  assumes "commit_simple k P r c command code s = (Inr out, t)"
  obtains a now where "portfolio_mutation_audit a now (parse_audit_code code) (simple_target k (simple_id r)) c"
    and "out = simple_result k \<lparr>mutation_record = r, mutation_audit_event = a\<rparr>"
    and "portfolio_committed (put_simple k r) c command out [] [a] s t"
proof -
  from assms obtain now s1 where "portfolio_read_clock P s = (Inr now, s1)"
    and run: "commit_record P (put_simple k r) (simple_result k) r (simple_target k (simple_id r)) c command code now s1
      = (Inr out, t)"
    by (auto simp: commit_simple_def ebind_ok)
  then obtain w where "s1 = s\<lparr>portfolio_world := w\<rparr>" using read_clock_ok by blast
  with run that show thesis by (auto simp: committed_world elim!: commit_record_ok)
qed

lemma commit_observation_ok:
  assumes "commit_observation P r c command code now s = (Inr out, t)"
  obtains a where "portfolio_mutation_audit a now (parse_audit_code code) (AuditTarget.KpiObservation (observation_id r)) c"
    and "out = PortfolioStoredResult.Observation \<lparr>mutation_record = r, mutation_audit_event = a\<rparr>"
    and "portfolio_committed (put_observation r) c command out [] [a] s t"
  using assms that unfolding commit_observation_def by (rule commit_record_ok)

text \<open>
  \<open>fanned_out\<close> is the history the loop leaves: each affected observation is raised in turn, with an
  audit event and a mutation that agree with it.
\<close>

fun fanned_out ::
  "OperationContext \<Rightarrow> DataClassification \<Rightarrow> UtcTimestamp \<Rightarrow> entity_id list \<Rightarrow> (entity_id \<times> KpiObservationRecord) list
     \<Rightarrow> (entity_id \<times> KpiObservationRecord) list \<Rightarrow> AuditEvent list \<Rightarrow> DerivedKpiObservationMutation list \<Rightarrow> bool" where
  "fanned_out c cls now [] m m' as ms \<longleftrightarrow> m' = m \<and> as = [] \<and> ms = []"
| "fanned_out c cls now (i # ids) m m' as ms \<longleftrightarrow>
     (\<exists>v version a as' ms'. hm_get m i = Some v \<and> AggregateVersion_next (observation_version v) = Some version \<and>
        as = a # as' \<and>
        ms = \<lparr>derived_observation_id = i, derived_previous_version = observation_version v,
           derived_resulting_version = version, derived_previous_classification = observation_classification v,
           derived_resulting_classification = combine cls (observation_classification v),
           derived_previous_updated_at = observation_updated_at v,
           derived_resulting_updated_at = max now (observation_updated_at v),
           derived_audit_event_id = audit_id a\<rparr> # ms' \<and>
        portfolio_mutation_audit a now ''kpi.observation.classification.inherited'' (AuditTarget.KpiObservation i) c \<and>
        fanned_out c cls now ids (hm_insert i (v\<lparr>observation_version := version,
             observation_classification := combine cls (observation_classification v),
             observation_updated_at := max now (observation_updated_at v)\<rparr>) m) m' as' ms')"

lemma fan_out_ok:
  "fan_out P c cls now ids m s = (Inr (m', as, ms), t) \<Longrightarrow>
     fanned_out c cls now ids m m' as ms \<and> (\<exists>w. t = s\<lparr>portfolio_world := w\<rparr>)"
proof (induction ids arbitrary: m m' as ms s t)
  case Nil
  then show ?case by (auto intro: exI [of _ "portfolio_world s"])
next
  case (Cons i ids)
  from Cons.prems obtain v version a s1 as' ms' where v: "hm_get m i = Some v"
    and version: "AggregateVersion_next (observation_version v) = Some version"
    and a: "prepare_audit P c (AuditTarget.KpiObservation i) ''kpi.observation.classification.inherited'' now s = (Inr a, s1)"
    and rest: "fan_out P c cls now ids (hm_insert i (v\<lparr>observation_version := version,
             observation_classification := combine cls (observation_classification v),
             observation_updated_at := max now (observation_updated_at v)\<rparr>) m) s1 = (Inr (m', as', ms'), t)"
    and as: "as = a # as'"
    and ms: "ms = \<lparr>derived_observation_id = i, derived_previous_version = observation_version v,
           derived_resulting_version = version, derived_previous_classification = observation_classification v,
           derived_resulting_classification = combine cls (observation_classification v),
           derived_previous_updated_at = observation_updated_at v,
           derived_resulting_updated_at = max now (observation_updated_at v),
           derived_audit_event_id = audit_id a\<rparr> # ms'"
    by (auto simp: ebind_ok Let_def next_version_def split: prod.splits)
  from prepare_audit_ok [OF a] Cons.IH [OF rest] v version as ms show ?case
    by (auto simp: next_version_def)
qed

lemma commit_kpi_ok:
  assumes "commit_kpi P r c command code s = (Inr out, t)"
  obtains a now m as ms where "portfolio_mutation_audit a now (parse_audit_code code) (AuditTarget.Kpi (kpi_id r)) c"
    and "out = PortfolioStoredResult.Kpi \<lparr>mutation_record = r, mutation_audit_event = a\<rparr>"
    and "fanned_out c (kpi_classification r) now
      (affected_ids (kpi_id r) (kpi_classification r) (observations s)) (observations s) m as ms"
    and "portfolio_committed (\<lambda>u. (put_kpi r u)\<lparr>observations := m\<rparr>) c command out ms (a # as) s t"
proof -
  from assms obtain now s1 a s2 m as ms s3 n s4 where "portfolio_read_clock P s = (Inr now, s1)"
    and a: "prepare_audit P c (AuditTarget.Kpi (kpi_id r)) code now s1 = (Inr a, s2)"
    and f: "fan_out P c (kpi_classification r) now
      (affected_ids (kpi_id r) (kpi_classification r) (observations s2)) (observations s2) s2 = (Inr (m, as, ms), s3)"
    and n: "take_operation_ordinal c s3 = (Inr n, s4)"
    and out: "out = PortfolioStoredResult.Kpi \<lparr>mutation_record = r, mutation_audit_event = a\<rparr>"
    and t: "t = remember c \<lparr>stored_command = command, stored_outcome_result = out,
          stored_correlation_id = context_correlation_id c, stored_audit_event_ids = audit_id a # map audit_id as,
          stored_operation_ordinal = n, stored_derived_mutations = ms\<rparr> (a # as) ((put_kpi r s4)\<lparr>observations := m\<rparr>)"
    by (auto simp: commit_kpi_def ebind_ok check_commit_ok Let_def split: prod.splits)
  then obtain w where s1: "s1 = s\<lparr>portfolio_world := w\<rparr>" using read_clock_ok by blast
  from prepare_audit_ok [OF a] s1 obtain w2
    where m: "portfolio_mutation_audit a now (parse_audit_code code) (AuditTarget.Kpi (kpi_id r)) c"
      and s2: "s2 = s\<lparr>portfolio_world := w2\<rparr>" by auto
  from fan_out_ok [OF f] s2 obtain w3 where fanned: "fanned_out c (kpi_classification r) now
      (affected_ids (kpi_id r) (kpi_classification r) (observations s)) (observations s) m as ms"
    and s3: "s3 = s\<lparr>portfolio_world := w3\<rparr>" by auto
  from n t s3 have "portfolio_committed (\<lambda>u. (put_kpi r u)\<lparr>observations := m\<rparr>) c command out ms (a # as) s t"
    by (auto simp: portfolio_committed_def take_ordinal_ok)
  from m out fanned this show thesis by (rule that)
qed

section \<open>What each command did\<close>

text \<open>A command whose key is remembered is answered from memory; otherwise the method runs.\<close>

definition replayed ::
  "OperationContext \<Rightarrow> PortfolioCommandIdentity \<Rightarrow> PortfolioStoredResult \<Rightarrow> 'w portfolio_service \<Rightarrow> bool" where
  "replayed c command out s \<longleftrightarrow>
     (\<exists>o'. hm_get (portfolio_outcomes s) (context_idempotency_id c) = Some o' \<and>
        stored_command o' = command \<and> stored_outcome_result o' = out)"

lemma or_replay_ok:
  "or_replay k command c m s = (Inr out, t) \<longleftrightarrow>
     (t = s \<and> replayed c command out s \<and> result_of_kind k out) \<or>
     (hm_get (portfolio_outcomes s) (context_idempotency_id c) = None \<and> m s = (Inr out, t))"
  unfolding or_replay_def replay_outcome_def replayed_def
  by (cases "hm_get (portfolio_outcomes s) (context_idempotency_id c)") (auto simp: ebind_run ret_def)

definition fresh_key :: "OperationContext \<Rightarrow> 'w portfolio_service \<Rightarrow> bool" where
  "fresh_key c s \<longleftrightarrow> hm_get (portfolio_outcomes s) (context_idempotency_id c) = None"

lemma requested_ok:
  "requested_classification current requested c = Inr v \<longleftrightarrow>
     (requested = None \<and> v = current) \<or> (requested = Some v \<and> current \<le> v)"
  by (cases requested)
    (auto simp: requested_classification_def ensure_classification_not_lowered_def combine_eq_max max_def)

lemma create_simple_ok:
  assumes "create_simple k P x s = (Inr out, t)"
  obtains (Replayed) "t = s" "replayed (new_simple_context x) (simple_create_identity k x) out s"
  | (Fresh) a now where "fresh_key (new_simple_context x) s"
      "hm_get (simple_store k s) (new_simple_id x) = None"
      "portfolio_mutation_audit a now (simple_key k @ ''.created'') (simple_target k (new_simple_id x)) (new_simple_context x)"
      "out = simple_result k \<lparr>mutation_record = new_simple x, mutation_audit_event = a\<rparr>"
      "portfolio_committed (put_simple k (new_simple x)) (new_simple_context x) (simple_create_identity k x) out [] [a] s t"
  using assms unfolding create_simple_def Let_def or_replay_ok
proof (elim disjE conjE)
  assume key: "hm_get (portfolio_outcomes s) (context_idempotency_id (new_simple_context x)) = None"
    and run: "ebind (reads (\<lambda>s. ensure_absent (hm_get (simple_store k s) (new_simple_id x) \<noteq> None)
          (simple_key k @ ''.already_exists'') (new_simple_context x))) (\<lambda>_.
        commit_simple k P (new_simple x) (new_simple_context x) (simple_create_identity k x) (simple_key k @ ''.created'')) s = (Inr out, t)"
  from run have absent: "hm_get (simple_store k s) (new_simple_id x) = None"
    and commit: "commit_simple k P (new_simple x) (new_simple_context x) (simple_create_identity k x)
      (simple_key k @ ''.created'') s = (Inr out, t)"
    by (auto simp: ebind_ok ensure_absent_def split: if_splits)
  from commit show thesis
    by (rule commit_simple_ok) (rule Fresh, use key absent in \<open>simp_all add: fresh_key_def new_simple_def\<close>)
qed (rule Replayed)

lemma update_simple_ok:
  assumes "update_simple_details k P x s = (Inr out, t)"
  obtains (Replayed) "t = s" "replayed (upd_simple_context x) (simple_update_identity k x) out s"
  | (Fresh) r version cls a now where "fresh_key (upd_simple_context x) s"
      "hm_get (simple_store k s) (upd_simple_id x) = Some r" "simple_version r = upd_simple_expected_version x"
      "AggregateVersion_next (simple_version r) = Some version"
      "(upd_simple_classification x = None \<and> cls = simple_classification r) \<or>
       (upd_simple_classification x = Some cls \<and> simple_classification r \<le> cls)"
      "portfolio_mutation_audit a now (simple_key k @ ''.updated'') (simple_target k (simple_id r)) (upd_simple_context x)"
      "out = simple_result k \<lparr>mutation_record = updated_simple x version cls r, mutation_audit_event = a\<rparr>"
      "portfolio_committed (put_simple k (updated_simple x version cls r)) (upd_simple_context x)
         (simple_update_identity k x) out [] [a] s t"
proof -
  have id: "simple_id (updated_simple x version cls r) = simple_id r" for version cls r
    by (simp add: updated_simple_def)
  from assms have "(t = s \<and> replayed (upd_simple_context x) (simple_update_identity k x) out s) \<or>
    (fresh_key (upd_simple_context x) s \<and> (\<exists>r version cls. hm_get (simple_store k s) (upd_simple_id x) = Some r \<and>
      simple_version r = upd_simple_expected_version x \<and> AggregateVersion_next (simple_version r) = Some version \<and>
      requested_classification (simple_classification r) (upd_simple_classification x) (upd_simple_context x) = Inr cls \<and>
      commit_simple k P (updated_simple x version cls r) (upd_simple_context x) (simple_update_identity k x)
        (simple_key k @ ''.updated'') s = (Inr out, t)))"
    unfolding update_simple_details_def Let_def or_replay_ok
    by (auto simp: ebind_ok ensure_version_def next_version_def fresh_key_def split: if_splits)
  then show thesis
    by (auto intro: Replayed simp: requested_ok id elim!: commit_simple_ok)
      (rule Fresh; (assumption | simp add: id))+
qed

text \<open>What a commit of a KPI definition did: its fan-out and its write.\<close>

definition kpi_committed ::
  "OperationContext \<Rightarrow> PortfolioCommandIdentity \<Rightarrow> string \<Rightarrow> KpiDefinitionRecord \<Rightarrow> PortfolioStoredResult
     \<Rightarrow> 'w portfolio_service \<Rightarrow> 'w portfolio_service \<Rightarrow> bool" where
  "kpi_committed c command code r out s t \<longleftrightarrow>
     (\<exists>a now m as ms. portfolio_mutation_audit a now code (AuditTarget.Kpi (kpi_id r)) c \<and>
        out = PortfolioStoredResult.Kpi \<lparr>mutation_record = r, mutation_audit_event = a\<rparr> \<and>
        fanned_out c (kpi_classification r) now
          (affected_ids (kpi_id r) (kpi_classification r) (observations s)) (observations s) m as ms \<and>
        portfolio_committed (\<lambda>u. (put_kpi r u)\<lparr>observations := m\<rparr>) c command out ms (a # as) s t)"

lemma commit_kpi_committed:
  "commit_kpi P r c command code s = (Inr out, t) \<Longrightarrow> kpi_committed c command (parse_audit_code code) r out s t"
  unfolding kpi_committed_def by (erule commit_kpi_ok) blast

lemma create_kpi_ok:
  assumes "create_kpi_definition P x s = (Inr out, t)"
  obtains (Replayed) "t = s" "replayed (new_kpi_context x) (kpi_create_identity x) out s"
  | (Fresh) "fresh_key (new_kpi_context x) s" "hm_get (kpis s) (new_kpi_id x) = None"
      "kpi_committed (new_kpi_context x) (kpi_create_identity x) ''kpi.definition.created'' (new_kpi x) out s t"
proof -
  from assms have "(t = s \<and> replayed (new_kpi_context x) (kpi_create_identity x) out s) \<or>
    (fresh_key (new_kpi_context x) s \<and> hm_get (kpis s) (new_kpi_id x) = None \<and>
     commit_kpi P (new_kpi x) (new_kpi_context x) (kpi_create_identity x) ''kpi.definition.created'' s = (Inr out, t))"
    unfolding create_kpi_definition_def Let_def or_replay_ok
    by (auto simp: ebind_ok ensure_absent_def fresh_key_def split: if_splits)
  then show thesis by (auto intro: Replayed Fresh dest!: commit_kpi_committed)
qed

lemma update_kpi_ok:
  assumes "update_kpi_definition_details P x s = (Inr out, t)"
  obtains (Replayed) "t = s" "replayed (upd_kpi_context x) (kpi_update_identity x) out s"
  | (Fresh) r version cls where "fresh_key (upd_kpi_context x) s"
      "hm_get (kpis s) (upd_kpi_id x) = Some r" "kpi_version r = upd_kpi_expected_version x"
      "AggregateVersion_next (kpi_version r) = Some version"
      "(upd_kpi_classification x = None \<and> cls = kpi_classification r) \<or>
       (upd_kpi_classification x = Some cls \<and> kpi_classification r \<le> cls)"
      "kpi_committed (upd_kpi_context x) (kpi_update_identity x) ''kpi.definition.updated''
         (updated_kpi x version cls r) out s t"
proof -
  from assms have "(t = s \<and> replayed (upd_kpi_context x) (kpi_update_identity x) out s) \<or>
    (fresh_key (upd_kpi_context x) s \<and> (\<exists>r version cls. hm_get (kpis s) (upd_kpi_id x) = Some r \<and>
      kpi_version r = upd_kpi_expected_version x \<and> AggregateVersion_next (kpi_version r) = Some version \<and>
      requested_classification (kpi_classification r) (upd_kpi_classification x) (upd_kpi_context x) = Inr cls \<and>
      commit_kpi P (updated_kpi x version cls r) (upd_kpi_context x) (kpi_update_identity x)
        ''kpi.definition.updated'' s = (Inr out, t)))"
    unfolding update_kpi_definition_details_def Let_def or_replay_ok
    by (auto simp: ebind_ok ensure_version_def next_version_def fresh_key_def split: if_splits)
  then show thesis
    by (auto intro: Replayed Fresh simp: requested_ok dest!: commit_kpi_committed)
qed

text \<open>What a commit of an observation did.\<close>

definition observation_committed ::
  "OperationContext \<Rightarrow> PortfolioCommandIdentity \<Rightarrow> string \<Rightarrow> KpiObservationRecord \<Rightarrow> UtcTimestamp
     \<Rightarrow> PortfolioStoredResult \<Rightarrow> 'w portfolio_service \<Rightarrow> 'w portfolio_service \<Rightarrow> bool" where
  "observation_committed c command code r now out s t \<longleftrightarrow>
     (\<exists>a. portfolio_mutation_audit a now code (AuditTarget.KpiObservation (observation_id r)) c \<and>
        out = PortfolioStoredResult.Observation \<lparr>mutation_record = r, mutation_audit_event = a\<rparr> \<and>
        portfolio_committed (put_observation r) c command out [] [a] s t)"

lemma commit_observation_committed:
  assumes "commit_observation P r c command code now (s\<lparr>portfolio_world := w\<rparr>) = (Inr out, t)"
  shows "observation_committed c command (parse_audit_code code) r now out s t"
  using commit_observation_ok [OF assms] unfolding observation_committed_def committed_world by metis

lemma create_observation_ok:
  assumes "create_kpi_observation P x s = (Inr out, t)"
  obtains (Replayed) "t = s" "replayed (new_observation_context x) (observation_create_identity x) out s"
  | (Fresh) kpi now where "fresh_key (new_observation_context x) s"
      "hm_get (observations s) (new_observation_id x) = None"
      "hm_get (kpis s) (new_observation_kpi_id x) = Some kpi"
      "observation_committed (new_observation_context x) (observation_create_identity x) ''kpi.observation.created''
         (new_observation x (kpi_classification kpi) now) now out s t"
proof -
  from assms have "(t = s \<and> replayed (new_observation_context x) (observation_create_identity x) out s) \<or>
    (fresh_key (new_observation_context x) s \<and> hm_get (observations s) (new_observation_id x) = None \<and>
     (\<exists>kpi now s1. hm_get (kpis s) (new_observation_kpi_id x) = Some kpi \<and>
       portfolio_read_clock P s = (Inr now, s1) \<and>
       commit_observation P (new_observation x (kpi_classification kpi) now) (new_observation_context x)
         (observation_create_identity x) ''kpi.observation.created'' now s1 = (Inr out, t)))"
    unfolding create_kpi_observation_def Let_def or_replay_ok
    by (auto simp: ebind_ok ensure_absent_def fresh_key_def definition_classification_def split: if_splits)
  then show thesis
    by (elim disjE conjE exE) (auto intro: Replayed Fresh dest!: read_clock_ok commit_observation_committed)
qed

lemma update_observation_ok:
  assumes "update_kpi_observation_details P x s = (Inr out, t)"
  obtains (Replayed) "t = s" "replayed (upd_observation_context x) (observation_update_identity x) out s"
  | (Fresh) r version now cls kpi where "fresh_key (upd_observation_context x) s"
      "hm_get (observations s) (upd_observation_id x) = Some r"
      "observation_version r = upd_observation_expected_version x"
      "AggregateVersion_next (observation_version r) = Some version"
      "(upd_observation_classification x = None \<and> cls = observation_classification r) \<or>
       (upd_observation_classification x = Some cls \<and> observation_classification r \<le> cls)"
      "hm_get (kpis s) (observation_kpi_id r) = Some kpi"
      "observation_committed (upd_observation_context x) (observation_update_identity x) ''kpi.observation.updated''
         (updated_observation x version now cls (kpi_classification kpi) r) now out s t"
proof -
  from assms have "(t = s \<and> replayed (upd_observation_context x) (observation_update_identity x) out s) \<or>
    (fresh_key (upd_observation_context x) s \<and>
     (\<exists>r version now s1 cls kpi. hm_get (observations s) (upd_observation_id x) = Some r \<and>
       observation_version r = upd_observation_expected_version x \<and>
       AggregateVersion_next (observation_version r) = Some version \<and>
       portfolio_read_clock P s = (Inr now, s1) \<and>
       requested_classification (observation_classification r) (upd_observation_classification x)
         (upd_observation_context x) = Inr cls \<and>
       hm_get (kpis s1) (observation_kpi_id r) = Some kpi \<and>
       commit_observation P (updated_observation x version now cls (kpi_classification kpi) r)
         (upd_observation_context x) (observation_update_identity x) ''kpi.observation.updated'' now s1 = (Inr out, t)))"
    unfolding update_kpi_observation_details_def Let_def or_replay_ok
    by (auto simp: ebind_ok ensure_version_def next_version_def fresh_key_def definition_classification_def split: if_splits)
  then show thesis
  proof (elim disjE conjE exE)
    fix r version now s1 cls kpi
    assume "portfolio_read_clock P s = (Inr now, s1)"
    then obtain w where "s1 = s\<lparr>portfolio_world := w\<rparr>" using read_clock_ok by blast
    moreover assume "hm_get (observations s) (upd_observation_id x) = Some r" "fresh_key (upd_observation_context x) s"
      "observation_version r = upd_observation_expected_version x"
      "AggregateVersion_next (observation_version r) = Some version"
      "requested_classification (observation_classification r) (upd_observation_classification x)
         (upd_observation_context x) = Inr cls"
      "hm_get (kpis s1) (observation_kpi_id r) = Some kpi"
      "commit_observation P (updated_observation x version now cls (kpi_classification kpi) r)
         (upd_observation_context x) (observation_update_identity x) ''kpi.observation.updated'' now s1 = (Inr out, t)"
    ultimately show thesis
      by (auto intro!: Fresh simp: requested_ok dest!: commit_observation_committed)
  qed (rule Replayed)
qed

end
