(* ===== verification/Portfolio_History.thy ===== *)
theory Portfolio_History
  imports Portfolio_Events Store_Maps
begin

text \<open>
  The Portfolio service as a machine: its commands, the invariant of its state, and its history: in a
  run of ordinary commands the remembered outcomes, replayed by the timeline check against the audit
  trail, rebuild exactly the records of the service.
\<close>

section \<open>Writes\<close>

text \<open>The three ways in which a commit changes the records.\<close>

datatype portfolio_write =
  WriteSimple simple_kind SimpleRecord
| WriteKpi KpiDefinitionRecord "(entity_id \<times> KpiObservationRecord) list"
| WriteObservation KpiObservationRecord

fun apply_write :: "portfolio_write \<Rightarrow> 'a portfolio_stores_scheme \<Rightarrow> 'a portfolio_stores_scheme" where
  "apply_write (WriteSimple k r) s = put_simple k r s"
| "apply_write (WriteKpi r m) s = (put_kpi r s)\<lparr>observations := m\<rparr>"
| "apply_write (WriteObservation r) s = put_observation r s"

definition same_stores :: "'a portfolio_stores_scheme \<Rightarrow> 'b portfolio_stores_scheme \<Rightarrow> bool" where
  "same_stores a b \<longleftrightarrow> portfolios a = portfolios b \<and> products a = products b \<and> roadmaps a = roadmaps b \<and>
     kpis a = kpis b \<and> observations a = observations b"

lemma same_stores_refl [simp]: "same_stores a a"
  by (simp add: same_stores_def)

lemma same_stores_trans: "same_stores a b \<Longrightarrow> same_stores b c \<Longrightarrow> same_stores a c"
  by (simp add: same_stores_def)

lemma same_stores_simple: "same_stores a b \<Longrightarrow> simple_store k a = simple_store k b"
  by (cases k) (simp_all add: same_stores_def simple_store_def)

lemma same_stores_apply: "same_stores a b \<Longrightarrow> same_stores (apply_write w a) (apply_write w b)"
  by (cases w; auto simp: same_stores_def put_simple_def put_simple_at_def put_kpi_def put_observation_def
    split: simple_kind.splits)

lemma apply_write_service [simp]:
  "portfolio_outcomes (apply_write w s) = portfolio_outcomes s"
  "portfolio_audit_events (apply_write w s) = portfolio_audit_events s"
  "next_operation_ordinal (apply_write w s) = next_operation_ordinal s"
  by (cases w; auto simp: put_simple_def put_simple_at_def put_kpi_def put_observation_def
    split: simple_kind.splits)+

lemma apply_write_replay [simp]:
  "replay_claimed (apply_write w r) = replay_claimed r"
  "replay_cursor (apply_write w r) = replay_cursor r"
  by (cases w; auto simp: put_simple_def put_simple_at_def put_kpi_def put_observation_def
    split: simple_kind.splits)+

abbreviation wrote ::
  "portfolio_write \<Rightarrow> OperationContext \<Rightarrow> PortfolioCommandIdentity \<Rightarrow> PortfolioStoredResult
     \<Rightarrow> DerivedKpiObservationMutation list \<Rightarrow> AuditEvent list \<Rightarrow> 'w portfolio_service \<Rightarrow> 'w portfolio_service \<Rightarrow> bool"
  where "wrote w \<equiv> portfolio_committed (apply_write w)"

lemma wrote_eqs:
  "portfolio_committed (put_simple k sr) = wrote (WriteSimple k sr)"
  "portfolio_committed (\<lambda>u. (put_kpi kr u)\<lparr>observations := m\<rparr>) = wrote (WriteKpi kr m)"
  "portfolio_committed (put_observation obs) = wrote (WriteObservation obs)"
  by (simp_all add: fun_eq_iff portfolio_committed_def)

definition outcome_of ::
  "OperationContext \<Rightarrow> PortfolioCommandIdentity \<Rightarrow> PortfolioStoredResult \<Rightarrow> DerivedKpiObservationMutation list
     \<Rightarrow> AuditEvent list \<Rightarrow> 64 word \<Rightarrow> PortfolioStoredOutcome" where
  "outcome_of c command out mutations audits n =
     \<lparr>stored_command = command, stored_outcome_result = out,
      stored_correlation_id = context_correlation_id c, stored_audit_event_ids = map audit_id audits,
      stored_operation_ordinal = n, stored_derived_mutations = mutations\<rparr>"

lemma wrote_state:
  assumes "wrote w c command out ms as s t"
  shows "same_stores t (apply_write w s)"
    and "portfolio_audit_events t = portfolio_audit_events s @ as"
    and "portfolio_outcomes t = hm_insert (context_idempotency_id c)
      (outcome_of c command out ms as (next_operation_ordinal s)) (portfolio_outcomes s)"
    and "checked_add_u64 (next_operation_ordinal s) 1 = Some (next_operation_ordinal t)"
  using assms same_stores_apply [of "s\<lparr>portfolio_world := x, next_operation_ordinal := n\<rparr>" s w for x n]
  by (auto simp: portfolio_committed_def remember_def outcome_of_def same_stores_def)

section \<open>The invariant\<close>

definition keyed :: "('r \<Rightarrow> entity_id) \<Rightarrow> (entity_id \<times> 'r) list \<Rightarrow> bool" where
  "keyed key m \<longleftrightarrow> hm_wf m \<and> (\<forall>i v. hm_get m i = Some v \<longrightarrow> key v = i)"

definition stores_keyed :: "'a portfolio_stores_scheme \<Rightarrow> bool" where
  "stores_keyed s \<longleftrightarrow> keyed simple_id (portfolios s) \<and> keyed simple_id (products s) \<and>
     keyed simple_id (roadmaps s) \<and> keyed kpi_id (kpis s) \<and> keyed observation_id (observations s)"

definition parents_exist :: "'a portfolio_stores_scheme \<Rightarrow> bool" where
  "parents_exist s \<longleftrightarrow>
     (\<forall>i v. hm_get (observations s) i = Some v \<longrightarrow> hm_get (kpis s) (observation_kpi_id v) \<noteq> None)"

definition numbered :: "'w portfolio_service \<Rightarrow> bool" where
  "numbered s \<longleftrightarrow> hm_wf (portfolio_outcomes s) \<and>
     unat (next_operation_ordinal s) = length (portfolio_outcomes s) \<and>
     map (\<lambda>e. stored_operation_ordinal (snd e)) (portfolio_outcomes s) =
       map of_nat [0..<length (portfolio_outcomes s)]"

definition portfolio_inv :: "'w portfolio_service \<Rightarrow> bool" where
  "portfolio_inv s \<longleftrightarrow> stores_keyed s \<and> parents_exist s \<and> numbered s"

lemma keyed_insert: "keyed key m \<Longrightarrow> key v = i \<Longrightarrow> keyed key (hm_insert i v m)"
  by (auto simp: keyed_def)

lemma keyed_get: "keyed key m \<Longrightarrow> hm_get m i = Some v \<Longrightarrow> key v = i"
  by (simp add: keyed_def)

lemma stores_keyed_simple: "stores_keyed s \<Longrightarrow> keyed simple_id (simple_store k s)"
  by (cases k) (simp_all add: stores_keyed_def simple_store_def)

lemma same_stores_inv:
  "same_stores a b \<Longrightarrow> stores_keyed a = stores_keyed b"
  "same_stores a b \<Longrightarrow> parents_exist a = parents_exist b"
  by (simp_all add: same_stores_def stores_keyed_def parents_exist_def)

lemma fresh_key_absent: "fresh_key c s \<Longrightarrow> context_idempotency_id c \<notin> set (map fst (portfolio_outcomes s))"
  by (simp add: fresh_key_def hm_get_def map_of_eq_None_iff)

lemma wrote_outcomes:
  assumes "wrote w c command out ms as s t" and "fresh_key c s"
  shows "portfolio_outcomes t = portfolio_outcomes s @
    [(context_idempotency_id c, outcome_of c command out ms as (next_operation_ordinal s))]"
  using wrote_state(3) [OF assms(1)] hm_insert_fresh [OF fresh_key_absent [OF assms(2)]] by simp

lemma wrote_numbered:
  assumes w: "wrote w c command out ms as s t" and "fresh_key c s" and "numbered s"
  shows "numbered t"
proof -
  note outcomes = wrote_outcomes [OF w assms(2)]
  have "unat (next_operation_ordinal t) = Suc (unat (next_operation_ordinal s))"
    using wrote_state(4) [OF w] by (simp add: checked_add_u64_Some_iff)
  moreover have "hm_wf (portfolio_outcomes t)"
    using assms(3) by (simp add: numbered_def wrote_state(3) [OF w])
  moreover have "next_operation_ordinal s = of_nat (unat (next_operation_ordinal s))" by simp
  with assms(3) have "next_operation_ordinal s = of_nat (length (portfolio_outcomes s))"
    by (simp only: numbered_def)
  ultimately show ?thesis using assms(3) by (simp add: numbered_def outcomes outcome_of_def)
qed

text \<open>A write keeps the invariant when its record keeps its key and its parent.\<close>

fun sound_write :: "portfolio_write \<Rightarrow> 'a portfolio_stores_scheme \<Rightarrow> bool" where
  "sound_write (WriteSimple k r) s \<longleftrightarrow> True"
| "sound_write (WriteKpi r m) s \<longleftrightarrow>
     keyed observation_id m \<and>
     (\<forall>i v. hm_get m i = Some v \<longrightarrow>
        (\<exists>v'. hm_get (observations s) i = Some v' \<and> observation_kpi_id v = observation_kpi_id v'))"
| "sound_write (WriteObservation r) s \<longleftrightarrow> hm_get (kpis s) (observation_kpi_id r) \<noteq> None"

lemma sound_write_keeps:
  assumes "stores_keyed s" and "parents_exist s" and "sound_write w s"
  shows "stores_keyed (apply_write w s)" and "parents_exist (apply_write w s)"
proof -
  show "stores_keyed (apply_write w s)"
    using assms by (cases w) (auto simp: stores_keyed_def put_simple_def put_simple_at_def put_kpi_def
      put_observation_def intro: keyed_insert split: simple_kind.splits)
  show "parents_exist (apply_write w s)"
    using assms by (cases w; fastforce simp: parents_exist_def put_simple_def put_simple_at_def put_kpi_def
      put_observation_def split: simple_kind.splits if_splits)
qed

lemma wrote_inv:
  assumes w: "wrote w c command out ms as s t" and "fresh_key c s" and inv: "portfolio_inv s"
    and "sound_write w s"
  shows "portfolio_inv t"
  using inv sound_write_keeps [of s w] assms(4) same_stores_inv [OF wrote_state(1) [OF w]]
    wrote_numbered [OF w assms(2)] by (simp add: portfolio_inv_def)

lemma portfolio_undisturbed_inv: "portfolio_undisturbed s t \<Longrightarrow> portfolio_inv s \<Longrightarrow> portfolio_inv t"
  by (simp add: portfolio_undisturbed_def portfolio_inv_def stores_keyed_def parents_exist_def numbered_def)

text \<open>The observations after a fan-out: the affected ones, and only those, are raised.\<close>

lemma fanned_out_observations:
  "fanned_out c cls now ids m m' as ms \<Longrightarrow> keyed observation_id m \<Longrightarrow>
     keyed observation_id m' \<and>
     (\<forall>i v. hm_get m' i = Some v \<longrightarrow>
        (\<exists>v'. hm_get m i = Some v' \<and> observation_kpi_id v = observation_kpi_id v'))"
proof (induction ids arbitrary: m as ms)
  case (Cons i ids)
  from Cons.prems(1) obtain v version a as' ms' where v: "hm_get m i = Some v"
    and rest: "fanned_out c cls now ids (hm_insert i (v\<lparr>observation_version := version,
             observation_classification := combine cls (observation_classification v),
             observation_updated_at := max now (observation_updated_at v)\<rparr>) m) m' as' ms'" by auto
  note ih = Cons.IH [OF rest keyed_insert [OF Cons.prems(2)]]
  from ih v keyed_get [OF Cons.prems(2) v] show ?case by (simp split: if_splits) (metis (no_types, lifting))
qed auto

section \<open>States that hold the same\<close>

text \<open>Two keyed stores with the same records, in whatever order their maps list them.\<close>

definition alike :: "'a portfolio_stores_scheme \<Rightarrow> 'b portfolio_stores_scheme \<Rightarrow> bool" where
  "alike a b \<longleftrightarrow> stores_keyed a \<and> stores_keyed b \<and>
     hm_get (portfolios a) = hm_get (portfolios b) \<and> hm_get (products a) = hm_get (products b) \<and>
     hm_get (roadmaps a) = hm_get (roadmaps b) \<and> hm_get (kpis a) = hm_get (kpis b) \<and>
     hm_get (observations a) = hm_get (observations b)"

lemma alike_trans: "alike a b \<Longrightarrow> alike b c \<Longrightarrow> alike a c"
  by (simp add: alike_def)

lemma alike_sym: "alike a b \<Longrightarrow> alike b a"
  by (simp add: alike_def)

lemma same_stores_alike: "same_stores a b \<Longrightarrow> stores_keyed b \<Longrightarrow> alike a b"
  using same_stores_inv(1) [of a b] by (simp add: alike_def same_stores_def)

lemma alike_simple: "alike a b \<Longrightarrow> hm_get (simple_store k a) = hm_get (simple_store k b)"
  by (cases k) (simp_all add: alike_def simple_store_def)

lemma alike_parents: "alike a b \<Longrightarrow> parents_exist a = parents_exist b"
  by (simp add: alike_def parents_exist_def)

lemma keyed_set: "keyed key m \<Longrightarrow> (i, v) \<in> set m \<longleftrightarrow> hm_get m i = Some v"
  by (simp add: keyed_def hm_get_in)

lemma keyed_distinct: "keyed key m \<Longrightarrow> distinct (map key (hm_values m))"
proof -
  assume m: "keyed key m"
  then have "map key (hm_values m) = map fst m"
    by (auto simp: hm_values_def keyed_set keyed_def split: prod.splits)
  with m show ?thesis by (simp add: keyed_def hm_wf_def)
qed

lemma keyed_same_values:
  assumes "keyed key a" and "keyed key b" and "hm_get a = hm_get b"
  shows "mset (hm_values a) = mset (hm_values b)"
proof (rule set_eq_iff_mset_eq_distinct [THEN iffD1])
  show "distinct (hm_values a)" "distinct (hm_values b)"
    using keyed_distinct [OF assms(1)] keyed_distinct [OF assms(2)] by (simp_all add: distinct_map)
  show "set (hm_values a) = set (hm_values b)"
    using assms by (simp add: keyed_def hm.set_vals)
qed

lemma affected_ids_same:
  assumes "keyed observation_id a" and "keyed observation_id b" and "hm_get a = hm_get b"
  shows "affected_ids kpi cls a = affected_ids kpi cls b"
  unfolding affected_ids_def
proof (rule sort_key_unique [of "\<lambda>x. x"])
  let ?p = "\<lambda>v. observation_kpi_id v = kpi \<and> combine cls (observation_classification v) \<noteq> observation_classification v"
  show "distinct (map (\<lambda>x. x) (map observation_id (filter ?p (hm_values a))))"
    using keyed_distinct [OF assms(1)] by (simp add: distinct_map_filter)
  show "mset (map observation_id (filter ?p (hm_values a))) = mset (map observation_id (filter ?p (hm_values b)))"
    using keyed_same_values [OF assms] by simp
qed

text \<open>What a restart keeps: the records, the outcomes, the audit trail and the ordinal.\<close>

definition unchanged :: "'w portfolio_service \<Rightarrow> 'w portfolio_service \<Rightarrow> bool" where
  "unchanged s t \<longleftrightarrow> alike s t \<and> portfolio_outcomes t = portfolio_outcomes s \<and>
     portfolio_audit_events t = portfolio_audit_events s \<and> next_operation_ordinal t = next_operation_ordinal s"

lemma portfolio_undisturbed_unchanged: "portfolio_undisturbed s t \<Longrightarrow> portfolio_inv s \<Longrightarrow> unchanged s t"
  by (auto simp: unchanged_def portfolio_undisturbed_def portfolio_inv_def stores_keyed_def alike_def)

lemma unchanged_inv: "unchanged s t \<Longrightarrow> portfolio_inv s \<Longrightarrow> portfolio_inv t"
  using alike_parents [of s t] by (simp add: unchanged_def portfolio_inv_def numbered_def alike_def)

section \<open>Restart\<close>

lemma collect_map_distinct:
  "distinct (map key xs) \<Longrightarrow> collect_map key val xs = map (\<lambda>x. (key x, val x)) xs"
  by (simp add: collect_map_def fold_hm_insert)

lemma rebuilt_store:
  assumes "keyed key m"
  shows "hm_get (collect_map key id (sorted_records key m)) = hm_get m"
    and "keyed key (collect_map key id (sorted_records key m))"
    and "length (collect_map key id (sorted_records key m)) = length m"
    and "distinct (map key (sorted_records key m))"
proof -
  have m: "hm_wf m" "\<And>k v. hm_get m k = Some v \<Longrightarrow> key v = k" using assms by (simp_all add: keyed_def)
  note r = rebuilt_map [OF m]
  show d: "distinct (map key (sorted_records key m))" using r(1) by (simp add: sorted_records_def)
  have c: "collect_map key id (sorted_records key m) = map (\<lambda>v. (key v, v)) (sorted_records key m)"
    using collect_map_distinct [OF d, of id] by simp
  show g: "hm_get (collect_map key id (sorted_records key m)) = hm_get m"
    unfolding c using r(2) by (simp add: sorted_records_def)
  show "keyed key (collect_map key id (sorted_records key m))"
    unfolding keyed_def g using m(2) d by (auto simp: c hm_wf_def comp_def)
  show "length (collect_map key id (sorted_records key m)) = length m"
    unfolding c by (simp add: sorted_records_def hm_values_def)
qed

text \<open>Ordinals are the positions of the outcomes, so the snapshot lists the outcomes in their order.\<close>

lemma sorted_positions:
  "n \<le> 2 ^ 64 \<Longrightarrow> sorted (map (of_nat :: nat \<Rightarrow> 64 word) [0..<n])"
proof (induction n)
  case (Suc n)
  have le: "of_nat i \<le> (of_nat n :: 64 word)" if "i < n" for i
  proof -
    have "unat (of_nat k :: 64 word) = k" if "k \<le> n" for k
      using that Suc.prems by (simp only: unsigned_of_nat) (simp add: take_bit_nat_eq_self)
    then show ?thesis using that by (simp add: word_le_nat_alt)
  qed
  from Suc show ?case by (auto simp: sorted_append le)
qed simp

lemma numbered_bound: "numbered s \<Longrightarrow> length (portfolio_outcomes s) < 2 ^ 64"
  unfolding numbered_def using unsigned_less [of "next_operation_ordinal s", where 'a = nat] by simp

lemma snapshot_replay:
  assumes "numbered s"
  shows "snap_replay (portfolio_persistence_snapshot s) = map persistence_capsule (portfolio_outcomes s)"
proof -
  have "map capsule_operation_ordinal (map persistence_capsule (portfolio_outcomes s)) =
      map of_nat [0..<length (portfolio_outcomes s)]"
    using assms unfolding numbered_def
    by (auto simp: persistence_capsule_def comp_def split_beta)
  then have "sorted (map capsule_operation_ordinal (map persistence_capsule (portfolio_outcomes s)))"
    using sorted_positions [of "length (portfolio_outcomes s)"] numbered_bound [OF assms] by simp
  then show ?thesis by (simp add: portfolio_persistence_snapshot_def sort_key_id_if_sorted)
qed

lemma capsule_fields:
  "capsule_idempotency_id (persistence_capsule e) = fst e"
  "restored_outcome (persistence_capsule e) = snd e"
  "capsule_operation_ordinal (persistence_capsule e) = stored_operation_ordinal (snd e)"
  by (simp_all add: persistence_capsule_def restored_outcome_def split_beta)

lemma restored_outcomes:
  "hm_wf m \<Longrightarrow> collect_map capsule_idempotency_id restored_outcome (map persistence_capsule m) = m"
  by (subst collect_map_distinct) (simp_all add: capsule_fields comp_def hm_wf_def)

lemma max_position:
  "sorted (n # ns) \<Longrightarrow> fold max ns (n :: 'a :: linorder) = last (n # ns)"
  by (induction ns arbitrary: n) (auto simp: max_def)

lemma ordinals_restored:
  fixes f :: "'a \<Rightarrow> 64 word"
  assumes ords: "map f xs = map of_nat [0..<length xs]" and following: "unat n = length xs"
  shows "(case map f xs of [] \<Rightarrow> 0 | k # ks \<Rightarrow> saturating_succ (fold max ks k)) = n"
proof (cases "map f xs")
  case Nil
  with following show ?thesis by (simp add: unat_eq_0)
next
  case (Cons k ks)
  then have pos: "0 < length xs" by (cases xs) auto
  have bound: "length xs < 2 ^ 64" using unsigned_less [of n, where 'a = nat] following by simp
  from pos have "last (map f xs) = of_nat (length xs - 1)" unfolding ords by (simp add: last_map last_upt)
  moreover have "sorted (map f xs)" unfolding ords using sorted_positions [of "length xs"] bound by simp
  ultimately have "fold max ks k = of_nat (length xs - 1)"
    unfolding Cons by (simp only: max_position)
  moreover have "checked_add_u64 (of_nat (length xs - 1)) 1 = Some n"
  proof -
    have u: "unat (of_nat (length xs - 1) :: 64 word) = length xs - 1"
      using bound by (simp only: unsigned_of_nat) (simp add: take_bit_nat_eq_self)
    show ?thesis unfolding checked_add_u64_Some_iff u following using pos by simp
  qed
  ultimately show ?thesis unfolding Cons by (simp add: saturating_succ_def)
qed

lemma restored_ordinal:
  assumes "numbered s"
  shows "(case map capsule_operation_ordinal (map persistence_capsule (portfolio_outcomes s)) of
      [] \<Rightarrow> 0 | n # ns \<Rightarrow> saturating_succ (fold max ns n)) = next_operation_ordinal s"
  by (rule ordinals_restored) (use assms in \<open>simp_all add: numbered_def comp_def capsule_fields\<close>)

lemma rehydrate_unchanged:
  assumes inv: "portfolio_inv s"
  shows "unchanged s (portfolio_rehydrate w (portfolio_persistence_snapshot s))"
proof -
  from inv have n: "numbered s" and wf: "hm_wf (portfolio_outcomes s)" and k: "stores_keyed s"
    by (simp_all add: portfolio_inv_def numbered_def)
  have "alike s (portfolio_rehydrate w (portfolio_persistence_snapshot s))"
    using k by (simp add: alike_def stores_keyed_def portfolio_rehydrate_def portfolio_persistence_snapshot_def
      rebuilt_store)
  moreover have "portfolio_outcomes (portfolio_rehydrate w (portfolio_persistence_snapshot s)) = portfolio_outcomes s"
    by (simp add: portfolio_rehydrate_def snapshot_replay [OF n] restored_outcomes [OF wf])
  moreover have "next_operation_ordinal (portfolio_rehydrate w (portfolio_persistence_snapshot s)) = next_operation_ordinal s"
    unfolding restored_ordinal [OF n, symmetric] by (simp add: portfolio_rehydrate_def snapshot_replay [OF n])
  ultimately show ?thesis
    by (simp add: unchanged_def portfolio_rehydrate_def portfolio_persistence_snapshot_def)
qed

text \<open>A restart reads the snapshot back when the check accepts it.\<close>

definition portfolio_restart :: "'w \<Rightarrow> 'w portfolio_service \<Rightarrow> 'w portfolio_service" where
  "portfolio_restart w s =
     (case validate_snapshot (portfolio_persistence_snapshot s) of
        Inr snap \<Rightarrow> portfolio_rehydrate w snap
      | Inl _ \<Rightarrow> s)"

lemma validate_returns:
  "validate_snapshot snap = Inr snap' \<Longrightarrow> snap' = snap"
  by (auto simp: validate_snapshot_def PortfolioPersistenceSnapshot_validate_def rbind_Inr_iff)

lemma restart_unchanged: "portfolio_inv s \<Longrightarrow> unchanged s (portfolio_restart w s)"
  unfolding portfolio_restart_def
  by (auto split: sum.splits dest!: validate_returns
    intro: rehydrate_unchanged portfolio_undisturbed_unchanged portfolio_undisturbed.refl)

section \<open>Commands and steps\<close>

datatype 'w portfolio_command =
  CreateSimpleRecord simple_kind CreateSimple
| UpdateSimpleRecord simple_kind UpdateSimpleDetails
| CreateKpiRecord CreateKpiDefinition
| UpdateKpiRecord UpdateKpiDefinitionDetails
| CreateObservationRecord CreateKpiObservation
| UpdateObservationRecord UpdateKpiObservationDetails
| PrepareLowering lowered_kind PrepareLowerClassification
| ApproveLowering lowered_kind ApproveAndExecuteLowerClassification
| InjectCommitFailure
| Restart 'w
| Environment 'w

fun portfolio_step :: "'w portfolio_ports \<Rightarrow> 'w portfolio_command \<Rightarrow> 'w portfolio_service \<Rightarrow> 'w portfolio_service" where
  "portfolio_step P (CreateSimpleRecord k x) s = snd (create_simple k P x s)"
| "portfolio_step P (UpdateSimpleRecord k x) s = snd (update_simple_details k P x s)"
| "portfolio_step P (CreateKpiRecord x) s = snd (create_kpi_definition P x s)"
| "portfolio_step P (UpdateKpiRecord x) s = snd (update_kpi_definition_details P x s)"
| "portfolio_step P (CreateObservationRecord x) s = snd (create_kpi_observation P x s)"
| "portfolio_step P (UpdateObservationRecord x) s = snd (update_kpi_observation_details P x s)"
| "portfolio_step P (PrepareLowering k x) s = snd (prepare_lower k P x s)"
| "portfolio_step P (ApproveLowering k x) s = snd (approve_and_execute_lower k P x s)"
| "portfolio_step P InjectCommitFailure s = portfolio_inject_next_commit_failure s"
| "portfolio_step P (Restart w) s = portfolio_restart w s"
| "portfolio_step P (Environment w) s = s\<lparr>portfolio_world := w\<rparr>"

fun approves_lowering :: "'w portfolio_command \<Rightarrow> bool" where
  "approves_lowering (ApproveLowering _ _) = True"
| "approves_lowering _ = False"

text \<open>
  The commits a command makes when it is not answered from memory: \<open>ordinary_commit\<close> of the six ordinary
  commands, \<open>lowering_commit\<close> of an approved lowering.
\<close>

inductive ordinary_commit :: "'w portfolio_service \<Rightarrow> 'w portfolio_service \<Rightarrow> bool" where
  simple_created: "fresh_key (new_simple_context x) s \<Longrightarrow> hm_get (simple_store k s) (new_simple_id x) = None \<Longrightarrow>
    portfolio_mutation_audit a now (simple_key k @ ''.created'') (simple_target k (new_simple_id x)) (new_simple_context x) \<Longrightarrow>
    wrote (WriteSimple k (new_simple x)) (new_simple_context x) (simple_create_identity k x)
      (simple_result k \<lparr>mutation_record = new_simple x, mutation_audit_event = a\<rparr>) [] [a] s t \<Longrightarrow>
    ordinary_commit s t"
| simple_updated: "fresh_key (upd_simple_context x) s \<Longrightarrow> hm_get (simple_store k s) (upd_simple_id x) = Some r \<Longrightarrow>
    simple_version r = upd_simple_expected_version x \<Longrightarrow> AggregateVersion_next (simple_version r) = Some version \<Longrightarrow>
    (upd_simple_classification x = None \<and> cls = simple_classification r) \<or>
      (upd_simple_classification x = Some cls \<and> simple_classification r \<le> cls) \<Longrightarrow>
    portfolio_mutation_audit a now (simple_key k @ ''.updated'') (simple_target k (simple_id r)) (upd_simple_context x) \<Longrightarrow>
    wrote (WriteSimple k (updated_simple x version cls r)) (upd_simple_context x) (simple_update_identity k x)
      (simple_result k \<lparr>mutation_record = updated_simple x version cls r, mutation_audit_event = a\<rparr>) [] [a] s t \<Longrightarrow>
    ordinary_commit s t"
| kpi_created: "fresh_key (new_kpi_context x) s \<Longrightarrow> hm_get (kpis s) (new_kpi_id x) = None \<Longrightarrow>
    kpi_committed (new_kpi_context x) (kpi_create_identity x) ''kpi.definition.created'' (new_kpi x) out s t \<Longrightarrow>
    ordinary_commit s t"
| kpi_updated: "fresh_key (upd_kpi_context x) s \<Longrightarrow> hm_get (kpis s) (upd_kpi_id x) = Some kr \<Longrightarrow>
    kpi_version kr = upd_kpi_expected_version x \<Longrightarrow> AggregateVersion_next (kpi_version kr) = Some version \<Longrightarrow>
    (upd_kpi_classification x = None \<and> cls = kpi_classification kr) \<or>
      (upd_kpi_classification x = Some cls \<and> kpi_classification kr \<le> cls) \<Longrightarrow>
    kpi_committed (upd_kpi_context x) (kpi_update_identity x) ''kpi.definition.updated''
      (updated_kpi x version cls kr) out s t \<Longrightarrow>
    ordinary_commit s t"
| observation_created: "fresh_key (new_observation_context x) s \<Longrightarrow>
    hm_get (observations s) (new_observation_id x) = None \<Longrightarrow>
    hm_get (kpis s) (new_observation_kpi_id x) = Some kpi \<Longrightarrow>
    observation_committed (new_observation_context x) (observation_create_identity x) ''kpi.observation.created''
      (new_observation x (kpi_classification kpi) now) now out s t \<Longrightarrow>
    ordinary_commit s t"
| observation_updated: "fresh_key (upd_observation_context x) s \<Longrightarrow>
    hm_get (observations s) (upd_observation_id x) = Some obs \<Longrightarrow>
    observation_version obs = upd_observation_expected_version x \<Longrightarrow>
    AggregateVersion_next (observation_version obs) = Some version \<Longrightarrow>
    (upd_observation_classification x = None \<and> cls = observation_classification obs) \<or>
      (upd_observation_classification x = Some cls \<and> observation_classification obs \<le> cls) \<Longrightarrow>
    hm_get (kpis s) (observation_kpi_id obs) = Some kpi \<Longrightarrow>
    observation_committed (upd_observation_context x) (observation_update_identity x) ''kpi.observation.updated''
      (updated_observation x version now cls (kpi_classification kpi) obs) now out s t \<Longrightarrow>
    ordinary_commit s t"

fun is_execute_lower :: "PortfolioCommandIdentity \<Rightarrow> bool" where
  "is_execute_lower (PortfolioCommandIdentity.ApproveAndExecuteLowerPortfolioClassification _ _ _) = True"
| "is_execute_lower (PortfolioCommandIdentity.ApproveAndExecuteLowerProductClassification _ _ _) = True"
| "is_execute_lower (PortfolioCommandIdentity.ApproveAndExecuteLowerRoadmapClassification _ _ _) = True"
| "is_execute_lower (PortfolioCommandIdentity.ApproveAndExecuteLowerKpiClassification _ _ _) = True"
| "is_execute_lower (PortfolioCommandIdentity.ApproveAndExecuteLowerKpiObservationClassification _ _ _) = True"
| "is_execute_lower _ = False"

lemma execute_lower_identity_is: "is_execute_lower (execute_lower_identity k a)"
  by (induction k a rule: execute_lower_identity.induct) simp_all

inductive lowering_commit ::
  "OperationContext \<Rightarrow> PortfolioCommandIdentity \<Rightarrow> PortfolioStoredResult \<Rightarrow> 'w portfolio_service
     \<Rightarrow> 'w portfolio_service \<Rightarrow> bool"
  for c command out where
  "fresh_key c s \<Longrightarrow> is_execute_lower command \<Longrightarrow> sound_write w s \<Longrightarrow> wrote w c command out ms as s t \<Longrightarrow>
    lowering_commit c command out s t"

lemma simple_commands:
  "create_simple k P x s = (Inr out, t) \<Longrightarrow> t = s \<or> ordinary_commit s t"
  "update_simple_details k P y s = (Inr out, t) \<Longrightarrow> t = s \<or> ordinary_commit s t"
  by (erule create_simple_ok; auto simp: wrote_eqs intro: simple_created)
    (erule update_simple_ok; auto simp: wrote_eqs intro: simple_updated)

lemma kpi_commands:
  "create_kpi_definition P x s = (Inr out, t) \<Longrightarrow> t = s \<or> ordinary_commit s t"
  "update_kpi_definition_details P y s = (Inr out, t) \<Longrightarrow> t = s \<or> ordinary_commit s t"
  by (erule create_kpi_ok; auto intro: kpi_created) (erule update_kpi_ok; auto intro: kpi_updated)

lemma observation_commands:
  "create_kpi_observation P x s = (Inr out, t) \<Longrightarrow> t = s \<or> ordinary_commit s t"
  "update_kpi_observation_details P y s = (Inr out, t) \<Longrightarrow> t = s \<or> ordinary_commit s t"
  by (erule create_observation_ok; auto intro: observation_created)
    (erule update_observation_ok; auto intro: observation_updated)

lemma errs_undisturbed: "errs_within portfolio_undisturbed m \<Longrightarrow> (\<And>out t. m s = (Inr out, t) \<Longrightarrow> t = s \<or> Q s t) \<Longrightarrow>
    portfolio_undisturbed s (snd (m s)) \<or> Q s (snd (m s))"
  by (cases "m s"; cases "fst (m s)") (auto dest: errs_withinD intro: portfolio_undisturbed.refl)

lemma portfolio_undisturbed_outside:
  "portfolio_undisturbed s (portfolio_inject_next_commit_failure s)" "portfolio_undisturbed s (s\<lparr>portfolio_world := w\<rparr>)"
  by (simp_all add: portfolio_undisturbed_def portfolio_inject_next_commit_failure_def)

lemmas ordinary_results =
  errs_undisturbed [OF errs_simple(1) simple_commands(1)] errs_undisturbed [OF errs_simple(2) simple_commands(2)]
  errs_undisturbed [OF errs_kpi(1) kpi_commands(1)] errs_undisturbed [OF errs_kpi(2) kpi_commands(2)]
  errs_undisturbed [OF errs_observation(1) observation_commands(1)]
  errs_undisturbed [OF errs_observation(2) observation_commands(2)]

lemma portfolio_undisturbed_step:
  "\<not> approves_lowering c \<Longrightarrow> (\<And>w. c \<noteq> Restart w) \<Longrightarrow>
     portfolio_undisturbed s (portfolio_step P c s) \<or> ordinary_commit s (portfolio_step P c s)"
proof (cases c)
  case (PrepareLowering k x)
  then show ?thesis using keeps_prepare_lower [of k P x] by (simp add: keeps_def)
next
  case (Restart w)
  assume "\<And>w. c \<noteq> Restart w"
  with Restart show ?thesis by blast
qed (simp_all add: ordinary_results portfolio_undisturbed_outside)

lemma ordinary_step:
  assumes inv: "portfolio_inv s" and "\<not> approves_lowering c"
  shows "unchanged s (portfolio_step P c s) \<or> ordinary_commit s (portfolio_step P c s)"
proof (cases "\<exists>w. c = Restart w")
  case True
  with restart_unchanged [OF inv] show ?thesis by auto
next
  case False
  with portfolio_undisturbed_step [OF assms(2), of s P] portfolio_undisturbed_unchanged [OF _ inv] show ?thesis by auto
qed

section \<open>Approved lowerings\<close>

lemma kpi_committed_wrote:
  assumes "kpi_committed c command code r out s t" and "stores_keyed s"
  obtains w ms as where "wrote w c command out ms as s t" "sound_write w s"
proof -
  from assms(1) obtain now m as ms a where f: "fanned_out c (kpi_classification r) now
      (affected_ids (kpi_id r) (kpi_classification r) (observations s)) (observations s) m as ms"
    and w: "wrote (WriteKpi r m) c command out ms (a # as) s t"
    unfolding kpi_committed_def wrote_eqs by blast
  from fanned_out_observations [OF f] assms(2) have "sound_write (WriteKpi r m) s"
    by (simp add: stores_keyed_def)
  with w show thesis by (rule that)
qed

lemma observation_committed_wrote:
  "observation_committed c command code r now out s t \<Longrightarrow>
     \<exists>a. portfolio_mutation_audit a now code (AuditTarget.KpiObservation (observation_id r)) c \<and>
        out = PortfolioStoredResult.Observation \<lparr>mutation_record = r, mutation_audit_event = a\<rparr> \<and>
        wrote (WriteObservation r) c command out [] [a] s t"
  unfolding observation_committed_def wrote_eqs .

lemma commit_lowered_ok:
  assumes run: "commit_lowered P lr proposed c command s = (Inr out, t)" and inv: "portfolio_inv s"
    and subject: "lowering_subject k i s = Some lr"
    and key: "fresh_key c s" and command: "is_execute_lower command"
  shows "lowering_commit c command out s t"
proof (cases lr)
  case (LoweredSimple j r)
  with run obtain version a now where
    "wrote (WriteSimple j (r\<lparr>simple_version := version, simple_classification := proposed\<rparr>)) c command out [] [a] s t"
    by (auto simp: ebind_ok wrote_eqs elim!: commit_simple_ok)
  then show ?thesis using key command by (intro lowering_commit.intros) simp_all
next
  case (LoweredKpi r)
  with run obtain version where "kpi_committed c command (parse_audit_code ''kpi.classification_lowered'')
      (r\<lparr>kpi_version := version, kpi_classification := proposed\<rparr>) out s t"
    by (auto simp: ebind_ok dest: commit_kpi_committed)
  then show ?thesis
    using inv key command by (auto simp: portfolio_inv_def elim!: kpi_committed_wrote intro: lowering_commit.intros)
next
  case (LoweredObservation r)
  with run obtain version now s1 where clock: "portfolio_read_clock P s = (Inr now, s1)"
    and commit: "commit_observation P (r\<lparr>observation_version := version, observation_classification := proposed,
          observation_updated_at := max now (observation_updated_at r)\<rparr>)
       c command ''kpi.observation.classification_lowered'' now s1 = (Inr out, t)"
    by (auto simp: ebind_ok)
  from read_clock_ok [OF clock] commit obtain a where
    "wrote (WriteObservation (r\<lparr>observation_version := version, observation_classification := proposed,
          observation_updated_at := max now (observation_updated_at r)\<rparr>)) c command out [] [a] s t"
    by (auto dest!: commit_observation_committed observation_committed_wrote)
  moreover from subject LoweredObservation obtain j where "hm_get (observations s) j = Some r"
    by (cases k) auto
  with inv have "hm_get (kpis s) (observation_kpi_id r) \<noteq> None" by (auto simp: portfolio_inv_def parents_exist_def)
  ultimately show ?thesis using key command by (intro lowering_commit.intros) simp_all
qed

lemma commit_lowered_kind:
  "commit_lowered P lr proposed c command s = (Inr out, t) \<Longrightarrow> lowering_subject k i u = Some lr \<Longrightarrow>
     result_of_kind k out"
proof (cases k)
  case (Simple j)
  assume "commit_lowered P lr proposed c command s = (Inr out, t)" "lowering_subject k i u = Some lr"
  then show ?thesis unfolding Simple by (cases j; auto simp: ebind_ok elim!: commit_simple_ok)
qed (auto simp: ebind_ok elim!: commit_kpi_ok commit_observation_ok)

lemma portfolio_undisturbed_subject: "portfolio_undisturbed s t \<Longrightarrow> lowering_subject k i t = lowering_subject k i s"
  by (cases k) (simp_all add: portfolio_undisturbed_def simple_store_def split: simple_kind.splits)

lemma approve_ok:
  assumes run: "approve_and_execute_lower k P x s = (Inr out, t)" and inv: "portfolio_inv s"
  shows "result_of_kind k out \<and>
    ((t = s \<and> replayed (lowering_context x) (execute_lower_identity k (lowering_approval x)) out s) \<or>
     (\<exists>u. portfolio_undisturbed s u \<and>
       lowering_commit (lowering_context x) (execute_lower_identity k (lowering_approval x)) out u t))"
proof -
  let ?c = "lowering_context x" and ?command = "execute_lower_identity k (lowering_approval x)"
  from run consider "t = s" "replayed ?c ?command out s" "result_of_kind k out" | "fresh_key ?c s" "approve_lower_fresh k P x s = (Inr out, t)"
    by (auto simp: approve_and_execute_lower_def Let_def ebind_ok or_replay_ok fresh_key_def)
  then show ?thesis
  proof cases
    case 2
    then obtain i proposed lr s1 s2 u now rid later where subject: "lowering_subject k i s = Some lr"
      and commit: "commit_lowered P lr proposed ?c ?command u = (Inr out, t)"
      and s1: "portfolio_read_clock P s = (Inr now, s1)"
      and s2: "portfolio_draw_id (portfolio_next_approval_receipt_id P)
        (operation_error PlatformInternal (lowering_key k @ ''.approval_receipt_id_unavailable'') ?c) s1 = (Inr rid, s2)"
      and u': "portfolio_read_clock P s2 = (Inr later, u)"
      unfolding approve_lower_fresh_def Let_def
      by (auto simp: ebind_ok split: prod.splits)
    note steps = keepsD [OF keeps_portfolio_ports(1) s1] keepsD [OF keeps_portfolio_ports(2) s2]
      keepsD [OF keeps_portfolio_ports(1) u']
    have u: "portfolio_undisturbed s u"
      by (rule portfolio_undisturbed.trans [OF steps(1)], rule portfolio_undisturbed.trans [OF steps(2,3)])
    then have "fresh_key ?c u" using 2 by (simp add: fresh_key_def portfolio_undisturbed_def)
    with commit_lowered_ok [OF commit portfolio_undisturbed_inv [OF u inv]] portfolio_undisturbed_subject [OF u] subject
    have "lowering_commit ?c ?command out u t" by (simp add: execute_lower_identity_is)
    with u commit_lowered_kind [OF commit subject] show ?thesis by blast
  qed simp
qed

lemma lowering_step:
  assumes "portfolio_inv s"
  shows "portfolio_undisturbed s (portfolio_step P (ApproveLowering k x) s) \<or>
    (\<exists>c command out u. portfolio_undisturbed s u \<and>
       lowering_commit c command out u (portfolio_step P (ApproveLowering k x) s))"
  unfolding portfolio_step.simps
  by (rule errs_undisturbed [OF errs_approve]) (use approve_ok [OF _ assms] in blast)

section \<open>Every run keeps the invariant\<close>

lemma ordinary_commit_wrote:
  assumes "ordinary_commit s t" and inv: "portfolio_inv s"
  obtains w c command out ms as where "wrote w c command out ms as s t" "sound_write w s" "fresh_key c s"
    "\<not> is_execute_lower command"
  using assms(1)
proof cases
  case (simple_created x k a now)
  show thesis by (rule that [OF simple_created(4)]) (use simple_created in \<open>cases k; simp\<close>)+
next
  case (simple_updated x k r version cls a now)
  show thesis by (rule that [OF simple_updated(7)]) (use simple_updated in \<open>cases k; simp\<close>)+
next
  case (kpi_created x out)
  with inv show thesis
    by (elim kpi_committed_wrote) (auto simp: portfolio_inv_def kpi_create_identity_def intro: that)
next
  case (kpi_updated x kr version cls out)
  with inv show thesis
    by (elim kpi_committed_wrote) (auto simp: portfolio_inv_def kpi_update_identity_def intro: that)
next
  case (observation_created x kpi now out)
  from observation_committed_wrote [OF observation_created(4)] obtain a where
    w: "wrote (WriteObservation (new_observation x (kpi_classification kpi) now)) (new_observation_context x)
      (observation_create_identity x) out [] [a] s t" by blast
  show thesis
    by (rule that [OF w]) (use observation_created in \<open>simp_all add: new_observation_def observation_create_identity_def\<close>)
next
  case (observation_updated x obs version cls kpi now out)
  from observation_committed_wrote [OF observation_updated(7)] obtain a where
    w: "wrote (WriteObservation (updated_observation x version now cls (kpi_classification kpi) obs))
      (upd_observation_context x) (observation_update_identity x) out [] [a] s t" by blast
  show thesis
    by (rule that [OF w]) (use observation_updated in \<open>simp_all add: updated_observation_def observation_update_identity_def\<close>)
qed

lemma ordinary_commit_inv: "ordinary_commit s t \<Longrightarrow> portfolio_inv s \<Longrightarrow> portfolio_inv t"
  by (elim ordinary_commit_wrote) (auto intro: wrote_inv)

lemma lowering_commit_inv: "lowering_commit c command out s t \<Longrightarrow> portfolio_inv s \<Longrightarrow> portfolio_inv t"
  by (elim lowering_commit.cases) (auto intro: wrote_inv)

lemma portfolio_step_inv: "portfolio_inv s \<Longrightarrow> portfolio_inv (portfolio_step P c s)"
proof (cases c)
  case (ApproveLowering k x)
  assume inv: "portfolio_inv s"
  from lowering_step [OF inv, of P k x] show ?thesis
    unfolding ApproveLowering using portfolio_undisturbed_inv [OF _ inv] lowering_commit_inv portfolio_undisturbed_inv inv by blast
qed (use ordinary_step [of s c P] unchanged_inv ordinary_commit_inv in auto)

interpretation portfolio_machine: transition_system "portfolio_step P" portfolio_inv for P
  by unfold_locales (rule portfolio_step_inv)

lemma portfolio_inv_new: "portfolio_inv (InMemoryPortfolioService_new w)"
  by (simp add: InMemoryPortfolioService_new_def portfolio_inv_def stores_keyed_def keyed_def parents_exist_def
    numbered_def)

end
