(* ===== verification/Portfolio_Replay.thy ===== *)
theory Portfolio_Replay
  imports Portfolio_History
begin

text \<open>
  The timeline check accepts the history of every run of ordinary commands: what it accepted stays
  accepted when the audit trail grows, and each new command replays from the records before it to the
  records after it.
\<close>

section \<open>A longer audit trail\<close>

definition lookup_extends :: "('k \<times> 'v) list \<Rightarrow> ('k \<times> 'v) list \<Rightarrow> bool" where
  "lookup_extends m m' \<longleftrightarrow> (\<forall>i v. hm_get m i = Some v \<longrightarrow> hm_get m' i = Some v)"

lemma lookup_extendsD: "lookup_extends m m' \<Longrightarrow> hm_get m i = Some v \<Longrightarrow> hm_get m' i = Some v"
  by (simp add: lookup_extends_def)

lemma valid_or_ok [simp]: "valid_or b e = Inr u \<longleftrightarrow> b"
  by (simp add: valid_or_def)

lemma claim_audits_extend:
  "claim_audits audits m p ids claimed = Inr r \<Longrightarrow> lookup_extends m m' \<Longrightarrow>
     claim_audits (audits @ later) m' p ids claimed = Inr r"
proof (induction ids arbitrary: p claimed)
  case (Cons i ids)
  from Cons.prems(1) obtain x where "i \<notin> set claimed" "p < length audits" "audit_id (audits ! p) = i"
    "hm_get m i = Some x" "claim_audits audits m (Suc p) ids (i # claimed) = Inr r"
    by (auto split: if_splits)
  with Cons.IH Cons.prems(2) lookup_extendsD [OF Cons.prems(2)] show ?case
    by (auto simp: nth_append)
qed simp

lemma check_derived_extend:
  "check_derived m cap main cls n pairs obs = Inr r \<Longrightarrow> lookup_extends m m' \<Longrightarrow>
     check_derived m' cap main cls n pairs obs = Inr r"
proof (induction pairs arbitrary: n obs)
  case (Cons p pairs)
  obtain i mutation where p: "p = (i, mutation)" by (cases p)
  from Cons.prems show ?case
    by (auto simp: p rbind_Inr_iff Let_def lookup_extendsD Cons.IH split: if_splits)
qed simp

lemma replay_command_extend:
  assumes "replay_command m cap s = Inr r" and "lookup_extends m m'"
  shows "replay_command m' cap s = Inr r"
proof (cases "is_kpi_update (capsule_command cap)")
  case False
  then have "replay_command m' cap s = replay_command m cap s"
    by (cases "capsule_command cap") (simp_all add: replay_command_def)
  with assms show ?thesis by simp
next
  case True
  then obtain i expected name def owner target cadence source cls
    where cmd: "capsule_command cap = PortfolioCommandIdentity.UpdateKpi i expected name def owner target cadence source cls"
    by (cases "capsule_command cap") auto
  from assms(1) obtain outcome where res: "capsule_result cap = PortfolioPersistenceResult.KpiDefinition outcome"
    by (cases "capsule_result cap") (simp_all add: replay_command_def cmd)
  from assms(1) obtain t where t: "check_kpi_update m cap i expected name def owner target cadence source cls outcome s = Inr t"
    and r: "r = (t, mutation_audit_event outcome, AuditTarget.Kpi i, ''kpi.definition.updated'')"
    by (auto simp: replay_command_def cmd res rbind_Inr_iff)
  from t have "check_kpi_update m' cap i expected name def owner target cadence source cls outcome s = Inr t"
    using check_derived_extend [OF _ assms(2)]
    by (auto simp: check_kpi_update_def rbind_Inr_iff Let_def)
  with r show ?thesis by (simp add: replay_command_def cmd res)
qed

lemma replay_capsule_extend:
  assumes "replay_capsule audits m cap s = Inr r" and "lookup_extends m m'"
  shows "replay_capsule (audits @ later) m' cap s = Inr r"
  using assms(1) claim_audits_extend [OF _ assms(2)] replay_command_extend [OF _ assms(2)] lookup_extendsD [OF assms(2)]
  by (fastforce simp: replay_capsule_def rbind_Inr_iff Let_def)

lemma replay_capsules_extend:
  "replay_capsules audits m caps s = Inr r \<Longrightarrow> lookup_extends m m' \<Longrightarrow>
     replay_capsules (audits @ later) m' caps s = Inr r"
  by (induction caps arbitrary: s) (auto simp: rbind_Inr_iff intro: replay_capsule_extend)

lemma replay_capsules_append:
  "replay_capsules audits m (caps @ caps') s = rbind (replay_capsules audits m caps s) (replay_capsules audits m caps')"
  by (induction caps arbitrary: s) (auto simp: rbind_def split: sum.splits)

section \<open>The audit trail as a map\<close>

definition audit_map :: "AuditEvent list \<Rightarrow> (entity_id \<times> AuditEvent) list" where
  "audit_map audits = collect_map audit_id id audits"

lemma audit_map_get:
  "distinct (map audit_id audits) \<Longrightarrow> hm_get (audit_map audits) i = Some a \<longleftrightarrow> a \<in> set audits \<and> audit_id a = i"
  by (auto simp: audit_map_def collect_map_distinct hm_get_map)

lemma audit_map_extends:
  "distinct (map audit_id (audits @ later)) \<Longrightarrow> lookup_extends (audit_map audits) (audit_map (audits @ later))"
  by (auto simp: lookup_extends_def audit_map_get simp del: map_append) (auto simp: audit_map_get)

lemma claim_audits_next:
  "distinct (map audit_id new) \<Longrightarrow> set claimed \<inter> audit_id ` set new = {} \<Longrightarrow>
   (\<And>a. a \<in> set new \<Longrightarrow> hm_get m (audit_id a) = Some a) \<Longrightarrow>
     claim_audits (audits @ new) m (length audits) (map audit_id new) claimed = Inr (rev (map audit_id new) @ claimed)"
proof (induction new arbitrary: audits claimed)
  case (Cons a new)
  then have "claim_audits ((audits @ [a]) @ new) m (length (audits @ [a])) (map audit_id new) (audit_id a # claimed) =
      Inr (rev (map audit_id new) @ audit_id a # claimed)"
    by (intro Cons.IH) auto
  with Cons.prems show ?case by (auto simp: disjoint_iff)
qed simp

section \<open>The history of a run\<close>

definition replayed_history :: "'w portfolio_service \<Rightarrow> portfolio_replay portfolio_check" where
  "replayed_history s =
     replay_capsules (portfolio_audit_events s) (audit_map (portfolio_audit_events s))
       (map persistence_capsule (portfolio_outcomes s)) empty_replay"

definition recorded :: "'w portfolio_service \<Rightarrow> bool" where
  "recorded s \<longleftrightarrow> (distinct (map audit_id (portfolio_audit_events s)) \<longrightarrow>
     (\<exists>r. replayed_history s = Inr r \<and> alike r s \<and>
        replay_claimed r = rev (map audit_id (portfolio_audit_events s)) \<and>
        replay_cursor r = length (portfolio_audit_events s)))"

lemma unchanged_recorded: "unchanged s t \<Longrightarrow> recorded s \<Longrightarrow> recorded t"
  unfolding unchanged_def recorded_def replayed_history_def by (metis alike_trans)

text \<open>
  A write is recorded when its command replays to it: whatever the audit trail and the bookkeeping of
  the check, from the records before it.
\<close>

definition replays ::
  "portfolio_write \<Rightarrow> OperationContext \<Rightarrow> PortfolioCommandIdentity \<Rightarrow> PortfolioStoredResult
     \<Rightarrow> DerivedKpiObservationMutation list \<Rightarrow> AuditEvent list \<Rightarrow> 'w portfolio_service \<Rightarrow> bool" where
  "replays w c command out ms as s \<longleftrightarrow>
     length as = length ms + 1 \<and> (is_kpi_update command \<or> ms = []) \<and>
     (\<exists>target code. audit_of_mutation (hd as) code target (context_correlation_id c) \<and>
       (\<forall>m (r :: portfolio_replay) n. alike r s \<longrightarrow> (\<forall>a \<in> set as. hm_get m (audit_id a) = Some a) \<longrightarrow>
          (\<exists>r'. replay_command m (persistence_capsule (context_idempotency_id c, outcome_of c command out ms as n)) r =
            Inr (r', hd as, target, code) \<and> alike r' (apply_write w s) \<and>
            replay_claimed r' = replay_claimed r \<and> replay_cursor r' = replay_cursor r)))"

lemma replaysI:
  assumes "length as = length ms + 1" and "is_kpi_update command \<or> ms = []"
    and "audit_of_mutation (hd as) code target (context_correlation_id c)"
    and "\<And>m (r :: portfolio_replay) n. alike r s \<Longrightarrow> \<forall>a \<in> set as. hm_get m (audit_id a) = Some a \<Longrightarrow>
      \<exists>r'. replay_command m (persistence_capsule (context_idempotency_id c, outcome_of c command out ms as n)) r =
            Inr (r', hd as, target, code) \<and> alike r' (apply_write w s) \<and>
            replay_claimed r' = replay_claimed r \<and> replay_cursor r' = replay_cursor r"
  shows "replays w c command out ms as s"
  unfolding replays_def using assms by blast

lemma alike_bookkeeping: "alike (r\<lparr>replay_claimed := x, replay_cursor := y\<rparr>) s \<longleftrightarrow> alike r s"
  by (simp add: alike_def stores_keyed_def)

lemma recorded_step:
  assumes w: "wrote w c command out ms as s t" and key: "fresh_key c s" and rec: "recorded s"
    and sound: "stores_keyed (apply_write w s)" and replays: "replays w c command out ms as s"
  shows "recorded t"
  unfolding recorded_def
proof
  note audits = wrote_state(2) [OF w] and outcomes = wrote_outcomes [OF w key]
  let ?m = "audit_map (portfolio_audit_events t)"
    and ?cap = "persistence_capsule (context_idempotency_id c, outcome_of c command out ms as (next_operation_ordinal s))"
  assume d: "distinct (map audit_id (portfolio_audit_events t))"
  then have d0: "distinct (map audit_id (portfolio_audit_events s))" by (simp add: audits)
  from rec d0 obtain r where r: "replayed_history s = Inr r" "alike r s"
    and claimed: "replay_claimed r = rev (map audit_id (portfolio_audit_events s))"
    and cursor: "replay_cursor r = length (portfolio_audit_events s)"
    unfolding recorded_def by blast
  let ?r = "r\<lparr>replay_claimed := rev (map audit_id (portfolio_audit_events t)),
      replay_cursor := length (portfolio_audit_events t)\<rparr>"
  have ids: "\<forall>a \<in> set as. hm_get ?m (audit_id a) = Some a"
    using d by (auto simp: audit_map_get audits)
  from r(2) have "alike ?r s" by (simp only: alike_bookkeeping)
  with replays ids obtain target code r' where main: "audit_of_mutation (hd as) code target (context_correlation_id c)"
    and replay: "replay_command ?m ?cap ?r = Inr (r', hd as, target, code)"
    and r': "alike r' (apply_write w s)" "replay_claimed r' = replay_claimed ?r" "replay_cursor r' = replay_cursor ?r"
    and shape: "length as = length ms + 1" "is_kpi_update command \<or> ms = []"
    unfolding replays_def by blast
  from shape(1) obtain a as' where as: "as = a # as'" by (cases as) auto
  have "claim_audits (portfolio_audit_events t) ?m (replay_cursor r) (map audit_id as) (replay_claimed r) =
      Inr (rev (map audit_id (portfolio_audit_events t)))"
    using claim_audits_next [of as "replay_claimed r" ?m "portfolio_audit_events s"] d ids
    by (auto simp: audits claimed cursor)
  moreover from ids as have "hm_get ?m (audit_id a) = Some a" by simp
  ultimately have "replay_capsule (portfolio_audit_events t) ?m ?cap r = Inr r'"
    using shape main replay
    by (simp add: replay_capsule_def persistence_capsule_def outcome_of_def as audits cursor valid_or_def)
  moreover have "replay_capsules (portfolio_audit_events t) ?m (map persistence_capsule (portfolio_outcomes s)) empty_replay = Inr r"
    unfolding audits
    by (rule replay_capsules_extend [OF r(1) [unfolded replayed_history_def] audit_map_extends]) (use d in \<open>simp add: audits\<close>)
  ultimately have "replayed_history t = Inr r'"
    by (simp add: replayed_history_def outcomes replay_capsules_append)
  moreover have "alike r' t"
    using alike_trans [OF r'(1) alike_sym [OF same_stores_alike [OF wrote_state(1) [OF w] sound]]] .
  ultimately show "\<exists>r. replayed_history t = Inr r \<and> alike r t \<and>
      replay_claimed r = rev (map audit_id (portfolio_audit_events t)) \<and>
      replay_cursor r = length (portfolio_audit_events t)" using r' by simp
qed

section \<open>Each ordinary command replays\<close>

lemma alike_apply_simple:
  "alike a b \<Longrightarrow> alike (put_simple k r a) (put_simple k r b)"
  by (cases k) (auto simp: alike_def stores_keyed_def put_simple_def put_simple_at_def fun_eq_iff keyed_insert)

lemma put_simple_bookkeeping [simp]:
  "replay_claimed (put_simple k r s) = replay_claimed s" "replay_cursor (put_simple k r s) = replay_cursor s"
  by (cases k; simp add: put_simple_def put_simple_at_def)+

lemma mutation_auditD:
  "portfolio_mutation_audit a now code target c \<Longrightarrow> audit_of_mutation a code target (context_correlation_id c)"
  by (simp add: portfolio_mutation_audit_def)

lemma simple_create_replays:
  assumes absent: "hm_get (simple_store k s) (new_simple_id x) = None"
    and audit: "portfolio_mutation_audit a now (simple_key k @ ''.created'') (simple_target k (new_simple_id x)) c"
  shows "replays (WriteSimple k (new_simple x)) c (simple_create_identity k x)
    (simple_result k \<lparr>mutation_record = new_simple x, mutation_audit_event = a\<rparr>) [] [a] s"
proof -
  have "replay_command m (persistence_capsule (i, outcome_of c (simple_create_identity k x)
      (simple_result k \<lparr>mutation_record = new_simple x, mutation_audit_event = a\<rparr>) [] [a] n)) r =
      Inr (put_simple k (new_simple x) r, a, simple_target k (new_simple_id x), simple_key k @ ''.created'')"
    if "alike r s" for m i n and r :: portfolio_replay
    using absent alike_simple [OF that, of k]
    by (cases k) (simp_all add: replay_command_def persistence_capsule_def outcome_of_def check_simple_create_def
      new_simple_def valid_or_def)
  with mutation_auditD [OF audit] show ?thesis
    unfolding replays_def by (force simp: alike_apply_simple)
qed

lemma simple_update_replays:
  assumes keyed: "stores_keyed s" and r: "hm_get (simple_store k s) (upd_simple_id x) = Some r"
    and version: "simple_version r = upd_simple_expected_version x" "AggregateVersion_next (simple_version r) = Some version"
    and cls: "(upd_simple_classification x = None \<and> cls = simple_classification r) \<or>
      (upd_simple_classification x = Some cls \<and> simple_classification r \<le> cls)"
    and audit: "portfolio_mutation_audit a now (simple_key k @ ''.updated'') (simple_target k (simple_id r)) c"
  shows "replays (WriteSimple k (updated_simple x version cls r)) c (simple_update_identity k x)
    (simple_result k \<lparr>mutation_record = updated_simple x version cls r, mutation_audit_event = a\<rparr>) [] [a] s"
proof -
  from keyed r have id: "simple_id r = upd_simple_id x" using keyed_get [OF stores_keyed_simple] by blast
  have "replay_command m (persistence_capsule (i, outcome_of c (simple_update_identity k x)
      (simple_result k \<lparr>mutation_record = updated_simple x version cls r, mutation_audit_event = a\<rparr>) [] [a] n)) q =
      Inr (put_simple k (updated_simple x version cls r) q, a, simple_target k (simple_id r), simple_key k @ ''.updated'')"
    if "alike q s" for m i n and q :: portfolio_replay
    using r version cls alike_simple [OF that, of k] id
    by (cases k) (auto simp: replay_command_def persistence_capsule_def outcome_of_def check_simple_update_def
      validate_simple_update_def updated_simple_def valid_or_def keeps_or_takes_def combine_eq_max put_simple_def)
  with mutation_auditD [OF audit] show ?thesis
    unfolding replays_def by (force simp: alike_apply_simple)
qed

lemma alike_put_observation: "alike a b \<Longrightarrow> alike (put_observation v a) (put_observation v b)"
  by (auto simp: alike_def stores_keyed_def put_observation_def fun_eq_iff keyed_insert)

lemma put_observation_bookkeeping [simp]:
  "replay_claimed (put_observation v s) = replay_claimed s" "replay_cursor (put_observation v s) = replay_cursor s"
  by (simp_all add: put_observation_def)

lemma alike_kpi: "alike a b \<Longrightarrow> hm_get (kpis a) = hm_get (kpis b)"
  and alike_observation: "alike a b \<Longrightarrow> hm_get (observations a) = hm_get (observations b)"
  by (simp_all add: alike_def)

lemma observation_create_replays:
  assumes "hm_get (observations s) (new_observation_id x) = None"
    and "hm_get (kpis s) (new_observation_kpi_id x) = Some kpi"
    and audit: "portfolio_mutation_audit a now ''kpi.observation.created'' (AuditTarget.KpiObservation (new_observation_id x)) c"
  shows "replays (WriteObservation (new_observation x (kpi_classification kpi) now)) c (observation_create_identity x)
    (PortfolioStoredResult.Observation \<lparr>mutation_record = new_observation x (kpi_classification kpi) now,
      mutation_audit_event = a\<rparr>) [] [a] s"
proof -
  have "replay_command m (persistence_capsule (i, outcome_of c (observation_create_identity x)
      (PortfolioStoredResult.Observation \<lparr>mutation_record = new_observation x (kpi_classification kpi) now,
        mutation_audit_event = a\<rparr>) [] [a] n)) q =
      Inr (put_observation (new_observation x (kpi_classification kpi) now) q, a,
        AuditTarget.KpiObservation (new_observation_id x), ''kpi.observation.created'')"
    if "alike q s" for m i n and q :: portfolio_replay
    using assms alike_kpi [OF that] alike_observation [OF that]
    by (simp add: replay_command_def persistence_capsule_def outcome_of_def check_observation_create_def
      observation_create_identity_def new_observation_def valid_or_def portfolio_mutation_audit_def Let_def split: option.splits)
  with mutation_auditD [OF audit] show ?thesis
    unfolding replays_def by (force simp: alike_put_observation)
qed

lemma observation_update_replays:
  assumes keyed: "stores_keyed s" and obs: "hm_get (observations s) (upd_observation_id x) = Some obs"
    and version: "observation_version obs = upd_observation_expected_version x"
      "AggregateVersion_next (observation_version obs) = Some version"
    and cls: "(upd_observation_classification x = None \<and> cls = observation_classification obs) \<or>
      (upd_observation_classification x = Some cls \<and> observation_classification obs \<le> cls)"
    and kpi: "hm_get (kpis s) (observation_kpi_id obs) = Some kpi"
    and audit: "portfolio_mutation_audit a now ''kpi.observation.updated'' (AuditTarget.KpiObservation (observation_id obs)) c"
  shows "replays (WriteObservation (updated_observation x version now cls (kpi_classification kpi) obs)) c
    (observation_update_identity x)
    (PortfolioStoredResult.Observation \<lparr>mutation_record = updated_observation x version now cls (kpi_classification kpi) obs,
      mutation_audit_event = a\<rparr>) [] [a] s"
proof -
  from keyed obs have id: "observation_id obs = upd_observation_id x"
    by (auto simp: stores_keyed_def dest: keyed_get)
  have "replay_command m (persistence_capsule (i, outcome_of c (observation_update_identity x)
      (PortfolioStoredResult.Observation \<lparr>mutation_record = updated_observation x version now cls (kpi_classification kpi) obs,
        mutation_audit_event = a\<rparr>) [] [a] n)) q =
      Inr (put_observation (updated_observation x version now cls (kpi_classification kpi) obs) q, a,
        AuditTarget.KpiObservation (observation_id obs), ''kpi.observation.updated'')"
    if "alike q s" for m i n and q :: portfolio_replay
    using obs version cls kpi alike_kpi [OF that] alike_observation [OF that] id audit
    by (auto simp: replay_command_def persistence_capsule_def outcome_of_def check_observation_update_def
      observation_update_identity_def updated_observation_def valid_or_def portfolio_mutation_audit_def Let_def
      combine_eq_max put_observation_def)
  with mutation_auditD [OF audit] show ?thesis
    unfolding replays_def by (force simp: alike_put_observation)
qed

lemma fanned_out_length:
  "fanned_out c cls now ids m m' ds ms \<Longrightarrow> length ds = length ids \<and> length ms = length ids"
  by (induction ids arbitrary: m ds ms) auto

lemma fanned_out_check:
  "fanned_out c cls now ids m m' ds ms \<Longrightarrow> hm_get m1 = hm_get m \<Longrightarrow> keyed observation_id m1 \<Longrightarrow>
   capsule_audit_event_ids cap = pre @ map audit_id ds \<Longrightarrow> length pre = n + 1 \<Longrightarrow>
   capsule_correlation_id cap = context_correlation_id c \<Longrightarrow> audit_occurred_at main = now \<Longrightarrow>
   \<forall>a \<in> set ds. hm_get am (audit_id a) = Some a \<Longrightarrow>
     \<exists>m1'. check_derived am cap main cls n (zip ids ms) m1 = Inr m1' \<and> hm_get m1' = hm_get m' \<and>
        keyed observation_id m1'"
proof (induction ids arbitrary: m m1 ds ms pre n)
  case (Cons i ids)
  from Cons.prems(1) obtain v version a ds' ms' where v: "hm_get m i = Some v"
    and version: "AggregateVersion_next (observation_version v) = Some version" and ds: "ds = a # ds'"
    and ms: "ms = \<lparr>derived_observation_id = i, derived_previous_version = observation_version v,
           derived_resulting_version = version, derived_previous_classification = observation_classification v,
           derived_resulting_classification = combine cls (observation_classification v),
           derived_previous_updated_at = observation_updated_at v,
           derived_resulting_updated_at = max now (observation_updated_at v),
           derived_audit_event_id = audit_id a\<rparr> # ms'"
    and audit: "portfolio_mutation_audit a now ''kpi.observation.classification.inherited'' (AuditTarget.KpiObservation i) c"
    and rest: "fanned_out c cls now ids (hm_insert i (v\<lparr>observation_version := version,
             observation_classification := combine cls (observation_classification v),
             observation_updated_at := max now (observation_updated_at v)\<rparr>) m) m' ds' ms'" by auto
  let ?v = "v\<lparr>observation_version := version, observation_classification := combine cls (observation_classification v),
             observation_updated_at := max now (observation_updated_at v)\<rparr>"
  have v1: "hm_get m1 i = Some v" using v Cons.prems(2) by simp
  have "hm_get (hm_insert i ?v m1) = hm_get (hm_insert i ?v m)" using Cons.prems(2) by (simp add: fun_eq_iff)
  moreover have "keyed observation_id (hm_insert i ?v m1)"
    using Cons.prems(3) keyed_get [OF Cons.prems(3) v1] by (simp add: keyed_insert)
  moreover have "capsule_audit_event_ids cap = (pre @ [audit_id a]) @ map audit_id ds'" "length (pre @ [audit_id a]) = (n + 1) + 1"
    using Cons.prems(4,5) ds by simp_all
  moreover note Cons.prems(6,7)
  moreover have "\<forall>a \<in> set ds'. hm_get am (audit_id a) = Some a" using Cons.prems(8) ds by simp
  ultimately have ih: "\<exists>m1'. check_derived am cap main cls (n + 1) (zip ids ms') (hm_insert i ?v m1) = Inr m1' \<and>
        hm_get m1' = hm_get m' \<and> keyed observation_id m1'"
    by (rule Cons.IH [OF rest])
  have "capsule_audit_event_ids cap ! (n + 1) = audit_id a" "n + 1 < length (capsule_audit_event_ids cap)"
    using Cons.prems(4,5) ds by (simp_all add: nth_append)
  moreover have "hm_get am (audit_id a) = Some a" using Cons.prems(8) ds by simp
  ultimately have "check_derived am cap main cls n (zip (i # ids) ms) m1 =
      check_derived am cap main cls (n + 1) (zip ids ms') (hm_insert i ?v m1)"
    using v1 version audit Cons.prems(6,7) by (simp add: ms portfolio_mutation_audit_def valid_or_def Let_def)
  with ih show ?case by (simp add: ds ms)
qed auto

lemma no_affected:
  assumes "portfolio_inv s" and "hm_get (kpis s) i = None"
  shows "affected_ids i cls (observations s) = []"
proof -
  have "observation_kpi_id v \<noteq> i" if "v \<in> set (hm_values (observations s))" for v
  proof -
    from that assms(1) obtain j where "hm_get (observations s) j = Some v"
      by (auto simp: portfolio_inv_def stores_keyed_def keyed_def hm.set_vals)
    then have "hm_get (kpis s) (observation_kpi_id v) \<noteq> None"
      using assms(1) unfolding portfolio_inv_def parents_exist_def by blast
    with assms(2) show ?thesis by auto
  qed
  then show ?thesis by (simp add: affected_ids_def)
qed

lemma alike_put_kpi:
  "alike a b \<Longrightarrow> keyed observation_id m \<Longrightarrow> keyed observation_id m' \<Longrightarrow> hm_get m = hm_get m' \<Longrightarrow>
     alike ((put_kpi v a)\<lparr>observations := m\<rparr>) ((put_kpi v b)\<lparr>observations := m'\<rparr>)"
  by (auto simp: alike_def stores_keyed_def put_kpi_def fun_eq_iff keyed_insert)

lemma kpi_create_replays:
  assumes inv: "portfolio_inv s" and absent: "hm_get (kpis s) (new_kpi_id x) = None"
    and audit: "portfolio_mutation_audit a now ''kpi.definition.created'' (AuditTarget.Kpi (new_kpi_id x)) c"
  shows "replays (WriteKpi (new_kpi x) (observations s)) c (kpi_create_identity x)
    (PortfolioStoredResult.Kpi \<lparr>mutation_record = new_kpi x, mutation_audit_event = a\<rparr>) [] [a] s"
proof -
  have "replay_command m (persistence_capsule (i, outcome_of c (kpi_create_identity x)
      (PortfolioStoredResult.Kpi \<lparr>mutation_record = new_kpi x, mutation_audit_event = a\<rparr>) [] [a] n)) q =
      Inr (put_kpi (new_kpi x) q, a, AuditTarget.Kpi (new_kpi_id x), ''kpi.definition.created'')"
    if "alike q s" for m i n and q :: portfolio_replay
    using absent alike_kpi [OF that]
    by (simp add: replay_command_def persistence_capsule_def outcome_of_def check_kpi_create_def
      kpi_create_identity_def new_kpi_def valid_or_def)
  moreover have "alike (put_kpi (new_kpi x) q) (apply_write (WriteKpi (new_kpi x) (observations s)) s)"
    if "alike q s" for q :: portfolio_replay
    using that by (auto simp: alike_def stores_keyed_def put_kpi_def fun_eq_iff keyed_insert)
  moreover have "replay_claimed (put_kpi (new_kpi x) q) = replay_claimed q"
    "replay_cursor (put_kpi (new_kpi x) q) = replay_cursor q" for q
    by (simp_all add: put_kpi_def)
  ultimately show ?thesis
    using mutation_auditD [OF audit]
    by (intro replaysI [where target = "AuditTarget.Kpi (new_kpi_id x)" and code = "''kpi.definition.created''"])
      (simp_all only: list.size list.sel, auto)
qed

lemma kpi_update_replays:
  assumes keyed: "stores_keyed s" and kr: "hm_get (kpis s) (upd_kpi_id x) = Some kr"
    and version: "kpi_version kr = upd_kpi_expected_version x" "AggregateVersion_next (kpi_version kr) = Some version"
    and cls: "(upd_kpi_classification x = None \<and> cls = kpi_classification kr) \<or>
      (upd_kpi_classification x = Some cls \<and> kpi_classification kr \<le> cls)"
    and audit: "portfolio_mutation_audit a now ''kpi.definition.updated'' (AuditTarget.Kpi (kpi_id kr)) c"
    and fanned: "fanned_out c cls now (affected_ids (kpi_id kr) cls (observations s)) (observations s) m as ms"
  shows "replays (WriteKpi (updated_kpi x version cls kr) m) c (kpi_update_identity x)
    (PortfolioStoredResult.Kpi \<lparr>mutation_record = updated_kpi x version cls kr, mutation_audit_event = a\<rparr>) ms (a # as) s"
proof -
  let ?r = "updated_kpi x version cls kr"
  let ?out = "PortfolioStoredResult.Kpi \<lparr>mutation_record = ?r, mutation_audit_event = a\<rparr>"
  from keyed kr have id: "kpi_id kr = upd_kpi_id x" by (auto simp: stores_keyed_def dest: keyed_get)
  from keyed have obs: "keyed observation_id (observations s)" by (simp add: stores_keyed_def)
  have m: "keyed observation_id m" using fanned_out_observations [OF fanned obs] by blast
  note lens = fanned_out_length [OF fanned]
  show ?thesis
  proof (rule replaysI [where target = "AuditTarget.Kpi (kpi_id kr)" and code = "''kpi.definition.updated''"])
    fix am n and q :: portfolio_replay
    assume q: "alike q s" and found: "\<forall>b \<in> set (a # as). hm_get am (audit_id b) = Some b"
    let ?cap = "persistence_capsule (context_idempotency_id c, outcome_of c (kpi_update_identity x) ?out ms (a # as) n)"
    from q have qobs: "keyed observation_id (observations q)" by (simp add: alike_def stores_keyed_def)
    have affected: "affected_ids (kpi_id kr) cls (observations q) = affected_ids (kpi_id kr) cls (observations s)"
      by (rule affected_ids_same [OF qobs obs alike_observation [OF q]])
    have "capsule_audit_event_ids ?cap = [audit_id a] @ map audit_id as"
      "capsule_correlation_id ?cap = context_correlation_id c" "audit_occurred_at a = now"
      using audit by (simp_all add: persistence_capsule_def outcome_of_def portfolio_mutation_audit_def)
    then obtain m1 where m1: "check_derived am ?cap a cls 0
        (zip (affected_ids (kpi_id kr) cls (observations s)) ms) (observations q) = Inr m1"
      and same: "hm_get m1 = hm_get m" and k1: "keyed observation_id m1"
      using fanned_out_check [OF fanned alike_observation [OF q] qobs, of ?cap "[audit_id a]" 0 a am] found by auto
    let ?q = "(put_kpi ?r q)\<lparr>observations := m1\<rparr>"
    have "replay_command am ?cap q = Inr (?q, a, AuditTarget.Kpi (kpi_id kr), ''kpi.definition.updated'')"
      using kr version cls alike_kpi [OF q] id m1 lens affected
      by (auto simp: replay_command_def persistence_capsule_def outcome_of_def check_kpi_update_def
        kpi_update_identity_def updated_kpi_def valid_or_def keeps_or_takes_def combine_eq_max put_kpi_def Let_def)
    moreover have "alike ?q (apply_write (WriteKpi ?r m) s)"
      using alike_put_kpi [OF q k1 m same] by simp
    moreover have "replay_claimed ?q = replay_claimed q" "replay_cursor ?q = replay_cursor q"
      by (simp_all add: put_kpi_def)
    ultimately show "\<exists>r'. replay_command am ?cap q = Inr (r', hd (a # as), AuditTarget.Kpi (kpi_id kr), ''kpi.definition.updated'') \<and>
        alike r' (apply_write (WriteKpi ?r m) s) \<and> replay_claimed r' = replay_claimed q \<and> replay_cursor r' = replay_cursor q"
      by (intro exI [of _ ?q]) simp
  qed (use lens mutation_auditD [OF audit] in \<open>simp_all add: kpi_update_identity_def\<close>)
qed

section \<open>Every ordinary run is recorded\<close>

lemma kpi_committed_parts:
  assumes "kpi_committed c command code r out s t"
  obtains a now m as ms where "portfolio_mutation_audit a now code (AuditTarget.Kpi (kpi_id r)) c"
    and "out = PortfolioStoredResult.Kpi \<lparr>mutation_record = r, mutation_audit_event = a\<rparr>"
    and "fanned_out c (kpi_classification r) now
      (affected_ids (kpi_id r) (kpi_classification r) (observations s)) (observations s) m as ms"
    and "wrote (WriteKpi r m) c command out ms (a # as) s t"
  using assms unfolding kpi_committed_def wrote_eqs by blast

lemma recorded_write:
  assumes "portfolio_inv s" and "recorded s" and "wrote w c command out ms as s t" and "fresh_key c s"
    and "sound_write w s" and "replays w c command out ms as s"
  shows "recorded t"
  using assms(1) recorded_step [OF assms(3,4,2) sound_write_keeps(1) [OF _ _ assms(5)] assms(6)]
  by (simp add: portfolio_inv_def)

lemma kpi_created_recorded:
  assumes inv: "portfolio_inv s" and rec: "recorded s" and key: "fresh_key (new_kpi_context x) s"
    and absent: "hm_get (kpis s) (new_kpi_id x) = None"
    and commit: "kpi_committed (new_kpi_context x) (kpi_create_identity x) ''kpi.definition.created'' (new_kpi x) out s t"
  shows "recorded t"
  using commit
proof (rule kpi_committed_parts)
  fix a now m as ms
  assume a: "portfolio_mutation_audit a now ''kpi.definition.created'' (AuditTarget.Kpi (kpi_id (new_kpi x))) (new_kpi_context x)"
    and out: "out = PortfolioStoredResult.Kpi \<lparr>mutation_record = new_kpi x, mutation_audit_event = a\<rparr>"
    and f: "fanned_out (new_kpi_context x) (kpi_classification (new_kpi x)) now
      (affected_ids (kpi_id (new_kpi x)) (kpi_classification (new_kpi x)) (observations s)) (observations s) m as ms"
    and w: "wrote (WriteKpi (new_kpi x) m) (new_kpi_context x) (kpi_create_identity x) out ms (a # as) s t"
  have id: "kpi_id (new_kpi x) = new_kpi_id x" by (simp add: new_kpi_def)
  from f have eqs: "m = observations s" "as = []" "ms = []"
    unfolding id no_affected [OF inv absent] by simp_all
  have "sound_write (WriteKpi (new_kpi x) (observations s)) s"
    using inv by (simp add: portfolio_inv_def stores_keyed_def)
  with w show ?thesis
    using recorded_write [OF inv rec _ key _ kpi_create_replays [OF inv absent a [unfolded id]]]
    by (simp add: eqs out)
qed

lemma kpi_updated_recorded:
  assumes inv: "portfolio_inv s" and rec: "recorded s" and key: "fresh_key (upd_kpi_context x) s"
    and found: "hm_get (kpis s) (upd_kpi_id x) = Some kr" "kpi_version kr = upd_kpi_expected_version x"
      "AggregateVersion_next (kpi_version kr) = Some version"
      "(upd_kpi_classification x = None \<and> cls = kpi_classification kr) \<or>
        (upd_kpi_classification x = Some cls \<and> kpi_classification kr \<le> cls)"
    and commit: "kpi_committed (upd_kpi_context x) (kpi_update_identity x) ''kpi.definition.updated''
      (updated_kpi x version cls kr) out s t"
  shows "recorded t"
  using commit
proof (rule kpi_committed_parts)
  fix a now m as ms
  let ?r = "updated_kpi x version cls kr"
  assume a: "portfolio_mutation_audit a now ''kpi.definition.updated'' (AuditTarget.Kpi (kpi_id ?r)) (upd_kpi_context x)"
    and out: "out = PortfolioStoredResult.Kpi \<lparr>mutation_record = ?r, mutation_audit_event = a\<rparr>"
    and f: "fanned_out (upd_kpi_context x) (kpi_classification ?r) now
      (affected_ids (kpi_id ?r) (kpi_classification ?r) (observations s)) (observations s) m as ms"
    and w: "wrote (WriteKpi ?r m) (upd_kpi_context x) (kpi_update_identity x) out ms (a # as) s t"
  from inv have keyed: "stores_keyed s" by (simp add: portfolio_inv_def)
  have id: "kpi_id ?r = kpi_id kr" "kpi_classification ?r = cls" by (simp_all add: updated_kpi_def)
  have "sound_write (WriteKpi ?r m) s"
    using fanned_out_observations [OF f] keyed by (simp add: stores_keyed_def)
  with w show ?thesis
    using recorded_write [OF inv rec _ key _ kpi_update_replays [OF keyed found a [unfolded id] f [unfolded id]]]
    by (simp add: out)
qed

lemma observation_created_recorded:
  assumes inv: "portfolio_inv s" and rec: "recorded s" and key: "fresh_key (new_observation_context x) s"
    and found: "hm_get (observations s) (new_observation_id x) = None" "hm_get (kpis s) (new_observation_kpi_id x) = Some kpi"
    and commit: "observation_committed (new_observation_context x) (observation_create_identity x)
      ''kpi.observation.created'' (new_observation x (kpi_classification kpi) now) now out s t"
  shows "recorded t"
proof -
  from observation_committed_wrote [OF commit] obtain a where
    a: "portfolio_mutation_audit a now ''kpi.observation.created'' (AuditTarget.KpiObservation (new_observation_id x)) (new_observation_context x)"
    and out: "out = PortfolioStoredResult.Observation
      \<lparr>mutation_record = new_observation x (kpi_classification kpi) now, mutation_audit_event = a\<rparr>"
    and w: "wrote (WriteObservation (new_observation x (kpi_classification kpi) now)) (new_observation_context x)
      (observation_create_identity x) out [] [a] s t" by (auto simp: new_observation_def)
  show ?thesis
    by (rule recorded_write [OF inv rec w key _ observation_create_replays [OF found a, folded out]])
      (use found in \<open>simp add: new_observation_def\<close>)
qed

lemma observation_updated_recorded:
  assumes inv: "portfolio_inv s" and rec: "recorded s" and key: "fresh_key (upd_observation_context x) s"
    and found: "hm_get (observations s) (upd_observation_id x) = Some obs"
      "observation_version obs = upd_observation_expected_version x"
      "AggregateVersion_next (observation_version obs) = Some version"
      "(upd_observation_classification x = None \<and> cls = observation_classification obs) \<or>
        (upd_observation_classification x = Some cls \<and> observation_classification obs \<le> cls)"
      "hm_get (kpis s) (observation_kpi_id obs) = Some kpi"
    and commit: "observation_committed (upd_observation_context x) (observation_update_identity x)
      ''kpi.observation.updated'' (updated_observation x version now cls (kpi_classification kpi) obs) now out s t"
  shows "recorded t"
proof -
  from observation_committed_wrote [OF commit] obtain a where
    a: "portfolio_mutation_audit a now ''kpi.observation.updated'' (AuditTarget.KpiObservation (observation_id obs)) (upd_observation_context x)"
    and out: "out = PortfolioStoredResult.Observation
      \<lparr>mutation_record = updated_observation x version now cls (kpi_classification kpi) obs, mutation_audit_event = a\<rparr>"
    and w: "wrote (WriteObservation (updated_observation x version now cls (kpi_classification kpi) obs))
      (upd_observation_context x) (observation_update_identity x) out [] [a] s t" by (auto simp: updated_observation_def)
  from inv have keyed: "stores_keyed s" by (simp add: portfolio_inv_def)
  show ?thesis
    by (rule recorded_write [OF inv rec w key _ observation_update_replays [OF keyed found a, folded out]])
      (use found in \<open>simp add: updated_observation_def\<close>)
qed

lemma ordinary_commit_recorded:
  assumes "ordinary_commit s t" and inv: "portfolio_inv s" and rec: "recorded s"
  shows "recorded t"
  using assms(1)
proof cases
  case (simple_created x k a now)
  show ?thesis
    by (rule recorded_write [OF inv rec simple_created(4,1) _ simple_create_replays [OF simple_created(2,3)]]) simp
next
  case (simple_updated x k r version cls a now)
  from inv have keyed: "stores_keyed s" by (simp add: portfolio_inv_def)
  show ?thesis
    by (rule recorded_write [OF inv rec simple_updated(7,1) _ simple_update_replays [OF keyed simple_updated(2-6)]]) simp
next
  case (kpi_created x out)
  show ?thesis by (rule kpi_created_recorded [OF inv rec kpi_created])
next
  case (kpi_updated x kr version cls out)
  show ?thesis by (rule kpi_updated_recorded [OF inv rec kpi_updated])
next
  case (observation_created x kpi now out)
  show ?thesis by (rule observation_created_recorded [OF inv rec observation_created])
next
  case (observation_updated x obs version cls kpi now out)
  show ?thesis by (rule observation_updated_recorded [OF inv rec observation_updated])
qed

end
