(* ===== verification/Portfolio_Properties.thy ===== *)
theory Portfolio_Properties
  imports Portfolio_Replay
begin

text \<open>
  What the Portfolio service promises: ordinary runs keep a history that the timeline check accepts and
  that survives a restart, observations are at least as restricted as their KPI definition, no ordinary
  command lowers a classification, an answered command is answered the same for ever, and an approved
  lowering ends the snapshots the check accepts.
\<close>

section \<open>Fan-out\<close>

text \<open>What a fan-out makes of an observation.\<close>

definition raised_observation ::
  "entity_id \<Rightarrow> DataClassification \<Rightarrow> UtcTimestamp \<Rightarrow> KpiObservationRecord \<Rightarrow> KpiObservationRecord" where
  "raised_observation kpi cls now v =
     (if observation_kpi_id v = kpi \<and> observation_classification v < cls
      then v\<lparr>observation_version := AggregateVersion (version_get (observation_version v) + 1),
             observation_classification := cls, observation_updated_at := max now (observation_updated_at v)\<rparr>
      else v)"

lemma combine_changes: "combine cls c \<noteq> c \<longleftrightarrow> c < cls" for c cls :: DataClassification
  by (auto simp: combine_eq_max max_def)

lemma next_version_value: "AggregateVersion_next v = Some w \<Longrightarrow> w = AggregateVersion (version_get v + 1)"
  by (auto simp: AggregateVersion_next_def checked_add_u64_def split: if_splits)

lemma fanned_out_get:
  "fanned_out c cls now ids m m' as ms \<Longrightarrow> distinct ids \<Longrightarrow>
     hm_get m' i = (if i \<in> set ids then map_option (\<lambda>v. v\<lparr>
        observation_version := AggregateVersion (version_get (observation_version v) + 1),
        observation_classification := combine cls (observation_classification v),
        observation_updated_at := max now (observation_updated_at v)\<rparr>) (hm_get m i) else hm_get m i)"
proof (induction ids arbitrary: m as ms)
  case (Cons j ids)
  from Cons.prems(1) obtain v version a as' ms' where v: "hm_get m j = Some v"
    and version: "AggregateVersion_next (observation_version v) = Some version"
    and rest: "fanned_out c cls now ids (hm_insert j (v\<lparr>observation_version := version,
             observation_classification := combine cls (observation_classification v),
             observation_updated_at := max now (observation_updated_at v)\<rparr>) m) m' as' ms'" by auto
  from Cons.IH [OF rest] Cons.prems(2) v next_version_value [OF version] show ?case by auto
qed simp

lemma fanned_out_successors:
  "fanned_out c cls now ids m m' as ms \<Longrightarrow> distinct ids \<Longrightarrow> i \<in> set ids \<Longrightarrow> hm_get m i = Some v \<Longrightarrow>
     AggregateVersion_next (observation_version v) \<noteq> None"
proof (induction ids arbitrary: m as ms)
  case (Cons j ids)
  then show ?case by (cases "i = j") (auto elim!: Cons.IH)
qed simp

lemma affected_member:
  assumes "keyed observation_id m"
  shows "i \<in> set (affected_ids kpi cls m) \<longleftrightarrow>
    (\<exists>v. hm_get m i = Some v \<and> observation_kpi_id v = kpi \<and> observation_classification v < cls)"
proof -
  have "hm_wf m" "\<And>i v. hm_get m i = Some v \<Longrightarrow> observation_id v = i"
    using assms by (simp_all add: keyed_def)
  then show ?thesis by (auto simp: affected_ids_def combine_changes hm.set_vals image_iff)
qed

lemma affected_distinct: "keyed observation_id m \<Longrightarrow> distinct (affected_ids kpi cls m)"
  unfolding affected_ids_def using keyed_distinct [of observation_id m] by (simp add: distinct_map_filter)

lemma fanned_out_raises:
  assumes "fanned_out c cls now (affected_ids kpi cls m) m m' as ms" and "keyed observation_id m"
  shows "hm_get m' i = map_option (raised_observation kpi cls now) (hm_get m i)"
  unfolding fanned_out_get [OF assms(1) affected_distinct [OF assms(2)]] affected_member [OF assms(2)]
  by (cases "hm_get m i") (auto simp: raised_observation_def combine_eq_max max_def)

lemma fanned_out_audits:
  "fanned_out c cls now ids m m' as ms \<Longrightarrow>
     list_all2 (\<lambda>i e. portfolio_mutation_audit e now ''kpi.observation.classification.inherited''
       (AuditTarget.KpiObservation i) c) ids as"
  by (induction ids arbitrary: m as ms) auto

lemma kpi_write_observations:
  assumes inv: "portfolio_inv s" and commit: "kpi_committed c command code r out s t"
  obtains a now as where "hm_get (kpis t) = (hm_get (kpis s))(kpi_id r \<mapsto> r)"
    and "\<And>i. hm_get (observations t) i =
      map_option (raised_observation (kpi_id r) (kpi_classification r) now) (hm_get (observations s) i)"
    and "out = PortfolioStoredResult.Kpi \<lparr>mutation_record = r, mutation_audit_event = a\<rparr>"
    and "portfolio_audit_events t = portfolio_audit_events s @ a # as"
    and "portfolio_mutation_audit a now code (AuditTarget.Kpi (kpi_id r)) c"
    and "list_all2 (\<lambda>i e. portfolio_mutation_audit e now ''kpi.observation.classification.inherited''
      (AuditTarget.KpiObservation i) c) (affected_ids (kpi_id r) (kpi_classification r) (observations s)) as"
    and "portfolios t = portfolios s" and "products t = products s" and "roadmaps t = roadmaps s"
    and "\<And>i v. hm_get (observations s) i = Some v \<Longrightarrow> AggregateVersion_next (observation_version v) \<noteq> None \<or>
      raised_observation (kpi_id r) (kpi_classification r) now v = v"
proof -
  from inv have obs: "keyed observation_id (observations s)" by (simp add: portfolio_inv_def stores_keyed_def)
  from commit show thesis
  proof (rule kpi_committed_parts)
    fix a now m as ms
    assume a: "portfolio_mutation_audit a now code (AuditTarget.Kpi (kpi_id r)) c"
      and out: "out = PortfolioStoredResult.Kpi \<lparr>mutation_record = r, mutation_audit_event = a\<rparr>"
      and f: "fanned_out c (kpi_classification r) now
        (affected_ids (kpi_id r) (kpi_classification r) (observations s)) (observations s) m as ms"
      and w: "wrote (WriteKpi r m) c command out ms (a # as) s t"
    have nxt: "AggregateVersion_next (observation_version v) \<noteq> None \<or>
        raised_observation (kpi_id r) (kpi_classification r) now v = v" if "hm_get (observations s) i = Some v" for i v
      using fanned_out_successors [OF f affected_distinct [OF obs] _ that] that
      by (auto simp: affected_member [OF obs] raised_observation_def)
    show thesis
      by (rule that [OF _ _ out wrote_state(2) [OF w] a fanned_out_audits [OF f] _ _ _ nxt])
        (use wrote_state(1) [OF w] fanned_out_raises [OF f obs] in
          \<open>auto simp: same_stores_def put_kpi_def fun_eq_iff\<close>)
  qed
qed

section \<open>Observations are at least as restricted as their KPI definition\<close>

definition inherits_classification :: "'a portfolio_stores_scheme \<Rightarrow> bool" where
  "inherits_classification s \<longleftrightarrow>
     (\<forall>i v k. hm_get (observations s) i = Some v \<longrightarrow> hm_get (kpis s) (observation_kpi_id v) = Some k \<longrightarrow>
        kpi_classification k \<le> observation_classification v)"

lemma raised_fields:
  "observation_kpi_id (raised_observation kpi cls now v) = observation_kpi_id v"
  "observation_classification (raised_observation kpi cls now v) =
     (if observation_kpi_id v = kpi then max cls (observation_classification v) else observation_classification v)"
  by (auto simp: raised_observation_def max_def)

lemma kpi_write_inherits:
  assumes "portfolio_inv s" and "inherits_classification s" and "kpi_committed c command code r out s t"
  shows "inherits_classification t"
  using assms(1,3)
proof (rule kpi_write_observations)
  fix now
  assume kpis: "hm_get (kpis t) = (hm_get (kpis s))(kpi_id r \<mapsto> r)"
    and obs: "\<And>i. hm_get (observations t) i =
      map_option (raised_observation (kpi_id r) (kpi_classification r) now) (hm_get (observations s) i)"
  show ?thesis
    using assms(2) unfolding inherits_classification_def obs kpis
    by (auto simp: raised_fields le_max_iff_disj split: if_splits)
qed

lemma observation_write_inherits:
  assumes "inherits_classification s" and "observation_committed c command code v now out s t"
    and "hm_get (kpis s) (observation_kpi_id v) = Some k" and "kpi_classification k \<le> observation_classification v"
  shows "inherits_classification t"
proof -
  from observation_committed_wrote [OF assms(2)] obtain a where
    "wrote (WriteObservation v) c command out [] [a] s t" by blast
  from wrote_state(1) [OF this] show ?thesis
    using assms(1,3,4) by (auto simp: inherits_classification_def same_stores_def put_observation_def)
qed

lemma simple_write_inherits:
  "inherits_classification s \<Longrightarrow> wrote (WriteSimple k r) c command out ms as s t \<Longrightarrow> inherits_classification t"
  by (drule wrote_state(1), cases k)
    (auto simp: inherits_classification_def same_stores_def put_simple_def put_simple_at_def)

lemma ordinary_commit_inherits:
  assumes "ordinary_commit s t" and "portfolio_inv s" and inherits: "inherits_classification s"
  shows "inherits_classification t"
  using assms(1)
proof cases
  case (simple_created x k a now)
  show ?thesis by (rule simple_write_inherits [OF inherits simple_created(4)])
next
  case (simple_updated x k r version cls a now)
  show ?thesis by (rule simple_write_inherits [OF inherits simple_updated(7)])
next
  case (kpi_created x out)
  show ?thesis by (rule kpi_write_inherits [OF assms(2) inherits kpi_created(3)])
next
  case (kpi_updated x kr version cls out)
  show ?thesis by (rule kpi_write_inherits [OF assms(2) inherits kpi_updated(6)])
next
  case (observation_created x kpi now out)
  show ?thesis
    by (rule observation_write_inherits [OF inherits observation_created(4)])
      (use observation_created(3) in \<open>auto simp: new_observation_def combine_eq_max split: option.splits\<close>)
next
  case (observation_updated x obs version cls kpi now out)
  show ?thesis
    by (rule observation_write_inherits [OF inherits observation_updated(7)])
      (use observation_updated(6) in \<open>auto simp: updated_observation_def combine_eq_max\<close>)
qed

section \<open>Records only grow\<close>

definition record_later :: "('r \<Rightarrow> AggregateVersion) \<Rightarrow> ('r \<Rightarrow> DataClassification)
    \<Rightarrow> (entity_id \<times> 'r) list \<Rightarrow> (entity_id \<times> 'r) list \<Rightarrow> bool" where
  "record_later version cls m m' \<longleftrightarrow>
     (\<forall>i r. hm_get m i = Some r \<longrightarrow>
        (\<exists>r'. hm_get m' i = Some r' \<and> version r \<le> version r' \<and> cls r \<le> cls r'))"

definition records_later :: "'a portfolio_stores_scheme \<Rightarrow> 'b portfolio_stores_scheme \<Rightarrow> bool" where
  "records_later s t \<longleftrightarrow>
     (\<forall>k. record_later simple_version simple_classification (simple_store k s) (simple_store k t)) \<and>
     record_later kpi_version kpi_classification (kpis s) (kpis t) \<and>
     record_later observation_version observation_classification (observations s) (observations t)"

lemma record_later_refl: "hm_get m = hm_get m' \<Longrightarrow> record_later version cls m m'"
  by (simp add: record_later_def)

lemma record_later_trans:
  "record_later version cls a b \<Longrightarrow> record_later version cls b c \<Longrightarrow> record_later version cls a c"
  unfolding record_later_def by (meson order_trans)

lemma record_later_put:
  "(\<And>r. hm_get m i = Some r \<Longrightarrow> version r \<le> version v \<and> cls r \<le> cls v) \<Longrightarrow>
     record_later version cls m (hm_insert i v m)"
  by (simp add: record_later_def)

lemma alike_later: "alike s t \<Longrightarrow> records_later s t"
  using alike_simple [of s t] by (simp add: alike_def records_later_def record_later_refl)

lemma records_later_trans: "records_later a b \<Longrightarrow> records_later b c \<Longrightarrow> records_later a c"
  unfolding records_later_def by (blast intro: record_later_trans)

lemma same_stores_later: "same_stores a b \<Longrightarrow> records_later c b \<Longrightarrow> records_later c a"
  using same_stores_simple [of a b] by (simp add: records_later_def same_stores_def)

lemma put_simple_later:
  assumes "\<And>r. hm_get (simple_store k s) (simple_id v) = Some r \<Longrightarrow>
      simple_version r \<le> simple_version v \<and> simple_classification r \<le> simple_classification v"
  shows "records_later s (put_simple k v s)"
  using assms record_later_put [where m = "simple_store k s" and i = "simple_id v" and v = v
      and version = simple_version and cls = simple_classification]
  by (cases k; auto simp: records_later_def put_simple_def put_simple_at_def simple_store_def record_later_refl
    split: simple_kind.splits)

lemma put_observation_later:
  assumes "\<And>r. hm_get (observations s) (observation_id v) = Some r \<Longrightarrow>
      observation_version r \<le> observation_version v \<and> observation_classification r \<le> observation_classification v"
  shows "records_later s (put_observation v s)"
  using assms
  by (auto simp: records_later_def put_observation_def simple_store_def record_later_refl
    intro!: record_later_put split: simple_kind.splits)

lemma raised_later:
  assumes "AggregateVersion_next (observation_version v) \<noteq> None \<or>
    raised_observation kpi cls now v = v"
  shows "observation_version v \<le> observation_version (raised_observation kpi cls now v) \<and>
    observation_classification v \<le> observation_classification (raised_observation kpi cls now v)"
  using assms next_version_value AggregateVersion_next_less
  by (cases "AggregateVersion_next (observation_version v)")
    (force simp: raised_observation_def order.strict_implies_order)+

lemma kpi_commit_later:
  assumes "portfolio_inv s" and "kpi_committed c command code r out s t"
    and "\<And>k. hm_get (kpis s) (kpi_id r) = Some k \<Longrightarrow>
      kpi_version k \<le> kpi_version r \<and> kpi_classification k \<le> kpi_classification r"
  shows "records_later s t"
  using assms(1,2)
proof (rule kpi_write_observations)
  fix now
  assume kpis: "hm_get (kpis t) = (hm_get (kpis s))(kpi_id r \<mapsto> r)"
    and obs: "\<And>i. hm_get (observations t) i =
      map_option (raised_observation (kpi_id r) (kpi_classification r) now) (hm_get (observations s) i)"
    and rest: "portfolios t = portfolios s" "products t = products s" "roadmaps t = roadmaps s"
    and nxt: "\<And>i v. hm_get (observations s) i = Some v \<Longrightarrow> AggregateVersion_next (observation_version v) \<noteq> None \<or>
      raised_observation (kpi_id r) (kpi_classification r) now v = v"
  have "simple_store k t = simple_store k s" for k using rest by (cases k) (simp_all add: simple_store_def)
  then show ?thesis
    using assms(3) raised_later [OF nxt]
    by (auto simp: records_later_def record_later_refl record_later_def kpis obs)
qed

lemma observation_commit_later:
  assumes "observation_committed c command code v now out s t"
    and "\<And>r. hm_get (observations s) (observation_id v) = Some r \<Longrightarrow>
      observation_version r \<le> observation_version v \<and> observation_classification r \<le> observation_classification v"
  shows "records_later s t"
proof -
  from observation_committed_wrote [OF assms(1)] obtain a where
    w: "wrote (WriteObservation v) c command out [] [a] s t" by blast
  show ?thesis
    by (rule same_stores_later [OF wrote_state(1) [OF w, simplified]]) (rule put_observation_later [OF assms(2)])
qed

lemma simple_commit_later:
  assumes "wrote (WriteSimple k v) c command out ms as s t"
    and "\<And>r. hm_get (simple_store k s) (simple_id v) = Some r \<Longrightarrow>
      simple_version r \<le> simple_version v \<and> simple_classification r \<le> simple_classification v"
  shows "records_later s t"
  by (rule same_stores_later [OF wrote_state(1) [OF assms(1), simplified]]) (rule put_simple_later [OF assms(2)])

lemma ordinary_commit_later:
  assumes "ordinary_commit s t" and inv: "portfolio_inv s"
  shows "records_later s t"
proof -
  have keyed: "stores_keyed s" using inv by (simp add: portfolio_inv_def)
  from assms(1) show ?thesis
  proof cases
    case (simple_created x k a now)
    show ?thesis
      by (rule simple_commit_later [OF simple_created(4)]) (use simple_created(2) in \<open>simp add: new_simple_def\<close>)
  next
    case (simple_updated x k r version cls a now)
    have "simple_id r = upd_simple_id x" using keyed_get [OF stores_keyed_simple [OF keyed] simple_updated(2)] .
    with simple_updated show ?thesis
      by (intro simple_commit_later [OF simple_updated(7)])
        (auto simp: updated_simple_def dest: AggregateVersion_next_less)
  next
    case (kpi_created x out)
    show ?thesis
      by (rule kpi_commit_later [OF inv kpi_created(3)]) (use kpi_created(2) in \<open>simp_all add: new_kpi_def\<close>)
  next
    case (kpi_updated x kr version cls out)
    have "kpi_id kr = upd_kpi_id x" using kpi_updated(2) keyed by (auto simp: stores_keyed_def dest: keyed_get)
    with kpi_updated show ?thesis
      by (intro kpi_commit_later [OF inv kpi_updated(6)]) (auto simp: updated_kpi_def dest: AggregateVersion_next_less)
  next
    case (observation_created x kpi now out)
    show ?thesis
      by (rule observation_commit_later [OF observation_created(4)])
        (use observation_created(2) in \<open>simp add: new_observation_def\<close>)
  next
    case (observation_updated x obs version cls kpi now out)
    have "observation_id obs = upd_observation_id x"
      using observation_updated(2) keyed by (auto simp: stores_keyed_def dest: keyed_get)
    with observation_updated show ?thesis
      by (intro observation_commit_later [OF observation_updated(7)])
        (auto simp: updated_observation_def combine_eq_max le_max_iff_disj dest: AggregateVersion_next_less)
  qed
qed

section \<open>Ordinary runs\<close>

definition ordinary_inv :: "'w portfolio_service \<Rightarrow> bool" where
  "ordinary_inv s \<longleftrightarrow> portfolio_inv s \<and> recorded s \<and> inherits_classification s"

abbreviation ordinary_only :: "'w portfolio_command \<Rightarrow> 'w portfolio_ports \<Rightarrow> 'w portfolio_service \<Rightarrow> 'w portfolio_service" where
  "ordinary_only c P s \<equiv> (if approves_lowering c then s else portfolio_step P c s)"

lemma unchanged_inherits: "unchanged s t \<Longrightarrow> inherits_classification s \<Longrightarrow> inherits_classification t"
  by (simp add: unchanged_def alike_def inherits_classification_def)

lemma ordinary_only_keeps:
  assumes "ordinary_inv s"
  shows "ordinary_inv (ordinary_only c P s)" and "records_later s (ordinary_only c P s)"
proof -
  from assms have inv: "portfolio_inv s" "recorded s" "inherits_classification s" by (simp_all add: ordinary_inv_def)
  have "ordinary_inv t \<and> records_later s t" if "unchanged s t" for t
    using unchanged_inv [OF that inv(1)] unchanged_recorded [OF that inv(2)] unchanged_inherits [OF that inv(3)]
      alike_later [of s t] that by (simp add: ordinary_inv_def unchanged_def)
  moreover have "ordinary_inv t \<and> records_later s t" if "ordinary_commit s t" for t
    using ordinary_commit_inv [OF that inv(1)] ordinary_commit_recorded [OF that inv(1,2)]
      ordinary_commit_inherits [OF that inv(1,3)] ordinary_commit_later [OF that inv(1)]
    by (simp add: ordinary_inv_def)
  moreover have "records_later s s" by (simp add: records_later_def record_later_refl)
  ultimately show "ordinary_inv (ordinary_only c P s)" "records_later s (ordinary_only c P s)"
    using ordinary_step [OF inv(1), of c P] assms by (cases "approves_lowering c"; fastforce)+
qed

interpretation ordinary_machine: monotone_system "\<lambda>c. ordinary_only c P" ordinary_inv records_later for P
proof
  fix s t u :: "'a portfolio_service" and c
  show "ordinary_inv s \<Longrightarrow> ordinary_inv (ordinary_only c P s)" by (rule ordinary_only_keeps)
  show "records_later s s" by (simp add: records_later_def record_later_refl)
  show "records_later s t \<Longrightarrow> records_later t u \<Longrightarrow> records_later s u" by (rule records_later_trans)
  show "ordinary_inv s \<Longrightarrow> records_later s (ordinary_only c P s)" by (rule ordinary_only_keeps)
qed

definition ordinary_run :: "'w portfolio_command list \<Rightarrow> bool" where
  "ordinary_run cs \<longleftrightarrow> list_all (\<lambda>c. \<not> approves_lowering c) cs"

lemma ordinary_run_fold:
  "ordinary_run cs \<Longrightarrow> fold (portfolio_step P) cs s = fold (\<lambda>c. ordinary_only c P) cs s"
  by (induction cs arbitrary: s) (simp_all add: ordinary_run_def)

lemma ordinary_inv_new: "ordinary_inv (InMemoryPortfolioService_new w)"
proof -
  have "recorded (InMemoryPortfolioService_new w)"
    by (simp add: recorded_def replayed_history_def InMemoryPortfolioService_new_def empty_replay_def alike_def
      stores_keyed_def keyed_def)
  then show ?thesis
    using portfolio_inv_new [of w]
    by (simp add: ordinary_inv_def inherits_classification_def InMemoryPortfolioService_new_def)
qed

lemma ordinary_run_inv:
  "ordinary_run cs \<Longrightarrow> ordinary_inv (fold (portfolio_step P) cs (InMemoryPortfolioService_new w))"
  by (simp add: ordinary_run_fold ordinary_machine.inv_run ordinary_inv_new)

end
