(* ===== verification/Portfolio_Restart.thy ===== *)
theory Portfolio_Restart
  imports Portfolio_Properties
begin

text \<open>
  The properties of the Portfolio service: the snapshot of an ordinary run is accepted by the timeline
  check exactly when its audit identifiers are distinct and restores the same service; an approved
  lowering makes every later snapshot fail; what fan-out, replay and ordinary commands do to records.
\<close>

section \<open>The check accepts a recorded history\<close>

lemma maps_equal_rebuilt:
  assumes "keyed key m" and "keyed key m'" and "hm_get m' = hm_get m"
  shows "maps_equal m' (collect_map key id (sorted_records key m))"
proof -
  note r = rebuilt_store [OF assms(1)]
  have "length m' = length m"
    using keyed_same_values [OF assms(2,1,3)] mset_eq_length [of "hm_values m'" "hm_values m"]
    by (simp add: hm_values_def)
  moreover have "list_all (\<lambda>(i, v). hm_get m i = Some v) m'"
    using assms(2,3) by (auto simp: list_all_iff keyed_set [OF assms(2)])
  ultimately show ?thesis by (simp add: maps_equal_def r(1,3))
qed

lemma unique_records_ok: "keyed key m \<Longrightarrow>
    unique_records key (sorted_records key m) = Inr (collect_map key id (sorted_records key m))"
  by (simp add: unique_records_def rebuilt_store(4))

lemma recorded_timeline:
  assumes inv: "portfolio_inv s" and rec: "recorded s"
    and d: "distinct (map audit_id (portfolio_audit_events s))"
  shows "validate_portfolio_timeline (map persistence_capsule (portfolio_outcomes s)) (portfolio_audit_events s)
    \<lparr>portfolios = collect_map simple_id id (sorted_records simple_id (portfolios s)),
     products = collect_map simple_id id (sorted_records simple_id (products s)),
     roadmaps = collect_map simple_id id (sorted_records simple_id (roadmaps s)),
     kpis = collect_map kpi_id id (sorted_records kpi_id (kpis s)),
     observations = collect_map observation_id id (sorted_records observation_id (observations s))\<rparr> = Inr ()"
proof -
  from inv have n: "numbered s" and k: "stores_keyed s" by (simp_all add: portfolio_inv_def)
  have sorted: "sort_key capsule_operation_ordinal (map persistence_capsule (portfolio_outcomes s)) =
      map persistence_capsule (portfolio_outcomes s)"
    using snapshot_replay [OF n] by (simp add: portfolio_persistence_snapshot_def)
  have ordinals: "consecutive_from_zero (map persistence_capsule (portfolio_outcomes s))"
    using n by (simp add: consecutive_from_zero_def numbered_def comp_def capsule_fields)
  from rec d obtain r where r: "replayed_history s = Inr r" "alike r s"
    and claimed: "replay_claimed r = rev (map audit_id (portfolio_audit_events s))"
    unfolding recorded_def by blast
  from r(2) k have "maps_equal (portfolios r) (collect_map simple_id id (sorted_records simple_id (portfolios s)))"
    "maps_equal (products r) (collect_map simple_id id (sorted_records simple_id (products s)))"
    "maps_equal (roadmaps r) (collect_map simple_id id (sorted_records simple_id (roadmaps s)))"
    "maps_equal (kpis r) (collect_map kpi_id id (sorted_records kpi_id (kpis s)))"
    "maps_equal (observations r) (collect_map observation_id id (sorted_records observation_id (observations s)))"
    by (auto simp: alike_def stores_keyed_def intro: maps_equal_rebuilt)
  then show ?thesis
    using r(1) by (simp add: validate_portfolio_timeline_def sorted ordinals valid_or_def claimed
      replayed_history_def audit_map_def Let_def)
qed

lemma snapshot_validation:
  assumes inv: "portfolio_inv s" and rec: "recorded s"
  shows "validate_snapshot (portfolio_persistence_snapshot s) =
    (if distinct (map audit_id (portfolio_audit_events s)) then Inr (portfolio_persistence_snapshot s)
     else Inl DuplicateAuditEvent)"
proof -
  from inv have n: "numbered s" and k: "stores_keyed s" and p: "parents_exist s"
    and wf: "hm_wf (portfolio_outcomes s)" by (simp_all add: portfolio_inv_def numbered_def)
  have parents: "list_all (\<lambda>v. hm_get (kpis s) (observation_kpi_id v) \<noteq> None) (sorted_records observation_id (observations s))"
  proof -
    have "hm_wf (observations s)" using k by (simp add: stores_keyed_def keyed_def)
    then show ?thesis using p by (auto simp: sorted_records_def list_all_iff parents_exist_def hm.set_vals)
  qed
  have keys: "distinct (map capsule_idempotency_id (map persistence_capsule (portfolio_outcomes s)))"
    using wf by (simp add: comp_def capsule_fields hm_wf_def)
  show ?thesis
    using k parents keys recorded_timeline [OF inv rec]
    unfolding validate_snapshot_def PortfolioPersistenceSnapshot_validate_def snapshot_replay [OF n]
    by (simp add: portfolio_persistence_snapshot_def [of s] stores_keyed_def unique_records_ok rebuilt_store(1)
      valid_or_def snapshot_replay [OF n, unfolded portfolio_persistence_snapshot_def, simplified])
qed

text \<open>
  C14. Event sourcing of the Portfolio service: after any sequence of ordinary commands, prepared
  lowerings, injected failures and restarts, with any clock, identifier sources and hash, the
  persistence snapshot passes the service's own timeline check unless the identifier source repeated an
  audit identifier, and a repeated identifier is the one reason for which it fails.
\<close>

theorem ordinary_history_validates:
  assumes "ordinary_run cs" and "s = fold (portfolio_step P) cs (InMemoryPortfolioService_new w)"
  shows "validate_snapshot (portfolio_persistence_snapshot s) =
    (if distinct (map audit_id (portfolio_audit_events s)) then Inr (portfolio_persistence_snapshot s)
     else Inl DuplicateAuditEvent)"
  using ordinary_run_inv [OF assms(1), of P w] snapshot_validation [of s] assms(2)
  by (simp add: ordinary_inv_def)

lemma sorted_records_same:
  assumes "keyed key a" and "keyed key b" and "hm_get a = hm_get b"
  shows "sorted_records key a = sorted_records key b"
  unfolding sorted_records_def by (rule sort_key_unique [OF keyed_distinct [OF assms(1)] keyed_same_values [OF assms]])

lemma unchanged_snapshot:
  assumes "unchanged s t"
  shows "portfolio_persistence_snapshot t = portfolio_persistence_snapshot s"
  using assms by (auto simp: unchanged_def alike_def stores_keyed_def portfolio_persistence_snapshot_def
    intro: sorted_records_same)

text \<open>
  C15. Restart: the service rebuilt from the snapshot of an ordinary run holds the same record under
  every identifier, the same outcome under every idempotency key, the same audit trail and the same next
  ordinal, and its own snapshot is the snapshot it was built from.
\<close>

theorem portfolio_restart_round_trip:
  fixes P :: "'w portfolio_ports"
  assumes "ordinary_run cs" and "s = fold (portfolio_step P) cs (InMemoryPortfolioService_new w)"
    and "t = portfolio_rehydrate w' (portfolio_persistence_snapshot s) \<or> t = portfolio_restart w' s"
  shows "portfolio_persistence_snapshot t = portfolio_persistence_snapshot s \<and>
    (\<forall>k. hm_get (simple_store k t) = hm_get (simple_store k s)) \<and> hm_get (kpis t) = hm_get (kpis s) \<and>
    hm_get (observations t) = hm_get (observations s) \<and> portfolio_outcomes t = portfolio_outcomes s \<and>
    portfolio_audit_events t = portfolio_audit_events s \<and> next_operation_ordinal t = next_operation_ordinal s"
proof -
  have inv: "portfolio_inv s" using ordinary_run_inv [OF assms(1), of P w] assms(2) by (simp add: ordinary_inv_def)
  from assms(3) have u: "unchanged s t"
    by (elim disjE) (simp_all add: rehydrate_unchanged [OF inv] restart_unchanged [OF inv])
  from unchanged_snapshot [OF u] alike_simple [of s t] u show ?thesis by (simp add: unchanged_def alike_def)
qed

text \<open>An example environment: a counter that is both the clock and the source of identifiers.\<close>

definition portfolio_example_ports :: "nat portfolio_ports" where
  "portfolio_example_ports =
     \<lparr>portfolio_clock_now = (\<lambda>n. (UtcTimestamp (of_nat n), Suc n)),
      portfolio_next_audit_event_id = (\<lambda>n. (Inr (replicate n CHR ''a''), Suc n)),
      portfolio_next_prepared_intent_id = (\<lambda>n. (Inr (replicate n CHR ''p''), Suc n)),
      portfolio_next_approval_receipt_id = (\<lambda>n. (Inr (replicate n CHR ''r''), Suc n)),
      portfolio_authorize = (\<lambda>n a. True), portfolio_sha256_hex = (\<lambda>s. s)\<rparr>"

definition portfolio_example_context :: "string \<Rightarrow> OperationContext" where
  "portfolio_example_context key = \<lparr>context_idempotency_id = key, context_correlation_id = ''c1''\<rparr>"

definition portfolio_example_kpi :: CreateKpiDefinition where
  "portfolio_example_kpi = \<lparr>new_kpi_id = ''kpi-1'', new_kpi_name = ''Churn'', new_kpi_definition = ''Lost accounts'',
     new_kpi_owner = ''Ops'', new_kpi_target = ''2%'', new_kpi_cadence = ''Monthly'', new_kpi_source = ''CRM'',
     new_kpi_classification = Some DataClassification.Internal, new_kpi_provenance = Provenance.UserEntered,
     new_kpi_context = portfolio_example_context ''k1''\<rparr>"

definition portfolio_example_observation :: CreateKpiObservation where
  "portfolio_example_observation = \<lparr>new_observation_id = ''obs-1'', new_observation_kpi_id = ''kpi-1'',
     new_observation_value = ''3%'', new_observation_observed_at = UtcTimestamp 0, new_observation_source = ''CRM'',
     new_observation_classification = None, new_observation_provenance = Provenance.UserEntered,
     new_observation_context = portfolio_example_context ''k2''\<rparr>"

definition portfolio_example_raise :: UpdateKpiDefinitionDetails where
  "portfolio_example_raise = \<lparr>upd_kpi_id = ''kpi-1'', upd_kpi_expected_version = AggregateVersion_initial,
     upd_kpi_name = ''Churn'', upd_kpi_definition = ''Lost accounts'', upd_kpi_owner = ''Ops'',
     upd_kpi_target = ''1%'', upd_kpi_cadence = ''Monthly'', upd_kpi_source = ''CRM'',
     upd_kpi_classification = Some DataClassification.Restricted, upd_kpi_context = portfolio_example_context ''k3''\<rparr>"

definition portfolio_example_commands :: "nat portfolio_command list" where
  "portfolio_example_commands =
     [CreateKpiRecord portfolio_example_kpi, CreateObservationRecord portfolio_example_observation, UpdateKpiRecord portfolio_example_raise]"

lemma portfolio_example_ordinary: "ordinary_run portfolio_example_commands"
  by (simp add: portfolio_example_commands_def ordinary_run_def)

definition portfolio_example_state :: "nat portfolio_service" where
  "portfolio_example_state = fold (portfolio_step portfolio_example_ports) portfolio_example_commands (InMemoryPortfolioService_new 0)"

lemma portfolio_example_distinct: "distinct (map audit_id (portfolio_audit_events portfolio_example_state))"
  by code_simp

theorem ordinary_history_validates_witness:
  "is_ok (validate_snapshot (portfolio_persistence_snapshot portfolio_example_state))"
  using ordinary_history_validates [OF portfolio_example_ordinary portfolio_example_state_def] portfolio_example_distinct by simp

theorem portfolio_restart_round_trip_witness:
  "portfolio_outcomes (portfolio_rehydrate (40 :: nat) (portfolio_persistence_snapshot portfolio_example_state)) =
   portfolio_outcomes portfolio_example_state"
  using portfolio_restart_round_trip [OF portfolio_example_ordinary portfolio_example_state_def disjI1 [OF refl], where w' = 40] by simp

section \<open>Inheritance, monotonicity, fan-out\<close>

text \<open>
  C16. In every ordinary run each KPI observation belongs to an existing KPI definition and is classified
  at least as restrictively as it, however definitions and observations are created, updated and
  restarted.
\<close>

theorem observations_inherit_classification:
  assumes "ordinary_run cs" and "s = fold (portfolio_step P) cs (InMemoryPortfolioService_new w)"
    and "hm_get (observations s) i = Some v"
  shows "\<exists>k. hm_get (kpis s) (observation_kpi_id v) = Some k \<and> kpi_classification k \<le> observation_classification v"
proof -
  from ordinary_run_inv [OF assms(1), of P w] assms(2) have "parents_exist s" "inherits_classification s"
    by (simp_all add: ordinary_inv_def portfolio_inv_def)
  with assms(3) show ?thesis unfolding parents_exist_def inherits_classification_def by blast
qed

text \<open>
  C18. No ordinary command lowers a classification or takes a record away: from any state an ordinary run
  has reached, through any further ordinary commands, failures and restarts, every record is still there
  with at least its version and at least its classification.
\<close>

theorem ordinary_commands_never_lower:
  assumes "ordinary_run cs" and "ordinary_run later"
    and "s = fold (portfolio_step P) cs (InMemoryPortfolioService_new w)"
  shows "records_later s (fold (portfolio_step P) later s)"
  using ordinary_machine.later_run [OF ordinary_run_inv [OF assms(1)], where cs = later and P = P] assms(3)
  by (simp add: ordinary_run_fold [OF assms(2)])

theorem ordinary_commands_never_lower_witness:
  "records_later portfolio_example_state (fold (portfolio_step portfolio_example_ports) portfolio_example_commands portfolio_example_state)"
  by (rule ordinary_commands_never_lower [OF portfolio_example_ordinary portfolio_example_ordinary portfolio_example_state_def])

lemma kpi_update_fresh:
  assumes inv: "portfolio_inv s" and key: "fresh_key (upd_kpi_context x) s"
    and run: "update_kpi_definition_details P x s = (Inr out, t)"
  obtains k version cls now a as where "hm_get (kpis s) (upd_kpi_id x) = Some k"
    and "AggregateVersion_next (kpi_version k) = Some version" and "kpi_classification k \<le> cls"
    and "hm_get (kpis t) = (hm_get (kpis s))(upd_kpi_id x \<mapsto> updated_kpi x version cls k)"
    and "\<forall>i. hm_get (observations t) i =
      map_option (raised_observation (upd_kpi_id x) cls now) (hm_get (observations s) i)"
    and "out = PortfolioStoredResult.Kpi \<lparr>mutation_record = updated_kpi x version cls k, mutation_audit_event = a\<rparr>"
    and "portfolio_audit_events t = portfolio_audit_events s @ a # as"
    and "portfolio_mutation_audit a now ''kpi.definition.updated'' (AuditTarget.Kpi (upd_kpi_id x)) (upd_kpi_context x)"
    and "list_all2 (\<lambda>i e. portfolio_mutation_audit e now ''kpi.observation.classification.inherited''
      (AuditTarget.KpiObservation i) (upd_kpi_context x)) (affected_ids (upd_kpi_id x) cls (observations s)) as"
    and "\<forall>j. simple_store j t = simple_store j s"
  using run
proof (cases rule: update_kpi_ok)
  case Replayed
  with key show thesis by (simp add: fresh_key_def replayed_def)
next
  case (Fresh k version cls)
  let ?r = "updated_kpi x version cls k"
  have id: "kpi_id ?r = upd_kpi_id x" "kpi_classification ?r = cls"
    using inv Fresh(2) by (auto simp: updated_kpi_def portfolio_inv_def stores_keyed_def dest: keyed_get)
  have cls: "kpi_classification k \<le> cls" using Fresh(5) by auto
  from Fresh(6) show thesis
  proof (rule kpi_write_observations [OF inv])
    fix a now as
    assume w: "hm_get (kpis t) = (hm_get (kpis s))(kpi_id ?r \<mapsto> ?r)"
      "\<And>i. hm_get (observations t) i = map_option (raised_observation (kpi_id ?r) (kpi_classification ?r) now)
        (hm_get (observations s) i)"
      "out = PortfolioStoredResult.Kpi \<lparr>mutation_record = ?r, mutation_audit_event = a\<rparr>"
      "portfolio_audit_events t = portfolio_audit_events s @ a # as"
      "portfolio_mutation_audit a now ''kpi.definition.updated'' (AuditTarget.Kpi (kpi_id ?r)) (upd_kpi_context x)"
      "list_all2 (\<lambda>i e. portfolio_mutation_audit e now ''kpi.observation.classification.inherited''
        (AuditTarget.KpiObservation i) (upd_kpi_context x))
        (affected_ids (kpi_id ?r) (kpi_classification ?r) (observations s)) as"
      "portfolios t = portfolios s" "products t = products s" "roadmaps t = roadmaps s"
    have "\<forall>j. simple_store j t = simple_store j s"
      using w(7-9) by (simp add: simple_store_def split: simple_kind.splits)
    with w(1-6) show thesis unfolding id by (intro that [OF Fresh(2,4) cls, where now = now]) simp_all
  qed
qed

text \<open>
  C17. An update of a KPI definition that is executed (its key is new) writes the definition with the
  next version, and raises exactly the observations of the definition that are below its new
  classification, each to that classification, its next version and an update time that does not go
  back; every other record stays as it is. The audit log keeps what it had and gains first one event
  that names the definition as updated, which is the event the answer carries, and then, for each raised
  observation once, one event that names that observation as having inherited its classification, all
  at the same time and under the command's correlation.
\<close>

theorem kpi_update_raises_observations:
  assumes "s = fold (portfolio_step P) cs (InMemoryPortfolioService_new w)"
    and "fresh_key (upd_kpi_context x) s" and "update_kpi_definition_details P x s = (Inr out, t)"
  shows "\<exists>k version cls now a as ids. hm_get (kpis s) (upd_kpi_id x) = Some k \<and>
    AggregateVersion_next (kpi_version k) = Some version \<and> kpi_classification k \<le> cls \<and>
    hm_get (kpis t) = (hm_get (kpis s))(upd_kpi_id x \<mapsto> updated_kpi x version cls k) \<and>
    (\<forall>i. hm_get (observations t) i =
      map_option (raised_observation (upd_kpi_id x) cls now) (hm_get (observations s) i)) \<and>
    out = PortfolioStoredResult.Kpi \<lparr>mutation_record = updated_kpi x version cls k, mutation_audit_event = a\<rparr> \<and>
    portfolio_audit_events t = portfolio_audit_events s @ a # as \<and>
    portfolio_mutation_audit a now ''kpi.definition.updated'' (AuditTarget.Kpi (upd_kpi_id x)) (upd_kpi_context x) \<and>
    distinct ids \<and>
    (\<forall>i. i \<in> set ids \<longleftrightarrow> (\<exists>v. hm_get (observations s) i = Some v \<and>
      observation_kpi_id v = upd_kpi_id x \<and> observation_classification v < cls)) \<and>
    list_all2 (\<lambda>i e. portfolio_mutation_audit e now ''kpi.observation.classification.inherited''
      (AuditTarget.KpiObservation i) (upd_kpi_context x)) ids as \<and>
    (\<forall>j. simple_store j t = simple_store j s)"
proof -
  have inv: "portfolio_inv s" unfolding assms(1) by (rule portfolio_machine.inv_run [OF portfolio_inv_new])
  then have obs: "keyed observation_id (observations s)" by (simp add: portfolio_inv_def stores_keyed_def)
  from inv assms(2,3) show ?thesis
  proof (rule kpi_update_fresh)
    fix k version cls now a as
    assume w: "hm_get (kpis s) (upd_kpi_id x) = Some k" "AggregateVersion_next (kpi_version k) = Some version"
      "kpi_classification k \<le> cls" "hm_get (kpis t) = (hm_get (kpis s))(upd_kpi_id x \<mapsto> updated_kpi x version cls k)"
      "\<forall>i. hm_get (observations t) i = map_option (raised_observation (upd_kpi_id x) cls now) (hm_get (observations s) i)"
      "out = PortfolioStoredResult.Kpi \<lparr>mutation_record = updated_kpi x version cls k, mutation_audit_event = a\<rparr>"
      "portfolio_audit_events t = portfolio_audit_events s @ a # as"
      "portfolio_mutation_audit a now ''kpi.definition.updated'' (AuditTarget.Kpi (upd_kpi_id x)) (upd_kpi_context x)"
      "list_all2 (\<lambda>i e. portfolio_mutation_audit e now ''kpi.observation.classification.inherited''
        (AuditTarget.KpiObservation i) (upd_kpi_context x)) (affected_ids (upd_kpi_id x) cls (observations s)) as"
      "\<forall>j. simple_store j t = simple_store j s"
    have ids: "\<forall>i. i \<in> set (affected_ids (upd_kpi_id x) cls (observations s)) \<longleftrightarrow>
        (\<exists>v. hm_get (observations s) i = Some v \<and> observation_kpi_id v = upd_kpi_id x \<and>
          observation_classification v < cls)"
      using affected_member [OF obs] by blast
    show ?thesis
      by (rule exI [of _ k], rule exI [of _ version], rule exI [of _ cls], rule exI [of _ now], rule exI [of _ a],
          rule exI [of _ as], rule exI [of _ "affected_ids (upd_kpi_id x) cls (observations s)"], intro conjI)
        (rule w ids affected_distinct [OF obs])+
  qed
qed

definition portfolio_example_before :: "nat portfolio_service" where
  "portfolio_example_before = fold (portfolio_step portfolio_example_ports)
     [CreateKpiRecord portfolio_example_kpi, CreateObservationRecord portfolio_example_observation] (InMemoryPortfolioService_new 0)"

lemma portfolio_example_raise_runs:
  "hm_get (portfolio_outcomes portfolio_example_before) ''k3'' = None \<and>
   is_ok (fst (update_kpi_definition_details portfolio_example_ports portfolio_example_raise portfolio_example_before))"
  by code_simp

theorem kpi_update_raises_observations_witness:
  "\<exists>cls now a as. hm_get (observations (snd (update_kpi_definition_details portfolio_example_ports portfolio_example_raise portfolio_example_before)))
      ''obs-1'' = map_option (raised_observation ''kpi-1'' cls now) (hm_get (observations portfolio_example_before) ''obs-1'') \<and>
    portfolio_audit_events (snd (update_kpi_definition_details portfolio_example_ports portfolio_example_raise portfolio_example_before)) =
      portfolio_audit_events portfolio_example_before @ a # as \<and>
    audit_target a = AuditTarget.Kpi ''kpi-1''"
proof -
  let ?x = "update_kpi_definition_details portfolio_example_ports portfolio_example_raise portfolio_example_before"
  obtain out where out: "fst ?x = Inr out"
    using portfolio_example_raise_runs by (auto simp: is_ok_iff)
  have key: "fresh_key (upd_kpi_context portfolio_example_raise) portfolio_example_before"
    using portfolio_example_raise_runs by (simp add: fresh_key_def portfolio_example_raise_def portfolio_example_context_def)
  from out have run: "?x = (Inr out, snd ?x)" by (metis prod.collapse)
  have id: "upd_kpi_id portfolio_example_raise = ''kpi-1''" by (simp add: portfolio_example_raise_def)
  show ?thesis
    using kpi_update_raises_observations [OF portfolio_example_before_def key run, unfolded id]
    by (elim exE conjE) (intro exI conjI, blast, assumption, simp add: portfolio_mutation_audit_def audit_of_mutation_def)
qed

lemma portfolio_example_observation_found:
  "map_option (\<lambda>v. (observation_kpi_id v, observation_classification v)) (hm_get (observations portfolio_example_state) ''obs-1'') =
     Some (''kpi-1'', DataClassification.Restricted)"
  by code_simp

theorem observations_inherit_classification_witness:
  "\<exists>k. hm_get (kpis portfolio_example_state) ''kpi-1'' = Some k \<and> kpi_classification k \<le> DataClassification.Restricted"
proof -
  from portfolio_example_observation_found obtain v where "hm_get (observations portfolio_example_state) ''obs-1'' = Some v"
    and "observation_kpi_id v = ''kpi-1''" "observation_classification v = DataClassification.Restricted" by auto
  with observations_inherit_classification [OF portfolio_example_ordinary portfolio_example_state_def] show ?thesis by metis
qed

end
