(* ===== verification/Portfolio_Lowered.thy ===== *)
theory Portfolio_Lowered
  imports Portfolio_Properties
begin

text \<open>
  Remembered outcomes of the Portfolio service: they only grow, a remembered command is answered from
  memory for ever, and an approved lowering is remembered under a command that the timeline check never
  accepts.
\<close>

section \<open>Outcomes only grow\<close>

definition remembers :: "'w portfolio_service \<Rightarrow> 'w portfolio_service \<Rightarrow> bool" where
  "remembers s t \<longleftrightarrow> (\<exists>es. portfolio_outcomes t = portfolio_outcomes s @ es)"

lemma unchanged_remembers: "unchanged s t \<Longrightarrow> remembers s t"
  by (simp add: unchanged_def remembers_def)

lemma portfolio_undisturbed_remembers: "portfolio_undisturbed s t \<Longrightarrow> remembers s t"
  by (simp add: portfolio_undisturbed_def remembers_def)

lemma remembers_refl: "remembers s s"
  by (simp add: remembers_def)

lemma remembers_trans: "remembers s t \<Longrightarrow> remembers t u \<Longrightarrow> remembers s u"
  by (auto simp: remembers_def)

lemma wrote_remembers: "wrote w c command out ms as s t \<Longrightarrow> fresh_key c s \<Longrightarrow> remembers s t"
  using wrote_outcomes [of w c command out ms as s t] by (simp add: remembers_def)

lemma ordinary_commit_remembers: "ordinary_commit s t \<Longrightarrow> portfolio_inv s \<Longrightarrow> remembers s t"
  by (elim ordinary_commit_wrote) (auto intro: wrote_remembers)

lemma lowering_commit_remembers: "lowering_commit c command out s t \<Longrightarrow> remembers s t"
  by (elim lowering_commit.cases) (auto intro: wrote_remembers)

lemma step_remembers:
  assumes inv: "portfolio_inv s"
  shows "remembers s (portfolio_step P c s)"
proof (cases "approves_lowering c")
  case True
  then obtain k x where c: "c = ApproveLowering k x" by (cases c) auto
  from lowering_step [OF inv, of P k x] show ?thesis
    unfolding c using portfolio_undisturbed_remembers lowering_commit_remembers remembers_trans by blast
next
  case False
  from ordinary_step [OF inv False, of P] show ?thesis
    using unchanged_remembers ordinary_commit_remembers [OF _ inv] by blast
qed

interpretation portfolio_memory: monotone_system "portfolio_step P" portfolio_inv remembers for P
proof
  fix s t u :: "'a portfolio_service" and c
  show "remembers s s" by (rule remembers_refl)
  show "remembers s t \<Longrightarrow> remembers t u \<Longrightarrow> remembers s u" by (rule remembers_trans)
  show "portfolio_inv s \<Longrightarrow> remembers s (portfolio_step P c s)" by (rule step_remembers)
qed

lemma remembers_replayed: "remembers s t \<Longrightarrow> replayed c command out s \<Longrightarrow> replayed c command out t"
  by (auto simp: remembers_def replayed_def hm_get_def)

lemma wrote_replayed: "wrote w c command out ms as s t \<Longrightarrow> replayed c command out t"
  by (drule wrote_state(3)) (simp add: replayed_def outcome_of_def)

section \<open>Retries\<close>

text \<open>The commands that return a record, with their context and what they are remembered with.\<close>

fun outcome_method ::
  "'w portfolio_ports \<Rightarrow> 'w portfolio_command \<Rightarrow> 'w portfolio_service
     \<Rightarrow> ((DomainError + PortfolioStoredResult) \<times> 'w portfolio_service) option" where
  "outcome_method P (CreateSimpleRecord k x) s = Some (create_simple k P x s)"
| "outcome_method P (UpdateSimpleRecord k x) s = Some (update_simple_details k P x s)"
| "outcome_method P (CreateKpiRecord x) s = Some (create_kpi_definition P x s)"
| "outcome_method P (UpdateKpiRecord x) s = Some (update_kpi_definition_details P x s)"
| "outcome_method P (CreateObservationRecord x) s = Some (create_kpi_observation P x s)"
| "outcome_method P (UpdateObservationRecord x) s = Some (update_kpi_observation_details P x s)"
| "outcome_method P (ApproveLowering k x) s = Some (approve_and_execute_lower k P x s)"
| "outcome_method P _ s = None"

fun command_memory :: "'w portfolio_command \<Rightarrow> (lowered_kind \<times> OperationContext \<times> PortfolioCommandIdentity) option" where
  "command_memory (CreateSimpleRecord k x) = Some (Simple k, new_simple_context x, simple_create_identity k x)"
| "command_memory (UpdateSimpleRecord k x) = Some (Simple k, upd_simple_context x, simple_update_identity k x)"
| "command_memory (CreateKpiRecord x) = Some (KpiKind, new_kpi_context x, kpi_create_identity x)"
| "command_memory (UpdateKpiRecord x) = Some (KpiKind, upd_kpi_context x, kpi_update_identity x)"
| "command_memory (CreateObservationRecord x) =
     Some (ObservationKind, new_observation_context x, observation_create_identity x)"
| "command_memory (UpdateObservationRecord x) =
     Some (ObservationKind, upd_observation_context x, observation_update_identity x)"
| "command_memory (ApproveLowering k x) =
     (if approval_idempotency_id (lowering_approval x) = context_idempotency_id (lowering_context x)
      then Some (k, lowering_context x, execute_lower_identity k (lowering_approval x)) else None)"
| "command_memory _ = None"

lemma simple_result_kind [simp]: "result_of_kind (Simple k) (simple_result k r)"
  by (cases k) simp_all

lemma answered_from_memory:
  assumes "command_memory c = Some (k, ctx, command)" and "replayed ctx command out s" and "result_of_kind k out"
  shows "outcome_method P c s = Some (Inr out, s)"
proof -
  have or_replay: "or_replay k command ctx m s = (Inr out, s)" for m
    using assms(2,3) by (simp add: or_replay_ok)
  from assms(1) or_replay show ?thesis
    by (cases c) (auto simp: create_simple_def update_simple_details_def create_kpi_definition_def
      update_kpi_definition_details_def create_kpi_observation_def update_kpi_observation_details_def
      approve_and_execute_lower_def Let_def ebind_run split: if_splits)
qed

lemma kpi_replayed: "kpi_committed c command code r out s t \<Longrightarrow> replayed c command out t \<and> result_of_kind KpiKind out"
  by (elim kpi_committed_parts) (auto dest: wrote_replayed)

lemma observation_replayed:
  "observation_committed c command code r now out s t \<Longrightarrow> replayed c command out t \<and> result_of_kind ObservationKind out"
  by (drule observation_committed_wrote) (auto dest: wrote_replayed)

lemma simple_success:
  "create_simple k P x s = (Inr out, t) \<Longrightarrow>
     replayed (new_simple_context x) (simple_create_identity k x) out t \<and> result_of_kind (Simple k) out"
  "update_simple_details k P y s = (Inr out, t) \<Longrightarrow>
     replayed (upd_simple_context y) (simple_update_identity k y) out t \<and> result_of_kind (Simple k) out"
  unfolding create_simple_def update_simple_details_def Let_def or_replay_ok
  by (auto simp: ebind_ok wrote_eqs elim!: commit_simple_ok dest: wrote_replayed)

lemma kpi_success:
  "create_kpi_definition P x s = (Inr out, t) \<Longrightarrow>
     replayed (new_kpi_context x) (kpi_create_identity x) out t \<and> result_of_kind KpiKind out"
  "update_kpi_definition_details P y s = (Inr out, t) \<Longrightarrow>
     replayed (upd_kpi_context y) (kpi_update_identity y) out t \<and> result_of_kind KpiKind out"
  unfolding create_kpi_definition_def update_kpi_definition_details_def Let_def or_replay_ok
  by (auto simp: ebind_ok dest!: commit_kpi_committed kpi_replayed)

lemma observation_success:
  "create_kpi_observation P x s = (Inr out, t) \<Longrightarrow>
     replayed (new_observation_context x) (observation_create_identity x) out t \<and> result_of_kind ObservationKind out"
  "update_kpi_observation_details P y s = (Inr out, t) \<Longrightarrow>
     replayed (upd_observation_context y) (observation_update_identity y) out t \<and> result_of_kind ObservationKind out"
  unfolding create_kpi_observation_def update_kpi_observation_details_def Let_def or_replay_ok
  by (auto simp: ebind_ok dest!: read_clock_ok commit_observation_committed observation_replayed)

lemma lowering_success:
  assumes "approve_and_execute_lower k P x s = (Inr out, t)" and "portfolio_inv s"
  shows "replayed (lowering_context x) (execute_lower_identity k (lowering_approval x)) out t \<and> result_of_kind k out"
    and "approval_idempotency_id (lowering_approval x) = context_idempotency_id (lowering_context x)"
proof -
  show "replayed (lowering_context x) (execute_lower_identity k (lowering_approval x)) out t \<and> result_of_kind k out"
    using approve_ok [OF assms] by (auto elim!: lowering_commit.cases dest: wrote_replayed)
  show "approval_idempotency_id (lowering_approval x) = context_idempotency_id (lowering_context x)"
    using assms(1) by (auto simp: approve_and_execute_lower_def Let_def ebind_ok)
qed

lemma success_remembered:
  assumes "outcome_method P c s = Some (Inr out, t)" and "portfolio_inv s"
  obtains k ctx command where "command_memory c = Some (k, ctx, command)" "replayed ctx command out t"
    "result_of_kind k out"
proof (cases c)
  case (ApproveLowering k x)
  then have "approve_and_execute_lower k P x s = (Inr out, t)" using assms(1) by simp
  from lowering_success [OF this assms(2)] ApproveLowering show thesis
    by (intro that [of k "lowering_context x" "execute_lower_identity k (lowering_approval x)"]) simp_all
qed (use assms that in \<open>auto dest: simple_success kpi_success observation_success\<close>)

text \<open>
  C20. A command that succeeded is answered from memory for ever: sent again with the same idempotency
  key after any further commands, restarts included, it returns the same record and audit event and
  changes nothing.
\<close>

theorem portfolio_retry_from_memory:
  assumes "s = fold (portfolio_step P) cs (InMemoryPortfolioService_new w)"
    and "outcome_method P c s = Some (Inr out, t)"
    and "u = fold (portfolio_step P) later t"
  shows "outcome_method P c u = Some (Inr out, u)"
proof -
  have inv: "portfolio_inv s" unfolding assms(1) by (rule portfolio_machine.inv_run [OF portfolio_inv_new])
  from assms(2) have "t = portfolio_step P c s" by (cases c) auto
  then have "portfolio_inv t" using portfolio_step_inv [OF inv] by simp
  then have "remembers t u" unfolding assms(3) by (rule portfolio_memory.later_run)
  from success_remembered [OF assms(2) inv] this show ?thesis
    by (metis answered_from_memory remembers_replayed)
qed

section \<open>Lowerings\<close>

lemma replay_command_ordinary: "replay_command m cap s = Inr r \<Longrightarrow> \<not> is_execute_lower (capsule_command cap)"
  by (cases "capsule_command cap") (simp_all add: replay_command_def)

lemma replay_capsules_ordinary:
  "replay_capsules audits m caps s = Inr r \<Longrightarrow> cap \<in> set caps \<Longrightarrow> \<not> is_execute_lower (capsule_command cap)"
  by (induction caps arbitrary: s)
    (auto simp: rbind_Inr_iff replay_capsule_def Let_def dest: replay_command_ordinary split: prod.splits)

lemma validated_ordinary:
  assumes "is_ok (validate_snapshot snap)" and "cap \<in> set (snap_replay snap)"
  shows "\<not> is_execute_lower (capsule_command cap)"
  using assms
  by (auto simp: validate_snapshot_def PortfolioPersistenceSnapshot_validate_def validate_portfolio_timeline_def
    is_ok_iff rbind_Inr_iff Let_def dest: replay_capsules_ordinary)

text \<open>
  C19. Once the lowering of a classification has been approved and executed, for any of the five record
  types, no later snapshot of the service passes its own timeline check, whatever commands follow: the
  lowering is remembered, but the check has no case for it, so the change cannot be restored by a
  restart.
\<close>

theorem approved_lowering_refuses_snapshots:
  assumes "s = fold (portfolio_step P) cs (InMemoryPortfolioService_new w)"
    and "approve_and_execute_lower k P x s = (Inr out, t)"
    and "u = fold (portfolio_step P) later t"
  shows "\<not> is_ok (validate_snapshot (portfolio_persistence_snapshot u))"
proof
  assume ok: "is_ok (validate_snapshot (portfolio_persistence_snapshot u))"
  have inv: "portfolio_inv s" unfolding assms(1) by (rule portfolio_machine.inv_run [OF portfolio_inv_new])
  have "t = portfolio_step P (ApproveLowering k x) s" using assms(2) by simp
  then have invt: "portfolio_inv t" using portfolio_step_inv [OF inv] by (simp only:)
  have "remembers t u" unfolding assms(3) by (rule portfolio_memory.later_run [OF invt])
  then have "replayed (lowering_context x) (execute_lower_identity k (lowering_approval x)) out u"
    using lowering_success(1) [OF assms(2) inv] remembers_replayed by blast
  then obtain i o' where "(i, o') \<in> set (portfolio_outcomes u)" "is_execute_lower (stored_command o')"
    unfolding replayed_def hm_get_def using map_of_SomeD execute_lower_identity_is by fastforce
  then have "persistence_capsule (i, o') \<in> set (snap_replay (portfolio_persistence_snapshot u))"
    and "is_execute_lower (capsule_command (persistence_capsule (i, o')))"
    by (simp_all add: portfolio_persistence_snapshot_def persistence_capsule_def)
      (force simp: persistence_capsule_def)
  with validated_ordinary [OF ok] show False by blast
qed

section \<open>An example\<close>

definition portfolio_example_world_ports :: "nat portfolio_ports" where
  "portfolio_example_world_ports =
     \<lparr>portfolio_clock_now = (\<lambda>n. (UtcTimestamp (of_nat n), Suc n)),
      portfolio_next_audit_event_id = (\<lambda>n. (Inr (replicate n CHR ''a''), Suc n)),
      portfolio_next_prepared_intent_id = (\<lambda>n. (Inr ''prepared-1'', Suc n)),
      portfolio_next_approval_receipt_id = (\<lambda>n. (Inr (replicate n CHR ''r''), Suc n)),
      portfolio_authorize = (\<lambda>n a. True), portfolio_sha256_hex = (\<lambda>s. ''digest'')\<rparr>"

definition portfolio_example_context_of :: "string \<Rightarrow> OperationContext" where
  "portfolio_example_context_of key = \<lparr>context_idempotency_id = key, context_correlation_id = ''c1''\<rparr>"

definition portfolio_example_portfolio :: CreateSimple where
  "portfolio_example_portfolio = \<lparr>new_simple_id = ''p1'', new_simple_name = ''Core'', new_simple_details = ''Core products'',
     new_simple_classification = Some DataClassification.Restricted, new_simple_provenance = Provenance.UserEntered,
     new_simple_context = portfolio_example_context_of ''k1''\<rparr>"

definition portfolio_example_lowering :: PrepareLowerClassification where
  "portfolio_example_lowering = \<lparr>lowering_subject_id = ''p1'', lowering_expected_version = AggregateVersion_initial,
     lowering_proposed_classification = DataClassification.Internal, lowering_rationale = ''Published'',
     lowering_prepare_context = portfolio_example_context_of ''k2''\<rparr>"

definition portfolio_example_approval :: ApproveAndExecuteLowerClassification where
  "portfolio_example_approval =
     \<lparr>lowering_approval = \<lparr>approval_prepared_id = ''prepared-1'', approval_actor = AuditActor.HeadOfProducts,
        acknowledged_payload_digest = ''digest'', approval_idempotency_id = ''k3''\<rparr>,
      lowering_context = portfolio_example_context_of ''k3''\<rparr>"

definition portfolio_example_prepared :: "nat portfolio_service" where
  "portfolio_example_prepared = fold (portfolio_step portfolio_example_world_ports)
     [CreateSimpleRecord PortfolioKind portfolio_example_portfolio, PrepareLowering (Simple PortfolioKind) portfolio_example_lowering]
     (InMemoryPortfolioService_new 0)"

lemma portfolio_example_approved:
  "is_ok (fst (approve_and_execute_lower (Simple PortfolioKind) portfolio_example_world_ports portfolio_example_approval portfolio_example_prepared))"
  by code_simp

definition portfolio_example_lowered :: "nat portfolio_service" where
  "portfolio_example_lowered =
     snd (approve_and_execute_lower (Simple PortfolioKind) portfolio_example_world_ports portfolio_example_approval portfolio_example_prepared)"

lemma portfolio_example_approval_runs:
  obtains out where "approve_and_execute_lower (Simple PortfolioKind) portfolio_example_world_ports portfolio_example_approval portfolio_example_prepared
    = (Inr out, portfolio_example_lowered)"
  using portfolio_example_approved unfolding is_ok_iff portfolio_example_lowered_def by (metis prod.collapse)

theorem approved_lowering_refuses_snapshots_witness:
  "\<not> is_ok (validate_snapshot (portfolio_persistence_snapshot
     (fold (portfolio_step portfolio_example_world_ports) [Restart 90] portfolio_example_lowered)))"
proof -
  obtain out where run: "approve_and_execute_lower (Simple PortfolioKind) portfolio_example_world_ports portfolio_example_approval
    portfolio_example_prepared = (Inr out, portfolio_example_lowered)" by (rule portfolio_example_approval_runs)
  show ?thesis by (rule approved_lowering_refuses_snapshots [OF portfolio_example_prepared_def run refl])
qed

theorem portfolio_retry_from_memory_witness:
  "\<exists>out. outcome_method portfolio_example_world_ports (ApproveLowering (Simple PortfolioKind) portfolio_example_approval) portfolio_example_lowered =
     Some (Inr out, portfolio_example_lowered)"
proof -
  obtain out where "approve_and_execute_lower (Simple PortfolioKind) portfolio_example_world_ports portfolio_example_approval
    portfolio_example_prepared = (Inr out, portfolio_example_lowered)" by (rule portfolio_example_approval_runs)
  then have "outcome_method portfolio_example_world_ports (ApproveLowering (Simple PortfolioKind) portfolio_example_approval) portfolio_example_prepared =
    Some (Inr out, portfolio_example_lowered)" by simp
  from portfolio_retry_from_memory [OF portfolio_example_prepared_def this, where later = "[]"] show ?thesis by auto
qed

end
