(* ===== verification/Attention.thy ===== *)
theory Attention
  imports Work_Management
begin

text \<open>
  \<^verbatim>\<open>attention.rs\<close> of \<^verbatim>\<open>crates/pmc-domain/src\<close>: the read-only derivation of attention flags from
  snapshots of Action Requests, Actions, Decision Requests, Risks and Issues. One function per
  loop of \<^verbatim>\<open>derive_attention\<close>; the reasons and targets carry the declaration order that Rust
  derives, which is the order of the result. \<^verbatim>\<open>i128\<close> differences of \<^verbatim>\<open>i64\<close> timestamps are integers.
\<close>

section \<open>Reasons and targets\<close>

datatype AttentionReason =
  ActionRequestNeedsInfo
| ActionRequestStale
| ActionRequestMissingIntendedOwner
| ActionRequestResponseDue
| ActionRequestResponseOverdue
| ActionBlocked
| ActionOverdue
| ActionAtRisk
| ActionNeedsEvidence
| ActionEvidenceVerificationPending
| ActionSupersededPremise
| DecisionRequestNeedsInfo
| DecisionRequestMissingDecisionOwner
| DecisionRequestApproachingDeadline
| DecisionRequestOverdue
| DecisionRequestStale
| RiskReviewDue
| RiskExposureIncreased
| RiskEvidenceStale
| RiskControlInvalid
| RiskMissingOwner
| IssueBlocked
| IssueResolutionDue
| IssueResolutionOverdue
| IssueNeedsEvidence
| IssueStale
| IssueRecurrence

fun AttentionReason_as_str :: "AttentionReason \<Rightarrow> string" where
  "AttentionReason_as_str ActionRequestNeedsInfo = ''action_request_needs_info''"
| "AttentionReason_as_str ActionRequestStale = ''action_request_stale''"
| "AttentionReason_as_str ActionRequestMissingIntendedOwner = ''action_request_missing_intended_owner''"
| "AttentionReason_as_str ActionRequestResponseDue = ''action_request_response_due''"
| "AttentionReason_as_str ActionRequestResponseOverdue = ''action_request_response_overdue''"
| "AttentionReason_as_str ActionBlocked = ''action_blocked''"
| "AttentionReason_as_str ActionOverdue = ''action_overdue''"
| "AttentionReason_as_str ActionAtRisk = ''action_at_risk''"
| "AttentionReason_as_str ActionNeedsEvidence = ''action_needs_evidence''"
| "AttentionReason_as_str ActionEvidenceVerificationPending = ''action_evidence_verification_pending''"
| "AttentionReason_as_str ActionSupersededPremise = ''action_superseded_premise''"
| "AttentionReason_as_str DecisionRequestNeedsInfo = ''decision_request_needs_info''"
| "AttentionReason_as_str DecisionRequestMissingDecisionOwner = ''decision_request_missing_decision_owner''"
| "AttentionReason_as_str DecisionRequestApproachingDeadline = ''decision_request_approaching_deadline''"
| "AttentionReason_as_str DecisionRequestOverdue = ''decision_request_overdue''"
| "AttentionReason_as_str DecisionRequestStale = ''decision_request_stale''"
| "AttentionReason_as_str RiskReviewDue = ''risk_review_due''"
| "AttentionReason_as_str RiskExposureIncreased = ''risk_exposure_increased''"
| "AttentionReason_as_str RiskEvidenceStale = ''risk_evidence_stale''"
| "AttentionReason_as_str RiskControlInvalid = ''risk_control_invalid''"
| "AttentionReason_as_str RiskMissingOwner = ''risk_missing_owner''"
| "AttentionReason_as_str IssueBlocked = ''issue_blocked''"
| "AttentionReason_as_str IssueResolutionDue = ''issue_resolution_due''"
| "AttentionReason_as_str IssueResolutionOverdue = ''issue_resolution_overdue''"
| "AttentionReason_as_str IssueNeedsEvidence = ''issue_needs_evidence''"
| "AttentionReason_as_str IssueStale = ''issue_stale''"
| "AttentionReason_as_str IssueRecurrence = ''issue_recurrence''"

text \<open>The derived \<^verbatim>\<open>Ord\<close>: the position of a variant in the declaration.\<close>

definition AttentionReason_declared :: "AttentionReason list" where
  "AttentionReason_declared =
    [ActionRequestNeedsInfo, ActionRequestStale, ActionRequestMissingIntendedOwner,
     ActionRequestResponseDue, ActionRequestResponseOverdue, ActionBlocked,
     ActionOverdue, ActionAtRisk, ActionNeedsEvidence,
     ActionEvidenceVerificationPending, ActionSupersededPremise, DecisionRequestNeedsInfo,
     DecisionRequestMissingDecisionOwner, DecisionRequestApproachingDeadline, DecisionRequestOverdue,
     DecisionRequestStale, RiskReviewDue, RiskExposureIncreased,
     RiskEvidenceStale, RiskControlInvalid, RiskMissingOwner,
     IssueBlocked, IssueResolutionDue, IssueResolutionOverdue,
     IssueNeedsEvidence, IssueStale, IssueRecurrence]"

fun reason_index :: "AttentionReason \<Rightarrow> nat" where
  "reason_index ActionRequestNeedsInfo = 0"
| "reason_index ActionRequestStale = 1"
| "reason_index ActionRequestMissingIntendedOwner = 2"
| "reason_index ActionRequestResponseDue = 3"
| "reason_index ActionRequestResponseOverdue = 4"
| "reason_index ActionBlocked = 5"
| "reason_index ActionOverdue = 6"
| "reason_index ActionAtRisk = 7"
| "reason_index ActionNeedsEvidence = 8"
| "reason_index ActionEvidenceVerificationPending = 9"
| "reason_index ActionSupersededPremise = 10"
| "reason_index DecisionRequestNeedsInfo = 11"
| "reason_index DecisionRequestMissingDecisionOwner = 12"
| "reason_index DecisionRequestApproachingDeadline = 13"
| "reason_index DecisionRequestOverdue = 14"
| "reason_index DecisionRequestStale = 15"
| "reason_index RiskReviewDue = 16"
| "reason_index RiskExposureIncreased = 17"
| "reason_index RiskEvidenceStale = 18"
| "reason_index RiskControlInvalid = 19"
| "reason_index RiskMissingOwner = 20"
| "reason_index IssueBlocked = 21"
| "reason_index IssueResolutionDue = 22"
| "reason_index IssueResolutionOverdue = 23"
| "reason_index IssueNeedsEvidence = 24"
| "reason_index IssueStale = 25"
| "reason_index IssueRecurrence = 26"

lemma reason_declared: "AttentionReason_declared ! reason_index r = r"
  by (cases r) (simp_all add: AttentionReason_declared_def)

lemma reason_index_inject [simp]: "reason_index a = reason_index b \<longleftrightarrow> a = b"
  by (metis reason_declared)

instantiation AttentionReason :: linorder
begin

definition less_eq_AttentionReason :: "AttentionReason \<Rightarrow> AttentionReason \<Rightarrow> bool" where
  "less_eq_AttentionReason a b \<longleftrightarrow> reason_index a \<le> reason_index b"

definition less_AttentionReason :: "AttentionReason \<Rightarrow> AttentionReason \<Rightarrow> bool" where
  "less_AttentionReason a b \<longleftrightarrow> reason_index a < reason_index b"

instance
  by standard (auto simp: less_eq_AttentionReason_def less_AttentionReason_def)

end

datatype AttentionTarget =
  ActionRequest entity_id
| Action entity_id
| DecisionRequest entity_id
| Risk entity_id
| Issue entity_id

fun target_key :: "AttentionTarget \<Rightarrow> nat \<times> entity_id" where
  "target_key (AttentionTarget.ActionRequest i) = (0, i)"
| "target_key (AttentionTarget.Action i) = (1, i)"
| "target_key (AttentionTarget.DecisionRequest i) = (2, i)"
| "target_key (AttentionTarget.Risk i) = (3, i)"
| "target_key (AttentionTarget.Issue i) = (4, i)"

lemma target_key_inject [simp]: "target_key a = target_key b \<longleftrightarrow> a = b"
  by (cases a; cases b) simp_all

instantiation AttentionTarget :: linorder
begin

definition less_eq_AttentionTarget :: "AttentionTarget \<Rightarrow> AttentionTarget \<Rightarrow> bool" where
  "less_eq_AttentionTarget a b \<longleftrightarrow> target_key a \<le> target_key b"

definition less_AttentionTarget :: "AttentionTarget \<Rightarrow> AttentionTarget \<Rightarrow> bool" where
  "less_AttentionTarget a b \<longleftrightarrow> target_key a < target_key b"

instance
  by standard (auto simp: less_eq_AttentionTarget_def less_AttentionTarget_def less_le)

end

section \<open>Snapshots\<close>

datatype Freshness = Fresh | Stale | Unknown

datatype EvidenceAttentionState = EvidenceNone | Missing | VerificationPending

datatype OrdinaryQueueDisposition = InQueue | ExitedAfterCompleteAcceptOrTransfer

datatype AttentionInputError =
  RiskExitRequiresAcceptOrTransfer
| RiskExitProofIncomplete
| OpenIssueCannotCarryVerificationState
| ResolvedIssueRequiresResolutionEvidence
| ClosedIssueCannotRequireAttention
| FailedVerificationRequiresReopenGuidance

record CompleteRiskExitProof =
  proof_response :: RiskResponseType
  proof_owner :: entity_id
  proof_rationale :: string
  proof_residual_exposure :: string
  proof_review_at :: UtcTimestamp

definition CompleteRiskExitProof_new ::
  "RiskResponseType \<Rightarrow> entity_id option \<Rightarrow> string option \<Rightarrow> string option \<Rightarrow> UtcTimestamp option
     \<Rightarrow> AttentionInputError + CompleteRiskExitProof" where
  "CompleteRiskExitProof_new response owner rationale residual_exposure review_at =
     (if response \<noteq> RiskResponseType.Accept \<and> response \<noteq> RiskResponseType.Transfer
      then Inl RiskExitRequiresAcceptOrTransfer
      else
        rbind (ok_or RiskExitProofIncomplete owner) (\<lambda>owner.
        rbind (ok_or RiskExitProofIncomplete rationale) (\<lambda>rationale.
        rbind (ok_or RiskExitProofIncomplete residual_exposure) (\<lambda>residual_exposure.
        rbind (ok_or RiskExitProofIncomplete review_at) (\<lambda>review_at.
        Inr \<lparr>proof_response = response, proof_owner = owner, proof_rationale = rationale,
             proof_residual_exposure = residual_exposure, proof_review_at = review_at\<rparr>)))))"

datatype IssueEvidenceAttentionState =
  IssueEvidenceNone
| ResolutionEvidenceMissing
| VerificationEvidenceMissing
| VerificationPending
| FailedVerification

record AttentionMetadata =
  metadata_classification :: DataClassification
  metadata_freshness :: Freshness
  metadata_degraded :: bool

record FailedVerificationReopenGuidance =
  safe_explanation :: string
  guidance_remediation :: string
  guidance_reopen_rationale :: string

record AttentionFlag =
  flag_target :: AttentionTarget
  flag_reason :: AttentionReason
  flag_metadata :: AttentionMetadata
  flag_explanation :: string
  flag_failed_verification_guidance :: "FailedVerificationReopenGuidance option"

record AttentionThresholds =
  decision_approaching_deadline_millis :: int
  action_at_risk_millis :: "int option"

record ActionRequestAttentionInput =
  request_id :: entity_id
  request_state :: ActionRequestState
  request_intended_owner_present :: bool
  request_response_due_at :: "UtcTimestamp option"
  request_needs_info :: bool
  request_metadata :: AttentionMetadata

record ActionAttentionInput =
  action_id :: entity_id
  action_state :: ActionState
  action_due_at :: UtcTimestamp
  action_blocked :: bool
  action_at_risk :: bool
  action_evidence_state :: EvidenceAttentionState
  action_superseded_premise :: bool
  action_metadata :: AttentionMetadata

record DecisionRequestAttentionInput =
  decision_request_id :: entity_id
  decision_request_state :: DecisionRequestState
  decision_owner_present :: bool
  decision_deadline_at :: "UtcTimestamp option"
  decision_request_needs_info :: bool
  decision_request_metadata :: AttentionMetadata

record RiskAttentionInput =
  risk_id :: entity_id
  risk_state :: RiskState
  risk_next_review_at :: "UtcTimestamp option"
  risk_exposure_increased :: bool
  risk_evidence_stale :: bool
  risk_control_invalid :: bool
  risk_owner_present :: bool
  risk_queue_disposition :: OrdinaryQueueDisposition
  risk_exit_proof :: "CompleteRiskExitProof option"
  risk_metadata :: AttentionMetadata

definition RiskAttentionInput_in_queue ::
  "entity_id \<Rightarrow> RiskState \<Rightarrow> UtcTimestamp option \<Rightarrow> bool \<Rightarrow> bool \<Rightarrow> bool \<Rightarrow> bool \<Rightarrow> AttentionMetadata
     \<Rightarrow> RiskAttentionInput" where
  "RiskAttentionInput_in_queue i state next_review_at exposure_increased evidence_stale
     control_invalid owner_present metadata =
     \<lparr>risk_id = i, risk_state = state, risk_next_review_at = next_review_at,
      risk_exposure_increased = exposure_increased, risk_evidence_stale = evidence_stale,
      risk_control_invalid = control_invalid, risk_owner_present = owner_present,
      risk_queue_disposition = InQueue, risk_exit_proof = None, risk_metadata = metadata\<rparr>"

definition RiskAttentionInput_exited ::
  "entity_id \<Rightarrow> RiskState \<Rightarrow> CompleteRiskExitProof \<Rightarrow> bool \<Rightarrow> bool \<Rightarrow> bool \<Rightarrow> AttentionMetadata
     \<Rightarrow> RiskAttentionInput" where
  "RiskAttentionInput_exited i state prf exposure_increased evidence_stale control_invalid metadata =
     \<lparr>risk_id = i, risk_state = state, risk_next_review_at = Some (proof_review_at prf),
      risk_exposure_increased = exposure_increased, risk_evidence_stale = evidence_stale,
      risk_control_invalid = control_invalid, risk_owner_present = True,
      risk_queue_disposition = ExitedAfterCompleteAcceptOrTransfer, risk_exit_proof = Some prf,
      risk_metadata = metadata\<rparr>"

datatype ResolvedIssueVerification =
  VerificationComplete
| EvidenceMissing
| Pending
| Failed FailedVerificationReopenGuidance

datatype IssueAttentionSnapshot =
  OpenIssue bool
| ResolvedIssue ResolvedIssueVerification
| ClosedIssue

record IssueAttentionInput =
  attention_issue_id :: entity_id
  issue_snapshot :: IssueAttentionSnapshot
  issue_resolution_due_at :: "UtcTimestamp option"
  issue_blocked :: bool
  issue_recurrence_link_present :: bool
  issue_metadata :: AttentionMetadata

definition IssueAttentionInput_open ::
  "entity_id \<Rightarrow> UtcTimestamp option \<Rightarrow> bool \<Rightarrow> bool \<Rightarrow> bool \<Rightarrow> AttentionMetadata \<Rightarrow> IssueAttentionInput" where
  "IssueAttentionInput_open i due blocked evidence_missing recurrence metadata =
     \<lparr>attention_issue_id = i, issue_snapshot = OpenIssue evidence_missing, issue_resolution_due_at = due,
      issue_blocked = blocked, issue_recurrence_link_present = recurrence, issue_metadata = metadata\<rparr>"

definition IssueAttentionInput_resolved ::
  "entity_id \<Rightarrow> UtcTimestamp option \<Rightarrow> bool \<Rightarrow> ResolvedIssueVerification \<Rightarrow> bool \<Rightarrow> AttentionMetadata
     \<Rightarrow> IssueAttentionInput" where
  "IssueAttentionInput_resolved i due blocked verification recurrence metadata =
     \<lparr>attention_issue_id = i, issue_snapshot = ResolvedIssue verification, issue_resolution_due_at = due,
      issue_blocked = blocked, issue_recurrence_link_present = recurrence, issue_metadata = metadata\<rparr>"

definition IssueAttentionInput_closed :: "entity_id \<Rightarrow> AttentionMetadata \<Rightarrow> IssueAttentionInput" where
  "IssueAttentionInput_closed i metadata =
     \<lparr>attention_issue_id = i, issue_snapshot = ClosedIssue, issue_resolution_due_at = None,
      issue_blocked = False, issue_recurrence_link_present = False, issue_metadata = metadata\<rparr>"

definition failed_verification_reopen_guidance ::
  "IssueAttentionInput \<Rightarrow> FailedVerificationReopenGuidance option" where
  "failed_verification_reopen_guidance i =
     (case issue_snapshot i of ResolvedIssue (Failed guidance) \<Rightarrow> Some guidance | _ \<Rightarrow> None)"

definition IssueAttentionInput_try_new ::
  "entity_id \<Rightarrow> IssueState \<Rightarrow> UtcTimestamp option \<Rightarrow> bool \<Rightarrow> IssueEvidenceAttentionState
     \<Rightarrow> FailedVerificationReopenGuidance option \<Rightarrow> bool \<Rightarrow> AttentionMetadata
     \<Rightarrow> AttentionInputError + IssueAttentionInput" where
  "IssueAttentionInput_try_new i state due blocked evidence_state failed_guidance recurrence metadata =
     (case state of
        IssueState.Open \<Rightarrow>
          (case evidence_state of
             IssueEvidenceNone \<Rightarrow> Inr (IssueAttentionInput_open i due blocked False recurrence metadata)
           | ResolutionEvidenceMissing \<Rightarrow>
               Inr (IssueAttentionInput_open i due blocked True recurrence metadata)
           | _ \<Rightarrow> Inl OpenIssueCannotCarryVerificationState)
      | IssueState.Resolved \<Rightarrow>
          (case evidence_state of
             IssueEvidenceNone \<Rightarrow>
               Inr (IssueAttentionInput_resolved i due blocked VerificationComplete recurrence metadata)
           | ResolutionEvidenceMissing \<Rightarrow> Inl ResolvedIssueRequiresResolutionEvidence
           | VerificationEvidenceMissing \<Rightarrow>
               Inr (IssueAttentionInput_resolved i due blocked EvidenceMissing recurrence metadata)
           | IssueEvidenceAttentionState.VerificationPending \<Rightarrow>
               Inr (IssueAttentionInput_resolved i due blocked Pending recurrence metadata)
           | FailedVerification \<Rightarrow>
               rbind (ok_or FailedVerificationRequiresReopenGuidance failed_guidance) (\<lambda>guidance.
               Inr (IssueAttentionInput_resolved i due blocked (Failed guidance) recurrence metadata)))
      | IssueState.Closed \<Rightarrow>
          if evidence_state = IssueEvidenceNone \<and> due = None \<and> \<not> blocked \<and> \<not> recurrence
          then Inr (IssueAttentionInput_closed i metadata)
          else Inl ClosedIssueCannotRequireAttention)"

record AttentionInputs =
  as_of :: UtcTimestamp
  thresholds :: AttentionThresholds
  action_requests :: "ActionRequestAttentionInput list"
  attention_actions :: "ActionAttentionInput list"
  decision_requests :: "DecisionRequestAttentionInput list"
  attention_risks :: "RiskAttentionInput list"
  attention_issues :: "IssueAttentionInput list"

definition AttentionInputs_default :: AttentionInputs where
  "AttentionInputs_default =
     \<lparr>as_of = from_unix_millis 0,
      thresholds = \<lparr>decision_approaching_deadline_millis = 0, action_at_risk_millis = None\<rparr>,
      action_requests = [], attention_actions = [], decision_requests = [], attention_risks = [],
      attention_issues = []\<rparr>"

record RiskReentrySummary =
  summary_target :: AttentionTarget
  summary_reasons :: "AttentionReason list"
  summary_explanation :: string

record AttentionResult =
  result_as_of :: UtcTimestamp
  result_flags :: "AttentionFlag list"
  result_risk_reentry_summaries :: "RiskReentrySummary list"

section \<open>Derivation\<close>

text \<open>\<^verbatim>\<open>push\<close>: the flag it appends, if any.\<close>

definition push ::
  "AttentionTarget \<Rightarrow> AttentionMetadata \<Rightarrow> AttentionReason \<Rightarrow> bool \<Rightarrow> string \<Rightarrow> AttentionFlag list" where
  "push target metadata reason enabled explanation =
     (if enabled
      then [\<lparr>flag_target = target, flag_reason = reason, flag_metadata = metadata,
             flag_explanation = explanation, flag_failed_verification_guidance = None\<rparr>]
      else [])"

definition action_request_flags :: "UtcTimestamp \<Rightarrow> ActionRequestAttentionInput \<Rightarrow> AttentionFlag list" where
  "action_request_flags now item =
     (if request_state item \<in> {ActionRequestState.Accepted, ActionRequestState.Declined, ActionRequestState.Withdrawn}
      then []
      else
        let push = push (AttentionTarget.ActionRequest (request_id item)) (request_metadata item) in
        push ActionRequestNeedsInfo (request_needs_info item) ''additional information is required'' @
        push ActionRequestStale (metadata_freshness (request_metadata item) = Stale)
          ''the request information is stale'' @
        push ActionRequestMissingIntendedOwner (\<not> request_intended_owner_present item)
          ''an intended owner is missing'' @
        (case request_response_due_at item of
           None \<Rightarrow> []
         | Some deadline \<Rightarrow>
             let overdue = deadline < now in
             push ActionRequestResponseOverdue overdue ''the response deadline has passed'' @
             push ActionRequestResponseDue (\<not> overdue \<and> deadline = now) ''the response is due''))"

definition action_flags :: "int option \<Rightarrow> UtcTimestamp \<Rightarrow> ActionAttentionInput \<Rightarrow> AttentionFlag list" where
  "action_flags window now item =
     (if action_state item \<in> {ActionState.Completed, ActionState.Cancelled} then []
      else
        let push = push (AttentionTarget.Action (action_id item)) (action_metadata item);
            at_risk = action_at_risk item \<or>
              (case window of
                 None \<Rightarrow> False
               | Some w \<Rightarrow>
                   let remaining = unix_millis (action_due_at item) - unix_millis now in
                   remaining \<ge> 0 \<and> remaining \<le> w)
        in
        push ActionBlocked (action_blocked item) ''the action is blocked'' @
        push ActionOverdue (action_due_at item < now) ''the action deadline has passed'' @
        push ActionAtRisk at_risk ''the action is at risk'' @
        push ActionNeedsEvidence (action_evidence_state item = Missing) ''completion evidence is required'' @
        push ActionEvidenceVerificationPending
          (action_evidence_state item = EvidenceAttentionState.VerificationPending)
          ''completion evidence is awaiting verification'' @
        push ActionSupersededPremise (action_superseded_premise item) ''the action premise was superseded'')"

definition decision_request_flags ::
  "int \<Rightarrow> UtcTimestamp \<Rightarrow> DecisionRequestAttentionInput \<Rightarrow> AttentionFlag list" where
  "decision_request_flags window now item =
     (if decision_request_state item \<in> {DecisionRequestState.Resolved, DecisionRequestState.Withdrawn} then []
      else
        let push = push (AttentionTarget.DecisionRequest (decision_request_id item))
                     (decision_request_metadata item) in
        push DecisionRequestNeedsInfo (decision_request_needs_info item) ''additional information is required'' @
        push DecisionRequestMissingDecisionOwner (\<not> decision_owner_present item) ''a decision owner is missing'' @
        push DecisionRequestStale (metadata_freshness (decision_request_metadata item) = Stale)
          ''the decision request information is stale'' @
        (case decision_deadline_at item of
           None \<Rightarrow> []
         | Some deadline \<Rightarrow>
             let remaining = unix_millis deadline - unix_millis now in
             push DecisionRequestOverdue (remaining < 0) ''the decision deadline has passed'' @
             push DecisionRequestApproachingDeadline (remaining \<ge> 0 \<and> remaining \<le> window)
               ''the decision deadline is approaching''))"

definition risk_flags :: "UtcTimestamp \<Rightarrow> RiskAttentionInput \<Rightarrow> AttentionFlag list" where
  "risk_flags now item =
     (if risk_state item \<in> {RiskState.Occurred, RiskState.Closed} then []
      else
        let push = push (AttentionTarget.Risk (risk_id item)) (risk_metadata item) in
        push RiskReviewDue (case risk_next_review_at item of None \<Rightarrow> False | Some at \<Rightarrow> at \<le> now)
          ''the risk review is due'' @
        push RiskExposureIncreased (risk_exposure_increased item) ''risk exposure increased'' @
        push RiskEvidenceStale (risk_evidence_stale item) ''risk evidence is stale'' @
        push RiskControlInvalid (risk_control_invalid item) ''the risk control is invalid'' @
        push RiskMissingOwner (\<not> risk_owner_present item) ''a risk owner is missing'')"

definition issue_flags :: "UtcTimestamp \<Rightarrow> IssueAttentionInput \<Rightarrow> AttentionFlag list" where
  "issue_flags now item =
     (if issue_snapshot item = ClosedIssue then []
      else
        let target = AttentionTarget.Issue (attention_issue_id item);
            push = push target (issue_metadata item);
            issue_evidence_missing = (issue_snapshot item = OpenIssue True);
            verification_missing = (issue_snapshot item = ResolvedIssue EvidenceMissing);
            verification_pending = (issue_snapshot item = ResolvedIssue Pending)
        in
        push IssueBlocked (issue_blocked item) ''the issue is blocked'' @
        (case issue_resolution_due_at item of
           None \<Rightarrow> []
         | Some deadline \<Rightarrow>
             let overdue = deadline < now in
             push IssueResolutionOverdue overdue ''the issue resolution deadline has passed'' @
             push IssueResolutionDue (\<not> overdue \<and> deadline = now) ''the issue resolution is due'') @
        push IssueNeedsEvidence (issue_evidence_missing \<or> verification_missing \<or> verification_pending)
          (if issue_evidence_missing then ''issue resolution evidence is required''
           else if verification_missing then ''issue closure verification evidence is required''
           else ''issue verification evidence is pending'') @
        (case issue_snapshot item of
           ResolvedIssue (Failed guidance) \<Rightarrow>
             [\<lparr>flag_target = target, flag_reason = IssueNeedsEvidence, flag_metadata = issue_metadata item,
               flag_explanation = ''issue verification failed; reasoned reopening is required'',
               flag_failed_verification_guidance = Some guidance\<rparr>]
         | _ \<Rightarrow> []) @
        push IssueStale (metadata_freshness (issue_metadata item) = Stale) ''issue information is stale'' @
        push IssueRecurrence (issue_recurrence_link_present item) ''the issue has a recurrence link'')"

definition flag_order :: "AttentionFlag \<Rightarrow> AttentionTarget \<times> AttentionReason" where
  "flag_order f = (flag_target f, flag_reason f)"

definition raised_flags :: "AttentionInputs \<Rightarrow> AttentionFlag list" where
  "raised_flags inp =
     (let decision_window = max (decision_approaching_deadline_millis (thresholds inp)) 0;
          action_window = map_option (\<lambda>window. max window 0) (action_at_risk_millis (thresholds inp))
      in
      concat (map (action_request_flags (as_of inp)) (action_requests inp)) @
      concat (map (action_flags action_window (as_of inp)) (attention_actions inp)) @
      concat (map (decision_request_flags decision_window (as_of inp)) (decision_requests inp)) @
      concat (map (risk_flags (as_of inp)) (attention_risks inp)) @
      concat (map (issue_flags (as_of inp)) (attention_issues inp)))"

definition reentry_condition :: "AttentionReason \<Rightarrow> bool" where
  "reentry_condition r \<longleftrightarrow>
     r \<in> {RiskReviewDue, RiskExposureIncreased, RiskEvidenceStale, RiskControlInvalid}"

definition reentry_summary :: "AttentionFlag list \<Rightarrow> RiskAttentionInput \<Rightarrow> RiskReentrySummary list" where
  "reentry_summary flags item =
     (let target = AttentionTarget.Risk (risk_id item);
          reasons = filter reentry_condition (map flag_reason (filter (\<lambda>f. flag_target f = target) flags));
          exited = (risk_queue_disposition item = ExitedAfterCompleteAcceptOrTransfer)
      in
      if exited \<and> length reasons \<ge> 2
      then [\<lparr>summary_target = target, summary_reasons = reasons,
             summary_explanation = ''multiple active risk conditions require combined review''\<rparr>]
      else [])"

definition derive_attention :: "AttentionInputs \<Rightarrow> AttentionResult" where
  "derive_attention inp =
     (let flags = sort_key flag_order (raised_flags inp) in
      \<lparr>result_as_of = as_of inp, result_flags = flags,
       result_risk_reentry_summaries =
         sort_key summary_target (concat (map (reentry_summary flags) (attention_risks inp)))\<rparr>)"

section \<open>What is derived\<close>

text \<open>The facts each reason stands for, per kind of record.\<close>

definition action_request_fact :: "UtcTimestamp \<Rightarrow> ActionRequestAttentionInput \<Rightarrow> AttentionReason \<Rightarrow> bool" where
  "action_request_fact now x r \<longleftrightarrow>
     (case r of
        ActionRequestNeedsInfo \<Rightarrow> request_needs_info x
      | ActionRequestStale \<Rightarrow> (metadata_freshness (request_metadata x) = Stale)
      | ActionRequestMissingIntendedOwner \<Rightarrow> (\<not> request_intended_owner_present x)
      | ActionRequestResponseOverdue \<Rightarrow> (\<exists>due. request_response_due_at x = Some due \<and> due < now)
      | ActionRequestResponseDue \<Rightarrow> (request_response_due_at x = Some now)
      | _ \<Rightarrow> False)"

definition action_fact :: "AttentionInputs \<Rightarrow> ActionAttentionInput \<Rightarrow> AttentionReason \<Rightarrow> bool" where
  "action_fact inp x r \<longleftrightarrow>
     (case r of
        ActionBlocked \<Rightarrow> action_blocked x
      | ActionOverdue \<Rightarrow> (action_due_at x < as_of inp)
      | ActionAtRisk \<Rightarrow> (action_at_risk x \<or>
          (\<exists>w. action_at_risk_millis (thresholds inp) = Some w \<and> as_of inp \<le> action_due_at x \<and>
          unix_millis (action_due_at x) \<le> unix_millis (as_of inp) + max w 0))
      | ActionNeedsEvidence \<Rightarrow> (action_evidence_state x = Missing)
      | ActionEvidenceVerificationPending \<Rightarrow> (action_evidence_state x = EvidenceAttentionState.VerificationPending)
      | ActionSupersededPremise \<Rightarrow> action_superseded_premise x
      | _ \<Rightarrow> False)"

definition decision_request_fact :: "AttentionInputs \<Rightarrow> DecisionRequestAttentionInput \<Rightarrow> AttentionReason \<Rightarrow> bool" where
  "decision_request_fact inp x r \<longleftrightarrow>
     (case r of
        DecisionRequestNeedsInfo \<Rightarrow> decision_request_needs_info x
      | DecisionRequestMissingDecisionOwner \<Rightarrow> (\<not> decision_owner_present x)
      | DecisionRequestStale \<Rightarrow> (metadata_freshness (decision_request_metadata x) = Stale)
      | DecisionRequestOverdue \<Rightarrow> (\<exists>due. decision_deadline_at x = Some due \<and> due < as_of inp)
      | DecisionRequestApproachingDeadline \<Rightarrow> (\<exists>due. decision_deadline_at x = Some due \<and> as_of inp \<le> due \<and>
          unix_millis due \<le> unix_millis (as_of inp) + max (decision_approaching_deadline_millis (thresholds inp)) 0)
      | _ \<Rightarrow> False)"

definition risk_fact :: "UtcTimestamp \<Rightarrow> RiskAttentionInput \<Rightarrow> AttentionReason \<Rightarrow> bool" where
  "risk_fact now x r \<longleftrightarrow>
     (case r of
        RiskReviewDue \<Rightarrow> (\<exists>at. risk_next_review_at x = Some at \<and> at \<le> now)
      | RiskExposureIncreased \<Rightarrow> risk_exposure_increased x
      | RiskEvidenceStale \<Rightarrow> risk_evidence_stale x
      | RiskControlInvalid \<Rightarrow> risk_control_invalid x
      | RiskMissingOwner \<Rightarrow> (\<not> risk_owner_present x)
      | _ \<Rightarrow> False)"

definition issue_fact :: "UtcTimestamp \<Rightarrow> IssueAttentionInput \<Rightarrow> AttentionReason \<Rightarrow> bool" where
  "issue_fact now x r \<longleftrightarrow>
     (case r of
        IssueBlocked \<Rightarrow> issue_blocked x
      | IssueResolutionOverdue \<Rightarrow> (\<exists>due. issue_resolution_due_at x = Some due \<and> due < now)
      | IssueResolutionDue \<Rightarrow> (issue_resolution_due_at x = Some now)
      | IssueNeedsEvidence \<Rightarrow> (issue_snapshot x \<notin> {OpenIssue False, ResolvedIssue VerificationComplete})
      | IssueStale \<Rightarrow> (metadata_freshness (issue_metadata x) = Stale)
      | IssueRecurrence \<Rightarrow> issue_recurrence_link_present x
      | _ \<Rightarrow> False)"

lemmas fact_defs = action_request_fact_def action_fact_def decision_request_fact_def risk_fact_def issue_fact_def

text \<open>A fact about a target: some record with that identity, in a state that still needs work.\<close>

fun attention_fact :: "AttentionInputs \<Rightarrow> AttentionTarget \<Rightarrow> AttentionReason \<Rightarrow> bool" where
  "attention_fact inp (AttentionTarget.ActionRequest i) r =
     (\<exists>x \<in> set (action_requests inp). request_id x = i \<and>
        request_state x \<in> {ActionRequestState.Draft, ActionRequestState.Open} \<and>
        action_request_fact (as_of inp) x r)"
| "attention_fact inp (AttentionTarget.Action i) r =
     (\<exists>x \<in> set (attention_actions inp). action_id x = i \<and>
        action_state x \<in> {ActionState.Open, ActionState.InProgress} \<and> action_fact inp x r)"
| "attention_fact inp (AttentionTarget.DecisionRequest i) r =
     (\<exists>x \<in> set (decision_requests inp). decision_request_id x = i \<and>
        decision_request_state x \<in> {DecisionRequestState.Draft, DecisionRequestState.Open} \<and>
        decision_request_fact inp x r)"
| "attention_fact inp (AttentionTarget.Risk i) r =
     (\<exists>x \<in> set (attention_risks inp). risk_id x = i \<and> risk_state x = RiskState.Open \<and>
        risk_fact (as_of inp) x r)"
| "attention_fact inp (AttentionTarget.Issue i) r =
     (\<exists>x \<in> set (attention_issues inp). attention_issue_id x = i \<and> issue_snapshot x \<noteq> ClosedIssue \<and>
        issue_fact (as_of inp) x r)"

text \<open>
  What the five loops share: an item raises flags of its own target, each reason at most once,
  exactly for the facts that hold of it.
\<close>

locale flag_source =
  fixes flags :: "'a \<Rightarrow> AttentionFlag list"
    and target :: "'a \<Rightarrow> AttentionTarget"
    and fact :: "'a \<Rightarrow> AttentionReason \<Rightarrow> bool"
  assumes own_target: "f \<in> set (flags x) \<Longrightarrow> flag_target f = target x"
    and reasons_once: "distinct (map flag_reason (flags x))"
    and exact: "r \<in> flag_reason ` set (flags x) \<longleftrightarrow> fact x r"
begin

lemma raised_iff:
  "(t, r) \<in> flag_order ` set (concat (map flags xs)) \<longleftrightarrow> (\<exists>x \<in> set xs. target x = t \<and> fact x r)"
proof
  assume "(t, r) \<in> flag_order ` set (concat (map flags xs))"
  then obtain f x where "x \<in> set xs" "f \<in> set (flags x)" "t = flag_target f" "r = flag_reason f"
    by (auto simp: flag_order_def)
  then show "\<exists>x \<in> set xs. target x = t \<and> fact x r"
    using own_target [of f x] exact [of r x] by auto
next
  assume "\<exists>x \<in> set xs. target x = t \<and> fact x r"
  then obtain x where x: "x \<in> set xs" "target x = t" "r \<in> flag_reason ` set (flags x)"
    using exact by auto
  then obtain f where "f \<in> set (flags x)" "flag_reason f = r" by auto
  moreover from this own_target [of f x] x have "(t, r) = flag_order f" by (simp add: flag_order_def)
  ultimately show "(t, r) \<in> flag_order ` set (concat (map flags xs))"
    using x(1) by (intro image_eqI) auto
qed

lemma raised_kind:
  assumes "p \<in> flag_order ` set (concat (map flags xs))"
  shows "\<exists>x. fst p = target x"
  using assms raised_iff [of "fst p" "snd p" xs] by (metis prod.collapse)

lemma targets_of_raised: "flag_target ` set (concat (map flags xs)) \<subseteq> target ` set xs"
  using own_target by fastforce

lemma distinct_raised:
  assumes "distinct (map target xs)"
  shows "distinct (map flag_order (concat (map flags xs)))"
  using assms
proof (induction xs)
  case (Cons x xs)
  have "map flag_order (flags x) = map (\<lambda>f. (target x, flag_reason f)) (flags x)"
    using own_target [of _ x] by (simp add: flag_order_def)
  then have "distinct (map flag_order (flags x))"
    using reasons_once [of x] by (simp add: distinct_map inj_on_def)
  moreover have "flag_order ` set (flags x) \<inter> flag_order ` set (concat (map flags xs)) = {}"
  proof (rule equals0I)
    fix p
    assume p: "p \<in> flag_order ` set (flags x) \<inter> flag_order ` set (concat (map flags xs))"
    obtain f where f: "f \<in> set (flags x)" "p = flag_order f" using p by (elim IntE imageE)
    obtain g where g: "g \<in> set (concat (map flags xs))" "p = flag_order g" using p by (elim IntE imageE)
    have "flag_target g = target x" using own_target [OF f(1)] f(2) g(2) by (simp add: flag_order_def)
    moreover have "flag_target g \<in> target ` set xs" using targets_of_raised [of xs] g(1) by blast
    ultimately show False using Cons.prems by auto
  qed
  ultimately show ?case using Cons by auto
qed simp

lemma filter_raised:
  assumes "distinct (map target xs)" "x \<in> set xs"
  shows "filter (\<lambda>f. flag_target f = target x) (concat (map flags xs)) = flags x"
  using assms
proof (induction xs)
  case (Cons y xs)
  have own: "filter (\<lambda>f. flag_target f = target x) (flags y) = (if target y = target x then flags y else [])"
    using own_target [of _ y] by (induction "flags y" rule: rev_induct) (auto simp: filter_id_conv filter_empty_conv)
  have none: "filter (\<lambda>f. flag_target f = t) (concat (map flags xs)) = []" if "t \<notin> target ` set xs" for t
    using that targets_of_raised [of xs] by (auto simp: filter_empty_conv)
  show ?case
  proof (cases "x = y")
    case True
    with Cons.prems own none [of "target x"] show ?thesis by auto
  next
    case False
    with Cons.prems have "x \<in> set xs" "target y \<noteq> target x" by auto
    with Cons.IH Cons.prems own show ?thesis by simp
  qed
qed simp

end

lemma reasons_push [simp]: "map flag_reason (push t m r b e) = (if b then [r] else [])"
  by (simp add: push_def)

lemma push_target: "f \<in> set (push t m r b e) \<Longrightarrow> flag_target f = t"
  by (auto simp: push_def split: if_splits)

interpretation action_request_source: flag_source
  "action_request_flags now" "\<lambda>x. AttentionTarget.ActionRequest (request_id x)"
  "\<lambda>x r. request_state x \<in> {ActionRequestState.Draft, ActionRequestState.Open} \<and> action_request_fact now x r"
  for now
proof
  fix f r and x :: ActionRequestAttentionInput
  show "f \<in> set (action_request_flags now x) \<Longrightarrow> flag_target f = AttentionTarget.ActionRequest (request_id x)"
    by (auto simp: action_request_flags_def Let_def dest!: push_target split: if_splits option.splits)
  have reasons: "map flag_reason (action_request_flags now x) =
     filter (\<lambda>r. request_state x \<in> {ActionRequestState.Draft, ActionRequestState.Open} \<and> action_request_fact now x r)
       [ActionRequestNeedsInfo, ActionRequestStale, ActionRequestMissingIntendedOwner,
        ActionRequestResponseOverdue, ActionRequestResponseDue]"
    by (cases "request_state x"; cases "request_response_due_at x") (auto simp: action_request_flags_def Let_def fact_defs)
  then show "distinct (map flag_reason (action_request_flags now x))" by simp
  have listed: "action_request_fact now x r \<Longrightarrow> r \<in> set [ActionRequestNeedsInfo, ActionRequestStale, ActionRequestMissingIntendedOwner,
        ActionRequestResponseOverdue, ActionRequestResponseDue]"
    by (cases r) (simp_all add: fact_defs)
  show "r \<in> flag_reason ` set (action_request_flags now x) \<longleftrightarrow>
     request_state x \<in> {ActionRequestState.Draft, ActionRequestState.Open} \<and> action_request_fact now x r"
    unfolding set_map [symmetric] reasons set_filter using listed by blast
qed

lemma timestamp_le_iff: "(a :: UtcTimestamp) \<le> b \<longleftrightarrow> unix_millis a \<le> unix_millis b"
  and timestamp_less_iff: "(a :: UtcTimestamp) < b \<longleftrightarrow> unix_millis a < unix_millis b"
  by (simp_all add: less_eq_UtcTimestamp_def less_UtcTimestamp_def)

definition action_window :: "AttentionInputs \<Rightarrow> int option" where
  "action_window inp = map_option (\<lambda>window. max window 0) (action_at_risk_millis (thresholds inp))"

definition decision_window :: "AttentionInputs \<Rightarrow> int" where
  "decision_window inp = max (decision_approaching_deadline_millis (thresholds inp)) 0"

interpretation action_source: flag_source
  "action_flags (action_window inp) (as_of inp)" "\<lambda>x. AttentionTarget.Action (action_id x)"
  "\<lambda>x r. action_state x \<in> {ActionState.Open, ActionState.InProgress} \<and> action_fact inp x r"
  for inp
proof
  fix f r and x :: ActionAttentionInput
  show "f \<in> set (action_flags (action_window inp) (as_of inp) x) \<Longrightarrow>
      flag_target f = AttentionTarget.Action (action_id x)"
    by (auto simp: action_flags_def Let_def dest!: push_target split: if_splits)
  have reasons: "map flag_reason (action_flags (action_window inp) (as_of inp) x) =
     filter (\<lambda>r. action_state x \<in> {ActionState.Open, ActionState.InProgress} \<and> action_fact inp x r)
       [ActionBlocked, ActionOverdue, ActionAtRisk, ActionNeedsEvidence,
        ActionEvidenceVerificationPending, ActionSupersededPremise]"
    by (cases "action_state x"; cases "action_at_risk_millis (thresholds inp)")
      (auto simp: action_flags_def Let_def action_window_def timestamp_le_iff fact_defs)
  then show "distinct (map flag_reason (action_flags (action_window inp) (as_of inp) x))" by simp
  have listed: "action_fact inp x r \<Longrightarrow> r \<in> set [ActionBlocked, ActionOverdue, ActionAtRisk, ActionNeedsEvidence,
        ActionEvidenceVerificationPending, ActionSupersededPremise]"
    by (cases r) (simp_all add: fact_defs)
  show "r \<in> flag_reason ` set (action_flags (action_window inp) (as_of inp) x) \<longleftrightarrow>
     action_state x \<in> {ActionState.Open, ActionState.InProgress} \<and> action_fact inp x r"
    unfolding set_map [symmetric] reasons set_filter using listed by blast
qed

interpretation decision_request_source: flag_source
  "decision_request_flags (decision_window inp) (as_of inp)"
  "\<lambda>x. AttentionTarget.DecisionRequest (decision_request_id x)"
  "\<lambda>x r. decision_request_state x \<in> {DecisionRequestState.Draft, DecisionRequestState.Open} \<and>
     decision_request_fact inp x r"
  for inp
proof
  fix f r and x :: DecisionRequestAttentionInput
  show "f \<in> set (decision_request_flags (decision_window inp) (as_of inp) x) \<Longrightarrow>
      flag_target f = AttentionTarget.DecisionRequest (decision_request_id x)"
    by (auto simp: decision_request_flags_def Let_def dest!: push_target split: if_splits option.splits)
  have reasons: "map flag_reason (decision_request_flags (decision_window inp) (as_of inp) x) =
     filter (\<lambda>r. decision_request_state x \<in> {DecisionRequestState.Draft, DecisionRequestState.Open} \<and>
         decision_request_fact inp x r)
       [DecisionRequestNeedsInfo, DecisionRequestMissingDecisionOwner, DecisionRequestStale,
        DecisionRequestOverdue, DecisionRequestApproachingDeadline]"
    by (cases "decision_request_state x"; cases "decision_deadline_at x")
      (auto simp: decision_request_flags_def Let_def decision_window_def timestamp_le_iff timestamp_less_iff fact_defs)
  then show "distinct (map flag_reason (decision_request_flags (decision_window inp) (as_of inp) x))" by simp
  have listed: "decision_request_fact inp x r \<Longrightarrow> r \<in> set [DecisionRequestNeedsInfo, DecisionRequestMissingDecisionOwner, DecisionRequestStale,
        DecisionRequestOverdue, DecisionRequestApproachingDeadline]"
    by (cases r) (simp_all add: fact_defs)
  show "r \<in> flag_reason ` set (decision_request_flags (decision_window inp) (as_of inp) x) \<longleftrightarrow>
     decision_request_state x \<in> {DecisionRequestState.Draft, DecisionRequestState.Open} \<and>
     decision_request_fact inp x r"
    unfolding set_map [symmetric] reasons set_filter using listed by blast
qed

definition risk_reasons :: "UtcTimestamp \<Rightarrow> RiskAttentionInput \<Rightarrow> AttentionReason list" where
  "risk_reasons now x = filter (\<lambda>r. risk_state x = RiskState.Open \<and> risk_fact now x r)
     [RiskReviewDue, RiskExposureIncreased, RiskEvidenceStale, RiskControlInvalid, RiskMissingOwner]"

lemma risk_flags_reasons: "map flag_reason (risk_flags now x) = risk_reasons now x"
  by (cases "risk_state x"; cases "risk_next_review_at x") (auto simp: risk_flags_def risk_reasons_def Let_def fact_defs)

interpretation risk_source: flag_source
  "risk_flags now" "\<lambda>x. AttentionTarget.Risk (risk_id x)"
  "\<lambda>x r. risk_state x = RiskState.Open \<and> risk_fact now x r"
  for now
proof
  fix f r and x :: RiskAttentionInput
  show "f \<in> set (risk_flags now x) \<Longrightarrow> flag_target f = AttentionTarget.Risk (risk_id x)"
    by (auto simp: risk_flags_def Let_def dest!: push_target split: if_splits)
  show "distinct (map flag_reason (risk_flags now x))"
    unfolding risk_flags_reasons by (simp add: risk_reasons_def)
  have listed: "risk_fact now x r \<Longrightarrow> r \<in> set [RiskReviewDue, RiskExposureIncreased, RiskEvidenceStale, RiskControlInvalid, RiskMissingOwner]"
    by (cases r) (simp_all add: fact_defs)
  show "r \<in> flag_reason ` set (risk_flags now x) \<longleftrightarrow> risk_state x = RiskState.Open \<and> risk_fact now x r"
    unfolding set_map [symmetric] risk_flags_reasons risk_reasons_def set_filter using listed by blast
qed

interpretation issue_source: flag_source
  "issue_flags now" "\<lambda>x. AttentionTarget.Issue (attention_issue_id x)"
  "\<lambda>x r. issue_snapshot x \<noteq> ClosedIssue \<and> issue_fact now x r"
  for now
proof
  fix f r and x :: IssueAttentionInput
  show "f \<in> set (issue_flags now x) \<Longrightarrow> flag_target f = AttentionTarget.Issue (attention_issue_id x)"
    by (auto simp: issue_flags_def Let_def dest!: push_target
        split: if_splits option.splits IssueAttentionSnapshot.splits ResolvedIssueVerification.splits)
  have reasons: "map flag_reason (issue_flags now x) =
     filter (\<lambda>r. issue_snapshot x \<noteq> ClosedIssue \<and> issue_fact now x r)
       [IssueBlocked, IssueResolutionOverdue, IssueResolutionDue, IssueNeedsEvidence, IssueStale, IssueRecurrence]"
    by (cases "issue_resolution_due_at x")
      (auto simp: issue_flags_def Let_def fact_defs split: IssueAttentionSnapshot.splits ResolvedIssueVerification.splits)
  then show "distinct (map flag_reason (issue_flags now x))" by simp
  have listed: "issue_fact now x r \<Longrightarrow> r \<in> set [IssueBlocked, IssueResolutionOverdue, IssueResolutionDue, IssueNeedsEvidence, IssueStale, IssueRecurrence]"
    by (cases r) (simp_all add: fact_defs)
  show "r \<in> flag_reason ` set (issue_flags now x) \<longleftrightarrow> issue_snapshot x \<noteq> ClosedIssue \<and> issue_fact now x r"
    unfolding set_map [symmetric] reasons set_filter using listed by blast
qed

lemmas raised_from_sources = raised_flags_def Let_def
  action_window_def [symmetric] decision_window_def [symmetric]

lemma raised_flags_iff: "(t, r) \<in> flag_order ` set (raised_flags inp) \<longleftrightarrow> attention_fact inp t r"
  unfolding raised_from_sources set_append image_Un Un_iff
    action_request_source.raised_iff action_source.raised_iff decision_request_source.raised_iff
    risk_source.raised_iff issue_source.raised_iff
  by (cases t) auto

text \<open>Snapshots that name every record once.\<close>

definition distinct_records :: "AttentionInputs \<Rightarrow> bool" where
  "distinct_records inp \<longleftrightarrow>
     distinct (map request_id (action_requests inp)) \<and> distinct (map action_id (attention_actions inp)) \<and>
     distinct (map decision_request_id (decision_requests inp)) \<and>
     distinct (map risk_id (attention_risks inp)) \<and> distinct (map attention_issue_id (attention_issues inp))"

text \<open>The same snapshots, listed in another order.\<close>

definition same_records :: "AttentionInputs \<Rightarrow> AttentionInputs \<Rightarrow> bool" where
  "same_records a b \<longleftrightarrow>
     as_of a = as_of b \<and> thresholds a = thresholds b \<and>
     mset (action_requests a) = mset (action_requests b) \<and>
     mset (attention_actions a) = mset (attention_actions b) \<and>
     mset (decision_requests a) = mset (decision_requests b) \<and>
     mset (attention_risks a) = mset (attention_risks b) \<and>
     mset (attention_issues a) = mset (attention_issues b)"

lemma kinds_disjoint: "(\<And>p. p \<in> A \<Longrightarrow> g p = j) \<Longrightarrow> (\<And>p. p \<in> B \<Longrightarrow> g p \<noteq> j) \<Longrightarrow> A \<inter> B = {}"
  by blast

lemmas raised_kinds =
  action_request_source.raised_kind action_source.raised_kind decision_request_source.raised_kind
  risk_source.raised_kind issue_source.raised_kind

lemma distinct_raised_flags:
  assumes "distinct_records inp"
  shows "distinct (map flag_order (raised_flags inp))"
proof -
  have parts:
    "distinct (map flag_order (concat (map (action_request_flags (as_of inp)) (action_requests inp))))"
    "distinct (map flag_order (concat (map (action_flags (action_window inp) (as_of inp)) (attention_actions inp))))"
    "distinct (map flag_order (concat (map (decision_request_flags (decision_window inp) (as_of inp)) (decision_requests inp))))"
    "distinct (map flag_order (concat (map (risk_flags (as_of inp)) (attention_risks inp))))"
    "distinct (map flag_order (concat (map (issue_flags (as_of inp)) (attention_issues inp))))"
    using assms
    by (auto intro!: action_request_source.distinct_raised action_source.distinct_raised
        decision_request_source.distinct_raised risk_source.distinct_raised issue_source.distinct_raised
        simp: distinct_records_def distinct_under_constructor inj_def)
  show ?thesis
    unfolding raised_from_sources map_append distinct_append set_map set_append image_Un
    by (intro conjI parts kinds_disjoint [where g = "\<lambda>p. fst (target_key (fst p))"])
      ((elim UnE)?, drule raised_kinds, elim exE, simp)+
qed

section \<open>Properties\<close>

lemma result_flags_eq: "result_flags (derive_attention inp) = sort_key flag_order (raised_flags inp)"
  by (simp add: derive_attention_def Let_def)

text \<open>
  C33. Attention is exactly the facts: a flag of a reason is raised against a target if and only
  if some record of that identity is in a state that still needs work and the reason's fact holds
  of it (deadlines against the instant of the snapshot, windows clipped at zero and inclusive at
  both ends), for every \<open>i64\<close> instant; nothing terminal is ever flagged, and the flags come
  sorted by target and then reason.
\<close>

theorem attention_exactly_the_facts:
  "((\<exists>f \<in> set (result_flags (derive_attention inp)). flag_target f = t \<and> flag_reason f = r) \<longleftrightarrow>
      attention_fact inp t r) \<and>
   sorted (map flag_order (result_flags (derive_attention inp)))"
proof -
  have "(\<exists>f \<in> set (raised_flags inp). flag_target f = t \<and> flag_reason f = r) \<longleftrightarrow>
      (t, r) \<in> flag_order ` set (raised_flags inp)"
    by (auto simp: flag_order_def)
  then show ?thesis by (simp add: result_flags_eq raised_flags_iff)
qed

lemma same_raised_flags: "same_records a b \<Longrightarrow> mset (raised_flags a) = mset (raised_flags b)"
  by (auto simp: same_records_def raised_flags_def Let_def intro!: arg_cong2 [where f = "(+)"] mset_concat_map)

lemma reentry_summary_targets:
  "map summary_target (concat (map (reentry_summary flags) risks)) =
     map (\<lambda>x. AttentionTarget.Risk (risk_id x)) (filter (\<lambda>x. reentry_summary flags x \<noteq> []) risks)"
  by (induction risks) (auto simp: reentry_summary_def Let_def)

text \<open>
  The result does not depend on the order in which the snapshots list their records: when
  each kind names every record once, listing them in any other order gives the same flags in the
  same order, no flag twice, and the same re-entry summaries.
\<close>

theorem attention_order_independent:
  assumes "distinct_records a" and "same_records a b"
  shows "derive_attention a = derive_attention b \<and>
    distinct (map flag_order (result_flags (derive_attention a)))"
proof -
  let ?flags = "sort_key flag_order (raised_flags a)"
  have flags: "?flags = sort_key flag_order (raised_flags b)"
    by (rule sort_key_unique [OF distinct_raised_flags [OF assms(1)] same_raised_flags [OF assms(2)]])
  have "distinct (map (\<lambda>x. AttentionTarget.Risk (risk_id x)) (attention_risks a))"
    using assms(1) by (simp add: distinct_records_def distinct_under_constructor inj_def)
  then have "distinct (map summary_target (concat (map (reentry_summary ?flags) (attention_risks a))))"
    unfolding reentry_summary_targets by (rule distinct_map_filter)
  moreover have "mset (attention_risks a) = mset (attention_risks b)" "as_of a = as_of b"
    using assms(2) by (simp_all add: same_records_def)
  ultimately have "sort_key summary_target (concat (map (reentry_summary ?flags) (attention_risks a))) =
      sort_key summary_target (concat (map (reentry_summary ?flags) (attention_risks b)))"
    by (intro sort_key_unique mset_concat_map)
  then have "derive_attention a = derive_attention b"
    using flags \<open>as_of a = as_of b\<close> by (simp add: derive_attention_def Let_def)
  moreover have "distinct (map flag_order (result_flags (derive_attention a)))"
    unfolding result_flags_eq distinct_map_sort_key by (rule distinct_raised_flags [OF assms(1)])
  ultimately show ?thesis ..
qed

definition example_metadata :: AttentionMetadata where
  "example_metadata = \<lparr>metadata_classification = DataClassification.Internal, metadata_freshness = Fresh,
     metadata_degraded = False\<rparr>"

definition example_proof :: CompleteRiskExitProof where
  "example_proof = \<lparr>proof_response = RiskResponseType.Accept, proof_owner = ''o'', proof_rationale = ''r'',
     proof_residual_exposure = ''low'', proof_review_at = from_unix_millis 5\<rparr>"

definition example_risk :: "string \<Rightarrow> RiskAttentionInput" where
  "example_risk i = RiskAttentionInput_exited i RiskState.Open example_proof True False False example_metadata"

definition example_inputs :: "string list \<Rightarrow> AttentionInputs" where
  "example_inputs is = AttentionInputs_default\<lparr>as_of := from_unix_millis 5, attention_risks := map example_risk is\<rparr>"

lemma reentry_reasons:
  assumes "distinct_records inp" "x \<in> set (attention_risks inp)"
  shows "map flag_reason (filter (\<lambda>f. flag_target f = AttentionTarget.Risk (risk_id x))
    (result_flags (derive_attention inp))) = risk_reasons (as_of inp) x"
proof -
  let ?P = "\<lambda>f. flag_target f = AttentionTarget.Risk (risk_id x)"
  have none: "filter ?P (concat (map F xs)) = []"
    if "\<And>y f. f \<in> set (F y) \<Longrightarrow> \<not> ?P f" for F :: "'b \<Rightarrow> AttentionFlag list" and xs
    using that by (auto simp: filter_empty_conv)
  have "distinct (map (\<lambda>x. AttentionTarget.Risk (risk_id x)) (attention_risks inp))"
    using assms(1) by (simp add: distinct_records_def distinct_under_constructor inj_def)
  note own = risk_source.filter_raised [OF this assms(2), of "as_of inp"]
  have "filter ?P (raised_flags inp) = risk_flags (as_of inp) x"
    unfolding raised_from_sources filter_append own
    by (subst none none, simp_all add: action_request_source.own_target action_source.own_target
        decision_request_source.own_target issue_source.own_target)+
  moreover have "sorted (map flag_order (risk_flags (as_of inp) x))"
  proof -
    have "map flag_order (risk_flags (as_of inp) x) =
        map (Pair (AttentionTarget.Risk (risk_id x))) (risk_reasons (as_of inp) x)"
      unfolding risk_flags_reasons [symmetric] by (auto simp: flag_order_def risk_source.own_target)
    then show ?thesis
      by (simp add: risk_reasons_def sorted_wrt_map less_eq_AttentionReason_def)
  qed
  ultimately show ?thesis
    unfolding result_flags_eq filter_sort risk_flags_reasons [symmetric]
    by (simp add: sort_key_id_if_sorted)
qed

text \<open>
  A Risk that left the ordinary queue through a complete acceptance or transfer comes back as
  one summary exactly when at least two of its four conditions (review due, exposure increased,
  Evidence stale, control invalid) hold while it is open; the summary lists exactly those, in that
  order, and the summaries come sorted by Risk.
\<close>

theorem risk_reentry_exact:
  assumes "distinct_records inp"
  shows "(s \<in> set (result_risk_reentry_summaries (derive_attention inp)) \<longleftrightarrow>
      (\<exists>x rs. x \<in> set (attention_risks inp) \<and>
         risk_queue_disposition x = ExitedAfterCompleteAcceptOrTransfer \<and> risk_state x = RiskState.Open \<and>
         rs = filter (risk_fact (as_of inp) x)
           [RiskReviewDue, RiskExposureIncreased, RiskEvidenceStale, RiskControlInvalid] \<and>
         2 \<le> length rs \<and>
         s = \<lparr>summary_target = AttentionTarget.Risk (risk_id x), summary_reasons = rs,
              summary_explanation = ''multiple active risk conditions require combined review''\<rparr>)) \<and>
    sorted (map summary_target (result_risk_reentry_summaries (derive_attention inp)))"
proof -
  let ?flags = "result_flags (derive_attention inp)" and ?now = "as_of inp"
  have conditions: "filter reentry_condition (risk_reasons ?now x) =
      (if risk_state x = RiskState.Open
       then filter (risk_fact ?now x) [RiskReviewDue, RiskExposureIncreased, RiskEvidenceStale, RiskControlInvalid]
       else [])" for x
    by (auto simp: risk_reasons_def reentry_condition_def)
  have "s \<in> set (reentry_summary ?flags x) \<longleftrightarrow>
      (\<exists>rs. risk_queue_disposition x = ExitedAfterCompleteAcceptOrTransfer \<and> risk_state x = RiskState.Open \<and>
         rs = filter (risk_fact ?now x)
           [RiskReviewDue, RiskExposureIncreased, RiskEvidenceStale, RiskControlInvalid] \<and>
         2 \<le> length rs \<and>
         s = \<lparr>summary_target = AttentionTarget.Risk (risk_id x), summary_reasons = rs,
              summary_explanation = ''multiple active risk conditions require combined review''\<rparr>)"
    if "x \<in> set (attention_risks inp)" for x
    unfolding reentry_summary_def Let_def reentry_reasons [OF assms that] conditions
    by (cases "risk_state x = RiskState.Open") (auto simp del: filter.simps)
  moreover have "set (result_risk_reentry_summaries (derive_attention inp)) =
      (\<Union>x \<in> set (attention_risks inp). set (reentry_summary ?flags x))"
    by (simp add: derive_attention_def Let_def)
  ultimately have "s \<in> set (result_risk_reentry_summaries (derive_attention inp)) \<longleftrightarrow>
      (\<exists>x rs. x \<in> set (attention_risks inp) \<and>
         risk_queue_disposition x = ExitedAfterCompleteAcceptOrTransfer \<and> risk_state x = RiskState.Open \<and>
         rs = filter (risk_fact ?now x)
           [RiskReviewDue, RiskExposureIncreased, RiskEvidenceStale, RiskControlInvalid] \<and>
         2 \<le> length rs \<and>
         s = \<lparr>summary_target = AttentionTarget.Risk (risk_id x), summary_reasons = rs,
              summary_explanation = ''multiple active risk conditions require combined review''\<rparr>)"
    by blast
  then show ?thesis by (simp add: derive_attention_def Let_def)
qed

end
