(* ===== verification/Attention_Ranking.thy ===== *)
theory Attention_Ranking
  imports Attention
begin

text \<open>
  \<^verbatim>\<open>attention_ranking.rs\<close> of \<^verbatim>\<open>crates/pmc-application/src\<close>: the order attention is presented in. The
  comparison of \<^verbatim>\<open>rank_attention\<close> is a key (tier, absent deadline last, deadline, identity) under
  the lexicographic order; \<^verbatim>\<open>sort_by\<close> is stable, as \<open>sort_key\<close> is.
\<close>

section \<open>Tiers\<close>

datatype AttentionTier =
  BreachedCommitment
| Blocked
| EvidenceIntegrity
| ApproachingDeadline
| NoAccountableOwner
| Other

fun AttentionTier_why :: "AttentionTier \<Rightarrow> string" where
  "AttentionTier_why BreachedCommitment = ''a commitment has already been missed''"
| "AttentionTier_why Blocked = ''the work cannot proceed until something is unblocked''"
| "AttentionTier_why EvidenceIntegrity = ''the evidence this relies on is missing or unsound''"
| "AttentionTier_why ApproachingDeadline = ''a deadline is approaching''"
| "AttentionTier_why NoAccountableOwner = ''no one is accountable for it yet''"
| "AttentionTier_why Other = ''it needs attention but nothing above applies''"

fun AttentionTier_as_str :: "AttentionTier \<Rightarrow> string" where
  "AttentionTier_as_str BreachedCommitment = ''breachedCommitment''"
| "AttentionTier_as_str Blocked = ''blocked''"
| "AttentionTier_as_str EvidenceIntegrity = ''evidenceIntegrity''"
| "AttentionTier_as_str ApproachingDeadline = ''approachingDeadline''"
| "AttentionTier_as_str NoAccountableOwner = ''noAccountableOwner''"
| "AttentionTier_as_str Other = ''other''"

text \<open>The derived \<^verbatim>\<open>Ord\<close>.\<close>

fun tier_index :: "AttentionTier \<Rightarrow> nat" where
  "tier_index BreachedCommitment = 0"
| "tier_index Blocked = 1"
| "tier_index EvidenceIntegrity = 2"
| "tier_index ApproachingDeadline = 3"
| "tier_index NoAccountableOwner = 4"
| "tier_index Other = 5"

lemma tier_index_inject [simp]: "tier_index a = tier_index b \<longleftrightarrow> a = b"
  by (cases a; cases b) simp_all

instantiation AttentionTier :: linorder
begin

definition less_eq_AttentionTier :: "AttentionTier \<Rightarrow> AttentionTier \<Rightarrow> bool" where
  "less_eq_AttentionTier a b \<longleftrightarrow> tier_index a \<le> tier_index b"

definition less_AttentionTier :: "AttentionTier \<Rightarrow> AttentionTier \<Rightarrow> bool" where
  "less_AttentionTier a b \<longleftrightarrow> tier_index a < tier_index b"

instance
  by standard (auto simp: less_eq_AttentionTier_def less_AttentionTier_def)

end

definition tier_of :: "AttentionReason \<Rightarrow> AttentionTier" where
  "tier_of reason =
     (if reason \<in> {ActionOverdue, ActionRequestResponseOverdue, DecisionRequestOverdue, IssueResolutionOverdue}
      then BreachedCommitment
      else if reason \<in> {ActionBlocked, IssueBlocked} then Blocked
      else if reason \<in> {ActionNeedsEvidence, ActionEvidenceVerificationPending, IssueNeedsEvidence,
        RiskControlInvalid, RiskEvidenceStale} then EvidenceIntegrity
      else if reason \<in> {ActionAtRisk, ActionRequestResponseDue, DecisionRequestApproachingDeadline,
        IssueResolutionDue, RiskReviewDue} then ApproachingDeadline
      else if reason \<in> {ActionRequestMissingIntendedOwner, DecisionRequestMissingDecisionOwner,
        RiskMissingOwner} then NoAccountableOwner
      else Other)"

section \<open>Ranking\<close>

record RankableAttentionItem =
  rankable_flag :: AttentionFlag
  rankable_relevant_at :: "UtcTimestamp option"

record RankedAttentionItem =
  ranked_flag :: AttentionFlag
  ranked_relevant_at :: "UtcTimestamp option"
  ranked_tier :: AttentionTier
  rank_rationale :: string

fun canonical_id_of :: "AttentionTarget \<Rightarrow> entity_id" where
  "canonical_id_of (AttentionTarget.ActionRequest i) = i"
| "canonical_id_of (AttentionTarget.Action i) = i"
| "canonical_id_of (AttentionTarget.DecisionRequest i) = i"
| "canonical_id_of (AttentionTarget.Risk i) = i"
| "canonical_id_of (AttentionTarget.Issue i) = i"

definition rationale_for :: "AttentionTier \<Rightarrow> RankableAttentionItem \<Rightarrow> string" where
  "rationale_for tier item =
     (let rationale = ''Ranked here because '' @ AttentionTier_why tier;
          rationale = (if rankable_relevant_at item \<noteq> None
            then rationale @ ''; within that group the earliest time comes first'' else rationale);
          rationale = (case metadata_freshness (flag_metadata (rankable_flag item)) of
              Stale \<Rightarrow> rationale @ ''. This is based on data known to be out of date, so it may no longer hold''
            | Unknown \<Rightarrow> rationale @ ''. The freshness of this data is unknown, so it may no longer hold''
            | Fresh \<Rightarrow> rationale)
      in if metadata_degraded (flag_metadata (rankable_flag item))
         then rationale @ ''. Some source context was unavailable when this was derived'' else rationale)"

definition ranked :: "RankableAttentionItem \<Rightarrow> RankedAttentionItem" where
  "ranked item =
     (let tier = tier_of (flag_reason (rankable_flag item)) in
      \<lparr>ranked_flag = rankable_flag item, ranked_relevant_at = rankable_relevant_at item,
       ranked_tier = tier, rank_rationale = rationale_for tier item\<rparr>)"

text \<open>An absent deadline sorts after every present one.\<close>

fun deadline_key :: "UtcTimestamp option \<Rightarrow> bool \<times> int" where
  "deadline_key (Some at) = (False, unix_millis at)"
| "deadline_key None = (True, 0)"

definition rank_key :: "RankedAttentionItem \<Rightarrow> AttentionTier \<times> (bool \<times> int) \<times> entity_id" where
  "rank_key r = (ranked_tier r, deadline_key (ranked_relevant_at r), canonical_id_of (flag_target (ranked_flag r)))"

definition rank_attention :: "RankableAttentionItem list \<Rightarrow> RankedAttentionItem list" where
  "rank_attention items = sort_key rank_key (map ranked items)"


section \<open>Properties\<close>

lemma ranked_simps [simp]:
  "ranked_flag (ranked x) = rankable_flag x" "ranked_relevant_at (ranked x) = rankable_relevant_at x"
  "ranked_tier (ranked x) = tier_of (flag_reason (rankable_flag x))"
  by (simp_all add: ranked_def Let_def)

text \<open>
  The accepted policy, written independently of the code: the group of each reason, the sentence of
  each group, and the order of two items as they are given to the ranking.
\<close>

fun policy_group :: "AttentionReason \<Rightarrow> nat" where
  "policy_group ActionOverdue = 0"
| "policy_group ActionRequestResponseOverdue = 0"
| "policy_group DecisionRequestOverdue = 0"
| "policy_group IssueResolutionOverdue = 0"
| "policy_group ActionBlocked = 1"
| "policy_group IssueBlocked = 1"
| "policy_group ActionNeedsEvidence = 2"
| "policy_group ActionEvidenceVerificationPending = 2"
| "policy_group IssueNeedsEvidence = 2"
| "policy_group RiskControlInvalid = 2"
| "policy_group RiskEvidenceStale = 2"
| "policy_group ActionAtRisk = 3"
| "policy_group ActionRequestResponseDue = 3"
| "policy_group DecisionRequestApproachingDeadline = 3"
| "policy_group IssueResolutionDue = 3"
| "policy_group RiskReviewDue = 3"
| "policy_group ActionRequestMissingIntendedOwner = 4"
| "policy_group DecisionRequestMissingDecisionOwner = 4"
| "policy_group RiskMissingOwner = 4"
| "policy_group ActionRequestNeedsInfo = 5"
| "policy_group ActionRequestStale = 5"
| "policy_group ActionSupersededPremise = 5"
| "policy_group DecisionRequestNeedsInfo = 5"
| "policy_group DecisionRequestStale = 5"
| "policy_group RiskExposureIncreased = 5"
| "policy_group IssueStale = 5"
| "policy_group IssueRecurrence = 5"

definition group_sentence :: "nat \<Rightarrow> string" where
  "group_sentence g =
     [''a commitment has already been missed'',
      ''the work cannot proceed until something is unblocked'',
      ''the evidence this relies on is missing or unsound'',
      ''a deadline is approaching'',
      ''no one is accountable for it yet'',
      ''it needs attention but nothing above applies''] ! g"

definition policy_rationale :: "RankableAttentionItem \<Rightarrow> string" where
  "policy_rationale x =
     ''Ranked here because '' @ group_sentence (policy_group (flag_reason (rankable_flag x))) @
     (if rankable_relevant_at x = None then '''' else ''; within that group the earliest time comes first'') @
     (case metadata_freshness (flag_metadata (rankable_flag x)) of
        Fresh \<Rightarrow> ''''
      | Stale \<Rightarrow> ''. This is based on data known to be out of date, so it may no longer hold''
      | Unknown \<Rightarrow> ''. The freshness of this data is unknown, so it may no longer hold'') @
     (if metadata_degraded (flag_metadata (rankable_flag x))
      then ''. Some source context was unavailable when this was derived'' else '''')"

fun time_before :: "UtcTimestamp option \<Rightarrow> UtcTimestamp option \<Rightarrow> bool" where
  "time_before (Some a) (Some b) \<longleftrightarrow> a < b"
| "time_before (Some a) None \<longleftrightarrow> True"
| "time_before None _ \<longleftrightarrow> False"

definition record_id :: "AttentionTarget \<Rightarrow> entity_id" where
  "record_id t = (case t of AttentionTarget.ActionRequest i \<Rightarrow> i | AttentionTarget.Action i \<Rightarrow> i
     | AttentionTarget.DecisionRequest i \<Rightarrow> i | AttentionTarget.Risk i \<Rightarrow> i | AttentionTarget.Issue i \<Rightarrow> i)"

definition policy_before :: "RankableAttentionItem \<Rightarrow> RankableAttentionItem \<Rightarrow> bool" where
  "policy_before a b \<longleftrightarrow>
     policy_group (flag_reason (rankable_flag a)) < policy_group (flag_reason (rankable_flag b)) \<or>
     policy_group (flag_reason (rankable_flag a)) = policy_group (flag_reason (rankable_flag b)) \<and>
       (time_before (rankable_relevant_at a) (rankable_relevant_at b) \<or>
        rankable_relevant_at a = rankable_relevant_at b \<and>
          record_id (flag_target (rankable_flag a)) \<le> record_id (flag_target (rankable_flag b)))"

definition policy_tie :: "RankableAttentionItem \<Rightarrow> RankableAttentionItem \<Rightarrow> bool" where
  "policy_tie a b \<longleftrightarrow> policy_before a b \<and> policy_before b a"

lemma unix_millis_inject: "unix_millis a = unix_millis b \<longleftrightarrow> a = b"
  by (metis from_unix_millis_unix_millis)

lemma deadline_key_less: "deadline_key a < deadline_key b \<longleftrightarrow> time_before a b"
  by (cases a; cases b) (auto simp: less_prod_def less_UtcTimestamp_def)

lemma deadline_key_inject [simp]: "deadline_key a = deadline_key b \<longleftrightarrow> a = b"
  by (cases a; cases b) (simp_all add: unix_millis_inject)

lemma tier_index_of [simp]: "tier_index (tier_of r) = policy_group r"
  by (cases r) (simp_all add: tier_of_def)

lemma tier_of_order:
  "tier_of q < tier_of r \<longleftrightarrow> policy_group q < policy_group r"
  "tier_of q \<le> tier_of r \<longleftrightarrow> policy_group q \<le> policy_group r"
  by (simp_all add: less_AttentionTier_def less_eq_AttentionTier_def)

lemma canonical_id_of_eq: "canonical_id_of t = record_id t"
  by (cases t) (simp_all add: record_id_def)

lemma rank_key_le: "rank_key (ranked a) \<le> rank_key (ranked b) \<longleftrightarrow> policy_before a b"
  unfolding rank_key_def policy_before_def less_eq_prod_simp ranked_simps tier_of_order canonical_id_of_eq
    deadline_key_less [symmetric]
  by (auto simp: less_le)

lemma AttentionTier_why_eq: "AttentionTier_why tier = group_sentence (tier_index tier)"
  by (cases tier) (simp_all add: group_sentence_def)

lemma rationale_policy: "rank_rationale (ranked x) = policy_rationale x"
  by (auto simp: ranked_def rationale_for_def policy_rationale_def AttentionTier_why_eq Let_def
      split: Freshness.splits)

text \<open>The given items in the order of the policy.\<close>

definition by_policy :: "RankableAttentionItem list \<Rightarrow> RankableAttentionItem list" where
  "by_policy items = sort_key (rank_key \<circ> ranked) items"

lemma rank_attention_eq: "rank_attention items = map ranked (by_policy items)"
  unfolding rank_attention_def by_policy_def by (rule map_sort_key [symmetric]) simp

lemma mset_by_policy [simp]: "mset (by_policy items) = mset items"
  by (simp add: by_policy_def)

lemma by_policy_sorted: "sorted_wrt policy_before (by_policy items)"
proof -
  have "sorted (map (rank_key \<circ> ranked) (by_policy items))" by (simp add: by_policy_def)
  then show ?thesis by (simp add: sorted_wrt_map rank_key_le)
qed

lemma by_policy_stable: "filter (policy_tie x) (by_policy items) = filter (policy_tie x) items"
proof -
  have "policy_tie x = (\<lambda>y. (rank_key \<circ> ranked) y = (rank_key \<circ> ranked) x)"
    by (auto simp: fun_eq_iff policy_tie_def rank_key_le [symmetric])
  then show ?thesis by (simp only: by_policy_def sort_key_stable)
qed

text \<open>
  C34. Ranking is the accepted policy and invents nothing: some arrangement of exactly the given
  items, in the policy's order (the group of the reason, then the earlier relevant time with absent
  times last, then the identity, with ties in the order given), is returned item by item, each with
  its own flag and relevant time, the tier whose number is its reason's group, and the policy's
  sentence for it with what is said of its time, freshness and degradation.
\<close>

theorem ranking_follows_policy:
  "\<exists>xs. mset xs = mset items \<and> sorted_wrt policy_before xs \<and>
     (\<forall>x. filter (policy_tie x) xs = filter (policy_tie x) items) \<and>
     list_all2 (\<lambda>x r. ranked_flag r = rankable_flag x \<and> ranked_relevant_at r = rankable_relevant_at x \<and>
       ranked_tier r = [BreachedCommitment, Blocked, EvidenceIntegrity, ApproachingDeadline,
         NoAccountableOwner, Other] ! policy_group (flag_reason (rankable_flag x)) \<and>
       rank_rationale r = policy_rationale x) xs (rank_attention items)"
proof (intro exI conjI allI)
  have "[BreachedCommitment, Blocked, EvidenceIntegrity, ApproachingDeadline, NoAccountableOwner, Other] !
      tier_index t = t" for t
    by (cases t) simp_all
  from this [of "tier_of r" for r] show "list_all2 (\<lambda>x r. ranked_flag r = rankable_flag x \<and> ranked_relevant_at r = rankable_relevant_at x \<and>
       ranked_tier r = [BreachedCommitment, Blocked, EvidenceIntegrity, ApproachingDeadline,
         NoAccountableOwner, Other] ! policy_group (flag_reason (rankable_flag x)) \<and>
       rank_rationale r = policy_rationale x) (by_policy items) (rank_attention items)"
    by (simp add: rank_attention_eq list_all2_map2 list.rel_refl rationale_policy)
qed (rule mset_by_policy by_policy_sorted by_policy_stable)+

text \<open>What an item is about, without what is known of its sources.\<close>

definition placement :: "RankedAttentionItem \<Rightarrow> AttentionTarget \<times> AttentionReason \<times> UtcTimestamp option" where
  "placement r = (flag_target (ranked_flag r), flag_reason (ranked_flag r), ranked_relevant_at r)"

definition with_metadata ::
  "(AttentionFlag \<Rightarrow> AttentionMetadata) \<Rightarrow> RankableAttentionItem \<Rightarrow> RankableAttentionItem" where
  "with_metadata g x = x\<lparr>rankable_flag := (rankable_flag x)\<lparr>flag_metadata := g (rankable_flag x)\<rparr>\<rparr>"

text \<open>
  Staleness never promotes, and never demotes: whatever freshness, degradation and
  classification the items are given, their order stays the same; only the rationales change.
\<close>

theorem ranking_ignores_freshness:
  "map placement (rank_attention (map (with_metadata g) items)) = map placement (rank_attention items)"
proof -
  define key where
    "key = (\<lambda>(t, r, at). (tier_of r, deadline_key at, canonical_id_of t)
      :: AttentionTier \<times> (bool \<times> int) \<times> entity_id)"
  have "map placement (rank_attention xs) = sort_key key (map (placement \<circ> ranked) xs)" for xs
    unfolding rank_attention_def map_map [symmetric]
    by (rule map_sort_key) (auto simp: rank_key_def key_def placement_def)
  moreover have "placement (ranked (with_metadata g x)) = placement (ranked x)" for x
    by (simp add: placement_def with_metadata_def)
  ultimately show ?thesis by (simp add: comp_def)
qed

text \<open>
  The order is not total on distinct records: two flags with the same tier, the same relevant
  time and the same identity text stay in the order they were given, whichever that is, so an
  Action and an Issue that share an identity text change places when the input does.
\<close>

theorem ranking_ties_follow_input:
  assumes "rank_key (ranked a) = rank_key (ranked b)"
  shows "rank_attention [a, b] = [ranked a, ranked b] \<and> rank_attention [b, a] = [ranked b, ranked a]"
  using assms by (simp add: rank_attention_def sort_key_def)

definition example_item :: "AttentionTarget \<Rightarrow> AttentionReason \<Rightarrow> RankableAttentionItem" where
  "example_item t r =
     \<lparr>rankable_flag = \<lparr>flag_target = t, flag_reason = r, flag_metadata = example_metadata,
        flag_explanation = ''blocked'', flag_failed_verification_guidance = None\<rparr>,
      rankable_relevant_at = None\<rparr>"

end
