(* ===== verification/Work_Queue.thy ===== *)
theory Work_Queue
  imports Attention_Ranking
begin

text \<open>
  \<^verbatim>\<open>work_queue_composition.rs\<close> of \<^verbatim>\<open>crates/pmc-application/src\<close> and the envelope it fills from
  \<^verbatim>\<open>route_composition.rs\<close>: membership, order, filters, counts and pages of the Work Queue.
  \<^verbatim>\<open>usize\<close> offsets, limits and totals are natural numbers: the code only compares, skips and takes.
\<close>

section \<open>Comparing and sorting\<close>

datatype Ordering = Less | Equal | Greater

fun then_with :: "Ordering \<Rightarrow> Ordering \<Rightarrow> Ordering" where
  "then_with Equal o' = o'"
| "then_with Less o' = Less"
| "then_with Greater o' = Greater"

definition cmp :: "'a::linorder \<Rightarrow> 'a \<Rightarrow> Ordering" where
  "cmp a b = (if a < b then Less else if a = b then Equal else Greater)"

lemma cmp_iff [simp]: "cmp a b = Greater \<longleftrightarrow> b < a" "cmp a b = Equal \<longleftrightarrow> a = b" "cmp a b = Less \<longleftrightarrow> a < b"
  by (auto simp: cmp_def)

lemma cmp_pair: "cmp (a, b) (c, d) = then_with (cmp a c) (cmp b d)"
  by (cases "cmp a c") (auto simp: cmp_def less_prod_simp split: if_splits)

lemma cmp_bool [simp]: "cmp False True = Less" "cmp True False = Greater" "cmp (b :: bool) b = Equal"
  by (simp_all add: cmp_def)

text \<open>The stable \<^verbatim>\<open>sort_by\<close>: an element goes before the first one it does not come after.\<close>

fun insert_by :: "('a \<Rightarrow> 'a \<Rightarrow> Ordering) \<Rightarrow> 'a \<Rightarrow> 'a list \<Rightarrow> 'a list" where
  "insert_by c x [] = [x]"
| "insert_by c x (y # ys) = (if c x y = Greater then y # insert_by c x ys else x # y # ys)"

definition sort_by :: "('a \<Rightarrow> 'a \<Rightarrow> Ordering) \<Rightarrow> 'a list \<Rightarrow> 'a list" where
  "sort_by c xs = foldr (insert_by c) xs []"

lemma sort_by_key:
  assumes "\<And>a b. c a b = cmp (key a) (key b)"
  shows "sort_by c xs = sort_key key xs"
proof -
  have "insert_by c x ys = insort_key key x ys" for x ys
    by (induction ys) (auto simp: assms)
  then have "insert_by c = insort_key key" by (intro ext)
  then show ?thesis by (simp add: sort_by_def sort_key_def)
qed

section \<open>The envelope of a composition\<close>

datatype OwnerModule =
  Portfolio
| Delivery
| ActionManagement
| Decisions
| Risks
| Issues
| Stakeholders
| Evidence
| Kpi
| Review

fun OwnerModule_as_str :: "OwnerModule \<Rightarrow> string" where
  "OwnerModule_as_str OwnerModule.Portfolio = ''portfolio''"
| "OwnerModule_as_str OwnerModule.Delivery = ''delivery''"
| "OwnerModule_as_str OwnerModule.ActionManagement = ''action_management''"
| "OwnerModule_as_str OwnerModule.Decisions = ''decisions''"
| "OwnerModule_as_str OwnerModule.Risks = ''risks''"
| "OwnerModule_as_str OwnerModule.Issues = ''issues''"
| "OwnerModule_as_str OwnerModule.Stakeholders = ''stakeholders''"
| "OwnerModule_as_str OwnerModule.Evidence = ''evidence''"
| "OwnerModule_as_str OwnerModule.Kpi = ''kpi''"
| "OwnerModule_as_str OwnerModule.Review = ''review''"

datatype RouteState =
  Loading
| Empty
| Success
| Stale
| Degraded
| Error
| PartialSuccess
| Cancelling
| Cancelled
| ApprovalRequired
| ClassificationDenied
| BackupDue
| EvidenceVerificationPending
| OutOfSync

text \<open>\<^verbatim>\<open>has_more\<close> adds with saturation at the width of \<^verbatim>\<open>usize\<close>.\<close>

definition usize_MAX :: nat where
  "usize_MAX = 2 ^ 64 - 1"

record PageState =
  offset :: nat
  limit :: nat
  total :: nat

definition has_more :: "PageState \<Rightarrow> bool" where
  "has_more page \<longleftrightarrow> min (offset page + limit page) usize_MAX < total page"

record 'b CompositionResult =
  composition_state :: RouteState
  composition_as_of :: UtcTimestamp
  ledger_revision :: "64 word"
  composition_body :: 'b

section \<open>Items\<close>

datatype WorkItemKind =
  ActionRequest
| Action
| DecisionRequest
| Risk
| Issue

definition WorkItemKind_ALL :: "WorkItemKind list" where
  "WorkItemKind_ALL = [WorkItemKind.ActionRequest, WorkItemKind.Action, WorkItemKind.DecisionRequest,
     WorkItemKind.Risk, WorkItemKind.Issue]"

fun of_target :: "AttentionTarget \<Rightarrow> WorkItemKind" where
  "of_target (AttentionTarget.ActionRequest i) = WorkItemKind.ActionRequest"
| "of_target (AttentionTarget.Action i) = WorkItemKind.Action"
| "of_target (AttentionTarget.DecisionRequest i) = WorkItemKind.DecisionRequest"
| "of_target (AttentionTarget.Risk i) = WorkItemKind.Risk"
| "of_target (AttentionTarget.Issue i) = WorkItemKind.Issue"

fun WorkItemKind_owner :: "WorkItemKind \<Rightarrow> OwnerModule" where
  "WorkItemKind_owner WorkItemKind.ActionRequest = OwnerModule.ActionManagement"
| "WorkItemKind_owner WorkItemKind.Action = OwnerModule.ActionManagement"
| "WorkItemKind_owner WorkItemKind.DecisionRequest = OwnerModule.Decisions"
| "WorkItemKind_owner WorkItemKind.Risk = OwnerModule.Risks"
| "WorkItemKind_owner WorkItemKind.Issue = OwnerModule.Issues"

fun WorkItemKind_as_str :: "WorkItemKind \<Rightarrow> string" where
  "WorkItemKind_as_str WorkItemKind.ActionRequest = ''action_request''"
| "WorkItemKind_as_str WorkItemKind.Action = ''action''"
| "WorkItemKind_as_str WorkItemKind.DecisionRequest = ''decision_request''"
| "WorkItemKind_as_str WorkItemKind.Risk = ''risk''"
| "WorkItemKind_as_str WorkItemKind.Issue = ''issue''"

lemma WorkItemKind_as_str_inject [simp]: "WorkItemKind_as_str a = WorkItemKind_as_str b \<longleftrightarrow> a = b"
  by (cases a; cases b) simp_all

lemma set_WorkItemKind_ALL [simp]: "kind \<in> set WorkItemKind_ALL" "distinct WorkItemKind_ALL"
  by (cases kind) (simp_all add: WorkItemKind_ALL_def)

datatype WorkItemPlacement = Flagged AttentionTier | Unflagged

fun placement_compare :: "WorkItemPlacement \<Rightarrow> WorkItemPlacement \<Rightarrow> Ordering" where
  "placement_compare (Flagged left) (Flagged right) = cmp left right"
| "placement_compare (Flagged _) Unflagged = Less"
| "placement_compare Unflagged (Flagged _) = Greater"
| "placement_compare Unflagged Unflagged = Equal"

fun WorkItemPlacement_as_str :: "WorkItemPlacement \<Rightarrow> string" where
  "WorkItemPlacement_as_str (Flagged tier) = AttentionTier_as_str tier"
| "WorkItemPlacement_as_str Unflagged = ''unflagged''"

fun WorkItemPlacement_why :: "WorkItemPlacement \<Rightarrow> string" where
  "WorkItemPlacement_why (Flagged tier) = AttentionTier_why tier"
| "WorkItemPlacement_why Unflagged = ''nothing has flagged it, so it sorts below flagged work''"

record WorkItemFacts =
  facts_kind :: WorkItemKind
  facts_id :: string
  facts_label :: string
  facts_state_label :: string
  facts_lifecycle_legal_intents :: "string list"
  facts_relevant_at :: "UtcTimestamp option"
  facts_promised_at :: "UtcTimestamp option"
  facts_classification :: DataClassification
  facts_revision :: "64 word"
  facts_as_of :: UtcTimestamp
  facts_freshness :: Freshness
  facts_degraded :: bool
  facts_attention :: "RankableAttentionItem list"

record WorkQueueItem =
  item_kind :: WorkItemKind
  item_id :: string
  item_label :: string
  item_state_label :: string
  item_lifecycle_legal_intents :: "string list"
  item_relevant_at :: "UtcTimestamp option"
  item_promised_at :: "UtcTimestamp option"
  item_classification :: DataClassification
  item_revision :: "64 word"
  item_as_of :: UtcTimestamp
  item_freshness :: Freshness
  item_degraded :: bool
  item_attention :: "RankedAttentionItem list"
  item_placement :: WorkItemPlacement
  item_placement_rationale :: string

definition placing_timestamp :: "WorkQueueItem \<Rightarrow> UtcTimestamp option" where
  "placing_timestamp item =
     (case item_attention item of [] \<Rightarrow> item_relevant_at item | first # _ \<Rightarrow> ranked_relevant_at first)"

record WorkQueueFilter =
  kinds :: "WorkItemKind list"
  only_flagged :: bool

definition admits_flag :: "WorkQueueFilter \<Rightarrow> WorkQueueItem \<Rightarrow> bool" where
  "admits_flag flt item \<longleftrightarrow> \<not> only_flagged flt \<or> item_attention item \<noteq> []"

definition admits :: "WorkQueueFilter \<Rightarrow> WorkQueueItem \<Rightarrow> bool" where
  "admits flt item \<longleftrightarrow> admits_flag flt item \<and> (kinds flt = [] \<or> item_kind item \<in> set (kinds flt))"

record GetWorkQueue =
  request_as_of :: UtcTimestamp
  request_page :: PageState
  request_filter :: WorkQueueFilter

record KindCount =
  counted_kind :: WorkItemKind
  kind_count :: nat

record WorkQueueBody =
  body_items :: "WorkQueueItem list"
  counts_by_kind :: "KindCount list"
  body_page :: PageState

definition is_outstanding :: "WorkItemFacts \<Rightarrow> bool" where
  "is_outstanding facts \<longleftrightarrow> facts_lifecycle_legal_intents facts \<noteq> []"

definition to_item :: "WorkItemFacts \<Rightarrow> WorkQueueItem" where
  "to_item facts =
     (let attention = rank_attention (facts_attention facts);
          placement = (case attention of [] \<Rightarrow> Unflagged | r # _ \<Rightarrow> Flagged (ranked_tier r))
      in \<lparr>item_kind = facts_kind facts, item_id = facts_id facts, item_label = facts_label facts,
          item_state_label = facts_state_label facts,
          item_lifecycle_legal_intents = facts_lifecycle_legal_intents facts,
          item_relevant_at = facts_relevant_at facts, item_promised_at = facts_promised_at facts,
          item_classification = facts_classification facts, item_revision = facts_revision facts,
          item_as_of = facts_as_of facts, item_freshness = facts_freshness facts,
          item_degraded = facts_degraded facts, item_attention = attention,
          item_placement = placement, item_placement_rationale = WorkItemPlacement_why placement\<rparr>)"

section \<open>The queue\<close>

fun timestamp_compare :: "UtcTimestamp option \<Rightarrow> UtcTimestamp option \<Rightarrow> Ordering" where
  "timestamp_compare (Some left) (Some right) = cmp left right"
| "timestamp_compare (Some _) None = Less"
| "timestamp_compare None (Some _) = Greater"
| "timestamp_compare None None = Equal"

definition queue_compare :: "WorkQueueItem \<Rightarrow> WorkQueueItem \<Rightarrow> Ordering" where
  "queue_compare left right =
     then_with (placement_compare (item_placement left) (item_placement right))
       (then_with (timestamp_compare (placing_timestamp left) (placing_timestamp right))
         (then_with (cmp (WorkItemKind_as_str (item_kind left)) (WorkItemKind_as_str (item_kind right)))
           (cmp (item_id left) (item_id right))))"

definition compose_work_queue ::
  "GetWorkQueue \<Rightarrow> WorkItemFacts list \<Rightarrow> 64 word \<Rightarrow> WorkQueueBody CompositionResult" where
  "compose_work_queue request facts revision =
     (let outstanding = map to_item (filter is_outstanding facts);
          counts = map (\<lambda>kind. \<lparr>counted_kind = kind,
            kind_count = length (filter (\<lambda>item. item_kind item = kind \<and>
              admits_flag (request_filter request) item) outstanding)\<rparr>) WorkItemKind_ALL;
          items = sort_by queue_compare (filter (admits (request_filter request)) outstanding);
          paged = take (limit (request_page request)) (drop (offset (request_page request)) items)
      in \<lparr>composition_state = (if paged = [] then RouteState.Empty else RouteState.Success),
          composition_as_of = request_as_of request, ledger_revision = revision,
          composition_body = \<lparr>body_items = paged, counts_by_kind = counts,
            body_page = \<lparr>offset = offset (request_page request), limit = limit (request_page request),
              total = length items\<rparr>\<rparr>\<rparr>)"

section \<open>Properties\<close>

text \<open>The position of a placement in the policy's table: the six tiers, then the unflagged.\<close>

fun position :: "WorkItemPlacement \<Rightarrow> nat" where
  "position (Flagged tier) = Suc (tier_index tier)"
| "position Unflagged = 7"

lemma tier_index_bound [simp]: "tier_index t < 6" "tier_index t \<noteq> 6" "\<not> 6 < tier_index t"
  by (cases t; simp)+

lemma position_inject: "position a = position b \<longleftrightarrow> a = b"
  by (cases a; cases b) (auto simp: less_le)

lemma placement_compare_position: "placement_compare a b = cmp (position a) (position b)"
  by (cases a; cases b) (auto simp: cmp_def less_AttentionTier_def)

lemma timestamp_compare_key: "timestamp_compare a b = cmp (deadline_key a) (deadline_key b)"
  by (cases a; cases b) (auto simp: cmp_pair cmp_def less_UtcTimestamp_def unix_millis_inject)

definition queue_key :: "WorkQueueItem \<Rightarrow> nat \<times> (bool \<times> int) \<times> string \<times> string" where
  "queue_key i = (position (item_placement i), deadline_key (placing_timestamp i),
     WorkItemKind_as_str (item_kind i), item_id i)"

lemma sort_queue: "sort_by queue_compare xs = sort_key queue_key xs"
  by (rule sort_by_key)
     (simp add: queue_compare_def queue_key_def cmp_pair placement_compare_position timestamp_compare_key)

text \<open>
  The accepted policy, written over the records' own facts and independently of the items the code
  builds: which records belong, the group a record's flags put it in (the lowest of their groups, 6
  without flags), the time it is placed by (the earliest of the flags of that group, its own deadline
  without flags), and the order of two records.
\<close>

definition belongs :: "WorkQueueFilter \<Rightarrow> WorkItemFacts \<Rightarrow> bool" where
  "belongs flt f \<longleftrightarrow> facts_lifecycle_legal_intents f \<noteq> [] \<and>
     (only_flagged flt \<longrightarrow> facts_attention f \<noteq> []) \<and>
     (kinds flt \<noteq> [] \<longrightarrow> facts_kind f \<in> set (kinds flt))"

definition flag_group :: "RankableAttentionItem \<Rightarrow> nat" where
  "flag_group x = policy_group (flag_reason (rankable_flag x))"

definition fact_group :: "WorkItemFacts \<Rightarrow> nat" where
  "fact_group f = Min (insert 6 (flag_group ` set (facts_attention f)))"

definition earliest :: "UtcTimestamp option list \<Rightarrow> UtcTimestamp option" where
  "earliest ts =
     (let present = List.map_filter id ts in if present = [] then None else Some (Min (set present)))"

definition fact_time :: "WorkItemFacts \<Rightarrow> UtcTimestamp option" where
  "fact_time f =
     (if facts_attention f = [] then facts_relevant_at f
      else earliest (map rankable_relevant_at (filter (\<lambda>x. flag_group x = fact_group f) (facts_attention f))))"

fun kind_name :: "WorkItemKind \<Rightarrow> string" where
  "kind_name WorkItemKind.Action = ''action''"
| "kind_name WorkItemKind.ActionRequest = ''action_request''"
| "kind_name WorkItemKind.DecisionRequest = ''decision_request''"
| "kind_name WorkItemKind.Issue = ''issue''"
| "kind_name WorkItemKind.Risk = ''risk''"

definition fact_before :: "WorkItemFacts \<Rightarrow> WorkItemFacts \<Rightarrow> bool" where
  "fact_before a b \<longleftrightarrow>
     fact_group a < fact_group b \<or>
     fact_group a = fact_group b \<and>
       (time_before (fact_time a) (fact_time b) \<or>
        fact_time a = fact_time b \<and>
          (kind_name (facts_kind a) < kind_name (facts_kind b) \<or>
           facts_kind a = facts_kind b \<and> facts_id a \<le> facts_id b))"

text \<open>What an item shows of its record.\<close>

definition shows_fact :: "WorkItemFacts \<Rightarrow> WorkQueueItem \<Rightarrow> bool" where
  "shows_fact f i \<longleftrightarrow>
     item_kind i = facts_kind f \<and> item_id i = facts_id f \<and> item_label i = facts_label f \<and>
     item_state_label i = facts_state_label f \<and>
     item_lifecycle_legal_intents i = facts_lifecycle_legal_intents f \<and>
     item_relevant_at i = facts_relevant_at f \<and> item_promised_at i = facts_promised_at f \<and>
     item_classification i = facts_classification f \<and> item_revision i = facts_revision f \<and>
     item_as_of i = facts_as_of f \<and> item_freshness i = facts_freshness f \<and>
     item_degraded i = facts_degraded f \<and>
     mset (map ranked_flag (item_attention i)) = mset (map rankable_flag (facts_attention f)) \<and>
     sorted (map (\<lambda>r. policy_group (flag_reason (ranked_flag r))) (item_attention i)) \<and>
     item_placement i =
       [Flagged BreachedCommitment, Flagged Blocked, Flagged EvidenceIntegrity, Flagged ApproachingDeadline,
        Flagged NoAccountableOwner, Flagged Other, Unflagged] ! fact_group f \<and>
     item_placement_rationale i =
       (if facts_attention f = [] then ''nothing has flagged it, so it sorts below flagged work''
        else group_sentence (fact_group f))"

lemma kind_name_eq: "WorkItemKind_as_str k = kind_name k"
  by (cases k) simp_all

lemma kind_name_inject [simp]: "kind_name a = kind_name b \<longleftrightarrow> a = b"
  by (cases a; cases b) simp_all

lemma policy_group_bound: "policy_group r < 6"
  by (cases r) simp_all

lemma set_present: "set (List.map_filter id ts) = {a. Some a \<in> set ts}"
  by (induction ts) (auto simp: map_filter_simps split: option.splits)

lemma earliest_eqI:
  assumes "t \<in> set ts" and "\<And>u. u \<in> set ts \<Longrightarrow> deadline_key t \<le> deadline_key u"
  shows "earliest ts = t"
proof (cases t)
  case None
  have "Some a \<notin> set ts" for a
    using assms(2) [of "Some a"] None by (auto simp: less_eq_prod_simp)
  then have "List.map_filter id ts = []" using set_present [of ts] by (simp flip: set_empty)
  with None show ?thesis by (simp add: earliest_def)
next
  case (Some a)
  have "a \<le> b" if "Some b \<in> set ts" for b
    using assms(2) [OF that] Some by (auto simp: less_eq_prod_simp less_eq_UtcTimestamp_def)
  then have "Min (set (List.map_filter id ts)) = a"
    using assms(1) Some by (intro Min_eqI finite_set) (simp_all add: set_present)
  moreover have "List.map_filter id ts \<noteq> []"
    using assms(1) Some set_present [of ts] by (auto simp flip: set_empty)
  ultimately show ?thesis using Some by (simp add: earliest_def)
qed

text \<open>The first of a record's ranked flags places it.\<close>

lemma head_flag:
  assumes "by_policy (facts_attention f) = x # xs"
  shows "fact_group f = flag_group x" and "fact_time f = rankable_relevant_at x"
proof -
  have set_eq: "set (facts_attention f) = set (x # xs)"
    by (metis assms mset_by_policy mset_eq_setD)
  have before: "policy_before x y" if "y \<in> set (facts_attention f)" for y
    using by_policy_sorted [of "facts_attention f"] that unfolding set_eq assms
    by (auto simp: policy_before_def)
  have "flag_group x \<le> flag_group y" if "y \<in> set (facts_attention f)" for y
    using before [OF that] by (auto simp: policy_before_def flag_group_def)
  then show group: "fact_group f = flag_group x"
    unfolding fact_group_def using policy_group_bound [of "flag_reason (rankable_flag x)"]
    by (intro Min_eqI) (auto simp: set_eq flag_group_def)
  have "deadline_key (rankable_relevant_at x) \<le> deadline_key (rankable_relevant_at y)"
    if "y \<in> set (facts_attention f)" "flag_group y = flag_group x" for y
    using before [OF that(1)] that(2)
    by (auto simp: policy_before_def flag_group_def deadline_key_less [symmetric])
  then have "earliest (map rankable_relevant_at (filter (\<lambda>y. flag_group y = flag_group x) (facts_attention f)))
      = rankable_relevant_at x"
    by (intro earliest_eqI) (auto simp: set_eq)
  then show "fact_time f = rankable_relevant_at x"
    using set_eq by (auto simp: fact_time_def group)
qed

lemma to_item_simps [simp]:
  "item_kind (to_item f) = facts_kind f" "item_id (to_item f) = facts_id f"
  "item_relevant_at (to_item f) = facts_relevant_at f"
  "item_lifecycle_legal_intents (to_item f) = facts_lifecycle_legal_intents f"
  "item_attention (to_item f) = rank_attention (facts_attention f)"
  by (simp_all add: to_item_def Let_def)

lemma rank_attention_Nil [simp]: "rank_attention xs = [] \<longleftrightarrow> xs = []"
  by (simp add: rank_attention_def flip: set_empty)

lemma admits_to_item: "is_outstanding f \<and> admits flt (to_item f) \<longleftrightarrow> belongs flt f"
  by (auto simp: is_outstanding_def admits_def admits_flag_def belongs_def)

lemma tier_at [simp]:
  "[Flagged BreachedCommitment, Flagged Blocked, Flagged EvidenceIntegrity, Flagged ApproachingDeadline,
    Flagged NoAccountableOwner, Flagged Other, Unflagged] ! tier_index t = Flagged t"
  by (cases t) simp_all

lemma to_item_placed:
  "position (item_placement (to_item f)) = Suc (fact_group f)"
  "placing_timestamp (to_item f) = fact_time f"
  "shows_fact f (to_item f)"
proof -
  have flags: "mset (map ranked_flag (rank_attention (facts_attention f))) = mset (map rankable_flag (facts_attention f))"
    by (simp add: rank_attention_eq o_def)
  have groups: "sorted (map (\<lambda>r. policy_group (flag_reason (ranked_flag r))) (rank_attention (facts_attention f)))"
    using by_policy_sorted [of "facts_attention f"]
    by (simp add: rank_attention_eq sorted_wrt_map o_def)
       (erule sorted_wrt_mono_rel [rotated], auto simp: policy_before_def)
  have "position (item_placement (to_item f)) = Suc (fact_group f) \<and>
    placing_timestamp (to_item f) = fact_time f \<and> shows_fact f (to_item f)"
  proof (cases "by_policy (facts_attention f)")
    case Nil
    then have "facts_attention f = []" by (metis mset_by_policy mset_zero_iff)
    then show ?thesis
      by (simp add: to_item_def Let_def placing_timestamp_def shows_fact_def fact_time_def fact_group_def
          rank_attention_eq by_policy_def)
  next
    case (Cons x xs)
    have "facts_attention f \<noteq> []" using Cons by (auto simp: by_policy_def)
    with flags groups head_flag [OF Cons] show ?thesis
      by (simp add: to_item_def Let_def placing_timestamp_def shows_fact_def rank_attention_eq Cons
          flag_group_def AttentionTier_why_eq tier_index_of [symmetric] del: tier_index_of)
  qed
  then show "position (item_placement (to_item f)) = Suc (fact_group f)"
    "placing_timestamp (to_item f) = fact_time f" "shows_fact f (to_item f)"
    by simp_all
qed

lemma queue_key_le: "queue_key (to_item a) \<le> queue_key (to_item b) \<longleftrightarrow> fact_before a b"
  unfolding queue_key_def fact_before_def less_eq_prod_simp to_item_placed to_item_simps kind_name_eq
    deadline_key_less [symmetric]
  by (auto simp: less_le)

text \<open>The members a filter admits, in the order of the facts.\<close>

definition members :: "WorkQueueFilter \<Rightarrow> WorkItemFacts list \<Rightarrow> WorkQueueItem list" where
  "members flt facts = filter (admits flt) (map to_item (filter is_outstanding facts))"

lemma members_eq: "members flt facts = map to_item (filter (belongs flt) facts)"
  by (simp add: members_def filter_map o_def admits_to_item conj_commute cong: conj_cong)

abbreviation items_of :: "WorkQueueBody CompositionResult \<Rightarrow> WorkQueueItem list" where
  "items_of r \<equiv> body_items (composition_body r)"

lemma compose_simps:
  "items_of (compose_work_queue q facts rv) =
     take (limit (request_page q)) (drop (offset (request_page q))
       (sort_key queue_key (members (request_filter q) facts)))"
  "total (body_page (composition_body (compose_work_queue q facts rv))) =
     length (members (request_filter q) facts)"
  "offset (body_page (composition_body (compose_work_queue q facts rv))) = offset (request_page q)"
  "limit (body_page (composition_body (compose_work_queue q facts rv))) = limit (request_page q)"
  "composition_state (compose_work_queue q facts rv) =
     (if items_of (compose_work_queue q facts rv) = [] then RouteState.Empty else RouteState.Success)"
  by (simp_all add: compose_work_queue_def Let_def sort_queue members_def)

text \<open>
  C38. The queue is the accepted policy: some list of exactly the records whose state admits an
  intent and that the filter asks for, each once, in the policy's order (the group of the most severe
  flag, the earliest time of that group's flags or the record's own deadline, absent times last, then
  the kind's name and the identifier), of which the requested slice is shown, every item with its own
  record's fields, flags, placement and reason; the total is the whole list's length and the
  route says empty exactly when the slice is.
\<close>

theorem queue_follows_policy:
  "\<exists>F. mset F = mset (filter (belongs (request_filter q)) facts) \<and>
     sorted_wrt fact_before F \<and>
     list_all2 shows_fact (take (limit (request_page q)) (drop (offset (request_page q)) F))
       (items_of (compose_work_queue q facts rv)) \<and>
     total (body_page (composition_body (compose_work_queue q facts rv))) = length F \<and>
     composition_state (compose_work_queue q facts rv) =
       (if length F \<le> offset (request_page q) \<or> limit (request_page q) = 0
        then RouteState.Empty else RouteState.Success)"
proof (intro exI conjI)
  let ?F = "sort_key (queue_key \<circ> to_item) (filter (belongs (request_filter q)) facts)"
  show "mset ?F = mset (filter (belongs (request_filter q)) facts)" by simp
  have "sorted (map (queue_key \<circ> to_item) ?F)" by simp
  then show "sorted_wrt fact_before ?F" by (simp add: sorted_wrt_map queue_key_le)
  have queue: "sort_key queue_key (members (request_filter q) facts) = map to_item ?F"
    unfolding members_eq by (rule map_sort_key [symmetric]) simp
  have "list_all2 shows_fact xs (map to_item xs)" for xs
    by (simp add: list_all2_map2 list.rel_refl to_item_placed)
  then show "list_all2 shows_fact (take (limit (request_page q)) (drop (offset (request_page q)) ?F))
      (items_of (compose_work_queue q facts rv))"
    by (simp only: compose_simps(1) queue take_map drop_map)
  show "total (body_page (composition_body (compose_work_queue q facts rv))) = length ?F"
    by (simp only: compose_simps(2) members_eq length_map length_sort)
  then show "composition_state (compose_work_queue q facts rv) =
       (if length ?F \<le> offset (request_page q) \<or> limit (request_page q) = 0
        then RouteState.Empty else RouteState.Success)"
    by (simp add: compose_simps)
qed

definition no_filter :: WorkQueueFilter where
  "no_filter = \<lparr>kinds = [], only_flagged = False\<rparr>"

definition whole_queue :: "WorkItemFacts list \<Rightarrow> WorkQueueItem list" where
  "whole_queue facts =
     items_of (compose_work_queue
       \<lparr>request_as_of = from_unix_millis 0, request_page = \<lparr>offset = 0, limit = length facts, total = 0\<rparr>,
        request_filter = no_filter\<rparr> facts 0)"

lemma members_no_filter: "members flt facts = filter (admits flt) (members no_filter facts)"
  by (simp add: members_def no_filter_def admits_def admits_flag_def)

lemma whole_queue_eq: "whole_queue facts = sort_key queue_key (members no_filter facts)"
proof -
  have "length (members no_filter facts) \<le> length facts"
    unfolding members_def by (rule order_trans [OF length_filter_le]) simp
  then show ?thesis by (simp add: whole_queue_def compose_simps)
qed

lemma items_whole_queue:
  "items_of (compose_work_queue q facts rv) =
     take (limit (request_page q)) (drop (offset (request_page q))
       (filter (admits (request_filter q)) (whole_queue facts)))"
  by (simp add: compose_simps(1) whole_queue_eq filter_sort members_no_filter [symmetric])

lemma pages_concat: "concat (map (\<lambda>k. take m (drop (k * m) xs)) [0..<n]) = take (n * m) xs"
  by (induction n) (simp_all add: take_add add.commute [of m])

text \<open>
  A filter narrows and never reorders: what any request shows is its slice of the whole queue
  filtered; successive pages, put end to end, are that filtered queue with nothing lost or shown
  twice; and the count reported for each of the five kinds is the total that choosing this kind
  alone would report.
\<close>

theorem filters_narrow_never_reorder:
  "items_of (compose_work_queue q facts rv) =
     take (limit (request_page q)) (drop (offset (request_page q))
       (filter (admits (request_filter q)) (whole_queue facts))) \<and>
   concat (map (\<lambda>k. items_of (compose_work_queue
       (q\<lparr>request_page := \<lparr>offset = k * m, limit = m, total = 0\<rparr>\<rparr>) facts rv)) [0..<n]) =
     take (n * m) (filter (admits (request_filter q)) (whole_queue facts)) \<and>
   counts_by_kind (composition_body (compose_work_queue q facts rv)) =
     map (\<lambda>kind. \<lparr>counted_kind = kind, kind_count =
         total (body_page (composition_body (compose_work_queue
           (q\<lparr>request_filter := (request_filter q)\<lparr>kinds := [kind]\<rparr>\<rparr>) facts rv)))\<rparr>) WorkItemKind_ALL"
proof (intro conjI)
  show "concat (map (\<lambda>k. items_of (compose_work_queue
       (q\<lparr>request_page := \<lparr>offset = k * m, limit = m, total = 0\<rparr>\<rparr>) facts rv)) [0..<n]) =
     take (n * m) (filter (admits (request_filter q)) (whole_queue facts))"
    by (simp add: items_whole_queue pages_concat)
  have "length (members ((request_filter q)\<lparr>kinds := [kind]\<rparr>) facts) =
      length (filter (\<lambda>item. item_kind item = kind \<and> admits_flag (request_filter q) item)
        (map to_item (filter is_outstanding facts)))" for kind
    by (simp add: members_def admits_def admits_flag_def conj_commute)
  then show "counts_by_kind (composition_body (compose_work_queue q facts rv)) =
     map (\<lambda>kind. \<lparr>counted_kind = kind, kind_count =
         total (body_page (composition_body (compose_work_queue
           (q\<lparr>request_filter := (request_filter q)\<lparr>kinds := [kind]\<rparr>\<rparr>) facts rv)))\<rparr>) WorkItemKind_ALL"
    by (simp add: compose_simps(2)) (simp add: compose_work_queue_def Let_def)
qed (rule items_whole_queue)

definition identity_of :: "WorkItemFacts \<Rightarrow> WorkItemKind \<times> string" where
  "identity_of f = (facts_kind f, facts_id f)"

lemma distinct_members:
  assumes "distinct (map identity_of facts)"
  shows "distinct (map queue_key (members flt facts))"
proof -
  have "members flt facts = map to_item (filter (\<lambda>f. is_outstanding f \<and> admits flt (to_item f)) facts)"
    by (simp add: members_def filter_map o_def conj_commute)
  moreover have "inj_on (queue_key \<circ> to_item) (set facts)"
    using assms by (auto simp: inj_on_def queue_key_def distinct_map identity_of_def)
  ultimately show ?thesis
    using assms by (auto simp: distinct_map intro: distinct_filter inj_on_subset comp_inj_on)
qed

lemma same_members: "mset facts = mset facts' \<Longrightarrow> mset (members flt facts) = mset (members flt facts')"
  by (simp add: members_def mset_filter)

text \<open>
  The order is total over distinct records: when no two facts share both kind and identifier,
  the composition is the same whatever order the facts are read in; items, counts, total and page.
\<close>

theorem queue_order_total:
  assumes "distinct (map identity_of facts)" and "mset facts = mset facts'"
  shows "compose_work_queue q facts rv = compose_work_queue q facts' rv"
proof -
  have "sort_key queue_key (members flt facts) = sort_key queue_key (members flt facts')" for flt
    by (rule sort_key_unique [OF distinct_members [OF assms(1)] same_members [OF assms(2)]])
  moreover have "length (filter P (map to_item (filter is_outstanding facts))) =
      length (filter P (map to_item (filter is_outstanding facts')))" for P
    using assms(2) by (metis mset_filter mset_map size_mset)
  moreover have "length (members flt facts) = length (members flt facts')" for flt
    using same_members [OF assms(2)] by (metis size_mset)
  ultimately show ?thesis
    unfolding compose_work_queue_def Let_def sort_queue members_def [symmetric] by (simp only:)
qed

definition example_facts :: "WorkItemKind \<Rightarrow> string \<Rightarrow> RankableAttentionItem list \<Rightarrow> WorkItemFacts" where
  "example_facts kind i flags =
     \<lparr>facts_kind = kind, facts_id = i, facts_label = i, facts_state_label = ''Open'',
      facts_lifecycle_legal_intents = [''start''], facts_relevant_at = None, facts_promised_at = None,
      facts_classification = DataClassification.Internal, facts_revision = 1,
      facts_as_of = from_unix_millis 0, facts_freshness = Freshness.Fresh, facts_degraded = False,
      facts_attention = flags\<rparr>"

definition example_query :: GetWorkQueue where
  "example_query = \<lparr>request_as_of = from_unix_millis 0,
     request_page = \<lparr>offset = 0, limit = 25, total = 0\<rparr>, request_filter = no_filter\<rparr>"

end
