(* ===== verification/Work_Queue_Adapter.thy ===== *)
theory Work_Queue_Adapter
  imports Work_Queue State_Intents
begin

text \<open>
  \<^verbatim>\<open>work_queue_adapter.rs\<close> of \<^verbatim>\<open>crates/pmc-application/src\<close>: from two Ledger snapshots to the facts
  of the Work Queue, with attention derived by \<^verbatim>\<open>derive_attention\<close>, and the Cockpit's exception
  list. The snapshot records hold the collections these functions read; they are extensible, so
  that every statement covers the collections other routes add.
\<close>

section \<open>Snapshots\<close>

text \<open>\<^verbatim>\<open>composition_source.rs\<close> and \<^verbatim>\<open>projection_source.rs\<close> of \<^verbatim>\<open>crates/pmc-domain/src\<close>.\<close>

record ActionRequestReadRecord =
  read_request_id :: string
  read_request_title :: string
  read_request_intended_owner_id :: "entity_id option"
  read_request_state :: ActionRequestState
  read_request_response_due_at :: "UtcTimestamp option"
  read_request_intended_action_due_at :: "UtcTimestamp option"
  read_request_classification :: DataClassification
  read_request_version :: AggregateVersion

record DecisionRequestReadRecord =
  read_decision_id :: string
  read_decision_subject :: string
  read_decision_intended_owner_id :: "entity_id option"
  read_decision_state :: DecisionRequestState
  read_decision_classification :: DataClassification
  read_decision_version :: AggregateVersion

record IssueReadRecord =
  read_issue_id :: string
  read_issue_title :: string
  read_issue_state :: IssueState
  read_issue_source_risk_id :: "string option"
  read_issue_recurrence_of_id :: "string option"
  read_issue_classification :: DataClassification
  read_issue_version :: AggregateVersion

record RiskReadRecord =
  read_risk_id :: string
  read_risk_title :: string
  read_risk_classification :: DataClassification
  read_risk_version :: AggregateVersion

record LedgerCompositionSnapshot =
  composition_schema_version :: "32 word"
  composition_ledger_revision :: "64 word"
  composition_as_of_utc :: UtcTimestamp
  composition_action_requests :: "ActionRequestReadRecord list"
  composition_decision_requests :: "DecisionRequestReadRecord list"
  composition_issues :: "IssueReadRecord list"
  composition_risks :: "RiskReadRecord list"

record ActionProjectionSource =
  projected_action_id :: entity_id
  projected_action_classification :: DataClassification
  projected_action_source_revision :: AggregateVersion
  projected_action_state :: ActionState
  projected_action_due_at :: UtcTimestamp
  projected_action_source_request_id :: entity_id
  projected_action_source_decision_id :: "entity_id option"

record RiskProjectionSource =
  projected_risk_id :: entity_id
  projected_risk_classification :: DataClassification
  projected_risk_source_revision :: AggregateVersion
  projected_risk_state :: RiskState
  projected_risk_next_review_at :: "UtcTimestamp option"

record LedgerProjectionSnapshot =
  projection_schema_version :: "32 word"
  projection_ledger_revision :: "64 word"
  projection_as_of_utc :: UtcTimestamp
  projection_actions :: "ActionProjectionSource list"
  projection_risks :: "RiskProjectionSource list"

section \<open>State labels\<close>

fun action_request_state_label :: "ActionRequestState \<Rightarrow> string" where
  "action_request_state_label ActionRequestState.Draft = ''Draft''"
| "action_request_state_label ActionRequestState.Open = ''Open''"
| "action_request_state_label ActionRequestState.Accepted = ''Accepted''"
| "action_request_state_label ActionRequestState.Declined = ''Declined''"
| "action_request_state_label ActionRequestState.Withdrawn = ''Withdrawn''"

fun action_state_label :: "ActionState \<Rightarrow> string" where
  "action_state_label ActionState.Open = ''Open''"
| "action_state_label ActionState.InProgress = ''In progress''"
| "action_state_label ActionState.Completed = ''Completed''"
| "action_state_label ActionState.Cancelled = ''Cancelled''"

fun decision_request_state_label :: "DecisionRequestState \<Rightarrow> string" where
  "decision_request_state_label DecisionRequestState.Draft = ''Draft''"
| "decision_request_state_label DecisionRequestState.Open = ''Open''"
| "decision_request_state_label DecisionRequestState.Resolved = ''Resolved''"
| "decision_request_state_label DecisionRequestState.Withdrawn = ''Withdrawn''"

fun risk_state_label :: "RiskState \<Rightarrow> string" where
  "risk_state_label RiskState.Open = ''Open''"
| "risk_state_label RiskState.Occurred = ''Occurred''"
| "risk_state_label RiskState.Closed = ''Closed''"

fun issue_state_label :: "IssueState \<Rightarrow> string" where
  "issue_state_label IssueState.Open = ''Open''"
| "issue_state_label IssueState.Resolved = ''Resolved''"
| "issue_state_label IssueState.Closed = ''Closed''"

section \<open>Attention inputs\<close>

definition snapshot_metadata :: "DataClassification \<Rightarrow> AttentionMetadata" where
  "snapshot_metadata classification =
     \<lparr>metadata_classification = classification, metadata_freshness = Freshness.Fresh, metadata_degraded = False\<rparr>"

text \<open>\<^verbatim>\<open>filter_map\<close> over \<^verbatim>\<open>Id::parse(..).ok()?\<close>: a record whose identity does not parse raises nothing.\<close>

definition with_parsed_id :: "string \<Rightarrow> (entity_id \<Rightarrow> 'a) \<Rightarrow> 'a option" where
  "with_parsed_id s k = (case entity_id_parse s of Inl _ \<Rightarrow> None | Inr i \<Rightarrow> Some (k i))"

definition action_request_input :: "ActionRequestReadRecord \<Rightarrow> ActionRequestAttentionInput option" where
  "action_request_input request =
     with_parsed_id (read_request_id request) (\<lambda>i.
       \<lparr>request_id = i, request_state = read_request_state request,
        request_intended_owner_present = (read_request_intended_owner_id request \<noteq> None),
        request_response_due_at = read_request_response_due_at request, request_needs_info = False,
        request_metadata = snapshot_metadata (read_request_classification request)\<rparr>)"

definition action_input :: "ActionProjectionSource \<Rightarrow> ActionAttentionInput" where
  "action_input action =
     \<lparr>action_id = projected_action_id action, action_state = projected_action_state action,
      action_due_at = projected_action_due_at action, action_blocked = False, action_at_risk = False,
      action_evidence_state = EvidenceAttentionState.EvidenceNone, action_superseded_premise = False,
      action_metadata = snapshot_metadata (projected_action_classification action)\<rparr>"

definition decision_request_input :: "DecisionRequestReadRecord \<Rightarrow> DecisionRequestAttentionInput option" where
  "decision_request_input request =
     with_parsed_id (read_decision_id request) (\<lambda>i.
       \<lparr>decision_request_id = i, decision_request_state = read_decision_state request,
        decision_owner_present = (read_decision_intended_owner_id request \<noteq> None),
        decision_deadline_at = None, decision_request_needs_info = False,
        decision_request_metadata = snapshot_metadata (read_decision_classification request)\<rparr>)"

definition risk_input :: "RiskProjectionSource \<Rightarrow> RiskAttentionInput" where
  "risk_input risk =
     RiskAttentionInput_in_queue (projected_risk_id risk) (projected_risk_state risk)
       (projected_risk_next_review_at risk) False False False True
       (snapshot_metadata (projected_risk_classification risk))"

definition issue_input :: "IssueReadRecord \<Rightarrow> IssueAttentionInput option" where
  "issue_input issue =
     with_parsed_id (read_issue_id issue) (\<lambda>i.
       let recurrence = read_issue_recurrence_of_id issue \<noteq> None;
           metadata = snapshot_metadata (read_issue_classification issue)
       in case read_issue_state issue of
            IssueState.Open \<Rightarrow> IssueAttentionInput_open i None False False recurrence metadata
          | IssueState.Resolved \<Rightarrow> IssueAttentionInput_resolved i None False VerificationComplete recurrence metadata
          | IssueState.Closed \<Rightarrow> IssueAttentionInput_resolved i None False VerificationComplete recurrence metadata)"

definition attention_inputs ::
  "'p LedgerProjectionSnapshot_scheme \<Rightarrow> 'c LedgerCompositionSnapshot_scheme \<Rightarrow> AttentionThresholds
     \<Rightarrow> AttentionInputs" where
  "attention_inputs projection composition thr =
     \<lparr>as_of = composition_as_of_utc composition, thresholds = thr,
      action_requests = List.map_filter action_request_input (composition_action_requests composition),
      attention_actions = map action_input (projection_actions projection),
      decision_requests = List.map_filter decision_request_input (composition_decision_requests composition),
      attention_risks = map risk_input (projection_risks projection),
      attention_issues = List.map_filter issue_input (composition_issues composition)\<rparr>"

section \<open>Flags and facts\<close>

definition relevant_at_for ::
  "WorkItemKind \<Rightarrow> string \<Rightarrow> 'p LedgerProjectionSnapshot_scheme \<Rightarrow> 'c LedgerCompositionSnapshot_scheme
     \<Rightarrow> UtcTimestamp option" where
  "relevant_at_for kind i projection composition =
     (case kind of
        WorkItemKind.ActionRequest \<Rightarrow>
          Option.bind (List.find (\<lambda>x. read_request_id x = i) (composition_action_requests composition))
            read_request_response_due_at
      | WorkItemKind.Action \<Rightarrow>
          map_option projected_action_due_at
            (List.find (\<lambda>x. projected_action_id x = i) (projection_actions projection))
      | WorkItemKind.Risk \<Rightarrow>
          Option.bind (List.find (\<lambda>x. projected_risk_id x = i) (projection_risks projection))
            projected_risk_next_review_at
      | WorkItemKind.DecisionRequest \<Rightarrow> None
      | WorkItemKind.Issue \<Rightarrow> None)"

definition flags_from_snapshots ::
  "'p LedgerProjectionSnapshot_scheme \<Rightarrow> 'c LedgerCompositionSnapshot_scheme \<Rightarrow> AttentionThresholds
     \<Rightarrow> (WorkItemKind \<times> string \<times> RankableAttentionItem) list" where
  "flags_from_snapshots projection composition thr =
     map (\<lambda>flag.
        let kind = of_target (flag_target flag);
            i = canonical_id_of (flag_target flag);
            relevant_at = relevant_at_for kind i projection composition
        in (kind, i, \<lparr>rankable_flag = flag, rankable_relevant_at = relevant_at\<rparr>))
       (result_flags (derive_attention (attention_inputs projection composition thr)))"

definition attention_for ::
  "(WorkItemKind \<times> string \<times> RankableAttentionItem) list \<Rightarrow> WorkItemKind \<Rightarrow> string \<Rightarrow> RankableAttentionItem list" where
  "attention_for flags kind i =
     map (\<lambda>(_, _, item). item) (filter (\<lambda>(flag_kind, flag_id, _). flag_kind = kind \<and> flag_id = i) flags)"

definition work_item_facts_from_snapshots ::
  "'p LedgerProjectionSnapshot_scheme \<Rightarrow> 'c LedgerCompositionSnapshot_scheme \<Rightarrow> AttentionThresholds
     \<Rightarrow> WorkItemFacts list" where
  "work_item_facts_from_snapshots projection composition thr =
     (let flags = flags_from_snapshots projection composition thr in
      map (\<lambda>request.
        \<lparr>facts_kind = WorkItemKind.ActionRequest, facts_id = read_request_id request,
         facts_label = read_request_title request,
         facts_state_label = action_request_state_label (read_request_state request),
         facts_lifecycle_legal_intents = request_allowed_intents (read_request_state request),
         facts_relevant_at = read_request_response_due_at request,
         facts_promised_at = read_request_intended_action_due_at request,
         facts_classification = read_request_classification request,
         facts_revision = version_get (read_request_version request),
         facts_as_of = composition_as_of_utc composition, facts_freshness = Freshness.Fresh,
         facts_degraded = False,
         facts_attention = attention_for flags WorkItemKind.ActionRequest (read_request_id request)\<rparr>)
        (composition_action_requests composition) @
      map (\<lambda>action.
        \<lparr>facts_kind = WorkItemKind.Action, facts_id = projected_action_id action,
         facts_label = ''Action '' @ projected_action_id action,
         facts_state_label = action_state_label (projected_action_state action),
         facts_lifecycle_legal_intents = action_allowed_intents (projected_action_state action),
         facts_relevant_at = Some (projected_action_due_at action), facts_promised_at = None,
         facts_classification = projected_action_classification action,
         facts_revision = version_get (projected_action_source_revision action),
         facts_as_of = projection_as_of_utc projection, facts_freshness = Freshness.Fresh,
         facts_degraded = False,
         facts_attention = attention_for flags WorkItemKind.Action (projected_action_id action)\<rparr>)
        (projection_actions projection) @
      map (\<lambda>request.
        \<lparr>facts_kind = WorkItemKind.DecisionRequest, facts_id = read_decision_id request,
         facts_label = read_decision_subject request,
         facts_state_label = decision_request_state_label (read_decision_state request),
         facts_lifecycle_legal_intents = decision_request_state_intents (read_decision_state request),
         facts_relevant_at = None, facts_promised_at = None,
         facts_classification = read_decision_classification request,
         facts_revision = version_get (read_decision_version request),
         facts_as_of = composition_as_of_utc composition, facts_freshness = Freshness.Fresh,
         facts_degraded = False,
         facts_attention = attention_for flags WorkItemKind.DecisionRequest (read_decision_id request)\<rparr>)
        (composition_decision_requests composition) @
      map (\<lambda>risk.
        \<lparr>facts_kind = WorkItemKind.Risk, facts_id = projected_risk_id risk,
         facts_label =
           (case List.find (\<lambda>titled. read_risk_id titled = projected_risk_id risk) (composition_risks composition) of
              None \<Rightarrow> ''Risk '' @ projected_risk_id risk
            | Some titled \<Rightarrow> read_risk_title titled),
         facts_state_label = risk_state_label (projected_risk_state risk),
         facts_lifecycle_legal_intents = risk_state_intents (projected_risk_state risk),
         facts_relevant_at = projected_risk_next_review_at risk, facts_promised_at = None,
         facts_classification = projected_risk_classification risk,
         facts_revision = version_get (projected_risk_source_revision risk),
         facts_as_of = projection_as_of_utc projection, facts_freshness = Freshness.Fresh,
         facts_degraded = False,
         facts_attention = attention_for flags WorkItemKind.Risk (projected_risk_id risk)\<rparr>)
        (projection_risks projection) @
      map (\<lambda>issue.
        \<lparr>facts_kind = WorkItemKind.Issue, facts_id = read_issue_id issue,
         facts_label = read_issue_title issue,
         facts_state_label = issue_state_label (read_issue_state issue),
         facts_lifecycle_legal_intents = issue_state_intents (read_issue_state issue),
         facts_relevant_at = None, facts_promised_at = None,
         facts_classification = read_issue_classification issue,
         facts_revision = version_get (read_issue_version issue),
         facts_as_of = composition_as_of_utc composition, facts_freshness = Freshness.Fresh,
         facts_degraded = False,
         facts_attention = attention_for flags WorkItemKind.Issue (read_issue_id issue)\<rparr>)
        (composition_issues composition))"

definition portfolio_attention_from_snapshots ::
  "'p LedgerProjectionSnapshot_scheme \<Rightarrow> 'c LedgerCompositionSnapshot_scheme \<Rightarrow> AttentionThresholds
     \<Rightarrow> RankedAttentionItem list" where
  "portfolio_attention_from_snapshots projection composition thr =
     (let facts = work_item_facts_from_snapshots projection composition thr;
          flagged = compose_work_queue
            \<lparr>request_as_of = composition_as_of_utc composition,
             request_page = \<lparr>offset = 0, limit = usize_MAX, total = 0\<rparr>,
             request_filter = \<lparr>kinds = [], only_flagged = True\<rparr>\<rparr>
            facts (composition_ledger_revision composition)
      in concat (map item_attention (items_of flagged)))"

section \<open>What the snapshots say\<close>

fun target_of :: "WorkItemKind \<times> string \<Rightarrow> AttentionTarget" where
  "target_of (WorkItemKind.ActionRequest, i) = AttentionTarget.ActionRequest i"
| "target_of (WorkItemKind.Action, i) = AttentionTarget.Action i"
| "target_of (WorkItemKind.DecisionRequest, i) = AttentionTarget.DecisionRequest i"
| "target_of (WorkItemKind.Risk, i) = AttentionTarget.Risk i"
| "target_of (WorkItemKind.Issue, i) = AttentionTarget.Issue i"

lemma target_of_iff: "of_target t = k \<and> canonical_id_of t = i \<longleftrightarrow> t = target_of (k, i)"
  by (cases t; cases k) auto

lemma of_target_target_of [simp]: "of_target (target_of p) = fst p" "canonical_id_of (target_of p) = snd p"
  by (cases p; cases "fst p"; simp)+

text \<open>
  The reason a record of the snapshots needs attention, read off the record: the only reasons the
  snapshots carry the facts for.
\<close>

fun snapshot_reason ::
  "'p LedgerProjectionSnapshot_scheme \<Rightarrow> 'c LedgerCompositionSnapshot_scheme \<Rightarrow> AttentionThresholds
     \<Rightarrow> AttentionTarget \<Rightarrow> AttentionReason \<Rightarrow> bool" where
  "snapshot_reason projection composition thr (AttentionTarget.ActionRequest i) r =
     (is_ok (entity_id_parse i) \<and>
      (\<exists>x \<in> set (composition_action_requests composition). read_request_id x = i \<and>
         read_request_state x \<in> {ActionRequestState.Draft, ActionRequestState.Open} \<and>
         (r = ActionRequestMissingIntendedOwner \<and> read_request_intended_owner_id x = None \<or>
          r = ActionRequestResponseOverdue \<and>
            (\<exists>due. read_request_response_due_at x = Some due \<and> due < composition_as_of_utc composition) \<or>
          r = ActionRequestResponseDue \<and>
            read_request_response_due_at x = Some (composition_as_of_utc composition))))"
| "snapshot_reason projection composition thr (AttentionTarget.Action i) r =
     (\<exists>x \<in> set (projection_actions projection). projected_action_id x = i \<and>
        projected_action_state x \<in> {ActionState.Open, ActionState.InProgress} \<and>
        (r = ActionOverdue \<and> projected_action_due_at x < composition_as_of_utc composition \<or>
         r = ActionAtRisk \<and> (\<exists>w. action_at_risk_millis thr = Some w \<and>
           composition_as_of_utc composition \<le> projected_action_due_at x \<and>
           unix_millis (projected_action_due_at x) \<le>
             unix_millis (composition_as_of_utc composition) + max w 0)))"
| "snapshot_reason projection composition thr (AttentionTarget.DecisionRequest i) r =
     (is_ok (entity_id_parse i) \<and>
      (\<exists>x \<in> set (composition_decision_requests composition). read_decision_id x = i \<and>
         read_decision_state x \<in> {DecisionRequestState.Draft, DecisionRequestState.Open} \<and>
         r = DecisionRequestMissingDecisionOwner \<and> read_decision_intended_owner_id x = None))"
| "snapshot_reason projection composition thr (AttentionTarget.Risk i) r =
     (\<exists>x \<in> set (projection_risks projection). projected_risk_id x = i \<and>
        projected_risk_state x = RiskState.Open \<and> r = RiskReviewDue \<and>
        (\<exists>at. projected_risk_next_review_at x = Some at \<and> at \<le> composition_as_of_utc composition))"
| "snapshot_reason projection composition thr (AttentionTarget.Issue i) r =
     (is_ok (entity_id_parse i) \<and>
      (\<exists>x \<in> set (composition_issues composition). read_issue_id x = i \<and>
         r = IssueRecurrence \<and> read_issue_recurrence_of_id x \<noteq> None))"

lemma entity_id_parse_id: "entity_id_parse s = Inr i \<Longrightarrow> i = s"
  by (simp add: entity_id_parse_def token_parse_Inr_iff)

lemma with_parsed_id_Some: "with_parsed_id s k = Some y \<longleftrightarrow> is_ok (entity_id_parse s) \<and> y = k s"
  using entity_id_parse_id [of s] by (cases "entity_id_parse s") (auto simp: with_parsed_id_def)

lemma bex_map_filter:
  "(\<exists>y \<in> set (List.map_filter f xs). Q y) \<longleftrightarrow> (\<exists>x \<in> set xs. \<exists>y. f x = Some y \<and> Q y)"
  by (induction xs) (auto simp: map_filter_simps split: option.splits)

lemmas input_defs = action_request_input_def action_input_def decision_request_input_def risk_input_def
  RiskAttentionInput_in_queue_def issue_input_def snapshot_metadata_def Let_def

lemma issue_input_Some:
  "issue_input x = Some y \<longleftrightarrow> is_ok (entity_id_parse (read_issue_id x)) \<and>
     y = \<lparr>attention_issue_id = read_issue_id x,
          issue_snapshot = (if read_issue_state x = IssueState.Open then OpenIssue False
             else ResolvedIssue VerificationComplete),
          issue_resolution_due_at = None, issue_blocked = False,
          issue_recurrence_link_present = (read_issue_recurrence_of_id x \<noteq> None),
          issue_metadata = snapshot_metadata (read_issue_classification x)\<rparr>"
  unfolding issue_input_def with_parsed_id_Some
  by (cases "read_issue_state x")
     (auto simp: Let_def IssueAttentionInput_open_def IssueAttentionInput_resolved_def)

lemma attention_fact_snapshot:
  "attention_fact (attention_inputs projection composition thr) t r = snapshot_reason projection composition thr t r"
proof (cases t)
  case (ActionRequest i)
  then show ?thesis
    by (cases r) (auto simp: attention_inputs_def bex_map_filter action_request_input_def with_parsed_id_Some
      action_request_fact_def snapshot_metadata_def)
next
  case (Action i)
  then show ?thesis
    by (cases r) (auto simp: attention_inputs_def action_input_def action_fact_def)
next
  case (DecisionRequest i)
  then show ?thesis
    by (cases r) (auto simp: attention_inputs_def bex_map_filter decision_request_input_def with_parsed_id_Some
      decision_request_fact_def snapshot_metadata_def)
next
  case (Risk i)
  then show ?thesis
    by (cases r) (auto simp: attention_inputs_def risk_input_def RiskAttentionInput_in_queue_def risk_fact_def)
next
  case (Issue i)
  then show ?thesis
    by (cases r) (auto simp: attention_inputs_def bex_map_filter issue_input_Some issue_fact_def
      snapshot_metadata_def)
qed

section \<open>Which record carries which flag\<close>

lemma raised_flag_snapshot:
  "(\<exists>g \<in> set (result_flags (derive_attention (attention_inputs projection composition thr))).
      flag_target g = t \<and> flag_reason g = r) \<longleftrightarrow> snapshot_reason projection composition thr t r"
  unfolding attention_fact_snapshot [symmetric] raised_flags_iff [symmetric]
  by (auto simp: result_flags_eq flag_order_def image_iff)

lemma attention_for_eq:
  "attention_for (flags_from_snapshots projection composition thr) k i =
     map (\<lambda>g. \<lparr>rankable_flag = g, rankable_relevant_at = relevant_at_for k i projection composition\<rparr>)
       (filter (\<lambda>g. flag_target g = target_of (k, i))
         (result_flags (derive_attention (attention_inputs projection composition thr))))"
proof -
  have "map (\<lambda>(_, _, item). item) (filter (\<lambda>(flag_kind, flag_id, _). flag_kind = k \<and> flag_id = i)
      (map (\<lambda>g. (of_target (flag_target g), canonical_id_of (flag_target g),
         \<lparr>rankable_flag = g, rankable_relevant_at =
            relevant_at_for (of_target (flag_target g)) (canonical_id_of (flag_target g)) projection composition\<rparr>)) gs)) =
    map (\<lambda>g. \<lparr>rankable_flag = g, rankable_relevant_at = relevant_at_for k i projection composition\<rparr>)
       (filter (\<lambda>g. flag_target g = target_of (k, i)) gs)" for gs
    by (induction gs) (auto simp: target_of_iff [symmetric])
  then show ?thesis by (simp add: attention_for_def flags_from_snapshots_def Let_def)
qed

text \<open>Every fact carries the attention of its own record.\<close>

lemma facts_attention_eq:
  assumes "f \<in> set (work_item_facts_from_snapshots projection composition thr)"
  shows "facts_attention f =
    attention_for (flags_from_snapshots projection composition thr) (facts_kind f) (facts_id f)"
  using assms unfolding work_item_facts_from_snapshots_def Let_def by auto

lemma identity_of_facts:
  "map identity_of (work_item_facts_from_snapshots projection composition thr) =
     map (Pair WorkItemKind.ActionRequest) (map read_request_id (composition_action_requests composition)) @
     map (Pair WorkItemKind.Action) (map projected_action_id (projection_actions projection)) @
     map (Pair WorkItemKind.DecisionRequest) (map read_decision_id (composition_decision_requests composition)) @
     map (Pair WorkItemKind.Risk) (map projected_risk_id (projection_risks projection)) @
     map (Pair WorkItemKind.Issue) (map read_issue_id (composition_issues composition))"
  by (simp add: work_item_facts_from_snapshots_def Let_def identity_of_def)

definition distinct_identities ::
  "'p LedgerProjectionSnapshot_scheme \<Rightarrow> 'c LedgerCompositionSnapshot_scheme \<Rightarrow> bool" where
  "distinct_identities projection composition \<longleftrightarrow>
     distinct (map read_request_id (composition_action_requests composition)) \<and>
     distinct (map projected_action_id (projection_actions projection)) \<and>
     distinct (map read_decision_id (composition_decision_requests composition)) \<and>
     distinct (map projected_risk_id (projection_risks projection)) \<and>
     distinct (map read_issue_id (composition_issues composition))"

lemma distinct_identity_of:
  "distinct_identities projection composition \<Longrightarrow>
     distinct (map identity_of (work_item_facts_from_snapshots projection composition thr))"
  unfolding identity_of_facts
  by (auto simp: distinct_identities_def distinct_map inj_on_def)

lemma find_own:
  "distinct (map g xs) \<Longrightarrow> x \<in> set xs \<Longrightarrow> List.find (\<lambda>y. g y = g x) xs = Some x"
  by (induction xs) auto

lemma relevant_at_own:
  assumes "distinct_identities projection composition"
    and "f \<in> set (work_item_facts_from_snapshots projection composition thr)"
  shows "relevant_at_for (facts_kind f) (facts_id f) projection composition = facts_relevant_at f"
  using assms unfolding work_item_facts_from_snapshots_def distinct_identities_def Let_def
  by (auto simp: relevant_at_for_def find_own [where g = read_request_id]
      find_own [where g = projected_action_id] find_own [where g = projected_risk_id])

lemma map_filter_ids:
  assumes "\<And>x y. f x = Some y \<Longrightarrow> g y = h x"
  shows "set (map g (List.map_filter f xs)) \<subseteq> set (map h xs) \<and>
    (distinct (map h xs) \<longrightarrow> distinct (map g (List.map_filter f xs)))"
  using assms by (induction xs) (auto simp: map_filter_simps split: option.splits)

lemma distinct_inputs:
  assumes "distinct_identities projection composition"
  shows "distinct_records (attention_inputs projection composition thr)"
proof -
  have "request_id y = read_request_id x" if "action_request_input x = Some y" for x y
    using that by (auto simp: action_request_input_def with_parsed_id_Some)
  moreover have "decision_request_id y = read_decision_id x" if "decision_request_input x = Some y" for x y
    using that by (auto simp: decision_request_input_def with_parsed_id_Some)
  moreover have "attention_issue_id y = read_issue_id x" if "issue_input x = Some y" for x y
    using that by (simp add: issue_input_Some)
  moreover have "action_id \<circ> action_input = projected_action_id" "risk_id \<circ> risk_input = projected_risk_id"
    by (auto simp: fun_eq_iff action_input_def risk_input_def RiskAttentionInput_in_queue_def)
  ultimately show ?thesis
    using assms map_filter_ids [of action_request_input request_id read_request_id]
      map_filter_ids [of decision_request_input decision_request_id read_decision_id]
      map_filter_ids [of issue_input attention_issue_id read_issue_id]
    by (simp add: distinct_records_def distinct_identities_def attention_inputs_def)
qed

text \<open>What a fact of the snapshots carries beside it.\<close>

lemma fact_of_snapshot:
  assumes "distinct_identities projection composition"
    and "f \<in> set (work_item_facts_from_snapshots projection composition thr)"
  shows "(\<forall>r. (\<exists>x \<in> set (facts_attention f). flag_reason (rankable_flag x) = r) \<longleftrightarrow>
      snapshot_reason projection composition thr (target_of (identity_of f)) r) \<and>
    distinct (map (\<lambda>x. flag_reason (rankable_flag x)) (facts_attention f)) \<and>
    list_all (\<lambda>x. flag_target (rankable_flag x) = target_of (identity_of f) \<and>
      rankable_relevant_at x = facts_relevant_at f) (facts_attention f)"
proof -
  let ?flags = "result_flags (derive_attention (attention_inputs projection composition thr))"
  let ?own = "filter (\<lambda>g. flag_target g = target_of (identity_of f)) ?flags"
  have att: "facts_attention f =
      map (\<lambda>g. \<lparr>rankable_flag = g, rankable_relevant_at = facts_relevant_at f\<rparr>) ?own"
    by (simp add: facts_attention_eq [OF assms(2)] attention_for_eq relevant_at_own [OF assms] identity_of_def)
  have "distinct (map flag_order ?flags)"
    by (simp add: result_flags_eq distinct_map_sort_key distinct_raised_flags [OF distinct_inputs [OF assms(1)]])
  then have "distinct (map flag_reason ?own)"
    by (auto simp: distinct_map inj_on_def flag_order_def)
  moreover have "(\<exists>g \<in> set ?own. flag_reason g = r) \<longleftrightarrow>
      snapshot_reason projection composition thr (target_of (identity_of f)) r" for r
    unfolding raised_flag_snapshot [symmetric] by auto
  ultimately show ?thesis
    unfolding att by (simp add: list_all_iff o_def)
qed

text \<open>
  C39. The queue's facts are the snapshots': in this order, one fact for every Action Request,
  Action, Decision Request, Risk and Issue of the snapshots and no other, with the record's own kind,
  identity, classification, revision, label of its state and legal intents; the reasons beside a
  fact are exactly those the record's own fields give (an unknown field gives none), each once; every
  flag is the record's own and carries the record's own deadline. A Closed Issue that is a recurrence is
  flagged like an open one; only its empty list of intents keeps it out of the queue.
\<close>

theorem work_queue_facts_exact:
  assumes "distinct_identities projection composition"
  shows "map (\<lambda>f. (facts_kind f, facts_id f, facts_classification f, facts_revision f, facts_state_label f,
        facts_lifecycle_legal_intents f))
      (work_item_facts_from_snapshots projection composition thr) =
    map (\<lambda>x. (WorkItemKind.ActionRequest, read_request_id x, read_request_classification x,
        version_get (read_request_version x), action_request_state_label (read_request_state x),
        request_allowed_intents (read_request_state x)))
      (composition_action_requests composition) @
    map (\<lambda>x. (WorkItemKind.Action, projected_action_id x, projected_action_classification x,
        version_get (projected_action_source_revision x), action_state_label (projected_action_state x),
        action_allowed_intents (projected_action_state x)))
      (projection_actions projection) @
    map (\<lambda>x. (WorkItemKind.DecisionRequest, read_decision_id x, read_decision_classification x,
        version_get (read_decision_version x), decision_request_state_label (read_decision_state x),
        decision_request_state_intents (read_decision_state x)))
      (composition_decision_requests composition) @
    map (\<lambda>x. (WorkItemKind.Risk, projected_risk_id x, projected_risk_classification x,
        version_get (projected_risk_source_revision x), risk_state_label (projected_risk_state x),
        risk_state_intents (projected_risk_state x)))
      (projection_risks projection) @
    map (\<lambda>x. (WorkItemKind.Issue, read_issue_id x, read_issue_classification x,
        version_get (read_issue_version x), issue_state_label (read_issue_state x),
        issue_state_intents (read_issue_state x)))
      (composition_issues composition) \<and>
    list_all (\<lambda>f.
      (\<forall>r. (\<exists>x \<in> set (facts_attention f). flag_reason (rankable_flag x) = r) \<longleftrightarrow>
        snapshot_reason projection composition thr (target_of (identity_of f)) r) \<and>
      distinct (map (\<lambda>x. flag_reason (rankable_flag x)) (facts_attention f)) \<and>
      list_all (\<lambda>x. flag_target (rankable_flag x) = target_of (identity_of f) \<and>
        rankable_relevant_at x = facts_relevant_at f) (facts_attention f))
      (work_item_facts_from_snapshots projection composition thr)"
  using fact_of_snapshot [OF assms, of _ thr]
  by (auto simp: list_all_iff) (simp add: work_item_facts_from_snapshots_def Let_def)

definition example_issue :: "string \<Rightarrow> IssueState \<Rightarrow> string option \<Rightarrow> IssueReadRecord" where
  "example_issue i st recurrence_of =
     \<lparr>read_issue_id = i, read_issue_title = i, read_issue_state = st, read_issue_source_risk_id = None,
      read_issue_recurrence_of_id = recurrence_of, read_issue_classification = DataClassification.Internal,
      read_issue_version = AggregateVersion 1\<rparr>"

definition example_action :: "string \<Rightarrow> int \<Rightarrow> ActionProjectionSource" where
  "example_action i due =
     \<lparr>projected_action_id = i, projected_action_classification = DataClassification.Internal,
      projected_action_source_revision = AggregateVersion 1, projected_action_state = ActionState.Open,
      projected_action_due_at = from_unix_millis due, projected_action_source_request_id = ''r'',
      projected_action_source_decision_id = None\<rparr>"

definition example_projection :: LedgerProjectionSnapshot where
  "example_projection =
     \<lparr>projection_schema_version = 40, projection_ledger_revision = 7,
      projection_as_of_utc = from_unix_millis 100,
      projection_actions = [example_action ''a1'' 50, example_action ''a2'' 200], projection_risks = []\<rparr>"

definition example_composition :: LedgerCompositionSnapshot where
  "example_composition =
     \<lparr>composition_schema_version = 40, composition_ledger_revision = 7,
      composition_as_of_utc = from_unix_millis 100, composition_action_requests = [],
      composition_decision_requests = [],
      composition_issues = [example_issue ''i1'' IssueState.Open (Some ''i0''),
        example_issue ''i0'' IssueState.Closed (Some ''i9'')],
      composition_risks = []\<rparr>"

definition example_thresholds :: AttentionThresholds where
  "example_thresholds = \<lparr>decision_approaching_deadline_millis = 0, action_at_risk_millis = None\<rparr>"

lemma example_distinct: "distinct_identities example_projection example_composition"
  by code_simp

theorem work_queue_facts_exact_witness:
  "map identity_of (work_item_facts_from_snapshots example_projection example_composition example_thresholds) =
     [(WorkItemKind.Action, ''a1''), (WorkItemKind.Action, ''a2''),
      (WorkItemKind.Issue, ''i1''), (WorkItemKind.Issue, ''i0'')] \<and>
   (\<exists>f \<in> set (work_item_facts_from_snapshots example_projection example_composition example_thresholds).
     identity_of f = (WorkItemKind.Issue, ''i0'') \<and>
     (\<exists>x \<in> set (facts_attention f). flag_reason (rankable_flag x) = IssueRecurrence))"
proof -
  let ?facts = "work_item_facts_from_snapshots example_projection example_composition example_thresholds"
  note exact = work_queue_facts_exact [OF example_distinct, of example_thresholds]
  have "map identity_of ?facts = map (\<lambda>(k, i, _). (k, i)) (map (\<lambda>f. (facts_kind f, facts_id f,
      facts_classification f, facts_revision f, facts_state_label f, facts_lifecycle_legal_intents f)) ?facts)"
    by (simp add: identity_of_def)
  also have "\<dots> = [(WorkItemKind.Action, ''a1''), (WorkItemKind.Action, ''a2''),
      (WorkItemKind.Issue, ''i1''), (WorkItemKind.Issue, ''i0'')]"
    by (subst conjunct1 [OF exact])
       (simp add: example_projection_def example_composition_def example_issue_def example_action_def)
  finally have ids: "map identity_of ?facts = \<dots>" .
  then have "(WorkItemKind.Issue, ''i0'') \<in> set (map identity_of ?facts)" by (simp only: list.set) simp
  then obtain f where f: "f \<in> set ?facts" "identity_of f = (WorkItemKind.Issue, ''i0'')" by auto
  have "is_ok (entity_id_parse ''i0'')" by code_simp
  then have "snapshot_reason example_projection example_composition example_thresholds
      (target_of (identity_of f)) IssueRecurrence"
    by (simp add: f(2) example_composition_def example_issue_def)
  with exact f ids show ?thesis unfolding list_all_iff by blast
qed

section \<open>The Cockpit's exception list\<close>

lemma distinct_concat_tagged:
  assumes "distinct (map h xs)" and "\<And>x. x \<in> set xs \<Longrightarrow> distinct (g x)"
    and "\<And>x y. x \<in> set xs \<Longrightarrow> y \<in> set (g x) \<Longrightarrow> tag y = h x"
  shows "distinct (concat (map g xs))"
  using assms
proof (induction xs)
  case (Cons x xs)
  have "set (g x) \<inter> set (concat (map g xs)) = {}"
  proof (rule equals0I)
    fix y assume "y \<in> set (g x) \<inter> set (concat (map g xs))"
    then obtain z where "z \<in> set xs" "y \<in> set (g x)" "y \<in> set (g z)" by auto
    then have "h x = h z" using Cons.prems(3) by (metis list.set_intros)
    with \<open>z \<in> set xs\<close> Cons.prems(1) show False by auto
  qed
  with Cons show ?case by simp
qed simp

lemma portfolio_attention_eq:
  assumes "length (work_item_facts_from_snapshots projection composition thr) \<le> usize_MAX"
  shows "portfolio_attention_from_snapshots projection composition thr =
    concat (map item_attention
      (filter (\<lambda>i. item_attention i \<noteq> []) (whole_queue (work_item_facts_from_snapshots projection composition thr))))"
proof -
  let ?facts = "work_item_facts_from_snapshots projection composition thr"
  have flt: "admits \<lparr>kinds = [], only_flagged = True\<rparr> = (\<lambda>i. item_attention i \<noteq> [])"
    by (simp add: fun_eq_iff admits_def admits_flag_def)
  have "length (members no_filter ?facts) \<le> length ?facts"
    unfolding members_def by (rule order_trans [OF length_filter_le]) simp
  then have "length (filter P (whole_queue ?facts)) \<le> usize_MAX" for P
    using assms length_filter_le [of P "whole_queue ?facts"] by (simp add: whole_queue_eq del: length_filter_le)
  then show ?thesis
    by (simp add: portfolio_attention_from_snapshots_def Let_def items_whole_queue flt)
qed

lemma set_whole_queue: "set (whole_queue facts) = to_item ` {f \<in> set facts. is_outstanding f}"
  by (auto simp: whole_queue_eq members_def no_filter_def admits_def admits_flag_def)

lemma flags_of_item:
  assumes "distinct_identities projection composition"
    and "f \<in> set (work_item_facts_from_snapshots projection composition thr)"
  shows "distinct (map (flag_order \<circ> ranked_flag) (item_attention (to_item f)))"
    and "a \<in> set (item_attention (to_item f)) \<Longrightarrow> flag_target (ranked_flag a) = target_of (identity_of f)"
    and "(\<exists>a \<in> set (item_attention (to_item f)). flag_target (ranked_flag a) = t \<and> flag_reason (ranked_flag a) = r) \<longleftrightarrow>
      t = target_of (identity_of f) \<and> snapshot_reason projection composition thr t r"
proof -
  let ?flags = "result_flags (derive_attention (attention_inputs projection composition thr))"
  let ?own = "filter (\<lambda>g. flag_target g = target_of (identity_of f)) ?flags"
  have att: "map rankable_flag (facts_attention f) = ?own"
    by (simp add: facts_attention_eq [OF assms(2)] attention_for_eq identity_of_def o_def)
  have shown: "mset (map ranked_flag (item_attention (to_item f))) = mset ?own"
    unfolding att [symmetric] by (simp add: rank_attention_def image_mset.compositionality o_def)
  have "distinct (map flag_order ?flags)"
    by (simp add: result_flags_eq distinct_map_sort_key distinct_raised_flags [OF distinct_inputs [OF assms(1)]])
  then have "distinct (map flag_order ?own)" by (rule distinct_map_filter)
  with distinct_map_mset [OF shown, of flag_order]
  show "distinct (map (flag_order \<circ> ranked_flag) (item_attention (to_item f)))" by simp
  have sets: "ranked_flag ` set (item_attention (to_item f)) = set ?own"
    using mset_eq_setD [OF shown] by simp
  then show "a \<in> set (item_attention (to_item f)) \<Longrightarrow> flag_target (ranked_flag a) = target_of (identity_of f)"
    by auto
  have "(\<exists>a \<in> set (item_attention (to_item f)). flag_target (ranked_flag a) = t \<and> flag_reason (ranked_flag a) = r) \<longleftrightarrow>
      (\<exists>g \<in> ranked_flag ` set (item_attention (to_item f)). flag_target g = t \<and> flag_reason g = r)"
    by blast
  then show "(\<exists>a \<in> set (item_attention (to_item f)). flag_target (ranked_flag a) = t \<and> flag_reason (ranked_flag a) = r) \<longleftrightarrow>
      t = target_of (identity_of f) \<and> snapshot_reason projection composition thr t r"
    unfolding sets raised_flag_snapshot [symmetric] by auto
qed

lemma target_of_inject: "target_of p = target_of q \<longleftrightarrow> p = q"
  by (metis of_target_target_of prod.collapse)

text \<open>
  C40. The Cockpit's exception list is the flagged Work Queue, record by record in the queue's
  order; it holds exactly the reasons the snapshots give of the records that are outstanding, and
  each of them once.
\<close>

theorem cockpit_is_the_flagged_queue:
  assumes "distinct_identities projection composition"
    and "length (work_item_facts_from_snapshots projection composition thr) \<le> usize_MAX"
  shows "portfolio_attention_from_snapshots projection composition thr =
      concat (map item_attention (filter (\<lambda>i. item_attention i \<noteq> [])
        (whole_queue (work_item_facts_from_snapshots projection composition thr)))) \<and>
    ((\<exists>a \<in> set (portfolio_attention_from_snapshots projection composition thr).
        flag_target (ranked_flag a) = t \<and> flag_reason (ranked_flag a) = r) \<longleftrightarrow>
      snapshot_reason projection composition thr t r \<and>
      (\<exists>f \<in> set (work_item_facts_from_snapshots projection composition thr).
         target_of (identity_of f) = t \<and> is_outstanding f)) \<and>
    distinct (map (flag_order \<circ> ranked_flag) (portfolio_attention_from_snapshots projection composition thr))"
proof (intro conjI)
  let ?facts = "work_item_facts_from_snapshots projection composition thr"
  let ?P = "portfolio_attention_from_snapshots projection composition thr"
  note P = portfolio_attention_eq [OF assms(2)]
  show "?P = concat (map item_attention (filter (\<lambda>i. item_attention i \<noteq> []) (whole_queue ?facts)))"
    by (rule P)
  have set_P: "set ?P = (\<Union>f \<in> {f \<in> set ?facts. is_outstanding f}. set (item_attention (to_item f)))"
    unfolding P by (auto simp: set_whole_queue simp del: rank_attention_Nil)
  have "(\<exists>a \<in> set ?P. flag_target (ranked_flag a) = t \<and> flag_reason (ranked_flag a) = r) \<longleftrightarrow>
      (\<exists>f \<in> set ?facts. is_outstanding f \<and>
        (\<exists>a \<in> set (item_attention (to_item f)). flag_target (ranked_flag a) = t \<and> flag_reason (ranked_flag a) = r))"
    unfolding set_P by blast
  also have "\<dots> \<longleftrightarrow> (\<exists>f \<in> set ?facts. is_outstanding f \<and>
      t = target_of (identity_of f) \<and> snapshot_reason projection composition thr t r)"
    by (intro bex_cong refl) (simp only: flags_of_item(3) [OF assms(1)])
  finally show "(\<exists>a \<in> set ?P. flag_target (ranked_flag a) = t \<and> flag_reason (ranked_flag a) = r) \<longleftrightarrow>
      snapshot_reason projection composition thr t r \<and>
      (\<exists>f \<in> set ?facts. target_of (identity_of f) = t \<and> is_outstanding f)"
    by auto
  let ?ident = "\<lambda>i. (item_kind i, item_id i)"
  have "distinct (map ?ident (members no_filter ?facts))"
  proof -
    have "map ?ident (members no_filter ?facts) = map identity_of (filter is_outstanding ?facts)"
      by (simp add: members_def no_filter_def admits_def admits_flag_def o_def identity_of_def)
    then show ?thesis
      using distinct_identity_of [OF assms(1), of thr] by (simp add: distinct_map_filter)
  qed
  then have "distinct (map ?ident (filter (\<lambda>i. item_attention i \<noteq> []) (whole_queue ?facts)))"
    by (intro distinct_map_filter) (simp add: whole_queue_eq distinct_map_sort_key)
  then have "distinct (concat (map (\<lambda>i. map (flag_order \<circ> ranked_flag) (item_attention i))
      (filter (\<lambda>i. item_attention i \<noteq> []) (whole_queue ?facts))))"
  proof (rule distinct_concat_tagged [where tag = "\<lambda>(t, r). (of_target t, canonical_id_of t)"])
    fix i p
    assume "i \<in> set (filter (\<lambda>i. item_attention i \<noteq> []) (whole_queue ?facts))"
    then obtain f where f: "f \<in> set ?facts" "i = to_item f" by (auto simp: set_whole_queue)
    show "distinct (map (flag_order \<circ> ranked_flag) (item_attention i))"
      using flags_of_item(1) [OF assms(1) f(1)] by (simp add: f(2))
    assume "p \<in> set (map (flag_order \<circ> ranked_flag) (item_attention i))"
    then show "(case p of (t, r) \<Rightarrow> (of_target t, canonical_id_of t)) = (item_kind i, item_id i)"
      using flags_of_item(2) [OF assms(1) f(1)] by (auto simp: f(2) flag_order_def identity_of_def)
  qed
  then show "distinct (map (flag_order \<circ> ranked_flag) ?P)"
    unfolding P map_concat map_map by (simp add: o_def)
qed

theorem cockpit_is_the_flagged_queue_witness:
  "\<not> (\<exists>a \<in> set (portfolio_attention_from_snapshots example_projection example_composition example_thresholds).
     flag_target (ranked_flag a) = AttentionTarget.Issue ''i0'' \<and> flag_reason (ranked_flag a) = IssueRecurrence)"
proof -
  have bound: "length (work_item_facts_from_snapshots example_projection example_composition example_thresholds)
      \<le> usize_MAX"
    by (simp add: work_item_facts_from_snapshots_def Let_def example_projection_def example_composition_def usize_MAX_def)
  have "\<not> (\<exists>f \<in> set (work_item_facts_from_snapshots example_projection example_composition example_thresholds).
      target_of (identity_of f) = AttentionTarget.Issue ''i0'' \<and> is_outstanding f)"
    by (simp add: work_item_facts_from_snapshots_def Let_def example_projection_def example_composition_def
        example_issue_def identity_of_def is_outstanding_def issue_state_intents_def)
  with cockpit_is_the_flagged_queue [OF example_distinct bound, of "AttentionTarget.Issue ''i0''" IssueRecurrence]
  show ?thesis by blast
qed

end
