(* ===== verification/Calendar.thy ===== *)
theory Calendar
  imports Values "HOL-Library.Signed_Division"
begin

text \<open>
  \<^verbatim>\<open>UtcTimestamp::to_rfc3339_utc\<close> and \<^verbatim>\<open>civil_from_days\<close> of \<^verbatim>\<open>time.rs\<close>, against a reference calendar:
  the Gregorian month lengths and the successor of a day. \<^verbatim>\<open>/\<close> on \<^verbatim>\<open>i64\<close> truncates and is \<open>sdiv\<close>;
  \<^verbatim>\<open>rem_euclid\<close> by a positive divisor is \<open>mod\<close>. An addition or subtraction that leaves the \<^verbatim>\<open>i64\<close>
  range panics, which is \<open>None\<close>.
\<close>

section \<open>The code\<close>

definition checked_i64 :: "int \<Rightarrow> int option" where
  "checked_i64 i = (if i64_in_range i then Some i else None)"

text \<open>\<^verbatim>\<open>u32::try_from(x).unwrap_or_default()\<close>\<close>

definition u32_or_default :: "int \<Rightarrow> int" where
  "u32_or_default i = (if 0 \<le> i \<and> i < 2 ^ 32 then i else 0)"

definition civil_of_shifted :: "int \<Rightarrow> int \<Rightarrow> int \<times> int \<times> int" where
  "civil_of_shifted z shifted =
     (let era = shifted sdiv 146097;
          day_of_era = z - era * 146097;
          year_of_era = (day_of_era - day_of_era sdiv 1460 + day_of_era sdiv 36524
            - day_of_era sdiv 146096) sdiv 365;
          year = year_of_era + era * 400;
          day_of_year = day_of_era - (365 * year_of_era + year_of_era sdiv 4 - year_of_era sdiv 100);
          month_prime = (5 * day_of_year + 2) sdiv 153;
          day = u32_or_default (day_of_year - (153 * month_prime + 2) sdiv 5 + 1);
          month = u32_or_default (if month_prime < 10 then month_prime + 3 else month_prime - 9);
          year' = (if month \<le> 2 then year + 1 else year)
      in (year', month, day))"

definition civil_from_days :: "int \<Rightarrow> (int \<times> int \<times> int) option" where
  "civil_from_days days =
     Option.bind (checked_i64 (days + 719468)) (\<lambda>z.
     Option.bind (if z \<ge> 0 then Some z else checked_i64 (z - 146096)) (\<lambda>shifted.
     Some (civil_of_shifted z shifted)))"

fun decimal :: "nat \<Rightarrow> string" where
  "decimal n = (if n < 10 then [char_of (48 + n)] else decimal (n div 10) @ [char_of (48 + n mod 10)])"

declare decimal.simps [simp del]

text \<open>\<^verbatim>\<open>{x:0w}\<close>: zero padding to a width that counts the sign.\<close>

definition padded :: "nat \<Rightarrow> int \<Rightarrow> string" where
  "padded w i =
     (let digits = decimal (nat \<bar>i\<bar>) in
      if i < 0 then CHR ''-'' # replicate (w - 1 - length digits) (CHR ''0'') @ digits
      else replicate (w - length digits) (CHR ''0'') @ digits)"

definition to_rfc3339_utc :: "UtcTimestamp \<Rightarrow> string option" where
  "to_rfc3339_utc t =
     (let millis_of_day = unix_millis t mod 86400000 in
      Option.bind (checked_i64 (unix_millis t - millis_of_day)) (\<lambda>midnight.
      let days = midnight sdiv 86400000 in
      Option.bind (civil_from_days days) (\<lambda>(year, month, day).
      let hour = millis_of_day sdiv 3600000;
          minute = (millis_of_day sdiv 60000) smod 60;
          second = (millis_of_day sdiv 1000) smod 60;
          millis = millis_of_day smod 1000
      in Some (padded 4 year @ ''-'' @ padded 2 month @ ''-'' @ padded 2 day @ ''T'' @
           padded 2 hour @ '':'' @ padded 2 minute @ '':'' @ padded 2 second @ ''.'' @
           padded 3 millis @ ''Z''))))"


section \<open>The reference calendar\<close>

definition leap_year :: "int \<Rightarrow> bool" where
  "leap_year y \<longleftrightarrow> 4 dvd y \<and> (100 dvd y \<longrightarrow> 400 dvd y)"

fun days_in_month :: "int \<Rightarrow> int \<Rightarrow> int" where
  "days_in_month y m =
     (if m = 2 then (if leap_year y then 29 else 28) else if m \<in> {4, 6, 9, 11} then 30 else 31)"

definition valid_date :: "int \<times> int \<times> int \<Rightarrow> bool" where
  "valid_date = (\<lambda>(y, m, d). 1 \<le> m \<and> m \<le> 12 \<and> 1 \<le> d \<and> d \<le> days_in_month y m)"

fun next_day :: "int \<times> int \<times> int \<Rightarrow> int \<times> int \<times> int" where
  "next_day (y, m, d) =
     (if d < days_in_month y m then (y, m, d + 1)
      else if m < 12 then (y, m + 1, 1) else (y + 1, 1, 1))"

section \<open>The code's year and month are the calendar's\<close>

text \<open>Days of an era before the year that starts on its March 1.\<close>

definition before_year :: "int \<Rightarrow> int" where
  "before_year y = 365 * y + y div 4 - y div 100 + y div 400"

definition year_scaled :: "int \<Rightarrow> int" where
  "year_scaled n = n - n div 1460 + n div 36524 - n div 146096"

lemma div_Suc_int:
  assumes "0 < (k :: int)"
  shows "(n + 1) div k = n div k + (if k dvd n + 1 then 1 else 0)"
proof (cases "n mod k + 1 = k")
  case True
  then have n: "n + 1 = k * (n div k + 1) + 0"
    using mult_div_mod_eq [of k n] by (simp only: distrib_left mult_1_right)
  with assms have "(n + 1) div k = n div k + 1" by (intro int_div_pos_eq) simp_all
  moreover have "k dvd n + 1" by (subst n) simp
  ultimately show ?thesis by simp
next
  case False
  have n: "n + 1 = k * (n div k) + (n mod k + 1)"
    using mult_div_mod_eq [of k n] by simp
  have r: "0 \<le> n mod k + 1" "n mod k + 1 < k" "n mod k + 1 \<noteq> 0"
    using assms False pos_mod_bound [of k n] pos_mod_sign [of k n] by linarith+
  have "(n + 1) div k = n div k" using n r(1,2) by (rule int_div_pos_eq)
  moreover have "(n + 1) mod k = n mod k + 1" using n r(1,2) by (rule int_mod_pos_eq)
  then have "\<not> k dvd n + 1" using r(3) by (simp add: dvd_eq_mod_eq_0)
  ultimately show ?thesis by simp
qed

lemma year_scaled_step: "year_scaled n \<le> year_scaled (n + 1)"
proof -
  have "(36524 :: int) dvd n + 1" if "(146096 :: int) dvd n + 1"
    using that by (rule dvd_trans [rotated]) simp
  then show ?thesis by (simp add: year_scaled_def div_Suc_int)
qed

lemma year_scaled_mono:
  assumes "m \<le> n"
  shows "year_scaled m \<le> year_scaled n"
  using assms by (induction n rule: int_ge_induct) (auto intro: order_trans [OF _ year_scaled_step])

lemma year_endpoints:
  "list_all (\<lambda>y. year_scaled (before_year y) div 365 = y \<and>
     year_scaled (before_year (y + 1) - 1) div 365 = y) [0..399]"
  by code_simp


lemma year_of_era:
  assumes "0 \<le> y" "y < 400" "before_year y \<le> n" "n < before_year (y + 1)"
  shows "year_scaled n div 365 = y"
proof -
  have y: "y \<in> set [0..399]" unfolding set_upto atLeastAtMost_iff using assms(1,2) by linarith
  note ends = bspec [OF year_endpoints [unfolded list_all_iff] y, THEN conjunct1]
    bspec [OF year_endpoints [unfolded list_all_iff] y, THEN conjunct2]
  have "year_scaled (before_year y) div 365 \<le> year_scaled n div 365"
    using assms(3) by (intro zdiv_mono1 year_scaled_mono) simp_all
  moreover have "year_scaled n div 365 \<le> year_scaled (before_year (y + 1) - 1) div 365"
    using assms(4) by (intro zdiv_mono1 year_scaled_mono) simp_all
  ultimately show ?thesis using ends by simp
qed

lemma leap_count:
  fixes y p q r :: int
  assumes "b \<Longrightarrow> a" "c \<Longrightarrow> b"
  shows "365 * (y + 1) + (p + (if a then 1 else 0)) - (q + (if b then 1 else 0)) + (r + (if c then 1 else 0)) =
    365 * y + p - q + r + 365 + (if a \<and> (b \<longrightarrow> c) then 1 else 0)"
  using assms by (cases a; cases b; cases c) simp_all

lemma before_year_step: "before_year (y + 1) = before_year y + 365 + (if leap_year (y + 1) then 1 else 0)"
proof -
  have "(4 :: int) dvd y + 1" if "(100 :: int) dvd y + 1" using that by (rule dvd_trans [rotated]) simp
  moreover have "(100 :: int) dvd y + 1" if "(400 :: int) dvd y + 1" using that by (rule dvd_trans [rotated]) simp
  moreover have steps: "(y + 1) div 4 = y div 4 + (if 4 dvd y + 1 then 1 else 0)"
    "(y + 1) div 100 = y div 100 + (if 100 dvd y + 1 then 1 else 0)"
    "(y + 1) div 400 = y div 400 + (if 400 dvd y + 1 then 1 else 0)"
    by (rule div_Suc_int, simp)+
  ultimately show ?thesis unfolding before_year_def leap_year_def steps by (intro leap_count) blast+
qed

lemma year_exists:
  assumes "0 \<le> k" "0 \<le> n" "n < before_year k"
  shows "\<exists>y. 0 \<le> y \<and> y < k \<and> before_year y \<le> n \<and> n < before_year (y + 1)"
  using assms
proof (induction k rule: int_ge_induct)
  case base
  then show ?case by (simp add: before_year_def)
next
  case (step k)
  show ?case
  proof (cases "n < before_year k")
    case True
    with step.IH step.prems(1) obtain y where
      "0 \<le> y" "y < k" "before_year y \<le> n" "n < before_year (y + 1)" by blast
    then show ?thesis by (intro exI [of _ y]) simp
  next
    case False
    with step show ?thesis by (intro exI [of _ k]) simp
  qed
qed

text \<open>Month and day of a day of the year that starts on March 1.\<close>

definition month_day :: "int \<Rightarrow> int \<times> int" where
  "month_day doy =
     (let mp = (5 * doy + 2) div 153 in
      (if mp < 10 then mp + 3 else mp - 9, doy - (153 * mp + 2) div 5 + 1))"

definition date_at :: "int \<Rightarrow> int \<Rightarrow> int \<times> int \<times> int" where
  "date_at y doy = (case month_day doy of (m, d) \<Rightarrow> (if m \<le> 2 then y + 1 else y, m, d))"

lemma month_day_table:
  "list_all (\<lambda>doy. case month_day doy of (m, d) \<Rightarrow>
      1 \<le> m \<and> m \<le> 12 \<and> 1 \<le> d \<and>
      (if m = 2 then d = doy - 336 else d \<le> days_in_month 0 m)) [0..365]"
  "list_all (\<lambda>doy. case (month_day doy, month_day (doy + 1)) of ((m, d), (m', d')) \<Rightarrow>
      if m = 2 \<or> d < days_in_month 0 m then m' = m \<and> d' = d + 1
      else d' = 1 \<and> m' = (if m < 12 then m + 1 else 1)) [0..364]"
  by code_simp+


lemma date_at_valid:
  assumes "0 \<le> doy" "doy < 365 + (if leap_year (y + 1) then 1 else 0)"
  shows "valid_date (date_at y doy)"
proof -
  have "doy \<in> set [0..365]" unfolding set_upto atLeastAtMost_iff using assms by (simp split: if_splits)
  note table = bspec [OF month_day_table(1) [unfolded list_all_iff] this]
  obtain m d where md: "month_day doy = (m, d)" by (cases "month_day doy")
  from table md assms(2) show ?thesis
    by (auto simp: date_at_def valid_date_def split: if_splits)
qed

lemma date_at_next:
  assumes "0 \<le> doy" "doy + 1 < 365 + (if leap_year (y + 1) then 1 else 0)"
  shows "date_at y (doy + 1) = next_day (date_at y doy)"
proof -
  have "doy \<in> set [0..364]" "doy \<in> set [0..365]" unfolding set_upto atLeastAtMost_iff
    using assms by (simp_all split: if_splits)
  note table = bspec [OF month_day_table(2) [unfolded list_all_iff] this(1)]
    bspec [OF month_day_table(1) [unfolded list_all_iff] this(2)]
  obtain m d m' d' where md: "month_day doy = (m, d)" "month_day (doy + 1) = (m', d')"
    by (cases "month_day doy"; cases "month_day (doy + 1)")
  from table md assms(2) show ?thesis
    by (auto simp: date_at_def split: if_splits)
qed

lemma date_at_new_year:
  "next_day (date_at y (365 + (if leap_year (y + 1) then 1 else 0) - 1)) = date_at (y + 1) 0"
  by (simp add: date_at_def month_day_def)

section \<open>The code against the calendar\<close>

definition civil_date :: "int \<Rightarrow> int \<times> int \<times> int" where
  "civil_date z =
     (let n = z mod 146097; yoe = year_scaled n div 365 in
      date_at (yoe + z div 146097 * 400) (n - before_year yoe))"

lemma sdiv_nonneg: "0 \<le> a \<Longrightarrow> 0 < (k :: int) \<Longrightarrow> a sdiv k = a div k"
  by (simp add: signed_divide_int_def sgn_if)

lemma sdiv_floor:
  assumes "z < 0" "0 < (k :: int)"
  shows "(z - (k - 1)) sdiv k = z div k"
proof -
  have "(k - 1 - z) div k = - (z div k)"
  proof (rule int_div_pos_eq)
    show "k - 1 - z = k * (- (z div k)) + (k - 1 - z mod k)" unfolding mult_minus_right using mult_div_mod_eq [of k z] by linarith
    show "0 \<le> k - 1 - z mod k" "k - 1 - z mod k < k"
      using assms pos_mod_bound [of k z] pos_mod_sign [of k z] by linarith+
  qed
  with assms show ?thesis by (simp add: signed_divide_int_def sgn_if abs_if)
qed

lemma era_split:
  assumes "0 \<le> n" "n < 146097"
  obtains y where "0 \<le> y" "y < 400" "before_year y \<le> n" "n < before_year (y + 1)"
    "year_scaled n div 365 = y" "before_year y = 365 * y + y div 4 - y div 100"
proof -
  have "n < before_year 400" using assms by (simp add: before_year_def)
  then obtain y where y: "0 \<le> y" "y < 400" "before_year y \<le> n" "n < before_year (y + 1)"
    using year_exists [of 400 n] assms by auto
  then have "y div 400 = 0" by (intro div_pos_pos_trivial)
  with y that [OF y year_of_era [OF y]] show thesis by (simp add: before_year_def)
qed


lemma u32_or_default_small [simp]: "0 \<le> i \<Longrightarrow> i < 2 ^ 32 \<Longrightarrow> u32_or_default i = i"
  by (simp add: u32_or_default_def)

lemma era_of_day:
  assumes "0 \<le> n" "n < 146097" "0 \<le> y" "y < 400" "before_year y \<le> n" "n < before_year (y + 1)"
    "before_year y = 365 * y + y div 4 - y div 100" "year_scaled n div 365 = y"
  shows "(n - n sdiv 1460 + n sdiv 36524 - n sdiv 146096) sdiv 365 = y"
    and "n - (365 * y + y sdiv 4 - y sdiv 100) = n - before_year y"
    and "0 \<le> n - before_year y" and "n - before_year y \<le> 365"
proof -
  have "0 \<le> year_scaled n"
    using year_scaled_mono [of 0 n] assms(1) by (simp add: year_scaled_def)
  with assms(1,8) show "(n - n sdiv 1460 + n sdiv 36524 - n sdiv 146096) sdiv 365 = y"
    by (simp add: sdiv_nonneg year_scaled_def)
  show "n - (365 * y + y sdiv 4 - y sdiv 100) = n - before_year y"
    using assms(3,7) by (simp add: sdiv_nonneg)
  show "0 \<le> n - before_year y" using assms(5) by simp
  show "n - before_year y \<le> 365" using assms(6) unfolding before_year_step by (simp split: if_splits)
qed

lemma civil_of_shifted_date:
  assumes "shifted = (if 0 \<le> z then z else z - 146096)"
  shows "civil_of_shifted z shifted = civil_date z"
proof -
  let ?n = "z mod 146097" and ?e = "z div 146097"
  have n: "0 \<le> ?n" "?n < 146097" by simp_all
  from era_split [OF this] obtain y where y: "0 \<le> y" "y < 400" "before_year y \<le> ?n"
    "?n < before_year (y + 1)" "year_scaled ?n div 365 = y" "before_year y = 365 * y + y div 4 - y div 100" .
  have era: "shifted sdiv 146097 = ?e"
    using assms sdiv_nonneg [of z 146097] sdiv_floor [of z 146097] by (cases "0 \<le> z") simp_all
  have doe: "z - ?e * 146097 = ?n" by (simp add: minus_div_mult_eq_mod)
  note day = era_of_day [OF n y(1-4) y(6) y(5)]
  define doy where "doy = ?n - before_year y"
  have doy: "0 \<le> doy" "doy \<le> 365" using day(3,4) by (simp_all add: doy_def)
  have "doy \<in> set [0..365]" unfolding set_upto atLeastAtMost_iff using doy by simp
  note table = bspec [OF month_day_table(1) [unfolded list_all_iff] this]
  define mp where "mp = (5 * doy + 2) div 153"
  have mp: "0 \<le> mp" using doy(1) by (simp add: mp_def)
  define m where "m = (if mp < 10 then mp + 3 else mp - 9)"
  define d where "d = doy - (153 * mp + 2) div 5 + 1"
  have md: "month_day doy = (m, d)"
    unfolding month_day_def mp_def [symmetric] Let_def m_def d_def ..
  from table [unfolded md prod.case] doy(2) have bounds: "1 \<le> m" "m \<le> 12" "1 \<le> d" "d \<le> 31"
    by (auto split: if_splits)
  have sd: "(5 * doy + 2) sdiv 153 = mp" "(153 * mp + 2) sdiv 5 = (153 * mp + 2) div 5"
    using doy(1) mp by (simp_all add: sdiv_nonneg mp_def)
  have u32: "u32_or_default m = m" "u32_or_default d = d" using bounds by simp_all
  have date: "civil_date z = (if m \<le> 2 then y + ?e * 400 + 1 else y + ?e * 400, m, d)"
    unfolding civil_date_def Let_def y(5) doy_def [symmetric] date_at_def md prod.case ..
  show ?thesis
    unfolding civil_of_shifted_def Let_def era doe day(1) day(2) doy_def [symmetric] sd
      m_def [symmetric] d_def [symmetric] u32 date ..
qed

lemma leap_year_era [simp]: "leap_year (y + e * 400) \<longleftrightarrow> leap_year y"
proof -
  have "(4 :: int) dvd e * 400" "(100 :: int) dvd e * 400" "(400 :: int) dvd e * 400"
    by (rule dvd_mult, simp)+
  then show ?thesis by (simp add: leap_year_def dvd_add_left_iff)
qed

lemma before_year_strict: "before_year y < before_year (y + 1)"
  by (simp add: before_year_step)

lemma before_year_mono:
  assumes "a \<le> b"
  shows "before_year a \<le> before_year b"
  using assms by (induction b rule: int_ge_induct) (auto intro: order_trans less_imp_le before_year_strict)

lemma before_year_400: "before_year 400 = 146097"
  by (simp add: before_year_def)

lemma civil_date_at:
  assumes "0 \<le> y" "y < 400" "before_year y \<le> n" "n < before_year (y + 1)"
    and "z div 146097 = e" "z mod 146097 = n"
  shows "civil_date z = date_at (y + e * 400) (n - before_year y)"
  unfolding civil_date_def assms(5,6) Let_def year_of_era [OF assms(1-4)] ..

lemma civil_date_step: "civil_date (z + 1) = next_day (civil_date z)" and civil_date_valid: "valid_date (civil_date z)"
proof -
  let ?n = "z mod 146097" and ?e = "z div 146097"
  have n: "0 \<le> ?n" "?n < 146097" by simp_all
  from era_split [OF this] obtain y where y: "0 \<le> y" "y < 400" "before_year y \<le> ?n"
    "?n < before_year (y + 1)" "year_scaled ?n div 365 = y" .
  note here = civil_date_at [OF y(1-4) refl refl]
  let ?leap = "leap_year (y + ?e * 400 + 1)"
  have leap: "?leap = leap_year (y + 1)"
    using leap_year_era [of "y + 1" ?e] by (simp add: algebra_simps)
  have "?n - before_year y < 365 + (if ?leap then 1 else 0)"
    using y(4) unfolding before_year_step leap by linarith
  with y(3) show "valid_date (civil_date z)" unfolding here by (intro date_at_valid) simp_all
  have last: "?n - before_year y = 365 + (if ?leap then 1 else 0) - 1" if "?n + 1 = before_year (y + 1)"
    using that unfolding before_year_step leap by linarith
  have z: "z + 1 = 146097 * ?e + (?n + 1)" by simp
  show "civil_date (z + 1) = next_day (civil_date z)"
  proof (cases "?n + 1 < before_year (y + 1)")
    case True
    with y have next_n: "0 \<le> ?n + 1" "?n + 1 < 146097" "before_year y \<le> ?n + 1"
      using before_year_mono [of "y + 1" 400] n by (simp_all add: before_year_400)
    have "civil_date (z + 1) = date_at (y + ?e * 400) (?n + 1 - before_year y)"
      using y(1,2) next_n(3) True int_div_pos_eq [OF z next_n(1,2)] int_mod_pos_eq [OF z next_n(1,2)]
      by (rule civil_date_at)
    also have "?n + 1 - before_year y = (?n - before_year y) + 1" by simp
    also have "date_at (y + ?e * 400) (?n - before_year y + 1) = next_day (civil_date z)"
      unfolding here
    proof (rule date_at_next)
      show "0 \<le> ?n - before_year y" using y(3) by simp
      show "?n - before_year y + 1 < 365 + (if ?leap then 1 else 0)"
        using True unfolding before_year_step leap by linarith
    qed
    finally show ?thesis .
  next
    case False
    with y(4) have edge: "?n + 1 = before_year (y + 1)" by simp
    have "civil_date (z + 1) = date_at (y + ?e * 400 + 1) 0"
    proof (cases "y + 1 < 400")
      case True
      have next_n: "0 \<le> ?n + 1" "?n + 1 < 146097"
        using n edge before_year_mono [of "y + 2" 400] before_year_strict [of "y + 1"] True
        by (simp_all add: before_year_400 add.assoc)
      have "civil_date (z + 1) = date_at (y + 1 + ?e * 400) (?n + 1 - before_year (y + 1))"
        using _ True _ _ int_div_pos_eq [OF z next_n] int_mod_pos_eq [OF z next_n]
        by (rule civil_date_at) (use y(1) edge before_year_strict [of "y + 1"] in simp_all)
      also have "y + 1 + ?e * 400 = y + ?e * 400 + 1" by simp
      finally show ?thesis unfolding edge by simp
    next
      case False
      with y(2) have "y = 399" by simp
      with edge have z': "z + 1 = 146097 * (?e + 1) + 0" using z by (simp add: before_year_400 algebra_simps)
      have "civil_date (z + 1) = date_at (0 + (?e + 1) * 400) (0 - before_year 0)"
        by (rule civil_date_at [OF _ _ _ _ int_div_pos_eq [OF z'] int_mod_pos_eq [OF z']])
          (simp_all add: before_year_def)
      with \<open>y = 399\<close> show ?thesis by (simp add: before_year_def algebra_simps)
    qed
    also have "\<dots> = next_day (civil_date z)"
      unfolding here last [OF edge] by (rule date_at_new_year [symmetric])
    finally show ?thesis .
  qed
qed

lemma civil_from_days_date:
  assumes "i64_in_range (d + 719468)" "i64_in_range (d + 719468 - 146096)"
  shows "civil_from_days d = Some (civil_date (d + 719468))"
  using assms civil_of_shifted_date [of _ "d + 719468"]
  by (cases "0 \<le> d + 719468") (simp_all add: civil_from_days_def checked_i64_def)

lemma civil_from_days_epoch: "civil_from_days 0 = Some (1970, 1, 1)"
  by code_simp

lemma civil_date_iterate: "civil_date (z + int n) = (next_day ^^ n) (civil_date z)"
proof (induction n)
  case (Suc n)
  have "civil_date (z + int (Suc n)) = civil_date (z + int n + 1)" by (simp add: algebra_simps)
  with Suc show ?case by (simp add: civil_date_step)
qed simp

section \<open>Reading a rendering back\<close>

definition read_digits :: "string \<Rightarrow> int" where
  "read_digits s = foldl (\<lambda>a c. 10 * a + (int (of_char c) - 48)) 0 s"

lemma read_digits_snoc: "read_digits (s @ [c]) = 10 * read_digits s + (int (of_char c) - 48)"
  by (simp add: read_digits_def)

lemma read_digits_zeros [simp]: "read_digits (replicate k (CHR ''0'') @ s) = read_digits s"
  by (induction k) (simp_all add: read_digits_def)

lemma of_char_digit [simp]: "n < 10 \<Longrightarrow> of_char (char_of (48 + n) :: char) = (48 + n :: nat)"
  by (simp add: of_char_of)

lemma read_decimal [simp]: "read_digits (decimal n) = int n"
proof (induction n rule: decimal.induct)
  case (1 n)
  show ?case
  proof (cases "n < 10")
    case True
    then show ?thesis by (subst decimal.simps) (simp add: read_digits_def)
  next
    case False
    with 1 have "read_digits (decimal (n div 10)) = int (n div 10)" by simp
    moreover have "10 * int (n div 10) + int (n mod 10) = int n"
      by (metis mult_div_mod_eq of_nat_add of_nat_mult of_nat_numeral)
    ultimately show ?thesis using False by (subst decimal.simps) (simp add: read_digits_snoc)
  qed
qed

lemma length_decimal: "n < 10 ^ Suc w \<Longrightarrow> length (decimal n) \<le> Suc w"
proof (induction w arbitrary: n)
  case 0
  then show ?case by (subst decimal.simps) simp
next
  case (Suc w)
  show ?case
  proof (cases "n < 10")
    case False
    have "n div 10 < 10 ^ Suc w" using Suc.prems by (simp add: less_mult_imp_div_less)
    from Suc.IH [OF this] False show ?thesis by (subst decimal.simps) simp
  qed (subst decimal.simps, simp)
qed

lemma padded_fits:
  assumes "0 \<le> i" "i < 10 ^ w" "0 < w"
  shows "length (padded w i) = w" and "read_digits (padded w i) = i"
proof -
  obtain v where w: "w = Suc v" using assms(3) by (cases w) simp_all
  have "nat i < 10 ^ w" using assms by (simp add: nat_less_iff)
  then have "length (decimal (nat i)) \<le> w" unfolding w by (rule length_decimal)
  with assms show "length (padded w i) = w" and "read_digits (padded w i) = i"
    by (simp_all add: padded_def Let_def)
qed

text \<open>The day number of a date, and the instant a rendering denotes.\<close>

definition days_from_civil :: "int \<times> int \<times> int \<Rightarrow> int" where
  "days_from_civil = (\<lambda>(y, m, d).
     let y' = (if m \<le> 2 then y - 1 else y);
         doy = (153 * (if m > 2 then m - 3 else m + 9) + 2) div 5 + d - 1
     in y' div 400 * 146097 + before_year (y' mod 400) + doy - 719468)"

definition rfc3339_millis :: "string \<Rightarrow> int" where
  "rfc3339_millis s =
     days_from_civil (read_digits (take 4 s), read_digits (take 2 (drop 5 s)), read_digits (take 2 (drop 8 s)))
       * 86400000 +
     read_digits (take 2 (drop 11 s)) * 3600000 + read_digits (take 2 (drop 14 s)) * 60000 +
     read_digits (take 2 (drop 17 s)) * 1000 + read_digits (take 3 (drop 20 s))"

lemma day_of_year_table:
  "list_all (\<lambda>doy. case month_day doy of (m, d) \<Rightarrow>
     (153 * (if m > 2 then m - 3 else m + 9) + 2) div 5 + d - 1 = doy) [0..365]"
  by code_simp

lemma days_from_civil_date: "days_from_civil (civil_date z) = z - 719468"
proof -
  let ?n = "z mod 146097" and ?e = "z div 146097"
  have n: "0 \<le> ?n" "?n < 146097" by simp_all
  from era_split [OF this] obtain y where y: "0 \<le> y" "y < 400" "before_year y \<le> ?n"
    "?n < before_year (y + 1)" "year_scaled ?n div 365 = y" .
  define doy where "doy = ?n - before_year y"
  have "doy \<le> 365" using y(4) unfolding before_year_step doy_def by (simp split: if_splits)
  with y(3) have "doy \<in> set [0..365]" unfolding set_upto atLeastAtMost_iff doy_def by simp
  note table = bspec [OF day_of_year_table [unfolded list_all_iff] this]
  obtain m d where md: "month_day doy = (m, d)" by (cases "month_day doy")
  have "(y + ?e * 400) div 400 = ?e" "(y + ?e * 400) mod 400 = y"
    using y(1,2) by simp_all
  with table [unfolded md prod.case] show ?thesis
    unfolding civil_date_at [OF y(1-4) refl refl] doy_def [symmetric] date_at_def md prod.case days_from_civil_def Let_def
    using doy_def by (cases "m \<le> 2") simp_all
qed


section \<open>Properties\<close>

text \<open>
  C35. \<open>civil_from_days\<close> is the Gregorian calendar: day 0 is 1970-01-01, every date is a valid one, and
  the date of \<open>n\<close> days later is the date's \<open>n\<close>-th successor, through month ends, leap days,
  centuries and the years before the epoch, for every day whose shifted value and its negative-era
  correction stay in \<open>i64\<close>.
\<close>

theorem civil_from_days_follows_calendar:
  assumes "i64_in_range (d + 719468 - 146096)" and "i64_in_range (d + 719468 + int n)"
  shows "civil_from_days 0 = Some (1970, 1, 1) \<and>
    (\<exists>c. civil_from_days d = Some c \<and> valid_date c \<and>
       civil_from_days (d + int n) = Some ((next_day ^^ n) c))"
proof -
  have "i64_in_range (d + 719468)" "i64_in_range (d + int n + 719468)" "i64_in_range (d + int n + 719468 - 146096)"
    using assms by (simp_all add: i64_in_range_def)
  then show ?thesis
    using assms civil_date_iterate [of "d + 719468" n]
    by (simp add: civil_from_days_date civil_from_days_epoch civil_date_valid algebra_simps)
qed

theorem civil_from_days_follows_calendar_witness:
  "civil_from_days (0 + int 1) = Some (1970, 1, 2)"
proof -
  have "i64_in_range (0 + 719468 - 146096)" "i64_in_range (0 + 719468 + int 1)"
    by (simp_all add: i64_in_range_def)
  from civil_from_days_follows_calendar [OF this] show ?thesis by auto
qed

lemma sdiv_multiple:
  assumes "0 < (k :: int)"
  shows "(q * k) sdiv k = q"
proof (cases "0 \<le> q")
  case True
  with assms show ?thesis by (simp add: sdiv_nonneg)
next
  case False
  with assms have abs: "sgn (q * k) = - 1" "\<bar>q * k\<bar> = (- q) * k" "k \<noteq> 0" "sgn k = 1" "\<bar>k\<bar> = k"
    by (simp_all add: sgn_mult abs_mult)
  show ?thesis
    unfolding signed_divide_int_def abs(1,2,4,5) nonzero_mult_div_cancel_right [OF abs(3)] by simp
qed

lemma midnight_days: "(unix_millis t - unix_millis t mod 86400000) sdiv 86400000 = unix_millis t div 86400000"
  unfolding minus_mod_eq_div_mult by (rule sdiv_multiple) simp

lemma day_in_range:
  "i64_in_range (unix_millis t div 86400000 + 719468)"
  "i64_in_range (unix_millis t div 86400000 + 719468 - 146096)"
proof -
  let ?q = "unix_millis t div 86400000"
  have "- 9223372036854775808 \<le> unix_millis t" "unix_millis t < 9223372036854775808"
    using unix_millis_in_range [of t] by (simp_all add: i64_in_range_def)
  moreover have "unix_millis t = 86400000 * ?q + unix_millis t mod 86400000" by simp
  moreover have "0 \<le> unix_millis t mod 86400000" "unix_millis t mod 86400000 < 86400000" by simp_all
  ultimately have "- 1000000000000 \<le> ?q" "?q < 1000000000000" by linarith+
  then show "i64_in_range (?q + 719468)" "i64_in_range (?q + 719468 - 146096)"
    by (simp_all add: i64_in_range_def)
qed

definition clock_fields :: "int \<Rightarrow> int \<times> int \<times> int \<times> int" where
  "clock_fields ms = (ms div 3600000, ms div 60000 mod 60, ms div 1000 mod 60, ms mod 1000)"

lemma smod_nonneg: "0 \<le> a \<Longrightarrow> 0 < (k :: int) \<Longrightarrow> a smod k = a mod k"
  by (cases "a = 0") (simp_all add: signed_modulo_int_def)

lemma clock_fields_bounds:
  assumes "0 \<le> ms" "ms < 86400000" "clock_fields ms = (h, mi, sec, l)"
  shows "0 \<le> h" "h < 24" "0 \<le> mi" "mi < 60" "0 \<le> sec" "sec < 60" "0 \<le> l" "l < 1000"
    and "ms = h * 3600000 + mi * 60000 + sec * 1000 + l"
proof -
  have parts: "h = ms div 3600000" "mi = ms div 60000 mod 60" "sec = ms div 1000 mod 60" "l = ms mod 1000"
    using assms(3) by (auto simp: clock_fields_def)
  show "0 \<le> h" "h < 24" "0 \<le> mi" "mi < 60" "0 \<le> sec" "sec < 60" "0 \<le> l" "l < 1000"
    using assms(1,2) unfolding parts by simp_all
  have "ms div 3600000 = ms div 60000 div 60" "ms div 60000 = ms div 1000 div 60"
    by (simp_all add: zdiv_zmult2_eq [symmetric])
  then show "ms = h * 3600000 + mi * 60000 + sec * 1000 + l"
    unfolding parts
    using mult_div_mod_eq [of 60 "ms div 60000"] mult_div_mod_eq [of 60 "ms div 1000"] mult_div_mod_eq [of 1000 ms]
    by linarith
qed

lemma to_rfc3339_utc_fields:
  "to_rfc3339_utc t =
     (if i64_in_range (unix_millis t - unix_millis t mod 86400000)
      then case (civil_date (unix_millis t div 86400000 + 719468), clock_fields (unix_millis t mod 86400000)) of
        ((year, month, day), (h, mi, sec, l)) \<Rightarrow>
          Some (padded 4 year @ ''-'' @ padded 2 month @ ''-'' @ padded 2 day @ ''T'' @
            padded 2 h @ '':'' @ padded 2 mi @ '':'' @ padded 2 sec @ ''.'' @ padded 3 l @ ''Z'')
      else None)"
proof -
  have "0 \<le> unix_millis t mod 86400000" by simp
  then show ?thesis
    unfolding to_rfc3339_utc_def Let_def checked_i64_def clock_fields_def
    by (cases "civil_date (unix_millis t div 86400000 + 719468)")
      (simp add: midnight_days civil_from_days_date [OF day_in_range] sdiv_nonneg smod_nonneg
        pos_imp_zdiv_nonneg_iff)
qed

text \<open>
  C37. Rendering an instant never fails but on the first, partial day of the \<open>i64\<close> range: there the
  midnight of the day is not representable and the subtraction overflows.
\<close>

theorem to_rfc3339_utc_overflows_only_at_start:
  "to_rfc3339_utc t = None \<longleftrightarrow> unix_millis t - unix_millis t mod 86400000 < - (2 ^ 63)"
proof -
  have "unix_millis t - unix_millis t mod 86400000 < 2 ^ 63"
  proof -
    have "unix_millis t < 2 ^ 63" using unix_millis_in_range [of t] by (simp add: i64_in_range_def)
    moreover have "0 \<le> unix_millis t mod 86400000" by simp
    ultimately show ?thesis by linarith
  qed
  then show ?thesis
    unfolding to_rfc3339_utc_fields by (auto simp: i64_in_range_def split: prod.splits)
qed

text \<open>
  C36. The rendering denotes the instant: for every instant of the years 0 to 9999 the text has 24
  characters, and reading year, month, day, hour, minute, second and milliseconds at their fixed
  columns gives the instant back, so distinct instants have distinct texts.
\<close>

theorem to_rfc3339_utc_round_trip:
  assumes "to_rfc3339_utc t = Some s"
    and "civil_from_days (unix_millis t div 86400000) = Some (year, month, day)"
    and "0 \<le> year" "year \<le> 9999"
  shows "length s = 24 \<and> rfc3339_millis s = unix_millis t"
proof -
  let ?z = "unix_millis t div 86400000 + 719468" and ?ms = "unix_millis t mod 86400000"
  obtain h mi sec l where clock: "clock_fields ?ms = (h, mi, sec, l)" by (cases "clock_fields ?ms")
  have date: "civil_date ?z = (year, month, day)"
    using assms(2) by (simp add: civil_from_days_date [OF day_in_range])
  have md: "1 \<le> month" "month < 100" "1 \<le> day" "day < 100"
    using civil_date_valid [of ?z] unfolding date by (auto simp: valid_date_def split: if_splits)
  have s: "s = padded 4 year @ ''-'' @ padded 2 month @ ''-'' @ padded 2 day @ ''T'' @
      padded 2 h @ '':'' @ padded 2 mi @ '':'' @ padded 2 sec @ ''.'' @ padded 3 l @ ''Z''"
    using assms(1) unfolding to_rfc3339_utc_fields date clock by (simp split: if_splits)
  have "0 \<le> ?ms" "?ms < 86400000" by simp_all
  note c = clock_fields_bounds [OF this clock]
  have y4: "length (padded 4 year) = 4" "read_digits (padded 4 year) = year"
    using assms(3,4) by (simp_all add: padded_fits)
  have two: "length (padded 2 i) = 2 \<and> read_digits (padded 2 i) = i" if "0 \<le> i" "i < 100" for i
    using that by (simp add: padded_fits)
  have l3: "length (padded 3 l) = 3" "read_digits (padded 3 l) = l"
    using c by (simp_all add: padded_fits)
  note fields = two [of month] two [of day] two [of h] two [of mi] two [of sec]
  have "length s = 24" unfolding s using y4 l3 fields md c by simp
  moreover have "rfc3339_millis s =
      days_from_civil (year, month, day) * 86400000 + h * 3600000 + mi * 60000 + sec * 1000 + l"
    unfolding rfc3339_millis_def s using y4 l3 fields md c by simp
  moreover have "\<dots> = unix_millis t"
    using days_from_civil_date [of ?z] c(9) div_mult_mod_eq [of "unix_millis t" 86400000]
    unfolding date by linarith
  ultimately show ?thesis by simp
qed

theorem to_rfc3339_utc_round_trip_witness:
  "rfc3339_millis (the (to_rfc3339_utc (from_unix_millis 1709164800123))) = 1709164800123"
proof -
  have s: "to_rfc3339_utc (from_unix_millis 1709164800123) = Some ''2024-02-29T00:00:00.123Z''" by code_simp
  have t: "unix_millis (from_unix_millis 1709164800123) = 1709164800123" by (simp add: i64_in_range_def)
  have "civil_from_days (unix_millis (from_unix_millis 1709164800123) div 86400000) = Some (2024, 2, 29)"
    unfolding t by code_simp
  from to_rfc3339_utc_round_trip [OF s this] show ?thesis unfolding s t by simp
qed

end
