(* ===== verification/Spec2Isabelle.thy ===== *)
theory Spec2Isabelle
  imports Issue_Refusals Risk_Properties Work_Runtime_Restart Portfolio_Restart Portfolio_Lowered Work_Queue_Adapter Calendar
begin

text \<open>
  Product Leader Cockpit: the governed work-management core of the domain crate
  (\<^verbatim>\<open>crates/pmc-domain/src\<close>) and the read models built over it, as a shallow embedding.

  The program keeps Issues, Risks, Actions and Decisions of a product organisation. A change that
  matters (resolving or closing an Issue, recording that a Risk occurred, lowering a classification) is
  \<^emph>\<open>governed\<close>: a command first prepares an immutable preview with a payload digest and a five-minute
  expiry, the Head of Products then approves exactly that digest, and the service re-reads Evidence,
  classification and policy before it executes. Every command carries an idempotency identity and
  leaves an audit. From snapshots of the records the program derives the facts that need attention,
  ranks them, and composes the Work Queue and the Cockpit's exception list.

  \<^bold>\<open>Theories and what they model\<close>

  \<^item> \<^theory_text>\<open>Prelude\<close>: results (\<open>error + 'a\<close>), hash maps as association lists, big-endian bytes, the prefix
    codes behind digests, the locale of monotone state machines.
  \<^item> \<^theory_text>\<open>Values\<close>, \<^theory_text>\<open>Calendar\<close>: \<^verbatim>\<open>value.rs\<close>, \<^verbatim>\<open>identity.rs\<close>, \<^verbatim>\<open>time.rs\<close>, \<^verbatim>\<open>provenance.rs\<close>; strings are UTF-8
    byte lists, versions and timestamps are machine words. \<^theory_text>\<open>Calendar\<close> compares the date arithmetic of
    \<^verbatim>\<open>time.rs\<close> with the proleptic Gregorian calendar defined by successor dates.
  \<^item> \<^theory_text>\<open>Classification\<close>, \<^theory_text>\<open>Classification_Governance\<close>: \<^verbatim>\<open>classification.rs\<close>,
    \<^verbatim>\<open>classification_governance.rs\<close>; the authority port is a record of functions.
  \<^item> \<^theory_text>\<open>Errors\<close>, \<^theory_text>\<open>Audit_Log\<close>: \<^verbatim>\<open>error.rs\<close>, \<^verbatim>\<open>audit.rs\<close>.
  \<^item> \<^theory_text>\<open>Work_Management\<close>, \<^theory_text>\<open>State_Intents\<close>: the states, Evidence and support gates of
    \<^verbatim>\<open>work_management.rs\<close>, and the tables of \<^verbatim>\<open>state_intents.rs\<close>.
  \<^item> \<^theory_text>\<open>H2a_Operation\<close>, \<^theory_text>\<open>H2a_Digest\<close>, \<^theory_text>\<open>H2a_Intent\<close>: the 23 governed operations, the message that is
    hashed for the payload digest, preparation and approval, from \<^verbatim>\<open>work_management.rs\<close>. SHA-256 is a
    parameter; only the digest's injectivity up to a collision of that parameter is claimed.
  \<^item> \<^theory_text>\<open>Service\<close>: the state-and-error monad the services are written in, with its frame rules.
  \<^item> \<^theory_text>\<open>Issue_Record\<close>, \<^theory_text>\<open>Issue_Service\<close>: \<^verbatim>\<open>issues.rs\<close>, every method of \<^verbatim>\<open>InMemoryIssueService\<close> with its
    ports (clock, identifiers, policy, Evidence, classification, authorization) as functions of a
    world that the environment may replace between commands.
  \<^item> \<^theory_text>\<open>Issue_Events\<close>, \<^theory_text>\<open>Issue_Refinement\<close>, \<^theory_text>\<open>Issue_Properties\<close>, \<^theory_text>\<open>Issue_Refusals\<close>: the abstract
    specification (seven events), the invariant, the refinement of every command, the properties that
    follow, and what refused commands report and leave alone.
  \<^item> \<^theory_text>\<open>Risk_Record\<close>, \<^theory_text>\<open>Risk_Service\<close>: \<^verbatim>\<open>risks.rs\<close>, the same for \<^verbatim>\<open>InMemoryRiskService\<close>, which shares the
    Issue store with the Issue service: the store is a field of the Risk service's state that the
    environment command may replace.
  \<^item> \<^theory_text>\<open>Risk_Events\<close>, \<^theory_text>\<open>Risk_Refinement\<close>, \<^theory_text>\<open>Risk_Restart\<close>, \<^theory_text>\<open>Risk_Properties\<close>, \<^theory_text>\<open>Risk_Example\<close>: the ten
    events of the Risk service, its invariant and history, its restart boundary, its properties, and
    the concrete service their witnesses run on.
  \<^item> \<^theory_text>\<open>Work_Runtime\<close>, \<^theory_text>\<open>Work_Runtime_Properties\<close>, \<^theory_text>\<open>Work_Runtime_Restart\<close>:
    \<^verbatim>\<open>work_management_runtime.rs\<close>, the Risk and Issue services over one shared Issue store, each operation
    forwarded the way \<^verbatim>\<open>WorkManagementRuntimeComposition\<close> does, with its three restarts.
  \<^item> \<^theory_text>\<open>Portfolio_Record\<close>, \<^theory_text>\<open>Portfolio_Service\<close>, \<^theory_text>\<open>Portfolio_Lowering\<close>, \<^theory_text>\<open>Portfolio_Timeline\<close>:
    \<^verbatim>\<open>portfolio.rs\<close>, Portfolios, Products, Roadmaps, KPI definitions and KPI observations, their ordinary
    commands with the classification fan-out, the classification lowerings, and the snapshot with the
    replay of the command history that validates it. The three records of one shape are one record type
    with a \<open>simple_kind\<close>.
  \<^item> \<^theory_text>\<open>Portfolio_Events\<close>, \<^theory_text>\<open>Portfolio_History\<close>, \<^theory_text>\<open>Store_Maps\<close>, \<^theory_text>\<open>Portfolio_Replay\<close>,
    \<^theory_text>\<open>Portfolio_Properties\<close>, \<^theory_text>\<open>Portfolio_Restart\<close>, \<^theory_text>\<open>Portfolio_Lowered\<close>: what each command does to the
    state, the invariant over runs with restarts, the proof that the validator replays every ordinary
    history to the stored state, and the properties.
  \<^item> \<^theory_text>\<open>Attention\<close>, \<^theory_text>\<open>Attention_Ranking\<close>: \<^verbatim>\<open>attention.rs\<close> and the application crate's
    \<^verbatim>\<open>attention_ranking.rs\<close>.
  \<^item> \<^theory_text>\<open>Work_Queue\<close>, \<^theory_text>\<open>Work_Queue_Adapter\<close>: \<^verbatim>\<open>work_queue_composition.rs\<close> with the envelope of
    \<^verbatim>\<open>route_composition.rs\<close>, and \<^verbatim>\<open>work_queue_adapter.rs\<close> over the collections of
    \<^verbatim>\<open>composition_source.rs\<close> and \<^verbatim>\<open>projection_source.rs\<close> that it reads.

  \<^bold>\<open>What the lemmas show\<close>

  Refinement: every command of the two services is one of the events of its specification; the
  invariants and histories are proved over events and carried to runs by \<open>monotone_system\<close>. Safety: a
  transition, an occurrence, a closure and a lowering rest on a stored, unexpired, acknowledged preview
  of the current version; previews execute once; retries of creations, generic approvals, lowerings
  and rejections return the recorded outcome, while the approval methods named after an operation
  refuse theirs; a rejected preview is never executed; Issues, recorded outcomes, previews and audits of
  the Issue service agree; occurrences are atomic across the Risk, the Issue and the link. Errors: refused commands change nothing but the
  audit log, a policy denial of a Risk execution is terminal. Restart: snapshots are accepted exactly
  when they are consistent, rehydration is lossless, and three ways are shown in which accepted
  commands lead to states that cannot be restarted. Equivalence: the payload digest determines the
  preview, list orders do not matter where they are said not to, the ranking and the
  queue are the accepted policy as it is written out over the records themselves, the queue's facts
  are the records of the snapshots one by one, the exception list is the flagged queue, the calendar
  is Gregorian. Progress: an Open
  Risk can be closed. Runtime: in every run of the pair of services exactly the Occurred Risks have one
  Issue, and a restart of the pair keeps every lookup. Portfolio: the command history of every ordinary
  run replays to the state the service holds, so its snapshots pass their own validation and restarts
  are lossless; observations are never below their definition, ordinary commands never lower, and an
  approved lowering is shown to be outside what the validation accepts.

  \<^bold>\<open>Bounds\<close>

  Versions are 64-bit words and stop at the last one; timestamps are signed 64-bit milliseconds and
  additions are checked where the code checks them. Counts and page positions of the Work Queue are
  natural numbers bounded by \<open>usize_MAX\<close>. No definition needs fuel: every loop of the modelled code is
  structural.

  \<^bold>\<open>Not modelled\<close>

  The Delivery, Action, Decision and relationship aggregates, the Evidence references and execution
  contracts, the Cockpit aggregation and the executive lens of the application crate are not modelled;
  within \<^verbatim>\<open>portfolio.rs\<close> the read model \<^verbatim>\<open>endpoint_snapshots\<close> and the inspect getters are left out. The
  SQLite ledger (its behaviour is in SQL and the database engine), file and archive handling, the
  desktop shell and the user interface, and the rendering of knowledge projections are left out.
\<close>

end
